(* ===== verification/Prelude.thy ===== *)
theory Prelude
  imports Main "HOL-Library.Char_ord" "HOL-Library.List_Lexorder" "HOL-Library.Multiset"
begin

text \<open>
  Shared material of the development.
  \<^item> \<open>bytes\<close>: a Go \<^verbatim>\<open>string\<close> or \<^verbatim>\<open>[]byte\<close>, as the list of its bytes (a HOL \<open>char\<close>
    is eight bits); \<open><\<close> on it is Go's bytewise comparison, by the library's
    lexicographic order on lists and the order of the character codes.
  \<^item> \<open>first_err\<close>: a sequence of Go checks \<^verbatim>\<open>if err := ...; err != nil { return err }\<close>,
    the first failing check being the answer.
  \<^item> association lists for Go maps whose iteration order can be seen, with lookup
    independent of that order.
  \<^item> \<open>sort_by\<close>: \<^verbatim>\<open>sort.Slice\<close> with a comparison, and the interface \<open>total_less\<close> a
    comparison has to satisfy for the result not to depend on the input order.
\<close>

named_theorems go_simps \<open>evaluation rules of the modelled Go library functions\<close>
named_theorems err_simps \<open>outcomes of sequences of checks\<close>

type_synonym bytes = "char list"


section \<open>Sequences of checks\<close>

text \<open>A Go \<^verbatim>\<open>error\<close>: \<open>None\<close> is \<^verbatim>\<open>nil\<close>.\<close>

definition guard_err :: "bool \<Rightarrow> 'e \<Rightarrow> 'e option" where
  "guard_err ok e = (if ok then None else Some e)"

fun first_err :: "'e option list \<Rightarrow> 'e option" where
  "first_err [] = None"
| "first_err (c # cs) = (case c of Some e \<Rightarrow> Some e | None \<Rightarrow> first_err cs)"

lemma guard_err_None [simp]: "guard_err ok e = None \<longleftrightarrow> ok"
  by (simp add: guard_err_def)

lemma guard_err_Some [simp]: "guard_err ok e = Some e' \<longleftrightarrow> \<not> ok \<and> e' = e"
  by (auto simp: guard_err_def)

lemma first_err_None [err_simps]: "first_err cs = None \<longleftrightarrow> (\<forall>c\<in>set cs. c = None)"
  by (induction cs) (auto split: option.splits)

lemma first_err_None_list [simp]: "first_err (c # cs) = None \<longleftrightarrow> c = None \<and> first_err cs = None"
  by (auto split: option.splits)

declare first_err.simps(2) [simp del]

lemma first_err_Cons_None [simp]: "first_err (None # cs) = first_err cs"
  by (simp add: first_err.simps)

lemma first_err_Cons_Some [simp]: "first_err (Some e # cs) = Some e"
  by (simp add: first_err.simps)

lemma first_err_append:
  "first_err (xs @ ys) = (case first_err xs of Some e \<Rightarrow> Some e | None \<Rightarrow> first_err ys)"
  by (induction xs) (auto simp: first_err.simps split: option.splits)

lemma first_err_append_None [simp]:
  "first_err (xs @ ys) = None \<longleftrightarrow> first_err xs = None \<and> first_err ys = None"
  by (auto simp: first_err_append split: option.splits)

lemma first_err_map_None [simp]: "first_err (map f xs) = None \<longleftrightarrow> (\<forall>x\<in>set xs. f x = None)"
  by (simp add: first_err_None)

lemma first_err_mem: "first_err cs = Some e \<Longrightarrow> Some e \<in> set cs"
  by (induction cs) (auto simp: first_err.simps split: option.splits)

text \<open>Whether a check sequence passes does not depend on its order.\<close>

lemma first_err_None_mset:
  "mset xs = mset ys \<Longrightarrow> first_err xs = None \<longleftrightarrow> first_err ys = None"
  by (metis first_err_None mset_eq_setD)

text \<open>Fallible values: \<open>Inl\<close> is the error, \<open>Inr\<close> the value.\<close>

definition bind_res :: "'e + 'a \<Rightarrow> ('a \<Rightarrow> 'e + 'b) \<Rightarrow> 'e + 'b" where
  "bind_res r f = (case r of Inl e \<Rightarrow> Inl e | Inr a \<Rightarrow> f a)"

lemma bind_res_simps [simp]:
  "bind_res (Inl e) f = Inl e"
  "bind_res (Inr a) f = f a"
  by (simp_all add: bind_res_def)

lemma map_sum_Inr [err_simps]: "map_sum f id r = Inr a \<longleftrightarrow> r = Inr a"
  by (cases r) simp_all

lemma bind_res_Inr [err_simps]:
  "bind_res r f = Inr b \<longleftrightarrow> (\<exists>a. r = Inr a \<and> f a = Inr b)"
  by (cases r) auto

lemma case_err_Inr:
  "(case r of Inl e \<Rightarrow> Inl (f e) | Inr a \<Rightarrow> g a) = Inr b \<longleftrightarrow> (\<exists>a. r = Inr a \<and> g a = Inr b)"
  by (cases r) auto

lemma case_none_Inr:
  "(case x of None \<Rightarrow> Inl e | Some a \<Rightarrow> g a) = Inr b \<longleftrightarrow> (\<exists>a. x = Some a \<and> g a = Inr b)"
  by (cases x) auto

lemma if_err_Inr:
  "(if b then Inl e else r) = Inr a \<longleftrightarrow> \<not> b \<and> r = Inr a"
  by simp

lemmas guarded_Inr = bind_res_Inr case_err_Inr case_none_Inr if_err_Inr

lemma bind_res_cong [fundef_cong]:
  "r = r' \<Longrightarrow> (\<And>a. r' = Inr a \<Longrightarrow> f a = g a) \<Longrightarrow> bind_res r f = bind_res r' g"
  by (cases r') auto

definition check_then :: "'e option \<Rightarrow> 'e + 'a \<Rightarrow> 'e + 'a" where
  "check_then c r = (case c of Some e \<Rightarrow> Inl e | None \<Rightarrow> r)"

lemma check_then_simps [simp]:
  "check_then (Some e) r = Inl e"
  "check_then None r = r"
  by (simp_all add: check_then_def)

lemma check_then_Inr [err_simps]: "check_then c r = Inr a \<longleftrightarrow> c = None \<and> r = Inr a"
  by (cases c) auto

fun map_res :: "('a \<Rightarrow> 'e + 'b) \<Rightarrow> 'a list \<Rightarrow> 'e + 'b list" where
  "map_res f [] = Inr []"
| "map_res f (x # xs) =
     bind_res (f x) (\<lambda>y. bind_res (map_res f xs) (\<lambda>ys. Inr (y # ys)))"

lemma map_res_Inr: "map_res f xs = Inr ys \<longleftrightarrow> list_all2 (\<lambda>x y. f x = Inr y) xs ys"
proof (induction xs arbitrary: ys)
  case (Cons x xs)
  then show ?case by (cases ys) (auto simp: err_simps)
qed auto


section \<open>Association lists\<close>

text \<open>
  A Go map is iterated in an arbitrary order: the list is one such order, its keys are
  distinct, and whatever a function returns must be the same for every other order.
\<close>

abbreviation keys :: "('k \<times> 'v) list \<Rightarrow> 'k list" where
  "keys m \<equiv> map fst m"

definition same_map :: "('k \<times> 'v) list \<Rightarrow> ('k \<times> 'v) list \<Rightarrow> bool" where
  "same_map m m' \<longleftrightarrow> distinct (keys m) \<and> mset m = mset m'"

lemma same_map_distinct:
  assumes "same_map m m'"
  shows "distinct (keys m')"
proof -
  have "mset (keys m) = mset (keys m')"
    using assms by (simp add: same_map_def)
  then show ?thesis
    using assms by (metis same_map_def mset_eq_imp_distinct_iff)
qed

lemma same_map_map_of: "same_map m m' \<Longrightarrow> map_of m = map_of m'"
  using same_map_distinct [of m m']
  by (auto simp: same_map_def dest!: mset_eq_setD intro: map_of_inject_set [THEN iffD2])

lemma same_map_set: "same_map m m' \<Longrightarrow> set m = set m'"
  by (auto simp: same_map_def dest: mset_eq_setD)

lemma same_map_sym: "same_map m m' \<Longrightarrow> same_map m' m"
  using same_map_distinct by (auto simp: same_map_def)

text \<open>Appending a value to the list of values of a key, as the compilers' grouping loops do.\<close>

definition push_at :: "'k \<Rightarrow> 'v \<Rightarrow> ('k \<Rightarrow> 'v list) \<Rightarrow> 'k \<Rightarrow> 'v list" where
  "push_at k v g = g(k := g k @ [v])"

fun group_all :: "('v \<Rightarrow> 'k) \<Rightarrow> 'v list \<Rightarrow> 'k \<Rightarrow> 'v list" where
  "group_all key [] = (\<lambda>_. [])"
| "group_all key (v # vs) = (\<lambda>k. (if key v = k then [v] else []) @ group_all key vs k)"

lemma group_all_filter: "group_all key vs k = filter (\<lambda>v. key v = k) vs"
  by (induction vs) auto

lemma foldl_push_at:
  "foldl (\<lambda>g v. push_at (key v) v g) g vs k = g k @ group_all key vs k"
  by (induction vs arbitrary: g) (auto simp: push_at_def)


section \<open>Sorting with a comparison\<close>

fun insert_by :: "('a \<Rightarrow> 'a \<Rightarrow> bool) \<Rightarrow> 'a \<Rightarrow> 'a list \<Rightarrow> 'a list" where
  "insert_by lt x [] = [x]"
| "insert_by lt x (y # ys) = (if lt y x then y # insert_by lt x ys else x # y # ys)"

fun sort_by :: "('a \<Rightarrow> 'a \<Rightarrow> bool) \<Rightarrow> 'a list \<Rightarrow> 'a list" where
  "sort_by lt [] = []"
| "sort_by lt (x # xs) = insert_by lt x (sort_by lt xs)"

lemma mset_insert_by [simp]: "mset (insert_by lt x ys) = add_mset x (mset ys)"
  by (induction ys) auto

lemma mset_sort_by [simp]: "mset (sort_by lt xs) = mset xs"
  by (induction xs) auto

lemma set_sort_by [simp]: "set (sort_by lt xs) = set xs"
  by (rule mset_eq_setD) simp

lemma length_sort_by [simp]: "length (sort_by lt xs) = length xs"
  by (rule mset_eq_length) simp

lemma distinct_sort_by [simp]: "distinct (sort_by lt xs) \<longleftrightarrow> distinct xs"
  by (rule mset_eq_imp_distinct_iff) simp

lemma sort_by_Nil [simp]: "sort_by lt xs = [] \<longleftrightarrow> xs = []"
  using length_sort_by [of lt xs] by (simp del: length_sort_by flip: length_0_conv)

text \<open>
  The contract of a comparison passed to \<^verbatim>\<open>sort.Slice\<close>: a strict total order on the
  elements it is used on. Under it the sorted list is determined by the multiset of
  elements, so neither a map's iteration order nor the instability of \<^verbatim>\<open>sort.Slice\<close>
  can be seen.
\<close>

locale total_less =
  fixes lt :: "'a \<Rightarrow> 'a \<Rightarrow> bool"
    and dom :: "'a \<Rightarrow> bool"
  assumes irrefl: "dom x \<Longrightarrow> \<not> lt x x"
    and trans: "dom x \<Longrightarrow> dom y \<Longrightarrow> dom z \<Longrightarrow> lt x y \<Longrightarrow> lt y z \<Longrightarrow> lt x z"
    and total: "dom x \<Longrightarrow> dom y \<Longrightarrow> x \<noteq> y \<Longrightarrow> lt x y \<or> lt y x"
begin

definition weak :: "'a \<Rightarrow> 'a \<Rightarrow> bool" where
  "weak x y \<longleftrightarrow> x = y \<or> lt x y"

lemma weak_antisym: "dom x \<Longrightarrow> dom y \<Longrightarrow> weak x y \<Longrightarrow> weak y x \<Longrightarrow> x = y"
  unfolding weak_def using irrefl [of x] trans [of x y x] by blast

lemma weak_trans: "dom x \<Longrightarrow> dom y \<Longrightarrow> dom z \<Longrightarrow> weak x y \<Longrightarrow> weak y z \<Longrightarrow> weak x z"
  unfolding weak_def using trans [of x y z] by blast

lemma not_less_weak: "dom x \<Longrightarrow> dom y \<Longrightarrow> \<not> lt y x \<Longrightarrow> weak x y"
  unfolding weak_def using total [of x y] by blast

lemma insert_by_sorted:
  "\<lbrakk>dom x; \<forall>y\<in>set ys. dom y; sorted_wrt weak ys\<rbrakk> \<Longrightarrow> sorted_wrt weak (insert_by lt x ys)"
proof (induction ys)
  case (Cons y ys)
  show ?case
  proof (cases "lt y x")
    case True
    have "set (insert_by lt x ys) = insert x (set ys)"
      by (simp flip: set_mset_mset)
    with Cons True show ?thesis
      by (auto simp: weak_def)
  next
    case False
    with Cons.prems have xy: "weak x y" by (auto intro: not_less_weak)
    with Cons.prems False show ?thesis
      by (auto intro: weak_trans [of x y])
  qed
qed auto

lemma sort_by_sorted: "\<forall>x\<in>set xs. dom x \<Longrightarrow> sorted_wrt weak (sort_by lt xs)"
  by (induction xs) (auto intro!: insert_by_sorted)

lemma sorted_weak_unique:
  "\<lbrakk>sorted_wrt weak xs; sorted_wrt weak ys; mset xs = mset ys; \<forall>x\<in>set xs. dom x\<rbrakk> \<Longrightarrow> xs = ys"
proof (induction xs arbitrary: ys)
  case (Cons x xs)
  then obtain y ys' where ys: "ys = y # ys'"
    by (cases ys) auto
  have sets: "set (x # xs) = set ys"
    using Cons.prems(3) by (rule mset_eq_setD)
  have "x = y"
  proof (rule ccontr)
    assume ne: "x \<noteq> y"
    with sets ys have "y \<in> set xs" and "x \<in> set ys'" by auto
    with Cons.prems ys have "weak x y" and "weak y x" and "dom x" and "dom y" by auto
    with ne show False by (blast dest: weak_antisym)
  qed
  with Cons ys show ?case by auto
qed auto

theorem sort_by_cong:
  assumes "mset xs = mset ys" and "\<forall>x\<in>set xs. dom x"
  shows "sort_by lt xs = sort_by lt ys"
proof (rule sorted_weak_unique)
  show "sorted_wrt weak (sort_by lt xs)" using assms(2) by (rule sort_by_sorted)
  have "\<forall>y\<in>set ys. dom y" using assms by (metis mset_eq_setD)
  then show "sorted_wrt weak (sort_by lt ys)" by (rule sort_by_sorted)
qed (use assms in auto)

lemma sorted_weak_strict: "sorted_wrt weak xs \<Longrightarrow> distinct xs \<Longrightarrow> sorted_wrt lt xs"
  by (induction xs) (auto simp: weak_def)

lemma sort_by_strict:
  assumes "distinct xs" and "\<forall>x\<in>set xs. dom x"
  shows "sorted_wrt lt (sort_by lt xs)"
proof -
  have "sorted_wrt weak (sort_by lt xs)" using assms(2) by (rule sort_by_sorted)
  moreover have "distinct (sort_by lt xs)" using assms(1) by simp
  ultimately show ?thesis
    by (rule sorted_weak_strict)
qed

end

text \<open>Strings are sorted by \<^verbatim>\<open>sort.Strings\<close>.\<close>

interpretation bytes_order: total_less "(<) :: bytes \<Rightarrow> bytes \<Rightarrow> bool" "\<lambda>_. True"
  by unfold_locales auto

definition sort_strings :: "bytes list \<Rightarrow> bytes list" where
  "sort_strings = sort_by (<)"


section \<open>Codecs\<close>

text \<open>
  The contract of an encoding: decoding what was encoded gives it back, on the values of
  the carrier. An encoding that satisfies it never maps two of them to one text, and a
  decoder that only accepts texts that encode their result (a canonical one) accepts
  exactly the encodings.
\<close>

locale codec =
  fixes enc :: "'a \<Rightarrow> 'b" and dec :: "'b \<Rightarrow> 'a option" and carrier :: "'a \<Rightarrow> bool"
  assumes dec_enc: "carrier x \<Longrightarrow> dec (enc x) = Some x"
begin

lemma enc_inject: "carrier x \<Longrightarrow> carrier y \<Longrightarrow> enc x = enc y \<longleftrightarrow> x = y"
  by (metis dec_enc option.inject)

end

locale canonical_codec = codec +
  assumes enc_dec: "dec t = Some x \<Longrightarrow> carrier x \<and> enc x = t"
begin

lemma dec_iff: "dec t = Some x \<longleftrightarrow> carrier x \<and> t = enc x"
  using enc_dec [of t x] dec_enc [of x] by auto

lemma dec_None: "dec t = None \<longleftrightarrow> (\<forall>x. carrier x \<longrightarrow> t \<noteq> enc x)"
  using dec_iff [of t] by (metis not_Some_eq)

end

end
