(* ===== verification/GoStrings.thy ===== *)
theory GoStrings
  imports Prelude
begin

text \<open>
  The functions of Go's \<^verbatim>\<open>strings\<close>, \<^verbatim>\<open>strconv\<close> and \<^verbatim>\<open>unicode/utf8\<close> packages the program uses, on
  byte strings, with the round-trip lemmas about UTF-8 and the splitting lemmas the
  components share. A rune is a natural number; \<open>rune_error\<close> is \<^verbatim>\<open>utf8.RuneError\<close>.
\<close>

section \<open>Prefixes, suffixes, searching\<close>

fun has_prefix :: "bytes \<Rightarrow> bytes \<Rightarrow> bool" where
  "has_prefix s [] = True"
| "has_prefix [] (p # ps) = False"
| "has_prefix (c # cs) (p # ps) = (c = p \<and> has_prefix cs ps)"

lemma has_prefix_iff: "has_prefix s p \<longleftrightarrow> (\<exists>t. s = p @ t)"
  by (induction s p rule: has_prefix.induct) auto

lemma has_prefix_append [simp]: "has_prefix (p @ t) p"
  by (auto simp: has_prefix_iff)

lemma has_prefix_self [simp]: "has_prefix p p"
  by (auto simp: has_prefix_iff)

definition trim_prefix :: "bytes \<Rightarrow> bytes \<Rightarrow> bytes" where
  "trim_prefix s p = (if has_prefix s p then drop (length p) s else s)"

lemma trim_prefix_append [simp]: "trim_prefix (p @ t) p = t"
  by (simp add: trim_prefix_def)

definition has_suffix :: "bytes \<Rightarrow> bytes \<Rightarrow> bool" where
  "has_suffix s p \<longleftrightarrow> has_prefix (rev s) (rev p)"

lemma has_suffix_iff: "has_suffix s p \<longleftrightarrow> (\<exists>t. s = t @ p)"
  unfolding has_suffix_def has_prefix_iff by (metis rev_append rev_rev_ident)

fun contains_sub :: "bytes \<Rightarrow> bytes \<Rightarrow> bool" where
  "contains_sub [] p = (p = [])"
| "contains_sub (c # cs) p = (has_prefix (c # cs) p \<or> contains_sub cs p)"

definition contains_byte :: "char \<Rightarrow> bytes \<Rightarrow> bool" where
  "contains_byte c s = List.member s c"

lemma contains_byte_iff [simp]: "contains_byte c s \<longleftrightarrow> c \<in> set s"
  by (simp add: contains_byte_def)

text \<open>\<^verbatim>\<open>strings.Split(s, sep)\<close> for a one-byte separator: never the empty list.\<close>

fun split_on :: "char \<Rightarrow> bytes \<Rightarrow> bytes list" where
  "split_on sep [] = [[]]"
| "split_on sep (c # cs) =
     (if c = sep then [] # split_on sep cs
      else (case split_on sep cs of [] \<Rightarrow> [[c]] | t # ts \<Rightarrow> (c # t) # ts))"

fun join_with :: "bytes \<Rightarrow> bytes list \<Rightarrow> bytes" where
  "join_with sep [] = []"
| "join_with sep [t] = t"
| "join_with sep (t # u # ts) = t @ sep @ join_with sep (u # ts)"

lemma split_on_nonempty [simp]: "split_on sep s \<noteq> []"
  by (induction s) (auto split: list.splits)

lemma split_on_no_sep: "sep \<notin> set s \<Longrightarrow> split_on sep s = [s]"
  by (induction s) auto

lemma split_on_append_sep:
  "sep \<notin> set s \<Longrightarrow> split_on sep (s @ sep # t) = s # split_on sep t"
  by (induction s) auto

lemma join_split: "join_with [sep] (split_on sep s) = s"
proof (induction s)
  case (Cons c s)
  then show ?case
    by (cases "split_on sep s"; cases "tl (split_on sep s)") auto
qed simp

lemma split_on_parts: "t \<in> set (split_on sep s) \<Longrightarrow> sep \<notin> set t"
  by (induction s arbitrary: t) (auto split: if_splits list.splits)

lemma split_on_mem: "t \<in> set (split_on sep s) \<Longrightarrow> c \<in> set t \<Longrightarrow> c \<in> set s"
proof (induction s arbitrary: t)
  case (Cons a s)
  show ?case
  proof (cases "split_on sep s")
    case (Cons u us)
    have IH: "x \<in> set (split_on sep s) \<Longrightarrow> c \<in> set x \<Longrightarrow> c \<in> set s" for x
      by (rule Cons.IH)
    show ?thesis
      using Cons.prems IH [of u] IH [of t] Cons by (auto split: if_splits)
  qed (simp add: split_on_nonempty)
qed simp

text \<open>\<^verbatim>\<open>strings.Cut(s, sep)\<close>, the part before the first separator.\<close>

fun cut_before :: "char \<Rightarrow> bytes \<Rightarrow> bytes" where
  "cut_before sep [] = []"
| "cut_before sep (c # cs) = (if c = sep then [] else c # cut_before sep cs)"

lemma cut_before_takeWhile: "cut_before sep s = takeWhile (\<lambda>c. c \<noteq> sep) s"
  by (induction s) auto

text \<open>The two parts around the last separator, \<open>None\<close> where \<^verbatim>\<open>strings.LastIndex\<close> is negative.\<close>

fun split_last :: "char \<Rightarrow> bytes \<Rightarrow> (bytes \<times> bytes) option" where
  "split_last sep [] = None"
| "split_last sep (c # cs) =
     (case split_last sep cs of
        Some (a, b) \<Rightarrow> Some (c # a, b)
      | None \<Rightarrow> if c = sep then Some ([], cs) else None)"

lemma split_last_None: "split_last sep s = None \<longleftrightarrow> sep \<notin> set s"
  by (induction s) (auto split: option.splits prod.splits)

lemma split_last_append: "sep \<notin> set k \<Longrightarrow> split_last sep (g @ sep # k) = Some (g, k)"
proof (induction g)
  case Nil
  then have "split_last sep k = None" by (simp add: split_last_None)
  then show ?case by simp
qed auto

text \<open>\<^verbatim>\<open>strings.ReplaceAll\<close> of one byte by a string.\<close>

definition replace_byte :: "char \<Rightarrow> bytes \<Rightarrow> bytes \<Rightarrow> bytes" where
  "replace_byte c r s = concat (map (\<lambda>x. if x = c then r else [x]) s)"

lemma replace_byte_simps [simp]:
  "replace_byte c r [] = []"
  "replace_byte c r (x # xs) = (if x = c then r else [x]) @ replace_byte c r xs"
  by (simp_all add: replace_byte_def)

text \<open>\<^verbatim>\<open>strings.Replace(s, ":", "-", 1)\<close>: the first occurrence only.\<close>

fun replace_first :: "char \<Rightarrow> char \<Rightarrow> bytes \<Rightarrow> bytes" where
  "replace_first c d [] = []"
| "replace_first c d (x # xs) = (if x = c then d # xs else x # replace_first c d xs)"

text \<open>ASCII case mapping, the part of \<^verbatim>\<open>strings.ToLower\<close> and \<^verbatim>\<open>ToUpper\<close> that acts on ASCII text.\<close>

definition byte_lower :: "char \<Rightarrow> char" where
  "byte_lower c = (if CHR ''A'' \<le> c \<and> c \<le> CHR ''Z'' then char_of (of_char c + 32 :: nat) else c)"

definition byte_upper :: "char \<Rightarrow> char" where
  "byte_upper c = (if CHR ''a'' \<le> c \<and> c \<le> CHR ''z'' then char_of (of_char c - 32 :: nat) else c)"

definition to_lower :: "bytes \<Rightarrow> bytes" where "to_lower s = map byte_lower s"
definition to_upper :: "bytes \<Rightarrow> bytes" where "to_upper s = map byte_upper s"

text \<open>\<^verbatim>\<open>strings.Contains\<close>.\<close>

definition contains_text :: "bytes \<Rightarrow> bytes \<Rightarrow> bool" where
  "contains_text s part = list_ex (\<lambda>n. has_prefix (drop n s) part) [0..<Suc (length s)]"

text \<open>\<^verbatim>\<open>%d\<close> of a non-negative integer.\<close>

definition digit_char :: "nat \<Rightarrow> char" where
  "digit_char d = char_of (48 + d)"

fun decimal :: "nat \<Rightarrow> bytes" where
  "decimal n = (if n < 10 then [digit_char n] else decimal (n div 10) @ [digit_char (n mod 10)])"

declare decimal.simps [simp del]

definition is_digit :: "char \<Rightarrow> bool" where
  "is_digit c \<longleftrightarrow> CHR ''0'' \<le> c \<and> c \<le> CHR ''9''"

definition digit_value :: "char \<Rightarrow> nat" where
  "digit_value c = of_char c - 48"

definition digits_value :: "bytes \<Rightarrow> nat" where
  "digits_value s = foldl (\<lambda>n c. 10 * n + digit_value c) 0 s"

lemma char_le_of_char: "c \<le> d \<longleftrightarrow> (of_char c :: nat) \<le> of_char d"
  by (simp add: less_eq_char_def)

lemma of_char_bound: "(of_char c :: nat) < 256"
  by simp


section \<open>UTF-8\<close>

definition rune_error :: nat where "rune_error = 65533"

definition code :: "char \<Rightarrow> nat" where "code c = of_char c"

lemma code_lt [simp]: "code c < 256"
  by (simp add: code_def)

lemma code_char_of [simp]: "code (char_of n) = n mod 256"
  by (simp add: code_def)

lemma code_inj: "code c = code d \<longleftrightarrow> c = d"
  by (simp add: code_def)

definition is_cont :: "char \<Rightarrow> bool" where
  "is_cont c \<longleftrightarrow> 128 \<le> code c \<and> code c < 192"

text \<open>
  \<^verbatim>\<open>utf8.DecodeRune\<close>: the rune and its width; width 1 with \<open>rune_error\<close> is an invalid
  encoding, width 0 the end of the input. The ranges of the second byte are those of the
  package's table (no overlong forms, no surrogates, nothing above U+10FFFF).
\<close>

definition second_range :: "nat \<Rightarrow> nat \<times> nat" where
  "second_range b0 =
     (if b0 = 224 then (160, 192) else if b0 = 237 then (128, 160)
      else if b0 = 240 then (144, 192) else if b0 = 244 then (128, 144) else (128, 192))"

definition ok_second :: "nat \<Rightarrow> char \<Rightarrow> bool" where
  "ok_second b0 c \<longleftrightarrow> fst (second_range b0) \<le> code c \<and> code c < snd (second_range b0)"

fun decode_rune :: "bytes \<Rightarrow> nat \<times> nat" where
  "decode_rune [] = (rune_error, 0)"
| "decode_rune (a # s) =
     (let b0 = code a in
      if b0 < 128 then (b0, 1)
      else if b0 < 194 then (rune_error, 1)
      else if b0 < 224 then
        (case s of
           b # _ \<Rightarrow> if ok_second b0 b then ((b0 - 192) * 64 + (code b - 128), 2) else (rune_error, 1)
         | [] \<Rightarrow> (rune_error, 1))
      else if b0 < 240 then
        (case s of
           b # c # _ \<Rightarrow>
             if ok_second b0 b \<and> is_cont c
             then ((b0 - 224) * 4096 + (code b - 128) * 64 + (code c - 128), 3)
             else (rune_error, 1)
         | _ \<Rightarrow> (rune_error, 1))
      else if b0 < 245 then
        (case s of
           b # c # d # _ \<Rightarrow>
             if ok_second b0 b \<and> is_cont c \<and> is_cont d
             then ((b0 - 240) * 262144 + (code b - 128) * 4096 + (code c - 128) * 64 + (code d - 128), 4)
             else (rune_error, 1)
         | _ \<Rightarrow> (rune_error, 1))
      else (rune_error, 1))"

definition valid_rune :: "nat \<Rightarrow> bool" where
  "valid_rune r \<longleftrightarrow> r < 55296 \<or> (57344 \<le> r \<and> r < 1114112)"

text \<open>\<^verbatim>\<open>utf8.AppendRune\<close>: an invalid rune is written as \<open>rune_error\<close>.\<close>

definition encode_rune :: "nat \<Rightarrow> bytes" where
  "encode_rune r0 =
     (let r = (if valid_rune r0 then r0 else rune_error) in
      if r < 128 then [char_of r]
      else if r < 2048 then [char_of (192 + r div 64), char_of (128 + r mod 64)]
      else if r < 65536 then
        [char_of (224 + r div 4096), char_of (128 + r div 64 mod 64), char_of (128 + r mod 64)]
      else
        [char_of (240 + r div 262144), char_of (128 + r div 4096 mod 64),
         char_of (128 + r div 64 mod 64), char_of (128 + r mod 64)])"

lemma decode_rune_width: "s \<noteq> [] \<Longrightarrow> 1 \<le> snd (decode_rune s) \<and> snd (decode_rune s) \<le> length s"
  by (cases s) (auto simp: Let_def split: list.splits)

lemma encode_rune_nonempty [simp]: "encode_rune r \<noteq> []"
  by (simp add: encode_rune_def Let_def)

text \<open>Decoding inverts encoding, and a valid encoding is the encoding of its rune.\<close>

lemma char_of_code [simp]: "char_of (code c) = c"
  by (simp add: code_def)

lemma char_of_eq: "n = code c \<Longrightarrow> char_of n = c"
  by simp

lemma split_64: "(r::nat) = r div 4096 * 4096 + r div 64 mod 64 * 64 + r mod 64"
proof -
  have "r div 4096 = r div 64 div 64" by (simp add: div_mult2_eq [symmetric])
  then show ?thesis using div_mult_mod_eq [of r 64] div_mult_mod_eq [of "r div 64" 64] by linarith
qed

lemma split_64_4: "(r::nat) = r div 262144 * 262144 + r div 4096 mod 64 * 4096 + r div 64 mod 64 * 64 + r mod 64"
proof -
  have "r div 262144 = r div 4096 div 64" by (simp add: div_mult2_eq [symmetric])
  then show ?thesis using split_64 [of r] div_mult_mod_eq [of "r div 4096" 64] by linarith
qed

lemma decode_encode_rune:
  assumes "valid_rune r"
  shows "decode_rune (encode_rune r @ t) = (r, length (encode_rune r))"
proof -
  consider "r < 128" | "128 \<le> r" "r < 2048" | "2048 \<le> r" "r < 65536" | "65536 \<le> r"
    by linarith
  then show ?thesis
  proof cases
    case 1
    with assms show ?thesis by (simp add: encode_rune_def)
  next
    case 2
    define a b where "a = r div 64" and "b = r mod 64"
    have ab: "r = a * 64 + b" "b < 64" "2 \<le> a" "a < 32" using 2 by (auto simp: a_def b_def)
    have e: "encode_rune r = [char_of (192 + a), char_of (128 + b)]"
      using 2 assms by (simp add: encode_rune_def a_def b_def)
    show ?thesis unfolding e using ab
      by (simp add: ok_second_def second_range_def)
  next
    case 3
    define a b c where "a = r div 4096" and "b = r div 64 mod 64" and "c = r mod 64"
    have r: "r = a * 4096 + b * 64 + c" "b < 64" "c < 64" "a < 16"
      using 3 split_64 [of r] by (auto simp: a_def b_def c_def)
    have a0: "a = 0 \<Longrightarrow> 32 \<le> b" using 3 r by auto
    have a13: "a = 13 \<Longrightarrow> b < 32" using assms r by (auto simp: valid_rune_def)
    have e: "encode_rune r = [char_of (224 + a), char_of (128 + b), char_of (128 + c)]"
      using 3 assms by (simp add: encode_rune_def a_def b_def c_def)
    have ok: "ok_second (224 + a) (char_of (128 + b))" using r a0 a13 by (simp add: ok_second_def second_range_def)
    show ?thesis unfolding e using r ok by (simp add: is_cont_def)
  next
    case 4
    define a b c d where "a = r div 262144" and "b = r div 4096 mod 64" and "c = r div 64 mod 64" and "d = r mod 64"
    have r: "r = a * 262144 + b * 4096 + c * 64 + d" "b < 64" "c < 64" "d < 64"
      using split_64_4 [of r] by (auto simp: a_def b_def c_def d_def)
    have a: "a < 5" using assms r by (auto simp: valid_rune_def)
    have a0: "a = 0 \<Longrightarrow> 16 \<le> b" using 4 r by auto
    have a4: "a = 4 \<Longrightarrow> b < 16" using assms r by (auto simp: valid_rune_def)
    have e: "encode_rune r = [char_of (240 + a), char_of (128 + b), char_of (128 + c), char_of (128 + d)]"
      using 4 assms by (simp add: encode_rune_def a_def b_def c_def d_def)
    have ok: "ok_second (240 + a) (char_of (128 + b))" using r a a0 a4 by (simp add: ok_second_def second_range_def)
    show ?thesis unfolding e using r a ok by (simp add: is_cont_def)
  qed
qed

lemma divmod_64: "r < 64 \<Longrightarrow> (q * 64 + r) div 64 = (q::nat)" "r < 64 \<Longrightarrow> (q * 64 + r) mod 64 = (r::nat)"
  by simp_all

lemma divmod_3:
  assumes "y < 64" and "(z::nat) < 64"
  shows "(x * 4096 + y * 64 + z) div 64 = x * 64 + y" "(x * 4096 + y * 64 + z) mod 64 = z"
    "(x * 4096 + y * 64 + z) div 4096 = x" "(x * 64 + y) mod 64 = y"
proof -
  have e: "x * 4096 + y * 64 + z = (x * 64 + y) * 64 + z" by simp
  show d: "(x * 4096 + y * 64 + z) div 64 = x * 64 + y" unfolding e by (rule divmod_64) (rule assms)
  show "(x * 4096 + y * 64 + z) mod 64 = z" unfolding e by (rule divmod_64) (rule assms)
  have "(x * 4096 + y * 64 + z) div 4096 = (x * 4096 + y * 64 + z) div 64 div 64"
    by (simp add: div_mult2_eq [symmetric])
  also have "\<dots> = x" unfolding d by (rule divmod_64) (rule assms)
  finally show "(x * 4096 + y * 64 + z) div 4096 = x" .
  show "(x * 64 + y) mod 64 = y" by (rule divmod_64) (rule assms)
qed

lemma divmod_4:
  assumes "y < 64" and "z < 64" and "(w::nat) < 64"
  shows "(x * 262144 + y * 4096 + z * 64 + w) div 64 = x * 4096 + y * 64 + z"
    "(x * 262144 + y * 4096 + z * 64 + w) mod 64 = w"
    "(x * 262144 + y * 4096 + z * 64 + w) div 4096 = x * 64 + y"
    "(x * 262144 + y * 4096 + z * 64 + w) div 262144 = x"
    "(x * 4096 + y * 64 + z) mod 64 = z" "(x * 64 + y) mod 64 = y"
proof -
  let ?r = "x * 262144 + y * 4096 + z * 64 + w"
  have e: "?r = (x * 4096 + y * 64 + z) * 64 + w" by simp
  show d: "?r div 64 = x * 4096 + y * 64 + z" unfolding e by (rule divmod_64) (rule assms)
  show "?r mod 64 = w" unfolding e by (rule divmod_64) (rule assms)
  have "?r div 4096 = ?r div 64 div 64" by (simp add: div_mult2_eq [symmetric])
  also have "\<dots> = x * 64 + y" unfolding d by (rule divmod_3) (rule assms)+
  finally show q: "?r div 4096 = x * 64 + y" .
  have "?r div 262144 = ?r div 4096 div 64" by (simp add: div_mult2_eq [symmetric])
  also have "\<dots> = x" unfolding q by (rule divmod_64) (rule assms)
  finally show "?r div 262144 = x" .
  show "(x * 4096 + y * 64 + z) mod 64 = z" by (rule divmod_3) (rule assms)+
  show "(x * 64 + y) mod 64 = y" by (rule divmod_64) (rule assms)
qed

lemma encode_2:
  assumes "x < 32" and "2 \<le> x" and "y < 64"
  shows "encode_rune (x * 64 + y) = [char_of (192 + x), char_of (128 + y)] \<and> valid_rune (x * 64 + y)"
  using assms by (simp add: encode_rune_def valid_rune_def)

lemma encode_3:
  assumes "x < 16" and "y < 64" and "z < 64" and "x = 0 \<Longrightarrow> 32 \<le> y" and "x = 13 \<Longrightarrow> y < 32"
  shows "encode_rune (x * 4096 + y * 64 + z) = [char_of (224 + x), char_of (128 + y), char_of (128 + z)] \<and>
    valid_rune (x * 4096 + y * 64 + z)"
proof -
  let ?r = "x * 4096 + y * 64 + z"
  note divmod_3 [OF assms(2,3)]
  moreover have "2048 \<le> ?r" using assms(4) by (cases "x = 0") auto
  moreover have "valid_rune ?r"
  proof -
    consider "x < 13" | "x = 13" | "13 < x" by linarith
    then show ?thesis using assms by cases (auto simp: valid_rune_def)
  qed
  moreover have "?r < 65536" using assms by linarith
  ultimately show ?thesis by (simp add: encode_rune_def Let_def)
qed

lemma encode_4:
  assumes "x < 5" and "y < 64" and "z < 64" and "w < 64" and "x = 0 \<Longrightarrow> 16 \<le> y" and "x = 4 \<Longrightarrow> y < 16"
  shows "encode_rune (x * 262144 + y * 4096 + z * 64 + w) =
      [char_of (240 + x), char_of (128 + y), char_of (128 + z), char_of (128 + w)] \<and>
    valid_rune (x * 262144 + y * 4096 + z * 64 + w)"
proof -
  let ?r = "x * 262144 + y * 4096 + z * 64 + w"
  note divmod_4 [OF assms(2,3,4)]
  moreover have "65536 \<le> ?r" using assms(5) by (cases "x = 0") auto
  moreover have "?r < 1114112"
    using assms by (cases "x = 4") auto
  ultimately show ?thesis by (simp add: encode_rune_def valid_rune_def Let_def)
qed

lemma decode_rune_valid:
  assumes "s \<noteq> []" and "\<not> (fst (decode_rune s) = rune_error \<and> snd (decode_rune s) = 1)"
  shows "valid_rune (fst (decode_rune s)) \<and> s = encode_rune (fst (decode_rune s)) @ drop (snd (decode_rune s)) s"
proof -
  obtain a t where s: "s = a # t" using assms(1) by (cases s) auto
  let ?a = "code a"
  have a: "char_of ?a = a" by simp
  show ?thesis
  proof (cases "?a < 128")
    case True
    then show ?thesis by (simp add: s encode_rune_def valid_rune_def)
  next
    case False
    have "194 \<le> ?a" "?a < 245" using assms(2) False by (auto simp: s Let_def split: if_splits)
    then consider "194 \<le> ?a" "?a < 224" | "224 \<le> ?a" "?a < 240" | "240 \<le> ?a" "?a < 245" by linarith
    then show ?thesis
    proof cases
      case 1
      with assms(2) obtain b u where t: "t = b # u" "ok_second ?a b"
        by (auto simp: s Let_def split: list.splits if_splits)
      then have b: "128 \<le> code b" "code b < 192" using 1 by (auto simp: ok_second_def second_range_def)
      have "encode_rune ((?a - 192) * 64 + (code b - 128)) = [char_of (192 + (?a - 192)), char_of (128 + (code b - 128))] \<and>
          valid_rune ((?a - 192) * 64 + (code b - 128))"
        using 1 b by (intro encode_2) auto
      with 1 b t show ?thesis by (simp add: s)
    next
      case 2
      with assms(2) obtain b c u where t: "t = b # c # u" "ok_second ?a b" "is_cont c"
        by (auto simp: s Let_def split: list.splits if_splits)
      then have b: "128 \<le> code b" "code b < 192" "128 \<le> code c" "code c < 192"
        "?a = 224 \<Longrightarrow> 160 \<le> code b" "?a = 237 \<Longrightarrow> code b < 160"
        using 2 by (auto simp: ok_second_def second_range_def is_cont_def split: if_splits)
      have "encode_rune ((?a - 224) * 4096 + (code b - 128) * 64 + (code c - 128)) =
            [char_of (224 + (?a - 224)), char_of (128 + (code b - 128)), char_of (128 + (code c - 128))] \<and>
          valid_rune ((?a - 224) * 4096 + (code b - 128) * 64 + (code c - 128))"
      proof (rule encode_3)
        show "?a - 224 = 0 \<Longrightarrow> 32 \<le> code b - 128" using b(5) 2 by linarith
        show "?a - 224 = 13 \<Longrightarrow> code b - 128 < 32" using b(6) 2 by linarith
      qed (use 2 b in auto)
      with 2 b t show ?thesis by (simp add: s)
    next
      case 3
      with assms(2) obtain b c d u where t: "t = b # c # d # u" "ok_second ?a b" "is_cont c" "is_cont d"
        by (auto simp: s Let_def split: list.splits if_splits)
      then have b: "128 \<le> code b" "code b < 192" "128 \<le> code c" "code c < 192" "128 \<le> code d" "code d < 192"
        "?a = 240 \<Longrightarrow> 144 \<le> code b" "?a = 244 \<Longrightarrow> code b < 144"
        using 3 by (auto simp: ok_second_def second_range_def is_cont_def split: if_splits)
      have "encode_rune ((?a - 240) * 262144 + (code b - 128) * 4096 + (code c - 128) * 64 + (code d - 128)) =
            [char_of (240 + (?a - 240)), char_of (128 + (code b - 128)), char_of (128 + (code c - 128)),
             char_of (128 + (code d - 128))] \<and>
          valid_rune ((?a - 240) * 262144 + (code b - 128) * 4096 + (code c - 128) * 64 + (code d - 128))"
      proof (rule encode_4)
        show "?a - 240 = 0 \<Longrightarrow> 16 \<le> code b - 128" using b(7) 3 by linarith
        show "?a - 240 = 4 \<Longrightarrow> code b - 128 < 16" using b(8) 3 by linarith
      qed (use 3 b in auto)
      with 3 b t show ?thesis by (simp add: s)
    qed
  qed
qed

text \<open>The bytes of a string grouped by rune: the order in which \<^verbatim>\<open>range\<close> visits them.\<close>

function rune_chunks :: "bytes \<Rightarrow> (nat \<times> bytes) list" where
  "rune_chunks s =
     (if s = [] then []
      else (let w = snd (decode_rune s) in (fst (decode_rune s), take w s) # rune_chunks (drop w s)))"
  by pat_completeness auto
termination
proof (relation "measure length")
  fix s :: bytes and w
  assume "s \<noteq> []" and "w = snd (decode_rune s)"
  then show "(drop w s, s) \<in> measure length"
    using decode_rune_width [of s] by simp
qed simp

declare rune_chunks.simps [simp del]

lemma rune_chunks_Nil [simp]: "rune_chunks [] = []"
  by (simp add: rune_chunks.simps)

lemma concat_rune_chunks [simp]: "concat (map snd (rune_chunks s)) = s"
proof (induction s rule: rune_chunks.induct)
  case (1 s)
  then show ?case
    by (cases "s = []") (auto simp: rune_chunks.simps [of s] Let_def)
qed

definition runes :: "bytes \<Rightarrow> nat list" where
  "runes s = map fst (rune_chunks s)"

definition rune_count :: "bytes \<Rightarrow> nat" where
  "rune_count s = length (rune_chunks s)"

definition valid_utf8 :: "bytes \<Rightarrow> bool" where
  "valid_utf8 s = list_all (\<lambda>(r, c). \<not> (r = rune_error \<and> length c = 1)) (rune_chunks s)"

definition encode_runes :: "nat list \<Rightarrow> bytes" where
  "encode_runes rs = concat (map encode_rune rs)"

lemma rune_count_le: "rune_count s \<le> length s"
proof (induction s rule: rune_chunks.induct)
  case (1 s)
  then show ?case
    using decode_rune_width [of s]
    by (cases "s = []") (auto simp: rune_count_def rune_chunks.simps [of s] Let_def)
qed

text \<open>A test that only ASCII runes pass can be made on the bytes.\<close>

lemma decode_rune_ascii [simp]: "code a < 128 \<Longrightarrow> decode_rune (a # s) = (code a, 1)"
  by simp

lemma decode_rune_high:
  assumes "128 \<le> code a"
  shows "128 \<le> fst (decode_rune (a # s))"
  using assms
  by (auto simp: Let_def rune_error_def ok_second_def second_range_def split: list.splits if_splits)

lemma rune_chunks_ascii [simp]:
  "code a < 128 \<Longrightarrow> rune_chunks (a # s) = (code a, [a]) # rune_chunks s"
  by (subst rune_chunks.simps) (simp del: decode_rune.simps)

lemma list_all_runes_ascii:
  assumes "\<And>r. P r \<Longrightarrow> r < 128"
  shows "list_all P (runes s) \<longleftrightarrow> list_all (\<lambda>c. P (code c)) s"
proof (induction s)
  case (Cons a s)
  show ?case
  proof (cases "code a < 128")
    case True
    with Cons show ?thesis by (simp add: runes_def)
  next
    case False
    then have "\<not> P (fst (decode_rune (a # s)))"
      using decode_rune_high [of a s] assms by (meson leD not_less)
    moreover have "\<not> P (code a)" using False assms by blast
    ultimately show ?thesis
      by (simp add: runes_def rune_chunks.simps [of "a # s"] Let_def del: decode_rune.simps)
  qed
qed (simp add: runes_def)

text \<open>\<^verbatim>\<open>unicode.IsSpace\<close>, and \<^verbatim>\<open>strings.TrimSpace\<close>.\<close>

definition is_space :: "nat \<Rightarrow> bool" where
  "is_space r \<longleftrightarrow> (9 \<le> r \<and> r \<le> 13) \<or> r = 32 \<or> r = 133 \<or> r = 160 \<or> r = 5760 \<or>
     (8192 \<le> r \<and> r \<le> 8202) \<or> r = 8232 \<or> r = 8233 \<or> r = 8239 \<or> r = 8287 \<or> r = 12288"

definition trim_space :: "bytes \<Rightarrow> bytes" where
  "trim_space s =
     concat (map snd (rev (dropWhile (\<lambda>(r, _). is_space r)
       (rev (dropWhile (\<lambda>(r, _). is_space r) (rune_chunks s))))))"

definition is_blank :: "bytes \<Rightarrow> bool" where
  "is_blank s = list_all is_space (runes s)"

lemma is_blank_Nil [simp]: "is_blank []"
  by (simp add: is_blank_def runes_def)

declare decode_rune.simps(2) [simp del]

end
