(* ===== verification/GoValue.thy ===== *)
theory GoValue
  imports Complex_Main GoStrings
begin

text \<open>
  Go values of type \<^verbatim>\<open>any\<close> as the program meets them: what \<^verbatim>\<open>encoding/json\<close> decodes with
  \<^verbatim>\<open>UseNumber\<close>, and the values Go code builds itself (\<open>VInt\<close> every integer kind, \<open>VFloat\<close> a
  finite float, \<open>VStrs\<close> a \<^verbatim>\<open>[]string\<close>). A map is the list of its entries in one iteration
  order; \<open>value_eq\<close> relates two values that differ only in such orders, and a function that
  gives the same answer on related values does not depend on them. \<open>float_of_int\<close> is the
  conversion of a 64-bit integer to \<^verbatim>\<open>float64\<close>, rounding to 53 bits, half to even.
\<close>

datatype gval =
    VNull
  | VBool bool
  | VNumber bytes
  | VInt int
  | VFloat rat
  | VStr bytes
  | VArr "gval list"
  | VStrs "bytes list"
  | VObj "(bytes \<times> gval) list"

type_synonym object = "(bytes \<times> gval) list"

section \<open>Type assertions and lookup\<close>

fun as_obj :: "gval \<Rightarrow> object option" where
  "as_obj (VObj m) = Some m"
| "as_obj _ = None"

fun as_arr :: "gval \<Rightarrow> gval list option" where
  "as_arr (VArr xs) = Some xs"
| "as_arr _ = None"

fun as_str :: "gval \<Rightarrow> bytes option" where
  "as_str (VStr s) = Some s"
| "as_str _ = None"

fun as_bool :: "gval \<Rightarrow> bool option" where
  "as_bool (VBool b) = Some b"
| "as_bool _ = None"

fun as_number :: "gval \<Rightarrow> bytes option" where
  "as_number (VNumber n) = Some n"
| "as_number _ = None"

text \<open>\<^verbatim>\<open>m[k]\<close> is \<^verbatim>\<open>nil\<close> where the key is absent; \<open>has_key\<close> is the second result.\<close>

definition field :: "object \<Rightarrow> bytes \<Rightarrow> gval" where
  "field m k = (case map_of m k of Some v \<Rightarrow> v | None \<Rightarrow> VNull)"

definition has_key :: "object \<Rightarrow> bytes \<Rightarrow> bool" where
  "has_key m k \<longleftrightarrow> map_of m k \<noteq> None"

lemma as_obj_Some [simp]: "as_obj v = Some m \<longleftrightarrow> v = VObj m" by (cases v) auto
lemma as_arr_Some [simp]: "as_arr v = Some m \<longleftrightarrow> v = VArr m" by (cases v) auto
lemma as_str_Some [simp]: "as_str v = Some m \<longleftrightarrow> v = VStr m" by (cases v) auto
lemma as_bool_Some [simp]: "as_bool v = Some m \<longleftrightarrow> v = VBool m" by (cases v) auto
lemma as_number_Some [simp]: "as_number v = Some m \<longleftrightarrow> v = VNumber m" by (cases v) auto

lemma field_simps [go_simps]:
  "field [] k = VNull"
  "field ((k', v) # m) k = (if k' = k then v else field m k)"
  by (simp_all add: field_def)

lemma has_key_simps [go_simps]:
  "has_key [] k = False"
  "has_key ((k', v) # m) k = (k' = k \<or> has_key m k)"
  by (simp_all add: has_key_def)

lemma has_key_keys: "has_key m k \<longleftrightarrow> k \<in> set (keys m)"
  by (induction m) (auto simp: go_simps)

lemma field_absent: "\<not> has_key m k \<Longrightarrow> field m k = VNull"
  by (simp add: field_def has_key_def)

lemma field_mem: "has_key m k \<Longrightarrow> (k, field m k) \<in> set m"
  by (auto simp: field_def has_key_def dest: map_of_SomeD)

text \<open>Distinct keys in every map of a value: what every Go map has.\<close>

fun wf_value :: "gval \<Rightarrow> bool"
  and wf_values :: "gval list \<Rightarrow> bool"
  and wf_fields :: "object \<Rightarrow> bool" where
  "wf_value (VArr xs) = wf_values xs"
| "wf_value (VObj m) = (distinct (keys m) \<and> wf_fields m)"
| "wf_value _ = True"
| "wf_values [] = True"
| "wf_values (x # xs) = (wf_value x \<and> wf_values xs)"
| "wf_fields [] = True"
| "wf_fields ((k, v) # m) = (wf_value v \<and> wf_fields m)"

lemma wf_values_iff: "wf_values xs \<longleftrightarrow> (\<forall>x\<in>set xs. wf_value x)"
  by (induction xs) auto

lemma wf_fields_iff: "wf_fields m \<longleftrightarrow> (\<forall>(k, v)\<in>set m. wf_value v)"
  by (induction m) auto

section \<open>Iteration order\<close>

inductive value_eq :: "gval \<Rightarrow> gval \<Rightarrow> bool" where
  eq_same: "value_eq v v"
| eq_arr: "list_all2 value_eq xs ys \<Longrightarrow> value_eq (VArr xs) (VArr ys)"
| eq_obj: "\<lbrakk>list_all2 (rel_prod (=) value_eq) m m'; mset m' = mset m''\<rbrakk>
    \<Longrightarrow> value_eq (VObj m) (VObj m'')"
  monos prod.rel_mono

inductive_cases value_eq_objE: "value_eq (VObj m) v"
inductive_cases value_eq_arrE: "value_eq (VArr xs) v"

lemma value_eq_perm: "mset m = mset m' \<Longrightarrow> value_eq (VObj m) (VObj m')"
  by (rule eq_obj [of m m]) (auto simp: list_all2_same rel_prod_sel eq_same)

text \<open>What related values have in common.\<close>

lemma value_eq_scalar:
  assumes "value_eq v v'"
  shows "as_str v' = as_str v" and "as_bool v' = as_bool v" and "as_number v' = as_number v"
    and "v = VStr s \<longleftrightarrow> v' = VStr s" and "v = VBool b \<longleftrightarrow> v' = VBool b"
    and "v = VNull \<longleftrightarrow> v' = VNull"
  using assms by (cases; simp)+

lemma value_eq_obj:
  assumes "value_eq v v'"
  shows "v = VObj m \<Longrightarrow> \<exists>m'. v' = VObj m' \<and> value_eq (VObj m) (VObj m')"
  using assms by cases (auto intro: eq_same eq_obj)

lemma value_eq_arr:
  assumes "value_eq v v'"
  shows "v = VArr xs \<Longrightarrow> \<exists>ys. v' = VArr ys \<and> list_all2 value_eq xs ys"
  using assms by cases (auto intro: eq_same simp: list_all2_same)

lemma value_eq_arr_iff: "value_eq (VArr xs) (VArr ys) \<longleftrightarrow> list_all2 value_eq xs ys"
  by (auto intro: eq_arr dest: value_eq_arr)

lemma value_eq_obj_cases:
  assumes "value_eq (VObj m) (VObj m'')"
  obtains m' where "list_all2 (rel_prod (=) value_eq) m m'" and "mset m' = mset m''"
  using assms
proof cases
  case eq_same
  then have "list_all2 (rel_prod (=) value_eq) m m" "mset m = mset m''"
    by (auto simp: list_all2_same rel_prod_sel intro: value_eq.eq_same)
  then show ?thesis by (rule that)
next
  case (eq_obj m')
  then show ?thesis by (intro that)
qed

lemma value_eq_sym: "value_eq v v' \<Longrightarrow> value_eq v' v"
proof (induction rule: value_eq.induct)
  case (eq_same v)
  show ?case by (rule value_eq.eq_same)
next
  case (eq_arr xs ys)
  then have "list_all2 value_eq ys xs" by (auto simp: list_all2_conv_all_nth)
  then show ?case by (rule value_eq.eq_arr)
next
  case (eq_obj m m' m'')
  then have "list_all2 (rel_prod (=) value_eq) m' m"
    by (auto simp: list_all2_conv_all_nth rel_prod_sel)
  then obtain n where "list_all2 (rel_prod (=) value_eq) m'' n" and "mset n = mset m"
    using list_all2_reorder_left_invariance [of "rel_prod (=) value_eq" m' m m''] eq_obj by auto
  then show ?case by (rule value_eq.eq_obj)
qed

lemma keys_all2: "list_all2 (rel_prod (=) R) m m' \<Longrightarrow> keys m = keys m'"
  by (induction rule: list_all2_induct) (auto simp: rel_prod_sel)

lemma value_eq_shape:
  assumes "value_eq (VObj m) (VObj m')"
  shows "length m' = length m" and "set (keys m') = set (keys m)"
    and "distinct (keys m') \<longleftrightarrow> distinct (keys m)" and "has_key m' k \<longleftrightarrow> has_key m k"
proof -
  from assms obtain n where n: "list_all2 (rel_prod (=) value_eq) m n" "mset n = mset m'"
    by (rule value_eq_obj_cases)
  then have k: "keys m = keys n" by (auto dest: keys_all2)
  have "mset (keys n) = mset (keys m')" using n(2) by simp
  then have kk: "mset (keys m') = mset (keys m)" using k by simp
  show "length m' = length m" using mset_eq_length [OF kk] by simp
  show sk: "set (keys m') = set (keys m)" using kk by (rule mset_eq_setD)
  show "distinct (keys m') \<longleftrightarrow> distinct (keys m)" using kk by (rule mset_eq_imp_distinct_iff)
  show "has_key m' k \<longleftrightarrow> has_key m k" using sk by (simp add: has_key_keys)
qed

lemma value_eq_field_mem:
  assumes "value_eq (VObj m) (VObj m')" and "(k, v) \<in> set m"
  shows "\<exists>v'. (k, v') \<in> set m' \<and> value_eq v v'"
proof -
  from assms(1) obtain n where n: "list_all2 (rel_prod (=) value_eq) m n" "mset n = mset m'"
    by (rule value_eq_obj_cases)
  from n(1) assms(2) obtain v' where "(k, v') \<in> set n" "value_eq v v'"
    by (auto simp: list_all2_conv_all_nth in_set_conv_nth rel_prod_sel) (metis prod.collapse fst_conv snd_conv)
  then show ?thesis using mset_eq_setD [OF n(2)] by auto
qed

lemma value_eq_field:
  assumes "value_eq (VObj m) (VObj m')" and "distinct (keys m)"
  shows "value_eq (field m k) (field m' k)"
proof (cases "has_key m k")
  case True
  then have "(k, field m k) \<in> set m" by (rule field_mem)
  then obtain v' where "(k, v') \<in> set m'" "value_eq (field m k) v'"
    using value_eq_field_mem [OF assms(1)] by blast
  moreover have "distinct (keys m')" using value_eq_shape(3) [OF assms(1)] assms(2) by simp
  ultimately show ?thesis by (simp add: field_def)
next
  case False
  then show ?thesis
    using value_eq_shape(4) [OF assms(1)] by (simp add: field_absent eq_same)
qed

lemma wf_field: "wf_fields m \<Longrightarrow> wf_value (field m k)"
  using field_mem [of m k] field_absent [of m k] by (cases "has_key m k") (auto simp: wf_fields_iff)

lemma list_all2_transfer:
  "list_all2 R xs ys \<Longrightarrow> \<forall>x\<in>set xs. P x \<Longrightarrow> (\<And>x y. R x y \<Longrightarrow> P x \<Longrightarrow> Q y) \<Longrightarrow> \<forall>y\<in>set ys. Q y"
  by (induction rule: list_all2_induct) auto

lemma value_eq_wf: "value_eq v v' \<Longrightarrow> wf_value v \<Longrightarrow> wf_value v'"
proof (induction rule: value_eq.induct)
  case (eq_arr xs ys)
  have "\<forall>y\<in>set ys. wf_value y"
    by (rule list_all2_transfer [OF eq_arr.IH, where P = wf_value])
      (use eq_arr.prems in \<open>auto simp: wf_values_iff\<close>)
  then show ?case by (simp add: wf_values_iff)
next
  case (eq_obj m m' m'')
  have "keys m = keys m'"
    using eq_obj.IH by (rule keys_all2)
  moreover have "mset (keys m') = mset (keys m'')" using eq_obj.hyps by simp
  ultimately have "distinct (keys m'')"
    using eq_obj.prems mset_eq_imp_distinct_iff by fastforce
  moreover have "\<forall>p\<in>set m'. wf_value (snd p)"
    by (rule list_all2_transfer [OF eq_obj.IH, where P = "\<lambda>p. wf_value (snd p)"])
      (use eq_obj.prems in \<open>auto simp: wf_fields_iff rel_prod_sel\<close>)
  ultimately show ?case
    using mset_eq_setD [OF eq_obj.hyps] by (auto simp: wf_fields_iff)
qed auto

section \<open>Integers and floats\<close>

function bit_length :: "nat \<Rightarrow> nat" where
  "bit_length n = (if n = 0 then 0 else Suc (bit_length (n div 2)))"
  by pat_completeness auto
termination
  by (relation "measure id") auto

declare bit_length.simps [simp del]

lemma bit_length_bounds: "0 < n \<Longrightarrow> 2 ^ (bit_length n - 1) \<le> n \<and> n < 2 ^ bit_length n"
proof (induction n rule: bit_length.induct)
  case (1 n)
  show ?case
  proof (cases "n = 1")
    case True
    then show ?thesis by (simp add: bit_length.simps)
  next
    case False
    with 1 have h: "2 ^ (bit_length (n div 2) - 1) \<le> n div 2 \<and> n div 2 < 2 ^ bit_length (n div 2)"
      by simp
    with False 1(2) have "bit_length (n div 2) \<noteq> 0" by (cases "bit_length (n div 2)") auto
    then obtain k where k: "bit_length (n div 2) = Suc k" by (cases "bit_length (n div 2)") auto
    with h 1(2) show ?thesis by (subst (1 2) bit_length.simps) auto
  qed
qed

definition round_even :: "nat \<Rightarrow> nat \<Rightarrow> nat" where
  "round_even n e =
     (let q = n div 2 ^ e; r = n mod 2 ^ e; h = 2 ^ e div 2 in
      if e = 0 then n
      else if r < h \<or> (r = h \<and> even q) then q * 2 ^ e else (q + 1) * 2 ^ e)"

definition float_of_nat :: "nat \<Rightarrow> nat" where
  "float_of_nat n = round_even n (bit_length n - 53)"

definition float_of_int :: "int \<Rightarrow> int" where
  "float_of_int i = (if 0 \<le> i then int (float_of_nat (nat i)) else - int (float_of_nat (nat (- i))))"

text \<open>Integers of at most 53 bits are represented exactly.\<close>

lemma bit_length_le: "n < 2 ^ k \<Longrightarrow> bit_length n \<le> k"
proof (rule ccontr)
  assume n: "n < 2 ^ k" and "\<not> bit_length n \<le> k"
  then have k: "k \<le> bit_length n - 1" and "0 < bit_length n" by auto
  then have "0 < n" by (cases n) (auto simp: bit_length.simps)
  then have "2 ^ (bit_length n - 1) \<le> n" using bit_length_bounds by blast
  moreover have "(2::nat) ^ k \<le> 2 ^ (bit_length n - 1)" using k by simp
  ultimately show False using n by linarith
qed

lemma bit_length_ge: "2 ^ k \<le> n \<Longrightarrow> Suc k \<le> bit_length n"
proof (rule ccontr)
  assume n: "2 ^ k \<le> n" and "\<not> Suc k \<le> bit_length n"
  then have "bit_length n \<le> k" by simp
  then have "(2::nat) ^ bit_length n \<le> 2 ^ k" by simp
  moreover have "0 < n" using n by (metis less_le_trans zero_less_numeral zero_less_power)
  ultimately show False using bit_length_bounds [of n] n by linarith
qed

lemma bit_length_eq: "2 ^ k \<le> n \<Longrightarrow> n < 2 ^ Suc k \<Longrightarrow> bit_length n = Suc k"
  using bit_length_ge [of k n] bit_length_le [of n "Suc k"] by simp

lemma float_of_int_exact: "\<bar>i\<bar> < 2 ^ 53 \<Longrightarrow> float_of_int i = i"
proof -
  assume i: "\<bar>i\<bar> < 2 ^ 53"
  then have "nat \<bar>i\<bar> < 2 ^ 53" by (simp add: nat_less_iff)
  then have "bit_length (nat \<bar>i\<bar>) \<le> 53" by (rule bit_length_le)
  then show ?thesis
    by (auto simp: float_of_int_def float_of_nat_def round_even_def)
qed

text \<open>\<^verbatim>\<open>strconv.ParseInt(s, 10, 64)\<close>, as \<^verbatim>\<open>json.Number.Int64\<close> calls it.\<close>

definition all_digits :: "bytes \<Rightarrow> bool" where
  "all_digits s \<longleftrightarrow> s \<noteq> [] \<and> list_all is_digit s"

definition parse_int64 :: "bytes \<Rightarrow> int option" where
  "parse_int64 s =
     (let neg = has_prefix s ''-'';
          digits = (if neg \<or> has_prefix s ''+'' then tl s else s) in
      if \<not> all_digits digits then None
      else (let n = int (digits_value digits); i = (if neg then - n else n) in
            if - (2 ^ 63) \<le> i \<and> i < 2 ^ 63 then Some i else None))"

lemma parse_int64_bounds: "parse_int64 s = Some i \<Longrightarrow> - (2 ^ 63) \<le> i \<and> i < 2 ^ 63"
  by (auto simp: parse_int64_def Let_def split: if_splits)

text \<open>\<^verbatim>\<open>strconv.ParseUint(s, 10, 64)\<close>.\<close>

definition parse_uint64 :: "bytes \<Rightarrow> nat option" where
  "parse_uint64 s =
     (if all_digits s \<and> digits_value s < 2 ^ 64 then Some (digits_value s) else None)"

end
