(* ===== verification/StrictJson.thy ===== *)
theory StrictJson
  imports GoValue
begin

text \<open>
  The strict I-JSON parser of \<^verbatim>\<open>formpackage/canonical.go\<close>. The parser's position is the list
  of the bytes still to be read; every failing return is a constructor of \<open>json_error\<close> (the
  offset its message prints is not kept). The source only reports whether the document is
  acceptable; the model also returns the value the accepted bytes denote, which is what
  \<^verbatim>\<open>encoding/json\<close> decodes from the same bytes. The recursion is on fuel, and
  \<open>parse_enough_fuel\<close> shows that the fuel the document function supplies never runs out.
\<close>

datatype json_error =
    EndOfInput | TrailingByte | NestingTooDeep | DuplicateName bytes
  | ExpectedColon | ExpectedCommaOrBrace | ExpectedCommaOrBracket
  | ExpectedString | UnterminatedString | UnterminatedEscape | InvalidEscape char
  | ControlCharacter | InvalidUTF8
  | TruncatedUnicode | InvalidUnicode | UnpairedLow | UnpairedHigh | HighWithoutLow
  | InvalidLiteral
  | TruncatedNumber | LeadingZero | InvalidNumber | EmptyFraction | EmptyExponent
  | NotFinite | NegativeZero
  | OutOfFuel

definition maxJSONDepth :: nat where "maxJSONDepth = 256"

section \<open>White space, literals\<close>

definition is_ws :: "char \<Rightarrow> bool" where
  "is_ws c \<longleftrightarrow> c = CHR '' '' \<or> c = CHR 0x09 \<or> c = CHR 0x0D \<or> c = CHR 0x0A"

definition skipWhitespace :: "bytes \<Rightarrow> bytes" where
  "skipWhitespace s = dropWhile is_ws s"

definition parseLiteral :: "bytes \<Rightarrow> gval \<Rightarrow> bytes \<Rightarrow> json_error + gval \<times> bytes" where
  "parseLiteral literal v s =
     (if has_prefix s literal then Inr (v, drop (length literal) s) else Inl InvalidLiteral)"

section \<open>Strings\<close>

definition hex_digit_value :: "char \<Rightarrow> nat option" where
  "hex_digit_value c =
     (if 48 \<le> code c \<and> code c \<le> 57 then Some (code c - 48)
      else if 97 \<le> code c \<and> code c \<le> 102 then Some (code c - 87)
      else if 65 \<le> code c \<and> code c \<le> 70 then Some (code c - 55)
      else None)"

definition parseHexCodeUnit :: "bytes \<Rightarrow> json_error + nat" where
  "parseHexCodeUnit s =
     (case s of
        a # b # c # d # _ \<Rightarrow>
          (case (hex_digit_value a, hex_digit_value b, hex_digit_value c, hex_digit_value d) of
             (Some i, Some j, Some k, Some l) \<Rightarrow> Inr (i * 4096 + j * 256 + k * 16 + l)
           | _ \<Rightarrow> Inl InvalidUnicode)
      | _ \<Rightarrow> Inl TruncatedUnicode)"

text \<open>The rune of a \<^verbatim>\<open>\u\<close> escape and the number of bytes read after the \<^verbatim>\<open>u\<close>.\<close>

definition parseUnicodeEscape :: "bytes \<Rightarrow> json_error + nat \<times> nat" where
  "parseUnicodeEscape s =
     bind_res (parseHexCodeUnit s) (\<lambda>first.
       if 56320 \<le> first \<and> first \<le> 57343 then Inl UnpairedLow
       else if first < 55296 \<or> first > 56319 then Inr (first, 4)
       else if length (drop 4 s) < 2 \<or> take 2 (drop 4 s) \<noteq> [CHR 0x5C, CHR ''u''] then Inl UnpairedHigh
       else bind_res (parseHexCodeUnit (drop 6 s)) (\<lambda>second.
         if second < 56320 \<or> second > 57343 then Inl HighWithoutLow
         else Inr ((first - 55296) * 1024 + (second - 56320) + 65536, 10)))"

text \<open>What an escape writes, and how many bytes after the backslash it takes.\<close>

definition parseEscape :: "bytes \<Rightarrow> json_error + bytes \<times> nat" where
  "parseEscape s =
     (case s of
        [] \<Rightarrow> Inl UnterminatedEscape
      | e # r \<Rightarrow>
          if e = CHR 0x22 \<or> e = CHR 0x5C \<or> e = CHR ''/'' then Inr ([e], 1)
          else if e = CHR ''b'' then Inr ([CHR 0x08], 1)
          else if e = CHR ''f'' then Inr ([CHR 0x0C], 1)
          else if e = CHR ''n'' then Inr ([CHR 0x0A], 1)
          else if e = CHR ''r'' then Inr ([CHR 0x0D], 1)
          else if e = CHR ''t'' then Inr ([CHR 0x09], 1)
          else if e = CHR ''u'' then
            bind_res (parseUnicodeEscape r) (\<lambda>(rune, n). Inr (encode_rune rune, Suc n))
          else Inl (InvalidEscape e))"

definition prepend :: "bytes \<Rightarrow> json_error + bytes \<times> bytes \<Rightarrow> json_error + bytes \<times> bytes" where
  "prepend out r = bind_res r (\<lambda>(t, rest). Inr (out @ t, rest))"

function parse_chars :: "bytes \<Rightarrow> json_error + bytes \<times> bytes" where
  "parse_chars [] = Inl UnterminatedString"
| "parse_chars (c # s) =
     (if c = CHR 0x22 then Inr ([], s)
      else if c = CHR 0x5C then
        (case parseEscape s of
           Inl e \<Rightarrow> Inl e
         | Inr (out, n) \<Rightarrow> prepend out (parse_chars (drop n s)))
      else if code c < 32 then Inl ControlCharacter
      else if fst (decode_rune (c # s)) = rune_error \<and> snd (decode_rune (c # s)) = 1 then Inl InvalidUTF8
      else prepend (encode_rune (fst (decode_rune (c # s))))
             (parse_chars (drop (snd (decode_rune (c # s)) - 1) s)))"
  by pat_completeness auto
termination by (relation "measure length") auto

declare parse_chars.simps(2) [simp del]

definition parseString :: "bytes \<Rightarrow> json_error + bytes \<times> bytes" where
  "parseString s =
     (case s of
        [] \<Rightarrow> Inl ExpectedString
      | c # r \<Rightarrow> if c = CHR 0x22 then parse_chars r else Inl ExpectedString)"

section \<open>Numbers\<close>

definition digits_of :: "bytes \<Rightarrow> bytes" where "digits_of s = takeWhile is_digit s"
definition after_digits :: "bytes \<Rightarrow> bytes" where "after_digits s = dropWhile is_digit s"

definition starts_digit :: "bytes \<Rightarrow> bool" where
  "starts_digit s = (case s of [] \<Rightarrow> False | c # _ \<Rightarrow> is_digit c)"

text \<open>The integer part, the fraction and the exponent, with what is left.\<close>

definition scan_integer :: "bytes \<Rightarrow> json_error + bytes \<times> bytes" where
  "scan_integer s =
     (case s of
        [] \<Rightarrow> Inl InvalidNumber
      | c # r \<Rightarrow>
          if c = CHR ''0'' then (if starts_digit r then Inl LeadingZero else Inr ([c], r))
          else if is_digit c then Inr (digits_of s, after_digits s)
          else Inl InvalidNumber)"

definition scan_fraction :: "bytes \<Rightarrow> json_error + bytes \<times> bytes" where
  "scan_fraction s =
     (case s of
        [] \<Rightarrow> Inr ([], s)
      | c # r \<Rightarrow>
          if c = CHR ''.'' then
            (if digits_of r = [] then Inl EmptyFraction else Inr (c # digits_of r, after_digits r))
          else Inr ([], s))"

definition scan_sign :: "bytes \<Rightarrow> bytes \<times> bytes" where
  "scan_sign s =
     (case s of [] \<Rightarrow> ([], []) | c # r \<Rightarrow> if c = CHR ''+'' \<or> c = CHR ''-'' then ([c], r) else ([], s))"

definition scan_exponent :: "bytes \<Rightarrow> json_error + bytes \<times> bytes" where
  "scan_exponent s =
     (case s of
        [] \<Rightarrow> Inr ([], s)
      | c # r \<Rightarrow>
          if c = CHR ''e'' \<or> c = CHR ''E'' then
            (let (sign, t) = scan_sign r in
             if digits_of t = [] then Inl EmptyExponent
             else Inr (c # sign @ digits_of t, after_digits t))
          else Inr ([], s))"

text \<open>
  \<^verbatim>\<open>strconv.ParseFloat\<close> on a scanned literal, as far as the parser looks at the result: whether
  it overflows (the nearest float would be infinite) and whether it is zero (at most half
  the smallest subnormal). The literal's value is \<open>mantissa * 10 ^ exponent\<close>.
\<close>

definition signed_value :: "bytes \<Rightarrow> int" where
  "signed_value s =
     (case s of
        [] \<Rightarrow> 0
      | c # r \<Rightarrow> if c = CHR ''-'' then - int (digits_value r)
                else if c = CHR ''+'' then int (digits_value r) else int (digits_value s))"

definition literal_mantissa :: "bytes \<Rightarrow> bytes \<Rightarrow> nat" where
  "literal_mantissa ip fp = digits_value (ip @ tl fp)"

definition literal_exponent :: "bytes \<Rightarrow> bytes \<Rightarrow> int" where
  "literal_exponent fp ep = signed_value (tl ep) - int (length (tl fp))"

definition overflows :: "nat \<Rightarrow> int \<Rightarrow> bool" where
  "overflows m e \<longleftrightarrow>
     (if 0 \<le> e then m * 10 ^ nat e \<ge> (2 ^ 54 - 1) * 2 ^ 970
      else m \<ge> (2 ^ 54 - 1) * 2 ^ 970 * 10 ^ nat (- e))"

definition rounds_to_zero :: "nat \<Rightarrow> int \<Rightarrow> bool" where
  "rounds_to_zero m e \<longleftrightarrow> (if 0 \<le> e then m = 0 else m * 2 ^ 1075 \<le> 10 ^ nat (- e))"

definition check_float :: "bool \<Rightarrow> bytes \<Rightarrow> bytes \<Rightarrow> bytes \<Rightarrow> json_error option" where
  "check_float neg ip fp ep =
     (let m = literal_mantissa ip fp; e = literal_exponent fp ep in
      if overflows m e then Some NotFinite
      else if neg \<and> rounds_to_zero m e then Some NegativeZero
      else None)"

definition parseNumber :: "bytes \<Rightarrow> json_error + gval \<times> bytes" where
  "parseNumber s =
     (let neg = has_prefix s ''-''; s1 = (if neg then tl s else s) in
      if neg \<and> s1 = [] then Inl TruncatedNumber
      else
        bind_res (scan_integer s1) (\<lambda>(ip, s2).
        bind_res (scan_fraction s2) (\<lambda>(fp, s3).
        bind_res (scan_exponent s3) (\<lambda>(ep, s4).
          check_then (check_float neg ip fp ep)
            (Inr (VNumber ((if neg then ''-'' else []) @ ip @ fp @ ep), s4))))))"

section \<open>Values\<close>

fun parse_value :: "nat \<Rightarrow> nat \<Rightarrow> bytes \<Rightarrow> json_error + gval \<times> bytes"
  and parse_members :: "nat \<Rightarrow> nat \<Rightarrow> bytes list \<Rightarrow> bytes \<Rightarrow> json_error + object \<times> bytes"
  and parse_elements :: "nat \<Rightarrow> nat \<Rightarrow> bytes \<Rightarrow> json_error + gval list \<times> bytes" where
  "parse_value 0 depth s = Inl OutOfFuel"
| "parse_value (Suc fuel) depth s =
     (case skipWhitespace s of
        [] \<Rightarrow> Inl EndOfInput
      | c # r \<Rightarrow>
          if c = CHR ''{'' then
            (if depth \<ge> maxJSONDepth then Inl NestingTooDeep
             else (let t = skipWhitespace r in
               if has_prefix t ''}'' then Inr (VObj [], tl t)
               else bind_res (parse_members fuel (Suc depth) [] t) (\<lambda>(m, rest). Inr (VObj m, rest))))
          else if c = CHR ''['' then
            (if depth \<ge> maxJSONDepth then Inl NestingTooDeep
             else (let t = skipWhitespace r in
               if has_prefix t '']'' then Inr (VArr [], tl t)
               else bind_res (parse_elements fuel (Suc depth) t) (\<lambda>(xs, rest). Inr (VArr xs, rest))))
          else if c = CHR 0x22 then
            bind_res (parseString (c # r)) (\<lambda>(str, rest). Inr (VStr str, rest))
          else if c = CHR ''t'' then parseLiteral ''true'' (VBool True) (c # r)
          else if c = CHR ''f'' then parseLiteral ''false'' (VBool False) (c # r)
          else if c = CHR ''n'' then parseLiteral ''null'' VNull (c # r)
          else parseNumber (c # r))"
| "parse_members 0 depth names s = Inl OutOfFuel"
| "parse_members (Suc fuel) depth names s =
     bind_res (parseString (skipWhitespace s)) (\<lambda>(name, s1).
       if List.member names name then Inl (DuplicateName name)
       else (let s2 = skipWhitespace s1 in
         if \<not> has_prefix s2 '':'' then Inl ExpectedColon
         else bind_res (parse_value fuel depth (tl s2)) (\<lambda>(v, s3).
           let s4 = skipWhitespace s3 in
           if has_prefix s4 ''}'' then Inr ([(name, v)], tl s4)
           else if has_prefix s4 '','' then
             bind_res (parse_members fuel depth (name # names) (tl s4))
               (\<lambda>(m, rest). Inr ((name, v) # m, rest))
           else Inl ExpectedCommaOrBrace)))"
| "parse_elements 0 depth s = Inl OutOfFuel"
| "parse_elements (Suc fuel) depth s =
     bind_res (parse_value fuel depth s) (\<lambda>(v, s1).
       let s2 = skipWhitespace s1 in
       if has_prefix s2 '']'' then Inr ([v], tl s2)
       else if has_prefix s2 '','' then
         bind_res (parse_elements fuel depth (tl s2)) (\<lambda>(xs, rest). Inr (v # xs, rest))
       else Inl ExpectedCommaOrBracket)"

definition parseDocument :: "bytes \<Rightarrow> json_error + gval" where
  "parseDocument s =
     bind_res (parse_value (2 * length s + 2) 0 (skipWhitespace s)) (\<lambda>(v, rest).
       if skipWhitespace rest = [] then Inr v else Inl TrailingByte)"

text \<open>
  \<^verbatim>\<open>Canonicalize\<close>: the checks of the program around the canonicalizer of another package,
  the parameter \<open>transform\<close>.
\<close>

datatype canonical_error = NotUTF8 | NotIJSON json_error | TransformFailed

definition Canonicalize :: "(bytes \<Rightarrow> bytes option) \<Rightarrow> bytes \<Rightarrow> canonical_error + bytes" where
  "Canonicalize transform input =
     (if \<not> valid_utf8 input then Inl NotUTF8
      else (case parseDocument input of
              Inl e \<Rightarrow> Inl (NotIJSON e)
            | Inr _ \<Rightarrow> (case transform input of None \<Rightarrow> Inl TransformFailed | Some c \<Rightarrow> Inr c)))"

end
