(* ===== verification/JsonGrammar.thy ===== *)
theory JsonGrammar
  imports StrictJson
begin

text \<open>
  The language the strict parser accepts, as a grammar that does not mention the parser: which
  text denotes which string, number and value, white space between tokens, member names
  distinct within an object, and at most a given number of nested containers. The theorems
  say that the parser accepts exactly the texts of the grammar, with the value they denote.
\<close>

section \<open>The grammar\<close>

definition ws :: "bytes \<Rightarrow> bool" where "ws s \<longleftrightarrow> list_all is_ws s"

definition short_escape :: "char \<Rightarrow> char option" where
  "short_escape e =
     (if e = CHR 0x22 \<or> e = CHR 0x5C \<or> e = CHR ''/'' then Some e
      else if e = CHR ''b'' then Some CHR 0x08 else if e = CHR ''f'' then Some CHR 0x0C
      else if e = CHR ''n'' then Some CHR 0x0A else if e = CHR ''r'' then Some CHR 0x0D
      else if e = CHR ''t'' then Some CHR 0x09 else None)"

definition hex4 :: "bytes \<Rightarrow> nat \<Rightarrow> bool" where
  "hex4 h n \<longleftrightarrow> length h = 4 \<and> list_all (\<lambda>c. hex_digit_value c \<noteq> None) h \<and>
     n = foldl (\<lambda>a c. 16 * a + the (hex_digit_value c)) 0 h"

text \<open>What may follow a backslash, and what it denotes.\<close>

inductive jescape :: "bytes \<Rightarrow> bytes \<Rightarrow> bool" where
  esc_short: "short_escape e = Some c \<Longrightarrow> jescape [e] [c]"
| esc_unicode: "\<lbrakk>hex4 h n; n < 55296 \<or> 57343 < n\<rbrakk> \<Longrightarrow> jescape (CHR ''u'' # h) (encode_rune n)"
| esc_pair: "\<lbrakk>hex4 h m; 55296 \<le> m; m \<le> 56319; hex4 g n; 56320 \<le> n; n \<le> 57343\<rbrakk>
    \<Longrightarrow> jescape (CHR ''u'' # h @ CHR 0x5C # CHR ''u'' # g)
         (encode_rune ((m - 55296) * 1024 + (n - 56320) + 65536))"

text \<open>The text between the quotes and the string it denotes.\<close>

inductive jchars :: "bytes \<Rightarrow> bytes \<Rightarrow> bool" where
  chars_end: "jchars [] []"
| chars_rune: "\<lbrakk>valid_rune r; 32 \<le> r; r \<noteq> 34; r \<noteq> 92; jchars t s\<rbrakk>
    \<Longrightarrow> jchars (encode_rune r @ t) (encode_rune r @ s)"
| chars_escape: "\<lbrakk>jescape e c; jchars t s\<rbrakk> \<Longrightarrow> jchars (CHR 0x5C # e @ t) (c @ s)"

definition jstring :: "bytes \<Rightarrow> bytes \<Rightarrow> bool" where
  "jstring t s \<longleftrightarrow> (\<exists>u. t = CHR 0x22 # u @ [CHR 0x22] \<and> jchars u s)"

definition jint :: "bytes \<Rightarrow> bool" where
  "jint ip \<longleftrightarrow> ip = ''0'' \<or> (ip \<noteq> [] \<and> hd ip \<noteq> CHR ''0'' \<and> list_all is_digit ip)"

definition jfrac :: "bytes \<Rightarrow> bool" where
  "jfrac fp \<longleftrightarrow> fp = [] \<or> (\<exists>d. fp = CHR ''.'' # d \<and> d \<noteq> [] \<and> list_all is_digit d)"

definition jexp :: "bytes \<Rightarrow> bool" where
  "jexp ep \<longleftrightarrow> ep = [] \<or>
     (\<exists>e sign d. ep = e # sign @ d \<and> (e = CHR ''e'' \<or> e = CHR ''E'') \<and>
        (sign = [] \<or> sign = ''+'' \<or> sign = ''-'') \<and> d \<noteq> [] \<and> list_all is_digit d)"

definition jnumber :: "bytes \<Rightarrow> bool" where
  "jnumber t \<longleftrightarrow> (\<exists>neg ip fp ep. t = (if neg then ''-'' else []) @ ip @ fp @ ep \<and>
     jint ip \<and> jfrac fp \<and> jexp ep \<and> check_float neg ip fp ep = None)"

text \<open>
  \<open>jvalue n t v\<close>: text \<open>t\<close> denotes \<open>v\<close> and nests at most \<open>n\<close> containers; \<open>jmembers\<close> and
  \<open>jelements\<close> are the non-empty insides of objects and arrays, white space included.
\<close>

inductive jvalue :: "nat \<Rightarrow> bytes \<Rightarrow> gval \<Rightarrow> bool"
  and jmembers :: "nat \<Rightarrow> bytes list \<Rightarrow> bytes \<Rightarrow> object \<Rightarrow> bool"
  and jelements :: "nat \<Rightarrow> bytes \<Rightarrow> gval list \<Rightarrow> bool" where
  v_null: "jvalue n ''null'' VNull"
| v_true: "jvalue n ''true'' (VBool True)"
| v_false: "jvalue n ''false'' (VBool False)"
| v_string: "jstring t s \<Longrightarrow> jvalue n t (VStr s)"
| v_number: "jnumber t \<Longrightarrow> jvalue n t (VNumber t)"
| v_empty_object: "ws w \<Longrightarrow> jvalue (Suc n) (CHR ''{'' # w @ ''}'') (VObj [])"
| v_object: "jmembers n [] t m \<Longrightarrow> jvalue (Suc n) (CHR ''{'' # t @ ''}'') (VObj m)"
| v_empty_array: "ws w \<Longrightarrow> jvalue (Suc n) (CHR ''['' # w @ '']'') (VArr [])"
| v_array: "jelements n t xs \<Longrightarrow> jvalue (Suc n) (CHR ''['' # t @ '']'') (VArr xs)"
| m_one: "\<lbrakk>ws w1; jstring t s; s \<notin> set names; ws w2; ws w3; jvalue n u v; ws w4\<rbrakk>
    \<Longrightarrow> jmembers n names (w1 @ t @ w2 @ CHR '':'' # w3 @ u @ w4) [(s, v)]"
| m_more: "\<lbrakk>ws w1; jstring t s; s \<notin> set names; ws w2; ws w3; jvalue n u v; ws w4;
     jmembers n (s # names) r m\<rbrakk>
    \<Longrightarrow> jmembers n names (w1 @ t @ w2 @ CHR '':'' # w3 @ u @ w4 @ CHR '','' # r) ((s, v) # m)"
| e_one: "\<lbrakk>ws w1; jvalue n u v; ws w2\<rbrakk> \<Longrightarrow> jelements n (w1 @ u @ w2) [v]"
| e_more: "\<lbrakk>ws w1; jvalue n u v; ws w2; jelements n r xs\<rbrakk>
    \<Longrightarrow> jelements n (w1 @ u @ w2 @ CHR '','' # r) (v # xs)"

definition jdocument :: "bytes \<Rightarrow> gval \<Rightarrow> bool" where
  "jdocument t v \<longleftrightarrow> (\<exists>w1 u w2. t = w1 @ u @ w2 \<and> ws w1 \<and> ws w2 \<and> jvalue maxJSONDepth u v)"

section \<open>Lengths and fuel\<close>

lemma skipWhitespace_length: "length (skipWhitespace s) \<le> length s"
  by (simp add: skipWhitespace_def length_dropWhile_le)

lemma skipWhitespace_split: "\<exists>w. ws w \<and> s = w @ skipWhitespace s"
  unfolding skipWhitespace_def ws_def
  by (metis list_all_iff set_takeWhileD takeWhile_dropWhile_id)

lemma skipWhitespace_not_ws: "skipWhitespace s = c # r \<Longrightarrow> \<not> is_ws c"
  unfolding skipWhitespace_def using hd_dropWhile [of is_ws s] by fastforce

lemma skipWhitespace_idem [simp]: "skipWhitespace (skipWhitespace s) = skipWhitespace s"
  by (simp add: skipWhitespace_def dropWhile_idem)

lemma skipWhitespace_append: "ws w \<Longrightarrow> skipWhitespace (w @ s) = skipWhitespace s"
  by (induction w) (auto simp: ws_def skipWhitespace_def)

lemma skipWhitespace_Cons [simp]: "\<not> is_ws c \<Longrightarrow> skipWhitespace (c # s) = c # s"
  by (simp add: skipWhitespace_def)

lemma hex4_length: "hex4 h n \<Longrightarrow> length h = 4"
  by (auto simp: hex4_def)

lemma parseHexCodeUnit_hex4:
  assumes "hex4 h n"
  shows "parseHexCodeUnit (h @ r) = Inr n"
proof -
  obtain a b c d where h: "h = [a, b, c, d]"
    using assms by (auto simp: hex4_def length_Suc_conv eval_nat_numeral)
  show ?thesis
    using assms by (auto simp: h hex4_def parseHexCodeUnit_def)
qed

lemma parseHexCodeUnit_Inr:
  assumes "parseHexCodeUnit s = Inr n"
  shows "\<exists>h r. s = h @ r \<and> hex4 h n"
proof -
  obtain a b c d r where s: "s = [a, b, c, d] @ r"
    using assms by (auto simp: parseHexCodeUnit_def split: list.splits)
  have "hex4 [a, b, c, d] n"
    using assms by (auto simp: s hex4_def parseHexCodeUnit_def split: option.splits)
  with s show ?thesis by blast
qed

lemma parseEscape_Cons:
  "parseEscape (c # r) =
     (case short_escape c of
        Some x \<Rightarrow> Inr ([x], 1)
      | None \<Rightarrow>
          if c = CHR ''u'' then bind_res (parseUnicodeEscape r) (\<lambda>(rune, n). Inr (encode_rune rune, Suc n))
          else Inl (InvalidEscape c))"
  by (simp add: parseEscape_def short_escape_def)

lemma short_escape_u [simp]: "short_escape CHR ''u'' = None"
  by (simp add: short_escape_def)

lemma parseEscape_sound:
  assumes "parseEscape s = Inr (out, n)"
  shows "\<exists>e. s = e @ drop n s \<and> length e = n \<and> 1 \<le> n \<and> jescape e out"
proof -
  obtain c r where s: "s = c # r" using assms by (cases s) (auto simp: parseEscape_def)
  show ?thesis
  proof (cases "c = CHR ''u''")
    case False
    then obtain x where "short_escape c = Some x" "out = [x]" "n = 1"
      using assms by (auto simp: s parseEscape_Cons split: option.splits)
    then show ?thesis using esc_short [of c x] by (intro exI [of _ "[c]"]) (simp add: s)
  next
    case True
    then obtain rune k where u: "parseUnicodeEscape r = Inr (rune, k)" "out = encode_rune rune" "n = Suc k"
      using assms by (auto simp: s parseEscape_Cons err_simps)
    then obtain m where "parseHexCodeUnit r = Inr m" by (auto simp: parseUnicodeEscape_def err_simps)
    then obtain h q where h: "r = h @ q" "hex4 h m" using parseHexCodeUnit_Inr by blast
    show ?thesis
    proof (cases "m < 55296 \<or> 57343 < m")
      case True
      then have "rune = m" "k = 4"
        using u(1) h by (auto simp: parseUnicodeEscape_def parseHexCodeUnit_hex4 split: if_splits)
      with True u h \<open>c = CHR ''u''\<close> esc_unicode [of h m] show ?thesis
        by (intro exI [of _ "CHR ''u'' # h"]) (simp add: s hex4_length)
    next
      case False
      have pair: "bind_res (parseHexCodeUnit (drop 2 q)) (\<lambda>second.
          if second < 56320 \<or> second > 57343 then Inl HighWithoutLow
          else Inr ((m - 55296) * 1024 + (second - 56320) + 65536, 10)) = Inr (rune, k)"
        and q2: "take 2 q = [CHR 0x5C, CHR ''u'']" and m: "m \<le> 56319"
        using u(1) h False hex4_length [OF h(2)]
        by (auto simp: parseUnicodeEscape_def parseHexCodeUnit_hex4 split: if_splits)
      from pair obtain w where w: "parseHexCodeUnit (drop 2 q) = Inr w" "56320 \<le> w" "w \<le> 57343"
          "rune = (m - 55296) * 1024 + (w - 56320) + 65536" "k = 10"
        by (auto simp: err_simps split: if_splits)
      then obtain g q' where g: "drop 2 q = g @ q'" "hex4 g w" using parseHexCodeUnit_Inr by blast
      have q: "q = CHR 0x5C # CHR ''u'' # g @ q'" using q2 g(1) append_take_drop_id [of 2 q] by simp
      have "jescape (CHR ''u'' # h @ CHR 0x5C # CHR ''u'' # g) out"
        using esc_pair [OF h(2) _ m g(2) w(2,3)] False w(4) u(2) by simp
      then show ?thesis
        using q h u(3) w(5) \<open>c = CHR ''u''\<close> hex4_length [OF h(2)] hex4_length [OF g(2)]
        by (intro exI [of _ "CHR ''u'' # h @ CHR 0x5C # CHR ''u'' # g"]) (simp add: s)
    qed
  qed
qed

lemma parseEscape_complete: "jescape e out \<Longrightarrow> parseEscape (e @ t) = Inr (out, length e)"
proof (induction rule: jescape.induct)
  case (esc_short e c)
  then show ?case by (simp add: parseEscape_Cons)
next
  case (esc_unicode h n)
  then show ?case
    by (auto simp: parseEscape_Cons parseUnicodeEscape_def parseHexCodeUnit_hex4 hex4_length)
next
  case (esc_pair h m g n)
  then show ?case
    using hex4_length [OF esc_pair(1)] hex4_length [OF esc_pair(4)]
    by (simp add: parseEscape_Cons parseUnicodeEscape_def parseHexCodeUnit_hex4)
qed

lemma parseEscape_count: "parseEscape s = Inr (out, n) \<Longrightarrow> 1 \<le> n \<and> n \<le> length s"
  using parseEscape_sound [of s out n] by (metis length_append le_add1)

lemma prepend_Inr: "prepend out r = Inr (t, rest) \<longleftrightarrow> (\<exists>u. r = Inr (u, rest) \<and> t = out @ u)"
  by (auto simp: prepend_def err_simps)

lemma parse_chars_length: "parse_chars s = Inr (t, rest) \<Longrightarrow> length rest < length s"
proof (induction s arbitrary: t rest rule: parse_chars.induct)
  case (2 c s)
  show ?case
  proof (cases "c = CHR 0x5C")
    case True
    then obtain out n u where "parseEscape s = Inr (out, n)" "parse_chars (drop n s) = Inr (u, rest)"
      using "2.prems" by (auto simp: parse_chars.simps prepend_Inr split: sum.splits)
    with "2.IH"(1) [OF _ True this(1) refl this(2)] True show ?thesis by simp
  next
    case False
    with "2.prems" consider "c = CHR 0x22" "rest = s"
      | u where "parse_chars (drop (snd (decode_rune (c # s)) - 1) s) = Inr (u, rest)"
          "c \<noteq> CHR 0x22" "\<not> code c < 32"
          "\<not> (fst (decode_rune (c # s)) = rune_error \<and> snd (decode_rune (c # s)) = 1)"
      by (auto simp: parse_chars.simps prepend_Inr simp del: decode_rune.simps split: if_splits)
    then show ?thesis
    proof cases
      case 2
      with "2.IH"(2) [OF 2(2) False 2(3,4,1)] show ?thesis by simp
    qed simp
  qed
qed simp

lemma parseString_length: "parseString s = Inr (t, rest) \<Longrightarrow> length rest + 2 \<le> length s"
  using parse_chars_length by (fastforce simp: parseString_def split: list.splits if_splits)

section \<open>Strings\<close>

lemma encode_rune_first:
  assumes "valid_rune r" and "32 \<le> r" and "r \<noteq> 34" and "r \<noteq> 92"
  obtains c u where "encode_rune r = c # u" "c \<noteq> CHR 0x22" "c \<noteq> CHR 0x5C" "\<not> code c < 32"
proof -
  obtain c u where e: "encode_rune r = c # u" by (cases "encode_rune r") auto
  have d: "decode_rune (c # u) = (r, length (c # u))"
    using decode_encode_rune [OF assms(1), of "[]"] e by simp
  have low: "code c = r" if "code c < 128" using d decode_rune_ascii [OF that, of u] by simp
  show ?thesis
  proof (rule that [OF e])
    show "c \<noteq> CHR 0x22" using low assms(3) by (auto simp: code_def)
    show "c \<noteq> CHR 0x5C" using low assms(4) by (auto simp: code_def)
    show "\<not> code c < 32" using low assms(2) by auto
  qed
qed

lemma parse_chars_complete: "jchars t str \<Longrightarrow> parse_chars (t @ CHR 0x22 # rest) = Inr (str, rest)"
proof (induction rule: jchars.induct)
  case chars_end
  show ?case by (simp add: parse_chars.simps)
next
  case (chars_rune r t s)
  obtain c u where c: "encode_rune r = c # u" "c \<noteq> CHR 0x22" "c \<noteq> CHR 0x5C" "\<not> code c < 32"
    using encode_rune_first [OF chars_rune.hyps(1-4)] by blast
  have d: "decode_rune (c # u @ t @ CHR 0x22 # rest) = (r, Suc (length u))"
    using decode_encode_rune [OF chars_rune.hyps(1), of "t @ CHR 0x22 # rest"] c(1) by simp
  have "\<not> (r = rune_error \<and> Suc (length u) = 1)"
  proof
    assume "r = rune_error \<and> Suc (length u) = 1"
    then have "length (encode_rune rune_error) = 1" using c(1) by simp
    then show False by (simp add: encode_rune_def rune_error_def valid_rune_def)
  qed
  with c d chars_rune.IH show ?case
    by (simp add: parse_chars.simps prepend_def del: decode_rune.simps)
next
  case (chars_escape e c t s)
  have "parseEscape (e @ t @ CHR 0x22 # rest) = Inr (c, length e)"
    using chars_escape.hyps by (intro parseEscape_complete)
  with chars_escape.IH show ?case by (simp add: parse_chars.simps prepend_def)
qed

lemma parse_chars_sound: "parse_chars s = Inr (str, rest) \<Longrightarrow> \<exists>t. s = t @ CHR 0x22 # rest \<and> jchars t str"
proof (induction s arbitrary: str rest rule: parse_chars.induct)
  case (2 c s)
  show ?case
  proof (cases "c = CHR 0x5C")
    case True
    then obtain out n u where e: "parseEscape s = Inr (out, n)" and u: "parse_chars (drop n s) = Inr (u, rest)"
        and str: "str = out @ u"
      using "2.prems" by (auto simp: parse_chars.simps prepend_Inr split: sum.splits)
    obtain x where x: "s = x @ drop n s" "jescape x out" using parseEscape_sound [OF e] by blast
    obtain t where t: "drop n s = t @ CHR 0x22 # rest" "jchars t u"
      using "2.IH"(1) [OF _ True e refl u] True by auto
    have "c # s = (CHR 0x5C # x @ t) @ CHR 0x22 # rest" using x(1) t(1) True by simp
    moreover have "jchars (CHR 0x5C # x @ t) str" unfolding str using x(2) t(2) by (rule chars_escape)
    ultimately show ?thesis by blast
  next
    case False
    let ?r = "fst (decode_rune (c # s))" and ?w = "snd (decode_rune (c # s))"
    from "2.prems" False consider (quote) "c = CHR 0x22" "rest = s" "str = []"
      | (rune) u where "parse_chars (drop (?w - 1) s) = Inr (u, rest)" "str = encode_rune ?r @ u"
          "c \<noteq> CHR 0x22" "\<not> code c < 32" "\<not> (?r = rune_error \<and> ?w = 1)"
      by (auto simp: parse_chars.simps prepend_Inr simp del: decode_rune.simps split: if_splits)
    then show ?thesis
    proof cases
      case quote
      then show ?thesis by (intro exI [of _ "[]"]) (simp add: chars_end)
    next
      case rune
      obtain t where t: "drop (?w - 1) s = t @ CHR 0x22 # rest" "jchars t u"
        using "2.IH"(2) [OF rune(3) False rune(4,5,1)] by blast
      have v: "valid_rune ?r" "c # s = encode_rune ?r @ drop ?w (c # s)"
        using decode_rune_valid [of "c # s"] rune(5) by auto
      have w: "1 \<le> ?w" using decode_rune_width [of "c # s"] by simp
      then have "drop ?w (c # s) = drop (?w - 1) s" by (cases ?w) auto
      then have "c # s = encode_rune ?r @ t @ CHR 0x22 # rest" using v(2) t(1) by metis
      then have eq: "c # s = (encode_rune ?r @ t) @ CHR 0x22 # rest" by simp
      have "32 \<le> ?r \<and> ?r \<noteq> 34 \<and> ?r \<noteq> 92"
      proof (cases "code c < 128")
        case True
        then have "?r = code c" by (simp del: decode_rune.simps)
        moreover have "code c \<noteq> code CHR 0x22" "code c \<noteq> code CHR 0x5C" using rune(3) False by (simp_all add: code_inj)
        ultimately show ?thesis using rune(4) by (simp add: code_def)
      next
        case high: False
        then have "128 \<le> ?r" by (intro decode_rune_high) simp
        then show ?thesis by simp
      qed
      then have "jchars (encode_rune ?r @ t) str" unfolding rune(2) using v(1) t(2) by (intro chars_rune) auto
      with eq show ?thesis by blast
    qed
  qed
qed simp

lemma parseString_sound: "parseString s = Inr (str, rest) \<Longrightarrow> \<exists>t. s = t @ rest \<and> jstring t str"
  using parse_chars_sound by (fastforce simp: parseString_def jstring_def split: list.splits if_splits)

lemma parseString_complete: "jstring t str \<Longrightarrow> parseString (t @ rest) = Inr (str, rest)"
  by (auto simp: parseString_def jstring_def parse_chars_complete)

section \<open>Numbers\<close>

definition no_digit :: "bytes \<Rightarrow> bool" where
  "no_digit r \<longleftrightarrow> (case r of [] \<Rightarrow> True | c # _ \<Rightarrow> \<not> is_digit c)"

definition number_end :: "bytes \<Rightarrow> bool" where
  "number_end r \<longleftrightarrow>
     (case r of [] \<Rightarrow> True
      | c # _ \<Rightarrow> \<not> is_digit c \<and> c \<noteq> CHR ''.'' \<and> c \<noteq> CHR ''e'' \<and> c \<noteq> CHR ''E'')"

lemma digits_split: "digits_of s @ after_digits s = s"
  by (simp add: digits_of_def after_digits_def)

lemma digits_of_digits: "list_all is_digit (digits_of s)"
  unfolding digits_of_def list_all_iff using set_takeWhileD by fastforce

lemma digits_append:
  assumes "list_all is_digit d" and "no_digit r"
  shows "digits_of (d @ r) = d" and "after_digits (d @ r) = r"
proof -
  have "takeWhile is_digit r = []" "dropWhile is_digit r = r"
    using assms(2) by (auto simp: no_digit_def split: list.splits)
  then show "digits_of (d @ r) = d" and "after_digits (d @ r) = r"
    using assms(1) by (auto simp: digits_of_def after_digits_def list_all_iff)
qed

lemma digit_not_special:
  "is_digit c \<Longrightarrow> c \<noteq> CHR ''-'' \<and> c \<noteq> CHR ''+'' \<and> c \<noteq> CHR ''.'' \<and> c \<noteq> CHR ''e'' \<and> c \<noteq> CHR ''E''"
  by (auto simp: is_digit_def less_eq_char_def)

lemma not_digit_special [simp]:
  "\<not> is_digit CHR ''-''" "\<not> is_digit CHR ''+''" "\<not> is_digit CHR ''.''" "\<not> is_digit CHR ''e''"
  "\<not> is_digit CHR ''E''" "is_digit CHR ''0''"
  by (auto simp: is_digit_def less_eq_char_def)

lemma scan_integer_sound: "scan_integer s = Inr (ip, r) \<Longrightarrow> s = ip @ r \<and> jint ip"
  using digits_split [of s] digits_of_digits [of s]
  by (auto simp: scan_integer_def jint_def digits_of_def split: list.splits if_splits)

lemma scan_integer_complete: "jint ip \<Longrightarrow> no_digit r \<Longrightarrow> scan_integer (ip @ r) = Inr (ip, r)"
proof -
  assume ip: "jint ip" and r: "no_digit r"
  show ?thesis
  proof (cases "ip = ''0''")
    case True
    then show ?thesis using r by (auto simp: scan_integer_def starts_digit_def no_digit_def split: list.splits)
  next
    case False
    then have "ip \<noteq> []" "hd ip \<noteq> CHR ''0''" "list_all is_digit ip" using ip by (auto simp: jint_def)
    with digits_append [OF this(3) r] show ?thesis by (cases ip) (auto simp: scan_integer_def)
  qed
qed

lemma scan_fraction_sound: "scan_fraction s = Inr (fp, r) \<Longrightarrow> s = fp @ r \<and> jfrac fp"
  using digits_split digits_of_digits
  by (fastforce simp: scan_fraction_def jfrac_def split: list.splits if_splits)

lemma scan_fraction_complete:
  assumes "jfrac fp" and "no_digit r" and "r = [] \<or> hd r \<noteq> CHR ''.''"
  shows "scan_fraction (fp @ r) = Inr (fp, r)"
  using assms(1) unfolding jfrac_def
proof (elim disjE exE conjE)
  assume "fp = []"
  then show ?thesis using assms(3) by (cases r) (auto simp: scan_fraction_def)
next
  fix d
  assume "fp = CHR ''.'' # d" "d \<noteq> []" "list_all is_digit d"
  with digits_append [OF this(3) assms(2)] show ?thesis by (simp add: scan_fraction_def)
qed

lemma scan_sign_split: "\<exists>sign t. scan_sign s = (sign, t) \<and> s = sign @ t \<and> (sign = [] \<or> sign = ''+'' \<or> sign = ''-'')"
  by (auto simp: scan_sign_def split: list.splits)

lemma scan_exponent_sound: "scan_exponent s = Inr (ep, r) \<Longrightarrow> s = ep @ r \<and> jexp ep"
proof -
  assume s: "scan_exponent s = Inr (ep, r)"
  show ?thesis
  proof (cases "s \<noteq> [] \<and> (hd s = CHR ''e'' \<or> hd s = CHR ''E'')")
    case True
    then obtain c q where q: "s = c # q" "c = CHR ''e'' \<or> c = CHR ''E''" by (cases s) auto
    obtain sign t where st: "scan_sign q = (sign, t)" "q = sign @ t" "sign = [] \<or> sign = ''+'' \<or> sign = ''-''"
      using scan_sign_split by blast
    have "digits_of t \<noteq> []" "ep = c # sign @ digits_of t" "r = after_digits t"
      using s q st(1) by (auto simp: scan_exponent_def split: if_splits)
    then show ?thesis
      using q st digits_split [of t] digits_of_digits [of t] unfolding jexp_def by auto
  qed (use s in \<open>auto simp: scan_exponent_def jexp_def split: list.splits if_splits\<close>)
qed

lemma scan_exponent_complete:
  assumes "jexp ep" and "number_end r"
  shows "scan_exponent (ep @ r) = Inr (ep, r)"
proof (cases "ep = []")
  case True
  then show ?thesis using assms(2) by (cases r) (auto simp: scan_exponent_def number_end_def)
next
  case False
  then obtain e sign d where ep: "ep = e # sign @ d" and e: "e = CHR ''e'' \<or> e = CHR ''E''"
    and sign: "sign = [] \<or> sign = ''+'' \<or> sign = ''-''" and d: "d \<noteq> []" "list_all is_digit d"
    using assms(1) unfolding jexp_def by blast
  have nd: "no_digit r" using assms(2) by (auto simp: number_end_def no_digit_def split: list.splits)
  obtain c q where "d = c # q" "is_digit c" using d by (cases d) auto
  then have "scan_sign (sign @ d @ r) = (sign, d @ r)"
    using sign digit_not_special [of c] by (auto simp: scan_sign_def)
  with digits_append [OF d(2) nd] d(1) e show ?thesis by (auto simp: ep scan_exponent_def)
qed

lemma parseNumber_sound: "parseNumber s = Inr (v, rest) \<Longrightarrow> \<exists>t. s = t @ rest \<and> jnumber t \<and> v = VNumber t"
proof -
  assume n: "parseNumber s = Inr (v, rest)"
  define neg where "neg = has_prefix s ''-''"
  define s1 where "s1 = (if neg then tl s else s)"
  have s: "s = (if neg then ''-'' else []) @ s1"
    by (cases s) (auto simp: neg_def s1_def)
  from n obtain ip s2 fp s3 ep where
    ip: "scan_integer s1 = Inr (ip, s2)" and fp: "scan_fraction s2 = Inr (fp, s3)"
    and ep: "scan_exponent s3 = Inr (ep, rest)" and ok: "check_float neg ip fp ep = None"
    and v: "v = VNumber ((if neg then ''-'' else []) @ ip @ fp @ ep)"
    unfolding parseNumber_def Let_def neg_def [symmetric] s1_def [symmetric]
    by (auto simp: err_simps split: if_splits prod.splits)
  have "s1 = ip @ fp @ ep @ rest" "jint ip" "jfrac fp" "jexp ep"
    using scan_integer_sound [OF ip] scan_fraction_sound [OF fp] scan_exponent_sound [OF ep] by auto
  then show ?thesis using s ok v unfolding jnumber_def by (metis append.assoc)
qed

lemma parseNumber_complete:
  assumes "jnumber t" and "number_end rest"
  shows "parseNumber (t @ rest) = Inr (VNumber t, rest)"
proof -
  from assms(1) obtain neg ip fp ep where t: "t = (if neg then ''-'' else []) @ ip @ fp @ ep"
    and ip: "jint ip" and fp: "jfrac fp" and ep: "jexp ep" and ok: "check_float neg ip fp ep = None"
    unfolding jnumber_def by blast
  obtain c q where c: "ip = c # q" "is_digit c" using ip by (cases ip) (auto simp: jint_def)
  have neg: "has_prefix (t @ rest) ''-'' = neg" using c digit_not_special [of c] by (auto simp: t)
  have e1: "no_digit (ep @ rest)" "ep @ rest = [] \<or> hd (ep @ rest) \<noteq> CHR ''.''"
    using ep assms(2) by (auto simp: jexp_def no_digit_def number_end_def split: list.splits)
  have f1: "no_digit (fp @ ep @ rest)"
    using fp e1(1) by (auto simp: jfrac_def no_digit_def)
  have "scan_integer (ip @ fp @ ep @ rest) = Inr (ip, fp @ ep @ rest)"
    using ip f1 by (rule scan_integer_complete)
  moreover have "scan_fraction (fp @ ep @ rest) = Inr (fp, ep @ rest)"
    using fp e1 by (rule scan_fraction_complete)
  moreover have "scan_exponent (ep @ rest) = Inr (ep, rest)"
    using ep assms(2) by (rule scan_exponent_complete)
  moreover have "(if neg then tl (t @ rest) else t @ rest) = ip @ fp @ ep @ rest" by (simp add: t)
  ultimately show ?thesis
    using ok c unfolding parseNumber_def neg Let_def by (simp add: t)
qed

section \<open>The parser accepts only the grammar\<close>

lemma has_prefix_one: "has_prefix s [c] \<longleftrightarrow> (\<exists>r. s = c # r)"
  by (cases s) auto

lemma parseLiteral_sound: "parseLiteral lit v s = Inr (v', rest) \<Longrightarrow> s = lit @ rest \<and> v' = v"
  by (auto simp: parseLiteral_def has_prefix_iff split: if_splits)

definition sound_value :: "nat \<Rightarrow> nat \<Rightarrow> bytes \<Rightarrow> bool" where
  "sound_value fuel depth s \<longleftrightarrow> (\<forall>v rest. parse_value fuel depth s = Inr (v, rest) \<longrightarrow>
     (\<exists>w t. s = w @ t @ rest \<and> ws w \<and> jvalue (maxJSONDepth - depth) t v))"

definition sound_members :: "nat \<Rightarrow> nat \<Rightarrow> bytes list \<Rightarrow> bytes \<Rightarrow> bool" where
  "sound_members fuel depth names s \<longleftrightarrow> (\<forall>m rest. parse_members fuel depth names s = Inr (m, rest) \<longrightarrow>
     (\<exists>t. s = t @ CHR ''}'' # rest \<and> jmembers (maxJSONDepth - depth) names t m))"

definition sound_elements :: "nat \<Rightarrow> nat \<Rightarrow> bytes \<Rightarrow> bool" where
  "sound_elements fuel depth s \<longleftrightarrow> (\<forall>xs rest. parse_elements fuel depth s = Inr (xs, rest) \<longrightarrow>
     (\<exists>t. s = t @ CHR '']'' # rest \<and> jelements (maxJSONDepth - depth) t xs))"

lemma sound_valueD: "sound_value fuel depth s \<Longrightarrow> parse_value fuel depth s = Inr (v, rest) \<Longrightarrow>
    \<exists>w t. s = w @ t @ rest \<and> ws w \<and> jvalue (maxJSONDepth - depth) t v"
  by (simp add: sound_value_def)

lemma sound_membersD: "sound_members fuel depth names s \<Longrightarrow> parse_members fuel depth names s = Inr (m, rest) \<Longrightarrow>
    \<exists>t. s = t @ CHR ''}'' # rest \<and> jmembers (maxJSONDepth - depth) names t m"
  by (simp add: sound_members_def)

lemma sound_elementsD: "sound_elements fuel depth s \<Longrightarrow> parse_elements fuel depth s = Inr (xs, rest) \<Longrightarrow>
    \<exists>t. s = t @ CHR '']'' # rest \<and> jelements (maxJSONDepth - depth) t xs"
  by (simp add: sound_elements_def)

lemma object_sound:
  assumes "\<And>t. sound_members fuel (Suc depth) [] t" and "depth < maxJSONDepth"
    and "(if has_prefix (skipWhitespace r) ''}'' then Inr (VObj [], tl (skipWhitespace r))
          else bind_res (parse_members fuel (Suc depth) [] (skipWhitespace r)) (\<lambda>(m, rest). Inr (VObj m, rest)))
         = Inr (v, rest)"
  shows "\<exists>t. CHR ''{'' # r = t @ rest \<and> jvalue (maxJSONDepth - depth) t v"
proof -
  have n: "maxJSONDepth - depth = Suc (maxJSONDepth - Suc depth)" using assms(2) by simp
  obtain w where w: "ws w" "r = w @ skipWhitespace r" using skipWhitespace_split by blast
  show ?thesis
  proof (cases "has_prefix (skipWhitespace r) ''}''")
    case True
    then obtain q where "skipWhitespace r = CHR ''}'' # q" by (auto simp: has_prefix_one)
    then have "CHR ''{'' # r = (CHR ''{'' # w @ ''}'') @ rest" "v = VObj []" using assms(3) w(2) by auto
    with v_empty_object [OF w(1)] show ?thesis unfolding n by blast
  next
    case False
    with assms(3) obtain m where m: "parse_members fuel (Suc depth) [] (skipWhitespace r) = Inr (m, rest)" "v = VObj m"
      by (auto simp: err_simps)
    then obtain t where t: "skipWhitespace r = t @ CHR ''}'' # rest" "jmembers (maxJSONDepth - Suc depth) [] t m"
      using sound_membersD [OF assms(1) m(1)] by blast
    have "jmembers (maxJSONDepth - Suc depth) [] (w @ t) m"
      using t(2)
    proof cases
      case (m_one w1 t' s w2 w3 u v' w4)
      have "jmembers (maxJSONDepth - Suc depth) [] ((w @ w1) @ t' @ w2 @ CHR '':'' # w3 @ u @ w4) [(s, v')]"
        using m_one w(1) by (intro jvalue_jmembers_jelements.m_one) (auto simp: ws_def)
      then show ?thesis using m_one by simp
    next
      case (m_more w1 t' s w2 w3 u v' w4 r' m')
      have "jmembers (maxJSONDepth - Suc depth) [] ((w @ w1) @ t' @ w2 @ CHR '':'' # w3 @ u @ w4 @ CHR '','' # r') ((s, v') # m')"
        using m_more w(1) by (intro jvalue_jmembers_jelements.m_more) (auto simp: ws_def)
      then show ?thesis using m_more by simp
    qed
    then have "jvalue (maxJSONDepth - depth) (CHR ''{'' # (w @ t) @ ''}'') v" unfolding n m(2) by (rule v_object)
    moreover have "CHR ''{'' # r = (CHR ''{'' # (w @ t) @ ''}'') @ rest"
      using w(2) t(1) by (metis append.assoc append_Cons append_Nil)
    ultimately show ?thesis by blast
  qed
qed

lemma array_sound:
  assumes "\<And>t. sound_elements fuel (Suc depth) t" and "depth < maxJSONDepth"
    and "(if has_prefix (skipWhitespace r) '']'' then Inr (VArr [], tl (skipWhitespace r))
          else bind_res (parse_elements fuel (Suc depth) (skipWhitespace r)) (\<lambda>(xs, rest). Inr (VArr xs, rest)))
         = Inr (v, rest)"
  shows "\<exists>t. CHR ''['' # r = t @ rest \<and> jvalue (maxJSONDepth - depth) t v"
proof -
  have n: "maxJSONDepth - depth = Suc (maxJSONDepth - Suc depth)" using assms(2) by simp
  obtain w where w: "ws w" "r = w @ skipWhitespace r" using skipWhitespace_split by blast
  show ?thesis
  proof (cases "has_prefix (skipWhitespace r) '']''")
    case True
    then obtain q where "skipWhitespace r = CHR '']'' # q" by (auto simp: has_prefix_one)
    then have "CHR ''['' # r = (CHR ''['' # w @ '']'') @ rest" "v = VArr []" using assms(3) w(2) by auto
    with v_empty_array [OF w(1)] show ?thesis unfolding n by blast
  next
    case False
    with assms(3) obtain xs where xs: "parse_elements fuel (Suc depth) (skipWhitespace r) = Inr (xs, rest)" "v = VArr xs"
      by (auto simp: err_simps)
    then obtain t where t: "skipWhitespace r = t @ CHR '']'' # rest" "jelements (maxJSONDepth - Suc depth) t xs"
      using sound_elementsD [OF assms(1) xs(1)] by blast
    have "jelements (maxJSONDepth - Suc depth) (w @ t) xs"
      using t(2)
    proof cases
      case (e_one w1 u v' w2)
      have "jelements (maxJSONDepth - Suc depth) ((w @ w1) @ u @ w2) [v']"
        using e_one w(1) by (intro jvalue_jmembers_jelements.e_one) (auto simp: ws_def)
      then show ?thesis using e_one by simp
    next
      case (e_more w1 u v' w2 r' xs')
      have "jelements (maxJSONDepth - Suc depth) ((w @ w1) @ u @ w2 @ CHR '','' # r') (v' # xs')"
        using e_more w(1) by (intro jvalue_jmembers_jelements.e_more) (auto simp: ws_def)
      then show ?thesis using e_more by simp
    qed
    then have "jvalue (maxJSONDepth - depth) (CHR ''['' # (w @ t) @ '']'') v" unfolding n xs(2) by (rule v_array)
    moreover have "CHR ''['' # r = (CHR ''['' # (w @ t) @ '']'') @ rest"
      using w(2) t(1) by (metis append.assoc append_Cons append_Nil)
    ultimately show ?thesis by blast
  qed
qed

lemma value_sound:
  assumes "\<And>t. sound_members fuel (Suc depth) [] t" and "\<And>t. sound_elements fuel (Suc depth) t"
  shows "sound_value (Suc fuel) depth s"
  unfolding sound_value_def
proof (intro allI impI)
  fix v rest
  assume p: "parse_value (Suc fuel) depth s = Inr (v, rest)"
  then obtain c r where cr: "skipWhitespace s = c # r" by (cases "skipWhitespace s") auto
  obtain w where w: "ws w" "s = w @ c # r" using skipWhitespace_split [of s] cr by metis
  have "\<exists>t. c # r = t @ rest \<and> jvalue (maxJSONDepth - depth) t v"
  proof -
    consider "c = CHR ''{''" | "c = CHR ''[''" | "c = CHR 0x22" | "c = CHR ''t''" | "c = CHR ''f''"
      | "c = CHR ''n''" | "c \<notin> {CHR ''{'', CHR ''['', CHR 0x22, CHR ''t'', CHR ''f'', CHR ''n''}" by blast
    then show ?thesis
    proof cases
      case 1
      with p cr have "depth < maxJSONDepth" by (auto simp: Let_def split: if_splits)
      with 1 p cr show ?thesis using object_sound [OF assms(1) \<open>depth < maxJSONDepth\<close>, of r v rest] by (simp add: Let_def)
    next
      case 2
      with p cr have "depth < maxJSONDepth" by (auto simp: Let_def split: if_splits)
      with 2 p cr show ?thesis using array_sound [OF assms(2) \<open>depth < maxJSONDepth\<close>, of r v rest] by (simp add: Let_def)
    next
      case 3
      with p cr obtain str where "parseString (c # r) = Inr (str, rest)" "v = VStr str" by (auto simp: err_simps)
      then show ?thesis using parseString_sound v_string by blast
    next
      case 4
      with p cr have "parseLiteral ''true'' (VBool True) (c # r) = Inr (v, rest)" by simp
      then show ?thesis using parseLiteral_sound v_true by blast
    next
      case 5
      with p cr have "parseLiteral ''false'' (VBool False) (c # r) = Inr (v, rest)" by simp
      then show ?thesis using parseLiteral_sound v_false by blast
    next
      case 6
      with p cr have "parseLiteral ''null'' VNull (c # r) = Inr (v, rest)" by simp
      then show ?thesis using parseLiteral_sound v_null by blast
    next
      case 7
      with p cr have "parseNumber (c # r) = Inr (v, rest)" by simp
      then show ?thesis using parseNumber_sound v_number by blast
    qed
  qed
  then show "\<exists>w t. s = w @ t @ rest \<and> ws w \<and> jvalue (maxJSONDepth - depth) t v"
    using w by blast
qed

lemma members_sound:
  assumes "\<And>t. sound_value fuel depth t" and "\<And>ns t. sound_members fuel depth ns t"
  shows "sound_members (Suc fuel) depth names s"
  unfolding sound_members_def
proof (intro allI impI)
  fix m rest
  assume p: "parse_members (Suc fuel) depth names s = Inr (m, rest)"
  then obtain name s1 where n: "parseString (skipWhitespace s) = Inr (name, s1)" "name \<notin> set names"
    by (auto simp: err_simps split: if_splits)
  define s2 where "s2 = skipWhitespace s1"
  from p n obtain q where q: "s2 = CHR '':'' # q"
    by (auto simp: err_simps Let_def s2_def has_prefix_one split: if_splits)
  from p n q obtain v s3 where v: "parse_value fuel depth q = Inr (v, s3)"
    by (auto simp: err_simps Let_def s2_def has_prefix_one split: if_splits)
  define s4 where "s4 = skipWhitespace s3"
  obtain w1 where w1: "ws w1" "s = w1 @ skipWhitespace s" using skipWhitespace_split by blast
  obtain t where t: "skipWhitespace s = t @ s1" "jstring t name" using parseString_sound [OF n(1)] by blast
  obtain w2 where w2: "ws w2" "s1 = w2 @ s2" using skipWhitespace_split s2_def by blast
  obtain w3 u where u: "q = w3 @ u @ s3" "ws w3" "jvalue (maxJSONDepth - depth) u v"
    using sound_valueD [OF assms(1) v] by blast
  obtain w4 where w4: "ws w4" "s3 = w4 @ s4" using skipWhitespace_split s4_def by blast
  have s: "s = w1 @ t @ w2 @ CHR '':'' # w3 @ u @ w4 @ s4"
    using w1(2) t(1) w2(2) q u(1) w4(2) by simp
  have alt: "(has_prefix s4 ''}'' \<and> m = [(name, v)] \<and> rest = tl s4) \<or>
      (has_prefix s4 '','' \<and> (\<exists>m'. parse_members fuel depth (name # names) (tl s4) = Inr (m', rest) \<and> m = (name, v) # m'))"
    using p n q v by (auto simp: err_simps Let_def s2_def [symmetric] s4_def [symmetric] split: if_splits)
  then show "\<exists>t. s = t @ CHR ''}'' # rest \<and> jmembers (maxJSONDepth - depth) names t m"
  proof (elim disjE conjE exE)
    assume "has_prefix s4 ''}''" "m = [(name, v)]" "rest = tl s4"
    then have "s = (w1 @ t @ w2 @ CHR '':'' # w3 @ u @ w4) @ CHR ''}'' # rest"
      using s by (auto simp: has_prefix_one)
    moreover have "jmembers (maxJSONDepth - depth) names (w1 @ t @ w2 @ CHR '':'' # w3 @ u @ w4) m"
      unfolding \<open>m = [(name, v)]\<close> using w1(1) t(2) n(2) w2(1) u(2,3) w4(1) by (intro m_one)
    ultimately show ?thesis by blast
  next
    fix m'
    assume c: "has_prefix s4 '',''" "parse_members fuel depth (name # names) (tl s4) = Inr (m', rest)" "m = (name, v) # m'"
    then obtain r where r: "tl s4 = r @ CHR ''}'' # rest" "jmembers (maxJSONDepth - depth) (name # names) r m'"
      using sound_membersD [OF assms(2) c(2)] by blast
    have "s = (w1 @ t @ w2 @ CHR '':'' # w3 @ u @ w4 @ CHR '','' # r) @ CHR ''}'' # rest"
      using s r(1) c(1) by (auto simp: has_prefix_one)
    moreover have "jmembers (maxJSONDepth - depth) names (w1 @ t @ w2 @ CHR '':'' # w3 @ u @ w4 @ CHR '','' # r) m"
      unfolding c(3) using w1(1) t(2) n(2) w2(1) u(2,3) w4(1) r(2) by (intro m_more)
    ultimately show ?thesis by blast
  qed
qed

lemma elements_sound:
  assumes "\<And>t. sound_value fuel depth t" and "\<And>t. sound_elements fuel depth t"
  shows "sound_elements (Suc fuel) depth s"
  unfolding sound_elements_def
proof (intro allI impI)
  fix xs rest
  assume p: "parse_elements (Suc fuel) depth s = Inr (xs, rest)"
  then obtain v s1 where v: "parse_value fuel depth s = Inr (v, s1)" by (auto simp: err_simps)
  define s2 where "s2 = skipWhitespace s1"
  obtain w1 u where u: "s = w1 @ u @ s1" "ws w1" "jvalue (maxJSONDepth - depth) u v"
    using sound_valueD [OF assms(1) v] by blast
  obtain w2 where w2: "ws w2" "s1 = w2 @ s2" using skipWhitespace_split s2_def by blast
  have alt: "(has_prefix s2 '']'' \<and> xs = [v] \<and> rest = tl s2) \<or>
      (has_prefix s2 '','' \<and> (\<exists>ys. parse_elements fuel depth (tl s2) = Inr (ys, rest) \<and> xs = v # ys))"
    using p v by (auto simp: err_simps Let_def s2_def [symmetric] split: if_splits)
  then show "\<exists>t. s = t @ CHR '']'' # rest \<and> jelements (maxJSONDepth - depth) t xs"
  proof (elim disjE conjE exE)
    assume "has_prefix s2 '']''" "xs = [v]" "rest = tl s2"
    then have "s = (w1 @ u @ w2) @ CHR '']'' # rest" using u(1) w2(2) by (auto simp: has_prefix_one)
    moreover have "jelements (maxJSONDepth - depth) (w1 @ u @ w2) xs"
      unfolding \<open>xs = [v]\<close> using u(2,3) w2(1) by (intro e_one)
    ultimately show ?thesis by blast
  next
    fix ys
    assume c: "has_prefix s2 '',''" "parse_elements fuel depth (tl s2) = Inr (ys, rest)" "xs = v # ys"
    then obtain r where r: "tl s2 = r @ CHR '']'' # rest" "jelements (maxJSONDepth - depth) r ys"
      using sound_elementsD [OF assms(2) c(2)] by blast
    have "s = (w1 @ u @ w2 @ CHR '','' # r) @ CHR '']'' # rest"
      using u(1) w2(2) r(1) c(1) by (auto simp: has_prefix_one)
    moreover have "jelements (maxJSONDepth - depth) (w1 @ u @ w2 @ CHR '','' # r) xs"
      unfolding c(3) using u(2,3) w2(1) r(2) by (intro e_more)
    ultimately show ?thesis by blast
  qed
qed

lemma parse_sound:
  "(\<forall>depth s. sound_value fuel depth s) \<and> (\<forall>depth ns s. sound_members fuel depth ns s) \<and>
   (\<forall>depth s. sound_elements fuel depth s)"
proof (induction fuel)
  case 0
  show ?case by (simp add: sound_value_def sound_members_def sound_elements_def)
next
  case (Suc fuel)
  then have v: "\<And>depth s. sound_value fuel depth s" and m: "\<And>depth ns s. sound_members fuel depth ns s"
    and e: "\<And>depth s. sound_elements fuel depth s" by blast+
  show ?case
    using value_sound [OF m e] members_sound [OF v m] elements_sound [OF v e] by simp
qed

section \<open>The parser accepts the whole grammar\<close>

lemma parse_value_skip: "parse_value fuel depth (skipWhitespace s) = parse_value fuel depth s"
  by (cases fuel) simp_all

lemma parse_members_skip: "parse_members fuel depth names (skipWhitespace s) = parse_members fuel depth names s"
  by (cases fuel) simp_all

lemma parse_elements_skip: "parse_elements fuel depth (skipWhitespace s) = parse_elements fuel depth s"
  by (cases fuel) (simp_all add: parse_value_skip)

lemma parse_value_ws: "ws w \<Longrightarrow> parse_value fuel depth (w @ s) = parse_value fuel depth s"
  by (metis parse_value_skip skipWhitespace_append)

lemma jstring_first: "jstring t s \<Longrightarrow> \<exists>r. t = CHR 0x22 # r"
  by (auto simp: jstring_def)

lemma jnumber_first: "jnumber t \<Longrightarrow> \<exists>c r. t = c # r \<and> (c = CHR ''-'' \<or> is_digit c)"
proof -
  assume "jnumber t"
  then obtain neg ip fp ep where t: "t = (if neg then ''-'' else []) @ ip @ fp @ ep" and ip: "jint ip"
    unfolding jnumber_def by blast
  from ip obtain c r where "ip = c # r" "is_digit c" by (cases ip) (auto simp: jint_def)
  with t show ?thesis by (cases neg) auto
qed

lemma number_first_dispatch:
  assumes "c = CHR ''-'' \<or> is_digit c"
  shows "c \<notin> {CHR ''{'', CHR ''['', CHR 0x22, CHR ''t'', CHR ''f'', CHR ''n''} \<and> \<not> is_ws c \<and> c \<noteq> CHR '']''"
  using assms by (auto simp: is_digit_def less_eq_char_def is_ws_def)

lemma special_not_ws [simp]:
  "\<not> is_ws CHR ''{''" "\<not> is_ws CHR ''}''" "\<not> is_ws CHR ''[''" "\<not> is_ws CHR '']''" "\<not> is_ws CHR 0x22"
  "\<not> is_ws CHR '':''" "\<not> is_ws CHR '',''" "\<not> is_ws CHR ''t''" "\<not> is_ws CHR ''f''" "\<not> is_ws CHR ''n''"
  by (simp_all add: is_ws_def)

lemma jvalue_first:
  assumes "jvalue n t v"
  shows "\<exists>c r. t = c # r \<and> \<not> is_ws c \<and> c \<noteq> CHR '']''"
  using assms
proof cases
  case (v_string str)
  then obtain r where "t = CHR 0x22 # r" using jstring_first by blast
  then show ?thesis by simp
next
  case v_number
  then obtain c r where t: "t = c # r" "c = CHR ''-'' \<or> is_digit c" using jnumber_first by blast
  show ?thesis using t(1) number_first_dispatch [OF t(2)] by auto
qed auto

lemma jmembers_first:
  assumes "jmembers n names t m"
  shows "\<exists>w r. ws w \<and> t = w @ CHR 0x22 # r"
  using assms
proof cases
  case (m_one w1 t' s w2 w3 u v w4)
  then obtain r where "t' = CHR 0x22 # r" using jstring_first by blast
  with m_one show ?thesis by auto
next
  case (m_more w1 t' s w2 w3 u v w4 r' m')
  then obtain r where "t' = CHR 0x22 # r" using jstring_first by blast
  with m_more show ?thesis by auto
qed

lemma jelements_first:
  assumes "jelements n t xs"
  shows "\<exists>w c r. ws w \<and> t = w @ c # r \<and> \<not> is_ws c \<and> c \<noteq> CHR '']''"
  using assms
proof cases
  case (e_one w1 u v w2)
  then obtain c r where "u = c # r" "\<not> is_ws c" "c \<noteq> CHR '']''" using jvalue_first by blast
  with e_one show ?thesis by auto
next
  case (e_more w1 u v w2 r' xs')
  then obtain c r where "u = c # r" "\<not> is_ws c" "c \<noteq> CHR '']''" using jvalue_first by blast
  with e_more show ?thesis by auto
qed

lemma number_end_ws: "ws w \<Longrightarrow> number_end r \<Longrightarrow> number_end (w @ r)"
  by (cases w) (auto simp: ws_def number_end_def is_ws_def is_digit_def less_eq_char_def)

lemma number_end_special [simp]:
  "number_end []" "number_end (CHR ''}'' # r)" "number_end (CHR '']'' # r)" "number_end (CHR '','' # r)"
  by (auto simp: number_end_def is_digit_def less_eq_char_def)

lemma parse_object_text:
  assumes "jmembers n [] t m" and "depth < maxJSONDepth"
    and "parse_members fuel (Suc depth) [] (t @ CHR ''}'' # rest) = Inr (m, rest)"
  shows "parse_value (Suc fuel) depth (CHR ''{'' # t @ CHR ''}'' # rest) = Inr (VObj m, rest)"
proof -
  obtain w r where t: "ws w" "t = w @ CHR 0x22 # r" using jmembers_first [OF assms(1)] by blast
  then have "skipWhitespace (t @ CHR ''}'' # rest) = CHR 0x22 # r @ CHR ''}'' # rest"
    by (simp add: skipWhitespace_append)
  then show ?thesis
    using assms(2,3) parse_members_skip [of fuel "Suc depth" "[]" "t @ CHR ''}'' # rest"]
    by (simp add: Let_def)
qed

lemma parse_array_text:
  assumes "jelements n t xs" and "depth < maxJSONDepth"
    and "parse_elements fuel (Suc depth) (t @ CHR '']'' # rest) = Inr (xs, rest)"
  shows "parse_value (Suc fuel) depth (CHR ''['' # t @ CHR '']'' # rest) = Inr (VArr xs, rest)"
proof -
  obtain w c r where t: "ws w" "t = w @ c # r" "\<not> is_ws c" "c \<noteq> CHR '']''"
    using jelements_first [OF assms(1)] by blast
  then have "skipWhitespace (t @ CHR '']'' # rest) = c # r @ CHR '']'' # rest"
    by (simp add: skipWhitespace_append)
  then show ?thesis
    using assms(2,3) t(4) parse_elements_skip [of fuel "Suc depth" "t @ CHR '']'' # rest"]
    by (simp add: Let_def)
qed

lemma parse_member_text:
  assumes "ws w1" and "jstring t s" and "s \<notin> set names" and "ws w2" and "ws w3"
    and "parse_value fuel depth (u @ w4 @ rest) = Inr (v, w4 @ rest)" and "ws w4"
  shows "parse_members (Suc fuel) depth names (w1 @ t @ w2 @ CHR '':'' # w3 @ u @ w4 @ rest) =
    (let s4 = skipWhitespace rest in
           if has_prefix s4 ''}'' then Inr ([(s, v)], tl s4)
           else if has_prefix s4 '','' then
             bind_res (parse_members fuel depth (s # names) (tl s4)) (\<lambda>(m, rest). Inr ((s, v) # m, rest))
           else Inl ExpectedCommaOrBrace)"
proof -
  obtain r where t: "t = CHR 0x22 # r" using jstring_first [OF assms(2)] by blast
  have "skipWhitespace (w1 @ t @ x) = t @ x" for x
    using assms(1) by (simp add: t skipWhitespace_append)
  moreover have "skipWhitespace (w2 @ CHR '':'' # x) = CHR '':'' # x" for x
    using assms(4) by (simp add: skipWhitespace_append)
  moreover have "skipWhitespace (w4 @ rest) = skipWhitespace rest"
    using assms(7) by (rule skipWhitespace_append)
  ultimately show ?thesis
    using assms(3,6) parseString_complete [OF assms(2)] parse_value_ws [OF assms(5)]
    by (simp add: Let_def)
qed

lemma parse_element_text:
  assumes "ws w1" and "parse_value fuel depth (u @ w2 @ rest) = Inr (v, w2 @ rest)" and "ws w2"
  shows "parse_elements (Suc fuel) depth (w1 @ u @ w2 @ rest) =
    (let s2 = skipWhitespace rest in
       if has_prefix s2 '']'' then Inr ([v], tl s2)
       else if has_prefix s2 '','' then
         bind_res (parse_elements fuel depth (tl s2)) (\<lambda>(xs, rest). Inr (v # xs, rest))
       else Inl ExpectedCommaOrBracket)"
  using assms parse_value_ws [OF assms(1)] skipWhitespace_append [OF assms(3)] by (simp add: Let_def)

lemma parse_fuel: "numeral k \<le> fuel \<Longrightarrow> \<exists>f. fuel = Suc f"
  by (cases fuel) auto

lemma parse_complete:
  shows "jvalue n t v \<Longrightarrow> \<forall>fuel depth rest. depth + n \<le> maxJSONDepth \<longrightarrow> number_end rest \<longrightarrow>
      2 * length t + 1 \<le> fuel \<longrightarrow> parse_value fuel depth (t @ rest) = Inr (v, rest)"
    and "jmembers n' names t' m \<Longrightarrow> \<forall>fuel depth rest. depth + n' \<le> maxJSONDepth \<longrightarrow>
      2 * length t' + 1 \<le> fuel \<longrightarrow> parse_members fuel depth names (t' @ CHR ''}'' # rest) = Inr (m, rest)"
    and "jelements n'' t'' xs \<Longrightarrow> \<forall>fuel depth rest. depth + n'' \<le> maxJSONDepth \<longrightarrow>
      2 * length t'' + 2 \<le> fuel \<longrightarrow> parse_elements fuel depth (t'' @ CHR '']'' # rest) = Inr (xs, rest)"
proof (induction rule: jvalue_jmembers_jelements.inducts)
  case (v_string t s n)
  then obtain r where t: "t = CHR 0x22 # r" using jstring_first by blast
  show ?case
  proof (intro allI impI)
    fix fuel depth rest
    assume "2 * length t + 1 \<le> fuel"
    then obtain f where f: "fuel = Suc f" by (cases fuel) auto
    show "parse_value fuel depth (t @ rest) = Inr (VStr s, rest)"
      using parseString_complete [OF v_string, of rest] by (simp add: f t)
  qed
next
  case (v_number t n)
  then obtain c r where t: "t = c # r" "c = CHR ''-'' \<or> is_digit c" using jnumber_first by blast
  note d = number_first_dispatch [OF t(2)]
  show ?case
  proof (intro allI impI)
    fix fuel depth rest
    assume "2 * length t + 1 \<le> fuel" and "number_end rest"
    then obtain f where f: "fuel = Suc f" by (cases fuel) auto
    show "parse_value fuel depth (t @ rest) = Inr (VNumber t, rest)"
      using parseNumber_complete [OF v_number \<open>number_end rest\<close>] d by (simp add: f t(1))
  qed
next
  case (v_object n t m)
  show ?case
  proof (intro allI impI)
    fix fuel depth rest
    assume d: "depth + Suc n \<le> maxJSONDepth" and l: "2 * length (CHR ''{'' # t @ ''}'') + 1 \<le> fuel"
    then obtain f where f: "fuel = Suc f" by (cases fuel) auto
    have "parse_members f (Suc depth) [] (t @ CHR ''}'' # rest) = Inr (m, rest)"
      using v_object.IH d l f by simp
    then show "parse_value fuel depth ((CHR ''{'' # t @ ''}'') @ rest) = Inr (VObj m, rest)"
      using parse_object_text [OF v_object.hyps, of depth f rest] d by (simp add: f del: parse_value.simps)
  qed
next
  case (v_array n t xs)
  show ?case
  proof (intro allI impI)
    fix fuel depth rest
    assume d: "depth + Suc n \<le> maxJSONDepth" and l: "2 * length (CHR ''['' # t @ '']'') + 1 \<le> fuel"
    then obtain f where f: "fuel = Suc f" by (cases fuel) auto
    have "parse_elements f (Suc depth) (t @ CHR '']'' # rest) = Inr (xs, rest)"
      using v_array.IH d l f by simp
    then show "parse_value fuel depth ((CHR ''['' # t @ '']'') @ rest) = Inr (VArr xs, rest)"
      using parse_array_text [OF v_array.hyps, of depth f rest] d by (simp add: f del: parse_value.simps)
  qed
next
  case (v_empty_object w n)
  then show ?case
    by (auto simp: skipWhitespace_append Let_def Suc_le_eq gr0_conv_Suc elim!: less_natE)
next
  case (v_empty_array w n)
  then show ?case
    by (auto simp: skipWhitespace_append Let_def Suc_le_eq gr0_conv_Suc elim!: less_natE)
next
  case (m_one w1 t s names w2 w3 n u v w4)
  show ?case
  proof (intro allI impI)
    fix fuel depth rest
    assume d: "depth + n \<le> maxJSONDepth" and l: "2 * length (w1 @ t @ w2 @ CHR '':'' # w3 @ u @ w4) + 1 \<le> fuel"
    then obtain f where f: "fuel = Suc f" by (cases fuel) auto
    have "parse_value f depth (u @ w4 @ CHR ''}'' # rest) = Inr (v, w4 @ CHR ''}'' # rest)"
      using m_one.IH d l f number_end_ws [OF \<open>ws w4\<close>] by simp
    from parse_member_text [OF m_one.hyps(1-5) this \<open>ws w4\<close>]
    show "parse_members fuel depth names ((w1 @ t @ w2 @ CHR '':'' # w3 @ u @ w4) @ CHR ''}'' # rest) = Inr ([(s, v)], rest)"
      by (simp add: f Let_def del: parse_members.simps)
  qed
next
  case (m_more w1 t s names w2 w3 n u v w4 r m)
  show ?case
  proof (intro allI impI)
    fix fuel depth rest
    assume d: "depth + n \<le> maxJSONDepth"
      and l: "2 * length (w1 @ t @ w2 @ CHR '':'' # w3 @ u @ w4 @ CHR '','' # r) + 1 \<le> fuel"
    then obtain f where f: "fuel = Suc f" by (cases fuel) auto
    have "parse_value f depth (u @ w4 @ CHR '','' # r @ CHR ''}'' # rest) = Inr (v, w4 @ CHR '','' # r @ CHR ''}'' # rest)"
      using m_more.IH(1) d l f number_end_ws [OF \<open>ws w4\<close>] by simp
    from parse_member_text [OF m_more.hyps(1-5) this \<open>ws w4\<close>]
    have "parse_members fuel depth names (w1 @ t @ w2 @ CHR '':'' # w3 @ u @ w4 @ CHR '','' # r @ CHR ''}'' # rest) =
        bind_res (parse_members f depth (s # names) (r @ CHR ''}'' # rest)) (\<lambda>(m, rest). Inr ((s, v) # m, rest))"
      by (simp add: f Let_def del: parse_members.simps)
    moreover have "parse_members f depth (s # names) (r @ CHR ''}'' # rest) = Inr (m, rest)"
      using m_more.IH(2) d l f by simp
    ultimately show "parse_members fuel depth names
        ((w1 @ t @ w2 @ CHR '':'' # w3 @ u @ w4 @ CHR '','' # r) @ CHR ''}'' # rest) = Inr ((s, v) # m, rest)"
      by simp
  qed
next
  case (e_one w1 n u v w2)
  show ?case
  proof (intro allI impI)
    fix fuel depth rest
    assume d: "depth + n \<le> maxJSONDepth" and l: "2 * length (w1 @ u @ w2) + 2 \<le> fuel"
    then obtain f where f: "fuel = Suc f" by (cases fuel) auto
    have "parse_value f depth (u @ w2 @ CHR '']'' # rest) = Inr (v, w2 @ CHR '']'' # rest)"
      using e_one.IH d l f number_end_ws [OF \<open>ws w2\<close>] by simp
    from parse_element_text [OF \<open>ws w1\<close> this \<open>ws w2\<close>]
    show "parse_elements fuel depth ((w1 @ u @ w2) @ CHR '']'' # rest) = Inr ([v], rest)"
      by (simp add: f Let_def del: parse_elements.simps)
  qed
next
  case (e_more w1 n u v w2 r xs)
  show ?case
  proof (intro allI impI)
    fix fuel depth rest
    assume d: "depth + n \<le> maxJSONDepth" and l: "2 * length (w1 @ u @ w2 @ CHR '','' # r) + 2 \<le> fuel"
    then obtain f where f: "fuel = Suc f" by (cases fuel) auto
    have "parse_value f depth (u @ w2 @ CHR '','' # r @ CHR '']'' # rest) = Inr (v, w2 @ CHR '','' # r @ CHR '']'' # rest)"
      using e_more.IH(1) d l f number_end_ws [OF \<open>ws w2\<close>] by simp
    from parse_element_text [OF \<open>ws w1\<close> this \<open>ws w2\<close>]
    have "parse_elements fuel depth (w1 @ u @ w2 @ CHR '','' # r @ CHR '']'' # rest) =
        bind_res (parse_elements f depth (r @ CHR '']'' # rest)) (\<lambda>(xs, rest). Inr (v # xs, rest))"
      by (simp add: f Let_def del: parse_elements.simps)
    moreover have "parse_elements f depth (r @ CHR '']'' # rest) = Inr (xs, rest)"
      using e_more.IH(2) d l f by simp
    ultimately show "parse_elements fuel depth ((w1 @ u @ w2 @ CHR '','' # r) @ CHR '']'' # rest) = Inr (v # xs, rest)"
      by simp
  qed
next
  case (v_null n)
  show ?case
    by (auto simp: parseLiteral_def dest!: parse_fuel)
next
  case (v_true n)
  show ?case by (auto simp: parseLiteral_def dest!: parse_fuel)
next
  case (v_false n)
  show ?case by (auto simp: parseLiteral_def dest!: parse_fuel)
qed

section \<open>Fuel\<close>

lemma parse_value_length: "parse_value fuel depth s = Inr (v, rest) \<Longrightarrow> length rest < length s"
  using parse_sound [of fuel] sound_valueD [of fuel depth s v rest] jvalue_first by fastforce

lemma parseEscape_error: "parseEscape s \<noteq> Inl OutOfFuel"
  by (cases s)
    (auto simp: parseEscape_Cons parseEscape_def [of "[]"] parseUnicodeEscape_def parseHexCodeUnit_def
      bind_res_def split: option.splits sum.splits list.splits)

lemma parse_chars_error: "parse_chars s \<noteq> Inl OutOfFuel"
proof (induction s rule: parse_chars.induct)
  case (2 c s)
  then show ?case
    using parseEscape_error [of s]
    by (auto simp: parse_chars.simps prepend_def bind_res_def split: sum.splits prod.splits)
qed simp

lemma parseString_error: "parseString s \<noteq> Inl OutOfFuel"
  using parse_chars_error by (auto simp: parseString_def split: list.splits)

lemma bind_error: "bind_res r f = Inl e \<longleftrightarrow> r = Inl e \<or> (\<exists>a. r = Inr a \<and> f a = Inl e)"
  by (cases r) auto

lemma scan_errors:
  "scan_integer s \<noteq> Inl OutOfFuel" "scan_fraction s \<noteq> Inl OutOfFuel" "scan_exponent s \<noteq> Inl OutOfFuel"
  "check_float neg ip fp ep \<noteq> Some OutOfFuel"
  by (auto simp: scan_integer_def scan_fraction_def scan_exponent_def check_float_def Let_def
      split: list.splits prod.splits)

lemma parseNumber_error: "parseNumber s \<noteq> Inl OutOfFuel"
proof -
  have c: "check_then (check_float neg ip fp ep) (Inr x) \<noteq> Inl OutOfFuel" for neg ip fp ep and x :: "gval \<times> bytes"
    using scan_errors(4) [of neg ip fp ep] by (auto simp: check_then_def split: option.splits)
  show ?thesis
    using scan_errors(1-3) c unfolding parseNumber_def Let_def
    by (auto simp: bind_error split: if_splits prod.splits)
qed

lemma parseLiteral_error: "parseLiteral l v s \<noteq> Inl OutOfFuel"
  by (simp add: parseLiteral_def)

lemma fuel_members:
  assumes v: "\<And>depth s. 2 * length s + 1 \<le> fuel \<Longrightarrow> parse_value fuel depth s \<noteq> Inl OutOfFuel"
    and m: "\<And>depth ns s. 2 * length s + 1 \<le> fuel \<Longrightarrow> parse_members fuel depth ns s \<noteq> Inl OutOfFuel"
    and l: "2 * length s + 1 \<le> Suc fuel"
  shows "parse_members (Suc fuel) depth names s \<noteq> Inl OutOfFuel"
proof
  assume p: "parse_members (Suc fuel) depth names s = Inl OutOfFuel"
  then obtain name s1 where n: "parseString (skipWhitespace s) = Inr (name, s1)" "name \<notin> set names"
    using parseString_error by (auto simp: bind_error split: if_splits)
  then obtain q where q: "skipWhitespace s1 = CHR '':'' # q"
    using p by (auto simp: bind_error Let_def has_prefix_one split: if_splits)
  have l1: "length q + 3 \<le> length s"
    using parseString_length [OF n(1)] skipWhitespace_length [of s] skipWhitespace_length [of s1] q by simp
  show False
  proof (cases "parse_value fuel depth q")
    case (Inl e)
    then show False using p n q v [of q depth] l l1 by (auto simp: bind_error Let_def split: if_splits)
  next
    case (Inr r)
    obtain w s3 where r: "r = (w, s3)" by (cases r)
    have l3: "length (skipWhitespace s3) \<le> length q"
      using parse_value_length Inr r skipWhitespace_length [of s3] by fastforce
    with p n q Inr r obtain q' where "skipWhitespace s3 = CHR '','' # q'"
        "parse_members fuel depth (name # names) q' = Inl OutOfFuel"
      by (auto simp: bind_error Let_def has_prefix_one split: if_splits)
    then show False using m [of q' depth "name # names"] l l1 l3 by simp
  qed
qed

lemma fuel_elements:
  assumes v: "\<And>depth s. 2 * length s + 1 \<le> fuel \<Longrightarrow> parse_value fuel depth s \<noteq> Inl OutOfFuel"
    and e: "\<And>depth s. 2 * length s + 2 \<le> fuel \<Longrightarrow> parse_elements fuel depth s \<noteq> Inl OutOfFuel"
    and l: "2 * length s + 2 \<le> Suc fuel"
  shows "parse_elements (Suc fuel) depth s \<noteq> Inl OutOfFuel"
proof
  assume p: "parse_elements (Suc fuel) depth s = Inl OutOfFuel"
  have "parse_value fuel depth s \<noteq> Inl OutOfFuel" using l by (intro v) simp
  with p obtain w s1 where w: "parse_value fuel depth s = Inr (w, s1)" by (auto simp: bind_error)
  have "length (skipWhitespace s1) < length s"
    using parse_value_length [OF w] skipWhitespace_length [of s1] by simp
  moreover from p w obtain q where "skipWhitespace s1 = CHR '','' # q" "parse_elements fuel depth q = Inl OutOfFuel"
    by (auto simp: bind_error Let_def has_prefix_one split: if_splits)
  ultimately show False using e [of q depth] l by simp
qed

lemma fuel_value:
  assumes m: "\<And>depth ns s. 2 * length s + 1 \<le> fuel \<Longrightarrow> parse_members fuel depth ns s \<noteq> Inl OutOfFuel"
    and e: "\<And>depth s. 2 * length s + 2 \<le> fuel \<Longrightarrow> parse_elements fuel depth s \<noteq> Inl OutOfFuel"
    and l: "2 * length s + 1 \<le> Suc fuel"
  shows "parse_value (Suc fuel) depth s \<noteq> Inl OutOfFuel"
proof (cases "skipWhitespace s")
  case (Cons c r)
  have "length (skipWhitespace r) + 1 \<le> length s"
    using skipWhitespace_length [of s] skipWhitespace_length [of r] Cons by simp
  then have "parse_members fuel (Suc depth) [] (skipWhitespace r) \<noteq> Inl OutOfFuel"
    and "parse_elements fuel (Suc depth) (skipWhitespace r) \<noteq> Inl OutOfFuel"
    using l by (auto intro!: m e)
  then show ?thesis
    using parseNumber_error [of "c # r"] parseString_error [of "c # r"] parseLiteral_error
    by (auto simp: Cons Let_def bind_error)
qed simp

lemma parse_fuel_enough:
  "(\<forall>depth s. 2 * length s + 1 \<le> fuel \<longrightarrow> parse_value fuel depth s \<noteq> Inl OutOfFuel) \<and>
   (\<forall>depth ns s. 2 * length s + 1 \<le> fuel \<longrightarrow> parse_members fuel depth ns s \<noteq> Inl OutOfFuel) \<and>
   (\<forall>depth s. 2 * length s + 2 \<le> fuel \<longrightarrow> parse_elements fuel depth s \<noteq> Inl OutOfFuel)"
proof (induction fuel)
  case (Suc fuel)
  then have v: "\<And>depth s. 2 * length s + 1 \<le> fuel \<Longrightarrow> parse_value fuel depth s \<noteq> Inl OutOfFuel"
    and m: "\<And>depth ns s. 2 * length s + 1 \<le> fuel \<Longrightarrow> parse_members fuel depth ns s \<noteq> Inl OutOfFuel"
    and e: "\<And>depth s. 2 * length s + 2 \<le> fuel \<Longrightarrow> parse_elements fuel depth s \<noteq> Inl OutOfFuel"
    by blast+
  show ?case
    using fuel_value [OF m e] fuel_members [OF v m] fuel_elements [OF v e] by blast
qed auto

text \<open>
  C20. The fuel of the parser is never the reason of a refusal: on every input the document
  parser returns a value or one of the errors of the source.
\<close>

theorem parse_enough_fuel: "parseDocument s \<noteq> Inl OutOfFuel"
proof -
  have "parse_value (2 * length s + 2) 0 (skipWhitespace s) \<noteq> Inl OutOfFuel"
    using parse_fuel_enough [of "2 * length s + 2"] skipWhitespace_length [of s] by simp
  then show ?thesis by (auto simp: parseDocument_def bind_error split: if_splits)
qed

section \<open>The document parser and the grammar\<close>

lemma parseDocument_sound: "parseDocument s = Inr v \<Longrightarrow> jdocument s v"
proof -
  assume "parseDocument s = Inr v"
  then obtain rest where p: "parse_value (2 * length s + 2) 0 (skipWhitespace s) = Inr (v, rest)"
    and r: "skipWhitespace rest = []"
    by (auto simp: parseDocument_def err_simps split: if_splits)
  obtain w t where t: "skipWhitespace s = w @ t @ rest" "ws w" "jvalue maxJSONDepth t v"
    using parse_sound sound_valueD [OF _ p] by fastforce
  obtain w1 where w1: "ws w1" "s = w1 @ skipWhitespace s" using skipWhitespace_split by blast
  have "ws rest" using skipWhitespace_split [of rest] r by simp
  moreover have "ws (w1 @ w)" using w1(1) t(2) by (simp add: ws_def)
  moreover have "s = (w1 @ w) @ t @ rest" using w1(2) t(1) by simp
  ultimately show ?thesis using t(3) unfolding jdocument_def by blast
qed

lemma parseDocument_complete: "jdocument s v \<Longrightarrow> parseDocument s = Inr v"
proof -
  assume "jdocument s v"
  then obtain w1 u w2 where s: "s = w1 @ u @ w2" "ws w1" "ws w2" and u: "jvalue maxJSONDepth u v"
    unfolding jdocument_def by blast
  have "parse_value (2 * length s + 2) 0 (skipWhitespace s) = parse_value (2 * length s + 2) 0 (u @ w2)"
    unfolding parse_value_skip using parse_value_ws [OF s(2), of "2 * length s + 2" 0 "u @ w2"] s(1) by metis
  also have "\<dots> = Inr (v, w2)"
    by (rule parse_complete(1) [OF u, rule_format])
      (use s number_end_ws [OF s(3), of "[]"] in auto)
  finally show ?thesis
    using skipWhitespace_append [OF s(3), of "[]"] by (simp add: parseDocument_def skipWhitespace_def)
qed

text \<open>
  C19. The strict parser accepts exactly the I-JSON grammar: it returns a value precisely if
  the input is a text of that grammar denoting the value.
\<close>

theorem strict_json_grammar: "(parseDocument s = Inr v) = jdocument s v"
  using parseDocument_sound parseDocument_complete by blast

fun value_depth :: "gval \<Rightarrow> nat"
  and values_depth :: "gval list \<Rightarrow> nat"
  and fields_depth :: "object \<Rightarrow> nat" where
  "value_depth (VArr xs) = Suc (values_depth xs)"
| "value_depth (VObj m) = Suc (fields_depth m)"
| "value_depth _ = 0"
| "values_depth [] = 0"
| "values_depth (x # xs) = max (value_depth x) (values_depth xs)"
| "fields_depth [] = 0"
| "fields_depth ((k, v) # m) = max (value_depth v) (fields_depth m)"

lemma grammar_shape:
  shows "jvalue n t v \<Longrightarrow> wf_value v \<and> value_depth v \<le> n"
    and "jmembers n' names t' m \<Longrightarrow> distinct (keys m) \<and> set (keys m) \<inter> set names = {} \<and>
      wf_fields m \<and> fields_depth m \<le> n'"
    and "jelements n'' t'' xs \<Longrightarrow> wf_values xs \<and> values_depth xs \<le> n''"
  by (induction rule: jvalue_jmembers_jelements.inducts) auto

text \<open>
  C21. What the strict parser accepts has no duplicate member name in any object and nests at
  most 256 containers.
\<close>

theorem strict_json_shape:
  assumes "parseDocument s = Inr v"
  shows "wf_value v \<and> value_depth v \<le> 256"
  using parseDocument_sound [OF assms] grammar_shape(1) by (auto simp: jdocument_def maxJSONDepth_def)

theorem strict_json_shape_witness:
  "wf_value (VArr [VNull, VArr []]) \<and> value_depth (VArr [VNull, VArr []]) \<le> 256"
proof (rule strict_json_shape)
  show "parseDocument ''[null, []]'' = Inr (VArr [VNull, VArr []])"
    by (simp add: parseDocument_def skipWhitespace_def is_ws_def maxJSONDepth_def parseLiteral_def
        eval_nat_numeral)
qed

end
