(* ===== verification/GoUnicode.thy ===== *)
theory GoUnicode
  imports GoStrings
begin

text \<open>
  Go's Unicode tables are data of the toolchain and a parameter \<open>U\<close> of the definitions that
  consult them (\<^verbatim>\<open>unicode.IsLetter\<close> and its relatives, and the case mappings of
  \<^verbatim>\<open>strings.ToLower\<close> and \<^verbatim>\<open>strings.ToUpper\<close>). The interface \<open>unicode_tables\<close> states what the
  tables say of ASCII; \<open>ascii_tables\<close> is the instance that treats every other rune as a
  caseless symbol.
\<close>

record unicode =
  u_letter :: "nat \<Rightarrow> bool"
  u_digit :: "nat \<Rightarrow> bool"
  u_upper :: "nat \<Rightarrow> bool"
  u_lower :: "nat \<Rightarrow> bool"
  u_to_lower :: "nat \<Rightarrow> nat"
  u_to_upper :: "nat \<Rightarrow> nat"

definition ascii_upper :: "nat \<Rightarrow> bool" where "ascii_upper r \<longleftrightarrow> 65 \<le> r \<and> r \<le> 90"
definition ascii_lower :: "nat \<Rightarrow> bool" where "ascii_lower r \<longleftrightarrow> 97 \<le> r \<and> r \<le> 122"
definition ascii_digit :: "nat \<Rightarrow> bool" where "ascii_digit r \<longleftrightarrow> 48 \<le> r \<and> r \<le> 57"
definition ascii_to_lower :: "nat \<Rightarrow> nat" where
  "ascii_to_lower r = (if ascii_upper r then r + 32 else r)"

definition ascii_to_upper :: "nat \<Rightarrow> nat" where
  "ascii_to_upper r = (if ascii_lower r then r - 32 else r)"

lemmas ascii_defs = ascii_upper_def ascii_lower_def ascii_digit_def ascii_to_lower_def
  ascii_to_upper_def

definition ascii_tables :: unicode where
  "ascii_tables =
     \<lparr>u_letter = (\<lambda>r. ascii_upper r \<or> ascii_lower r), u_digit = ascii_digit,
      u_upper = ascii_upper, u_lower = ascii_lower, u_to_lower = ascii_to_lower,
      u_to_upper = ascii_to_upper\<rparr>"

text \<open>\<^verbatim>\<open>strings.ToLower\<close> and \<^verbatim>\<open>strings.ToUpper\<close>: rune by rune, an invalid byte becoming \<open>rune_error\<close>.\<close>

definition go_to_lower :: "unicode \<Rightarrow> bytes \<Rightarrow> bytes" where
  "go_to_lower U s = encode_runes (map (u_to_lower U) (runes s))"

definition go_to_upper :: "unicode \<Rightarrow> bytes \<Rightarrow> bytes" where
  "go_to_upper U s = encode_runes (map (u_to_upper U) (runes s))"

text \<open>ASCII strings are their own runes, in both directions.\<close>

definition ascii_string :: "bytes \<Rightarrow> bool" where
  "ascii_string s \<longleftrightarrow> list_all (\<lambda>c. code c < 128) s"

lemma runes_ascii: "ascii_string s \<Longrightarrow> runes s = map code s"
  by (induction s) (auto simp: ascii_string_def runes_def)

lemma encode_rune_ascii: "code c < 128 \<Longrightarrow> encode_rune (code c) = [c]"
  by (simp add: encode_rune_def valid_rune_def code_def)

lemma encode_runes_ascii: "ascii_string s \<Longrightarrow> encode_runes (map code s) = s"
  by (induction s) (auto simp: ascii_string_def encode_runes_def encode_rune_ascii)

lemma ascii_string_append [simp]:
  "ascii_string (s @ t) \<longleftrightarrow> ascii_string s \<and> ascii_string t"
  "ascii_string (c # s) \<longleftrightarrow> code c < 128 \<and> ascii_string s"
  by (auto simp: ascii_string_def)

lemma ascii_string_Nil [simp]: "ascii_string []"
  by (simp add: ascii_string_def)

lemma ascii_string_set: "ascii_string s \<longleftrightarrow> (\<forall>c\<in>set s. code c < 128)"
  by (simp add: ascii_string_def list_all_iff)

lemma byte_lower_code: "code (byte_lower c) = ascii_to_lower (code c)"
  by (auto simp: byte_lower_def ascii_defs code_def less_eq_char_def)

lemma byte_upper_code: "code (byte_upper c) = ascii_to_upper (code c)"
  by (auto simp: byte_upper_def ascii_defs code_def less_eq_char_def)

locale unicode_tables =
  fixes U :: unicode
  assumes letter: "r < 128 \<Longrightarrow> u_letter U r \<longleftrightarrow> ascii_upper r \<or> ascii_lower r"
    and digit: "r < 128 \<Longrightarrow> u_digit U r \<longleftrightarrow> ascii_digit r"
    and upper: "r < 128 \<Longrightarrow> u_upper U r \<longleftrightarrow> ascii_upper r"
    and lower: "r < 128 \<Longrightarrow> u_lower U r \<longleftrightarrow> ascii_lower r"
    and to_lower: "r < 128 \<Longrightarrow> u_to_lower U r = ascii_to_lower r"
    and to_upper: "r < 128 \<Longrightarrow> u_to_upper U r = ascii_to_upper r"
begin

text \<open>On ASCII text the case mappings act byte by byte.\<close>

lemma map_lower_ascii: "ascii_string s \<Longrightarrow> go_to_lower U s = to_lower s"
proof -
  assume s: "ascii_string s"
  then have "map (u_to_lower U) (runes s) = map code (to_lower s)"
    by (auto simp: runes_ascii to_lower_def byte_lower_code ascii_string_set to_lower)
  moreover have "ascii_string (to_lower s)"
    using s by (auto simp: ascii_string_set to_lower_def byte_lower_code ascii_defs)
  ultimately show ?thesis by (simp add: go_to_lower_def encode_runes_ascii)
qed

lemma map_upper_ascii: "ascii_string s \<Longrightarrow> go_to_upper U s = to_upper s"
proof -
  assume s: "ascii_string s"
  then have "map (u_to_upper U) (runes s) = map code (to_upper s)"
    by (auto simp: runes_ascii to_upper_def byte_upper_code ascii_string_set to_upper)
  moreover have "ascii_string (to_upper s)"
    using s by (auto simp: ascii_string_set to_upper_def byte_upper_code ascii_defs)
  ultimately show ?thesis by (simp add: go_to_upper_def encode_runes_ascii)
qed

end

interpretation ascii: unicode_tables ascii_tables
  by unfold_locales (auto simp: ascii_tables_def)

end
