(* ===== verification/GoFloat.thy ===== *)
theory GoFloat
  imports GoValue
begin

text \<open>
  \<^verbatim>\<open>float64\<close> values as rationals: the float nearest to a quotient (what \<^verbatim>\<open>strconv.ParseFloat\<close>
  answers), and the text \<^verbatim>\<open>encoding/json\<close> writes for a float, the shortest decimal that reads
  back as the same float, in exponent form below \<open>10 ^ (- 6)\<close> and from \<open>10 ^ 21\<close> on.
\<close>

section \<open>Rounding\<close>

text \<open>
  Ties go to the even significand, with the gradual underflow of exponents below -1022: the
  significand is an integer of at most 53 bits and its unit is at least \<open>2 ^ (- 1074)\<close>.
\<close>

definition round_quotient :: "nat \<Rightarrow> nat \<Rightarrow> nat" where
  "round_quotient a b =
     (let q = a div b; r = a mod b in
      if 2 * r < b \<or> (2 * r = b \<and> even q) then q else q + 1)"

definition log2_floor :: "nat \<Rightarrow> nat \<Rightarrow> int" where
  "log2_floor a b =
     (let k = int (bit_length a) - int (bit_length b) in
      if b * 2 ^ nat k \<le> a * 2 ^ nat (- k) then k else k - 1)"

definition float_of_quotient :: "nat \<Rightarrow> nat \<Rightarrow> rat" where
  "float_of_quotient a b =
     (if a = 0 then 0
      else (let e = max (log2_floor a b - 52) (- 1074);
                q = round_quotient (a * 2 ^ nat (- e)) (b * 2 ^ nat e) in
            of_nat q * 2 ^ nat e / 2 ^ nat (- e)))"

section \<open>Shortest decimals\<close>

text \<open>The exponent of the leading digit of \<open>a / b\<close>.\<close>

definition log10_floor :: "nat \<Rightarrow> nat \<Rightarrow> int" where
  "log10_floor a b =
     (if b \<le> a then int (length (decimal (a div b))) - 1
      else (case List.find (\<lambda>j. b \<le> a * 10 ^ j) [1..<400] of Some j \<Rightarrow> - int j | None \<Rightarrow> - 400))"

text \<open>The nearest decimal of \<open>n\<close> digits, as an integer and a power of ten.\<close>

definition nearest_decimal :: "nat \<Rightarrow> nat \<Rightarrow> nat \<Rightarrow> nat \<times> int" where
  "nearest_decimal a b n =
     (let e = log10_floor a b - int n + 1 in
      (round_quotient (a * 10 ^ nat (- e)) (b * 10 ^ nat e), e))"

definition shortest_decimal :: "nat \<Rightarrow> nat \<Rightarrow> nat \<times> int" where
  "shortest_decimal a b =
     (case List.find (\<lambda>n. case nearest_decimal a b n of (m, e) \<Rightarrow>
             float_of_quotient (m * 10 ^ nat e) (10 ^ nat (- e)) = of_nat a / of_nat b) [1..<17] of
        Some n \<Rightarrow> nearest_decimal a b n
      | None \<Rightarrow> nearest_decimal a b 17)"

definition strip_zeros :: "bytes \<Rightarrow> bytes" where
  "strip_zeros s = rev (dropWhile (\<lambda>c. c = CHR ''0'') (rev s))"

text \<open>Digits \<open>ds\<close> with the decimal point after \<open>p\<close> of them.\<close>

definition place_point :: "bytes \<Rightarrow> int \<Rightarrow> bytes" where
  "place_point ds p =
     (if p - 1 < - 6 \<or> 21 \<le> p - 1 then
        take 1 ds @ (if tl ds = [] then [] else CHR ''.'' # tl ds) @ CHR ''e'' #
        (if p - 1 < 0 then ''-'' @ decimal (nat (1 - p)) else ''+'' @ decimal (nat (p - 1)))
      else if p \<le> 0 then ''0.'' @ replicate (nat (- p)) CHR ''0'' @ ds
      else if int (length ds) \<le> p then ds @ replicate (nat p - length ds) CHR ''0''
      else take (nat p) ds @ CHR ''.'' # drop (nat p) ds)"

definition format_float :: "rat \<Rightarrow> bytes" where
  "format_float x =
     (if x = 0 then ''0''
      else (let (a, b) = quotient_of \<bar>x\<bar>;
                (m, e) = shortest_decimal (nat a) (nat b);
                ds = decimal m in
            (if x < 0 then ''-'' else []) @
            place_point (strip_zeros ds) (int (length ds) + e)))"

section \<open>Decimals read back\<close>

lemma digit_char_code: "d < 10 \<Longrightarrow> (of_char (digit_char d) :: nat) = 48 + d"
  by (simp add: digit_char_def)

lemma digit_char_digit: "d < 10 \<Longrightarrow> is_digit (digit_char d)"
  by (simp add: is_digit_def char_le_of_char digit_char_code)

lemma digits_value_snoc [simp]: "digits_value (s @ [c]) = 10 * digits_value s + digit_value c"
  by (simp add: digits_value_def)

lemma decimal_digits: "decimal n \<noteq> [] \<and> list_all is_digit (decimal n)"
proof (induction n rule: decimal.induct)
  case (1 n)
  show ?case
  proof (cases "n < 10")
    case True
    then show ?thesis by (simp add: decimal.simps [of n] digit_char_digit)
  next
    case False
    with 1 show ?thesis by (subst (1 2) decimal.simps) (simp add: digit_char_digit)
  qed
qed

lemma digits_value_decimal [simp]: "digits_value (decimal n) = n"
proof (induction n rule: decimal.induct)
  case (1 n)
  have d: "digit_value (digit_char (n mod 10)) = n mod 10"
    by (simp add: digit_value_def digit_char_code)
  show ?case
  proof (cases "n < 10")
    case True
    then show ?thesis using d by (simp add: decimal.simps [of n] digits_value_def)
  next
    case False
    with 1 have "digits_value (decimal (n div 10)) = n div 10" by blast
    with False d show ?thesis by (subst decimal.simps) simp
  qed
qed

lemma decimal_first: "0 < n \<Longrightarrow> hd (decimal n) \<noteq> CHR ''0''"
proof (induction n rule: decimal.induct)
  case (1 n)
  show ?case
  proof (cases "n < 10")
    case True
    then have "(of_char (digit_char n) :: nat) \<noteq> of_char CHR ''0''"
      using 1(2) by (simp add: digit_char_code)
    then have "digit_char n \<noteq> CHR ''0''" by metis
    with True show ?thesis by (simp add: decimal.simps [of n])
  next
    case False
    with 1 have "hd (decimal (n div 10)) \<noteq> CHR ''0''" by simp
    with False show ?thesis
      using decimal_digits [of "n div 10"] by (subst decimal.simps) simp
  qed
qed

lemma parse_uint64_decimal: "n < 2 ^ 64 \<Longrightarrow> parse_uint64 (decimal n) = Some n"
  using decimal_digits [of n] by (simp add: parse_uint64_def all_digits_def)

end
