(* ===== verification/JsonEncode.thy ===== *)
theory JsonEncode
  imports JsonGrammar GoUnicode GoFloat
begin

text \<open>
  \<^verbatim>\<open>json.Marshal\<close> on the values the program marshals: members in the order given (the order of
  a struct's fields), strings with HTML escaping, numbers by their literal. A Go map is
  marshalled in the order of its keys: \<open>marshal_any\<close> sorts every map of a value first. Marshalling a
  value whose strings are valid UTF-8 gives a text of the strict grammar that denotes the
  value, so the strict parser reads it back.
\<close>

definition hex_nibble :: "nat \<Rightarrow> char" where
  "hex_nibble n = (if n < 10 then char_of (48 + n) else char_of (87 + n))"

definition unicode_escape :: "nat \<Rightarrow> bytes" where
  "unicode_escape n =
     [CHR 0x5C, CHR ''u'', hex_nibble (n div 4096 mod 16), hex_nibble (n div 256 mod 16),
      hex_nibble (n div 16 mod 16), hex_nibble (n mod 16)]"

definition escape_rune :: "nat \<Rightarrow> bytes \<Rightarrow> bytes" where
  "escape_rune r chunk =
     (if r < 128 then
        (if r = 34 \<or> r = 92 then CHR 0x5C # chunk
         else if r = 8 then [CHR 0x5C, CHR ''b''] else if r = 12 then [CHR 0x5C, CHR ''f'']
         else if r = 10 then [CHR 0x5C, CHR ''n''] else if r = 13 then [CHR 0x5C, CHR ''r'']
         else if r = 9 then [CHR 0x5C, CHR ''t'']
         else if r < 32 \<or> r = 60 \<or> r = 62 \<or> r = 38 then unicode_escape r
         else chunk)
      else if r = rune_error \<and> length chunk = 1 then unicode_escape rune_error
      else if r = 8232 \<or> r = 8233 then unicode_escape r
      else chunk)"

definition encode_chars :: "bytes \<Rightarrow> bytes" where
  "encode_chars s = concat (map (\<lambda>(r, chunk). escape_rune r chunk) (rune_chunks s))"

definition encode_string :: "bytes \<Rightarrow> bytes" where
  "encode_string s = CHR 0x22 # encode_chars s @ [CHR 0x22]"

definition encode_int :: "int \<Rightarrow> bytes" where
  "encode_int i = (if i < 0 then ''-'' @ decimal (nat (- i)) else decimal (nat i))"

fun json_encode :: "gval \<Rightarrow> bytes"
  and encode_items :: "gval list \<Rightarrow> bytes"
  and encode_fields :: "object \<Rightarrow> bytes" where
  "json_encode VNull = ''null''"
| "json_encode (VBool b) = (if b then ''true'' else ''false'')"
| "json_encode (VNumber n) = n"
| "json_encode (VInt i) = encode_int i"
| "json_encode (VFloat q) = format_float q"
| "json_encode (VStr s) = encode_string s"
| "json_encode (VStrs ss) = ''['' @ join_with '','' (map encode_string ss) @ '']''"
| "json_encode (VArr xs) = CHR ''['' # encode_items xs @ '']''"
| "json_encode (VObj m) = CHR ''{'' # encode_fields m @ ''}''"
| "encode_items [] = []"
| "encode_items (x # xs) = json_encode x @ (if xs = [] then [] else CHR '','' # encode_items xs)"
| "encode_fields [] = []"
| "encode_fields ((k, v) # m) =
     encode_string k @ CHR '':'' # json_encode v @ (if m = [] then [] else CHR '','' # encode_fields m)"

text \<open>\<^verbatim>\<open>json.Marshal\<close> of a Go value of type \<^verbatim>\<open>any\<close>.\<close>

definition key_less :: "bytes \<times> gval \<Rightarrow> bytes \<times> gval \<Rightarrow> bool" where
  "key_less p q \<longleftrightarrow> fst p < fst q"

fun sort_maps :: "gval \<Rightarrow> gval"
  and sort_maps_list :: "gval list \<Rightarrow> gval list"
  and sort_maps_fields :: "object \<Rightarrow> object" where
  "sort_maps (VArr xs) = VArr (sort_maps_list xs)"
| "sort_maps (VObj m) = VObj (sort_by key_less (sort_maps_fields m))"
| "sort_maps v = v"
| "sort_maps_list [] = []"
| "sort_maps_list (x # xs) = sort_maps x # sort_maps_list xs"
| "sort_maps_fields [] = []"
| "sort_maps_fields ((k, v) # m) = (k, sort_maps v) # sort_maps_fields m"

definition marshal_any :: "gval \<Rightarrow> bytes" where
  "marshal_any v = json_encode (sort_maps v)"

text \<open>Values made of what a JSON document can contain.\<close>

fun wire_value :: "gval \<Rightarrow> bool"
  and wire_values :: "gval list \<Rightarrow> bool"
  and wire_fields :: "object \<Rightarrow> bool" where
  "wire_value VNull = True"
| "wire_value (VBool b) = True"
| "wire_value (VNumber n) = jnumber n"
| "wire_value (VInt i) = False"
| "wire_value (VFloat q) = False"
| "wire_value (VStr s) = valid_utf8 s"
| "wire_value (VStrs ss) = False"
| "wire_value (VArr xs) = wire_values xs"
| "wire_value (VObj m) = (distinct (keys m) \<and> wire_fields m)"
| "wire_values [] = True"
| "wire_values (x # xs) = (wire_value x \<and> wire_values xs)"
| "wire_fields [] = True"
| "wire_fields ((k, v) # m) = (valid_utf8 k \<and> wire_value v \<and> wire_fields m)"

section \<open>Valid UTF-8\<close>

lemma rune_chunks_encode:
  assumes "valid_rune r"
  shows "rune_chunks (encode_rune r @ s) = (r, encode_rune r) # rune_chunks s"
  using decode_encode_rune [OF assms, of s] by (subst rune_chunks.simps) simp

lemma error_rune_length: "length (encode_rune rune_error) = 3"
  by (simp add: encode_rune_def rune_error_def valid_rune_def)

lemma valid_utf8_encode [simp]: "valid_rune r \<Longrightarrow> valid_utf8 (encode_rune r @ s) = valid_utf8 s"
  using error_rune_length by (auto simp: valid_utf8_def rune_chunks_encode)

lemma valid_utf8_Nil [simp]: "valid_utf8 []"
  by (simp add: valid_utf8_def)

lemma valid_utf8_cases:
  assumes "valid_utf8 s" and "s \<noteq> []"
  obtains r t where "valid_rune r" "s = encode_rune r @ t" "valid_utf8 t"
proof -
  have "\<not> (fst (decode_rune s) = rune_error \<and> snd (decode_rune s) = 1)"
  proof
    assume e: "fst (decode_rune s) = rune_error \<and> snd (decode_rune s) = 1"
    have "length (take 1 s) = 1" using assms(2) by (cases s) auto
    then show False using assms e by (simp add: valid_utf8_def rune_chunks.simps [of s] Let_def)
  qed
  from decode_rune_valid [OF assms(2) this] assms(1) that show ?thesis by (metis valid_utf8_encode)
qed

lemma valid_utf8_ascii: "ascii_string s \<Longrightarrow> valid_utf8 s"
  by (induction s) (auto simp: ascii_string_def valid_utf8_def rune_error_def)

section \<open>Round trip\<close>

lemma hex_nibble_value: "n < 16 \<Longrightarrow> hex_digit_value (hex_nibble n) = Some n"
  by (simp add: hex_nibble_def hex_digit_value_def)

lemma nibbles:
  "\<lbrakk>a = b * 16 + m1; b = c * 16 + m2; d = c; n = a * 16 + m3\<rbrakk> \<Longrightarrow> (n::nat) = 16 * (16 * (16 * d + m2) + m1) + m3"
  by simp

lemma unicode_escape_hex4: "n < 65536 \<Longrightarrow> hex4 (drop 2 (unicode_escape n)) n"
proof -
  assume n: "n < 65536"
  have a: "n div 16 = n div 256 * 16 + n div 16 mod 16" "n div 256 = n div 4096 * 16 + n div 256 mod 16"
    using div_mult_mod_eq [of "n div 16" 16] div_mult_mod_eq [of "n div 256" 16]
    by (simp_all add: div_mult2_eq [symmetric])
  have b: "n div 4096 mod 16 = n div 4096" using n by simp
  have "n = 16 * (16 * (16 * (n div 4096 mod 16) + n div 256 mod 16) + n div 16 mod 16) + n mod 16"
    using nibbles [OF a b div_mult_mod_eq [of n 16, symmetric]] .
  then show ?thesis
    using b hex_nibble_value [of "n div 4096"] n
    by (simp add: hex4_def unicode_escape_def hex_nibble_value)
qed

lemma unicode_escape_split: "unicode_escape n = CHR 0x5C # CHR ''u'' # drop 2 (unicode_escape n)"
  by (simp add: unicode_escape_def)

lemma jchars_escaped_unicode:
  assumes "n < 55296 \<or> (57343 < n \<and> n < 65536)" and "jchars t s"
  shows "jchars (unicode_escape n @ t) (encode_rune n @ s)"
proof -
  have "jescape (CHR ''u'' # drop 2 (unicode_escape n)) (encode_rune n)"
    using assms(1) by (intro esc_unicode unicode_escape_hex4) auto
  from chars_escape [OF this assms(2)] show ?thesis
    by (subst unicode_escape_split) simp
qed

lemma jchars_escaped_short:
  "short_escape e = Some c \<Longrightarrow> jchars t s \<Longrightarrow> jchars ([CHR 0x5C, e] @ t) (c # s)"
  using chars_escape [OF esc_short, of e c t s] by simp

lemma control_chars:
  "char_of (34::nat) = CHR 0x22" "char_of (92::nat) = CHR 0x5C" "char_of (8::nat) = CHR 0x08"
  "char_of (12::nat) = CHR 0x0C" "char_of (10::nat) = CHR 0x0A" "char_of (13::nat) = CHR 0x0D"
  "char_of (9::nat) = CHR 0x09"
  by code_simp+

lemma short_escapes:
  assumes "jchars t s"
  shows "jchars (CHR 0x5C # CHR 0x22 # t) (CHR 0x22 # s)" "jchars (CHR 0x5C # CHR 0x5C # t) (CHR 0x5C # s)"
    "jchars (CHR 0x5C # CHR ''b'' # t) (CHR 0x08 # s)" "jchars (CHR 0x5C # CHR ''f'' # t) (CHR 0x0C # s)"
    "jchars (CHR 0x5C # CHR ''n'' # t) (CHR 0x0A # s)" "jchars (CHR 0x5C # CHR ''r'' # t) (CHR 0x0D # s)"
    "jchars (CHR 0x5C # CHR ''t'' # t) (CHR 0x09 # s)"
  using jchars_escaped_short [OF _ assms] by (simp_all add: short_escape_def)

lemma ascii_rune: "r < 128 \<Longrightarrow> encode_rune r = [char_of r]"
  by (simp add: encode_rune_def valid_rune_def)

lemma escape_rune_jchars:
  assumes "valid_rune r" and "jchars t s"
  shows "jchars (escape_rune r (encode_rune r) @ t) (encode_rune r @ s)"
proof (cases "r < 128")
  case True
  consider "r = 34" | "r = 92" | "r = 8" | "r = 12" | "r = 10" | "r = 13" | "r = 9"
    | "r < 32 \<or> r = 60 \<or> r = 62 \<or> r = 38" "r \<notin> {8, 12, 10, 13, 9}"
    | "32 \<le> r" "r \<notin> {34, 92, 60, 62, 38}"
    by force
  then show ?thesis
  proof cases
    case 8
    have "jchars (unicode_escape r @ t) (encode_rune r @ s)"
      using True assms(2) by (intro jchars_escaped_unicode) auto
    moreover have "r \<noteq> 34" "r \<noteq> 92" using 8 by auto
    ultimately show ?thesis using True 8 by (simp add: escape_rune_def)
  next
    case 9
    then have "escape_rune r (encode_rune r) = encode_rune r" using True by (simp add: escape_rune_def)
    moreover have "jchars (encode_rune r @ t) (encode_rune r @ s)"
      using 9 assms by (intro chars_rune) auto
    ultimately show ?thesis by simp
  qed (use short_escapes assms(2) in \<open>simp_all add: escape_rune_def ascii_rune control_chars\<close>)
next
  case False
  have "\<not> (r = rune_error \<and> length (encode_rune r) = 1)" using error_rune_length by auto
  moreover have "jchars (encode_rune r @ t) (encode_rune r @ s)"
    using False assms by (intro chars_rune) auto
  moreover have "r = 8232 \<or> r = 8233 \<Longrightarrow> jchars (unicode_escape r @ t) (encode_rune r @ s)"
    using assms(2) by (intro jchars_escaped_unicode) auto
  ultimately show ?thesis using False by (auto simp: escape_rune_def)
qed

lemma encode_chars_jchars: "valid_utf8 s \<Longrightarrow> jchars (encode_chars s) s"
proof (induction "length s" arbitrary: s rule: less_induct)
  case less
  show ?case
  proof (cases "s = []")
    case True
    then show ?thesis by (simp add: encode_chars_def chars_end)
  next
    case False
    then obtain r t where s: "valid_rune r" "s = encode_rune r @ t" "valid_utf8 t"
      using valid_utf8_cases less.prems by blast
    then have "jchars (encode_chars t) t" using less.hyps by simp
    from escape_rune_jchars [OF s(1) this] show ?thesis
      by (simp add: s(2) encode_chars_def rune_chunks_encode [OF s(1)])
  qed
qed

lemma encode_string_jstring: "valid_utf8 s \<Longrightarrow> jstring (encode_string s) s"
  using encode_chars_jchars by (auto simp: jstring_def encode_string_def)

lemma ws_Nil [simp]: "ws []"
  by (simp add: ws_def)

lemma fields_jmembers:
  assumes "\<And>k v. (k, v) \<in> set m \<Longrightarrow> jvalue n (json_encode v) v"
    and "m \<noteq> []" and "distinct (keys m)" and "set (keys m) \<inter> set names = {}" and "wire_fields m"
  shows "jmembers n names (encode_fields m) m"
  using assms
proof (induction m arbitrary: names)
  case (Cons p m)
  obtain k v where p: "p = (k, v)" by (cases p)
  have k: "jstring (encode_string k) k" "k \<notin> set names" using Cons.prems(4,5) by (auto simp: p encode_string_jstring)
  have v: "jvalue n (json_encode v) v" using Cons.prems(1) [of k v] by (simp add: p)
  show ?case
  proof (cases "m = []")
    case True
    from m_one [of "[]" "encode_string k" k names "[]" "[]" n "json_encode v" v "[]"] k v True
    show ?thesis by (simp add: p)
  next
    case False
    have "jmembers n (k # names) (encode_fields m) m"
      using Cons.prems False by (intro Cons.IH) (auto simp: p)
    from m_more [of "[]" "encode_string k" k names "[]" "[]" n "json_encode v" v "[]", OF _ k _ _ v _ this] False
    show ?thesis by (simp add: p)
  qed
qed simp

lemma items_jelements:
  assumes "\<And>x. x \<in> set xs \<Longrightarrow> jvalue n (json_encode x) x" and "xs \<noteq> []"
  shows "jelements n (encode_items xs) xs"
  using assms
proof (induction xs)
  case (Cons x xs)
  show ?case
  proof (cases "xs = []")
    case True
    with e_one [of "[]" n "json_encode x" x "[]"] Cons.prems show ?thesis by simp
  next
    case False
    have "jelements n (encode_items xs) xs" using Cons.prems False by (intro Cons.IH) auto
    from e_more [of "[]" n "json_encode x" x "[]", OF _ _ _ this] Cons.prems(1) False show ?thesis by simp
  qed
qed simp

lemma values_depth_le: "x \<in> set xs \<Longrightarrow> value_depth x \<le> values_depth xs"
  by (induction xs) auto

lemma fields_depth_le: "(k, v) \<in> set m \<Longrightarrow> value_depth v \<le> fields_depth m"
  by (induction m) auto

lemma wire_values_iff: "wire_values xs \<longleftrightarrow> (\<forall>x\<in>set xs. wire_value x)"
  by (induction xs) auto

lemma wire_fields_mem: "wire_fields m \<Longrightarrow> (k, v) \<in> set m \<Longrightarrow> wire_value v \<and> valid_utf8 k"
  by (induction m) auto

lemma encode_jvalue: "wire_value v \<Longrightarrow> value_depth v \<le> n \<Longrightarrow> jvalue n (json_encode v) v"
proof (induction v arbitrary: n)
  case VNull
  show ?case by (simp only: json_encode.simps v_null)
next
  case (VBool b)
  show ?case by (cases b) (simp_all only: json_encode.simps v_true v_false if_True if_False)
next
  case (VArr xs)
  obtain k where n: "n = Suc k" and k: "values_depth xs \<le> k" using VArr.prems(2) by (cases n) auto
  show ?case
  proof (cases "xs = []")
    case True
    with v_empty_array [of "[]" k] n show ?thesis by simp
  next
    case False
    have "jelements k (encode_items xs) xs"
      using VArr.IH VArr.prems(1) k values_depth_le False
      by (intro items_jelements) (force simp: wire_values_iff)+
    from v_array [OF this] n show ?thesis by simp
  qed
next
  case (VObj m)
  obtain k where n: "n = Suc k" and k: "fields_depth m \<le> k" using VObj.prems(2) by (cases n) auto
  show ?case
  proof (cases "m = []")
    case True
    with v_empty_object [of "[]" k] n show ?thesis by simp
  next
    case False
    have "jvalue k (json_encode x) x" if "(y, x) \<in> set m" for x y
      using VObj.IH [OF that, of x k] VObj.prems(1) wire_fields_mem [OF _ that] fields_depth_le [OF that] k by simp
    then have "jmembers k [] (encode_fields m) m"
      using VObj.prems(1) False by (intro fields_jmembers) auto
    from v_object [OF this] n show ?thesis by simp
  qed
qed (simp_all add: v_string v_number encode_string_jstring)

lemma json_round_trip:
  assumes "wire_value v" and "value_depth v \<le> 256"
  shows "parseDocument (json_encode v) = Inr v"
proof (rule parseDocument_complete)
  have "jvalue maxJSONDepth (json_encode v) v"
    using assms by (intro encode_jvalue) (auto simp: maxJSONDepth_def)
  moreover have "json_encode v = [] @ json_encode v @ []" by simp
  ultimately show "jdocument (json_encode v) v" unfolding jdocument_def using ws_Nil by blast
qed

text \<open>
  C22. Marshalling and strict parsing are inverse on the values of the wire: the strict parser reads
  back exactly the value that was marshalled, for every value made of null, booleans, number
  literals the parser admits (in range, no negative zero), valid UTF-8 strings, arrays and objects with distinct valid UTF-8
  member names, with at most 256 levels of nesting. Integers and floats of Go, and strings that
  are not UTF-8, are outside: they come back as literals, or changed.
\<close>

theorem marshal_parse_round_trip:
  assumes "wire_value v" and "value_depth v \<le> 256"
  shows "parseDocument (json_encode v) = Inr v"
  using assms by (rule json_round_trip)

theorem marshal_parse_round_trip_witness:
  "parseDocument (json_encode (VObj [(''a<b'', VStr ''x''), (''c'', VArr [VNull, VBool True])])) =
     Inr (VObj [(''a<b'', VStr ''x''), (''c'', VArr [VNull, VBool True])])"
proof (rule marshal_parse_round_trip)
  have "valid_utf8 ''a<b''" "valid_utf8 ''x''" "valid_utf8 ''c''"
    by (simp_all add: valid_utf8_ascii ascii_string_def code_def)
  then show "wire_value (VObj [(''a<b'', VStr ''x''), (''c'', VArr [VNull, VBool True])])" by simp
qed simp

text \<open>The strings and numbers of a parsed document can be marshalled again.\<close>

lemma hex_digit_value_bound: "hex_digit_value x = Some y \<Longrightarrow> y < 16"
  by (auto simp: hex_digit_value_def split: if_splits)

lemma hex4_bound:
  assumes "hex4 h n"
  shows "n < 65536"
proof -
  obtain a b c d where h: "h = [a, b, c, d]"
    using assms by (auto simp: hex4_def length_Suc_conv eval_nat_numeral)
  obtain i j k l where v: "hex_digit_value a = Some i" "hex_digit_value b = Some j"
      "hex_digit_value c = Some k" "hex_digit_value d = Some l"
    using assms by (auto simp: h hex4_def)
  then have "i < 16" "j < 16" "k < 16" "l < 16" by (auto dest: hex_digit_value_bound)
  then show ?thesis using assms v by (simp add: h hex4_def)
qed

lemma jescape_valid: "jescape e c \<Longrightarrow> \<exists>r. valid_rune r \<and> c = encode_rune r"
proof (induction rule: jescape.induct)
  case (esc_short e c)
  then have "code c < 128" by (auto simp: short_escape_def code_def split: if_splits)
  then show ?case by (intro exI [of _ "code c"]) (simp add: ascii_rune valid_rune_def)
next
  case (esc_unicode h n)
  with hex4_bound [OF esc_unicode(1)] show ?case by (intro exI [of _ n]) (auto simp: valid_rune_def)
next
  case (esc_pair h m g n)
  then show ?case
    by (intro exI [of _ "(m - 55296) * 1024 + (n - 56320) + 65536"]) (auto simp: valid_rune_def)
qed

lemma jchars_valid: "jchars t s \<Longrightarrow> valid_utf8 s"
proof (induction rule: jchars.induct)
  case (chars_escape e c t s)
  then show ?case using jescape_valid by fastforce
qed auto

lemma grammar_wire:
  shows "jvalue n t v \<Longrightarrow> wire_value v"
    and "jmembers n' names t' m \<Longrightarrow> distinct (keys m) \<and> set (keys m) \<inter> set names = {} \<and> wire_fields m"
    and "jelements n'' t'' xs \<Longrightarrow> wire_values xs"
  by (induction rule: jvalue_jmembers_jelements.inducts) (auto simp: jstring_def dest: jchars_valid)

lemma parsed_wire: "parseDocument s = Inr v \<Longrightarrow> wire_value v"
  using parseDocument_sound [of s v] grammar_wire(1) by (auto simp: jdocument_def)

section \<open>Accepted texts are UTF-8\<close>

lemma valid_utf8_append: "valid_utf8 a \<Longrightarrow> valid_utf8 (a @ b) = valid_utf8 b"
proof (induction "length a" arbitrary: a rule: less_induct)
  case less
  show ?case
  proof (cases "a = []")
    case False
    then obtain r t where a: "valid_rune r" "a = encode_rune r @ t" "valid_utf8 t"
      using valid_utf8_cases [OF less.prems] by metis
    then have "length t < length a" using encode_rune_nonempty [of r] by (cases "encode_rune r") auto
    then have "valid_utf8 (t @ b) = valid_utf8 b" using less.hyps a(3) by blast
    with a(1,2) show ?thesis by simp
  qed simp
qed

lemma ascii_cons [simp]: "code c < 128 \<Longrightarrow> valid_utf8 (c # b) = valid_utf8 b"
  using valid_utf8_append [of "[c]" b] valid_utf8_ascii [of "[c]"] by (simp add: ascii_string_def)

lemma hex_code: "hex_digit_value c \<noteq> None \<Longrightarrow> code c < 128"
  by (auto simp: hex_digit_value_def split: if_splits)

lemma ascii_chars:
  "is_ws c \<Longrightarrow> code c < 128" "is_digit c \<Longrightarrow> code c < 128" "short_escape c = Some d \<Longrightarrow> code c < 128"
  by (auto simp: is_ws_def is_digit_def char_le_of_char short_escape_def code_def split: if_splits)

lemma ascii_all: "list_all P s \<Longrightarrow> (\<And>c. P c \<Longrightarrow> code c < 128) \<Longrightarrow> ascii_string s"
  by (auto simp: ascii_string_def list_all_iff)

lemma hex4_ascii: "hex4 h n \<Longrightarrow> ascii_string h"
  unfolding hex4_def using hex_code by (intro ascii_all [of "\<lambda>c. hex_digit_value c \<noteq> None"]) auto

lemma code_escape_chars [simp]: "code CHR 0x5C = 92" "code CHR ''u'' = 117" "code CHR 0x22 = 34"
  by (simp_all add: code_def)

lemma jescape_ascii: "jescape e c \<Longrightarrow> ascii_string e"
  by (induction rule: jescape.induct) (auto dest: hex4_ascii ascii_chars(3))

lemma jchars_text_valid: "jchars t s \<Longrightarrow> valid_utf8 t"
proof (induction rule: jchars.induct)
  case (chars_escape e c t s)
  then have "valid_utf8 (e @ t)"
    using valid_utf8_append [OF valid_utf8_ascii [OF jescape_ascii]] by blast
  then show ?case by simp
qed auto

lemma jstring_valid: "jstring t s \<Longrightarrow> valid_utf8 t"
  using valid_utf8_append jchars_text_valid by (fastforce simp: jstring_def)

lemma ws_valid: "ws w \<Longrightarrow> valid_utf8 w"
  unfolding ws_def using ascii_chars(1) by (intro valid_utf8_ascii ascii_all [of is_ws]) auto

lemma digits_ascii: "list_all is_digit d \<Longrightarrow> ascii_string d"
  using ascii_chars(2) by (intro ascii_all [of is_digit]) auto

lemma jnumber_valid: "jnumber t \<Longrightarrow> valid_utf8 t"
proof -
  assume "jnumber t"
  then obtain neg ip fp ep where t: "t = (if neg then ''-'' else []) @ ip @ fp @ ep" "jint ip" "jfrac fp" "jexp ep"
    by (auto simp: jnumber_def)
  have "ascii_string ip" using t(2) digits_ascii by (auto simp: jint_def code_def)
  moreover have "ascii_string fp" using t(3) digits_ascii by (auto simp: jfrac_def code_def)
  moreover have "ascii_string ep" using t(4) digits_ascii by (auto simp: jexp_def code_def)
  ultimately show ?thesis unfolding t(1) by (intro valid_utf8_ascii) (auto simp: code_def)
qed

lemma grammar_valid:
  shows "jvalue n t v \<Longrightarrow> valid_utf8 t"
    and "jmembers n' names t' m \<Longrightarrow> valid_utf8 t'"
    and "jelements n'' t'' xs \<Longrightarrow> valid_utf8 t''"
  by (induction rule: jvalue_jmembers_jelements.inducts)
    (auto simp: valid_utf8_append ws_valid jstring_valid jnumber_valid code_def)

lemma parsed_utf8: "parseDocument s = Inr v \<Longrightarrow> valid_utf8 s"
  using parseDocument_sound [of s v] grammar_valid(1)
  by (auto simp: jdocument_def valid_utf8_append ws_valid)

end
