(* ===== verification/GoJson.thy ===== *)
theory GoJson
  imports JsonEncode
begin

text \<open>
  \<^verbatim>\<open>encoding/json\<close> as the program uses it. \<open>unmarshal_value\<close> is the syntax its decoder
  accepts, wider than the strict parser's: repeated member names, unpaired surrogates and
  invalid UTF-8 (both read as U+FFFD), any number literal, and 10000 nested containers. On a
  text the strict parser accepts both give the same value (\<open>unmarshal_strict\<close>). The
  rest are the typed decoders: a struct is filled member by member, in the order of the
  document, a member going to the field of exactly its name or else of its name up to case;
  \<^verbatim>\<open>null\<close> leaves scalars and structs as they are and empties slices, maps and pointers.
\<close>

section \<open>Syntax\<close>

datatype syntax_error = SyntaxError | ScanFuel

definition lax_rune :: "bytes \<Rightarrow> nat \<Rightarrow> nat \<times> nat" where
  "lax_rune r first =
     (if first < 55296 \<or> first > 57343 then (first, 4)
      else if first \<le> 56319 \<and> take 2 (drop 4 r) = [CHR 0x5C, CHR ''u''] then
        (case parseHexCodeUnit (drop 6 r) of
           Inr second \<Rightarrow>
             if 56320 \<le> second \<and> second \<le> 57343
             then ((first - 55296) * 1024 + (second - 56320) + 65536, 10) else (rune_error, 4)
         | Inl _ \<Rightarrow> (rune_error, 4))
      else (rune_error, 4))"

definition lax_escape :: "bytes \<Rightarrow> (bytes \<times> nat) option" where
  "lax_escape s =
     (case s of
        [] \<Rightarrow> None
      | e # r \<Rightarrow>
          if e = CHR ''u'' then
            (case parseHexCodeUnit r of
               Inl _ \<Rightarrow> None
             | Inr first \<Rightarrow> (let (rune, n) = lax_rune r first in Some (encode_rune rune, Suc n)))
          else map_option (\<lambda>c. ([c], 1)) (short_escape e))"

function lax_chars :: "bytes \<Rightarrow> syntax_error + bytes \<times> bytes" where
  "lax_chars [] = Inl SyntaxError"
| "lax_chars (c # s) =
     (if c = CHR 0x22 then Inr ([], s)
      else if c = CHR 0x5C then
        (case lax_escape s of
           None \<Rightarrow> Inl SyntaxError
         | Some (out, n) \<Rightarrow> bind_res (lax_chars (drop n s)) (\<lambda>(t, rest). Inr (out @ t, rest)))
      else if code c < 32 then Inl SyntaxError
      else bind_res (lax_chars (drop (snd (decode_rune (c # s)) - 1) s))
             (\<lambda>(t, rest). Inr (encode_rune (fst (decode_rune (c # s))) @ t, rest)))"
  by pat_completeness auto
termination by (relation "measure length") auto

declare lax_chars.simps(2) [simp del]

definition lax_string :: "bytes \<Rightarrow> syntax_error + bytes \<times> bytes" where
  "lax_string s =
     (case s of [] \<Rightarrow> Inl SyntaxError | c # r \<Rightarrow> if c = CHR 0x22 then lax_chars r else Inl SyntaxError)"

definition lax_literal :: "bytes \<Rightarrow> gval \<Rightarrow> bytes \<Rightarrow> syntax_error + gval \<times> bytes" where
  "lax_literal literal v s =
     (if has_prefix s literal then Inr (v, drop (length literal) s) else Inl SyntaxError)"

definition lax_number :: "bytes \<Rightarrow> syntax_error + gval \<times> bytes" where
  "lax_number s =
     (let neg = has_prefix s ''-''; s1 = (if neg then tl s else s) in
      case bind_res (scan_integer s1) (\<lambda>(ip, s2).
           bind_res (scan_fraction s2) (\<lambda>(fp, s3).
           bind_res (scan_exponent s3) (\<lambda>(ep, s4).
             Inr (VNumber ((if neg then ''-'' else []) @ ip @ fp @ ep), s4)))) of
        Inl _ \<Rightarrow> Inl SyntaxError
      | Inr r \<Rightarrow> Inr r)"

definition maxNestingDepth :: nat where "maxNestingDepth = 10000"

fun lax_value :: "nat \<Rightarrow> nat \<Rightarrow> bytes \<Rightarrow> syntax_error + gval \<times> bytes"
  and lax_members :: "nat \<Rightarrow> nat \<Rightarrow> bytes \<Rightarrow> syntax_error + object \<times> bytes"
  and lax_elements :: "nat \<Rightarrow> nat \<Rightarrow> bytes \<Rightarrow> syntax_error + gval list \<times> bytes" where
  "lax_value 0 depth s = Inl ScanFuel"
| "lax_value (Suc fuel) depth s =
     (case skipWhitespace s of
        [] \<Rightarrow> Inl SyntaxError
      | c # r \<Rightarrow>
          if c = CHR ''{'' then
            (if depth \<ge> maxNestingDepth then Inl SyntaxError
             else (let t = skipWhitespace r in
               if has_prefix t ''}'' then Inr (VObj [], tl t)
               else bind_res (lax_members fuel (Suc depth) t) (\<lambda>(m, rest). Inr (VObj m, rest))))
          else if c = CHR ''['' then
            (if depth \<ge> maxNestingDepth then Inl SyntaxError
             else (let t = skipWhitespace r in
               if has_prefix t '']'' then Inr (VArr [], tl t)
               else bind_res (lax_elements fuel (Suc depth) t) (\<lambda>(xs, rest). Inr (VArr xs, rest))))
          else if c = CHR 0x22 then
            bind_res (lax_string (c # r)) (\<lambda>(str, rest). Inr (VStr str, rest))
          else if c = CHR ''t'' then lax_literal ''true'' (VBool True) (c # r)
          else if c = CHR ''f'' then lax_literal ''false'' (VBool False) (c # r)
          else if c = CHR ''n'' then lax_literal ''null'' VNull (c # r)
          else lax_number (c # r))"
| "lax_members 0 depth s = Inl ScanFuel"
| "lax_members (Suc fuel) depth s =
     bind_res (lax_string (skipWhitespace s)) (\<lambda>(name, s1).
       let s2 = skipWhitespace s1 in
         if \<not> has_prefix s2 '':'' then Inl SyntaxError
         else bind_res (lax_value fuel depth (tl s2)) (\<lambda>(v, s3).
           let s4 = skipWhitespace s3 in
           if has_prefix s4 ''}'' then Inr ([(name, v)], tl s4)
           else if has_prefix s4 '','' then
             bind_res (lax_members fuel depth (tl s4)) (\<lambda>(m, rest). Inr ((name, v) # m, rest))
           else Inl SyntaxError))"
| "lax_elements 0 depth s = Inl ScanFuel"
| "lax_elements (Suc fuel) depth s =
     bind_res (lax_value fuel depth s) (\<lambda>(v, s1).
       let s2 = skipWhitespace s1 in
       if has_prefix s2 '']'' then Inr ([v], tl s2)
       else if has_prefix s2 '','' then
         bind_res (lax_elements fuel depth (tl s2)) (\<lambda>(xs, rest). Inr (v # xs, rest))
       else Inl SyntaxError)"

text \<open>
  The value of a whole document, as \<^verbatim>\<open>json.Unmarshal\<close> reads it; and of the first value of
  a text, as a \<^verbatim>\<open>json.Decoder\<close> reads it.
\<close>

definition scan_value :: "bytes \<Rightarrow> (gval \<times> bytes) option" where
  "scan_value s = (case lax_value (2 * length s + 2) 0 s of Inr r \<Rightarrow> Some r | Inl _ \<Rightarrow> None)"

definition unmarshal_value :: "bytes \<Rightarrow> gval option" where
  "unmarshal_value s =
     (case scan_value s of
        Some (v, rest) \<Rightarrow> if skipWhitespace rest = [] then Some v else None
      | None \<Rightarrow> None)"

section \<open>The scanner's fuel is enough\<close>

text \<open>What is left after a value is shorter than the text, so fuel twice its length lasts.\<close>

definition shrinks :: "nat \<Rightarrow> bytes \<Rightarrow> syntax_error + 'a \<times> bytes \<Rightarrow> bool" where
  "shrinks k s r \<longleftrightarrow> (case r of Inr (_, rest) \<Rightarrow> length rest + k \<le> length s | Inl e \<Rightarrow> e = SyntaxError)"

lemma shrinks_simps [simp]:
  "shrinks k s (Inr (a, rest)) \<longleftrightarrow> length rest + k \<le> length s"
  "shrinks k s (Inl e) \<longleftrightarrow> e = SyntaxError"
  by (simp_all add: shrinks_def)

lemma shrinks_map [simp]: "shrinks k s (bind_res r (\<lambda>(a, rest). Inr (g a, rest))) \<longleftrightarrow> shrinks k s r"
  by (cases r) auto

lemma shrinks_mono: "shrinks k t r \<Longrightarrow> length t + j \<le> length s + k \<Longrightarrow> shrinks j s r"
  by (cases r) auto

lemma shrinks_if:
  "(b \<Longrightarrow> shrinks k s x) \<Longrightarrow> (\<not> b \<Longrightarrow> shrinks k s y) \<Longrightarrow> shrinks k s (if b then x else y)"
  by simp

lemma shrinks_bind:
  "shrinks k t r \<Longrightarrow> (\<And>a rest. r = Inr (a, rest) \<Longrightarrow> length rest + k \<le> length t \<Longrightarrow> shrinks j s (f (a, rest)))
    \<Longrightarrow> shrinks j s (bind_res r f)"
  by (cases r) auto

lemma shrinks_chars: "shrinks 1 s (lax_chars s)"
proof (induction s rule: lax_chars.induct)
  case (2 c s)
  have "shrinks 1 (c # s) (bind_res (lax_chars (drop n s)) (\<lambda>(t, rest). Inr (out @ t, rest)))"
    if "shrinks 1 (drop n s) (lax_chars (drop n s))" for n out
    using shrinks_mono [OF that, of 1 "c # s"] by simp
  with 2 show ?case by (auto simp: lax_chars.simps split: option.splits)
qed simp

lemma shrinks_string: "shrinks 2 s (lax_string s)"
  using shrinks_mono [OF shrinks_chars, of _ 2 s] by (auto simp: lax_string_def split: list.splits)

lemma shrinks_literal: "l \<noteq> [] \<Longrightarrow> shrinks 1 s (lax_literal l v s)"
  by (cases l) (auto simp: lax_literal_def has_prefix_iff)

lemma shrinks_number: "shrinks 1 s (lax_number s)"
proof (cases "lax_number s")
  case (Inr r)
  then obtain neg s1 ip s2 fp s3 ep s4 where n: "s1 = (if neg then tl s else s)"
      "scan_integer s1 = Inr (ip, s2)" "scan_fraction s2 = Inr (fp, s3)" "scan_exponent s3 = Inr (ep, s4)"
      and r: "snd r = s4"
    by (auto simp: lax_number_def Let_def err_simps split: sum.splits)
  have "s1 = ip @ s2" "jint ip" using scan_integer_sound n(2) by auto
  moreover have "s2 = fp @ s3" using scan_fraction_sound n(3) by auto
  moreover have "s3 = ep @ s4" using scan_exponent_sound n(4) by auto
  moreover have "length s1 \<le> length s" "ip \<noteq> []" using n(1) \<open>jint ip\<close> by (auto simp: jint_def)
  ultimately have "length s4 + 1 \<le> length s" by (cases ip) auto
  with Inr r show ?thesis by (cases r) simp
qed (auto simp: lax_number_def Let_def split: sum.splits)

lemma shrinks_value:
  assumes m: "\<And>depth s. 2 * length s + 1 \<le> fuel \<Longrightarrow> shrinks 1 s (lax_members fuel depth s)"
    and e: "\<And>depth s. 2 * length s + 2 \<le> fuel \<Longrightarrow> shrinks 1 s (lax_elements fuel depth s)"
    and l: "2 * length s + 1 \<le> Suc fuel"
  shows "shrinks 1 s (lax_value (Suc fuel) depth s)"
proof (cases "skipWhitespace s")
  case (Cons c r)
  have cr: "length (c # r) \<le> length s" using skipWhitespace_length [of s] Cons by simp
  have q: "length (skipWhitespace r) + 1 \<le> length s"
    using cr skipWhitespace_length [of r] by simp
  have obj: "shrinks 1 s (lax_members fuel (Suc depth) (skipWhitespace r))"
    and arr: "shrinks 1 s (lax_elements fuel (Suc depth) (skipWhitespace r))"
    using q l by (auto intro!: shrinks_mono [OF m] shrinks_mono [OF e])
  have scalar: "shrinks 1 s (lax_string (c # r))" "shrinks 1 s (lax_number (c # r))"
    "l \<noteq> [] \<Longrightarrow> shrinks 1 s (lax_literal l v (c # r))" for l v
    by (rule shrinks_mono [OF shrinks_string] shrinks_mono [OF shrinks_number]
        shrinks_mono [OF shrinks_literal], use cr in simp_all)+
  show ?thesis
    unfolding lax_value.simps Cons list.case Let_def
    by (intro shrinks_if) (use q obj arr scalar in \<open>auto simp: has_prefix_one\<close>)
qed simp

lemma shrinks_members:
  assumes v: "\<And>depth s. 2 * length s + 1 \<le> fuel \<Longrightarrow> shrinks 1 s (lax_value fuel depth s)"
    and m: "\<And>depth s. 2 * length s + 1 \<le> fuel \<Longrightarrow> shrinks 1 s (lax_members fuel depth s)"
    and l: "2 * length s + 1 \<le> Suc fuel"
  shows "shrinks 1 s (lax_members (Suc fuel) depth s)"
  unfolding lax_members.simps
proof (rule shrinks_bind [OF shrinks_string])
  fix name s1 :: bytes
  assume s1: "length s1 + 2 \<le> length (skipWhitespace s)"
  show "shrinks 1 s ((\<lambda>(name, s1). let s2 = skipWhitespace s1 in
         if \<not> has_prefix s2 '':'' then Inl SyntaxError
         else bind_res (lax_value fuel depth (tl s2)) (\<lambda>(v, s3).
           let s4 = skipWhitespace s3 in
           if has_prefix s4 ''}'' then Inr ([(name, v)], tl s4)
           else if has_prefix s4 '','' then
             bind_res (lax_members fuel depth (tl s4)) (\<lambda>(m, rest). Inr ((name, v) # m, rest))
           else Inl SyntaxError)) (name, s1))"
  proof (cases "skipWhitespace s1")
    case (Cons c q)
    have q: "length q + 3 \<le> length s"
      using s1 skipWhitespace_length [of s] skipWhitespace_length [of s1] Cons by simp
    have "shrinks 1 s (bind_res (lax_value fuel depth q) (\<lambda>(v, s3).
           let s4 = skipWhitespace s3 in
           if has_prefix s4 ''}'' then Inr ([(name, v)], tl s4)
           else if has_prefix s4 '','' then
             bind_res (lax_members fuel depth (tl s4)) (\<lambda>(m, rest). Inr ((name, v) # m, rest))
           else Inl SyntaxError))"
    proof (rule shrinks_bind)
      show "shrinks 1 q (lax_value fuel depth q)" using q l by (intro v) simp
      fix w and s3 :: bytes
      assume "length s3 + 1 \<le> length q"
      then have s4: "length (skipWhitespace s3) + 4 \<le> length s"
        using q skipWhitespace_length [of s3] by simp
      have "shrinks 1 s (lax_members fuel depth (tl (skipWhitespace s3)))"
        using s4 l by (intro shrinks_mono [OF m]) auto
      with s4 show "shrinks 1 s ((\<lambda>(v, s3).
           let s4 = skipWhitespace s3 in
           if has_prefix s4 ''}'' then Inr ([(name, v)], tl s4)
           else if has_prefix s4 '','' then
             bind_res (lax_members fuel depth (tl s4)) (\<lambda>(m, rest). Inr ((name, v) # m, rest))
           else Inl SyntaxError) (w, s3))"
        by (auto simp: Let_def has_prefix_one)
    qed
    with Cons show ?thesis by (simp add: Let_def has_prefix_one)
  qed (simp add: Let_def)
qed

lemma shrinks_elements:
  assumes v: "\<And>depth s. 2 * length s + 1 \<le> fuel \<Longrightarrow> shrinks 1 s (lax_value fuel depth s)"
    and e: "\<And>depth s. 2 * length s + 2 \<le> fuel \<Longrightarrow> shrinks 1 s (lax_elements fuel depth s)"
    and l: "2 * length s + 2 \<le> Suc fuel"
  shows "shrinks 1 s (lax_elements (Suc fuel) depth s)"
  unfolding lax_elements.simps
proof (rule shrinks_bind)
  show "shrinks 1 s (lax_value fuel depth s)" using l by (intro v) simp
  fix w and s1 :: bytes
  assume "length s1 + 1 \<le> length s"
  then have s2: "length (skipWhitespace s1) + 1 \<le> length s" using skipWhitespace_length [of s1] by simp
  have "shrinks 1 s (lax_elements fuel depth (tl (skipWhitespace s1)))" if "skipWhitespace s1 \<noteq> []"
    using s2 l that by (intro shrinks_mono [OF e]) (auto simp: Suc_le_eq)
  with s2 show "shrinks 1 s ((\<lambda>(v, s1).
       let s2 = skipWhitespace s1 in
       if has_prefix s2 '']'' then Inr ([v], tl s2)
       else if has_prefix s2 '','' then
         bind_res (lax_elements fuel depth (tl s2)) (\<lambda>(xs, rest). Inr (v # xs, rest))
       else Inl SyntaxError) (w, s1))"
    by (auto simp: Let_def has_prefix_one)
qed

lemma scan_shrinks:
  "(\<forall>depth s. 2 * length s + 1 \<le> fuel \<longrightarrow> shrinks 1 s (lax_value fuel depth s)) \<and>
   (\<forall>depth s. 2 * length s + 1 \<le> fuel \<longrightarrow> shrinks 1 s (lax_members fuel depth s)) \<and>
   (\<forall>depth s. 2 * length s + 2 \<le> fuel \<longrightarrow> shrinks 1 s (lax_elements fuel depth s))"
proof (induction fuel)
  case (Suc fuel)
  then have v: "\<And>depth s. 2 * length s + 1 \<le> fuel \<Longrightarrow> shrinks 1 s (lax_value fuel depth s)"
    and m: "\<And>depth s. 2 * length s + 1 \<le> fuel \<Longrightarrow> shrinks 1 s (lax_members fuel depth s)"
    and e: "\<And>depth s. 2 * length s + 2 \<le> fuel \<Longrightarrow> shrinks 1 s (lax_elements fuel depth s)"
    by blast+
  show ?case
    using shrinks_value [OF m e] shrinks_members [OF v m] shrinks_elements [OF v e] by blast
qed auto

lemma scan_enough_fuel: "lax_value (2 * length s + 2) 0 s \<noteq> Inl ScanFuel"
proof
  assume a: "lax_value (2 * length s + 2) 0 s = Inl ScanFuel"
  have "shrinks 1 s (lax_value (2 * length s + 2) 0 s)"
    using scan_shrinks [of "2 * length s + 2"] by simp
  then show False unfolding a by simp
qed

section \<open>Agreement with the strict parser\<close>

lemma lax_escape_denotes: "jescape e out \<Longrightarrow> lax_escape (e @ t) = Some (out, length e)"
proof (induction rule: jescape.induct)
  case (esc_short e c)
  then show ?case by (auto simp: lax_escape_def)
next
  case (esc_unicode h n)
  then show ?case
    by (auto simp: lax_escape_def lax_rune_def parseHexCodeUnit_hex4 hex4_length)
next
  case (esc_pair h m g n)
  then show ?case
    using hex4_length [OF esc_pair(1)] hex4_length [OF esc_pair(4)]
    by (simp add: lax_escape_def lax_rune_def parseHexCodeUnit_hex4)
qed

lemma lax_escape_strict: "parseEscape s = Inr (out, n) \<Longrightarrow> lax_escape s = Some (out, n)"
  using parseEscape_sound [of s out n] lax_escape_denotes [of _ out "drop n s"] by metis

lemma lax_chars_strict: "parse_chars s = Inr (t, rest) \<Longrightarrow> lax_chars s = Inr (t, rest)"
proof (induction s arbitrary: t rest rule: parse_chars.induct)
  case (2 c s)
  show ?case
  proof (cases "c = CHR 0x5C")
    case True
    with 2(3) obtain out n u where e: "parseEscape s = Inr (out, n)" "parse_chars (drop n s) = Inr (u, rest)" "t = out @ u"
      by (auto simp: parse_chars.simps prepend_Inr split: sum.splits)
    have "lax_chars (drop n s) = Inr (u, rest)"
      using 2(1) [of "(out, n)" out n] True e by auto
    with True e lax_escape_strict [OF e(1)] show ?thesis by (simp add: lax_chars.simps)
  next
    case False
    then show ?thesis
      using 2(2,3) by (auto simp: parse_chars.simps lax_chars.simps prepend_Inr err_simps split: if_splits)
  qed
qed simp

lemma lax_string_strict: "parseString s = Inr r \<Longrightarrow> lax_string s = Inr r"
  using lax_chars_strict by (cases r) (auto simp: parseString_def lax_string_def split: list.splits if_splits)

lemma lax_literal_strict: "parseLiteral l v s = Inr r \<Longrightarrow> lax_literal l v s = Inr r"
  by (auto simp: parseLiteral_def lax_literal_def split: if_splits)

lemma lax_number_strict: "parseNumber s = Inr r \<Longrightarrow> lax_number s = Inr r"
  by (auto simp: parseNumber_def lax_number_def Let_def err_simps split: if_splits prod.splits sum.splits)

lemma depth_limits: "maxJSONDepth \<le> maxNestingDepth"
  by (simp add: maxJSONDepth_def maxNestingDepth_def)

lemma lax_object_strict:
  assumes m: "\<And>s r. parse_members fuel (Suc depth) [] s = Inr r \<Longrightarrow> lax_members fuel (Suc depth) s = Inr r"
    and p: "parse_value (Suc fuel) depth s = Inr r" and c: "skipWhitespace s = CHR ''{'' # q"
  shows "lax_value (Suc fuel) depth s = Inr r"
proof -
  have "\<not> maxJSONDepth \<le> depth" using p c by (auto split: if_splits)
  with p c show ?thesis
    using m depth_limits by (auto simp: Let_def err_simps split: if_splits)
qed

lemma lax_array_strict:
  assumes m: "\<And>s r. parse_elements fuel (Suc depth) s = Inr r \<Longrightarrow> lax_elements fuel (Suc depth) s = Inr r"
    and p: "parse_value (Suc fuel) depth s = Inr r" and c: "skipWhitespace s = CHR ''['' # q"
  shows "lax_value (Suc fuel) depth s = Inr r"
proof -
  have "\<not> maxJSONDepth \<le> depth" using p c by (auto split: if_splits)
  with p c show ?thesis
    using m depth_limits by (auto simp: Let_def err_simps split: if_splits)
qed

lemma lax_scalar_strict:
  assumes p: "parse_value (Suc fuel) depth s = Inr r" and c: "skipWhitespace s = c # q"
    and "c \<noteq> CHR ''{''" "c \<noteq> CHR ''[''"
  shows "lax_value (Suc fuel) depth s = Inr r"
  using assms lax_string_strict lax_literal_strict lax_number_strict
  by (auto simp: err_simps split: if_splits)

lemma lax_members_strict:
  assumes v: "\<And>s r. parse_value fuel depth s = Inr r \<Longrightarrow> lax_value fuel depth s = Inr r"
    and m: "\<And>ns s r. parse_members fuel depth ns s = Inr r \<Longrightarrow> lax_members fuel depth s = Inr r"
    and p: "parse_members (Suc fuel) depth names s = Inr r"
  shows "lax_members (Suc fuel) depth s = Inr r"
  using p by (auto simp: err_simps Let_def dest!: lax_string_strict v m split: if_splits) fastforce+

lemma lax_elements_strict:
  assumes v: "\<And>s r. parse_value fuel depth s = Inr r \<Longrightarrow> lax_value fuel depth s = Inr r"
    and m: "\<And>s r. parse_elements fuel depth s = Inr r \<Longrightarrow> lax_elements fuel depth s = Inr r"
    and p: "parse_elements (Suc fuel) depth s = Inr r"
  shows "lax_elements (Suc fuel) depth s = Inr r"
  using p by (auto simp: err_simps Let_def dest!: v m split: if_splits)

lemma lax_strict:
  "(\<forall>depth s r. parse_value fuel depth s = Inr r \<longrightarrow> lax_value fuel depth s = Inr r) \<and>
   (\<forall>depth ns s r. parse_members fuel depth ns s = Inr r \<longrightarrow> lax_members fuel depth s = Inr r) \<and>
   (\<forall>depth s r. parse_elements fuel depth s = Inr r \<longrightarrow> lax_elements fuel depth s = Inr r)"
proof (induction fuel)
  case (Suc fuel)
  then have v: "\<And>depth s r. parse_value fuel depth s = Inr r \<Longrightarrow> lax_value fuel depth s = Inr r"
    and m: "\<And>depth ns s r. parse_members fuel depth ns s = Inr r \<Longrightarrow> lax_members fuel depth s = Inr r"
    and e: "\<And>depth s r. parse_elements fuel depth s = Inr r \<Longrightarrow> lax_elements fuel depth s = Inr r"
    by blast+
  have "lax_value (Suc fuel) depth s = Inr r" if p: "parse_value (Suc fuel) depth s = Inr r" for depth s r
  proof (cases "skipWhitespace s")
    case Nil
    with p show ?thesis by simp
  next
    case (Cons c q)
    then show ?thesis
      using lax_object_strict [OF _ p, of q] lax_array_strict [OF _ p, of q] lax_scalar_strict [OF p Cons] m e
      by blast
  qed
  moreover have "lax_members (Suc fuel) depth s = Inr r"
    if "parse_members (Suc fuel) depth ns s = Inr r" for depth ns s r
    using lax_members_strict [OF _ _ that] v m by blast
  moreover have "lax_elements (Suc fuel) depth s = Inr r"
    if "parse_elements (Suc fuel) depth s = Inr r" for depth s r
    using lax_elements_strict [OF _ _ that] v e by blast
  ultimately show ?case by blast
qed simp

lemma unmarshal_strict:
  assumes "parseDocument s = Inr v"
  shows "unmarshal_value s = Some v"
proof -
  obtain rest where p: "parse_value (2 * length s + 2) 0 (skipWhitespace s) = Inr (v, rest)"
      "skipWhitespace rest = []"
    using assms by (auto simp: parseDocument_def err_simps split: if_splits)
  then have "lax_value (2 * length s + 2) 0 s = Inr (v, rest)"
    using lax_strict parse_value_skip by metis
  with p(2) show ?thesis by (simp add: unmarshal_value_def scan_value_def)
qed

end
