(* ===== verification/Sha256Hash.thy ===== *)
theory Sha256Hash
  imports Prelude "HOL-Library.Word"
begin

unbundle bit_operations_syntax

text \<open>
  The SHA-256 function of Go's \<^verbatim>\<open>crypto/sha256\<close> (FIPS 180-4) on byte strings and its
  lowercase hexadecimal spelling by \<^verbatim>\<open>encoding/hex\<close>, on which every digest of the
  program rests. Nothing here assumes collision freedom: a theorem that needs two
  digests to differ says so.
\<close>

type_synonym w32 = "32 word"

definition sha_k :: "w32 list" where
  "sha_k = [
    1116352408, 1899447441, 3049323471, 3921009573, 961987163, 1508970993, 2453635748, 2870763221,
    3624381080, 310598401, 607225278, 1426881987, 1925078388, 2162078206, 2614888103, 3248222580,
    3835390401, 4022224774, 264347078, 604807628, 770255983, 1249150122, 1555081692, 1996064986,
    2554220882, 2821834349, 2952996808, 3210313671, 3336571891, 3584528711, 113926993, 338241895,
    666307205, 773529912, 1294757372, 1396182291, 1695183700, 1986661051, 2177026350, 2456956037,
    2730485921, 2820302411, 3259730800, 3345764771, 3516065817, 3600352804, 4094571909, 275423344,
    430227734, 506948616, 659060556, 883997877, 958139571, 1322822218, 1537002063, 1747873779,
    1955562222, 2024104815, 2227730452, 2361852424, 2428436474, 2756734187, 3204031479, 3329325298]"

definition sha_init :: "w32 list" where
  "sha_init = [1779033703, 3144134277, 1013904242, 2773480762, 1359893119, 2600822924, 528734635, 1541459225]"

definition rotr :: "nat \<Rightarrow> w32 \<Rightarrow> w32" where
  "rotr n x = drop_bit n x OR push_bit (32 - n) x"

definition sha_s0 :: "w32 \<Rightarrow> w32" where
  "sha_s0 x = rotr 7 x XOR rotr 18 x XOR drop_bit 3 x"

definition sha_s1 :: "w32 \<Rightarrow> w32" where
  "sha_s1 x = rotr 17 x XOR rotr 19 x XOR drop_bit 10 x"

definition sha_S0 :: "w32 \<Rightarrow> w32" where
  "sha_S0 x = rotr 2 x XOR rotr 13 x XOR rotr 22 x"

definition sha_S1 :: "w32 \<Rightarrow> w32" where
  "sha_S1 x = rotr 6 x XOR rotr 11 x XOR rotr 25 x"

text \<open>The message schedule, most recent word first.\<close>

fun sha_extend :: "nat \<Rightarrow> w32 list \<Rightarrow> w32 list" where
  "sha_extend 0 ws = ws"
| "sha_extend (Suc n) ws =
     sha_extend n ((sha_s1 (ws ! 1) + ws ! 6 + sha_s0 (ws ! 14) + ws ! 15) # ws)"

definition sha_round :: "w32 \<times> w32 \<Rightarrow> w32 list \<Rightarrow> w32 list" where
  "sha_round kw s = (case s of
     [a, b, c, d, e, f, g, h] \<Rightarrow>
       (let t1 = h + sha_S1 e + ((e AND f) XOR ((NOT e) AND g)) + fst kw + snd kw;
            t2 = sha_S0 a + ((a AND b) XOR (a AND c) XOR (b AND c))
        in [t1 + t2, a, b, c, d + t1, e, f, g])
   | _ \<Rightarrow> s)"

fun be_words :: "nat list \<Rightarrow> w32 list" where
  "be_words (a # b # c # d # rest) =
     of_nat (a * 16777216 + b * 65536 + c * 256 + d) # be_words rest"
| "be_words _ = []"

definition sha_block :: "nat list \<Rightarrow> w32 list \<Rightarrow> w32 list" where
  "sha_block blk s =
     map2 (+) s (fold sha_round (zip sha_k (rev (sha_extend 48 (rev (be_words blk))))) s)"

fun sha_blocks :: "nat \<Rightarrow> nat list \<Rightarrow> w32 list \<Rightarrow> w32 list" where
  "sha_blocks 0 bs s = s"
| "sha_blocks (Suc n) bs s = sha_blocks n (drop 64 bs) (sha_block (take 64 bs) s)"

fun be_bytes :: "nat \<Rightarrow> nat \<Rightarrow> nat list" where
  "be_bytes 0 n = []"
| "be_bytes (Suc k) n = be_bytes k (n div 256) @ [n mod 256]"

definition sha_pad :: "nat list \<Rightarrow> nat list" where
  "sha_pad bs = bs @ [128] @ replicate ((119 - length bs mod 64) mod 64) 0 @ be_bytes 8 (8 * length bs)"

definition sha256 :: "bytes \<Rightarrow> nat list" where
  "sha256 s =
     (let bs = sha_pad (map of_char s)
      in concat (map (\<lambda>w. be_bytes 4 (unat w)) (sha_blocks (length bs div 64) bs sha_init)))"

definition hex_digit :: "nat \<Rightarrow> char" where
  "hex_digit n = char_of (if n < 10 then 48 + n else 87 + n)"

definition hex_encode :: "nat list \<Rightarrow> bytes" where
  "hex_encode bs = concat (map (\<lambda>b. [hex_digit (b div 16), hex_digit (b mod 16)]) bs)"

lemma length_be_bytes [simp]: "length (be_bytes k n) = k"
  by (induction k arbitrary: n) auto

lemma be_bytes_bound: "b \<in> set (be_bytes k n) \<Longrightarrow> b < 256"
  by (induction k arbitrary: n) auto

lemma length_sha_round [simp]: "length (sha_round kw s) = length s"
  by (auto simp: sha_round_def Let_def split: list.splits)

lemma length_fold_sha_round [simp]: "length (fold sha_round kws s) = length s"
  by (induction kws arbitrary: s) auto

lemma length_sha_blocks [simp]: "length (sha_blocks n bs s) = length s"
  by (induction n arbitrary: bs s) (auto simp: sha_block_def)

lemma length_concat_const: "(\<And>x. x \<in> set xs \<Longrightarrow> length x = k) \<Longrightarrow> length (concat xs) = length xs * k"
  by (induction xs) auto

lemma length_sha256 [simp]: "length (sha256 s) = 32"
proof -
  have "length (sha256 s) = length (map (\<lambda>w. be_bytes 4 (unat w))
      (sha_blocks (length (sha_pad (map of_char s)) div 64) (sha_pad (map of_char s)) sha_init)) * 4"
    unfolding sha256_def Let_def by (rule length_concat_const) auto
  then show ?thesis by (simp add: sha_init_def)
qed

lemma sha256_byte: "b \<in> set (sha256 s) \<Longrightarrow> b < 256"
  by (auto simp: sha256_def Let_def dest: be_bytes_bound)

lemma length_hex_encode [simp]: "length (hex_encode bs) = length bs * 2"
  unfolding hex_encode_def by (subst length_concat_const [where k = 2]) auto

definition is_hex_char :: "char \<Rightarrow> bool" where
  "is_hex_char c \<longleftrightarrow> (CHR ''0'' \<le> c \<and> c \<le> CHR ''9'') \<or> (CHR ''a'' \<le> c \<and> c \<le> CHR ''f'')"

lemma hex_digit_is_hex:
  assumes "n < 16"
  shows "is_hex_char (hex_digit n)"
proof -
  have "list_all (\<lambda>m. is_hex_char (hex_digit m)) [0..<16]"
    by (simp add: hex_digit_def is_hex_char_def less_eq_char_def upt_rec)
  with assms show ?thesis
    by (simp add: list_all_iff)
qed

lemma hex_encode_is_hex: "\<forall>b\<in>set bs. b < 256 \<Longrightarrow> c \<in> set (hex_encode bs) \<Longrightarrow> is_hex_char c"
  by (auto simp: hex_encode_def intro!: hex_digit_is_hex)

lemma hex_sha256_is_hex: "c \<in> set (hex_encode (sha256 s)) \<Longrightarrow> is_hex_char c"
  using hex_encode_is_hex [of "sha256 s"] sha256_byte by blast

end
