(* ===== verification/FormModel.thy ===== *)
theory FormModel
  imports GoValue Sha256Hash
begin

text \<open>
  The data model of \<^verbatim>\<open>formpackage/model.go\<close>: one record per Go struct, with the fields in
  the struct's order (a prefix keeps the field names of different structs apart), the
  constants of the frozen and current epochs, the digest functions of
  \<^verbatim>\<open>formpackage/canonical.go\<close>, the JSON form of a constraint, and the capability
  \<^verbatim>\<open>VerifiedPackage\<close> with its accessors. An absent optional string is the empty one, as in
  Go; an absent \<^verbatim>\<open>json.RawMessage\<close> is \<open>None\<close>.
\<close>

section \<open>Epochs\<close>

definition LegacyFormAPIVersion :: bytes where "LegacyFormAPIVersion = ''forms.takoform.com/v1alpha1''"
definition FormAPIVersion :: bytes where "FormAPIVersion = LegacyFormAPIVersion"
definition CurrentFormAPIVersion :: bytes where "CurrentFormAPIVersion = ''forms.takoform.com/v1alpha2''"
definition PackageAPIVersion :: bytes where "PackageAPIVersion = ''packages.forms.takoform.com/v1alpha1''"
definition LegacyContentAddressedPackageAPIVersion :: bytes where
  "LegacyContentAddressedPackageAPIVersion = ''packages.forms.takoform.com/v1alpha2''"
definition CurrentPackageAPIVersion :: bytes where "CurrentPackageAPIVersion = ''packages.forms.takoform.com/v1alpha3''"
definition FamilyPackageAPIVersion :: bytes where "FamilyPackageAPIVersion = ''packages.forms.takoform.com/v1alpha4''"
definition VersionlessFamilyPackageAPIVersion :: bytes where
  "VersionlessFamilyPackageAPIVersion = ''packages.forms.takoform.com/v1alpha5''"
definition PackageKind :: bytes where "PackageKind = ''FormPackage''"
definition TrustAPIVersion :: bytes where "TrustAPIVersion = ''trust.forms.takoform.com/v1alpha1''"
definition CurrentTrustAPIVersion :: bytes where "CurrentTrustAPIVersion = ''trust.forms.takoform.com/v1''"
definition RevocationKind :: bytes where "RevocationKind = ''FormPackageRevocation''"
definition RevocationCheckpointKind :: bytes where "RevocationCheckpointKind = ''FormPackageRevocationCheckpoint''"
definition PackageIndexFilename :: bytes where "PackageIndexFilename = ''package-index.json''"
definition DefinitionMediaType :: bytes where
  "DefinitionMediaType = ''application/vnd.takoform.form-definition.v1+json''"

lemmas epoch_defs = LegacyFormAPIVersion_def FormAPIVersion_def CurrentFormAPIVersion_def
  PackageAPIVersion_def LegacyContentAddressedPackageAPIVersion_def CurrentPackageAPIVersion_def
  FamilyPackageAPIVersion_def VersionlessFamilyPackageAPIVersion_def PackageKind_def
  TrustAPIVersion_def CurrentTrustAPIVersion_def RevocationKind_def RevocationCheckpointKind_def
  PackageIndexFilename_def DefinitionMediaType_def


section \<open>Digests\<close>

definition digestPrefix :: bytes where "digestPrefix = ''sha256:''"

definition DigestBytes :: "bytes \<Rightarrow> bytes" where
  "DigestBytes input = digestPrefix @ hex_encode (sha256 input)"

definition hex_rune :: "nat \<Rightarrow> bool" where
  "hex_rune r \<longleftrightarrow> (48 \<le> r \<and> r \<le> 57) \<or> (97 \<le> r \<and> r \<le> 102)"

definition ValidDigest :: "bytes \<Rightarrow> bool" where
  "ValidDigest digest \<longleftrightarrow>
     length digest = length digestPrefix + 32 * 2 \<and> has_prefix digest digestPrefix \<and>
     list_all hex_rune (runes (drop (length digestPrefix) digest))"

lemma hex_rune_is_hex_char: "hex_rune (code c) = is_hex_char c"
  by (simp add: hex_rune_def is_hex_char_def less_eq_char_def code_def)

lemma hex_runes: "list_all hex_rune (runes s) = list_all is_hex_char s"
  by (subst list_all_runes_ascii) (auto simp: hex_rune_is_hex_char, auto simp: hex_rune_def)

lemma ValidDigest_iff:
  "ValidDigest d \<longleftrightarrow> (\<exists>h. d = digestPrefix @ h \<and> length h = 64 \<and> list_all is_hex_char h)"
  by (auto simp: ValidDigest_def hex_runes has_prefix_iff)

lemma ValidDigest_DigestBytes [simp]: "ValidDigest (DigestBytes s)"
  by (auto simp: ValidDigest_iff DigestBytes_def list_all_iff intro: hex_sha256_is_hex)

lemma hex_char_not_slash: "is_hex_char c \<Longrightarrow> c \<noteq> CHR ''/'' \<and> c \<noteq> CHR '':''"
  by (auto simp: is_hex_char_def less_eq_char_def)


section \<open>Form Definitions\<close>

record form_ref =
  fr_apiVersion :: bytes
  fr_kind :: bytes
  fr_definitionVersion :: bytes
  fr_schemaDigest :: bytes

definition empty_form_ref :: form_ref where
  "empty_form_ref =
     \<lparr>fr_apiVersion = [], fr_kind = [], fr_definitionVersion = [], fr_schemaDigest = []\<rparr>"

record form_constraint =
  fc_kind :: bytes
  fc_reference :: bytes
  fc_keyedBy :: bytes
  fc_list :: bytes
  fc_member :: bytes
  fc_total :: int
  fc_property :: bytes
  fc_output :: bytes
  fc_references :: "bytes list"
  fc_anchor :: bytes
  fc_members :: bytes
  fc_through :: bytes

record interface_ref =
  if_apiVersion :: bytes
  if_name :: bytes
  if_version :: bytes
  if_schemaDigest :: bytes

record binding_ref =
  br_apiVersion :: bytes
  br_name :: bytes
  br_version :: bytes
  br_schemaDigest :: bytes

record interface_input =
  ii_name :: bytes
  ii_source :: bytes
  ii_pointer :: bytes
  ii_value :: "gval option"

record interface_descriptor =
  id_name :: bytes
  id_version :: bytes
  id_description :: bytes
  id_required :: bool
  id_resourceURIInput :: bytes
  id_document :: object
  id_documentSchema :: "object option"
  id_inputs :: "interface_input list"

record conformance_fixture =
  cf_name :: bytes
  cf_desiredPath :: bytes
  cf_observedPath :: bytes
  cf_outputPath :: bytes

record negative_fixture =
  nf_name :: bytes
  nf_stage :: bytes
  nf_inputPath :: bytes
  nf_expectedFailure :: bytes

record form_definition =
  fd_apiVersion :: bytes
  fd_kind :: bytes
  fd_definitionVersion :: bytes
  fd_title :: bytes
  fd_description :: bytes
  fd_status :: bytes
  fd_role :: bytes
  fd_requiresHostAPI :: bytes
  fd_constraints :: "form_constraint list"
  fd_desiredSchema :: "object option"
  fd_observedSchema :: "object option"
  fd_outputSchema :: "object option"
  fd_immutableFields :: "bytes list"
  fd_lifecycleCapabilities :: "bytes list"
  fd_interfaces :: "interface_descriptor list"
  fd_providedInterfaces :: "interface_ref list"
  fd_acceptedBindings :: "binding_ref list"
  fd_conformanceFixtures :: "conformance_fixture list"
  fd_negativeFixtures :: "negative_fixture list"

definition InterfaceInputSourceLiteral :: bytes where "InterfaceInputSourceLiteral = ''literal''"
definition InterfaceInputSourceOutput :: bytes where "InterfaceInputSourceOutput = ''output''"
definition InterfaceInputSourceResourceURI :: bytes where
  "InterfaceInputSourceResourceURI = ''resource_uri''"

definition PortableInterfaceInputSource :: "bytes \<Rightarrow> bool" where
  "PortableInterfaceInputSource source \<longleftrightarrow>
     source = InterfaceInputSourceLiteral \<or> source = InterfaceInputSourceOutput \<or>
     source = InterfaceInputSourceResourceURI"


subsection \<open>The JSON form of a constraint\<close>

text \<open>
  \<^verbatim>\<open>FormConstraint.MarshalJSON\<close>: members in declaration order, empty ones omitted, and
  \<open>total\<close> present exactly where the kind is \<open>sum\<close> or the value is not zero.
\<close>

definition member_str :: "bytes \<Rightarrow> bytes \<Rightarrow> object" where
  "member_str name s = (if s = [] then [] else [(name, VStr s)])"

definition constraint_total :: "form_constraint \<Rightarrow> int option" where
  "constraint_total c = (if fc_kind c = ''sum'' \<or> fc_total c \<noteq> 0 then Some (fc_total c) else None)"

definition MarshalConstraint :: "form_constraint \<Rightarrow> object" where
  "MarshalConstraint c =
     [(''kind'', VStr (fc_kind c))] @ member_str ''reference'' (fc_reference c) @
     member_str ''keyedBy'' (fc_keyedBy c) @ member_str ''list'' (fc_list c) @
     member_str ''member'' (fc_member c) @
     (case constraint_total c of Some t \<Rightarrow> [(''total'', VInt t)] | None \<Rightarrow> []) @
     member_str ''property'' (fc_property c) @ member_str ''output'' (fc_output c) @
     (if fc_references c = [] then []
      else [(''references'', VArr (map VStr (fc_references c)))]) @
     member_str ''anchor'' (fc_anchor c) @ member_str ''members'' (fc_members c) @
     member_str ''through'' (fc_through c)"

text \<open>\<^verbatim>\<open>s, _ := m[k].(string)\<close>.\<close>

definition str_member :: "object \<Rightarrow> bytes \<Rightarrow> bytes" where
  "str_member m k = (case field m k of VStr s \<Rightarrow> s | _ \<Rightarrow> [])"

lemma field_append: "field (xs @ ys) k = (if has_key xs k then field xs k else field ys k)"
  by (induction xs) (auto simp: go_simps)

lemma member_str_simps [simp]:
  "has_key (member_str n s) k \<longleftrightarrow> n = k \<and> s \<noteq> []"
  "field (member_str n s) k = (if n = k \<and> s \<noteq> [] then VStr s else VNull)"
  by (simp_all add: member_str_def go_simps)

lemma has_key_append [simp]: "has_key (xs @ ys) k \<longleftrightarrow> has_key xs k \<or> has_key ys k"
  by (induction xs) (auto simp: go_simps)

lemma Marshal_total_present:
  "has_key (MarshalConstraint c) ''total'' \<longleftrightarrow> fc_kind c = ''sum'' \<or> fc_total c \<noteq> 0"
  by (simp add: MarshalConstraint_def constraint_total_def go_simps)


section \<open>Package indexes and verified packages\<close>

record package_file =
  pf_path :: bytes
  pf_mediaType :: bytes
  pf_size :: int
  pf_digest :: bytes

record package_index =
  pi_apiVersion :: bytes
  pi_kind :: bytes
  pi_packageVersion :: bytes
  pi_formRef :: form_ref
  pi_definitionPath :: bytes
  pi_files :: "package_file list"

definition empty_index :: package_index where
  "empty_index = \<lparr>pi_apiVersion = [], pi_kind = [], pi_packageVersion = [],
     pi_formRef = empty_form_ref, pi_definitionPath = [], pi_files = []\<rparr>"

text \<open>
  The issuer is a pointer: \<open>Some 0\<close> is the address of the package's own token, another
  address a value built elsewhere, \<open>None\<close> is \<^verbatim>\<open>nil\<close>.
\<close>

record verified_data =
  vd_issuer :: "nat option"
  vd_packageDigest :: bytes
  vd_formRef :: form_ref
  vd_index :: package_index
  vd_canonicalDefinition :: bytes
  vd_payloads :: "(bytes \<times> bytes) list"

definition verifiedPackageIssuerToken :: "nat option" where
  "verifiedPackageIssuerToken = Some 0"

record verification_report =
  vr_packageDigest :: bytes
  vr_formRef :: form_ref
  vr_fileCount :: nat
  vr_payloadBytes :: int
  vr_verified :: "verified_data option"

type_synonym verified_package = "verified_data option"

definition package_Valid :: "verified_package \<Rightarrow> bool" where
  "package_Valid p = (case p of Some d \<Rightarrow> vd_issuer d = verifiedPackageIssuerToken | None \<Rightarrow> False)"

definition report_VerifiedPackage :: "verification_report \<Rightarrow> verified_package \<times> bool" where
  "report_VerifiedPackage report =
     (if \<not> package_Valid (vr_verified report) then (None, False) else (vr_verified report, True))"

definition package_PackageDigest :: "verified_package \<Rightarrow> bytes" where
  "package_PackageDigest p = (if \<not> package_Valid p then [] else vd_packageDigest (the p))"

definition package_FormRef :: "verified_package \<Rightarrow> form_ref" where
  "package_FormRef p = (if \<not> package_Valid p then empty_form_ref else vd_formRef (the p))"

definition package_PackageIndex :: "verified_package \<Rightarrow> package_index" where
  "package_PackageIndex p = (if \<not> package_Valid p then empty_index else vd_index (the p))"

definition package_Definition :: "verified_package \<Rightarrow> bytes" where
  "package_Definition p = (if \<not> package_Valid p then [] else vd_canonicalDefinition (the p))"

definition package_Files :: "verified_package \<Rightarrow> package_file list" where
  "package_Files p = (if \<not> package_Valid p then [] else pi_files (vd_index (the p)))"

definition package_Payload :: "verified_package \<Rightarrow> bytes \<Rightarrow> bytes option" where
  "package_Payload p path = (if \<not> package_Valid p then None else map_of (vd_payloads (the p)) path)"

end
