(* ===== verification/JsonDecode.thy ===== *)
theory JsonDecode
  imports GoJson FormModel
begin

text \<open>
  The typed decoders of \<^verbatim>\<open>encoding/json\<close> and \<^verbatim>\<open>DecodeStrictIJSON\<close> of
  \<^verbatim>\<open>formpackage/ijson.go\<close>. A decoder takes the document's value and the Go variable it is
  decoded into, and answers the new content or \<open>None\<close> for the error. A struct is the list
  of its members' names and decoders; a member of the document goes to the field of exactly
  its name, or else to the first whose name is equal up to case. Encoders and decoders of
  the reference records are inverse to each other.
\<close>

type_synonym 'r decoder = "gval \<Rightarrow> 'r \<Rightarrow> 'r option"
type_synonym 'r struct_fields = "(bytes \<times> 'r decoder) list"

section \<open>Scalars, slices, maps\<close>

definition dec_str :: "bytes decoder" where
  "dec_str v old = (case v of VNull \<Rightarrow> Some old | VStr s \<Rightarrow> Some s | _ \<Rightarrow> None)"

definition dec_bool :: "bool decoder" where
  "dec_bool v old = (case v of VNull \<Rightarrow> Some old | VBool b \<Rightarrow> Some b | _ \<Rightarrow> None)"

definition dec_int :: "int decoder" where
  "dec_int v old = (case v of VNull \<Rightarrow> Some old | VNumber n \<Rightarrow> parse_int64 n | _ \<Rightarrow> None)"

definition dec_uint64 :: "nat decoder" where
  "dec_uint64 v old = (case v of VNull \<Rightarrow> Some old | VNumber n \<Rightarrow> parse_uint64 n | _ \<Rightarrow> None)"

text \<open>A slice's old elements are decoded into again, as far as there are any.\<close>

fun dec_elems :: "'a decoder \<Rightarrow> 'a \<Rightarrow> gval list \<Rightarrow> 'a list \<Rightarrow> 'a list option" where
  "dec_elems d zero [] olds = Some []"
| "dec_elems d zero (x # xs) olds =
     (case d x (case olds of [] \<Rightarrow> zero | y # _ \<Rightarrow> y) of
        None \<Rightarrow> None
      | Some y \<Rightarrow> map_option (\<lambda>ys. y # ys) (dec_elems d zero xs (tl olds)))"

definition dec_slice :: "'a decoder \<Rightarrow> 'a \<Rightarrow> 'a list decoder" where
  "dec_slice d zero v olds =
     (case v of VNull \<Rightarrow> Some [] | VArr xs \<Rightarrow> dec_elems d zero xs olds | _ \<Rightarrow> None)"

text \<open>A slice whose nil and empty states are told apart, and a pointer.\<close>

definition dec_nil_slice :: "'a decoder \<Rightarrow> 'a \<Rightarrow> 'a list option decoder" where
  "dec_nil_slice d zero v olds =
     (case v of
        VNull \<Rightarrow> Some None
      | VArr xs \<Rightarrow> map_option Some (dec_elems d zero xs (case olds of None \<Rightarrow> [] | Some ys \<Rightarrow> ys))
      | _ \<Rightarrow> None)"

definition dec_pointer :: "'a decoder \<Rightarrow> 'a \<Rightarrow> 'a option decoder" where
  "dec_pointer d zero v old =
     (if v = VNull then Some None
      else map_option Some (d v (case old of None \<Rightarrow> zero | Some x \<Rightarrow> x)))"

subsection \<open>Numbers as floats\<close>

text \<open>\<^verbatim>\<open>strconv.ParseFloat\<close> of a number literal; \<open>None\<close> where the value is out of range.\<close>

definition parse_float :: "bytes \<Rightarrow> rat option" where
  "parse_float s =
     (let neg = has_prefix s ''-''; s1 = (if neg then tl s else s) in
      case bind_res (scan_integer s1) (\<lambda>(ip, s2).
           bind_res (scan_fraction s2) (\<lambda>(fp, s3).
           bind_res (scan_exponent s3) (\<lambda>(ep, s4).
             Inr (literal_mantissa ip fp, literal_exponent fp ep)))) of
        Inl _ \<Rightarrow> None
      | Inr (m, e) \<Rightarrow>
          if overflows m e then None
          else (let x = float_of_quotient (m * 10 ^ nat e) (10 ^ nat (- e)) in
                Some (if neg then - x else x)))"

subsection \<open>Values of type any\<close>

text \<open>Of repeated members the last one stays.\<close>

fun last_wins :: "('k \<times> 'v) list \<Rightarrow> ('k \<times> 'v) list" where
  "last_wins [] = []"
| "last_wins ((k, v) # m) = (if k \<in> set (keys m) then last_wins m else (k, v) # last_wins m)"

lemma keys_last_wins: "set (keys (last_wins m)) = set (keys m)"
  by (induction m rule: last_wins.induct) auto

lemma distinct_last_wins [simp]: "distinct (keys (last_wins m))"
proof (induction m rule: last_wins.induct)
  case (2 k v m)
  then show ?case using keys_last_wins [of m] by auto
qed simp

lemma last_wins_distinct [simp]: "distinct (keys m) \<Longrightarrow> last_wins m = m"
  by (induction m rule: last_wins.induct) auto

fun any_value :: "bool \<Rightarrow> gval \<Rightarrow> gval option"
  and any_values :: "bool \<Rightarrow> gval list \<Rightarrow> gval list option"
  and any_fields :: "bool \<Rightarrow> object \<Rightarrow> object option" where
  "any_value num (VNumber n) =
     (if num then Some (VNumber n) else map_option VFloat (parse_float n))"
| "any_value num (VArr xs) = map_option VArr (any_values num xs)"
| "any_value num (VObj m) = map_option (\<lambda>m. VObj (last_wins m)) (any_fields num m)"
| "any_value num v = Some v"
| "any_values num [] = Some []"
| "any_values num (x # xs) =
     (case any_value num x of
        None \<Rightarrow> None
      | Some y \<Rightarrow> map_option (\<lambda>ys. y # ys) (any_values num xs))"
| "any_fields num [] = Some []"
| "any_fields num ((k, v) # m) =
     (case any_value num v of
        None \<Rightarrow> None
      | Some w \<Rightarrow> map_option (\<lambda>m. (k, w) # m) (any_fields num m))"

definition dec_any :: "bool \<Rightarrow> gval decoder" where
  "dec_any num v old = any_value num v"

text \<open>A \<^verbatim>\<open>map[string]any\<close>: \<open>None\<close> is the nil map; entries of an older map stay.\<close>

definition dec_map :: "bool \<Rightarrow> object option decoder" where
  "dec_map num v old =
     (case v of
        VNull \<Rightarrow> Some None
      | VObj m \<Rightarrow> map_option (\<lambda>m. Some (last_wins ((case old of None \<Rightarrow> [] | Some o' \<Rightarrow> o') @ m))) (any_fields num m)
      | _ \<Rightarrow> None)"

lemma any_value_number:
  shows "wire_value v \<Longrightarrow> any_value True v = Some v"
    and "wire_values xs \<Longrightarrow> any_values True xs = Some xs"
    and "distinct (keys m) \<Longrightarrow> wire_fields m \<Longrightarrow> any_fields True m = Some m"
proof (induction v and xs and m rule: wire_value_wire_values_wire_fields.induct)
qed auto

section \<open>Structs\<close>

definition fold_rune :: "nat \<Rightarrow> nat" where
  "fold_rune r =
     (if 97 \<le> r \<and> r \<le> 122 then r - 32 else if r = 383 then 83 else if r = 8490 then 75 else r)"

definition fold_name :: "bytes \<Rightarrow> nat list" where
  "fold_name s = map fold_rune (runes s)"

definition find_field :: "'r struct_fields \<Rightarrow> bytes \<Rightarrow> 'r decoder option" where
  "find_field fs k =
     (case map_of fs k of
        Some d \<Rightarrow> Some d
      | None \<Rightarrow> map_option snd (List.find (\<lambda>(n, _). fold_name n = fold_name k) fs))"

fun dec_members :: "bool \<Rightarrow> 'r struct_fields \<Rightarrow> object \<Rightarrow> 'r \<Rightarrow> 'r option" where
  "dec_members strict fs [] r = Some r"
| "dec_members strict fs ((k, v) # m) r =
     (case find_field fs k of
        None \<Rightarrow> if strict then None else dec_members strict fs m r
      | Some d \<Rightarrow>
          (case d v r of None \<Rightarrow> None | Some r' \<Rightarrow> dec_members strict fs m r'))"

definition dec_struct :: "bool \<Rightarrow> 'r struct_fields \<Rightarrow> 'r decoder" where
  "dec_struct strict fs v r =
     (case v of VNull \<Rightarrow> Some r | VObj m \<Rightarrow> dec_members strict fs m r | _ \<Rightarrow> None)"

definition member :: "'a decoder \<Rightarrow> ('r \<Rightarrow> 'a) \<Rightarrow> (('a \<Rightarrow> 'a) \<Rightarrow> 'r \<Rightarrow> 'r) \<Rightarrow> 'r decoder" where
  "member d get upd v r = map_option (\<lambda>x. upd (\<lambda>_. x) r) (d v (get r))"

lemma find_field_exact [simp]: "map_of fs k = Some d \<Longrightarrow> find_field fs k = Some d"
  by (simp add: find_field_def)

lemma dec_str_VStr [simp]: "dec_str (VStr s) old = Some s" by (simp add: dec_str_def)

section \<open>Documents\<close>

text \<open>\<^verbatim>\<open>json.Unmarshal\<close> into a struct: \<open>None\<close> is any of its errors.\<close>

definition Unmarshal :: "bytes \<Rightarrow> 'r decoder \<Rightarrow> 'r \<Rightarrow> 'r option" where
  "Unmarshal raw d zero = (case unmarshal_value raw of None \<Rightarrow> None | Some v \<Rightarrow> d v zero)"

datatype decode_error =
    DecodeCanonical canonical_error | TypedDecode | MultipleValues | TrailingValue

definition DecodeStrictIJSON ::
  "(bytes \<Rightarrow> bytes option) \<Rightarrow> bytes \<Rightarrow> 'r decoder \<Rightarrow> 'r \<Rightarrow> decode_error + 'r" where
  "DecodeStrictIJSON transform input d zero =
     (case Canonicalize transform input of
        Inl e \<Rightarrow> Inl (DecodeCanonical e)
      | Inr _ \<Rightarrow>
          (case scan_value input of
             None \<Rightarrow> Inl TypedDecode
           | Some (v, rest) \<Rightarrow>
               (case d v zero of
                  None \<Rightarrow> Inl TypedDecode
                | Some r \<Rightarrow>
                    if skipWhitespace rest = [] then Inr r
                    else if scan_value rest \<noteq> None then Inl MultipleValues
                    else Inl TrailingValue)))"

definition DigestCanonicalJSON :: "(bytes \<Rightarrow> bytes option) \<Rightarrow> bytes \<Rightarrow> canonical_error + bytes" where
  "DigestCanonicalJSON transform input =
     bind_res (Canonicalize transform input) (\<lambda>canonical. Inr (DigestBytes canonical))"

lemma Canonicalize_Inr:
  "Canonicalize transform input = Inr c \<longleftrightarrow>
     valid_utf8 input \<and> (\<exists>v. parseDocument input = Inr v) \<and> transform input = Some c"
  by (auto simp: Canonicalize_def split: sum.splits option.splits)

lemma Unmarshal_strict: "parseDocument raw = Inr v \<Longrightarrow> Unmarshal raw d zero = d v zero"
  by (simp add: Unmarshal_def unmarshal_strict)

lemma scan_strict:
  assumes "parseDocument s = Inr v"
  obtains rest where "scan_value s = Some (v, rest)" and "skipWhitespace rest = []"
  using unmarshal_strict [OF assms] by (auto simp: unmarshal_value_def split: option.splits if_splits)

text \<open>After the strict check the decoder sees one value, and the strict parser's.\<close>

lemma canonical_cases:
  obtains (refused) e where "Canonicalize transform raw = Inl e"
    and "\<not> (valid_utf8 raw \<and> (\<exists>v. parseDocument raw = Inr v) \<and> transform raw \<noteq> None)"
  | (accepted) c v where "Canonicalize transform raw = Inr c" and "valid_utf8 raw"
    and "parseDocument raw = Inr v" and "transform raw = Some c"
proof (cases "Canonicalize transform raw")
  case (Inl e)
  have "Canonicalize transform raw \<noteq> Inr c" for c using Inl by simp
  then show thesis
    by (intro refused [OF Inl]) (metis Canonicalize_Inr not_None_eq)
next
  case (Inr c)
  then show thesis using accepted by (auto simp: Canonicalize_Inr)
qed

lemma DecodeStrictIJSON_Inr:
  "DecodeStrictIJSON transform input d zero = Inr r \<longleftrightarrow>
     (\<exists>v. valid_utf8 input \<and> parseDocument input = Inr v \<and> transform input \<noteq> None \<and> d v zero = Some r)"
proof (cases rule: canonical_cases [of transform input])
  case (refused e)
  then show ?thesis by (auto simp: DecodeStrictIJSON_def)
next
  case (accepted c v)
  obtain rest where "scan_value input = Some (v, rest)" "skipWhitespace rest = []"
    using scan_strict [OF accepted(3)] .
  with accepted show ?thesis by (auto simp: DecodeStrictIJSON_def split: option.splits)
qed

lemma DecodeStrictIJSON_no_trailing:
  "DecodeStrictIJSON transform input d zero \<noteq> Inl MultipleValues"
  "DecodeStrictIJSON transform input d zero \<noteq> Inl TrailingValue"
proof -
  have "\<exists>rest. scan_value input = Some (v, rest) \<and> skipWhitespace rest = []"
    if "parseDocument input = Inr v" for v
    using scan_strict [OF that] by blast
  then show "DecodeStrictIJSON transform input d zero \<noteq> Inl MultipleValues"
    "DecodeStrictIJSON transform input d zero \<noteq> Inl TrailingValue"
    by (fastforce simp: DecodeStrictIJSON_def Canonicalize_Inr split: sum.splits option.splits prod.splits)+
qed

section \<open>References\<close>

definition form_ref_fields :: "form_ref struct_fields" where
  "form_ref_fields =
     [(''apiVersion'', member dec_str fr_apiVersion fr_apiVersion_update),
      (''kind'', member dec_str fr_kind fr_kind_update),
      (''definitionVersion'', member dec_str fr_definitionVersion fr_definitionVersion_update),
      (''schemaDigest'', member dec_str fr_schemaDigest fr_schemaDigest_update)]"

definition dec_form_ref :: "bool \<Rightarrow> form_ref decoder" where
  "dec_form_ref strict = dec_struct strict form_ref_fields"

definition enc_form_ref :: "form_ref \<Rightarrow> gval" where
  "enc_form_ref r =
     VObj [(''apiVersion'', VStr (fr_apiVersion r)), (''kind'', VStr (fr_kind r)),
       (''definitionVersion'', VStr (fr_definitionVersion r)),
       (''schemaDigest'', VStr (fr_schemaDigest r))]"

definition interface_ref_fields :: "interface_ref struct_fields" where
  "interface_ref_fields =
     [(''apiVersion'', member dec_str if_apiVersion if_apiVersion_update),
      (''name'', member dec_str if_name if_name_update),
      (''version'', member dec_str if_version if_version_update),
      (''schemaDigest'', member dec_str if_schemaDigest if_schemaDigest_update)]"

definition dec_interface_ref :: "bool \<Rightarrow> interface_ref decoder" where
  "dec_interface_ref strict = dec_struct strict interface_ref_fields"

definition enc_interface_ref :: "interface_ref \<Rightarrow> gval" where
  "enc_interface_ref r =
     VObj [(''apiVersion'', VStr (if_apiVersion r)), (''name'', VStr (if_name r)),
       (''version'', VStr (if_version r)), (''schemaDigest'', VStr (if_schemaDigest r))]"

definition binding_ref_fields :: "binding_ref struct_fields" where
  "binding_ref_fields =
     [(''apiVersion'', member dec_str br_apiVersion br_apiVersion_update),
      (''name'', member dec_str br_name br_name_update),
      (''version'', member dec_str br_version br_version_update),
      (''schemaDigest'', member dec_str br_schemaDigest br_schemaDigest_update)]"

definition dec_binding_ref :: "bool \<Rightarrow> binding_ref decoder" where
  "dec_binding_ref strict = dec_struct strict binding_ref_fields"

definition enc_binding_ref :: "binding_ref \<Rightarrow> gval" where
  "enc_binding_ref r =
     VObj [(''apiVersion'', VStr (br_apiVersion r)), (''name'', VStr (br_name r)),
       (''version'', VStr (br_version r)), (''schemaDigest'', VStr (br_schemaDigest r))]"

definition empty_interface_ref :: interface_ref where
  "empty_interface_ref = \<lparr>if_apiVersion = [], if_name = [], if_version = [], if_schemaDigest = []\<rparr>"

definition empty_binding_ref :: binding_ref where
  "empty_binding_ref = \<lparr>br_apiVersion = [], br_name = [], br_version = [], br_schemaDigest = []\<rparr>"

lemmas struct_defs = dec_struct_def member_def
  dec_form_ref_def form_ref_fields_def enc_form_ref_def
  dec_interface_ref_def interface_ref_fields_def enc_interface_ref_def
  dec_binding_ref_def binding_ref_fields_def enc_binding_ref_def

lemma dec_enc_form_ref [simp]: "dec_form_ref strict (enc_form_ref r) old = Some r"
  by (cases r; cases old) (simp add: struct_defs)

lemma dec_enc_interface_ref [simp]: "dec_interface_ref strict (enc_interface_ref r) old = Some r"
  by (cases r; cases old) (simp add: struct_defs)

lemma dec_enc_binding_ref [simp]: "dec_binding_ref strict (enc_binding_ref r) old = Some r"
  by (cases r; cases old) (simp add: struct_defs)

end
