(* ===== verification/RawJson.thy ===== *)
theory RawJson
  imports JsonDecode
begin

text \<open>
  The undecoded texts of \<^verbatim>\<open>json.RawMessage\<close> and the helpers of \<^verbatim>\<open>hostclient/types.go\<close> and
  \<^verbatim>\<open>hostclient/operations.go\<close> that look at them: \<open>rawObject\<close>, \<open>rawArray\<close>, \<open>rawString\<close>,
  \<open>rawBool\<close>, \<open>rawInteger\<close> and the closed-key check. A raw message is the text of one value, so
  a map of raw messages is a list of names and texts. On a marshalled object the raw members
  are the marshalled values.
\<close>

type_synonym raw_map = "(bytes \<times> bytes) list"

section \<open>Texts of members and items\<close>

text \<open>The text a value occupies at the start of \<open>s\<close>, and what follows it.\<close>

definition raw_value :: "bytes \<Rightarrow> (bytes \<times> bytes) option" where
  "raw_value s =
     (let t = skipWhitespace s in
      case lax_value (2 * length t + 2) 0 t of
        Inl _ \<Rightarrow> None
      | Inr (_, rest) \<Rightarrow> Some (take (length t - length rest) t, rest))"

fun raw_members :: "nat \<Rightarrow> bytes \<Rightarrow> raw_map option" where
  "raw_members 0 s = None"
| "raw_members (Suc n) s =
     (case lax_string (skipWhitespace s) of
        Inl _ \<Rightarrow> None
      | Inr (name, s1) \<Rightarrow>
          let s2 = skipWhitespace s1 in
          if \<not> has_prefix s2 '':'' then None
          else (case raw_value (tl s2) of
                  None \<Rightarrow> None
                | Some (text, s3) \<Rightarrow>
                    let s4 = skipWhitespace s3 in
                    if has_prefix s4 ''}'' then Some [(name, text)]
                    else if has_prefix s4 '','' then
                      map_option (\<lambda>m. (name, text) # m) (raw_members n (tl s4))
                    else None))"

definition raw_object :: "bytes \<Rightarrow> raw_map option" where
  "raw_object s =
     (let t = skipWhitespace (tl (skipWhitespace s)) in
      if has_prefix t ''}'' then Some [] else raw_members (length t) t)"

fun raw_items :: "nat \<Rightarrow> bytes \<Rightarrow> bytes list option" where
  "raw_items 0 s = None"
| "raw_items (Suc n) s =
     (case raw_value s of
        None \<Rightarrow> None
      | Some (text, s1) \<Rightarrow>
          let s2 = skipWhitespace s1 in
          if has_prefix s2 '']'' then Some [text]
          else if has_prefix s2 '','' then map_option (\<lambda>xs. text # xs) (raw_items n (tl s2))
          else None)"

definition raw_array :: "bytes \<Rightarrow> bytes list option" where
  "raw_array s =
     (let t = skipWhitespace (tl (skipWhitespace s)) in
      if has_prefix t '']'' then Some [] else raw_items (length t) t)"

text \<open>
  Decoding into a \<^verbatim>\<open>map[string]json.RawMessage\<close> and a \<^verbatim>\<open>[]json.RawMessage\<close>; the inner
  \<open>None\<close> is the nil map or slice of a \<^verbatim>\<open>null\<close>.
\<close>

definition dec_raw_map :: "bytes \<Rightarrow> raw_map option decoder" where
  "dec_raw_map text v old =
     (case v of
        VNull \<Rightarrow> Some None
      | VObj _ \<Rightarrow> map_option (\<lambda>m. Some (last_wins m)) (raw_object text)
      | _ \<Rightarrow> None)"

definition dec_raw_list :: "bytes \<Rightarrow> bytes list option decoder" where
  "dec_raw_list text v old =
     (case v of
        VNull \<Rightarrow> Some None
      | VArr _ \<Rightarrow> map_option Some (raw_array text)
      | _ \<Rightarrow> None)"

definition unmarshal_raw_map :: "bytes \<Rightarrow> raw_map option option" where
  "unmarshal_raw_map raw = Unmarshal raw (dec_raw_map raw) None"

section \<open>Helpers on raw messages\<close>

datatype wire_error =
    WireDecode decode_error
  | MissingField bytes | UnknownField bytes
  | MustBeObject bytes | MustBeArray bytes | Undecodable bytes
  | MustBeString | NotAString
  | WireAt bytes wire_error
  | BadWireDigest bytes
  | TooManyConditions | EmptyHostReason nat | TextTooLong nat bytes nat

definition decodeStrictJSON ::
  "(bytes \<Rightarrow> bytes option) \<Rightarrow> bytes \<Rightarrow> 'r decoder \<Rightarrow> 'r \<Rightarrow> decode_error + 'r" where
  "decodeStrictJSON transform data d zero = DecodeStrictIJSON transform data d zero"

text \<open>The root of a document as a map; a \<^verbatim>\<open>null\<close> root is the nil map, in which no key is found.\<close>

definition decode_root :: "(bytes \<Rightarrow> bytes option) \<Rightarrow> bytes \<Rightarrow> decode_error + raw_map" where
  "decode_root transform data =
     bind_res (decodeStrictJSON transform data (dec_raw_map data) None)
       (\<lambda>m. Inr (case m of None \<Rightarrow> [] | Some m \<Rightarrow> m))"

definition in_context :: "bytes \<Rightarrow> wire_error option \<Rightarrow> wire_error option" where
  "in_context label e = map_option (WireAt label) e"

definition resourceObjectKeys :: "raw_map \<Rightarrow> bytes list \<Rightarrow> bytes list \<Rightarrow> wire_error option" where
  "resourceObjectKeys m required allowed =
     (case List.find (\<lambda>k. k \<notin> set (keys m)) required of
        Some k \<Rightarrow> Some (MissingField k)
      | None \<Rightarrow> map_option UnknownField (List.find (\<lambda>k. k \<notin> set allowed) (keys m)))"

definition operationObjectKeys :: "raw_map \<Rightarrow> bytes list \<Rightarrow> bytes list \<Rightarrow> wire_error option" where
  "operationObjectKeys m required allowed =
     (case List.find (\<lambda>k. k \<notin> set (keys m)) required of
        Some k \<Rightarrow> Some (MissingField k)
      | None \<Rightarrow> map_option UnknownField (List.find (\<lambda>k. k \<notin> set allowed) (keys m)))"

text \<open>A missing entry of a map of raw messages reads as the empty message.\<close>

definition raw_at :: "raw_map \<Rightarrow> bytes \<Rightarrow> bytes" where
  "raw_at m k = (case map_of m k of None \<Rightarrow> [] | Some raw \<Rightarrow> raw)"

definition rawJSONObject :: "bytes \<Rightarrow> bool" where
  "rawJSONObject raw \<longleftrightarrow>
     (let trimmed = trim_space raw in
      length trimmed \<ge> 2 \<and> hd trimmed = CHR ''{'' \<and> last trimmed = CHR ''}'')"

definition rawObject :: "bytes \<Rightarrow> bytes \<Rightarrow> wire_error + raw_map" where
  "rawObject raw label =
     (if \<not> rawJSONObject raw then Inl (MustBeObject label)
      else (case unmarshal_raw_map raw of
              None \<Rightarrow> Inl (Undecodable label)
            | Some None \<Rightarrow> Inl (MustBeObject label)
            | Some (Some m) \<Rightarrow> Inr m))"

definition rawArray :: "bytes \<Rightarrow> bytes \<Rightarrow> wire_error + bytes list" where
  "rawArray raw label =
     (let trimmed = trim_space raw in
      if trimmed = [] \<or> hd trimmed \<noteq> CHR ''['' then Inl (MustBeArray label)
      else (case Unmarshal raw (dec_raw_list raw) None of
              None \<Rightarrow> Inl (Undecodable label)
            | Some None \<Rightarrow> Inl (MustBeArray label)
            | Some (Some xs) \<Rightarrow> Inr xs))"

definition rawString :: "bytes \<Rightarrow> bytes option" where
  "rawString raw = Unmarshal raw dec_str []"

definition rawBool :: "bytes \<Rightarrow> bool option" where
  "rawBool raw = Unmarshal raw dec_bool False"

definition rawInteger :: "bytes \<Rightarrow> int option" where
  "rawInteger raw =
     (case scan_value raw of
        Some (VNumber n, _) \<Rightarrow> parse_int64 n
      | _ \<Rightarrow> None)"

definition rawStringValue :: "bytes \<Rightarrow> wire_error + bytes" where
  "rawStringValue raw =
     (if trim_space raw = ''null'' then Inl MustBeString
      else (case rawString raw of None \<Rightarrow> Inl NotAString | Some s \<Rightarrow> Inr s))"

definition requireRawString :: "raw_map \<Rightarrow> bytes \<Rightarrow> wire_error option" where
  "requireRawString m k =
     (case map_of m k of
        None \<Rightarrow> Some (MissingField k)
      | Some raw \<Rightarrow> (case rawStringValue raw of Inl e \<Rightarrow> Some (WireAt k e) | Inr _ \<Rightarrow> None))"

text \<open>The two closed-key checks are one function.\<close>

lemma object_keys_agree: "operationObjectKeys = resourceObjectKeys"
  by (intro ext) (simp add: operationObjectKeys_def resourceObjectKeys_def)

lemma first_found_None:
  "(case List.find P xs of Some k \<Rightarrow> Some (f k) | None \<Rightarrow> y) = None \<longleftrightarrow> (\<forall>x\<in>set xs. \<not> P x) \<and> y = None"
  by (induction xs) auto

lemma resourceObjectKeys_None:
  "resourceObjectKeys m required allowed = None \<longleftrightarrow>
     set required \<subseteq> set (keys m) \<and> set (keys m) \<subseteq> set allowed"
  by (auto simp: resourceObjectKeys_def first_found_None find_None_iff)

section \<open>Raw members of a marshalled object\<close>

lemma first_not_ws: "jvalue n t v \<Longrightarrow> skipWhitespace (t @ rest) = t @ rest"
  using jvalue_first [of n t v] by auto

lemma raw_value_text:
  assumes "jvalue n t v" and "n \<le> maxJSONDepth" and "number_end rest"
  shows "raw_value (t @ rest) = Some (t, rest)"
proof -
  define f where "f = 2 * length (t @ rest) + 2"
  have "2 * length t + 1 \<le> f" by (simp add: f_def)
  then have "parse_value f 0 (t @ rest) = Inr (v, rest)"
    using parse_complete(1) [OF assms(1)] assms(2,3) by simp
  then have "lax_value f 0 (t @ rest) = Inr (v, rest)"
    using lax_strict [of f] by blast
  then have "lax_value (2 * length (t @ rest) + 2) 0 (t @ rest) = Inr (v, rest)" by (simp only: f_def)
  then show ?thesis
    unfolding raw_value_def Let_def first_not_ws [OF assms(1)] by (simp del: lax_value.simps)
qed

text \<open>The texts of the members, for an object as it is marshalled.\<close>

definition member_texts :: "object \<Rightarrow> raw_map" where
  "member_texts m = map (\<lambda>(k, v). (k, json_encode v)) m"

lemma raw_members_encoded:
  assumes "m \<noteq> []" and "wire_fields m" and "fields_depth m \<le> 255" and "length m \<le> n"
  shows "raw_members n (encode_fields m @ ''}'') = Some (member_texts m)"
  using assms
proof (induction m arbitrary: n)
  case (Cons p m)
  obtain k v where p [simp]: "p = (k, v)" by (cases p)
  obtain n' where n [simp]: "n = Suc n'" using Cons.prems(4) by (cases n) auto
  have v: "jvalue 255 (json_encode v) v" using Cons.prems by (intro encode_jvalue) auto
  have k: "lax_string (encode_string k @ r) = Inr (k, r)" for r
    using Cons.prems(2) by (intro lax_string_strict parseString_complete encode_string_jstring) simp
  have q: "skipWhitespace (encode_string k @ r) = encode_string k @ r" for r
    by (simp add: encode_string_def is_ws_def)
  have d: "(255::nat) \<le> maxJSONDepth" by (simp add: maxJSONDepth_def)
  show ?case
  proof (cases m)
    case Nil
    with raw_value_text [OF v d, of "''}''"] k q show ?thesis
      by (simp add: member_texts_def Let_def is_ws_def)
  next
    case (Cons p' m')
    then have "raw_members n' (encode_fields m @ ''}'') = Some (member_texts m)"
      using Cons.prems by (intro Cons.IH) auto
    with raw_value_text [OF v d, of "CHR '','' # encode_fields m @ ''}''"] k q Cons show ?thesis
      by (simp add: member_texts_def Let_def is_ws_def)
  qed
qed simp

lemma raw_object_encoded:
  assumes "wire_value (VObj m)" and "value_depth (VObj m) \<le> 256"
  shows "raw_object (json_encode (VObj m)) = Some (member_texts m)"
proof (cases m)
  case Nil
  then show ?thesis by (simp add: raw_object_def member_texts_def is_ws_def)
next
  case (Cons p m')
  obtain k v where p: "p = (k, v)" by (cases p)
  have n: "length m \<le> length (encode_fields m)" for m :: object
  proof (induction m)
    case (Cons q m)
    then show ?case by (cases q) (auto simp: encode_string_def)
  qed simp
  have q: "skipWhitespace (encode_fields m @ ''}'') = encode_fields m @ ''}''"
    "\<not> has_prefix (encode_fields m @ ''}'') ''}''"
    using Cons p by (simp_all add: encode_string_def is_ws_def)
  show ?thesis
    using raw_members_encoded [of m "length (encode_fields m @ ''}'')"] n [of m] assms q Cons
    by (simp add: raw_object_def Let_def is_ws_def)
qed

end
