(* ===== verification/HostErrors.thy ===== *)
theory HostErrors
  imports RawJson
begin

text \<open>
  The stable error envelope of \<^verbatim>\<open>hostclient/errors.go\<close>: the closed taxonomy of codes and their
  HTTP statuses, decoding and checking an envelope, which errors may be retried, and the
  Retry-After hint with the wrap-around of Go's 64-bit durations. The date parser
  \<^verbatim>\<open>http.ParseTime\<close> and the table \<^verbatim>\<open>http.StatusText\<close> are parameters.
\<close>

section \<open>Durations\<close>

text \<open>A \<^verbatim>\<open>time.Duration\<close> is a signed 64-bit number of nanoseconds.\<close>

definition wrap64 :: "int \<Rightarrow> int" where
  "wrap64 i = sint (word_of_int i :: 64 word)"

definition time_Second :: int where "time_Second = 1000000000"
definition time_Millisecond :: int where "time_Millisecond = 1000000"

definition maxDuration :: int where "maxDuration = 2 ^ 63 - 1"

lemma wrap64_mod: "wrap64 i = (i + 2 ^ 63) mod 2 ^ 64 - 2 ^ 63"
proof -
  have "wrap64 i = signed_take_bit 63 i"
    by (simp add: wrap64_def sint_word_ariths signed_take_bit_eq_take_bit_shift sint_sbintrunc'
        flip: of_int_of_nat_eq)
  then show ?thesis by (simp add: signed_take_bit_eq_take_bit_shift take_bit_eq_mod)
qed

lemma wrap64_range: "- (2 ^ 63) \<le> wrap64 i \<and> wrap64 i < 2 ^ 63"
  by (simp add: wrap64_mod)

lemma wrap64_id: "- (2 ^ 63) \<le> i \<Longrightarrow> i < 2 ^ 63 \<Longrightarrow> wrap64 i = i"
  by (simp add: wrap64_mod)

lemma wrap64_eq: "wrap64 i = i \<longleftrightarrow> - (2 ^ 63) \<le> i \<and> i < 2 ^ 63"
  using wrap64_id wrap64_range by metis

section \<open>The taxonomy\<close>

definition stableErrorHTTPStatusByCode :: "(bytes \<times> int) list" where
  "stableErrorHTTPStatusByCode =
     [(''invalid_argument'', 400), (''unauthenticated'', 401), (''permission_denied'', 403),
      (''form_unknown'', 404), (''form_not_installed'', 409), (''form_unavailable'', 503),
      (''resource_not_found'', 404), (''resource_busy'', 409), (''import_conflict'', 409),
      (''policy_denied'', 403), (''backend_unavailable'', 503), (''internal_error'', 500),
      (''rate_limited'', 429), (''deadline_exceeded'', 504), (''operation_cancelled'', 409),
      (''operation_not_found'', 404), (''dependency_in_use'', 409), (''artifact_missing'', 404),
      (''artifact_invalid'', 400), (''unsupported_capability'', 422), (''migration_required'', 409),
      (''uid_mismatch'', 409), (''revision_conflict'', 412), (''generation_conflict'', 412)]"

definition automaticallyRetryableErrorCodes :: "bytes list" where
  "automaticallyRetryableErrorCodes =
     [''resource_busy'', ''backend_unavailable'', ''rate_limited'', ''deadline_exceeded'']"

definition isStableErrorEnvelope :: "int \<Rightarrow> bytes \<Rightarrow> bool \<Rightarrow> bool" where
  "isStableErrorEnvelope status c retryable =
     (case map_of stableErrorHTTPStatusByCode c of
        None \<Rightarrow> False
      | Some expectedStatus \<Rightarrow>
          if status \<noteq> expectedStatus then False
          else if retryable then List.member automaticallyRetryableErrorCodes c
          else True)"

section \<open>Envelopes\<close>

record api_error =
  ae_status :: int
  ae_code :: bytes
  ae_message :: bytes
  ae_requestId :: bytes
  ae_retryable :: bool
  ae_hostCode :: bytes
  ae_retryAfter :: int
  ae_protocolInvalid :: bool
  ae_details :: bytes

record error_body =
  eb_code :: bytes
  eb_message :: bytes
  eb_requestId :: bytes
  eb_retryable :: "bool option"
  eb_hostCode :: bytes

definition empty_body :: error_body where
  "empty_body = \<lparr>eb_code = [], eb_message = [], eb_requestId = [], eb_retryable = None, eb_hostCode = []\<rparr>"

text \<open>Every value decodes into a \<^verbatim>\<open>json.RawMessage\<close>; its text is read by \<open>error_details\<close>.\<close>

definition dec_text :: "'r decoder" where "dec_text v r = Some r"

definition error_body_fields :: "error_body struct_fields" where
  "error_body_fields =
     [(''code'', member dec_str eb_code eb_code_update),
      (''message'', member dec_str eb_message eb_message_update),
      (''requestId'', member dec_str eb_requestId eb_requestId_update),
      (''retryable'', member (dec_pointer dec_bool False) eb_retryable eb_retryable_update),
      (''hostCode'', member dec_str eb_hostCode eb_hostCode_update),
      (''details'', dec_text)]"

definition dec_error_envelope :: "error_body decoder" where
  "dec_error_envelope = dec_struct True [(''error'', dec_struct True error_body_fields)]"

text \<open>The texts of the members that a struct's decoder assigns to the field \<open>n\<close>.\<close>

definition field_of :: "bytes list \<Rightarrow> bytes \<Rightarrow> bytes option" where
  "field_of names k =
     (if k \<in> set names then Some k else List.find (\<lambda>n. fold_name n = fold_name k) names)"

definition raw_children :: "bytes \<Rightarrow> raw_map" where
  "raw_children text = (case unmarshal_raw_map text of Some (Some m) \<Rightarrow> m | _ \<Rightarrow> [])"

definition raw_field :: "bytes list \<Rightarrow> bytes \<Rightarrow> bytes \<Rightarrow> bytes list" where
  "raw_field names n text =
     map snd (filter (\<lambda>(k, _). field_of names k = Some n) (raw_children text))"

definition last_text :: "bytes list \<Rightarrow> bytes" where
  "last_text texts = (if texts = [] then [] else last texts)"

definition error_details :: "bytes \<Rightarrow> bytes" where
  "error_details data =
     last_text (concat (map (raw_field (keys error_body_fields) ''details'')
       (raw_field [''error''] ''error'' data)))"

section \<open>Retry-After\<close>

record http_texts =
  ht_parse_time :: "bytes \<Rightarrow> int option"
  ht_status_text :: "int \<Rightarrow> bytes"

text \<open>\<^verbatim>\<open>time.Until\<close> answers at most the largest duration. The present is \<open>now\<close>.\<close>

definition time_until :: "int \<Rightarrow> int \<Rightarrow> int" where
  "time_until now instant = min maxDuration (instant - now)"

definition parseRetryAfter :: "http_texts \<Rightarrow> int \<Rightarrow> bytes \<Rightarrow> int" where
  "parseRetryAfter H now header =
     (let trimmed = trim_space header;
          as_date = (case ht_parse_time H trimmed of
                       None \<Rightarrow> 0
                     | Some instant \<Rightarrow> if time_until now instant > 0 then time_until now instant else 0) in
      if trimmed = [] then 0
      else (case parse_int64 trimmed of
              None \<Rightarrow> as_date
            | Some seconds \<Rightarrow>
                if seconds \<ge> 0 then wrap64 (seconds * time_Second) else as_date))"

definition retryAfterDelay :: "bool \<Rightarrow> int \<Rightarrow> int \<Rightarrow> int" where
  "retryAfterDelay hasDeadline retryAfter fallbackCap =
     (if hasDeadline then retryAfter
      else if retryAfter > fallbackCap then fallbackCap
      else retryAfter)"

section \<open>Reading an error response\<close>

definition complete_envelope :: "int \<Rightarrow> error_body \<Rightarrow> bool" where
  "complete_envelope status b \<longleftrightarrow>
     trim_space (eb_code b) \<noteq> [] \<and> trim_space (eb_message b) \<noteq> [] \<and>
     trim_space (eb_requestId b) \<noteq> [] \<and>
     (case eb_retryable b of
        None \<Rightarrow> False
      | Some retryable \<Rightarrow> isStableErrorEnvelope status (eb_code b) retryable)"

definition parseAPIError ::
  "(bytes \<Rightarrow> bytes option) \<Rightarrow> http_texts \<Rightarrow> int \<Rightarrow> int \<Rightarrow> bytes \<Rightarrow> bytes \<Rightarrow> api_error" where
  "parseAPIError transform H now status data retryAfterHeader =
     (let invalid = \<lparr>ae_status = status, ae_code = [], ae_message = [], ae_requestId = [],
            ae_retryable = False, ae_hostCode = [],
            ae_retryAfter = parseRetryAfter H now retryAfterHeader,
            ae_protocolInvalid = True, ae_details = []\<rparr>;
          read =
            (if trim_space data = [] then invalid
             else (case decodeStrictJSON transform data dec_error_envelope empty_body of
                     Inl _ \<Rightarrow> invalid
                   | Inr b \<Rightarrow>
                       if complete_envelope status b
                       then invalid\<lparr>ae_code := eb_code b, ae_message := eb_message b,
                              ae_requestId := eb_requestId b,
                              ae_retryable := (eb_retryable b = Some True),
                              ae_hostCode := eb_hostCode b, ae_details := error_details data,
                              ae_protocolInvalid := False\<rparr>
                       else invalid)) in
      if ae_message read = []
      then read\<lparr>ae_message :=
             (if trim_space data \<noteq> [] then trim_space data else ht_status_text H status)\<rparr>
      else read)"

definition isPortableRetryable :: "api_error option \<Rightarrow> bool" where
  "isPortableRetryable e =
     (case e of
        None \<Rightarrow> False
      | Some a \<Rightarrow>
          if ae_protocolInvalid a \<or> \<not> ae_retryable a then False
          else isStableErrorEnvelope (ae_status a) (ae_code a) True)"

text \<open>\<^verbatim>\<open>(*APIError).Error\<close>.\<close>

definition api_error_text :: "api_error \<Rightarrow> bytes" where
  "api_error_text e =
     (if ae_protocolInvalid e then ''takoform protocol-invalid error response''
      else ''takoform api error'') @
     (if ae_status e \<noteq> 0 then '' (http '' @ encode_int (ae_status e) @ '')'' else []) @
     (if ae_code e \<noteq> [] then '' ['' @ ae_code e @ '']'' else []) @
     (if ae_message e \<noteq> [] then '': '' @ ae_message e else []) @
     (if ae_requestId e \<noteq> [] then '' (requestId='' @ ae_requestId e @ '')'' else [])"

section \<open>Which responses are trusted\<close>

lemma complete_message: "complete_envelope status b \<Longrightarrow> eb_message b \<noteq> []"
  by (auto simp: complete_envelope_def trim_space_def)

text \<open>The envelope an error response carries, if it is complete and of the taxonomy.\<close>

definition stable_body :: "(bytes \<Rightarrow> bytes option) \<Rightarrow> int \<Rightarrow> bytes \<Rightarrow> error_body option" where
  "stable_body transform status data =
     (if trim_space data = [] then None
      else (case decodeStrictJSON transform data dec_error_envelope empty_body of
              Inl _ \<Rightarrow> None
            | Inr b \<Rightarrow> if complete_envelope status b then Some b else None))"

lemma parse_stable:
  assumes "stable_body transform status data = Some b"
  shows "parseAPIError transform H now status data header =
    \<lparr>ae_status = status, ae_code = eb_code b, ae_message = eb_message b, ae_requestId = eb_requestId b,
     ae_retryable = (eb_retryable b = Some True), ae_hostCode = eb_hostCode b,
     ae_retryAfter = parseRetryAfter H now header, ae_protocolInvalid = False,
     ae_details = error_details data\<rparr>"
  using assms complete_message
  by (auto simp: stable_body_def parseAPIError_def Let_def split: if_splits sum.splits)

lemma parse_unstable:
  assumes "stable_body transform status data = None"
  shows "ae_protocolInvalid (parseAPIError transform H now status data header)"
    and "ae_code (parseAPIError transform H now status data header) = []"
    and "\<not> ae_retryable (parseAPIError transform H now status data header)"
  using assms
  by (auto simp: stable_body_def parseAPIError_def Let_def split: if_splits sum.splits)

lemma parse_status [simp]: "ae_status (parseAPIError transform H now status data header) = status"
  by (cases "stable_body transform status data")
     (simp_all add: parse_stable, simp add: parseAPIError_def stable_body_def Let_def
        split: if_splits sum.splits)

lemma stable_body_complete: "stable_body transform status data = Some b \<Longrightarrow> complete_envelope status b"
  by (auto simp: stable_body_def split: if_splits sum.splits)

lemma portable_retry:
  "isPortableRetryable (Some (parseAPIError transform H now status data header)) \<longleftrightarrow>
     (\<exists>b. stable_body transform status data = Some b \<and> eb_retryable b = Some True)"
proof (cases "stable_body transform status data")
  case None
  then show ?thesis using parse_unstable(1) by (simp add: isPortableRetryable_def)
next
  case (Some b)
  then show ?thesis
    using stable_body_complete [OF Some]
    by (auto simp: isPortableRetryable_def parse_stable complete_envelope_def)
qed

text \<open>The codes a response can be retried for, with their statuses.\<close>

lemma retryable_statuses:
  "isStableErrorEnvelope status c True \<longleftrightarrow>
     (c, status) \<in> {(''resource_busy'', 409), (''backend_unavailable'', 503),
       (''rate_limited'', 429), (''deadline_exceeded'', 504)}"
proof -
  have m: "map_of stableErrorHTTPStatusByCode ''resource_busy'' = Some 409"
    "map_of stableErrorHTTPStatusByCode ''backend_unavailable'' = Some 503"
    "map_of stableErrorHTTPStatusByCode ''rate_limited'' = Some 429"
    "map_of stableErrorHTTPStatusByCode ''deadline_exceeded'' = Some 504"
    by (simp_all add: stableErrorHTTPStatusByCode_def)
  have a: "List.member automaticallyRetryableErrorCodes c \<longleftrightarrow>
      c = ''resource_busy'' \<or> c = ''backend_unavailable'' \<or> c = ''rate_limited'' \<or> c = ''deadline_exceeded''"
    by (simp add: automaticallyRetryableErrorCodes_def)
  show ?thesis
  proof (cases "List.member automaticallyRetryableErrorCodes c")
    case False
    then show ?thesis using a by (simp add: isStableErrorEnvelope_def split: option.splits)
  next
    case True
    then show ?thesis
      unfolding a by (elim disjE) (simp_all add: isStableErrorEnvelope_def m automaticallyRetryableErrorCodes_def)
  qed
qed

lemma decodeStrictJSON_Inr:
  "decodeStrictJSON transform data d zero = Inr r \<longleftrightarrow>
     (\<exists>v. valid_utf8 data \<and> parseDocument data = Inr v \<and> transform data \<noteq> None \<and> d v zero = Some r)"
  by (simp add: decodeStrictJSON_def DecodeStrictIJSON_Inr)

section \<open>Retry-After hints\<close>

lemma trim_space_plain:
  assumes "ascii_string s" and "\<And>c. c \<in> set s \<Longrightarrow> \<not> is_space (code c)"
  shows "trim_space s = s"
proof -
  have r: "rune_chunks s = map (\<lambda>c. (code c, [c])) s"
    using assms(1) by (induction s) (auto simp: ascii_string_def)
  have "dropWhile (\<lambda>(r, _). is_space r) (map (\<lambda>c. (code c, [c])) t) = map (\<lambda>c. (code c, [c])) t"
    if "set t \<subseteq> set s" for t
    using that assms(2) by (cases t) auto
  from this [of s] this [of "rev s"] show ?thesis
    by (simp add: trim_space_def r rev_map comp_def)
qed

lemma digit_not_space: "is_digit c \<Longrightarrow> \<not> is_space (code c) \<and> code c < 128"
  by (auto simp: is_digit_def less_eq_char_def code_def is_space_def)

lemma trim_decimal: "trim_space (decimal n) = decimal n"
  using decimal_digits [of n] digit_not_space
  by (intro trim_space_plain) (auto simp: ascii_string_def list_all_iff)

lemma parse_int64_decimal:
  "parse_int64 (decimal n) = (if int n < 2 ^ 63 then Some (int n) else None)"
proof -
  obtain c t where d: "decimal n = c # t" "is_digit c"
    using decimal_digits [of n] by (cases "decimal n") auto
  have "\<not> has_prefix (decimal n) ''-''" "\<not> has_prefix (decimal n) ''+''"
    using d by (auto simp: is_digit_def less_eq_char_def)
  then show ?thesis
    using decimal_digits [of n] by (simp add: parse_int64_def all_digits_def Let_def)
qed

lemma retry_after_seconds:
  assumes "int n < 2 ^ 63"
  shows "parseRetryAfter H now (decimal n) = wrap64 (int n * time_Second)"
  using assms decimal_digits [of n] parse_int64_decimal [of n]
  by (simp add: parseRetryAfter_def trim_decimal Let_def)

text \<open>Eighteen thousand million seconds are waited for a third of a second.\<close>

lemma retry_after_wraps: "parseRetryAfter H now (decimal 18446744074) = 290448384"
  by (simp add: retry_after_seconds time_Second_def wrap64_mod)

end
