(* ===== verification/GoRegexp.thy ===== *)
theory GoRegexp
  imports GoStrings
begin

text \<open>
  The anchored patterns the program compiles with \<^verbatim>\<open>regexp.MustCompile\<close>. Every one of them
  is of the form \<^verbatim>\<open>^...$\<close> and built of ASCII classes, so matching the bytes of a string is
  matching its runes. A pattern is a term of \<open>rx\<close> that follows the source text of the
  pattern; \<open>rx_match\<close> is an executable matcher by derivatives, and \<open>lang\<close> the set of
  strings the pattern denotes. \<open>rx_match_lang\<close> connects the two.
\<close>

datatype rx =
    Zero
  | One
  | Cls "(char \<times> char) list"
  | Seq rx rx
  | Alt rx rx
  | Star rx

definition in_range :: "char \<Rightarrow> char \<times> char \<Rightarrow> bool" where
  "in_range c r \<longleftrightarrow> code (fst r) \<le> code c \<and> code c \<le> code (snd r)"

definition in_cls :: "(char \<times> char) list \<Rightarrow> char \<Rightarrow> bool" where
  "in_cls rs c = list_ex (in_range c) rs"

inductive_set star_set :: "bytes set \<Rightarrow> bytes set" for L where
  star_Nil: "[] \<in> star_set L"
| star_step: "s \<in> L \<Longrightarrow> t \<in> star_set L \<Longrightarrow> s @ t \<in> star_set L"

primrec lang :: "rx \<Rightarrow> bytes set" where
  "lang Zero = {}"
| "lang One = {[]}"
| "lang (Cls rs) = {[c] | c. in_cls rs c}"
| "lang (Seq r q) = {s @ t | s t. s \<in> lang r \<and> t \<in> lang q}"
| "lang (Alt r q) = lang r \<union> lang q"
| "lang (Star r) = star_set (lang r)"

primrec nullable :: "rx \<Rightarrow> bool" where
  "nullable Zero = False"
| "nullable One = True"
| "nullable (Cls rs) = False"
| "nullable (Seq r q) = (nullable r \<and> nullable q)"
| "nullable (Alt r q) = (nullable r \<or> nullable q)"
| "nullable (Star r) = True"

text \<open>Constructors that keep derivatives small.\<close>

fun mk_seq :: "rx \<Rightarrow> rx \<Rightarrow> rx" where
  "mk_seq Zero q = Zero"
| "mk_seq r q = (case q of Zero \<Rightarrow> Zero | _ \<Rightarrow> if r = One then q else Seq r q)"

fun mk_alt :: "rx \<Rightarrow> rx \<Rightarrow> rx" where
  "mk_alt Zero q = q"
| "mk_alt r q = (case q of Zero \<Rightarrow> r | _ \<Rightarrow> if r = q then r else Alt r q)"

primrec deriv :: "char \<Rightarrow> rx \<Rightarrow> rx" where
  "deriv c Zero = Zero"
| "deriv c One = Zero"
| "deriv c (Cls rs) = (if in_cls rs c then One else Zero)"
| "deriv c (Seq r q) =
     (if nullable r then mk_alt (mk_seq (deriv c r) q) (deriv c q) else mk_seq (deriv c r) q)"
| "deriv c (Alt r q) = mk_alt (deriv c r) (deriv c q)"
| "deriv c (Star r) = mk_seq (deriv c r) (Star r)"

fun rx_match :: "rx \<Rightarrow> bytes \<Rightarrow> bool" where
  "rx_match r [] = nullable r"
| "rx_match r (c # cs) = rx_match (deriv c r) cs"

lemma lang_mk_seq [simp]: "lang (mk_seq r q) = lang (Seq r q)"
  by (cases "(r, q)" rule: mk_seq.cases) (auto split: rx.splits)

lemma lang_mk_alt [simp]: "lang (mk_alt r q) = lang (Alt r q)"
  by (cases "(r, q)" rule: mk_alt.cases) (auto split: rx.splits)

lemma nullable_lang: "nullable r \<longleftrightarrow> [] \<in> lang r"
  by (induction r) (auto intro: star_Nil)

lemma star_Cons:
  "c # s \<in> star_set L \<longleftrightarrow> (\<exists>u v. s = u @ v \<and> c # u \<in> L \<and> v \<in> star_set L)" (is "?l \<longleftrightarrow> ?r")
proof
  assume ?l
  then show ?r
  proof (induction "c # s" arbitrary: c s rule: star_set.induct)
    case (star_step x t)
    show ?case
    proof (cases x)
      case Nil
      with star_step show ?thesis by simp
    next
      case (Cons a u)
      with star_step show ?thesis by auto
    qed
  qed
next
  assume ?r
  then obtain u v where "s = u @ v" "c # u \<in> L" "v \<in> star_set L" by blast
  then show ?l using star_step [of "c # u" L v] by simp
qed

lemma deriv_lang: "lang (deriv c r) = {s. c # s \<in> lang r}"
proof (induction r)
  case (Seq r q)
  then show ?case
    by (auto simp: nullable_lang Cons_eq_append_conv)
next
  case (Star r)
  then show ?case
    by (auto simp: star_Cons)
qed auto

theorem rx_match_lang: "rx_match r s \<longleftrightarrow> s \<in> lang r"
  by (induction s arbitrary: r) (auto simp: nullable_lang deriv_lang)

text \<open>The bytes a pattern can match.\<close>

primrec rx_chars :: "rx \<Rightarrow> char \<Rightarrow> bool" where
  "rx_chars Zero c = False"
| "rx_chars One c = False"
| "rx_chars (Cls rs) c = in_cls rs c"
| "rx_chars (Seq r q) c = (rx_chars r c \<or> rx_chars q c)"
| "rx_chars (Alt r q) c = (rx_chars r c \<or> rx_chars q c)"
| "rx_chars (Star r) c = rx_chars r c"

lemma star_chars: "s \<in> star_set L \<Longrightarrow> c \<in> set s \<Longrightarrow> \<exists>t\<in>L. c \<in> set t"
  by (induction rule: star_set.induct) auto

lemma lang_chars: "s \<in> lang r \<Longrightarrow> c \<in> set s \<Longrightarrow> rx_chars r c"
proof (induction r arbitrary: s)
  case (Seq r q)
  then obtain u v where "s = u @ v" "u \<in> lang r" "v \<in> lang q" by auto
  with Seq show ?case by auto
next
  case (Star r)
  then show ?case using star_chars [of s "lang r" c] by auto
qed auto

lemma rx_match_chars: "rx_match r s \<Longrightarrow> c \<in> set s \<Longrightarrow> rx_chars r c"
  using lang_chars by (simp add: rx_match_lang)

text \<open>The lengths of the strings a star-free pattern can match.\<close>

primrec rx_max :: "rx \<Rightarrow> nat option" where
  "rx_max Zero = Some 0"
| "rx_max One = Some 0"
| "rx_max (Cls rs) = Some 1"
| "rx_max (Seq r q) = (case (rx_max r, rx_max q) of (Some a, Some b) \<Rightarrow> Some (a + b) | _ \<Rightarrow> None)"
| "rx_max (Alt r q) = (case (rx_max r, rx_max q) of (Some a, Some b) \<Rightarrow> Some (max a b) | _ \<Rightarrow> None)"
| "rx_max (Star r) = None"

primrec rx_min :: "rx \<Rightarrow> nat" where
  "rx_min Zero = 0"
| "rx_min One = 0"
| "rx_min (Cls rs) = 1"
| "rx_min (Seq r q) = rx_min r + rx_min q"
| "rx_min (Alt r q) = min (rx_min r) (rx_min q)"
| "rx_min (Star r) = 0"

lemma rx_max_lang: "rx_max r = Some n \<Longrightarrow> s \<in> lang r \<Longrightarrow> length s \<le> n"
proof (induction r arbitrary: n s)
  case (Seq r q)
  then show ?case by (fastforce split: option.splits intro: add_mono)
next
  case (Alt r q)
  then show ?case by (fastforce split: option.splits)
qed auto

lemma rx_min_lang: "s \<in> lang r \<Longrightarrow> rx_min r \<le> length s"
proof (induction r arbitrary: s)
  case (Seq r q)
  then show ?case by (fastforce intro: add_mono)
next
  case (Alt r q)
  then show ?case by (fastforce intro: min.coboundedI1 min.coboundedI2)
qed auto


section \<open>Pattern syntax\<close>

definition chr :: "char \<Rightarrow> rx" where "chr c = Cls [(c, c)]"

fun lit :: "bytes \<Rightarrow> rx" where
  "lit [] = One"
| "lit [c] = chr c"
| "lit (c # d # s) = Seq (chr c) (lit (d # s))"

fun seqs :: "rx list \<Rightarrow> rx" where
  "seqs [] = One"
| "seqs [r] = r"
| "seqs (r # q # rs) = Seq r (seqs (q # rs))"

fun alts :: "rx list \<Rightarrow> rx" where
  "alts [] = Zero"
| "alts [r] = r"
| "alts (r # q # rs) = Alt r (alts (q # rs))"

definition opt :: "rx \<Rightarrow> rx" where "opt r = Alt One r"
definition plus :: "rx \<Rightarrow> rx" where "plus r = Seq r (Star r)"

fun rep :: "nat \<Rightarrow> rx \<Rightarrow> rx" where
  "rep 0 r = One"
| "rep (Suc n) r = Seq r (rep n r)"

fun upto_rep :: "nat \<Rightarrow> rx \<Rightarrow> rx" where
  "upto_rep 0 r = One"
| "upto_rep (Suc n) r = opt (Seq r (upto_rep n r))"

definition c_lower :: "char \<times> char" where "c_lower = (CHR ''a'', CHR ''z'')"
definition c_upper :: "char \<times> char" where "c_upper = (CHR ''A'', CHR ''Z'')"
definition c_digit :: "char \<times> char" where "c_digit = (CHR ''0'', CHR ''9'')"
definition c_dash :: "char \<times> char" where "c_dash = (CHR ''-'', CHR ''-'')"
definition c_dot :: "char \<times> char" where "c_dot = (CHR ''.'', CHR ''.'')"
definition c_under :: "char \<times> char" where "c_under = (CHR ''_'', CHR ''_'')"

lemmas pattern_defs = chr_def opt_def plus_def c_lower_def c_upper_def c_digit_def c_dash_def
  c_dot_def c_under_def

text \<open>\<^verbatim>\<open>0|[1-9][0-9]*\<close> and \<^verbatim>\<open>[a-z0-9](?:[a-z0-9-]{0,61}[a-z0-9])?\<close>, used by several patterns.\<close>

definition rx_nat :: rx where
  "rx_nat = Alt (chr CHR ''0'') (Seq (Cls [(CHR ''1'', CHR ''9'')]) (Star (Cls [c_digit])))"

definition rx_label :: rx where
  "rx_label =
     Seq (Cls [c_lower, c_digit])
         (opt (Seq (upto_rep 61 (Cls [c_lower, c_digit, c_dash])) (Cls [c_lower, c_digit])))"

definition rx_semver :: rx where
  "rx_semver = seqs [rx_nat, chr CHR ''.'', rx_nat, chr CHR ''.'', rx_nat]"

lemma lang_chr: "lang (chr c) = {[c]}"
proof -
  have "in_range d (c, c) \<longleftrightarrow> d = c" for d
    using code_inj [of c d] by (auto simp: in_range_def)
  then show ?thesis by (auto simp: chr_def in_cls_def)
qed

lemma lang_lit: "lang (lit s) = {s}"
  by (induction s rule: lit.induct) (simp_all add: lang_chr)

lemma lit_append: "t \<in> lang r \<Longrightarrow> s @ t \<in> lang (Seq (lit s) r)"
  by (auto simp: lang_lit)

lemma lang_rep: "s \<in> lang (rep n (Cls rs)) \<longleftrightarrow> length s = n \<and> (\<forall>c\<in>set s. in_cls rs c)"
proof (induction n arbitrary: s)
  case (Suc n)
  have "s \<in> lang (rep (Suc n) (Cls rs)) \<longleftrightarrow> (\<exists>c t. s = c # t \<and> in_cls rs c \<and> t \<in> lang (rep n (Cls rs)))"
    by (auto intro: exI [of _ "[c]" for c])
  with Suc.IH show ?case by (cases s) auto
qed auto

lemma rx_chars_upto_rep [simp]: "rx_chars (upto_rep n r) c \<longleftrightarrow> 0 < n \<and> rx_chars r c"
  by (induction n) (auto simp: opt_def)

lemma rx_chars_rep [simp]: "rx_chars (rep n r) c \<longleftrightarrow> 0 < n \<and> rx_chars r c"
  by (induction n) auto

lemma rx_max_upto_rep [simp]: "rx_max r = Some m \<Longrightarrow> rx_max (upto_rep n r) = Some (n * m)"
  by (induction n) (auto simp: opt_def)

lemma rx_chars_label [simp]:
  "rx_chars rx_label c \<longleftrightarrow> in_cls [c_lower, c_digit, c_dash] c"
  by (auto simp: rx_label_def opt_def in_cls_def)

lemma rx_label_length: "s \<in> lang rx_label \<Longrightarrow> 1 \<le> length s \<and> length s \<le> 63"
  using rx_max_lang [of rx_label 63 s] rx_min_lang [of s rx_label]
  by (simp add: rx_label_def opt_def)

text \<open>A decimal number of the patterns determines, and is determined by, its digits.\<close>

lemma lang_rx_nat_digits: "s \<in> lang rx_nat \<Longrightarrow> s \<noteq> [] \<and> (\<forall>c\<in>set s. is_digit c)"
  using lang_chars [of s rx_nat] rx_min_lang [of s rx_nat]
  by (fastforce simp: rx_nat_def pattern_defs in_cls_def in_range_def is_digit_def char_le_of_char code_def)

end
