(* ===== verification/Base32Codec.thy ===== *)
theory Base32Codec
  imports GoStrings
begin

text \<open>
  Go's \<^verbatim>\<open>base32.StdEncoding.WithPadding(base32.NoPadding)\<close>, which release identifiers use:
  five bytes become eight symbols; a last group of one to four bytes becomes two, four, five
  or seven symbols, its missing bits zero. The decoder drops line breaks, refuses a byte
  outside the alphabet and, like the package's, writes nothing for a group of one, three or
  six symbols. A bit is a Boolean and a group a list of them, most significant first.
\<close>

fun byte_bits :: "char \<Rightarrow> bool list" where
  "byte_bits (Char b0 b1 b2 b3 b4 b5 b6 b7) = [b7, b6, b5, b4, b3, b2, b1, b0]"

fun bits_byte :: "bool list \<Rightarrow> char" where
  "bits_byte [b7, b6, b5, b4, b3, b2, b1, b0] = Char b0 b1 b2 b3 b4 b5 b6 b7"
| "bits_byte _ = CHR 0x00"

definition b32_alphabet :: bytes where
  "b32_alphabet = ''ABCDEFGHIJKLMNOPQRSTUVWXYZ234567''"

definition bits_value :: "bool list \<Rightarrow> nat" where
  "bits_value bs = foldl (\<lambda>n b. 2 * n + (if b then 1 else 0)) 0 bs"

definition symbol :: "bool list \<Rightarrow> char" where
  "symbol bs = b32_alphabet ! bits_value bs"

fun value_bits :: "nat \<Rightarrow> nat \<Rightarrow> bool list" where
  "value_bits 0 n = []"
| "value_bits (Suc k) n = value_bits k (n div 2) @ [odd n]"

fun index_of :: "'a \<Rightarrow> 'a list \<Rightarrow> nat option" where
  "index_of x [] = None"
| "index_of x (y # ys) = (if x = y then Some 0 else map_option Suc (index_of x ys))"

definition symbol_bits :: "char \<Rightarrow> bool list option" where
  "symbol_bits c = map_option (value_bits 5) (index_of c b32_alphabet)"

fun chunks :: "nat \<Rightarrow> 'a list \<Rightarrow> 'a list list" where
  "chunks 0 xs = []"
| "chunks n [] = []"
| "chunks (Suc n) xs = take (Suc n) xs # chunks (Suc n) (drop (Suc n) xs)"

definition pad5 :: "bool list \<Rightarrow> bool list" where
  "pad5 bs = bs @ replicate ((5 - length bs mod 5) mod 5) False"

definition encode_group :: "bytes \<Rightarrow> bytes" where
  "encode_group g = map symbol (chunks 5 (pad5 (concat (map byte_bits g))))"

definition base32_encode :: "bytes \<Rightarrow> bytes" where
  "base32_encode s = concat (map encode_group (chunks 5 s))"

definition group_bytes :: "nat \<Rightarrow> nat" where
  "group_bytes n =
     (if n = 8 then 5 else if n = 7 then 4 else if n = 5 then 3 else if n = 4 then 2
      else if n = 2 then 1 else 0)"

definition decode_group :: "bool list list \<Rightarrow> bytes" where
  "decode_group vs =
     (let n = group_bytes (length vs) in
      map bits_byte (chunks 8 (take (8 * n) (concat vs))))"

fun symbols_bits :: "bytes \<Rightarrow> bool list list option" where
  "symbols_bits [] = Some []"
| "symbols_bits (c # cs) =
     (case symbol_bits c of
        None \<Rightarrow> None
      | Some v \<Rightarrow> map_option (\<lambda>vs. v # vs) (symbols_bits cs))"

definition strip_newlines :: "bytes \<Rightarrow> bytes" where
  "strip_newlines s = filter (\<lambda>c. c \<noteq> CHR 0x0D \<and> c \<noteq> CHR 0x0A) s"

definition base32_decode :: "bytes \<Rightarrow> bytes option" where
  "base32_decode s =
     map_option (\<lambda>vs. concat (map decode_group (chunks 8 vs))) (symbols_bits (strip_newlines s))"

section \<open>Round trip\<close>

lemma symbol_bits_all: "\<forall>a b c d e. symbol_bits (symbol [a, b, c, d, e]) = Some [a, b, c, d, e]"
  by code_simp

definition is_symbol :: "char \<Rightarrow> bool" where
  "is_symbol c \<longleftrightarrow> (CHR ''A'' \<le> c \<and> c \<le> CHR ''Z'') \<or> (CHR ''2'' \<le> c \<and> c \<le> CHR ''7'')"

lemma symbol_all: "\<forall>a b c d e. is_symbol (symbol [a, b, c, d, e])"
  by code_simp

lemma five_bits: "length v = 5 \<Longrightarrow> \<exists>a b c d e. v = [a, b, c, d, e]"
  by (auto simp: length_Suc_conv eval_nat_numeral)

lemma symbol_bits_symbol: "length v = 5 \<Longrightarrow> symbol_bits (symbol v) = Some v"
  using five_bits [of v] symbol_bits_all by auto

lemma symbol_is_symbol: "length v = 5 \<Longrightarrow> is_symbol (symbol v)"
  using five_bits [of v] symbol_all by auto

definition quintets :: "bytes \<Rightarrow> bool list list" where
  "quintets g = chunks 5 (pad5 (concat (map byte_bits g)))"

lemma byte_cases: "\<exists>b0 b1 b2 b3 b4 b5 b6 b7. byte_bits c = [b7, b6, b5, b4, b3, b2, b1, b0] \<and>
    bits_byte [b7, b6, b5, b4, b3, b2, b1, b0] = c"
  by (cases c) auto

lemma chunks_5:
  "chunks 5 (a # b # c # d # e # xs) = [a, b, c, d, e] # chunks 5 xs" "chunks 5 [] = []"
  by (simp_all add: eval_nat_numeral)

lemma chunks_8:
  "chunks 8 (a # b # c # d # e # f # g # h # xs) = [a, b, c, d, e, f, g, h] # chunks 8 xs" "chunks 8 [] = []"
  by (simp_all add: eval_nat_numeral)

lemma pad5_length:
  "length bs = 8 \<Longrightarrow> pad5 bs = bs @ [False, False]"
  "length bs = 16 \<Longrightarrow> pad5 bs = bs @ [False, False, False, False]"
  "length bs = 24 \<Longrightarrow> pad5 bs = bs @ [False]"
  "length bs = 32 \<Longrightarrow> pad5 bs = bs @ [False, False, False]"
  "length bs = 40 \<Longrightarrow> pad5 bs = bs"
proof -
  have r: "replicate 2 False = [False, False]" "replicate 3 False = [False, False, False]"
    "replicate 4 False = [False, False, False, False]"
    by (simp_all add: eval_nat_numeral)
  show "length bs = 8 \<Longrightarrow> pad5 bs = bs @ [False, False]"
    "length bs = 16 \<Longrightarrow> pad5 bs = bs @ [False, False, False, False]"
    "length bs = 24 \<Longrightarrow> pad5 bs = bs @ [False]"
    "length bs = 32 \<Longrightarrow> pad5 bs = bs @ [False, False, False]"
    "length bs = 40 \<Longrightarrow> pad5 bs = bs"
    by (simp_all add: pad5_def r)
qed

definition group_ok :: "bytes \<Rightarrow> bool" where
  "group_ok g \<longleftrightarrow> decode_group (quintets g) = g \<and> (\<forall>v\<in>set (quintets g). length v = 5) \<and>
    quintets g \<noteq> [] \<and> length (quintets g) \<le> 8 \<and> (length g = 5 \<longrightarrow> length (quintets g) = 8)"

lemmas group_ok_defs = group_ok_def quintets_def pad5_length chunks_5 chunks_8 decode_group_def
  group_bytes_def Let_def

lemma group_ok_1: "group_ok [a]"
  using byte_cases [of a] by (elim exE conjE) (simp add: group_ok_defs)

lemma group_ok_2: "group_ok [a, b]"
  using byte_cases [of a] byte_cases [of b] by (elim exE conjE) (simp add: group_ok_defs)

lemma group_ok_3: "group_ok [a, b, c]"
  using byte_cases [of a] byte_cases [of b] byte_cases [of c]
  by (elim exE conjE) (simp add: group_ok_defs)

lemma group_ok_4: "group_ok [a, b, c, d]"
  using byte_cases [of a] byte_cases [of b] byte_cases [of c] byte_cases [of d]
  by (elim exE conjE) (simp add: group_ok_defs)

lemma group_ok_5: "group_ok [a, b, c, d, e]"
  using byte_cases [of a] byte_cases [of b] byte_cases [of c] byte_cases [of d] byte_cases [of e]
  by (elim exE conjE) (simp add: group_ok_defs)

lemma quintets_group:
  assumes "g \<noteq> []" and "length g \<le> 5"
  shows "decode_group (quintets g) = g \<and> (\<forall>v\<in>set (quintets g). length v = 5) \<and>
    quintets g \<noteq> [] \<and> length (quintets g) \<le> 8 \<and> (length g = 5 \<longrightarrow> length (quintets g) = 8)"
proof -
  have "length g = 1 \<or> length g = 2 \<or> length g = 3 \<or> length g = 4 \<or> length g = 5"
    using assms length_greater_0_conv [of g] by linarith
  then have "\<exists>a b c d e. g = [a] \<or> g = [a, b] \<or> g = [a, b, c] \<or> g = [a, b, c, d] \<or> g = [a, b, c, d, e]"
    by (auto simp: length_Suc_conv eval_nat_numeral)
  then have "group_ok g"
    using group_ok_1 group_ok_2 group_ok_3 group_ok_4 group_ok_5 by blast
  then show ?thesis by (simp add: group_ok_def)
qed

lemma symbols_bits_map: "\<forall>v\<in>set vs. length v = 5 \<Longrightarrow> symbols_bits (map symbol vs) = Some vs"
  by (induction vs) (auto simp: symbol_bits_symbol)

lemma chunks_step: "0 < n \<Longrightarrow> xs \<noteq> [] \<Longrightarrow> chunks n xs = take n xs # chunks n (drop n xs)"
  by (cases n; cases xs) auto

lemma chunks_Nil [simp]: "chunks n [] = []"
  by (cases n) auto

lemma encode_quintets: "base32_encode s = map symbol (concat (map quintets (chunks 5 s)))"
proof -
  have "encode_group = (\<lambda>g. map symbol (quintets g))"
    by (rule ext) (simp add: encode_group_def quintets_def)
  then show ?thesis by (simp add: base32_encode_def map_concat comp_def)
qed

lemma chunks_quintets:
  "chunks 8 (concat (map quintets (chunks 5 s))) = map quintets (chunks 5 s) \<and>
   (\<forall>g\<in>set (chunks 5 s). g \<noteq> [] \<and> length g \<le> 5) \<and> concat (chunks 5 s) = s"
proof (induction "length s" arbitrary: s rule: less_induct)
  case less
  show ?case
  proof (cases "s = []")
    case False
    define g r where "g = take 5 s" and "r = drop 5 s"
    have c: "chunks 5 s = g # chunks 5 r" using False by (simp add: chunks_step g_def r_def)
    have gne: "g \<noteq> []" and gl: "length g \<le> 5" and s: "s = g @ r" using False by (auto simp: g_def r_def)
    have IH: "chunks 8 (concat (map quintets (chunks 5 r))) = map quintets (chunks 5 r) \<and>
        (\<forall>g\<in>set (chunks 5 r). g \<noteq> [] \<and> length g \<le> 5) \<and> concat (chunks 5 r) = r"
      using less [of r] False by (auto simp: r_def)
    note q = quintets_group [OF gne gl]
    have full: "length (quintets g) = 8 \<or> r = []" using q by (auto simp: g_def r_def)
    have "chunks 8 (quintets g @ concat (map quintets (chunks 5 r))) =
        quintets g # chunks 8 (concat (map quintets (chunks 5 r)))"
      using q full by (subst chunks_step) auto
    with c IH gne gl s show ?thesis by simp
  qed simp
qed

lemma concat_map_id: "(\<And>x. x \<in> set xs \<Longrightarrow> f (g x) = x) \<Longrightarrow> concat (map f (map g xs)) = concat xs"
  by (induction xs) auto

lemma encode_is_symbol: "c \<in> set (base32_encode s) \<Longrightarrow> is_symbol c"
  using chunks_quintets [of s] quintets_group
  by (fastforce simp: encode_quintets intro: symbol_is_symbol)

lemma symbol_not_newline: "is_symbol c \<Longrightarrow> c \<noteq> CHR 0x0D \<and> c \<noteq> CHR 0x0A"
  by (auto simp: is_symbol_def less_eq_char_def)

theorem base32_round_trip: "base32_decode (base32_encode s) = Some s"
proof -
  have "strip_newlines (base32_encode s) = base32_encode s"
    unfolding strip_newlines_def using encode_is_symbol symbol_not_newline
    by (subst filter_id_conv) blast
  moreover have "symbols_bits (base32_encode s) = Some (concat (map quintets (chunks 5 s)))"
    unfolding encode_quintets using chunks_quintets [of s] quintets_group
    by (intro symbols_bits_map) fastforce
  moreover have "concat (map decode_group (map quintets (chunks 5 s))) = concat (chunks 5 s)"
    using chunks_quintets [of s] quintets_group by (intro concat_map_id) blast
  ultimately show ?thesis
    using chunks_quintets [of s] by (simp add: base32_decode_def)
qed

lemma base32_encode_Nil [simp]: "base32_encode s = [] \<longleftrightarrow> s = []"
proof
  assume "base32_encode s = []"
  then have "base32_decode [] = Some s" using base32_round_trip [of s] by simp
  then show "s = []" by (simp add: base32_decode_def strip_newlines_def)
qed (simp add: base32_encode_def)

interpretation base32: codec base32_encode base32_decode "\<lambda>_. True"
  by unfold_locales (rule base32_round_trip)

end
