(* ===== verification/PublicationIdentity.thy ===== *)
theory PublicationIdentity
  imports FormModel GoRegexp GoUnicode Base32Codec
begin

text \<open>
  The publication locators of \<^verbatim>\<open>formpackage/publication_identity.go\<close> and the group test
  \<^verbatim>\<open>NamespacedFormGroup\<close> of \<^verbatim>\<open>formpackage/schema.go\<close>. A release identifier is a canonical
  codec of the Form kind, a tag determines its locator and every derived locator is
  recovered from its tag.
\<close>

section \<open>Paths\<close>

text \<open>\<^verbatim>\<open>path.Clean\<close>, \<^verbatim>\<open>path.Join\<close> and \<^verbatim>\<open>path.Base\<close>.\<close>

definition clean_step :: "bool \<Rightarrow> bytes list \<Rightarrow> bytes \<Rightarrow> bytes list" where
  "clean_step rooted out seg =
     (if seg = [] \<or> seg = ''.'' then out
      else if seg = ''..'' then
        (if out \<noteq> [] \<and> last out \<noteq> ''..'' then butlast out
         else if rooted then out else out @ [''..''])
      else out @ [seg])"

definition path_clean :: "bytes \<Rightarrow> bytes" where
  "path_clean s =
     (let rooted = has_prefix s ''/'';
          out = foldl (clean_step rooted) [] (split_on CHR ''/'' s);
          r = (if rooted then ''/'' else []) @ join_with ''/'' out in
      if r = [] then ''.'' else r)"

definition path_join :: "bytes list \<Rightarrow> bytes" where
  "path_join elems =
     (let parts = filter (\<lambda>e. e \<noteq> []) elems in
      if parts = [] then [] else path_clean (join_with ''/'' parts))"

definition path_base :: "bytes \<Rightarrow> bytes" where
  "path_base s =
     (if s = [] then ''.''
      else (let t = rev (dropWhile (\<lambda>c. c = CHR ''/'') (rev s));
                b = rev (takeWhile (\<lambda>c. c \<noteq> CHR ''/'') (rev t)) in
            if b = [] then ''/'' else b))"

definition trim_suffix :: "bytes \<Rightarrow> bytes \<Rightarrow> bytes" where
  "trim_suffix s p = (if has_suffix s p then take (length s - length p) s else s)"

section \<open>Patterns\<close>

definition rx_semver_ident :: rx where
  "rx_semver_ident =
     Alt rx_nat
       (seqs [Star (Cls [c_digit, c_upper, c_lower, c_dash]), Cls [c_upper, c_lower, c_dash],
              Star (Cls [c_digit, c_upper, c_lower, c_dash])])"

definition legacyPackageArtifactPattern :: rx where
  "legacyPackageArtifactPattern =
     seqs [rx_semver,
       opt (seqs [chr CHR ''-'', rx_semver_ident, Star (Seq (chr CHR ''.'') rx_semver_ident)]),
       opt (seqs [chr CHR ''+'', plus (Cls [c_digit, c_upper, c_lower, c_dash]),
              Star (Seq (chr CHR ''.'') (plus (Cls [c_digit, c_upper, c_lower, c_dash])))])]"

definition currentPackageArtifactPattern :: rx where
  "currentPackageArtifactPattern = Seq (lit ''sha256-'') (rep 64 (Cls [c_digit, (CHR ''a'', CHR ''f'')]))"

definition namespacedFormGroupPattern :: rx where
  "namespacedFormGroupPattern =
     seqs [rx_label, plus (Seq (chr CHR ''.'') rx_label),
       opt (seqs [lit ''/v'', plus (Cls [c_digit]),
              opt (Seq (Alt (lit ''alpha'') (lit ''beta'')) (plus (Cls [c_digit])))])]"

definition reservedFormsTakoformNamespaces :: "bytes list" where
  "reservedFormsTakoformNamespaces = [''packages.forms.takoform.com'', ''trust.forms.takoform.com'']"

definition NamespacedFormGroup :: "bytes \<Rightarrow> bool" where
  "NamespacedFormGroup apiVersion \<longleftrightarrow>
     (let grp = cut_before CHR ''/'' apiVersion in
      if grp = ''forms.takoform.com'' then False
      else if List.member reservedFormsTakoformNamespaces grp then False
      else length apiVersion \<le> 320 \<and> rx_match namespacedFormGroupPattern apiVersion)"

section \<open>Release identifiers\<close>

record publication_locator =
  pl_apiVersion :: bytes
  pl_releaseID :: bytes
  pl_artifactID :: bytes
  pl_tag :: bytes
  pl_sourcePath :: bytes

datatype publication_error =
    IncompleteIdentity | PackageVersionRequired | PackageVersionForbidden | GroupNotNamespaced
  | UnsupportedPackageAPIVersion | TagNotCanonical
  | ReleaseIDPrefix | ReleaseIDNotLowercase | ReleaseIDUndecodable | ReleaseIDNotCanonical
  | FamilyTagWithSemVer | CentralTagAmbiguous | UnsupportedArtifactLocator | TagOfOtherLane
  | CentralTagWithFamilyID | CentralTagWithoutDigest

definition ReleaseIDForKind :: "unicode \<Rightarrow> bytes \<Rightarrow> bytes" where
  "ReleaseIDForKind U kind = ''k-'' @ go_to_lower U (base32_encode kind)"

definition ReleaseIDForGroupKind :: "unicode \<Rightarrow> bytes \<Rightarrow> bytes \<Rightarrow> bytes" where
  "ReleaseIDForGroupKind U grp kind = ReleaseIDForKind U (grp @ ''/'' @ kind)"

definition KindFromReleaseID :: "unicode \<Rightarrow> bytes \<Rightarrow> publication_error + bytes" where
  "KindFromReleaseID U releaseID =
     (if \<not> has_prefix releaseID ''k-'' then Inl ReleaseIDPrefix
      else (let encoded = trim_prefix releaseID ''k-'' in
        if encoded = [] \<or> encoded \<noteq> go_to_lower U encoded then Inl ReleaseIDNotLowercase
        else (case base32_decode (go_to_upper U encoded) of
                None \<Rightarrow> Inl ReleaseIDUndecodable
              | Some kind \<Rightarrow>
                  if kind = [] \<or> ReleaseIDForKind U kind \<noteq> releaseID then Inl ReleaseIDNotCanonical
                  else Inr kind)))"

definition FamilyReleaseID :: "unicode \<Rightarrow> bytes \<Rightarrow> (bytes \<times> bytes) option" where
  "FamilyReleaseID U releaseID =
     (case KindFromReleaseID U releaseID of Inl _ \<Rightarrow> None | Inr decoded \<Rightarrow> split_last CHR ''/'' decoded)"

definition FamilyPackageLane :: "bytes \<Rightarrow> bool" where
  "FamilyPackageLane apiVersion \<longleftrightarrow>
     apiVersion = FamilyPackageAPIVersion \<or> apiVersion = VersionlessFamilyPackageAPIVersion"

section \<open>Locators\<close>

definition PublicationLocatorFor ::
    "unicode \<Rightarrow> package_index \<Rightarrow> bytes \<Rightarrow> publication_error + publication_locator" where
  "PublicationLocatorFor U index packageDigest =
     (let ref = pi_formRef index; api = pi_apiVersion index in
      if pi_kind index \<noteq> PackageKind \<or> fr_kind ref = [] \<or> \<not> ValidDigest packageDigest
      then Inl IncompleteIdentity
      else if api = PackageAPIVersion then
        (let releaseID = ReleaseIDForKind U (fr_kind ref); version = pi_packageVersion index in
         if version = [] then Inl PackageVersionRequired
         else Inr \<lparr>pl_apiVersion = PackageAPIVersion, pl_releaseID = releaseID, pl_artifactID = version,
                  pl_tag = ''forms/'' @ releaseID @ ''/v'' @ version,
                  pl_sourcePath = path_join [''forms'', ''releases'', releaseID, version]\<rparr>)
      else if api = LegacyContentAddressedPackageAPIVersion \<or> api = CurrentPackageAPIVersion \<or>
              api = FamilyPackageAPIVersion \<or> api = VersionlessFamilyPackageAPIVersion then
        (if pi_packageVersion index \<noteq> [] then Inl PackageVersionForbidden
         else if FamilyPackageLane api \<and> \<not> NamespacedFormGroup (fr_apiVersion ref)
         then Inl GroupNotNamespaced
         else
           (let releaseID =
                  (if FamilyPackageLane api then ReleaseIDForGroupKind U (fr_apiVersion ref) (fr_kind ref)
                   else ReleaseIDForKind U (fr_kind ref));
                artifactID = replace_first CHR '':'' CHR ''-'' packageDigest in
            Inr \<lparr>pl_apiVersion = api, pl_releaseID = releaseID, pl_artifactID = artifactID,
                 pl_tag = ''forms/'' @ releaseID @ ''/'' @ artifactID,
                 pl_sourcePath = path_join [''forms'', ''releases'', releaseID, artifactID]\<rparr>))
      else Inl UnsupportedPackageAPIVersion)"

record parsed_tag =
  pt_releaseID :: bytes
  pt_decoded :: bytes
  pt_segment :: bytes

definition parsePublicationTag :: "unicode \<Rightarrow> bytes \<Rightarrow> publication_error + parsed_tag" where
  "parsePublicationTag U tag =
     (case split_on CHR ''/'' tag of
        [p0, releaseID, segment] \<Rightarrow>
          if p0 \<noteq> ''forms'' then Inl TagNotCanonical
          else bind_res (KindFromReleaseID U releaseID)
                 (\<lambda>decoded. Inr \<lparr>pt_releaseID = releaseID, pt_decoded = decoded, pt_segment = segment\<rparr>)
      | _ \<Rightarrow> Inl TagNotCanonical)"

definition publicationLocatorFromParsedTag ::
    "bytes \<Rightarrow> bytes \<Rightarrow> bytes \<Rightarrow> parsed_tag \<Rightarrow> publication_locator" where
  "publicationLocatorFromParsedTag tag api artifactID parsed =
     \<lparr>pl_apiVersion = api, pl_releaseID = pt_releaseID parsed, pl_artifactID = artifactID, pl_tag = tag,
      pl_sourcePath = path_join [''forms'', ''releases'', pt_releaseID parsed, artifactID]\<rparr>"

definition ParsePublicationTag :: "unicode \<Rightarrow> bytes \<Rightarrow> publication_error + publication_locator" where
  "ParsePublicationTag U tag =
     bind_res (parsePublicationTag U tag) (\<lambda>parsed.
       let family = contains_byte CHR ''/'' (pt_decoded parsed); segment = pt_segment parsed in
       if has_prefix segment ''v'' \<and> rx_match legacyPackageArtifactPattern (trim_prefix segment ''v'') then
         (if family then Inl FamilyTagWithSemVer
          else Inr (publicationLocatorFromParsedTag tag PackageAPIVersion (trim_prefix segment ''v'') parsed))
       else if rx_match currentPackageArtifactPattern segment then
         (if \<not> family then Inl CentralTagAmbiguous
          else
            (let grp = trim_suffix (pt_decoded parsed) (''/'' @ path_base (pt_decoded parsed));
                 api = (if contains_byte CHR ''/'' grp then FamilyPackageAPIVersion
                        else VersionlessFamilyPackageAPIVersion) in
             Inr (publicationLocatorFromParsedTag tag api segment parsed)))
       else Inl UnsupportedArtifactLocator)"

definition ParsePublicationTagForPackageAPIVersion ::
    "unicode \<Rightarrow> bytes \<Rightarrow> bytes \<Rightarrow> publication_error + publication_locator" where
  "ParsePublicationTagForPackageAPIVersion U tag api =
     (if api = PackageAPIVersion \<or> api = FamilyPackageAPIVersion \<or> api = VersionlessFamilyPackageAPIVersion
      then bind_res (ParsePublicationTag U tag)
             (\<lambda>locator. if pl_apiVersion locator \<noteq> api then Inl TagOfOtherLane else Inr locator)
      else if api = LegacyContentAddressedPackageAPIVersion \<or> api = CurrentPackageAPIVersion then
        bind_res (parsePublicationTag U tag) (\<lambda>parsed.
          if contains_byte CHR ''/'' (pt_decoded parsed) then Inl CentralTagWithFamilyID
          else if \<not> rx_match currentPackageArtifactPattern (pt_segment parsed)
          then Inl CentralTagWithoutDigest
          else Inr (publicationLocatorFromParsedTag tag api (pt_segment parsed) parsed))
      else Inl UnsupportedPackageAPIVersion)"

section \<open>Release identifiers are a canonical codec\<close>

lemma symbol_case:
  assumes "is_symbol c"
  shows "code c < 128" and "byte_upper (byte_lower c) = c"
    and "byte_lower (byte_lower c) = byte_lower c" and "byte_lower c \<noteq> CHR ''/''"
proof -
  have "code (byte_lower c) \<noteq> code (CHR ''/'')"
    using assms unfolding byte_lower_code
    by (auto simp: is_symbol_def less_eq_char_def ascii_defs code_def)
  then show "byte_lower c \<noteq> CHR ''/''" by auto
qed (use assms in \<open>auto simp: is_symbol_def less_eq_char_def byte_lower_def byte_upper_def code_def\<close>)

lemma to_upper_lower_encode: "to_upper (to_lower (base32_encode s)) = base32_encode s"
  unfolding to_upper_def to_lower_def map_map comp_def
  by (rule map_idI) (use encode_is_symbol symbol_case(2) in blast)

lemma to_lower_encode_idem: "to_lower (to_lower (base32_encode s)) = to_lower (base32_encode s)"
  unfolding to_lower_def map_map comp_def
  by (rule map_cong) (use encode_is_symbol symbol_case(3) in auto)

lemma encode_ascii: "ascii_string (base32_encode s)"
  by (auto simp: ascii_string_set intro: symbol_case(1) encode_is_symbol)

lemma lower_encode_ascii: "ascii_string (to_lower (base32_encode s))"
  using encode_ascii [of s] by (auto simp: ascii_string_set to_lower_def byte_lower_code ascii_defs)

context unicode_tables begin

lemma release_id: "ReleaseIDForKind U kind = ''k-'' @ to_lower (base32_encode kind)"
  by (simp add: ReleaseIDForKind_def map_lower_ascii encode_ascii)

lemma release_id_no_slash: "CHR ''/'' \<notin> set (ReleaseIDForKind U kind)"
  using symbol_case(4) encode_is_symbol by (fastforce simp: release_id to_lower_def)

lemma kind_from_release_id: "kind \<noteq> [] \<Longrightarrow> KindFromReleaseID U (ReleaseIDForKind U kind) = Inr kind"
proof -
  assume "kind \<noteq> []"
  then have "to_lower (base32_encode kind) \<noteq> []" by (simp add: to_lower_def)
  then show ?thesis
    using \<open>kind \<noteq> []\<close> has_prefix_append [of "''k-''"] trim_prefix_append [of "''k-''"]
    by (simp add: KindFromReleaseID_def release_id map_lower_ascii map_upper_ascii lower_encode_ascii
        to_lower_encode_idem to_upper_lower_encode base32_round_trip Let_def del: has_prefix.simps)
qed

lemma kind_from_release_id_iff:
  "KindFromReleaseID U r = Inr kind \<longleftrightarrow> kind \<noteq> [] \<and> r = ReleaseIDForKind U kind"
proof
  assume "KindFromReleaseID U r = Inr kind"
  then show "kind \<noteq> [] \<and> r = ReleaseIDForKind U kind"
    by (auto simp: KindFromReleaseID_def Let_def split: if_splits option.splits)
qed (auto simp: kind_from_release_id)

end

definition release_kind :: "unicode \<Rightarrow> bytes \<Rightarrow> bytes option" where
  "release_kind U r = (case KindFromReleaseID U r of Inl _ \<Rightarrow> None | Inr k \<Rightarrow> Some k)"

interpretation release_codec: canonical_codec "ReleaseIDForKind ascii_tables" "release_kind ascii_tables" "\<lambda>k. k \<noteq> []"
  by unfold_locales
    (auto simp: release_kind_def ascii.kind_from_release_id ascii.kind_from_release_id_iff split: sum.splits)

section \<open>Locators and tags\<close>

lemma hex_class: "in_cls [c_digit, (CHR ''a'', CHR ''f'')] c \<longleftrightarrow> is_hex_char c"
  by (auto simp: in_cls_def in_range_def c_digit_def is_hex_char_def less_eq_char_def code_def)

lemma digest_artifact:
  assumes "ValidDigest d"
  obtains h where "replace_first CHR '':'' CHR ''-'' d = ''sha256-'' @ h" and "length h = 64"
    and "list_all is_hex_char h" and "rx_match currentPackageArtifactPattern (''sha256-'' @ h)"
    and "CHR ''/'' \<notin> set (''sha256-'' @ h)" and "\<not> has_prefix (''sha256-'' @ h) ''v''"
proof -
  obtain h where h: "d = digestPrefix @ h" "length h = 64" "list_all is_hex_char h"
    using assms by (auto simp: ValidDigest_iff)
  have "h \<in> lang (rep 64 (Cls [c_digit, (CHR ''a'', CHR ''f'')]))"
    using h by (simp add: lang_rep hex_class list_all_iff)
  then have "rx_match currentPackageArtifactPattern (''sha256-'' @ h)"
    unfolding rx_match_lang currentPackageArtifactPattern_def by (rule lit_append)
  moreover have "CHR ''/'' \<notin> set (''sha256-'' @ h)"
    using h(3) hex_char_not_slash by (auto simp: list_all_iff)
  ultimately show ?thesis
    using h that by (simp add: digestPrefix_def)
qed

lemma legacy_no_slash: "rx_match legacyPackageArtifactPattern v \<Longrightarrow> CHR ''/'' \<notin> set v"
proof
  assume "rx_match legacyPackageArtifactPattern v" and "CHR ''/'' \<in> set v"
  then have "rx_chars legacyPackageArtifactPattern CHR ''/''" by (rule rx_match_chars)
  moreover have "\<not> rx_chars legacyPackageArtifactPattern CHR ''/''" by code_simp
  ultimately show False by simp
qed

lemma split_tag:
  assumes "CHR ''/'' \<notin> set rid" and "CHR ''/'' \<notin> set seg"
  shows "split_on CHR ''/'' (''forms/'' @ rid @ CHR ''/'' # seg) = [''forms'', rid, seg]"
proof -
  have "split_on CHR ''/'' (''forms'' @ CHR ''/'' # (rid @ CHR ''/'' # seg)) =
      ''forms'' # split_on CHR ''/'' (rid @ CHR ''/'' # seg)"
    by (rule split_on_append_sep) simp
  then show ?thesis
    using assms by (simp add: split_on_append_sep split_on_no_sep)
qed

lemma path_base_last:
  assumes "CHR ''/'' \<notin> set k" and "k \<noteq> []"
  shows "path_base (g @ CHR ''/'' # k) = k"
proof -
  have nk: "\<forall>c\<in>set (rev k). c \<noteq> CHR ''/''" using assms by auto
  have d: "dropWhile (\<lambda>c. c = CHR ''/'') (rev k @ CHR ''/'' # rev g) = rev k @ CHR ''/'' # rev g"
    using nk assms(2) by (cases "rev k") auto
  have "takeWhile (\<lambda>c. c \<noteq> CHR ''/'') (rev k @ CHR ''/'' # rev g) = rev k"
    using nk by (simp add: takeWhile_append)
  with d assms(2) show ?thesis by (simp add: path_base_def Let_def)
qed

lemma trim_suffix_append [simp]: "trim_suffix (g @ p) p = g"
  by (auto simp: trim_suffix_def has_suffix_iff)

context unicode_tables begin

lemma parse_tag:
  assumes "kind \<noteq> []" and "CHR ''/'' \<notin> set seg"
  shows "parsePublicationTag U (''forms/'' @ ReleaseIDForKind U kind @ CHR ''/'' # seg) =
    Inr \<lparr>pt_releaseID = ReleaseIDForKind U kind, pt_decoded = kind, pt_segment = seg\<rparr>"
  unfolding parsePublicationTag_def split_tag [OF release_id_no_slash assms(2)]
  by (simp add: kind_from_release_id assms(1))

lemma parse_semver:
  assumes "kind \<noteq> []" and "CHR ''/'' \<notin> set kind" and "rx_match legacyPackageArtifactPattern v"
  shows "ParsePublicationTag U (''forms/'' @ ReleaseIDForKind U kind @ ''/v'' @ v) =
    Inr \<lparr>pl_apiVersion = PackageAPIVersion, pl_releaseID = ReleaseIDForKind U kind, pl_artifactID = v,
      pl_tag = ''forms/'' @ ReleaseIDForKind U kind @ ''/v'' @ v,
      pl_sourcePath = path_join [''forms'', ''releases'', ReleaseIDForKind U kind, v]\<rparr>"
proof -
  have "CHR ''/'' \<notin> set (CHR ''v'' # v)" using legacy_no_slash [OF assms(3)] by simp
  note p = parse_tag [OF assms(1) this]
  have "trim_prefix (CHR ''v'' # v) ''v'' = v" using trim_prefix_append [of "''v''" v] by simp
  with p assms(2,3) show ?thesis
    by (simp add: ParsePublicationTag_def Let_def publicationLocatorFromParsedTag_def)
qed

end

text \<open>The carrier of the tag codec: what the index schemas and the kind grammar guarantee.\<close>

definition publishable :: "package_index \<Rightarrow> bool" where
  "publishable index \<longleftrightarrow>
     CHR ''/'' \<notin> set (fr_kind (pi_formRef index)) \<and>
     (pi_apiVersion index = PackageAPIVersion \<longrightarrow>
        rx_match legacyPackageArtifactPattern (pi_packageVersion index)) \<and>
     (pi_apiVersion index = FamilyPackageAPIVersion \<longrightarrow>
        CHR ''/'' \<in> set (fr_apiVersion (pi_formRef index))) \<and>
     (pi_apiVersion index = VersionlessFamilyPackageAPIVersion \<longrightarrow>
        CHR ''/'' \<notin> set (fr_apiVersion (pi_formRef index)))"

lemma lane_names:
  "PackageAPIVersion \<noteq> LegacyContentAddressedPackageAPIVersion" "PackageAPIVersion \<noteq> CurrentPackageAPIVersion"
  "PackageAPIVersion \<noteq> FamilyPackageAPIVersion" "PackageAPIVersion \<noteq> VersionlessFamilyPackageAPIVersion"
  "LegacyContentAddressedPackageAPIVersion \<noteq> CurrentPackageAPIVersion"
  "LegacyContentAddressedPackageAPIVersion \<noteq> FamilyPackageAPIVersion"
  "LegacyContentAddressedPackageAPIVersion \<noteq> VersionlessFamilyPackageAPIVersion"
  "CurrentPackageAPIVersion \<noteq> FamilyPackageAPIVersion"
  "CurrentPackageAPIVersion \<noteq> VersionlessFamilyPackageAPIVersion"
  "FamilyPackageAPIVersion \<noteq> VersionlessFamilyPackageAPIVersion"
  by (simp_all add: epoch_defs)

lemmas lane_neqs = lane_names lane_names [symmetric]

lemma locator_central:
  assumes "PublicationLocatorFor U index digest = Inr loc" and "pi_apiVersion index = PackageAPIVersion"
  shows "fr_kind (pi_formRef index) \<noteq> [] \<and>
    loc = \<lparr>pl_apiVersion = PackageAPIVersion, pl_releaseID = ReleaseIDForKind U (fr_kind (pi_formRef index)),
      pl_artifactID = pi_packageVersion index,
      pl_tag = ''forms/'' @ ReleaseIDForKind U (fr_kind (pi_formRef index)) @ ''/v'' @ pi_packageVersion index,
      pl_sourcePath = path_join [''forms'', ''releases'', ReleaseIDForKind U (fr_kind (pi_formRef index)),
        pi_packageVersion index]\<rparr>"
  using assms by (auto simp: PublicationLocatorFor_def Let_def split: if_splits)

definition release_name :: "package_index \<Rightarrow> bytes" where
  "release_name index =
     (if FamilyPackageLane (pi_apiVersion index)
      then fr_apiVersion (pi_formRef index) @ ''/'' @ fr_kind (pi_formRef index)
      else fr_kind (pi_formRef index))"

lemma locator_content:
  assumes "PublicationLocatorFor U index digest = Inr loc" and "pi_apiVersion index \<noteq> PackageAPIVersion"
  shows "ValidDigest digest \<and> fr_kind (pi_formRef index) \<noteq> [] \<and>
    (pi_apiVersion index = LegacyContentAddressedPackageAPIVersion \<or> pi_apiVersion index = CurrentPackageAPIVersion \<or>
     FamilyPackageLane (pi_apiVersion index)) \<and>
    loc = (let rid = ReleaseIDForKind U (release_name index); art = replace_first CHR '':'' CHR ''-'' digest in
      \<lparr>pl_apiVersion = pi_apiVersion index, pl_releaseID = rid, pl_artifactID = art,
      pl_tag = ''forms/'' @ rid @ ''/'' @ art, pl_sourcePath = path_join [''forms'', ''releases'', rid, art]\<rparr>)"
  using assms
  by (auto simp: PublicationLocatorFor_def Let_def release_name_def ReleaseIDForGroupKind_def
      FamilyPackageLane_def split: if_splits)

context unicode_tables begin

lemma round_trip_content:
  assumes loc: "PublicationLocatorFor U index digest = Inr loc" and pub: "publishable index"
    and api: "pi_apiVersion index \<noteq> PackageAPIVersion"
  shows "ParsePublicationTagForPackageAPIVersion U (pl_tag loc) (pl_apiVersion loc) = Inr loc"
proof -
  let ?n = "release_name index" and ?k = "fr_kind (pi_formRef index)" and ?g = "fr_apiVersion (pi_formRef index)"
  let ?api = "pi_apiVersion index"
  note shape = locator_content [OF loc api]
  obtain h where art: "replace_first CHR '':'' CHR ''-'' digest = ''sha256-'' @ h"
    and pat: "rx_match currentPackageArtifactPattern (''sha256-'' @ h)"
    and slash: "CHR ''/'' \<notin> set (''sha256-'' @ h)" and v: "\<not> has_prefix (''sha256-'' @ h) ''v''"
    using shape digest_artifact [of digest] by metis
  define seg where "seg = ''sha256-'' @ h"
  have ne: "?n \<noteq> []" using shape by (auto simp: release_name_def)
  note parsed = parse_tag [OF ne slash, folded seg_def]
  note seg = art [folded seg_def] pat [folded seg_def] v [folded seg_def]
  have kslash: "CHR ''/'' \<notin> set ?k" using pub by (simp add: publishable_def)
  show ?thesis
  proof (cases "FamilyPackageLane ?api")
    case True
    then have n: "?n = ?g @ CHR ''/'' # ?k" by (simp add: release_name_def)
    have base: "path_base ?n = ?k" unfolding n using kslash shape by (intro path_base_last) auto
    have grp: "trim_suffix ?n (CHR ''/'' # ?k) = ?g" unfolding n by simp
    have lane: "(if CHR ''/'' \<in> set ?g then FamilyPackageAPIVersion else VersionlessFamilyPackageAPIVersion) = ?api"
      using True pub by (auto simp: FamilyPackageLane_def publishable_def)
    have "CHR ''/'' \<in> set ?n" by (simp add: n)
    then have "ParsePublicationTag U (''forms/'' @ ReleaseIDForKind U ?n @ CHR ''/'' # seg) = Inr loc"
      using parsed seg shape base grp lane
      by (simp add: ParsePublicationTag_def Let_def publicationLocatorFromParsedTag_def)
    then show ?thesis
      using shape seg True
      by (auto simp: ParsePublicationTagForPackageAPIVersion_def FamilyPackageLane_def Let_def)
  next
    case False
    then have n: "?n = ?k" by (simp add: release_name_def)
    from False shape have lanes: "?api = LegacyContentAddressedPackageAPIVersion \<or> ?api = CurrentPackageAPIVersion"
      by auto
    then have "\<not> (?api = PackageAPIVersion \<or> ?api = FamilyPackageAPIVersion \<or> ?api = VersionlessFamilyPackageAPIVersion)"
      using lane_neqs by auto
    then show ?thesis
      using lanes parsed seg shape kslash n
      by (simp add: ParsePublicationTagForPackageAPIVersion_def publicationLocatorFromParsedTag_def Let_def)
  qed
qed

lemma round_trip_all:
  assumes "PublicationLocatorFor U index digest = Inr loc" and "publishable index"
  shows "ParsePublicationTagForPackageAPIVersion U (pl_tag loc) (pl_apiVersion loc) = Inr loc"
proof (cases "pi_apiVersion index = PackageAPIVersion")
  case True
  note loc = locator_central [OF assms(1) this]
  have "ParsePublicationTag U (pl_tag loc) = Inr loc"
    using parse_semver [of "fr_kind (pi_formRef index)" "pi_packageVersion index"] loc True assms(2)
    by (simp add: publishable_def)
  with loc show ?thesis by (simp add: ParsePublicationTagForPackageAPIVersion_def)
qed (use assms round_trip_content in blast)

end

text \<open>
  C23. Every locator derived for a publishable index is recovered from its own tag: parsing
  the tag under the package API version gives back exactly the derived locator, so a tag
  determines release, artifact and source path.
\<close>

theorem publication_tag_round_trip:
  assumes "unicode_tables U" and "PublicationLocatorFor U index digest = Inr loc" and "publishable index"
  shows "ParsePublicationTagForPackageAPIVersion U (pl_tag loc) (pl_apiVersion loc) = Inr loc"
  using assms by (rule unicode_tables.round_trip_all)

definition sample_digest :: bytes where
  "sample_digest = digestPrefix @ replicate 64 CHR ''0''"

lemma sample_digest_valid: "ValidDigest sample_digest"
  by (simp add: ValidDigest_iff sample_digest_def list_all_iff is_hex_char_def less_eq_char_def)

definition sample_index :: package_index where
  "sample_index =
     \<lparr>pi_apiVersion = VersionlessFamilyPackageAPIVersion, pi_kind = PackageKind, pi_packageVersion = [],
      pi_formRef = \<lparr>fr_apiVersion = ''storage.example'', fr_kind = ''Bucket'',
        fr_definitionVersion = ''1.0.0'', fr_schemaDigest = sample_digest\<rparr>,
      pi_definitionPath = ''definition.json'', pi_files = []\<rparr>"

theorem publication_tag_round_trip_witness:
  "\<exists>loc. PublicationLocatorFor ascii_tables sample_index sample_digest = Inr loc \<and>
     ParsePublicationTagForPackageAPIVersion ascii_tables (pl_tag loc) (pl_apiVersion loc) = Inr loc"
proof -
  have g: "NamespacedFormGroup ''storage.example''" by code_simp
  have "\<exists>loc. PublicationLocatorFor ascii_tables sample_index sample_digest = Inr loc"
    using lane_neqs
    by (simp add: PublicationLocatorFor_def sample_index_def sample_digest_valid g Let_def)
  moreover have "publishable sample_index"
    using lane_neqs by (simp add: publishable_def sample_index_def)
  ultimately show ?thesis
    using publication_tag_round_trip [OF ascii.unicode_tables_axioms] by blast
qed

text \<open>
  C24. The release identifier of a Form kind is a canonical codec: an identifier decodes to a
  kind exactly if it is the identifier derived from that (non-empty) kind, and it contains
  no path separator.
\<close>

theorem release_id_canonical:
  assumes "unicode_tables U"
  shows "(KindFromReleaseID U r = Inr kind) = (kind \<noteq> [] \<and> r = ReleaseIDForKind U kind) \<and>
    CHR ''/'' \<notin> set (ReleaseIDForKind U kind)"
  using unicode_tables.kind_from_release_id_iff [OF assms] unicode_tables.release_id_no_slash [OF assms]
  by blast

theorem release_id_canonical_witness:
  "KindFromReleaseID ascii_tables (ReleaseIDForKind ascii_tables ''Queue'') = Inr ''Queue'' \<and>
   KindFromReleaseID ascii_tables ''k-KF2WK5LF'' \<noteq> Inr ''Queue''"
proof -
  have "base32_encode ''Queue'' = ''KF2WK5LF''" by code_simp
  then have "ReleaseIDForKind ascii_tables ''Queue'' = ''k-'' @ to_lower ''KF2WK5LF''"
    by (simp add: ascii.release_id)
  moreover have "to_lower ''KF2WK5LF'' = ''kf2wk5lf''" by code_simp
  ultimately have "ReleaseIDForKind ascii_tables ''Queue'' = ''k-kf2wk5lf''" by simp
  then show ?thesis
    using release_id_canonical [OF ascii.unicode_tables_axioms, of "ReleaseIDForKind ascii_tables ''Queue''" "''Queue''"]
      release_id_canonical [OF ascii.unicode_tables_axioms, of "''k-KF2WK5LF''" "''Queue''"]
    by simp
qed

text \<open>
  A family release identifier splits at the last separator into exactly the group and
  the kind it was derived from, whatever separators the group contains; the identifier of a
  central kind is not a family identifier.
\<close>

theorem family_release_id_split:
  assumes "unicode_tables U" and "CHR ''/'' \<notin> set kind"
  shows "FamilyReleaseID U (ReleaseIDForGroupKind U grp kind) = Some (grp, kind) \<and>
    FamilyReleaseID U (ReleaseIDForKind U kind) = None"
proof -
  have "KindFromReleaseID U (ReleaseIDForGroupKind U grp kind) = Inr (grp @ ''/'' @ kind)"
    unfolding ReleaseIDForGroupKind_def by (simp add: unicode_tables.kind_from_release_id [OF assms(1)])
  moreover have "kind \<noteq> [] \<Longrightarrow> KindFromReleaseID U (ReleaseIDForKind U kind) = Inr kind"
    by (rule unicode_tables.kind_from_release_id [OF assms(1)])
  moreover have "KindFromReleaseID U (ReleaseIDForKind U []) = Inl ReleaseIDNotLowercase"
    by (simp add: unicode_tables.release_id [OF assms(1)] KindFromReleaseID_def trim_prefix_def to_lower_def
        base32_encode_def)
  ultimately show ?thesis
    using assms(2) by (cases "kind = []") (auto simp: FamilyReleaseID_def split_last_append split_last_None)
qed

theorem family_release_id_split_witness:
  "FamilyReleaseID ascii_tables (ReleaseIDForGroupKind ascii_tables ''storage.example/v1beta1'' ''Bucket'') =
     Some (''storage.example/v1beta1'', ''Bucket'')"
  using family_release_id_split [OF ascii.unicode_tables_axioms, of "''Bucket''" "''storage.example/v1beta1''"]
  by simp

end
