(* ===== verification/SchemaLibrary.thy ===== *)
theory SchemaLibrary
  imports JsonDecode PublicationIdentity
begin

text \<open>
  How \<^verbatim>\<open>formpackage/schema.go\<close> checks a document: the canonicalizer and the JSON Schema
  library of other packages are the parameters in \<open>libs\<close>, a schema of the embedded closure
  is named by its place in \<^verbatim>\<open>compiledSchemas\<close>. \<open>validateDocument\<close> and the FormRef
  validation are the code's own.
\<close>

datatype schema_id =
    legacyFormRef | currentFormRef | retainedFamilyFormRef | betaFamilyFormRef
  | betaTwoFamilyFormRef | stableFamilyFormRef
  | legacyDefinition | currentDefinition | retainedFamilyDefinition | betaFamilyDefinition
  | betaTwoFamilyDefinition | stableFamilyDefinition
  | indexV1Alpha1 | indexV1Alpha2 | indexV1Alpha3 | indexV1Alpha4 | indexV1Alpha5
  | revocation | revocationV1 | revocationCheckpoint | revocationCheckpointV1
  | interfaceDefinition | bindingDefinition

record libs =
  lib_transform :: "bytes \<Rightarrow> bytes option"
  lib_schemas :: bool
  lib_schema_ok :: "schema_id \<Rightarrow> gval \<Rightarrow> bool"
  lib_unicode :: unicode

datatype document_error =
    SchemasNotLoaded | DocCanonical canonical_error | DocNotJSON | DocSchema | DocDecode

definition envelope_api :: "bytes \<Rightarrow> bytes option" where
  "envelope_api raw =
     Unmarshal raw (dec_struct False [(''apiVersion'', dec_str)]) []"

definition validateDocumentWithValue ::
  "libs \<Rightarrow> bytes \<Rightarrow> schema_id \<Rightarrow> 'r decoder \<Rightarrow> 'r \<Rightarrow> document_error + 'r \<times> gval" where
  "validateDocumentWithValue L raw schema d zero =
     (case Canonicalize (lib_transform L) raw of
        Inl e \<Rightarrow> Inl (DocCanonical e)
      | Inr _ \<Rightarrow>
          (case Unmarshal raw (dec_any True) VNull of
             None \<Rightarrow> Inl DocNotJSON
           | Some v \<Rightarrow>
               if \<not> lib_schema_ok L schema v then Inl DocSchema
               else (case Unmarshal raw d zero of
                       None \<Rightarrow> Inl DocDecode
                     | Some r \<Rightarrow> Inr (r, v))))"

definition validateDocument ::
  "libs \<Rightarrow> bytes \<Rightarrow> schema_id \<Rightarrow> 'r decoder \<Rightarrow> 'r \<Rightarrow> document_error + 'r" where
  "validateDocument L raw schema d zero =
     bind_res (validateDocumentWithValue L raw schema d zero) (\<lambda>(r, _). Inr r)"

text \<open>What an accepted document is: the strict parser's value, admitted by the schema.\<close>

lemma strict_any: "parseDocument raw = Inr v \<Longrightarrow> dec_any True v old = Some v"
  using parsed_wire [of raw v] by (simp add: dec_any_def any_value_number)

lemma validateDocumentWithValue_Inr:
  "validateDocumentWithValue L raw schema d zero = Inr (r, v) \<longleftrightarrow>
     valid_utf8 raw \<and> lib_transform L raw \<noteq> None \<and> parseDocument raw = Inr v \<and>
     lib_schema_ok L schema v \<and> d v zero = Some r"
proof (cases rule: canonical_cases [of "lib_transform L" raw])
  case (refused e)
  then show ?thesis by (auto simp: validateDocumentWithValue_def)
next
  case (accepted c w)
  then show ?thesis
    by (auto simp: validateDocumentWithValue_def strict_any Unmarshal_strict split: option.splits)
qed

lemma validateDocument_Inr:
  "validateDocument L raw schema d zero = Inr r \<longleftrightarrow>
     (\<exists>v. valid_utf8 raw \<and> lib_transform L raw \<noteq> None \<and> parseDocument raw = Inr v \<and>
        lib_schema_ok L schema v \<and> d v zero = Some r)"
  by (auto simp: validateDocument_def err_simps validateDocumentWithValue_Inr)

section \<open>FormRefs\<close>

datatype family_profile = currentNeutralFamilyProfile | retainedBetaFamilyProfile

definition familyProfileForPackage :: "bytes \<Rightarrow> family_profile" where
  "familyProfileForPackage packageAPIVersion =
     (if packageAPIVersion = FamilyPackageAPIVersion then retainedBetaFamilyProfile
      else currentNeutralFamilyProfile)"

datatype form_ref_error =
    RefSchemasNotLoaded | RefNotJSON | RefVersionedGroup | RefUnsupported bytes
  | RefDocument document_error

definition form_ref_schema :: "bytes \<Rightarrow> family_profile \<Rightarrow> form_ref_error + schema_id" where
  "form_ref_schema apiVersion familyProfile =
     (if apiVersion = LegacyFormAPIVersion then Inr legacyFormRef
      else if apiVersion = CurrentFormAPIVersion then Inr currentFormRef
      else if NamespacedFormGroup apiVersion then
        (case familyProfile of
           retainedBetaFamilyProfile \<Rightarrow> Inr betaFamilyFormRef
         | currentNeutralFamilyProfile \<Rightarrow>
             if contains_byte CHR ''/'' apiVersion then Inl RefVersionedGroup
             else Inr betaTwoFamilyFormRef)
      else Inl (RefUnsupported apiVersion))"

definition validateFormRefWithFamilyProfile ::
  "libs \<Rightarrow> bytes \<Rightarrow> family_profile \<Rightarrow> form_ref_error + form_ref" where
  "validateFormRefWithFamilyProfile L raw familyProfile =
     (if \<not> lib_schemas L then Inl RefSchemasNotLoaded
      else (case envelope_api raw of
              None \<Rightarrow> Inl RefNotJSON
            | Some apiVersion \<Rightarrow>
                bind_res (form_ref_schema apiVersion familyProfile) (\<lambda>schema.
                  case validateDocument L raw schema (dec_form_ref False) empty_form_ref of
                    Inl e \<Rightarrow> Inl (RefDocument e)
                  | Inr ref \<Rightarrow> Inr ref)))"

definition ValidateFormRef :: "libs \<Rightarrow> bytes \<Rightarrow> form_ref_error + form_ref" where
  "ValidateFormRef L raw = validateFormRefWithFamilyProfile L raw currentNeutralFamilyProfile"

end
