(* ===== verification/HostTypes.thy ===== *)
theory HostTypes
  imports HostErrors SchemaLibrary
begin

text \<open>
  The resource envelope of \<^verbatim>\<open>hostclient/types.go\<close>: its structs and their decoding, the grammars
  of FormRef groups, names, Space identities and generation counters, the checks on the raw
  wire shape, the RFC 3339 grammar, and the verification of a host's response against what was
  asked for.
\<close>

section \<open>Structs\<close>

record form_reference =
  fe_formRef :: form_ref
  fe_packageDigest :: bytes

record metadata =
  md_name :: bytes
  md_space :: bytes
  md_uid :: bytes
  md_generation :: bytes
  md_revision :: bytes

record condition =
  cd_type :: bytes
  cd_status :: bytes
  cd_reason :: bytes
  cd_hostReason :: bytes
  cd_message :: bytes
  cd_lastTransitionTime :: bytes

record resource_status =
  st_observedGeneration :: bytes
  st_conditions :: "condition list option"
  st_outputs :: "object option"

record resource =
  rs_apiVersion :: bytes
  rs_kind :: bytes
  rs_form :: "form_reference option"
  rs_metadata :: metadata
  rs_spec :: "object option"
  rs_status :: "resource_status option"

record fence =
  fn_expectedUID :: bytes
  fn_expectedGeneration :: bytes

record finding =
  vd_severity :: bytes
  vd_field :: bytes
  vd_message :: bytes

record validate_result =
  vr_valid :: bool
  vr_diagnostics :: "finding list option"

record prepare_review =
  pr_prepareDigest :: bytes
  pr_specDigest :: bytes

record prepare_result =
  pp_resource :: resource
  pp_review :: prepare_review

definition empty_reference :: form_reference where
  "empty_reference = \<lparr>fe_formRef = empty_form_ref, fe_packageDigest = []\<rparr>"

definition empty_metadata :: metadata where
  "empty_metadata = \<lparr>md_name = [], md_space = [], md_uid = [], md_generation = [], md_revision = []\<rparr>"

definition empty_condition :: condition where
  "empty_condition = \<lparr>cd_type = [], cd_status = [], cd_reason = [], cd_hostReason = [], cd_message = [],
     cd_lastTransitionTime = []\<rparr>"

definition empty_status :: resource_status where
  "empty_status = \<lparr>st_observedGeneration = [], st_conditions = None, st_outputs = None\<rparr>"

definition empty_resource :: resource where
  "empty_resource = \<lparr>rs_apiVersion = [], rs_kind = [], rs_form = None, rs_metadata = empty_metadata,
     rs_spec = None, rs_status = None\<rparr>"

definition empty_finding :: finding where
  "empty_finding = \<lparr>vd_severity = [], vd_field = [], vd_message = []\<rparr>"

section \<open>Decoding\<close>

definition reference_fields :: "form_reference struct_fields" where
  "reference_fields =
     [(''formRef'', member (dec_form_ref True) fe_formRef fe_formRef_update),
      (''packageDigest'', member dec_str fe_packageDigest fe_packageDigest_update)]"

definition metadata_fields :: "metadata struct_fields" where
  "metadata_fields =
     [(''name'', member dec_str md_name md_name_update),
      (''space'', member dec_str md_space md_space_update),
      (''uid'', member dec_str md_uid md_uid_update),
      (''generation'', member dec_str md_generation md_generation_update),
      (''revision'', member dec_str md_revision md_revision_update)]"

definition condition_fields :: "condition struct_fields" where
  "condition_fields =
     [(''type'', member dec_str cd_type cd_type_update),
      (''status'', member dec_str cd_status cd_status_update),
      (''reason'', member dec_str cd_reason cd_reason_update),
      (''hostReason'', member dec_str cd_hostReason cd_hostReason_update),
      (''message'', member dec_str cd_message cd_message_update),
      (''lastTransitionTime'', member dec_str cd_lastTransitionTime cd_lastTransitionTime_update)]"

definition status_fields :: "resource_status struct_fields" where
  "status_fields =
     [(''observedGeneration'', member dec_str st_observedGeneration st_observedGeneration_update),
      (''conditions'', member (dec_nil_slice (dec_struct True condition_fields) empty_condition)
         st_conditions st_conditions_update),
      (''outputs'', member (dec_map True) st_outputs st_outputs_update)]"

definition resource_fields :: "resource struct_fields" where
  "resource_fields =
     [(''apiVersion'', member dec_str rs_apiVersion rs_apiVersion_update),
      (''kind'', member dec_str rs_kind rs_kind_update),
      (''form'', member (dec_pointer (dec_struct True reference_fields) empty_reference)
         rs_form rs_form_update),
      (''metadata'', member (dec_struct True metadata_fields) rs_metadata rs_metadata_update),
      (''spec'', member (dec_map True) rs_spec rs_spec_update),
      (''status'', member (dec_pointer (dec_struct True status_fields) empty_status)
         rs_status rs_status_update)]"

definition dec_resource :: "resource decoder" where
  "dec_resource = dec_struct True resource_fields"

definition dec_resource_envelope :: "resource decoder" where
  "dec_resource_envelope = dec_struct True [(''resource'', dec_resource)]"

definition finding_fields :: "finding struct_fields" where
  "finding_fields =
     [(''severity'', member dec_str vd_severity vd_severity_update),
      (''field'', member dec_str vd_field vd_field_update),
      (''message'', member dec_str vd_message vd_message_update)]"

definition validate_fields :: "validate_result struct_fields" where
  "validate_fields =
     [(''valid'', member dec_bool vr_valid vr_valid_update),
      (''diagnostics'', member (dec_nil_slice (dec_struct True finding_fields) empty_finding)
         vr_diagnostics vr_diagnostics_update)]"

definition review_fields :: "prepare_review struct_fields" where
  "review_fields =
     [(''prepareDigest'', member dec_str pr_prepareDigest pr_prepareDigest_update),
      (''specDigest'', member dec_str pr_specDigest pr_specDigest_update)]"

definition prepare_fields :: "prepare_result struct_fields" where
  "prepare_fields =
     [(''resource'', member dec_resource pp_resource pp_resource_update),
      (''review'', member (dec_struct True review_fields) pp_review pp_review_update)]"

definition empty_prepare :: prepare_result where
  "empty_prepare = \<lparr>pp_resource = empty_resource,
     pp_review = \<lparr>pr_prepareDigest = [], pr_specDigest = []\<rparr>\<rparr>"

section \<open>Patterns and matrices\<close>

definition resourceNamePattern :: rx where
  "resourceNamePattern =
     Seq (Cls [c_lower])
       (opt (Seq (upto_rep 61 (Cls [c_lower, c_digit, c_dash])) (Cls [c_lower, c_digit])))"

definition uidPattern :: rx where
  "uidPattern =
     Seq (Cls [c_upper, c_lower, c_digit])
       (upto_rep 127 (Cls [c_upper, c_lower, c_digit, c_dot, c_under, c_dash]))"

definition conditionTypes :: "bytes list" where
  "conditionTypes = [''Ready'', ''Reconciling'', ''Degraded'', ''Drifted'', ''Blocked'', ''Deleting'']"

definition conditionStatuses :: "bytes list" where
  "conditionStatuses = [''True'', ''False'', ''Unknown'']"

definition conditionReasons :: "(bytes \<times> bytes list) list" where
  "conditionReasons =
     [(''Ready'', [''Available'', ''Provisioning'', ''ExternalChange'', ''DependencyMissing'',
         ''UnsupportedCapability'']),
      (''Reconciling'', [''Provisioning'']),
      (''Degraded'', [''ExternalChange'', ''DependencyMissing'']),
      (''Drifted'', [''ExternalChange'']),
      (''Blocked'', [''UnsupportedCapability'', ''DependencyMissing'']),
      (''Deleting'', [''Provisioning''])]"

section \<open>Identity grammars\<close>

datatype identity_error =
    GroupNotVersionless | FormRefRejected form_ref_error | BadResourceName
  | SpaceNotUTF8 | SpaceLength | SpaceBoundary | SpaceSlash | SpaceControl
  | NoExactFormRef | BadPackageDigest | ResourceIdentityMismatch
  | NameInvalid identity_error | SpaceInvalid identity_error

text \<open>The exact reference of the stable lane: \<^verbatim>\<open>hostclient.ValidateFormRef\<close>.\<close>

definition containsSlash :: "bytes \<Rightarrow> bool" where
  "containsSlash s \<longleftrightarrow> list_ex (\<lambda>r. r = 47) (runes s)"

definition ValidateStableFormRef :: "libs \<Rightarrow> form_ref \<Rightarrow> identity_error option" where
  "ValidateStableFormRef L ref =
     (if rune_count (fr_apiVersion ref) > 253 \<or> \<not> NamespacedFormGroup (fr_apiVersion ref) \<or>
         containsSlash (fr_apiVersion ref)
      then Some GroupNotVersionless
      else (case ValidateFormRef L (json_encode (enc_form_ref ref)) of
              Inl e \<Rightarrow> Some (FormRefRejected e)
            | Inr _ \<Rightarrow> None))"

definition ValidateResourceName :: "bytes \<Rightarrow> identity_error option" where
  "ValidateResourceName s = guard_err (rx_match resourceNamePattern s) BadResourceName"

definition spaceIDMaxLength :: nat where "spaceIDMaxLength = 255"

definition isSpaceIDBoundaryWhitespace :: "nat \<Rightarrow> bool" where
  "isSpaceIDBoundaryWhitespace r \<longleftrightarrow>
     (9 \<le> r \<and> r \<le> 13) \<or> r = 32 \<or> r = 133 \<or> r = 160 \<or> r = 5760 \<or> (8192 \<le> r \<and> r \<le> 8202) \<or>
     r = 8232 \<or> r = 8233 \<or> r = 8239 \<or> r = 8287 \<or> r = 12288 \<or> r = 65279"

definition isSpaceIDControl :: "nat \<Rightarrow> bool" where
  "isSpaceIDControl r \<longleftrightarrow> r \<le> 31 \<or> (127 \<le> r \<and> r \<le> 159)"

definition space_rune :: "nat \<Rightarrow> identity_error option" where
  "space_rune r =
     (if r = 47 then Some SpaceSlash else if isSpaceIDControl r then Some SpaceControl else None)"

definition ValidateSpaceID :: "bytes \<Rightarrow> identity_error option" where
  "ValidateSpaceID s =
     (if \<not> valid_utf8 s then Some SpaceNotUTF8
      else if rune_count s < 1 \<or> rune_count s > spaceIDMaxLength then Some SpaceLength
      else if isSpaceIDBoundaryWhitespace (hd (runes s)) \<or> isSpaceIDBoundaryWhitespace (last (runes s))
      then Some SpaceBoundary
      else first_err (map space_rune (runes s)))"

definition validCanonicalDecimal :: "bytes \<Rightarrow> bool" where
  "validCanonicalDecimal s \<longleftrightarrow>
     (if s = [] \<or> hd s = CHR ''0'' then False
      else if \<not> list_all (\<lambda>r. 48 \<le> r \<and> r \<le> 57) (runes s) then False
      else (case parse_int64 s of None \<Rightarrow> False | Some parsed \<Rightarrow> parsed > 0))"

definition sameFormRef :: "form_ref \<Rightarrow> form_ref \<Rightarrow> bool" where
  "sameFormRef a b \<longleftrightarrow>
     fr_apiVersion a = fr_apiVersion b \<and> fr_kind a = fr_kind b \<and>
     fr_definitionVersion a = fr_definitionVersion b \<and> fr_schemaDigest a = fr_schemaDigest b"

definition validateRequestResource :: "libs \<Rightarrow> resource option \<Rightarrow> identity_error option" where
  "validateRequestResource L given =
     (case given of
        None \<Rightarrow> Some NoExactFormRef
      | Some r \<Rightarrow>
          (case rs_form r of
             None \<Rightarrow> Some NoExactFormRef
           | Some form \<Rightarrow>
               first_err
                 [ValidateStableFormRef L (fe_formRef form),
                  guard_err (fe_packageDigest form = [] \<or> ValidDigest (fe_packageDigest form)) BadPackageDigest,
                  guard_err (rs_apiVersion r = fr_apiVersion (fe_formRef form) \<and>
                    rs_kind r = fr_kind (fe_formRef form)) ResourceIdentityMismatch,
                  map_option NameInvalid (ValidateResourceName (md_name (rs_metadata r))),
                  map_option SpaceInvalid (ValidateSpaceID (md_space (rs_metadata r)))]))"

lemma sameFormRef_eq: "sameFormRef a b \<longleftrightarrow> a = b"
  by (cases a; cases b) (auto simp: sameFormRef_def)

end
