(* ===== verification/HostWire.thy ===== *)
theory HostWire
  imports HostTypes
begin

text \<open>
  How \<^verbatim>\<open>hostclient/types.go\<close> checks what a host answers: the raw pass over the closed JSON
  shape, then \<open>verifyResourceResponse\<close> on the decoded resource, with the RFC 3339 grammar and
  the condition matrix. An accepted resource satisfies \<open>verified_resource\<close>.
\<close>

section \<open>Wire shape\<close>

definition try_wire :: "'e + 'a \<Rightarrow> ('a \<Rightarrow> 'e option) \<Rightarrow> 'e option" where
  "try_wire r f = (case r of Inl e \<Rightarrow> Some e | Inr a \<Rightarrow> f a)"

lemma try_wire_None [err_simps]: "try_wire r f = None \<longleftrightarrow> (\<exists>a. r = Inr a \<and> f a = None)"
  by (cases r) (auto simp: try_wire_def)

definition wireShapeName :: "bool \<Rightarrow> bytes" where
  "wireShapeName response = (if response then ''response'' else ''request'')"

definition raw_digest :: "bytes \<Rightarrow> bytes \<Rightarrow> wire_error option" where
  "raw_digest label raw =
     (case rawStringValue raw of
        Inl _ \<Rightarrow> Some (BadWireDigest label)
      | Inr digest \<Rightarrow> guard_err (ValidDigest digest) (BadWireDigest label))"

text \<open>An optional member \<open>k\<close> is looked at only where it is present.\<close>

definition when_present :: "raw_map \<Rightarrow> bytes \<Rightarrow> (bytes \<Rightarrow> wire_error option) \<Rightarrow> wire_error option" where
  "when_present m k f = (case map_of m k of None \<Rightarrow> None | Some raw \<Rightarrow> f raw)"

definition index_label :: "nat \<Rightarrow> bytes" where
  "index_label i = ''resource response status.conditions['' @ decimal i @ '']''"

definition condition_text :: "nat \<Rightarrow> raw_map \<Rightarrow> bytes \<Rightarrow> wire_error option" where
  "condition_text i m k =
     when_present m k (\<lambda>raw.
       case rawStringValue raw of
         Inl e \<Rightarrow> Some (WireAt (index_label i @ ''.'' @ k @ '' must be a string'') e)
       | Inr text \<Rightarrow>
           let maxLength = (if k = ''hostReason'' then 256 else 4096) in
           if k = ''hostReason'' \<and> text = [] then Some (EmptyHostReason i)
           else guard_err (rune_count text \<le> maxLength) (TextTooLong i k maxLength))"

definition condition_required :: "bytes list" where
  "condition_required = [''type'', ''status'', ''reason'', ''lastTransitionTime'']"

definition validate_condition :: "nat \<Rightarrow> bytes \<Rightarrow> wire_error option" where
  "validate_condition i raw =
     try_wire (rawObject raw (index_label i)) (\<lambda>m.
       first_err
         (in_context (index_label i)
            (resourceObjectKeys m condition_required
               [''type'', ''status'', ''reason'', ''hostReason'', ''message'', ''lastTransitionTime''])
          # map (\<lambda>k. in_context (index_label i @ ''.'' @ k) (requireRawString m k)) condition_required
          @ map (condition_text i m) [''hostReason'', ''message'']))"

fun validate_conditions :: "nat \<Rightarrow> bytes list \<Rightarrow> wire_error option" where
  "validate_conditions i [] = None"
| "validate_conditions i (raw # raws) =
     (case validate_condition i raw of
        Some e \<Rightarrow> Some e
      | None \<Rightarrow> validate_conditions (Suc i) raws)"

definition validateResourceStatusObject :: "bytes \<Rightarrow> wire_error option" where
  "validateResourceStatusObject raw =
     try_wire (rawObject raw ''resource response status'') (\<lambda>m.
       first_err
         [in_context ''resource response status''
            (resourceObjectKeys m [''observedGeneration'', ''conditions'']
               [''observedGeneration'', ''conditions'', ''outputs'']),
          in_context ''resource response status.observedGeneration''
            (requireRawString m ''observedGeneration''),
          try_wire (rawArray (raw_at m ''conditions'') ''resource response status.conditions'')
            (\<lambda>conditions.
               if length conditions > 16 then Some TooManyConditions
               else validate_conditions 0 conditions),
          when_present m ''outputs'' (\<lambda>outputs.
            try_wire (rawObject outputs ''resource response status.outputs'') (\<lambda>_. None))])"

definition resource_label :: "bool \<Rightarrow> bytes \<Rightarrow> bytes" where
  "resource_label response what = ''resource '' @ wireShapeName response @ what"

definition validate_form_object :: "bool \<Rightarrow> bytes \<Rightarrow> wire_error option" where
  "validate_form_object response raw =
     try_wire (rawObject raw (resource_label response '' form'')) (\<lambda>form.
       first_err
         [in_context (resource_label response '' form'')
            (resourceObjectKeys form [''formRef''] [''formRef'', ''packageDigest'']),
          try_wire (rawObject (raw_at form ''formRef'') (resource_label response '' form.formRef''))
            (\<lambda>_. None),
          when_present form ''packageDigest''
            (raw_digest (resource_label response '' form.packageDigest''))])"

definition validate_metadata_object :: "bool \<Rightarrow> bytes \<Rightarrow> wire_error option" where
  "validate_metadata_object response raw =
     try_wire (rawObject raw (resource_label response '' metadata'')) (\<lambda>m.
       let hostOwned = [''uid'', ''generation'', ''revision''];
           required = [''name'', ''space''] @ (if response then hostOwned else []) in
       first_err
         (in_context (resource_label response '' metadata'')
            (resourceObjectKeys m required ([''name'', ''space''] @ hostOwned))
          # map (\<lambda>k. in_context (resource_label response '' metadata.'' @ k) (requireRawString m k)) required
          @ map (\<lambda>k. when_present m k (\<lambda>raw.
                case rawStringValue raw of
                  Inl e \<Rightarrow> Some (WireAt (resource_label response '' metadata.'' @ k) e)
                | Inr _ \<Rightarrow> None))
              (filter (\<lambda>k. \<not> List.member required k) hostOwned)))"

definition validateResourceObject :: "raw_map \<Rightarrow> bool \<Rightarrow> wire_error option" where
  "validateResourceObject m response =
     (let members = [''apiVersion'', ''kind'', ''form'', ''metadata'', ''spec''] @
            (if response then [''status''] else []) in
      first_err
        [in_context (resource_label response []) (resourceObjectKeys m members members),
         in_context (resource_label response '' apiVersion'') (requireRawString m ''apiVersion''),
         in_context (resource_label response '' kind'') (requireRawString m ''kind''),
         validate_form_object response (raw_at m ''form''),
         validate_metadata_object response (raw_at m ''metadata''),
         try_wire (rawObject (raw_at m ''spec'') (resource_label response '' spec'')) (\<lambda>_. None),
         (if \<not> response then None else validateResourceStatusObject (raw_at m ''status''))])"

definition validateResourceResponseObject :: "raw_map \<Rightarrow> wire_error option" where
  "validateResourceResponseObject m = validateResourceObject m True"

definition validateResourceRequestObject :: "raw_map \<Rightarrow> wire_error option" where
  "validateResourceRequestObject m = validateResourceObject m False"

definition read_root :: "(bytes \<Rightarrow> bytes option) \<Rightarrow> bytes \<Rightarrow> (raw_map \<Rightarrow> wire_error option) \<Rightarrow> wire_error option" where
  "read_root transform data f =
     (case decode_root transform data of Inl e \<Rightarrow> Some (WireDecode e) | Inr m \<Rightarrow> f m)"

definition validateResourceResponseWire :: "(bytes \<Rightarrow> bytes option) \<Rightarrow> bytes \<Rightarrow> bool \<Rightarrow> wire_error option" where
  "validateResourceResponseWire transform data wrapped =
     read_root transform data (\<lambda>m.
       if wrapped then
         (case resourceObjectKeys m [''resource''] [''resource''] of
            Some e \<Rightarrow> Some (WireAt ''resource response envelope'' e)
          | None \<Rightarrow>
              try_wire (rawObject (raw_at m ''resource'') ''resource response envelope resource'')
                validateResourceResponseObject)
       else validateResourceResponseObject m)"

definition validatePrepareResponseWire :: "(bytes \<Rightarrow> bytes option) \<Rightarrow> bytes \<Rightarrow> wire_error option" where
  "validatePrepareResponseWire transform data =
     read_root transform data (\<lambda>m.
       first_err
         [in_context ''prepare response'' (resourceObjectKeys m [''resource'', ''review''] [''resource'', ''review'']),
          try_wire (rawObject (raw_at m ''resource'') ''prepare response resource'')
            validateResourceRequestObject,
          try_wire (rawObject (raw_at m ''review'') ''prepare response review'') (\<lambda>review.
            first_err
              (in_context ''prepare response review''
                 (resourceObjectKeys review [''prepareDigest'', ''specDigest''] [''prepareDigest'', ''specDigest''])
               # map (\<lambda>k. raw_digest (''prepare response review.'' @ k) (raw_at review k))
                   [''prepareDigest'', ''specDigest'']))])"

section \<open>RFC 3339 times\<close>

definition days_in :: "nat \<Rightarrow> nat \<Rightarrow> nat" where
  "days_in year month =
     (if month = 2 then (if year mod 4 = 0 \<and> (year mod 100 \<noteq> 0 \<or> year mod 400 = 0) then 29 else 28)
      else if month \<in> {4, 6, 9, 11} then 30 else 31)"

text \<open>\<^verbatim>\<open>time.Parse\<close> with the layout \<^verbatim>\<open>2006-01-02\<close> on ten bytes.\<close>

definition valid_date :: "bytes \<Rightarrow> bool" where
  "valid_date s \<longleftrightarrow>
     length s = 10 \<and> s ! 4 = CHR ''-'' \<and> s ! 7 = CHR ''-'' \<and>
     list_all is_digit (take 4 s) \<and> list_all is_digit (take 2 (drop 5 s)) \<and>
     list_all is_digit (drop 8 s) \<and>
     (let year = digits_value (take 4 s); month = digits_value (take 2 (drop 5 s));
          day = digits_value (drop 8 s) in
      1 \<le> month \<and> month \<le> 12 \<and> 1 \<le> day \<and> day \<le> days_in year month)"

definition parseTwoDigits :: "bytes \<Rightarrow> nat option" where
  "parseTwoDigits s =
     (if length s \<noteq> 2 \<or> \<not> is_digit (s ! 0) \<or> \<not> is_digit (s ! 1) then None
      else Some (digit_value (s ! 0) * 10 + digit_value (s ! 1)))"

text \<open>What follows the seconds: an optional fraction is skipped; \<open>None\<close> is a point without digits.\<close>

definition after_fraction :: "bytes \<Rightarrow> bytes option" where
  "after_fraction s =
     (if has_prefix s ''.'' then
        (let fraction = tl s in
         if takeWhile is_digit fraction = [] then None else Some (dropWhile is_digit fraction))
      else Some s)"

text \<open>The two loops that bring a minute count back into the day.\<close>

definition wrap_day :: "int \<Rightarrow> int" where
  "wrap_day m = m mod (24 * 60)"

definition leap_ok :: "nat \<Rightarrow> nat \<Rightarrow> nat \<Rightarrow> bool" where
  "leap_ok hour minute second \<longleftrightarrow> second < 60 \<or> (hour = 23 \<and> minute = 59)"

definition valid_offset :: "nat \<Rightarrow> nat \<Rightarrow> nat \<Rightarrow> bytes \<Rightarrow> bool" where
  "valid_offset hour minute second s \<longleftrightarrow>
     (if s = ''Z'' \<or> s = ''z'' then leap_ok hour minute second
      else if length s \<noteq> 6 \<or> (s ! 0 \<noteq> CHR ''+'' \<and> s ! 0 \<noteq> CHR ''-'') \<or> s ! 3 \<noteq> CHR '':'' then False
      else (case (parseTwoDigits (take 2 (drop 1 s)), parseTwoDigits (drop 4 s)) of
              (Some offsetHour, Some offsetMinute) \<Rightarrow>
                if offsetHour > 23 \<or> offsetMinute > 59 then False
                else (let offset = int (offsetHour * 60 + offsetMinute);
                          total = wrap_day (int (hour * 60 + minute) +
                                    (if s ! 0 = CHR ''+'' then - offset else offset)) in
                      leap_ok (nat (total div 60)) (nat (total mod 60)) second)
            | _ \<Rightarrow> False))"

definition validDateTime :: "bytes \<Rightarrow> bool" where
  "validDateTime s \<longleftrightarrow>
     (if length s < 20 \<or> (s ! 10 \<noteq> CHR ''T'' \<and> s ! 10 \<noteq> CHR ''t'') then False
      else if \<not> valid_date (take 10 s) then False
      else (let timePart = drop 11 s in
        if timePart ! 2 \<noteq> CHR '':'' \<or> timePart ! 5 \<noteq> CHR '':'' then False
        else (case (parseTwoDigits (take 2 timePart), parseTwoDigits (take 2 (drop 3 timePart)),
                    parseTwoDigits (take 2 (drop 6 timePart))) of
                (Some hour, Some minute, Some second) \<Rightarrow>
                  if hour > 23 \<or> minute > 59 \<or> second > 60 then False
                  else (case after_fraction (drop 8 timePart) of
                          None \<Rightarrow> False
                        | Some remainder \<Rightarrow> valid_offset hour minute second remainder)
              | _ \<Rightarrow> False)))"

section \<open>Verification of a response\<close>

datatype response_error =
    ChangedFormRef | BadResponseDigest | ChangedIdentity | ChangedNameOrSpace
  | ResponseName identity_error | ResponseSpace identity_error
  | NoUID | NoGeneration | NoRevision | NoSpec | NoStatus | NoObservedGeneration | NoConditions
  | ManyConditions | UnknownConditionType bytes | DuplicateConditionType bytes
  | UnknownConditionStatus bytes | NoReasonMatrix bytes | ReasonNotAllowed bytes bytes
  | HostReasonTooLong | MessageTooLong | NotDateTime | NoReady

definition check_condition :: "bytes list \<Rightarrow> condition \<Rightarrow> response_error option" where
  "check_condition seen c =
     (if \<not> List.member conditionTypes (cd_type c) then Some (UnknownConditionType (cd_type c))
      else if List.member seen (cd_type c) then Some (DuplicateConditionType (cd_type c))
      else if \<not> List.member conditionStatuses (cd_status c) then Some (UnknownConditionStatus (cd_status c))
      else (case map_of conditionReasons (cd_type c) of
              None \<Rightarrow> Some (NoReasonMatrix (cd_type c))
            | Some reasons \<Rightarrow>
                if \<not> List.member reasons (cd_reason c) then Some (ReasonNotAllowed (cd_type c) (cd_reason c))
                else if cd_hostReason c \<noteq> [] \<and> rune_count (cd_hostReason c) > 256 then Some HostReasonTooLong
                else if rune_count (cd_message c) > 4096 then Some MessageTooLong
                else if \<not> validDateTime (cd_lastTransitionTime c) then Some NotDateTime
                else None))"

fun check_conditions :: "bytes list \<Rightarrow> condition list \<Rightarrow> response_error option" where
  "check_conditions seen [] = guard_err (List.member seen ''Ready'') NoReady"
| "check_conditions seen (c # cs) =
     (case check_condition seen c of
        Some e \<Rightarrow> Some e
      | None \<Rightarrow> check_conditions (cd_type c # seen) cs)"

definition verify_status :: "resource_status \<Rightarrow> response_error option" where
  "verify_status st =
     (if \<not> validCanonicalDecimal (st_observedGeneration st) then Some NoObservedGeneration
      else (case st_conditions st of
              None \<Rightarrow> Some NoConditions
            | Some conditions \<Rightarrow>
                if length conditions > 16 then Some ManyConditions
                else check_conditions [] conditions))"

definition verifyResourceResponse ::
  "form_ref \<Rightarrow> bytes \<Rightarrow> bytes \<Rightarrow> resource \<Rightarrow> response_error option" where
  "verifyResourceResponse ref expectedName expectedSpace got =
     (case rs_form got of
        None \<Rightarrow> Some ChangedFormRef
      | Some form \<Rightarrow>
          let m = rs_metadata got in
          first_err
            [guard_err (sameFormRef ref (fe_formRef form)) ChangedFormRef,
             guard_err (fe_packageDigest form = [] \<or> ValidDigest (fe_packageDigest form)) BadResponseDigest,
             guard_err (rs_apiVersion got = fr_apiVersion ref \<and> rs_kind got = fr_kind ref) ChangedIdentity,
             guard_err (md_name m = expectedName \<and> md_space m = expectedSpace) ChangedNameOrSpace,
             map_option ResponseName (ValidateResourceName (md_name m)),
             map_option ResponseSpace (ValidateSpaceID (md_space m)),
             guard_err (rx_match uidPattern (md_uid m)) NoUID,
             guard_err (validCanonicalDecimal (md_generation m)) NoGeneration,
             guard_err (validCanonicalDecimal (md_revision m)) NoRevision,
             guard_err (rs_spec got \<noteq> None) NoSpec,
             (case rs_status got of None \<Rightarrow> Some NoStatus | Some st \<Rightarrow> verify_status st)])"

definition ResourceCondition :: "resource option \<Rightarrow> bytes \<Rightarrow> condition option" where
  "ResourceCondition r conditionType =
     (case r of
        None \<Rightarrow> None
      | Some r \<Rightarrow>
          (case rs_status r of
             None \<Rightarrow> None
           | Some st \<Rightarrow>
               List.find (\<lambda>c. cd_type c = conditionType)
                 (case st_conditions st of None \<Rightarrow> [] | Some cs \<Rightarrow> cs)))"

definition ResourceReady :: "resource option \<Rightarrow> bool" where
  "ResourceReady r \<longleftrightarrow>
     (case ResourceCondition r ''Ready'' of None \<Rightarrow> False | Some c \<Rightarrow> cd_status c = ''True'')"

definition quoteRevision :: "bytes \<Rightarrow> bytes" where
  "quoteRevision revision = CHR 0x22 # revision @ [CHR 0x22]"

datatype etag_error = NotOneETag | ETagMismatch

definition requireRevisionETag :: "bytes list \<Rightarrow> bytes \<Rightarrow> etag_error option" where
  "requireRevisionETag headerValues revision =
     (if length headerValues \<noteq> 1 then Some NotOneETag
      else if hd headerValues \<noteq> quoteRevision revision then Some ETagMismatch
      else None)"

text \<open>Digests are those of \<^verbatim>\<open>formpackage\<close>.\<close>

definition validWireDigest :: "bytes \<Rightarrow> bool" where
  "validWireDigest digest = ValidDigest digest"

definition digestCanonical :: "(bytes \<Rightarrow> bytes option) \<Rightarrow> bytes \<Rightarrow> canonical_error + bytes" where
  "digestCanonical transform raw = DigestCanonicalJSON transform raw"

end
