(* ===== verification/HostOperations.thy ===== *)
theory HostOperations
  imports HostWire
begin

text \<open>
  The long-running Operation of \<^verbatim>\<open>hostclient/operations.go\<close> as data: its structs and their
  decoding, the closed wire shape, the state rules of a terminal record, and the polling
  windows. The polling loop itself is in \<open>HostAwait\<close>.
\<close>

definition OperationAPIVersion :: bytes where
  "OperationAPIVersion = ''operations.takoform.com/v1alpha1''"
definition OperationKind :: bytes where "OperationKind = ''Operation''"

definition pollBaseDelay :: int where "pollBaseDelay = 250 * time_Millisecond"
definition pollMaxDelay :: int where "pollMaxDelay = 15 * time_Second"
definition defaultOverallDeadline :: int where "defaultOverallDeadline = 10 * 60 * time_Second"

definition operationIDPattern :: rx where
  "operationIDPattern =
     Seq (lit ''op_'')
       (Seq (Cls [c_upper, c_lower, c_digit])
          (upto_rep 124 (Cls [c_upper, c_lower, c_digit, c_dot, c_under, c_dash])))"

definition operationPhasePattern :: rx where
  "operationPhasePattern = Seq (Cls [c_upper]) (upto_rep 63 (Cls [c_upper, c_lower, c_digit]))"

section \<open>Structs\<close>

record operation_target =
  ot_uid :: bytes
  ot_manifestDigest :: bytes

record operation_meta =
  om_phase :: bytes
  om_progress :: "int option"

record operation_error =
  oe_code :: bytes
  oe_message :: bytes
  oe_requestId :: bytes
  oe_retryable :: bool
  oe_hostCode :: bytes

record operation =
  op_apiVersion :: bytes
  op_kind :: bytes
  op_id :: bytes
  op_done :: bool
  op_target :: "operation_target option"
  op_metadata :: "operation_meta option"
  op_result :: bytes
  op_error :: "operation_error option"

definition empty_operation :: operation where
  "empty_operation = \<lparr>op_apiVersion = [], op_kind = [], op_id = [], op_done = False, op_target = None,
     op_metadata = None, op_result = [], op_error = None\<rparr>"

definition target_fields :: "operation_target struct_fields" where
  "target_fields =
     [(''uid'', member dec_str ot_uid ot_uid_update),
      (''manifestDigest'', member dec_str ot_manifestDigest ot_manifestDigest_update)]"

definition meta_fields :: "operation_meta struct_fields" where
  "meta_fields =
     [(''phase'', member dec_str om_phase om_phase_update),
      (''progress'', member (dec_pointer dec_int 0) om_progress om_progress_update)]"

definition operation_error_fields :: "operation_error struct_fields" where
  "operation_error_fields =
     [(''code'', member dec_str oe_code oe_code_update),
      (''message'', member dec_str oe_message oe_message_update),
      (''requestId'', member dec_str oe_requestId oe_requestId_update),
      (''retryable'', member dec_bool oe_retryable oe_retryable_update),
      (''hostCode'', member dec_str oe_hostCode oe_hostCode_update)]"

definition operation_fields :: "operation struct_fields" where
  "operation_fields =
     [(''apiVersion'', member dec_str op_apiVersion op_apiVersion_update),
      (''kind'', member dec_str op_kind op_kind_update),
      (''id'', member dec_str op_id op_id_update),
      (''done'', member dec_bool op_done op_done_update),
      (''target'', member (dec_pointer (dec_struct True target_fields)
         \<lparr>ot_uid = [], ot_manifestDigest = []\<rparr>) op_target op_target_update),
      (''metadata'', member (dec_pointer (dec_struct True meta_fields)
         \<lparr>om_phase = [], om_progress = None\<rparr>) op_metadata op_metadata_update),
      (''result'', dec_text),
      (''error'', member (dec_pointer (dec_struct True operation_error_fields)
         \<lparr>oe_code = [], oe_message = [], oe_requestId = [], oe_retryable = False, oe_hostCode = []\<rparr>)
         op_error op_error_update)]"

text \<open>
  A document into an \<^verbatim>\<open>Operation\<close>, and into the envelope with the member \<^verbatim>\<open>operation\<close>, whose
  pointer stays nil without one. The result keeps its text.
\<close>

definition dec_operation :: "bytes \<Rightarrow> operation decoder" where
  "dec_operation text v old =
     map_option (op_result_update (\<lambda>_. last_text (raw_field (keys operation_fields) ''result'' text)))
       (dec_struct True operation_fields v old)"

definition dec_operation_envelope :: "bytes \<Rightarrow> operation option decoder" where
  "dec_operation_envelope text =
     dec_struct True
       [(''operation'',
         dec_pointer (dec_operation (last_text (raw_field [''operation''] ''operation'' text))) empty_operation)]"

section \<open>Terminal records\<close>

datatype operation_problem =
    OperationOmitted | OperationIdentity | BadOperationID | PayloadBeforeDone | NotExactlyOneOutcome
  | CodeOutsideTaxonomy bytes | NoRequestID | TerminalRetryable
  | OperationKeys bytes wire_error | OperationNotObject bytes | OperationUndecodable bytes
  | DoneNotBoolean | BadTargetUID | BadTargetDigest | BadPhase | BadProgress
  | CodeNotString | EmptyMessage | EmptyRequestID | EmptyHostCode
  | OperationDecode decode_error

definition known_code :: "bytes \<Rightarrow> bool" where
  "known_code c \<longleftrightarrow> map_of stableErrorHTTPStatusByCode c \<noteq> None"

definition validateOperation :: "operation option \<Rightarrow> operation_problem option" where
  "validateOperation given =
     (case given of
        None \<Rightarrow> Some OperationOmitted
      | Some operation \<Rightarrow>
          let hasResult = op_result operation \<noteq> []; hasError = op_error operation \<noteq> None in
          if op_apiVersion operation \<noteq> OperationAPIVersion \<or> op_kind operation \<noteq> OperationKind
          then Some OperationIdentity
          else if \<not> rx_match operationIDPattern (op_id operation) then Some BadOperationID
          else if \<not> op_done operation \<and> (hasResult \<or> hasError) then Some PayloadBeforeDone
          else if op_done operation \<and> hasResult = hasError then Some NotExactlyOneOutcome
          else (case op_error operation of
                  None \<Rightarrow> None
                | Some e \<Rightarrow>
                    if \<not> known_code (oe_code e) then Some (CodeOutsideTaxonomy (oe_code e))
                    else if trim_space (oe_requestId e) = [] then Some NoRequestID
                    else if oe_retryable e then Some TerminalRetryable
                    else None))"

section \<open>Wire shape\<close>

definition wire_string :: "bytes \<Rightarrow> operation_problem \<Rightarrow> (bytes \<Rightarrow> bool) \<Rightarrow> operation_problem option" where
  "wire_string raw e ok =
     (case rawString raw of None \<Rightarrow> Some e | Some s \<Rightarrow> guard_err (ok s) e)"

definition optional_member ::
  "raw_map \<Rightarrow> bytes \<Rightarrow> (bytes \<Rightarrow> operation_problem option) \<Rightarrow> operation_problem option" where
  "optional_member m k f = (case map_of m k of None \<Rightarrow> None | Some raw \<Rightarrow> f raw)"

text \<open>A \<^verbatim>\<open>null\<close> text is not an object, so the map a text decodes into is never nil.\<close>

definition open_object ::
  "bytes \<Rightarrow> bytes \<Rightarrow> (raw_map \<Rightarrow> operation_problem option) \<Rightarrow> operation_problem option" where
  "open_object raw label f =
     (if \<not> rawJSONObject raw then Some (OperationNotObject label)
      else (case unmarshal_raw_map raw of
              None \<Rightarrow> Some (OperationUndecodable label)
            | Some m \<Rightarrow> f (case m of None \<Rightarrow> [] | Some m \<Rightarrow> m)))"

definition closed_keys ::
  "bytes \<Rightarrow> raw_map \<Rightarrow> bytes list \<Rightarrow> bytes list \<Rightarrow> operation_problem option" where
  "closed_keys label m required allowed =
     map_option (OperationKeys label) (operationObjectKeys m required allowed)"

definition validateOperationTarget :: "bytes \<Rightarrow> operation_problem option" where
  "validateOperationTarget raw =
     open_object raw ''target'' (\<lambda>m.
       first_err
         [closed_keys ''target'' m [] [''uid'', ''manifestDigest''],
          optional_member m ''uid'' (\<lambda>raw. wire_string raw BadTargetUID
            (\<lambda>uid. 1 \<le> length uid \<and> length uid \<le> 128 \<and> rx_match uidPattern uid)),
          optional_member m ''manifestDigest'' (\<lambda>raw. wire_string raw BadTargetDigest ValidDigest)])"

definition validateOperationMetadata :: "bytes \<Rightarrow> operation_problem option" where
  "validateOperationMetadata raw =
     open_object raw ''metadata'' (\<lambda>m.
       first_err
         [closed_keys ''metadata'' m [] [''phase'', ''progress''],
          optional_member m ''phase'' (\<lambda>raw. wire_string raw BadPhase
            (\<lambda>phase. 1 \<le> length phase \<and> length phase \<le> 64 \<and> rx_match operationPhasePattern phase)),
          optional_member m ''progress'' (\<lambda>raw.
            case rawInteger raw of
              None \<Rightarrow> Some BadProgress
            | Some progress \<Rightarrow> guard_err (0 \<le> progress \<and> progress \<le> 100) BadProgress)])"

definition validateOperationError :: "bytes \<Rightarrow> operation_problem option" where
  "validateOperationError raw =
     open_object raw ''error'' (\<lambda>m.
       first_err
         [closed_keys ''error'' m [''code'', ''message'', ''requestId'', ''retryable'']
            [''code'', ''message'', ''requestId'', ''retryable'', ''hostCode''],
          (case rawString (raw_at m ''code'') of
             None \<Rightarrow> Some CodeNotString
           | Some c \<Rightarrow> guard_err (known_code c) (CodeOutsideTaxonomy c)),
          wire_string (raw_at m ''message'') EmptyMessage (\<lambda>s. 1 \<le> length s),
          wire_string (raw_at m ''requestId'') EmptyRequestID (\<lambda>s. 1 \<le> length s),
          guard_err (rawBool (raw_at m ''retryable'') = Some False) TerminalRetryable,
          optional_member m ''hostCode'' (\<lambda>raw. wire_string raw EmptyHostCode (\<lambda>s. 1 \<le> length s))])"

definition validate_operation_object :: "raw_map \<Rightarrow> operation_problem option" where
  "validate_operation_object m =
     (let hasResult = map_of m ''result'' \<noteq> None; hasError = map_of m ''error'' \<noteq> None in
      first_err
        [closed_keys ''operation'' m [''apiVersion'', ''kind'', ''id'', ''done'']
           [''apiVersion'', ''kind'', ''id'', ''done'', ''target'', ''metadata'', ''result'', ''error''],
         wire_string (raw_at m ''apiVersion'') OperationIdentity (\<lambda>s. s = OperationAPIVersion),
         wire_string (raw_at m ''kind'') OperationIdentity (\<lambda>s. s = OperationKind),
         wire_string (raw_at m ''id'') BadOperationID
           (\<lambda>s. rx_match operationIDPattern s \<and> length s \<le> 128),
         (case rawBool (raw_at m ''done'') of
            None \<Rightarrow> Some DoneNotBoolean
          | Some isDone \<Rightarrow>
              first_err
                [optional_member m ''target'' validateOperationTarget,
                 optional_member m ''metadata'' validateOperationMetadata,
                 optional_member m ''result''
                   (\<lambda>raw. guard_err (rawJSONObject raw) (OperationNotObject ''result'')),
                 optional_member m ''error'' validateOperationError,
                 guard_err (\<not> (\<not> isDone \<and> (hasResult \<or> hasError))) PayloadBeforeDone,
                 guard_err (\<not> (isDone \<and> hasResult = hasError)) NotExactlyOneOutcome])])"

definition validateOperationWire ::
  "(bytes \<Rightarrow> bytes option) \<Rightarrow> bytes \<Rightarrow> bool \<Rightarrow> operation_problem option" where
  "validateOperationWire transform data wrapped =
     (case decode_root transform data of
        Inl e \<Rightarrow> Some (OperationDecode e)
      | Inr m \<Rightarrow>
          if wrapped then
            (case closed_keys ''operation response'' m [''operation''] [''operation''] of
               Some e \<Rightarrow> Some e
             | None \<Rightarrow> open_object (raw_at m ''operation'') ''operation'' validate_operation_object)
          else validate_operation_object m)"

definition operationTargetUID :: "operation option \<Rightarrow> bytes" where
  "operationTargetUID given =
     (case given of
        None \<Rightarrow> []
      | Some operation \<Rightarrow>
          (case op_target operation of
             None \<Rightarrow> []
           | Some target \<Rightarrow> if rx_match uidPattern (ot_uid target) then ot_uid target else []))"

section \<open>Polling windows\<close>

text \<open>The window doubles while it is below the cap, at most once per attempt.\<close>

fun double_window :: "nat \<Rightarrow> int \<Rightarrow> int" where
  "double_window 0 window = window"
| "double_window (Suc n) window =
     (if window < pollMaxDelay then double_window n (wrap64 (window * 2)) else window)"

definition pollBackoffWindow :: "nat \<Rightarrow> int" where
  "pollBackoffWindow attempt =
     (let window = double_window attempt pollBaseDelay in
      if window > pollMaxDelay then pollMaxDelay else window)"

lemma double_window_range:
  "0 < w \<Longrightarrow> w < 2 * pollMaxDelay \<Longrightarrow> 0 < double_window n w \<and> double_window n w < 2 * pollMaxDelay"
proof (induction n arbitrary: w)
  case (Suc n)
  have "wrap64 (w * 2) = w * 2" if "w < pollMaxDelay"
    using that Suc.prems by (intro wrap64_id) (auto simp: pollMaxDelay_def time_Second_def)
  with Suc show ?case by (auto simp: pollMaxDelay_def time_Second_def)
qed simp

text \<open>The argument of the random draw is positive, and no guess exceeds the cap.\<close>

lemma poll_window_range: "0 < pollBackoffWindow n \<and> pollBackoffWindow n \<le> pollMaxDelay"
proof -
  have "0 < double_window n pollBaseDelay"
    using double_window_range [of pollBaseDelay n]
    by (simp add: pollBaseDelay_def pollMaxDelay_def time_Second_def time_Millisecond_def)
  then show ?thesis by (simp add: pollBackoffWindow_def Let_def pollMaxDelay_def time_Second_def)
qed

end
