(* ===== verification/Effects.thy ===== *)
theory Effects
  imports Prelude
begin

text \<open>
  Code that talks to the outside: an action takes the world and returns an error or a result
  with the world it leaves. The combinators write out Go's control flow: \<open>bind_io\<close> for
  \<^verbatim>\<open>a, err := m(); if err != nil { return err }\<close>, \<open>check_io\<close> for a check that returns
  early, \<open>lift_io\<close> for a pure call that can fail, \<open>via\<close> for an error the caller wraps. The Host API
  client, the package verifier and the corpus runner share them; what a world is, each of them says.
\<close>

type_synonym ('w, 'e, 'a) action = "'w \<Rightarrow> ('e + 'a) \<times> 'w"

definition fail_io :: "'e \<Rightarrow> ('w, 'e, 'a) action" where "fail_io e w = (Inl e, w)"
definition return_io :: "'a \<Rightarrow> ('w, 'e, 'a) action" where "return_io a w = (Inr a, w)"

definition bind_io ::
  "('w, 'e, 'a) action \<Rightarrow> ('a \<Rightarrow> ('w, 'e, 'b) action) \<Rightarrow> ('w, 'e, 'b) action" where
  "bind_io m f w = (case m w of (Inl e, w') \<Rightarrow> (Inl e, w') | (Inr a, w') \<Rightarrow> f a w')"

definition check_io :: "'e option \<Rightarrow> ('w, 'e, 'a) action \<Rightarrow> ('w, 'e, 'a) action" where
  "check_io c m w = (case c of Some e \<Rightarrow> (Inl e, w) | None \<Rightarrow> m w)"

definition lift_io :: "('e + 'a) \<Rightarrow> ('a \<Rightarrow> ('w, 'e, 'b) action) \<Rightarrow> ('w, 'e, 'b) action" where
  "lift_io r f w = (case r of Inl e \<Rightarrow> (Inl e, w) | Inr a \<Rightarrow> f a w)"

text \<open>A call whose error the caller wraps: \<^verbatim>\<open>fmt.Errorf("...: %w", err)\<close>.\<close>

definition via :: "('e \<Rightarrow> 'f) \<Rightarrow> ('w, 'e, 'a) action \<Rightarrow> ('w, 'f, 'a) action" where
  "via g m w = (case m w of (Inl e, w') \<Rightarrow> (Inl (g e), w') | (Inr a, w') \<Rightarrow> (Inr a, w'))"

text \<open>A loop over a list that collects results and stops at the first error.\<close>

fun each_io :: "('a \<Rightarrow> ('w, 'e, 'b) action) \<Rightarrow> 'a list \<Rightarrow> ('w, 'e, 'b list) action" where
  "each_io f [] w = (Inr [], w)"
| "each_io f (x # xs) w =
     bind_io (f x) (\<lambda>y. bind_io (each_io f xs) (\<lambda>ys. return_io (y # ys))) w"

lemma io_simps [simp]:
  "fail_io e w = (Inl e, w)" "return_io a w = (Inr a, w)"
  "check_io None m w = m w" "check_io (Some e) m w = (Inl e, w)"
  "lift_io (Inl e) f w = (Inl e, w)" "lift_io (Inr a) f w = f a w"
  by (simp_all add: fail_io_def return_io_def check_io_def lift_io_def)

lemma io_Inr [err_simps]:
  "bind_io m f w = (Inr b, w') \<longleftrightarrow> (\<exists>a w1. m w = (Inr a, w1) \<and> f a w1 = (Inr b, w'))"
  "check_io c m' w = (Inr b', w') \<longleftrightarrow> c = None \<and> m' w = (Inr b', w')"
  "lift_io r g w = (Inr b'', w') \<longleftrightarrow> (\<exists>a. r = Inr a \<and> g a w = (Inr b'', w'))"
  by (auto simp: bind_io_def check_io_def lift_io_def split: prod.splits sum.splits option.splits)

lemma via_Inr [err_simps]: "via g m w = (Inr a, w') \<longleftrightarrow> m w = (Inr a, w')"
  by (auto simp: via_def split: prod.splits sum.splits)

text \<open>What a finished loop returns: one result per element, each from some world.\<close>

lemma each_io_Inr:
  "each_io f xs w = (Inr ys, w') \<Longrightarrow> list_all2 (\<lambda>x y. \<exists>w1 w2. f x w1 = (Inr y, w2)) xs ys"
proof (induction xs arbitrary: ys w)
  case (Cons x xs)
  then show ?case by (auto simp: err_simps)
qed simp

end
