(* ===== verification/HostClient.thy ===== *)
theory HostClient
  imports HostOperations Effects
begin

text \<open>
  The transport of \<^verbatim>\<open>hostclient/hostclient.go\<close>. What lies outside the client is the record
  \<open>host\<close>: what it answers and how long that takes, the random draws, the clock's ties, and the
  parsers of \<^verbatim>\<open>net/url\<close> and \<^verbatim>\<open>net\<close>. The \<open>world\<close> is the present time and the exchanges so far.
  An exchange takes at least one nanosecond, and a wait ends at the timer or the context,
  whichever is first. A call answers an error or a value and the world after it.
\<close>

section \<open>Outside the client\<close>

record url =
  u_scheme :: bytes
  u_host :: bytes
  u_hostname :: bytes
  u_port :: bytes
  u_user :: bool
  u_path :: bytes
  u_escaped :: bytes
  u_query :: bytes
  u_fragment :: bytes
  u_text :: bytes

record request =
  rq_method :: bytes
  rq_url :: bytes
  rq_headers :: "(bytes \<times> bytes) list"
  rq_body :: "bytes option"

record response =
  rp_status :: int
  rp_header :: "bytes \<Rightarrow> bytes list"
  rp_contentLength :: int
  rp_body :: "bytes option"

datatype reply = NoReply | Reply response

record world =
  w_now :: int
  w_log :: "(request \<times> reply) list"

record host =
  h_reply :: "world \<Rightarrow> request \<Rightarrow> reply"
  h_latency :: "world \<Rightarrow> request \<Rightarrow> nat"
  h_random :: "world \<Rightarrow> int \<Rightarrow> int"
  h_tie :: "world \<Rightarrow> bool"
  h_url :: "bytes \<Rightarrow> url option"
  h_loopback :: "bytes \<Rightarrow> bool"
  h_equal_fold :: "bytes \<Rightarrow> bytes \<Rightarrow> bool"
  h_texts :: http_texts
  h_libs :: libs

definition h_transform :: "host \<Rightarrow> bytes \<Rightarrow> bytes option" where
  "h_transform H = lib_transform (h_libs H)"

text \<open>A context ends at its deadline, or earlier when the caller cancels it.\<close>

record ctx =
  cx_deadline :: "int option"
  cx_cancel :: "int option"

definition ctx_done :: "ctx \<Rightarrow> int option" where
  "ctx_done c =
     (case (cx_deadline c, cx_cancel c) of
        (None, x) \<Rightarrow> x
      | (Some d, None) \<Rightarrow> Some d
      | (Some d, Some x) \<Rightarrow> Some (min d x))"

definition withTimeout :: "ctx \<Rightarrow> int \<Rightarrow> int \<Rightarrow> ctx" where
  "withTimeout c now d =
     c\<lparr>cx_deadline := Some (case cx_deadline c of None \<Rightarrow> now + d | Some e \<Rightarrow> min e (now + d))\<rparr>"

text \<open>Whether the context has ended when something happens at time \<open>t\<close>.\<close>

definition ended_by :: "host \<Rightarrow> ctx \<Rightarrow> world \<Rightarrow> int \<Rightarrow> bool" where
  "ended_by H c w t =
     (case ctx_done c of
        None \<Rightarrow> False
      | Some e \<Rightarrow> e < t \<or> (e = t \<and> h_tie H w))"

definition end_time :: "ctx \<Rightarrow> world \<Rightarrow> int" where
  "end_time c w = (case ctx_done c of None \<Rightarrow> w_now w | Some e \<Rightarrow> max e (w_now w))"

definition exchange :: "host \<Rightarrow> ctx \<Rightarrow> request \<Rightarrow> world \<Rightarrow> reply \<times> world" where
  "exchange H c rq w =
     (let arrival = w_now w + 1 + int (h_latency H w rq) in
      if ended_by H c w arrival
      then (NoReply, w\<lparr>w_now := end_time c w, w_log := (rq, NoReply) # w_log w\<rparr>)
      else (h_reply H w rq, w\<lparr>w_now := arrival, w_log := (rq, h_reply H w rq) # w_log w\<rparr>))"

text \<open>
  The select on a timer and \<^verbatim>\<open>ctx.Done()\<close>: true if the timer fired. A timer that fires at once
  and a context that has ended are both ready.
\<close>

definition wait_timer :: "host \<Rightarrow> ctx \<Rightarrow> int \<Rightarrow> world \<Rightarrow> bool \<times> world" where
  "wait_timer H c delay w =
     (let t = w_now w + max 0 delay in
      case ctx_done c of
        None \<Rightarrow> (True, w\<lparr>w_now := t\<rparr>)
      | Some e \<Rightarrow>
          if t < e then (True, w\<lparr>w_now := t\<rparr>)
          else if max e (w_now w) < t \<or> h_tie H w then (False, w\<lparr>w_now := max e (w_now w)\<rparr>)
          else (True, w\<lparr>w_now := t\<rparr>))"

section \<open>Errors of a call\<close>

datatype host_error =
    OriginNotAbsolute | OriginExtras | OriginNotHTTPS
  | EndpointNotAbsolute | CrossOrigin | EndpointExtras | EndpointEncoded | EndpointPath
  | OnlyVersion | FeatureMissing bytes | NoEndpoint | BadEndpoint host_error
  | DiscoveryDecode decode_error | NotReady
  | BuildingRequest | RequestFailed | ResponseTooLarge | BodyUnreadable | Api api_error
  | UnexpectedStatus int | BodyOf204 | ContextEnded | AttemptsExhausted
  | EmptyResponseBody | ResponseDecode decode_error
  | Identity identity_error | SpaceOf bytes identity_error
  | Wire wire_error | Verification response_error | ETag etag_error
  | OperationProblem operation_problem | BadOperationArgument | OtherOperation
  | NotTerminal bytes host_error | NoTerminalResult | OperationFailed bytes bytes
  | FormNotReturned | FormNotAvailable | OperationUnsupported bytes
  | DefinitionSubstituted | NoDesiredSchema | NoDiagnostics
  | BadGenerationFence | BadUIDFence | FenceWithoutUID | NoNativeID
  | PrepareFormRef | PrepareIdentity | PrepareName | PrepareSpec | PrepareSpecDigest | PrepareDigestInvalid
  | DigestFailed canonical_error | ChangedGeneration
  | Accepted bytes bytes host_error
  | ErrNotFound

text \<open>\<^verbatim>\<open>errors.As(err, *APIError)\<close> looks through every wrapping error.\<close>

fun api_of :: "host_error \<Rightarrow> api_error option" where
  "api_of (Api a) = Some a"
| "api_of (Accepted _ _ e) = api_of e"
| "api_of (NotTerminal _ e) = api_of e"
| "api_of (BadEndpoint e) = api_of e"
| "api_of _ = None"

definition isResourceNotFound :: "host_error \<Rightarrow> bool" where
  "isResourceNotFound e =
     (case api_of e of
        None \<Rightarrow> False
      | Some a \<Rightarrow> ae_status a = 404 \<and> ae_code a = ''resource_not_found'')"

definition IsOperationNotFound :: "host_error \<Rightarrow> bool" where
  "IsOperationNotFound e =
     (case api_of e of
        None \<Rightarrow> False
      | Some a \<Rightarrow> ae_status a = 404 \<and> ae_code a = ''operation_not_found'')"

definition acceptedMutation :: "bytes \<Rightarrow> bytes \<Rightarrow> host_error option \<Rightarrow> host_error option" where
  "acceptedMutation operationID uid e = map_option (Accepted operationID uid) e"

text \<open>\<^verbatim>\<open>(*AcceptedError).Error\<close>, given the text of the underlying failure.\<close>

definition accepted_text :: "bytes \<Rightarrow> bytes \<Rightarrow> bytes option \<Rightarrow> bytes" where
  "accepted_text operationID uid inner =
     ''takoform: the host accepted this mutation but it did not complete verifiably'' @
     (if operationID \<noteq> [] then '' (operation '' @ operationID @ '')'' else []) @
     (if uid \<noteq> [] then '' (uid '' @ uid @ '')'' else []) @
     (case inner of None \<Rightarrow> [] | Some t \<Rightarrow> '': '' @ t)"

section \<open>Calls\<close>

type_synonym 'a io = "(world, host_error, 'a) action"

section \<open>The client\<close>

definition APIVersion :: bytes where "APIVersion = ''forms.takoform.com/v1''"
definition DiscoveryPath :: bytes where "DiscoveryPath = ''/.well-known/takoform/v1''"
definition APIRootPath :: bytes where "APIRootPath = ''/apis/forms.takoform.com/v1''"
definition defaultUserAgent :: bytes where "defaultUserAgent = ''takoform-hostclient''"
definition maxResponseBodyBytes :: int where "maxResponseBodyBytes = 8 * 1024 * 1024"

definition requiredFeatures :: "bytes list" where
  "requiredFeatures =
     [''service_forms'', ''exact_form_ref'', ''optimistic_concurrency'', ''idempotent_lifecycle'',
      ''operations'', ''artifact_upload'', ''support_profiles'']"

record discovery =
  di_apiVersions :: "bytes list"
  di_features :: "(bytes \<times> bool) list"
  di_endpoint :: bytes

definition empty_discovery :: discovery where
  "empty_discovery = \<lparr>di_apiVersions = [], di_features = [], di_endpoint = []\<rparr>"

definition HasFeature :: "discovery \<Rightarrow> bytes \<Rightarrow> bool" where
  "HasFeature d name \<longleftrightarrow> map_of (di_features d) name = Some True"

record client =
  cl_endpoint :: bytes
  cl_token :: bytes
  cl_userAgent :: bytes
  cl_apiBase :: bytes
  cl_retryAttempts :: nat
  cl_overallDeadline :: int
  cl_discovery :: discovery

text \<open>\<^verbatim>\<open>strings.TrimRight(s, "/")\<close>.\<close>

definition trim_slashes :: "bytes \<Rightarrow> bytes" where
  "trim_slashes s = rev (dropWhile (\<lambda>c. c = CHR ''/'') (rev s))"

definition NewWithOptions :: "bytes \<Rightarrow> bytes \<Rightarrow> int \<Rightarrow> int \<Rightarrow> client" where
  "NewWithOptions endpoint token retryAttempts overallDeadline =
     \<lparr>cl_endpoint = trim_slashes endpoint, cl_token = token, cl_userAgent = defaultUserAgent,
      cl_apiBase = [],
      cl_retryAttempts = (if retryAttempts \<le> 0 then 3 else nat retryAttempts),
      cl_overallDeadline = (if overallDeadline \<le> 0 then defaultOverallDeadline else overallDeadline),
      cl_discovery = empty_discovery\<rparr>"

definition New :: "bytes \<Rightarrow> bytes \<Rightarrow> client" where
  "New endpoint token = NewWithOptions endpoint token 0 0"

definition requireReady :: "client \<Rightarrow> host_error option" where
  "requireReady C = guard_err (cl_apiBase C \<noteq> []) NotReady"

section \<open>Sending a request\<close>

definition retryBaseDelay :: int where "retryBaseDelay = 25 * time_Millisecond"
definition retryMaxDelay :: int where "retryMaxDelay = 60 * time_Second"

definition retry_window :: "nat \<Rightarrow> int" where
  "retry_window attempt =
     (let window = wrap64 (retryBaseDelay * wrap64 (2 ^ attempt)) in
      if window \<le> 0 then retryBaseDelay else window)"

definition waitForRetry :: "host \<Rightarrow> ctx \<Rightarrow> nat \<Rightarrow> int \<Rightarrow> world \<Rightarrow> bool \<times> world" where
  "waitForRetry H c attempt retryAfter w =
     (let delay = (if retryAfter > 0
                   then retryAfterDelay (cx_deadline c \<noteq> None) retryAfter retryMaxDelay
                   else h_random H w (retry_window attempt)) in
      wait_timer H c delay w)"

definition header_set :: "bytes \<Rightarrow> bytes \<Rightarrow> (bytes \<times> bytes) list \<Rightarrow> (bytes \<times> bytes) list" where
  "header_set k v hs = filter (\<lambda>(k', _). k' \<noteq> k) hs @ [(k, v)]"

definition build_request ::
  "client \<Rightarrow> bytes \<Rightarrow> bytes \<Rightarrow> (bytes \<times> bytes) list \<Rightarrow> bytes option \<Rightarrow> request" where
  "build_request C method fullURL headers body =
     (let typed = (if body \<noteq> None \<and> (case map_of headers ''Content-Type'' of None \<Rightarrow> True | Some t \<Rightarrow> t = [])
                   then [(''Content-Type'', ''application/json'')] else []);
          base = header_set ''User-Agent'' (cl_userAgent C)
                   (header_set ''Accept'' ''application/json'' typed);
          signed = (if cl_token C \<noteq> [] then header_set ''Authorization'' (''Bearer '' @ cl_token C) base
                    else base) in
      \<lparr>rq_method = method, rq_url = fullURL,
       rq_headers = fold (\<lambda>(k, v). header_set k v) headers signed, rq_body = body\<rparr>)"

definition containsStatus :: "int list \<Rightarrow> int \<Rightarrow> bool" where
  "containsStatus allowed status = List.member allowed status"

text \<open>\<^verbatim>\<open>http.Header.Get\<close>: the first value, or nothing.\<close>

definition header_get :: "(bytes \<Rightarrow> bytes list) \<Rightarrow> bytes \<Rightarrow> bytes" where
  "header_get h k = (case h k of [] \<Rightarrow> [] | v # _ \<Rightarrow> v)"

text \<open>A response as \<open>do\<close> reads it: an error, a non-success envelope, or a success.\<close>

datatype outcome = Failed host_error | Refused api_error | Success int "bytes \<Rightarrow> bytes list" bytes

definition read_response ::
  "host \<Rightarrow> int \<Rightarrow> bytes \<Rightarrow> int list \<Rightarrow> reply \<Rightarrow> outcome" where
  "read_response H now method successStatuses reply =
     (case reply of
        NoReply \<Rightarrow> Failed RequestFailed
      | Reply r \<Rightarrow>
          if method \<noteq> ''HEAD'' \<and> rp_contentLength r > maxResponseBodyBytes then Failed ResponseTooLarge
          else (case rp_body r of
                  None \<Rightarrow> Failed BodyUnreadable
                | Some data \<Rightarrow>
                    if int (length data) > maxResponseBodyBytes then Failed ResponseTooLarge
                    else if rp_status r < 200 \<or> rp_status r \<ge> 300 then
                      Refused (parseAPIError (h_transform H) (h_texts H) now (rp_status r) data
                        (header_get (rp_header r) ''Retry-After''))
                    else if \<not> containsStatus successStatuses (rp_status r)
                    then Failed (UnexpectedStatus (rp_status r))
                    else if rp_status r = 204 \<and> data \<noteq> [] then Failed BodyOf204
                    else Success (rp_status r) (rp_header r) data))"

type_synonym answer = "int \<times> (bytes \<Rightarrow> bytes list) \<times> bytes"

fun do_attempts ::
  "host \<Rightarrow> ctx \<Rightarrow> request \<Rightarrow> bool \<Rightarrow> int list \<Rightarrow> nat \<Rightarrow> nat \<Rightarrow> answer io" where
  "do_attempts H c rq retryStable successStatuses attempt 0 w = (Inl AttemptsExhausted, w)"
| "do_attempts H c rq retryStable successStatuses attempt (Suc left) w =
     (if h_url H (rq_url rq) = None then (Inl BuildingRequest, w)
      else (case exchange H c rq w of (reply, w1) \<Rightarrow>
        case read_response H (w_now w1) (rq_method rq) successStatuses reply of
          Failed e \<Rightarrow> (Inl e, w1)
        | Success status headers data \<Rightarrow> (Inr (status, headers, data), w1)
        | Refused apiErr \<Rightarrow>
            if retryStable \<and> 0 < left \<and> isPortableRetryable (Some apiErr) then
              (case waitForRetry H c attempt (ae_retryAfter apiErr) w1 of
                 (False, w2) \<Rightarrow> (Inl ContextEnded, w2)
               | (True, w2) \<Rightarrow>
                   do_attempts H c rq retryStable successStatuses (Suc attempt) left w2)
            else (Inl (Api apiErr), w1)))"

definition do_request ::
  "host \<Rightarrow> client \<Rightarrow> ctx \<Rightarrow> bytes \<Rightarrow> bytes \<Rightarrow> (bytes \<times> bytes) list \<Rightarrow> bytes option \<Rightarrow> bool \<Rightarrow> int list
    \<Rightarrow> answer io" where
  "do_request H C c method fullURL headers body retryStable successStatuses =
     do_attempts H c (build_request C method fullURL headers body) retryStable successStatuses 0
       (if retryStable then cl_retryAttempts C else 1)"

definition decodeBody :: "host \<Rightarrow> bytes \<Rightarrow> 'r decoder \<Rightarrow> 'r \<Rightarrow> host_error + 'r" where
  "decodeBody H data d zero =
     (if trim_space data = [] then Inl EmptyResponseBody
      else (case decodeStrictJSON (h_transform H) data d zero of
              Inl e \<Rightarrow> Inl (ResponseDecode e)
            | Inr r \<Rightarrow> Inr r))"

section \<open>Discovery\<close>

fun dec_flags :: "object \<Rightarrow> (bytes \<times> bool) list option" where
  "dec_flags [] = Some []"
| "dec_flags ((k, v) # m) =
     (case dec_bool v False of
        None \<Rightarrow> None
      | Some b \<Rightarrow> map_option (\<lambda>fs. (k, b) # fs) (dec_flags m))"

definition dec_flag_map :: "(bytes \<times> bool) list decoder" where
  "dec_flag_map v old =
     (case v of VNull \<Rightarrow> Some [] | VObj m \<Rightarrow> map_option (\<lambda>fs. last_wins (old @ fs)) (dec_flags m) | _ \<Rightarrow> None)"

definition discovery_fields :: "discovery struct_fields" where
  "discovery_fields =
     [(''api_versions'', member (dec_slice dec_str []) di_apiVersions di_apiVersions_update),
      (''features'', member dec_flag_map di_features di_features_update),
      (''endpoints'', member (dec_struct True [(''api'', dec_str)]) di_endpoint di_endpoint_update)]"

definition isLoopbackHostname :: "host \<Rightarrow> bytes \<Rightarrow> bool" where
  "isLoopbackHostname H hostname \<longleftrightarrow> h_equal_fold H hostname ''localhost'' \<or> h_loopback H hostname"

definition absolute_http :: "url \<Rightarrow> bool" where
  "absolute_http u \<longleftrightarrow>
     u_scheme u \<noteq> [] \<and> u_host u \<noteq> [] \<and> (u_scheme u = ''http'' \<or> u_scheme u = ''https'')"

definition configuredOrigin :: "host \<Rightarrow> client \<Rightarrow> host_error + url" where
  "configuredOrigin H C =
     (case h_url H (cl_endpoint C) of
        None \<Rightarrow> Inl OriginNotAbsolute
      | Some u \<Rightarrow>
          if \<not> absolute_http u then Inl OriginNotAbsolute
          else if u_user u \<or> u_query u \<noteq> [] \<or> u_fragment u \<noteq> [] \<or> (u_path u \<noteq> [] \<and> u_path u \<noteq> ''/'')
          then Inl OriginExtras
          else if u_scheme u = ''http'' \<and> \<not> isLoopbackHostname H (u_hostname u) then Inl OriginNotHTTPS
          else Inr u)"

definition effectivePort :: "url \<Rightarrow> bytes" where
  "effectivePort u =
     (if u_port u \<noteq> [] then u_port u
      else if to_lower (u_scheme u) = ''http'' then ''80''
      else if to_lower (u_scheme u) = ''https'' then ''443''
      else [])"

definition sameOrigin :: "host \<Rightarrow> url \<Rightarrow> url \<Rightarrow> bool" where
  "sameOrigin H a b \<longleftrightarrow>
     h_equal_fold H (u_scheme a) (u_scheme b) \<and> h_equal_fold H (u_hostname a) (u_hostname b) \<and>
     effectivePort a = effectivePort b"

definition validAdvertisedEndpoint :: "host \<Rightarrow> client \<Rightarrow> bytes \<Rightarrow> bytes \<Rightarrow> host_error + bytes" where
  "validAdvertisedEndpoint H C raw expectedPath =
     (case h_url H raw of
        None \<Rightarrow> Inl EndpointNotAbsolute
      | Some advertised \<Rightarrow>
          if \<not> absolute_http advertised then Inl EndpointNotAbsolute
          else bind_res (configuredOrigin H C) (\<lambda>configured.
            if \<not> sameOrigin H advertised configured then Inl CrossOrigin
            else if u_user advertised \<or> u_fragment advertised \<noteq> [] \<or> u_query advertised \<noteq> []
            then Inl EndpointExtras
            else if contains_byte CHR ''%'' (u_escaped advertised) then Inl EndpointEncoded
            else if u_escaped advertised \<noteq> expectedPath then Inl EndpointPath
            else Inr (u_text advertised)))"

text \<open>The new client, and the error if negotiation failed.\<close>

definition negotiateEndpoints :: "host \<Rightarrow> client \<Rightarrow> discovery \<Rightarrow> client \<times> host_error option" where
  "negotiateEndpoints H C disco =
     (let C0 = C\<lparr>cl_apiBase := []\<rparr> in
      if length (di_apiVersions disco) \<noteq> 1 \<or> hd (di_apiVersions disco) \<noteq> APIVersion then (C0, Some OnlyVersion)
      else (case List.find (\<lambda>f. \<not> HasFeature disco f) requiredFeatures of
              Some f \<Rightarrow> (C0, Some (FeatureMissing f))
            | None \<Rightarrow>
                if trim_space (di_endpoint disco) = [] then (C0, Some NoEndpoint)
                else (case validAdvertisedEndpoint H C0 (di_endpoint disco) APIRootPath of
                        Inl e \<Rightarrow> (C0, Some (BadEndpoint e))
                      | Inr base \<Rightarrow> (C0\<lparr>cl_apiBase := trim_slashes base\<rparr>, None))))"

definition Discover :: "host \<Rightarrow> ctx \<Rightarrow> client \<Rightarrow> world \<Rightarrow> (host_error + discovery) \<times> client \<times> world" where
  "Discover H c C w =
     (case configuredOrigin H C of
        Inl e \<Rightarrow> (Inl e, C, w)
      | Inr _ \<Rightarrow>
          (case do_request H C c ''GET'' (cl_endpoint C @ DiscoveryPath) [] None False [200] w of
             (Inl e, w') \<Rightarrow> (Inl e, C, w')
           | (Inr (_, _, data), w') \<Rightarrow>
               (case decodeStrictJSON (h_transform H) data (dec_struct True discovery_fields) empty_discovery of
                  Inl e \<Rightarrow> (Inl (DiscoveryDecode e), C, w')
                | Inr disco \<Rightarrow>
                    (case negotiateEndpoints H (C\<lparr>cl_discovery := disco\<rparr>) disco of
                       (C', Some e) \<Rightarrow> (Inl e, C', w')
                     | (C', None) \<Rightarrow> (Inr disco, C', w')))))"

text \<open>\<^verbatim>\<open>validateOIDCIssuer\<close>.\<close>

datatype issuer_error = IssuerNotHTTPS | IssuerExtras

definition validateOIDCIssuer :: "host \<Rightarrow> bytes \<Rightarrow> issuer_error option" where
  "validateOIDCIssuer H raw =
     (case h_url H raw of
        None \<Rightarrow> Some IssuerNotHTTPS
      | Some u \<Rightarrow>
          if u_scheme u = [] \<or> \<not> h_equal_fold H (u_scheme u) ''https'' \<or> u_host u = [] then Some IssuerNotHTTPS
          else if u_user u \<or> u_query u \<noteq> [] \<or> u_fragment u \<noteq> [] then Some IssuerExtras
          else None)"

section \<open>URLs and idempotency keys\<close>

definition upper_nibble :: "nat \<Rightarrow> char" where
  "upper_nibble n = (if n < 10 then char_of (48 + n) else char_of (55 + n))"

definition percent :: "char \<Rightarrow> bytes" where
  "percent ch = [CHR ''%'', upper_nibble (code ch div 16), upper_nibble (code ch mod 16)]"

definition unreserved :: "char \<Rightarrow> bool" where
  "unreserved ch \<longleftrightarrow>
     in_cls [c_lower, c_upper, c_digit] ch \<or> List.member ''-_.~'' ch"

text \<open>\<^verbatim>\<open>url.PathEscape\<close> and \<^verbatim>\<open>url.QueryEscape\<close>.\<close>

definition PathEscape :: "bytes \<Rightarrow> bytes" where
  "PathEscape s = concat (map (\<lambda>ch. if unreserved ch \<or> List.member ''$&+:=@'' ch then [ch] else percent ch) s)"

definition QueryEscape :: "bytes \<Rightarrow> bytes" where
  "QueryEscape s =
     concat (map (\<lambda>ch. if unreserved ch then [ch] else if ch = CHR '' '' then ''+'' else percent ch) s)"

definition groupPathSegment :: "bytes \<Rightarrow> bytes" where
  "groupPathSegment grp = PathEscape grp"

type_synonym query = "(bytes \<times> bytes) list"

definition exactFormQuery :: "bytes \<Rightarrow> form_ref \<Rightarrow> query" where
  "exactFormQuery space ref =
     [(''space'', space), (''group'', fr_apiVersion ref), (''kind'', fr_kind ref),
      (''definitionVersion'', fr_definitionVersion ref), (''schemaDigest'', fr_schemaDigest ref)]"

definition formsAvailabilityQuery :: "bytes \<Rightarrow> form_ref \<Rightarrow> query" where
  "formsAvailabilityQuery space ref =
     [(''space'', space), (''group'', fr_apiVersion ref), (''kind'', fr_kind ref),
      (''definitionVersion'', fr_definitionVersion ref), (''schemaDigest'', fr_schemaDigest ref)]"

text \<open>\<^verbatim>\<open>url.Values.Encode\<close> with one value per key.\<close>

definition encode_query :: "query \<Rightarrow> bytes" where
  "encode_query q =
     join_with ''&'' (map (\<lambda>(k, v). QueryEscape k @ ''='' @ QueryEscape v)
       (sort_by (\<lambda>a b. fst a < fst b) q))"

definition resourceURL :: "client \<Rightarrow> form_ref \<Rightarrow> bytes \<Rightarrow> bytes \<Rightarrow> query \<Rightarrow> bytes" where
  "resourceURL C ref name suffix q =
     cl_apiBase C @ ''/resources/'' @ groupPathSegment (fr_apiVersion ref) @ ''/'' @
     PathEscape (fr_kind ref) @ ''/'' @ PathEscape name @
     (if suffix \<noteq> [] then ''/'' @ suffix else []) @
     (if q \<noteq> [] then ''?'' @ encode_query q else [])"

definition operationURL :: "client \<Rightarrow> bytes \<Rightarrow> bytes \<Rightarrow> bytes" where
  "operationURL C opid suffix =
     cl_apiBase C @ ''/operations/'' @ opid @ (if suffix \<noteq> [] then ''/'' @ suffix else [])"

definition mutationKey :: "bytes list \<Rightarrow> bytes" where
  "mutationKey vals = ''takoform-'' @ hex_encode (sha256 (json_encode (VArr (map VStr vals))))"

definition incarnationKey ::
  "bytes \<Rightarrow> form_ref \<Rightarrow> bytes \<Rightarrow> bytes \<Rightarrow> bytes \<Rightarrow> bytes \<Rightarrow> bytes \<Rightarrow> bytes" where
  "incarnationKey operation ref name space uid generation body =
     mutationKey [operation, fr_apiVersion ref, fr_kind ref, name, space, uid, generation, body]"

definition bodyDigest :: "bytes \<Rightarrow> bytes" where
  "bodyDigest raw = hex_encode (sha256 raw)"

end
