(* ===== verification/HostAwait.thy ===== *)
theory HostAwait
  imports HostClient
begin

text \<open>
  Reading, cancelling and awaiting an Operation: the calls of \<^verbatim>\<open>hostclient/operations.go\<close>. The
  polling loop terminates because its context always has a deadline and every exchange takes
  time; it returns by that deadline, and it returns the terminal record of a host that
  finishes in time.
\<close>

section \<open>Reading an Operation\<close>

definition operation_problem_io :: "operation_problem option \<Rightarrow> host_error option" where
  "operation_problem_io p = map_option OperationProblem p"

definition decodeOperationEnvelope :: "host \<Rightarrow> bytes \<Rightarrow> host_error + operation" where
  "decodeOperationEnvelope H data =
     (case validateOperationWire (h_transform H) data True of
        Some e \<Rightarrow> Inl (OperationProblem e)
      | None \<Rightarrow>
          bind_res (decodeBody H data (dec_operation_envelope data) None) (\<lambda>given.
            case validateOperation given of
              Some e \<Rightarrow> Inl (OperationProblem e)
            | None \<Rightarrow> (case given of None \<Rightarrow> Inl (OperationProblem OperationOmitted) | Some op \<Rightarrow> Inr op)))"

text \<open>A body that must be the record of the operation \<open>opid\<close>.\<close>

definition read_operation :: "host \<Rightarrow> bytes \<Rightarrow> bytes \<Rightarrow> host_error + operation" where
  "read_operation H opid data =
     (case validateOperationWire (h_transform H) data False of
        Some e \<Rightarrow> Inl (OperationProblem e)
      | None \<Rightarrow>
          bind_res (decodeBody H data (dec_operation data) empty_operation) (\<lambda>op.
            case validateOperation (Some op) of
              Some e \<Rightarrow> Inl (OperationProblem e)
            | None \<Rightarrow> if op_id op \<noteq> opid then Inl OtherOperation else Inr op))"

definition getOperation :: "host \<Rightarrow> client \<Rightarrow> ctx \<Rightarrow> bytes \<Rightarrow> (operation \<times> int) io" where
  "getOperation H C c opid =
     check_io (requireReady C)
       (check_io (guard_err (rx_match operationIDPattern opid) BadOperationArgument)
         (bind_io (do_request H C c ''GET'' (operationURL C opid []) [] None False [200])
           (\<lambda>(_, headers, data) w.
              lift_io (read_operation H opid data)
                (\<lambda>op. return_io (op, parseRetryAfter (h_texts H) (w_now w) (header_get headers ''Retry-After''))) w)))"

definition GetOperation :: "host \<Rightarrow> client \<Rightarrow> ctx \<Rightarrow> bytes \<Rightarrow> operation io" where
  "GetOperation H C c opid = bind_io (getOperation H C c opid) (\<lambda>(op, _). return_io op)"

definition CancelOperation :: "host \<Rightarrow> client \<Rightarrow> ctx \<Rightarrow> bytes \<Rightarrow> operation io" where
  "CancelOperation H C c opid =
     check_io (requireReady C)
       (check_io (guard_err (rx_match operationIDPattern opid) BadOperationArgument)
         (bind_io (do_request H C c ''POST'' (operationURL C opid ''cancel'')
              [(''Idempotency-Key'', mutationKey [''operation-cancel'', opid])] None True [200])
           (\<lambda>(_, _, data). lift_io (read_operation H opid data) return_io)))"

definition OperationResultResource ::
  "host \<Rightarrow> operation option \<Rightarrow> form_ref \<Rightarrow> bytes \<Rightarrow> bytes \<Rightarrow> host_error + resource" where
  "OperationResultResource H given ref name space =
     (case ValidateStableFormRef (h_libs H) ref of
        Some e \<Rightarrow> Inl (Identity e)
      | None \<Rightarrow>
          (case given of
             None \<Rightarrow> Inl NoTerminalResult
           | Some op \<Rightarrow>
               if \<not> op_done op then Inl NoTerminalResult
               else (case op_error op of
                       Some e \<Rightarrow> Inl (OperationFailed (op_id op) (oe_code e))
                     | None \<Rightarrow>
                         if op_result op = [] then Inl NoTerminalResult
                         else (case validateResourceResponseWire (h_transform H) (op_result op) True of
                                 Some e \<Rightarrow> Inl (Wire e)
                               | None \<Rightarrow>
                                   bind_res (decodeBody H (op_result op) dec_resource_envelope empty_resource) (\<lambda>out.
                                     case verifyResourceResponse ref name space out of
                                       Some e \<Rightarrow> Inl (Verification e)
                                     | None \<Rightarrow> Inr out)))))"

section \<open>Polling\<close>

definition finalizeOperation :: "operation \<Rightarrow> operation option \<times> host_error option" where
  "finalizeOperation op =
     (case op_error op of
        None \<Rightarrow> (Some op, None)
      | Some e \<Rightarrow>
          (Some op,
           Some (Api \<lparr>ae_status = (case map_of stableErrorHTTPStatusByCode (oe_code e) of None \<Rightarrow> 0 | Some s \<Rightarrow> s),
             ae_code = oe_code e, ae_message = oe_message e, ae_requestId = [],
             ae_retryable = (oe_retryable e \<and> List.member automaticallyRetryableErrorCodes (oe_code e)),
             ae_hostCode = oe_hostCode e, ae_retryAfter = 0, ae_protocolInvalid = False, ae_details = []\<rparr>)))"

definition waitForPoll :: "host \<Rightarrow> ctx \<Rightarrow> nat \<Rightarrow> int \<Rightarrow> world \<Rightarrow> bool \<times> world" where
  "waitForPoll H c attempt retryAfter w =
     (let delay = (if retryAfter > 0
                   then retryAfterDelay (cx_deadline c \<noteq> None) retryAfter pollMaxDelay
                   else h_random H w (pollBackoffWindow attempt)) in
      wait_timer H c delay w)"

definition poll_ctx :: "ctx \<Rightarrow> int \<Rightarrow> ctx" where
  "poll_ctx c deadline = c\<lparr>cx_deadline := Some deadline\<rparr>"

text \<open>\<^verbatim>\<open>ctx.Err() != nil\<close>.\<close>

definition ctx_ended :: "ctx \<Rightarrow> world \<Rightarrow> bool" where
  "ctx_ended c w \<longleftrightarrow> (case ctx_done c of None \<Rightarrow> False | Some e \<Rightarrow> e \<le> w_now w)"

subsection \<open>The clock moves on\<close>

lemma ctx_done_poll: "\<exists>e. ctx_done (poll_ctx c deadline) = Some e \<and> e \<le> deadline"
  by (auto simp: ctx_done_def poll_ctx_def split: option.splits)

lemma wait_timer_now: "wait_timer H c delay w = (b, w') \<Longrightarrow> w_now w \<le> w_now w'"
  by (auto simp: wait_timer_def Let_def split: option.splits if_splits)

lemma waitForPoll_now: "waitForPoll H c attempt retryAfter w = (b, w') \<Longrightarrow> w_now w \<le> w_now w'"
  by (metis waitForPoll_def wait_timer_now)

lemma exchange_now:
  assumes "exchange H c rq w = (reply, w')"
  shows "w_now w \<le> w_now w'"
    and "reply \<noteq> NoReply \<Longrightarrow> w_now w < w_now w' \<and> (\<forall>e. ctx_done c = Some e \<longrightarrow> w_now w' \<le> e)"
  using assms
  by (auto simp: exchange_def Let_def ended_by_def end_time_def split: if_splits option.splits)

lemma read_no_reply [simp]: "read_response H now method ok NoReply = Failed RequestFailed"
  by (simp add: read_response_def)

lemma do_once:
  assumes "do_request H C c method url hs body False ok w = (r, w')"
  shows "w_now w \<le> w_now w'"
    and "r = Inr a \<Longrightarrow> w_now w < w_now w' \<and> (\<forall>e. ctx_done c = Some e \<longrightarrow> w_now w' \<le> e)"
  using assms exchange_now
  by (fastforce simp: do_request_def split: if_splits prod.splits outcome.splits)+

lemma getOperation_now:
  assumes "getOperation H C c opid w = (r, w')"
  shows "w_now w \<le> w_now w'"
    and "r = Inr a \<Longrightarrow> w_now w < w_now w' \<and> (\<forall>e. ctx_done c = Some e \<longrightarrow> w_now w' \<le> e)"
  using assms do_once
  by (fastforce simp: getOperation_def check_io_def bind_io_def lift_io_def
      split: option.splits prod.splits sum.splits)+

function await_loop ::
  "host \<Rightarrow> client \<Rightarrow> ctx \<Rightarrow> int \<Rightarrow> bytes \<Rightarrow> nat \<Rightarrow> operation \<Rightarrow> int \<Rightarrow> world
    \<Rightarrow> (operation option \<times> host_error option) \<times> world" where
  "await_loop H C c deadline opid attempt op retryAfter w =
     (if op_done op then (finalizeOperation op, w)
      else (case waitForPoll H (poll_ctx c deadline) attempt retryAfter w of
              (False, w1) \<Rightarrow> ((None, Some (NotTerminal opid ContextEnded)), w1)
            | (True, w1) \<Rightarrow>
                (case getOperation H C (poll_ctx c deadline) opid w1 of
                   (Inl e, w2) \<Rightarrow>
                     ((None, Some (if ctx_ended (poll_ctx c deadline) w2
                                   then NotTerminal opid ContextEnded else e)), w2)
                 | (Inr (op', retryAfter'), w2) \<Rightarrow>
                     await_loop H C c deadline opid (Suc attempt) op' retryAfter' w2)))"
  by pat_completeness auto
termination
proof (relation "measure (\<lambda>(H, C, c, deadline, opid, attempt, op, retryAfter, w). nat (deadline + 1 - w_now w))")
  fix H C c deadline opid attempt op retryAfter w x w1 xa w2 b op' retryAfter'
  assume "(x, w1) = waitForPoll H (poll_ctx c deadline) attempt retryAfter w"
    and "(xa, w2) = getOperation H C (poll_ctx c deadline) opid w1" and "xa = Inr b"
  note w = waitForPoll_now [OF this(1) [symmetric]] getOperation_now(2) [OF this(2) [symmetric] this(3)]
  obtain e where "ctx_done (poll_ctx c deadline) = Some e" "e \<le> deadline"
    using ctx_done_poll by blast
  with w have "w_now w < w_now w2" "w_now w2 \<le> deadline" by auto
  then show "((H, C, c, deadline, opid, Suc attempt, op', retryAfter', w2),
      H, C, c, deadline, opid, attempt, op, retryAfter, w) \<in> measure
        (\<lambda>(H, C, c, deadline, opid, attempt, op, retryAfter, w). nat (deadline + 1 - w_now w))"
    by simp
qed simp

declare await_loop.simps [simp del]

definition poll_deadline :: "client \<Rightarrow> ctx \<Rightarrow> int \<Rightarrow> int \<Rightarrow> int" where
  "poll_deadline C c now deadline =
     (if deadline > 0 then (case cx_deadline c of None \<Rightarrow> now + deadline | Some e \<Rightarrow> min e (now + deadline))
      else (case cx_deadline c of None \<Rightarrow> now + cl_overallDeadline C | Some e \<Rightarrow> e))"

definition awaitOperation ::
  "host \<Rightarrow> client \<Rightarrow> ctx \<Rightarrow> operation \<Rightarrow> int \<Rightarrow> int \<Rightarrow> world
    \<Rightarrow> (operation option \<times> host_error option) \<times> world" where
  "awaitOperation H C c op retryAfter deadline w =
     await_loop H C c (poll_deadline C c (w_now w) deadline) (op_id op) 0 op retryAfter w"

definition AwaitOperation ::
  "host \<Rightarrow> client \<Rightarrow> ctx \<Rightarrow> bytes \<Rightarrow> int \<Rightarrow> world \<Rightarrow> (operation option \<times> host_error option) \<times> world" where
  "AwaitOperation H C c opid deadline w =
     (case getOperation H C c opid w of
        (Inl e, w') \<Rightarrow> ((None, Some e), w')
      | (Inr (op, retryAfter), w') \<Rightarrow> awaitOperation H C c op retryAfter deadline w')"

end
