(* ===== verification/FieldNames.thy ===== *)
theory FieldNames
  imports FormModel GoUnicode
begin

text \<open>
  The field-name policy of \<^verbatim>\<open>formpackage/policy.go\<close>: how a member name is normalized and cut
  into tokens, and which names \<^verbatim>\<open>isForbiddenFieldName\<close> refuses. The word lists are those of the
  source, in its order.
\<close>

section \<open>The word lists\<close>

definition forbiddenNormalizedFields :: "bytes list" where
  "forbiddenNormalizedFields =
  [
   ''credential'', ''credentials'', ''credentialid'', ''credentialids'', ''credentialref'',
   ''credentialrefs'', ''credentialname'', ''credentialvalue'', ''secret'', ''secrets'',
   ''secretid'', ''secretids'', ''secretref'', ''secretrefs'', ''secretname'', ''secretvalue'',
   ''password'', ''passwords'', ''passphrase'', ''privatekey'', ''privatekeyid'',
   ''privatekeyref'', ''apikey'', ''apikeyid'', ''apikeyref'', ''apikeyvalue'',
   ''privatekeypem'', ''sshprivatekey'', ''token'', ''tokens'', ''tokenid'', ''tokenref'',
   ''accesstoken'', ''refreshtoken'', ''idtoken'', ''bearertoken'', ''authorization'',
   ''authorizationheader'', ''authheader'', ''bearer'', ''oauth'', ''oauthclient'',
   ''oauthclientid'', ''oauthclientsecret'', ''oidcclientsecret'', ''sessioncookie'',
   ''sessiontoken'', ''cookie'', ''cookies'', ''connectionstring'', ''signingkey'', ''sshkey'',
   ''operator'', ''operators'', ''operatorid'', ''operatorpolicy'', ''account'', ''accounts'',
   ''accountid'', ''target'', ''targets'', ''targetid'', ''targetpool'', ''targetpoolid'',
   ''poolid'', ''capacity'', ''activecapacity'', ''regioncapacity'', ''backendmanager'',
   ''managerid'', ''manageridentifier'', ''provider'', ''providerid'', ''providername'',
   ''providerconfig'', ''backend'', ''backendid'', ''implementationid'',
   ''selectedimplementation'', ''region'', ''regions'', ''regionid'', ''zone'', ''zones'',
   ''zoneid'', ''placement'', ''price'', ''prices'', ''pricing'', ''priceid'', ''unitprice'',
   ''monthlyprice'', ''sku'', ''skus'', ''billing'', ''billingplan'', ''billingaccount'',
   ''invoice'', ''invoices'', ''invoiceid'', ''payment'', ''payments'', ''paymentid'',
   ''paymentmethod'', ''paymentmethods'', ''currency'', ''currencies'', ''currencycode'',
   ''tax'', ''taxes'', ''taxcode'', ''taxrate'', ''quota'', ''quotas'', ''sla'', ''slapolicy'',
   ''servicelevelagreement'', ''supportpolicy'', ''serviceoffering'', ''serviceofferings'',
   ''serviceofferingid'', ''subscription'', ''subscriptions'', ''entitlement'',
   ''entitlements'', ''binary'', ''code'', ''exec'', ''executable'', ''command'', ''commands'',
   ''script'', ''scripts'', ''sourcecode'', ''validationcode'', ''adapter'', ''adaptercode'',
   ''runtimecode'', ''bytecode'', ''webassembly'', ''wasm'', ''plugin'', ''plugins''
  ]"

definition forbiddenFieldTokens :: "bytes list" where
  "forbiddenFieldTokens =
  [
   ''credential'', ''secret'', ''password'', ''passphrase'', ''token'', ''authorization'',
   ''bearer'', ''oauth'', ''cookie'', ''operator'', ''account'', ''target'', ''capacity'',
   ''provider'', ''backend'', ''implementation'', ''region'', ''zone'', ''placement'',
   ''price'', ''pricing'', ''sku'', ''billing'', ''invoice'', ''payment'', ''currency'',
   ''tax'', ''quota'', ''sla'', ''subscription'', ''entitlement'', ''binary'', ''code'',
   ''exec'', ''executable'', ''command'', ''script'', ''bytecode'', ''wasm'', ''plugin''
  ]"

definition forbiddenFieldPluralTokens :: "bytes list" where
  "forbiddenFieldPluralTokens =
  [
   ''credentials'', ''secrets'', ''passwords'', ''passphrases'', ''tokens'',
   ''authorizations'', ''bearers'', ''oauths'', ''cookies'', ''operators'', ''accounts'',
   ''targets'', ''capacities'', ''providers'', ''backends'', ''implementations'', ''regions'',
   ''zones'', ''placements'', ''prices'', ''pricings'', ''skus'', ''billings'', ''invoices'',
   ''payments'', ''currencies'', ''taxes'', ''quotas'', ''slas'', ''subscriptions'',
   ''entitlements'', ''binaries'', ''codes'', ''execs'', ''executables'', ''commands'',
   ''scripts'', ''bytecodes'', ''wasms'', ''plugins''
  ]"

definition forbiddenFieldTokenSequences :: "bytes list list" where
  "forbiddenFieldTokenSequences =
  [
   [''api'', ''key''],
   [''private'', ''key''],
   [''ssh'', ''key''],
   [''signing'', ''key''],
   [''service'', ''offering''],
   [''backend'', ''manager''],
   [''manager'', ''id''],
   [''manager'', ''identifier'']
  ]"

definition forbiddenNormalizedCompoundBases :: "bytes list" where
  "forbiddenNormalizedCompoundBases =
  [
   ''apikey'', ''privatekey'', ''sshkey'', ''sshprivatekey'', ''signingkey'',
   ''serviceoffering'', ''backendmanager'', ''managerid'', ''manageridentifier''
  ]"

definition forbiddenCompoundQualifiers :: "bytes list" where
  "forbiddenCompoundQualifiers =
  [
   ''id'', ''ids'', ''identifier'', ''identifiers'', ''ref'', ''refs'', ''name'', ''names'',
   ''value'', ''values'', ''pem'', ''material'', ''fingerprint'', ''header'', ''path'',
   ''file'', ''config'', ''configuration'', ''label'', ''labels''
  ]"

definition reviewedAnnotationFields :: "bytes list" where
  "reviewedAnnotationFields =
  [
   ''x-takoform-fieldPolicy'', ''x-takoform-binding'', ''x-takoform-target-formrefs'',
   ''x-takoform-required-interface'', ''x-takoform-discriminator'',
   ''x-takoform-standard-services'', ''x-takoform-required-entrypoint''
  ]"

section \<open>Tokens\<close>

definition is_word :: "unicode \<Rightarrow> nat \<Rightarrow> bool" where
  "is_word U r \<longleftrightarrow> u_letter U r \<or> u_digit U r"

definition normalizeFieldName :: "unicode \<Rightarrow> bytes \<Rightarrow> bytes" where
  "normalizeFieldName U s = encode_runes (map (u_to_lower U) (filter (is_word U) (runes s)))"

definition flush_token :: "unicode \<Rightarrow> nat list \<Rightarrow> bytes list" where
  "flush_token U current =
     (if current = [] then [] else [encode_runes (map (u_to_lower U) current)])"

definition case_boundary :: "unicode \<Rightarrow> nat \<Rightarrow> nat \<Rightarrow> nat list \<Rightarrow> bool" where
  "case_boundary U previous c rest \<longleftrightarrow>
     u_upper U c \<and>
     (u_lower U previous \<or> u_digit U previous \<or>
      (u_upper U previous \<and> (case rest of [] \<Rightarrow> False | n # _ \<Rightarrow> u_lower U n)))"

definition digit_boundary :: "unicode \<Rightarrow> nat \<Rightarrow> nat \<Rightarrow> bool" where
  "digit_boundary U previous c \<longleftrightarrow> u_digit U c \<noteq> u_digit U previous"

text \<open>The loop over the runes; \<open>current\<close> is the builder, \<open>previous\<close> the rune before.\<close>

fun split_tokens :: "unicode \<Rightarrow> nat list \<Rightarrow> nat \<Rightarrow> nat list \<Rightarrow> bytes list" where
  "split_tokens U current previous [] = flush_token U current"
| "split_tokens U current previous (c # rest) =
     (if \<not> is_word U c then flush_token U current @ split_tokens U [] c rest
      else if current \<noteq> [] \<and> (case_boundary U previous c rest \<or> digit_boundary U previous c)
        then flush_token U current @ split_tokens U [c] c rest
      else split_tokens U (current @ [c]) c rest)"

definition splitFieldNameTokens :: "unicode \<Rightarrow> bytes \<Rightarrow> bytes list" where
  "splitFieldNameTokens U s = split_tokens U [] 0 (runes s)"

section \<open>Forbidden names\<close>

definition isForbiddenToken :: "bytes \<Rightarrow> bool" where
  "isForbiddenToken token \<longleftrightarrow>
     List.member forbiddenFieldTokens token \<or> List.member forbiddenFieldPluralTokens token"

definition matchesCompoundToken :: "bytes \<Rightarrow> bytes \<Rightarrow> bool" where
  "matchesCompoundToken actual singular \<longleftrightarrow>
     (if actual = singular then True
      else if singular = ''id'' then actual = ''ids''
      else if singular = ''identifier'' then actual = ''identifiers''
      else if singular = ''key'' then actual = ''keys''
      else if singular = ''manager'' then actual = ''managers''
      else if singular = ''offering'' then actual = ''offerings''
      else False)"

fun matches_at :: "bytes list \<Rightarrow> bytes list \<Rightarrow> bool" where
  "matches_at ts [] = True"
| "matches_at [] (s # ss) = False"
| "matches_at (t # ts) (s # ss) = (matchesCompoundToken t s \<and> matches_at ts ss)"

fun sequence_somewhere :: "bytes list \<Rightarrow> bytes list \<Rightarrow> bool" where
  "sequence_somewhere [] ss = matches_at [] ss"
| "sequence_somewhere (t # ts) ss = (matches_at (t # ts) ss \<or> sequence_somewhere ts ss)"

definition containsTokenSequence :: "bytes list \<Rightarrow> bytes list \<Rightarrow> bool" where
  "containsTokenSequence tokens sequence \<longleftrightarrow>
     (if sequence = [] \<or> length tokens < length sequence then False
      else sequence_somewhere tokens sequence)"

definition compound_hit :: "bytes \<Rightarrow> bytes \<Rightarrow> bool" where
  "compound_hit normalized base \<longleftrightarrow>
     normalized = base \<or>
     (has_prefix normalized base \<and>
      List.member forbiddenCompoundQualifiers (trim_prefix normalized base))"

definition isForbiddenFieldName :: "unicode \<Rightarrow> bytes \<Rightarrow> bool" where
  "isForbiddenFieldName U value \<longleftrightarrow>
     (if List.member reviewedAnnotationFields value then False
      else if List.member forbiddenNormalizedFields (normalizeFieldName U value) then True
      else if list_ex (\<lambda>singular. compound_hit (normalizeFieldName U value) singular \<or>
                compound_hit (normalizeFieldName U value) (singular @ ''s''))
              forbiddenNormalizedCompoundBases then True
      else if list_ex isForbiddenToken (splitFieldNameTokens U value) then True
      else list_ex (containsTokenSequence (splitFieldNameTokens U value))
             forbiddenFieldTokenSequences)"

section \<open>Cutting at separators\<close>

context unicode_tables begin

lemma word_ascii: "r < 128 \<Longrightarrow> is_word U r \<longleftrightarrow> ascii_upper r \<or> ascii_lower r \<or> ascii_digit r"
  by (simp add: is_word_def letter digit)

end

text \<open>
  A separator ends the token: what precedes and what follows it are cut independently.
\<close>

lemma split_tokens_previous: "split_tokens U [] p rs = split_tokens U [] q rs"
  by (cases rs) auto

lemma case_boundary_append:
  assumes "\<not> u_lower U d"
  shows "case_boundary U p c (rs @ d # ts) = case_boundary U p c rs"
  using assms by (cases rs) (auto simp: case_boundary_def)

lemma split_tokens_separator:
  assumes "\<not> is_word U d" and "\<not> u_lower U d"
  shows "split_tokens U cur p (rs @ d # ts) = split_tokens U cur p rs @ split_tokens U [] q ts"
proof (induction rs arbitrary: cur p)
  case Nil
  then show ?case using assms(1) split_tokens_previous [of U d ts q] by simp
next
  case (Cons c rs)
  then show ?case by (simp add: case_boundary_append [OF assms(2)])
qed

context unicode_tables begin

lemma separator: "d < 128 \<Longrightarrow> \<not> ascii_upper d \<Longrightarrow> \<not> ascii_lower d \<Longrightarrow> \<not> ascii_digit d \<Longrightarrow>
    \<not> is_word U d \<and> \<not> u_lower U d"
  by (simp add: word_ascii lower)

end

definition lower_word :: "bytes \<Rightarrow> bool" where
  "lower_word t \<longleftrightarrow> t \<noteq> [] \<and> list_all (\<lambda>c. ascii_lower (code c)) t"

definition is_separator :: "char \<Rightarrow> bool" where
  "is_separator d \<longleftrightarrow>
     code d < 128 \<and> \<not> ascii_upper (code d) \<and> \<not> ascii_lower (code d) \<and> \<not> ascii_digit (code d)"

lemma lower_word_ascii: "lower_word t \<Longrightarrow> ascii_string t"
  by (auto simp: lower_word_def ascii_string_def ascii_lower_def list_all_iff)

text \<open>The lists hold lower-case words only.\<close>

lemma forbidden_tokens_lower:
  "list_all lower_word forbiddenFieldTokens \<and> list_all lower_word forbiddenFieldPluralTokens"
  by (simp add: forbiddenFieldTokens_def forbiddenFieldPluralTokens_def lower_word_def
      ascii_lower_def code_def)

lemma isForbiddenToken_lower: "isForbiddenToken t \<Longrightarrow> lower_word t"
  using forbidden_tokens_lower by (auto simp: isForbiddenToken_def list_all_iff)

definition capital :: "bytes \<Rightarrow> bytes" where
  "capital t = (case t of [] \<Rightarrow> [] | c # cs \<Rightarrow> char_of (code c - 32) # cs)"

context unicode_tables begin

lemma forbidden_by_token:
  "\<lbrakk>t \<in> set (splitFieldNameTokens U s); isForbiddenToken t; s \<notin> set reviewedAnnotationFields\<rbrakk>
   \<Longrightarrow> isForbiddenFieldName U s"
  by (auto simp: isForbiddenFieldName_def list_ex_iff)

end

text \<open>A token starts where the loop sees a boundary, and after every separator.\<close>

lemma case_boundary_next:
  assumes "u_lower U c \<longrightarrow> \<not> u_upper U (last (a # rs))"
  shows "case_boundary U p a (rs @ c # ts) = case_boundary U p a rs"
  using assms by (cases rs) (auto simp: case_boundary_def)

lemma split_tokens_boundary:
  assumes "is_word U c" and "u_lower U c \<longrightarrow> \<not> u_upper U (last rs)" and "rs \<noteq> []"
    and "is_word U (last rs) \<longrightarrow> case_boundary U (last rs) c ts \<or> digit_boundary U (last rs) c"
  shows "split_tokens U cur pr (rs @ c # ts) = split_tokens U cur pr rs @ split_tokens U [c] c ts"
  using assms
proof (induction rs arbitrary: cur pr)
  case (Cons a rs)
  have b: "case_boundary U pr a (rs @ c # ts) = case_boundary U pr a rs"
    using Cons.prems(2) by (rule case_boundary_next)
  show ?case
  proof (cases "rs = []")
    case True
    with Cons.prems b show ?thesis by (auto simp: flush_token_def)
  next
    case False
    with Cons show ?thesis by (simp add: b)
  qed
qed simp

section \<open>A word set off inside a name\<close>

text \<open>The three spellings of a lower-case word.\<close>

definition upper_char :: "char \<Rightarrow> char" where
  "upper_char c = char_of (code c - 32)"

definition spellings :: "bytes \<Rightarrow> bytes list" where
  "spellings t = [t, capital t, map upper_char t]"

text \<open>
  Where a word may start after the text \<open>p\<close> and end before the text \<open>q\<close>: at the ends of the
  name, at a separator, at a digit, and where the case changes.
\<close>

definition starts_after :: "bytes \<Rightarrow> bytes \<Rightarrow> bool" where
  "starts_after p w \<longleftrightarrow>
     p = [] \<or> is_separator (last p) \<or> ascii_digit (code (last p)) \<or>
     (ascii_upper (code (hd w)) \<and> (ascii_lower (code (last p)) \<or> ascii_lower (code (w ! 1))))"

definition ends_before :: "bytes \<Rightarrow> bytes \<Rightarrow> bool" where
  "ends_before w q \<longleftrightarrow>
     (case q of
       [] \<Rightarrow> True
     | d # q' \<Rightarrow> is_separator d \<or> ascii_digit (code d) \<or>
         (ascii_upper (code d) \<and>
          (ascii_lower (code (last w)) \<or> (case q' of [] \<Rightarrow> False | e # _ \<Rightarrow> ascii_lower (code e)))))"

lemma lower_upper_char:
  assumes "ascii_lower (code c)"
  shows "ascii_upper (code (upper_char c))" and "code (upper_char c) + 32 = code c"
  using assms by (auto simp: upper_char_def ascii_defs)

lemma spelled_word:
  assumes "w \<in> set (spellings t)" and "lower_word t"
  obtains a u where "w = a # u" and "list_all (\<lambda>c. ascii_lower (code c)) u \<or> list_all (\<lambda>c. ascii_upper (code c)) (a # u)"
    and "ascii_lower (code a) \<or> ascii_upper (code a)" and "length w = length t"
    and "ascii_string w"
proof -
  from assms(2) obtain b v where t: "t = b # v" "ascii_lower (code b)" "list_all (\<lambda>c. ascii_lower (code c)) v"
    by (cases t) (auto simp: lower_word_def)
  have c: "capital (b # v) = upper_char b # v" by (simp add: capital_def upper_char_def)
  have u: "list_all (\<lambda>c. ascii_upper (code c)) (map upper_char t)"
    using t lower_upper_char(1) by (simp add: list_all_iff)
  have s: "ascii_string x" if "list_all (\<lambda>c. ascii_lower (code c) \<or> ascii_upper (code c)) x" for x
    using that by (auto simp: ascii_string_def ascii_defs list_all_iff)
  from assms(1) consider "w = t" | "w = capital t" | "w = map upper_char t" by (auto simp: spellings_def)
  then show thesis
  proof cases
    case 1
    then show thesis using t lower_word_ascii [OF assms(2)] by (intro that [of b v]) (auto simp: list_all_iff)
  next
    case 2
    have "ascii_string (upper_char b # v)"
      using t lower_upper_char(1) [OF t(2)] by (intro s) (auto simp: list_all_iff)
    with 2 show thesis using t lower_upper_char(1) [OF t(2)]
      by (intro that [of "upper_char b" v]) (auto simp: list_all_iff c)
  next
    case 3
    have "ascii_string (map upper_char t)"
      using u by (intro s) (auto simp: list_all_iff)
    with 3 show thesis using t u lower_upper_char(1) [OF t(2)]
      by (intro that [of "upper_char b" "map upper_char v"]) (auto simp: list_all_iff)
  qed
qed

context unicode_tables begin

lemma lower_spelling:
  assumes "w \<in> set (spellings t)" and "lower_word t"
  shows "map (u_to_lower U) (map code w) = map code t"
proof -
  have l: "u_to_lower U (code c) = code c" if "ascii_lower (code c)" for c
    using that by (auto simp: to_lower ascii_defs)
  have u: "u_to_lower U (code (upper_char c)) = code c" if "ascii_lower (code c)" for c
    using lower_upper_char [OF that] by (auto simp: to_lower ascii_defs)
  have "capital t = upper_char (hd t) # tl t"
    using assms(2) by (cases t) (auto simp: lower_word_def capital_def upper_char_def)
  then show ?thesis
    using assms l u by (cases t) (auto simp: spellings_def lower_word_def list_all_iff)
qed

text \<open>Inside a spelling nothing is cut, so the word and only the word is one token.\<close>

lemma split_run:
  assumes "list_all (\<lambda>c. ascii_lower (code c)) u \<or> ascii_upper (code a) \<and> list_all (\<lambda>c. ascii_upper (code c)) u"
    and "cur \<noteq> []" and "\<not> ascii_digit (code a)" and "code a < 128"
  shows "split_tokens U cur (code a) (map code u) = flush_token U (cur @ map code u)"
  using assms
proof (induction u arbitrary: cur a)
  case (Cons c u)
  have w: "is_word U (code c)" using Cons.prems(1) by (auto simp: word_ascii ascii_defs)
  have "\<not> digit_boundary U (code a) (code c)"
    using Cons.prems by (auto simp: digit_boundary_def digit ascii_defs)
  moreover have "\<not> case_boundary U (code a) (code c) (map code u)"
    using Cons.prems by (cases u) (auto simp: case_boundary_def upper lower digit ascii_defs)
  ultimately show ?case
    using w Cons.prems Cons.IH [of c "cur @ [code c]"] by (auto simp: ascii_defs)
qed (simp add: flush_token_def)

lemma split_spelling:
  assumes "a # u \<in> set (spellings t)" and "lower_word t"
  shows "split_tokens U [code a] (code a) (map code u) = [t]"
proof -
  obtain b v where "a # u = b # v"
    and run: "list_all (\<lambda>c. ascii_lower (code c)) v \<or> list_all (\<lambda>c. ascii_upper (code c)) (b # v)"
    "ascii_lower (code b) \<or> ascii_upper (code b)"
    by (rule spelled_word [OF assms])
  then have "split_tokens U [code a] (code a) (map code u) = flush_token U (map code (a # u))"
    by (subst split_run) (auto simp: ascii_defs)
  also have "\<dots> = [encode_runes (map code t)]"
    using lower_spelling [OF assms] by (simp add: flush_token_def)
  finally show ?thesis by (simp add: encode_runes_ascii [OF lower_word_ascii [OF assms(2)]])
qed

lemma cut_start:
  assumes "starts_after p (a # u)" and "ascii_string p" and "ascii_lower (code a) \<or> ascii_upper (code a)" and "u \<noteq> []"
  shows "\<exists>ts. splitFieldNameTokens U (p @ a # u @ q) = ts @ split_tokens U [code a] (code a) (runes (u @ q))
     \<or> \<not> ascii_string (u @ q)"
proof (cases "ascii_string (u @ q)")
  case True
  have w: "is_word U (code a)" and a: "code a < 128" using assms(3) by (auto simp: word_ascii ascii_defs)
  have r: "runes (p @ a # u @ q) = map code p @ code a # runes (u @ q)"
    using True assms(2) a by (simp add: runes_ascii)
  show ?thesis
  proof (cases "p = []")
    case True
    then show ?thesis using r w by (simp add: splitFieldNameTokens_def)
  next
    case False
    let ?l = "code (last p)"
    have l: "last (map code p) = ?l" "?l < 128"
      using False assms(2) by (simp_all add: last_map ascii_string_def list_all_iff)
    obtain b v where u: "u = b # v" using assms(4) by (cases u) auto
    have n: "runes (b # v @ q) = code b # map code (v @ q)" using True u by (simp add: runes_ascii)
    have "is_word U ?l \<longrightarrow> case_boundary U ?l (code a) (runes (u @ q)) \<or> digit_boundary U ?l (code a)"
      and "u_lower U (code a) \<longrightarrow> \<not> u_upper U ?l"
      using assms(1,3) False l(2) a True u
      by (auto simp: starts_after_def is_separator_def word_ascii case_boundary_def digit_boundary_def upper lower digit
          n ascii_defs)
    then have "split_tokens U [] 0 (map code p @ code a # runes (u @ q)) =
        split_tokens U [] 0 (map code p) @ split_tokens U [code a] (code a) (runes (u @ q))"
      using w False l(1) by (intro split_tokens_boundary) auto
    then show ?thesis using r by (simp add: splitFieldNameTokens_def)
  qed
qed simp

lemma cut_end:
  assumes "ends_before (a # u) q" and "a # u \<in> set (spellings t)" and "lower_word t" and "u \<noteq> []"
    and "ascii_string q"
  shows "\<exists>ts. split_tokens U [code a] (code a) (map code u @ map code q) = t # ts"
proof (cases q)
  case Nil
  then show ?thesis using split_spelling [OF assms(2,3)] by simp
next
  case (Cons d q')
  have d: "code d < 128" using assms(5) Cons by simp
  note one = split_spelling [OF assms(2,3)]
  show ?thesis
  proof (cases "is_separator d")
    case True
    then have "\<not> is_word U (code d) \<and> \<not> u_lower U (code d)" by (auto simp: is_separator_def separator)
    then show ?thesis using Cons one by (simp add: split_tokens_separator [where q = 0])
  next
    case False
    let ?l = "code (last u)"
    have l: "last (map code u) = ?l" using assms(4) by (simp add: last_map)
    obtain b v where "a # u = b # v" "list_all (\<lambda>c. ascii_lower (code c)) v \<or> list_all (\<lambda>c. ascii_upper (code c)) (b # v)"
      by (rule spelled_word [OF assms(2,3)])
    then have run: "ascii_lower ?l \<or> ascii_upper ?l" using assms(4) by (auto simp: list_all_iff)
    have e: "ascii_digit (code d) \<or> (ascii_upper (code d) \<and>
        (ascii_lower ?l \<or> (case q' of [] \<Rightarrow> False | e # _ \<Rightarrow> ascii_lower (code e))))"
      using assms(1,4) False Cons by (simp add: ends_before_def)
    have "case_boundary U ?l (code d) (map code q') \<or> digit_boundary U ?l (code d)"
      using e run assms(5) Cons
      by (cases q') (auto simp: case_boundary_def digit_boundary_def upper lower digit ascii_defs)
    moreover have "is_word U (code d)" "u_lower U (code d) \<longrightarrow> \<not> u_upper U ?l"
      using e d by (auto simp: word_ascii lower ascii_defs)
    ultimately have "split_tokens U [code a] (code a) (map code u @ code d # map code q') =
        split_tokens U [code a] (code a) (map code u) @ split_tokens U [code d] (code d) (map code q')"
      using assms(4) l by (intro split_tokens_boundary) auto
    then show ?thesis using Cons one by simp
  qed
qed

lemma set_off_token:
  assumes "w \<in> set (spellings t)" and "lower_word t" and "1 < length t" and "starts_after p w" and "ends_before w q"
    and "ascii_string p" and "ascii_string q"
  shows "t \<in> set (splitFieldNameTokens U (p @ w @ q))"
proof -
  obtain a u where w: "w = a # u" "ascii_lower (code a) \<or> ascii_upper (code a)" "length w = length t" "ascii_string w"
    by (rule spelled_word [OF assms(1,2)])
  with assms(3) have u: "u \<noteq> []" by auto
  have ascii: "ascii_string (u @ q)" using w(1,4) assms(7) by simp
  obtain xs where "splitFieldNameTokens U (p @ a # u @ q) = xs @ split_tokens U [code a] (code a) (runes (u @ q))"
    using cut_start [OF _ assms(6) w(2) u, of q] assms(4) w(1) ascii by auto
  moreover obtain ys where "split_tokens U [code a] (code a) (map code u @ map code q) = t # ys"
    using cut_end [OF _ _ assms(2) u assms(7)] assms(1,5) w(1) by blast
  ultimately show ?thesis using w(1) ascii by (simp add: runes_ascii)
qed

end

lemma forbidden_words_long:
  "list_all (\<lambda>t. 1 < length t) forbiddenFieldTokens \<and> list_all (\<lambda>t. 1 < length t) forbiddenFieldPluralTokens"
  by (simp add: forbiddenFieldTokens_def forbiddenFieldPluralTokens_def)

lemma isForbiddenToken_long: "isForbiddenToken t \<Longrightarrow> 1 < length t"
  using forbidden_words_long by (auto simp: isForbiddenToken_def list_all_iff)


lemmas spelling_samples = spellings_def capital_def upper_char_def starts_after_def ends_before_def is_separator_def
  ascii_string_def ascii_defs code_def char_of_def bit_Suc_0_iff


end
