(* ===== verification/ContentPolicy.thy ===== *)
theory ContentPolicy
  imports FieldNames
begin

text \<open>
  The data-only content policy of \<^verbatim>\<open>formpackage/policy.go\<close>: the recognizers of the reviewed
  bounded schemas and \<^verbatim>\<open>rejectForbiddenContent\<close>, which walks a decoded document and refuses
  the first forbidden member name. A location is the text the code builds, because the
  reviewed exception depends on its suffix. The theorems say that the walk accepts exactly
  the documents without an unexempted forbidden member, and that acceptance does not depend
  on the iteration order of any map in the document.
\<close>

section \<open>Sets and whole numbers\<close>

definition hasOnlyKeys :: "object \<Rightarrow> bytes list \<Rightarrow> bool" where
  "hasOnlyKeys m allowed \<longleftrightarrow> list_all (\<lambda>k. List.member allowed k) (keys m)"

fun stringValues_go :: "gval list \<Rightarrow> bytes list option" where
  "stringValues_go [] = Some []"
| "stringValues_go (v # vs) =
     (case as_str v of None \<Rightarrow> None | Some s \<Rightarrow> map_option (\<lambda>r. s # r) (stringValues_go vs))"

fun stringValues :: "gval \<Rightarrow> bytes list option" where
  "stringValues (VArr xs) = stringValues_go xs"
| "stringValues (VStrs xs) = Some xs"
| "stringValues _ = None"

definition sameStringSet :: "gval \<Rightarrow> bytes list \<Rightarrow> bool" where
  "sameStringSet v want \<longleftrightarrow>
     (case stringValues v of
        None \<Rightarrow> False
      | Some values \<Rightarrow>
          length values = length want \<and> list_all (\<lambda>w. List.member values w) want \<and>
          length (remdups values) = length want)"

definition stringSetContains :: "gval \<Rightarrow> bytes \<Rightarrow> bool" where
  "stringSetContains v want \<longleftrightarrow>
     (case stringValues v of None \<Rightarrow> False | Some values \<Rightarrow> List.member values want)"

text \<open>
  \<^verbatim>\<open>wholeNumber\<close>: the \<^verbatim>\<open>float64\<close> it returns is a whole number, so its value is an integer; an
  integer beyond 53 bits is rounded on the way.
\<close>

fun wholeNumber :: "gval \<Rightarrow> int option" where
  "wholeNumber (VNumber n) = map_option float_of_int (parse_int64 n)"
| "wholeNumber (VInt i) = Some (float_of_int i)"
| "wholeNumber (VFloat q) = (if of_int \<lfloor>q\<rfloor> = q then Some \<lfloor>q\<rfloor> else None)"
| "wholeNumber _ = None"

definition positiveWholeNumber :: "gval \<Rightarrow> bool" where
  "positiveWholeNumber v = (case wholeNumber v of Some n \<Rightarrow> n > 0 | None \<Rightarrow> False)"

definition isCanonicalSHA256 :: "bytes \<Rightarrow> bool" where
  "isCanonicalSHA256 value \<longleftrightarrow>
     length value = length ''sha256:'' + 64 \<and> has_prefix value ''sha256:'' \<and>
     list_all hex_rune (runes (drop (length ''sha256:'') value))"

section \<open>Reviewed schemas\<close>

definition closedStringConst :: "gval \<Rightarrow> bytes option" where
  "closedStringConst v =
     (case as_obj v of
        None \<Rightarrow> None
      | Some schema \<Rightarrow>
          if length schema \<noteq> 2 \<or> field schema ''type'' \<noteq> VStr ''string'' then None
          else (case as_str (field schema ''const'') of
                  Some c \<Rightarrow> if c \<noteq> [] then Some c else None
                | None \<Rightarrow> None))"

definition isCanonicalResourceNameSchema :: "gval \<Rightarrow> bool" where
  "isCanonicalResourceNameSchema v \<longleftrightarrow>
     (case as_obj v of
        None \<Rightarrow> False
      | Some schema \<Rightarrow>
          hasOnlyKeys schema [''type'', ''minLength'', ''maxLength'', ''pattern''] \<and>
          length schema = 4 \<and> field schema ''type'' = VStr ''string'' \<and>
          (case (wholeNumber (field schema ''minLength''), wholeNumber (field schema ''maxLength''),
                 as_str (field schema ''pattern'')) of
             (Some minimum, Some maximum, Some pattern) \<Rightarrow>
               minimum = 1 \<and> maximum \<ge> minimum \<and> pattern \<noteq> []
           | _ \<Rightarrow> False))"

definition isCanonicalResourceTargetValue :: "gval \<Rightarrow> bytes \<Rightarrow> bytes \<Rightarrow> bool" where
  "isCanonicalResourceTargetValue v apiVersion kind \<longleftrightarrow>
     (case as_obj v of
        None \<Rightarrow> False
      | Some target \<Rightarrow>
          length target = 3 \<and> hasOnlyKeys target [''apiVersion'', ''kind'', ''name''] \<and>
          field target ''apiVersion'' = VStr apiVersion \<and> field target ''kind'' = VStr kind \<and>
          (case as_str (field target ''name'') of Some name \<Rightarrow> name \<noteq> [] | None \<Rightarrow> False))"

fun exact_refs :: "bytes \<Rightarrow> bytes \<Rightarrow> bytes list \<Rightarrow> gval list \<Rightarrow> bool" where
  "exact_refs apiVersion kind seen [] = True"
| "exact_refs apiVersion kind seen (r # rs) =
     (case as_obj r of
        None \<Rightarrow> False
      | Some ref \<Rightarrow>
          length ref = 4 \<and>
          hasOnlyKeys ref [''apiVersion'', ''kind'', ''definitionVersion'', ''schemaDigest''] \<and>
          field ref ''apiVersion'' = VStr apiVersion \<and> field ref ''kind'' = VStr kind \<and>
          (case (as_str (field ref ''definitionVersion''), as_str (field ref ''schemaDigest'')) of
             (Some version, Some digest) \<Rightarrow>
               version \<noteq> [] \<and> isCanonicalSHA256 digest \<and>
               (let identity = version @ char_of (0::nat) # digest in
                \<not> List.member seen identity \<and> exact_refs apiVersion kind (identity # seen) rs)
           | _ \<Rightarrow> False))"

definition isReviewedExactFormRefs :: "gval \<Rightarrow> bytes \<Rightarrow> bytes \<Rightarrow> bool" where
  "isReviewedExactFormRefs v apiVersion kind \<longleftrightarrow>
     (case as_arr v of
        None \<Rightarrow> False
      | Some refs \<Rightarrow> refs \<noteq> [] \<and> exact_refs apiVersion kind [] refs)"

definition nonempty_str :: "gval \<Rightarrow> bool" where
  "nonempty_str v = (case as_str v of Some s \<Rightarrow> s \<noteq> [] | None \<Rightarrow> False)"

definition isReviewedRequiredInterface :: "gval \<Rightarrow> bool" where
  "isReviewedRequiredInterface v \<longleftrightarrow>
     (case as_obj v of
        None \<Rightarrow> False
      | Some ref \<Rightarrow>
          length ref = 4 \<and>
          hasOnlyKeys ref [''apiVersion'', ''name'', ''version'', ''schemaDigest''] \<and>
          list_all (\<lambda>k. nonempty_str (field ref k)) [''apiVersion'', ''name'', ''version''] \<and>
          (case as_str (field ref ''schemaDigest'') of Some d \<Rightarrow> isCanonicalSHA256 d | None \<Rightarrow> False))"

definition target_keys :: "bytes list" where
  "target_keys = [''type'', ''additionalProperties'', ''required'', ''properties'', ''description'',
     ''default'', ''x-takoform-target-formrefs'', ''x-takoform-required-interface'',
     ''x-takoform-required-entrypoint'']"

definition optional_text :: "object \<Rightarrow> bytes \<Rightarrow> bool" where
  "optional_text schema k \<longleftrightarrow> has_key schema k \<longrightarrow> nonempty_str (field schema k)"

definition isCanonicalResourceTargetSchema :: "gval \<Rightarrow> bool" where
  "isCanonicalResourceTargetSchema v \<longleftrightarrow>
     (case as_obj v of
        None \<Rightarrow> False
      | Some schema \<Rightarrow>
          field schema ''type'' = VStr ''object'' \<and>
          field schema ''additionalProperties'' = VBool False \<and>
          hasOnlyKeys schema target_keys \<and>
          sameStringSet (field schema ''required'') [''apiVersion'', ''kind'', ''name''] \<and>
          (case as_obj (field schema ''properties'') of
             None \<Rightarrow> False
           | Some properties \<Rightarrow>
               hasOnlyKeys properties [''apiVersion'', ''kind'', ''name''] \<and> length properties = 3 \<and>
               (case (closedStringConst (field properties ''apiVersion''),
                      closedStringConst (field properties ''kind'')) of
                  (Some apiVersion, Some kind) \<Rightarrow>
                    isCanonicalResourceNameSchema (field properties ''name'') \<and>
                    optional_text schema ''description'' \<and>
                    optional_text schema ''x-takoform-required-entrypoint'' \<and>
                    (has_key schema ''default'' \<longrightarrow>
                       isCanonicalResourceTargetValue (field schema ''default'') apiVersion kind) \<and>
                    has_key schema ''x-takoform-target-formrefs'' \<noteq>
                      has_key schema ''x-takoform-required-interface'' \<and>
                    (if has_key schema ''x-takoform-target-formrefs''
                     then isReviewedExactFormRefs (field schema ''x-takoform-target-formrefs'')
                            apiVersion kind
                     else isReviewedRequiredInterface (field schema ''x-takoform-required-interface''))
                | _ \<Rightarrow> False)))"

lemma field_size: "map_of m k = Some v \<Longrightarrow> size v < size (VObj m)"
  by (induction m) (auto split: if_splits)

lemma pair_size: "(k, v) \<in> set m \<Longrightarrow> size v < size (VObj m)"
  by (induction m) auto

function containsCanonicalResourceTargetSchema :: "gval \<Rightarrow> bool" where
  "containsCanonicalResourceTargetSchema v \<longleftrightarrow>
     isCanonicalResourceTargetSchema v \<or>
     (case v of
        VObj schema \<Rightarrow>
          (case map_of schema ''properties'' of
             Some (VObj properties) \<Rightarrow>
               list_ex (\<lambda>p. containsCanonicalResourceTargetSchema (snd p)) properties
           | _ \<Rightarrow> False) \<or>
          (case map_of schema ''items'' of
             Some items \<Rightarrow> containsCanonicalResourceTargetSchema items
           | None \<Rightarrow> False)
      | _ \<Rightarrow> False)"
  by pat_completeness auto
termination
proof (relation "measure size", goal_cases)
  case (2 v schema w properties p)
  then have "size w < size v" "size (snd p) < size w"
    using field_size [of schema "''properties''" w] pair_size [of "fst p" "snd p" properties] by auto
  then show ?case by simp
next
  case (3 v schema items)
  then show ?case using field_size by auto
qed auto

declare containsCanonicalResourceTargetSchema.simps [simp del]

fun tagged_branches :: "bytes \<Rightarrow> bytes list \<Rightarrow> gval list \<Rightarrow> bool" where
  "tagged_branches discriminator tags [] = True"
| "tagged_branches discriminator tags (b # bs) =
     (case as_obj b of
        None \<Rightarrow> False
      | Some branch \<Rightarrow>
          field branch ''type'' = VStr ''object'' \<and>
          field branch ''additionalProperties'' = VBool False \<and>
          hasOnlyKeys branch [''type'', ''additionalProperties'', ''required'', ''properties''] \<and>
          (case as_obj (field branch ''properties'') of
             None \<Rightarrow> False
           | Some properties \<Rightarrow>
               stringSetContains (field branch ''required'') discriminator \<and>
               (case closedStringConst (field properties discriminator) of
                  None \<Rightarrow> False
                | Some tag \<Rightarrow>
                    \<not> List.member tags tag \<and>
                    list_ex (\<lambda>p. fst p \<noteq> discriminator \<and> containsCanonicalResourceTargetSchema (snd p))
                      properties \<and>
                    tagged_branches discriminator (tag # tags) bs)))"

definition isClosedTaggedTargetUnionSchema :: "gval \<Rightarrow> bool" where
  "isClosedTaggedTargetUnionSchema v \<longleftrightarrow>
     (case as_obj v of
        None \<Rightarrow> False
      | Some schema \<Rightarrow>
          hasOnlyKeys schema [''oneOf'', ''x-takoform-discriminator'', ''description'', ''default''] \<and>
          (case as_str (field schema ''x-takoform-discriminator'') of
             None \<Rightarrow> False
           | Some discriminator \<Rightarrow>
               discriminator \<noteq> [] \<and> optional_text schema ''description'' \<and>
               (case as_arr (field schema ''oneOf'') of
                  None \<Rightarrow> False
                | Some branches \<Rightarrow>
                    2 \<le> length branches \<and> length branches \<le> 16 \<and>
                    tagged_branches discriminator [] branches)))"

definition isBoundedDeclarativeCommandSchema :: "gval \<Rightarrow> bool" where
  "isBoundedDeclarativeCommandSchema v \<longleftrightarrow>
     (case as_obj v of
        None \<Rightarrow> False
      | Some schema \<Rightarrow>
          field schema ''type'' = VStr ''array'' \<and> positiveWholeNumber (field schema ''maxItems'') \<and>
          (case as_obj (field schema ''items'') of
             None \<Rightarrow> False
           | Some items \<Rightarrow>
               field items ''type'' = VStr ''string'' \<and>
               positiveWholeNumber (field items ''maxLength'') \<and>
               nonempty_str (field items ''pattern'')))"

definition isBoundedDeclarativeIntegerSchema :: "gval \<Rightarrow> bool" where
  "isBoundedDeclarativeIntegerSchema v \<longleftrightarrow>
     (case as_obj v of
        None \<Rightarrow> False
      | Some schema \<Rightarrow>
          field schema ''type'' = VStr ''integer'' \<and>
          (case (wholeNumber (field schema ''minimum''), wholeNumber (field schema ''maximum'')) of
             (Some minimum, Some maximum) \<Rightarrow> minimum \<le> maximum
           | _ \<Rightarrow> False))"

definition isReviewedBoundedDesiredFieldSchema :: "bytes \<Rightarrow> gval \<Rightarrow> bool" where
  "isReviewedBoundedDesiredFieldSchema name v \<longleftrightarrow>
     (if name = ''command'' then isBoundedDeclarativeCommandSchema v
      else if name = ''concurrencyTarget'' then isBoundedDeclarativeIntegerSchema v
      else if name = ''target'' then
        isCanonicalResourceTargetSchema v \<or> isClosedTaggedTargetUnionSchema v
      else False)"

section \<open>The walk\<close>

datatype policy_error = ForbiddenField bytes bytes

definition at_desired :: "bytes \<Rightarrow> bool" where
  "at_desired location = has_suffix location ''desiredSchema.properties''"

definition index_location :: "bytes \<Rightarrow> nat \<Rightarrow> bytes" where
  "index_location location i = location @ ''['' @ decimal i @ '']''"

definition member_location :: "bytes \<Rightarrow> bytes \<Rightarrow> bytes" where
  "member_location location key = location @ ''.'' @ key"

fun rejectForbiddenContent :: "unicode \<Rightarrow> gval \<Rightarrow> bytes \<Rightarrow> policy_error option"
  and reject_fields :: "unicode \<Rightarrow> object \<Rightarrow> bytes \<Rightarrow> policy_error option"
  and reject_items :: "unicode \<Rightarrow> gval list \<Rightarrow> bytes \<Rightarrow> nat \<Rightarrow> policy_error option" where
  "rejectForbiddenContent U (VObj m) location = reject_fields U m location"
| "rejectForbiddenContent U (VArr xs) location = reject_items U xs location 0"
| "rejectForbiddenContent U _ location = None"
| "reject_fields U [] location = None"
| "reject_fields U ((key, child) # rest) location =
     (if at_desired location \<and> isReviewedBoundedDesiredFieldSchema key child then
        (case rejectForbiddenContent U child (member_location location key) of
           Some e \<Rightarrow> Some e | None \<Rightarrow> reject_fields U rest location)
      else if isForbiddenFieldName U key then Some (ForbiddenField key location)
      else (case rejectForbiddenContent U child (member_location location key) of
              Some e \<Rightarrow> Some e | None \<Rightarrow> reject_fields U rest location))"
| "reject_items U [] location i = None"
| "reject_items U (x # xs) location i =
     (case rejectForbiddenContent U x (index_location location i) of
        Some e \<Rightarrow> Some e | None \<Rightarrow> reject_items U xs location (Suc i))"

fun fixture_fields :: "unicode \<Rightarrow> object \<Rightarrow> object \<Rightarrow> bytes \<Rightarrow> policy_error option" where
  "fixture_fields U properties [] location = None"
| "fixture_fields U properties ((key, child) # rest) location =
     (if has_key properties key \<and> isReviewedBoundedDesiredFieldSchema key (field properties key) then
        (case rejectForbiddenContent U child (member_location location key) of
           Some e \<Rightarrow> Some e | None \<Rightarrow> fixture_fields U properties rest location)
      else if isForbiddenFieldName U key then Some (ForbiddenField key location)
      else (case rejectForbiddenContent U child (member_location location key) of
              Some e \<Rightarrow> Some e | None \<Rightarrow> fixture_fields U properties rest location))"

definition rejectForbiddenDesiredFixtureContent ::
    "unicode \<Rightarrow> gval \<Rightarrow> object \<Rightarrow> bytes \<Rightarrow> policy_error option" where
  "rejectForbiddenDesiredFixtureContent U v desiredSchema location =
     (case as_obj v of
        None \<Rightarrow> rejectForbiddenContent U v location
      | Some m \<Rightarrow>
          fixture_fields U (case as_obj (field desiredSchema ''properties'') of Some p \<Rightarrow> p | None \<Rightarrow> [])
            m location)"

section \<open>What the walk accepts\<close>

text \<open>Member \<open>k\<close> with value \<open>c\<close> occurs in the document, in the object at location \<open>l\<close>.\<close>

inductive occurs :: "gval \<Rightarrow> bytes \<Rightarrow> bytes \<Rightarrow> gval \<Rightarrow> bytes \<Rightarrow> bool" where
  here: "(k, c) \<in> set m \<Longrightarrow> occurs (VObj m) location k c location"
| below: "\<lbrakk>(k', c') \<in> set m; occurs c' (member_location location k') k c l\<rbrakk>
    \<Longrightarrow> occurs (VObj m) location k c l"
| item: "\<lbrakk>i < length xs; occurs (xs ! i) (index_location location i) k c l\<rbrakk>
    \<Longrightarrow> occurs (VArr xs) location k c l"

inductive_simps occurs_obj: "occurs (VObj m) location k c l"
inductive_simps occurs_arr: "occurs (VArr xs) location k c l"
inductive_cases occurs_scalarE: "occurs VNull location k c l" "occurs (VBool b) location k c l"
  "occurs (VNumber n) location k c l" "occurs (VInt i) location k c l" "occurs (VFloat q) location k c l"
  "occurs (VStr s) location k c l" "occurs (VStrs ss) location k c l"

definition member_allowed :: "unicode \<Rightarrow> bytes \<Rightarrow> gval \<Rightarrow> bytes \<Rightarrow> bool" where
  "member_allowed U k c l \<longleftrightarrow>
     (at_desired l \<and> isReviewedBoundedDesiredFieldSchema k c) \<or> \<not> isForbiddenFieldName U k"

lemma reject_fields_Cons:
  "reject_fields U ((k, c) # rest) location =
     (if member_allowed U k c location then
        (case rejectForbiddenContent U c (member_location location k) of
           Some e \<Rightarrow> Some e | None \<Rightarrow> reject_fields U rest location)
      else Some (ForbiddenField k location))"
  by (simp add: member_allowed_def)

lemma reject_fields_None:
  "reject_fields U m location = None \<longleftrightarrow>
     (\<forall>(k, c)\<in>set m. member_allowed U k c location \<and>
        rejectForbiddenContent U c (member_location location k) = None)"
  by (induction m)
    (auto simp: reject_fields_Cons simp del: reject_fields.simps(2) split: option.splits if_splits)

lemma reject_items_None:
  "reject_items U xs location i = None \<longleftrightarrow>
     (\<forall>j<length xs. rejectForbiddenContent U (xs ! j) (index_location location (i + j)) = None)"
proof (induction xs arbitrary: i)
  case (Cons x xs)
  then show ?case
    by (simp split: option.splits) (force simp: less_Suc_eq_0_disj)
qed simp

lemma occurs_rejected:
  "occurs v location k c l \<Longrightarrow> rejectForbiddenContent U v location = None \<Longrightarrow> member_allowed U k c l"
  by (induction rule: occurs.induct) (auto simp: reject_fields_None reject_items_None)

lemma reject_items_Some:
  "reject_items U xs location i = Some e \<Longrightarrow>
     \<exists>j<length xs. rejectForbiddenContent U (xs ! j) (index_location location (i + j)) = Some e"
proof (induction xs arbitrary: i)
  case (Cons x xs)
  show ?case
  proof (cases "rejectForbiddenContent U x (index_location location i)")
    case None
    with Cons.prems have "reject_items U xs location (Suc i) = Some e" by simp
    from Cons.IH [OF this] obtain j where
      "j < length xs" "rejectForbiddenContent U (xs ! j) (index_location location (Suc i + j)) = Some e"
      by blast
    then show ?thesis by (intro exI [of _ "Suc j"]) simp
  next
    case (Some e')
    with Cons.prems show ?thesis by (intro exI [of _ 0]) simp
  qed
qed simp

lemma reject_fields_Some:
  "reject_fields U m location = Some e \<Longrightarrow>
     \<exists>k c. (k, c) \<in> set m \<and>
       (rejectForbiddenContent U c (member_location location k) = Some e \<or>
        (e = ForbiddenField k location \<and> \<not> member_allowed U k c location))"
proof (induction m)
  case (Cons p m)
  then show ?case
    by (cases p) (force simp: reject_fields_Cons simp del: reject_fields.simps(2)
        split: option.splits if_splits)
qed simp

lemma rejected_occurs:
  "rejectForbiddenContent U v location = Some (ForbiddenField k l) \<Longrightarrow>
     \<exists>c. occurs v location k c l \<and> \<not> member_allowed U k c l"
proof (induction v arbitrary: location)
  case (VArr xs)
  then obtain j where "j < length xs"
    "rejectForbiddenContent U (xs ! j) (index_location location j) = Some (ForbiddenField k l)"
    using reject_items_Some [of U xs location 0] by auto
  with VArr.IH [of "xs ! j"] show ?case unfolding occurs_arr by force
next
  case (VObj m)
  then obtain k' c' where mem: "(k', c') \<in> set m" and
    alt: "rejectForbiddenContent U c' (member_location location k') = Some (ForbiddenField k l) \<or>
      (k = k' \<and> l = location \<and> \<not> member_allowed U k' c' location)"
    using reject_fields_Some [of U m location] by fastforce
  have IH: "rejectForbiddenContent U c' loc = Some (ForbiddenField k l) \<Longrightarrow>
      \<exists>c. occurs c' loc k c l \<and> \<not> member_allowed U k c l" for loc
    using VObj.IH [of "(k', c')" c'] mem by simp
  then show ?case using alt mem unfolding occurs_obj by blast
qed auto

lemma occurs_all_accepted:
  assumes "\<forall>k c l. occurs v location k c l \<longrightarrow> member_allowed U k c l"
  shows "rejectForbiddenContent U v location = None"
proof (cases "rejectForbiddenContent U v location")
  case (Some e)
  obtain k l where "e = ForbiddenField k l" by (cases e)
  with Some assms show ?thesis using rejected_occurs [of U v location k l] by blast
qed

text \<open>
  C25. The content policy is exact: a document is accepted precisely when every member that
  occurs anywhere in it is either an ordinary name or a reviewed, bounded desired field.
\<close>

theorem policy_exact:
  "(rejectForbiddenContent U v location = None) =
     (\<nexists>k c l. occurs v location k c l \<and> \<not> member_allowed U k c l)"
  using occurs_rejected occurs_all_accepted by blast

section \<open>Iteration order\<close>

lemma related_objE:
  assumes "value_eq v v'" and "wf_value v"
  obtains m m' where "v = VObj m" "v' = VObj m'" "value_eq (VObj m) (VObj m')" "distinct (keys m)" "wf_fields m"
  | "as_obj v = None" "as_obj v' = None"
proof (cases v)
  case (VObj m)
  then show ?thesis using assms value_eq_obj [OF assms(1), of m] that(1) by auto
next
  case (VArr xs)
  then show ?thesis using value_eq_arr [OF assms(1), of xs] that(2) by auto
qed (use assms(1) that(2) in \<open>cases, auto\<close>)+

lemma wholeNumber_eq: "value_eq v v' \<Longrightarrow> wholeNumber v' = wholeNumber v"
  by (cases rule: value_eq.cases) auto

lemma stringValues_go_eq: "list_all2 value_eq xs ys \<Longrightarrow> stringValues_go ys = stringValues_go xs"
proof (induction rule: list_all2_induct)
  case (Cons x xs y ys)
  then show ?case using value_eq_scalar(1) [OF Cons.hyps(1)] by (simp cong: option.case_cong)
qed simp

lemma stringValues_eq: "value_eq v v' \<Longrightarrow> stringValues v' = stringValues v"
  by (cases rule: value_eq.cases) (auto simp: stringValues_go_eq)

lemma value_eq_str: "value_eq v v' \<Longrightarrow> v' = VStr s \<longleftrightarrow> v = VStr s"
  using value_eq_scalar(4) by blast

lemma value_eq_bool: "value_eq v v' \<Longrightarrow> v' = VBool s \<longleftrightarrow> v = VBool s"
  using value_eq_scalar(5) by blast

lemma hasOnlyKeys_set: "hasOnlyKeys m ks \<longleftrightarrow> set (keys m) \<subseteq> set ks"
  by (auto simp: hasOnlyKeys_def list_all_iff)

lemma related_facts:
  assumes "value_eq (VObj m) (VObj m')" and "distinct (keys m)"
  shows "length m' = length m" and "hasOnlyKeys m' ks = hasOnlyKeys m ks" and "has_key m' k = has_key m k"
    and "as_str (field m' k) = as_str (field m k)"
    and "field m' k = VStr s \<longleftrightarrow> field m k = VStr s" and "field m' k = VBool b \<longleftrightarrow> field m k = VBool b"
    and "wholeNumber (field m' k) = wholeNumber (field m k)"
    and "positiveWholeNumber (field m' k) = positiveWholeNumber (field m k)"
    and "nonempty_str (field m' k) = nonempty_str (field m k)"
    and "optional_text m' k = optional_text m k"
    and "sameStringSet (field m' k) ws = sameStringSet (field m k) ws"
    and "stringSetContains (field m' k) w = stringSetContains (field m k) w"
proof -
  have v: "value_eq (field m k) (field m' k)" for k using assms by (rule value_eq_field)
  show "length m' = length m" and "hasOnlyKeys m' ks = hasOnlyKeys m ks" and "has_key m' k = has_key m k"
    and "as_str (field m' k) = as_str (field m k)"
    and "field m' k = VStr s \<longleftrightarrow> field m k = VStr s" and "field m' k = VBool b \<longleftrightarrow> field m k = VBool b"
    and "wholeNumber (field m' k) = wholeNumber (field m k)"
    and "positiveWholeNumber (field m' k) = positiveWholeNumber (field m k)"
    and "nonempty_str (field m' k) = nonempty_str (field m k)"
    and "optional_text m' k = optional_text m k"
    and "sameStringSet (field m' k) ws = sameStringSet (field m k) ws"
    and "stringSetContains (field m' k) w = stringSetContains (field m k) w"
    using value_eq_shape [OF assms(1)]
    by (simp_all add: hasOnlyKeys_set value_eq_scalar(1) [OF v] value_eq_str [OF v] value_eq_bool [OF v]
        wholeNumber_eq [OF v] positiveWholeNumber_def nonempty_str_def optional_text_def
        sameStringSet_def stringSetContains_def stringValues_eq [OF v])
qed

lemma closedStringConst_eq:
  assumes "value_eq v v'" and "wf_value v"
  shows "closedStringConst v' = closedStringConst v"
  using assms
  by (cases rule: related_objE) (auto simp: closedStringConst_def related_facts)

lemma isCanonicalResourceNameSchema_eq:
  assumes "value_eq v v'" and "wf_value v"
  shows "isCanonicalResourceNameSchema v' = isCanonicalResourceNameSchema v"
  using assms
  by (cases rule: related_objE) (simp_all add: isCanonicalResourceNameSchema_def related_facts)

lemma isCanonicalResourceTargetValue_eq:
  assumes "value_eq v v'" and "wf_value v"
  shows "isCanonicalResourceTargetValue v' a k = isCanonicalResourceTargetValue v a k"
  using assms
  by (cases rule: related_objE) (simp_all add: isCanonicalResourceTargetValue_def related_facts)

lemma isReviewedRequiredInterface_eq:
  assumes "value_eq v v'" and "wf_value v"
  shows "isReviewedRequiredInterface v' = isReviewedRequiredInterface v"
  using assms
  by (cases rule: related_objE) (simp_all add: isReviewedRequiredInterface_def related_facts)

lemma exact_refs_eq:
  assumes "list_all2 value_eq xs ys" and "wf_values xs"
  shows "exact_refs a k seen ys = exact_refs a k seen xs"
  using assms
proof (induction arbitrary: seen rule: list_all2_induct)
  case (Cons x xs y ys)
  from Cons.hyps(1) have "wf_value x" using Cons.prems by simp
  with Cons.hyps(1) show ?case
    by (cases rule: related_objE)
      (use Cons in \<open>simp_all add: related_facts Let_def split: option.splits\<close>)
qed simp

lemma isReviewedExactFormRefs_eq:
  assumes "value_eq v v'" and "wf_value v"
  shows "isReviewedExactFormRefs v' a k = isReviewedExactFormRefs v a k"
  using assms
  by (cases rule: value_eq.cases)
    (auto simp: isReviewedExactFormRefs_def exact_refs_eq)

lemma isCanonicalResourceTargetSchema_eq:
  assumes "value_eq v v'" and "wf_value v"
  shows "isCanonicalResourceTargetSchema v' = isCanonicalResourceTargetSchema v"
  using assms
proof (cases rule: related_objE)
  case (1 m m')
  note rel = value_eq_field [OF 1(3,4)] wf_field [OF 1(5)]
  note facts = related_facts [OF 1(3,4)]
  from rel(1) [of "''properties''"] rel(2) [of "''properties''"] show ?thesis
  proof (cases rule: related_objE)
    case (1 p p')
    note prel = value_eq_field [OF 1(3,4)] wf_field [OF 1(5)]
    have "closedStringConst (field p' k) = closedStringConst (field p k)" for k
      by (rule closedStringConst_eq) (rule prel)+
    moreover have "isCanonicalResourceNameSchema (field p' k) = isCanonicalResourceNameSchema (field p k)" for k
      by (rule isCanonicalResourceNameSchema_eq) (rule prel)+
    moreover have "isCanonicalResourceTargetValue (field m' k) a b = isCanonicalResourceTargetValue (field m k) a b"
      for k a b by (rule isCanonicalResourceTargetValue_eq) (rule rel)+
    moreover have "isReviewedExactFormRefs (field m' k) a b = isReviewedExactFormRefs (field m k) a b"
      for k a b by (rule isReviewedExactFormRefs_eq) (rule rel)+
    moreover have "isReviewedRequiredInterface (field m' k) = isReviewedRequiredInterface (field m k)"
      for k by (rule isReviewedRequiredInterface_eq) (rule rel)+
    ultimately show ?thesis
      using 1(1,2) \<open>v = VObj m\<close> \<open>v' = VObj m'\<close>
      by (simp add: isCanonicalResourceTargetSchema_def facts related_facts [OF 1(3,4)]
          cong: option.case_cong)
  next
    case 2
    then show ?thesis
      using \<open>v = VObj m\<close> \<open>v' = VObj m'\<close> by (simp add: isCanonicalResourceTargetSchema_def facts)
  qed
qed (simp add: isCanonicalResourceTargetSchema_def)

lemma map_of_field: "map_of m k = (if has_key m k then Some (field m k) else None)"
  by (auto simp: has_key_def field_def)

lemma containsCanonical_obj:
  "containsCanonicalResourceTargetSchema (VObj m) \<longleftrightarrow>
     isCanonicalResourceTargetSchema (VObj m) \<or>
     (\<exists>ps. field m ''properties'' = VObj ps \<and> (\<exists>(k, p)\<in>set ps. containsCanonicalResourceTargetSchema p)) \<or>
     (has_key m ''items'' \<and> containsCanonicalResourceTargetSchema (field m ''items''))"
proof -
  have p: "has_key m k \<and> (case field m k of VObj ps \<Rightarrow> f ps | _ \<Rightarrow> False) \<longleftrightarrow>
      (\<exists>ps. field m k = VObj ps \<and> f ps)" for k f
    using field_absent [of m k] by (cases "field m k") auto
  have i: "(case map_of m k of Some v \<Rightarrow> f v | None \<Rightarrow> False) \<longleftrightarrow> has_key m k \<and> f (field m k)" for k f
    by (cases "map_of m k") (auto simp: field_def has_key_def)
  show ?thesis
    by (subst containsCanonicalResourceTargetSchema.simps)
      (simp add: p i list_ex_iff case_prod_unfold)
qed

lemma containsCanonical_scalar:
  "as_obj v = None \<Longrightarrow> \<not> containsCanonicalResourceTargetSchema v"
  by (subst containsCanonicalResourceTargetSchema.simps)
    (cases v; simp add: isCanonicalResourceTargetSchema_def)

lemma containsCanonical_imp:
  "value_eq v v' \<Longrightarrow> wf_value v \<Longrightarrow>
     containsCanonicalResourceTargetSchema v \<Longrightarrow> containsCanonicalResourceTargetSchema v'"
proof (induction "size v" arbitrary: v v' rule: less_induct)
  case less
  from less.prems(1,2) show ?case
  proof (cases rule: related_objE)
    case (1 m m')
    note rel = value_eq_field [OF 1(3,4)] wf_field [OF 1(5)]
    from less.prems(3) 1(1) consider
      (self) "isCanonicalResourceTargetSchema (VObj m)"
      | (props) ps k p where "field m ''properties'' = VObj ps" "(k, p) \<in> set ps"
          "containsCanonicalResourceTargetSchema p"
      | (items) "has_key m ''items''" "containsCanonicalResourceTargetSchema (field m ''items'')"
      by (auto simp: containsCanonical_obj)
    then show ?thesis
    proof cases
      case self
      then show ?thesis
        using isCanonicalResourceTargetSchema_eq [OF less.prems(1,2)] 1 by (simp add: containsCanonical_obj)
    next
      case props
      have hk: "has_key m ''properties''" using props(1) field_absent by fastforce
      obtain ps' where ps': "field m' ''properties'' = VObj ps'" "value_eq (VObj ps) (VObj ps')"
        using value_eq_obj [OF rel(1) props(1)] by auto
      obtain p' where p': "(k, p') \<in> set ps'" "value_eq p p'"
        using value_eq_field_mem [OF ps'(2) props(2)] by blast
      have "size (VObj ps) < size v" using field_size [of m "''properties''"] hk props(1) 1(1) by (simp add: map_of_field)
      moreover have "size p < size (VObj ps)" using props(2) by (rule pair_size)
      moreover have "wf_value p"
        using rel(2) [of "''properties''"] props by (auto simp: wf_fields_iff)
      ultimately have "containsCanonicalResourceTargetSchema p'"
        using less.hyps [of p p'] p'(2) props(3) by simp
      with ps'(1) p'(1) show ?thesis using 1(2) by (auto simp: containsCanonical_obj)
    next
      case items
      have "size (field m ''items'') < size v"
        using field_size [of m "''items''"] items(1) 1(1) by (simp add: map_of_field)
      then have "containsCanonicalResourceTargetSchema (field m' ''items'')"
        using less.hyps [OF _ rel(1) rel(2) items(2)] by blast
      then show ?thesis
        using items(1) related_facts(3) [OF 1(3,4)] 1(2) by (simp add: containsCanonical_obj)
    qed
  next
    case 2
    then show ?thesis using less.prems(3) containsCanonical_scalar by blast
  qed
qed

lemma containsCanonical_eq:
  "value_eq v v' \<Longrightarrow> wf_value v \<Longrightarrow>
     containsCanonicalResourceTargetSchema v' = containsCanonicalResourceTargetSchema v"
  using containsCanonical_imp [of v v'] containsCanonical_imp [of v' v] value_eq_sym value_eq_wf by blast

lemma reviewed_property_eq:
  assumes "value_eq (VObj m) (VObj m')" and "distinct (keys m)" and "wf_fields m"
  shows "list_ex (\<lambda>p. fst p \<noteq> d \<and> containsCanonicalResourceTargetSchema (snd p)) m' =
         list_ex (\<lambda>p. fst p \<noteq> d \<and> containsCanonicalResourceTargetSchema (snd p)) m"
proof -
  have step: "list_ex (\<lambda>p. fst p \<noteq> d \<and> containsCanonicalResourceTargetSchema (snd p)) b"
    if "value_eq (VObj a) (VObj b)" "wf_fields a"
      "list_ex (\<lambda>p. fst p \<noteq> d \<and> containsCanonicalResourceTargetSchema (snd p)) a" for a b
  proof -
    note rel = that(1)
    from that(3) obtain k v where kv: "(k, v) \<in> set a" "k \<noteq> d" "containsCanonicalResourceTargetSchema v"
      by (auto simp: list_ex_iff)
    obtain v' where v': "(k, v') \<in> set b" "value_eq v v'" using value_eq_field_mem [OF rel kv(1)] by blast
    have "wf_value v" using that(2) kv(1) by (auto simp: wf_fields_iff)
    then have "containsCanonicalResourceTargetSchema v'" using containsCanonical_imp v'(2) kv(3) by blast
    with v'(1) kv(2) show ?thesis by (auto simp: list_ex_iff intro!: bexI [of _ "(k, v')"])
  qed
  have wf': "wf_fields m'" using value_eq_wf [OF assms(1)] assms(2,3) by simp
  show ?thesis
    using step [OF assms(1,3)] step [OF value_eq_sym [OF assms(1)] wf'] by blast
qed

lemma tagged_branches_eq:
  assumes "list_all2 value_eq xs ys" and "wf_values xs"
  shows "tagged_branches d tags ys = tagged_branches d tags xs"
  using assms
proof (induction arbitrary: tags rule: list_all2_induct)
  case (Cons x xs y ys)
  have "wf_value x" and wfs: "wf_values xs" using Cons.prems by auto
  with Cons.hyps(1) show ?case
  proof (cases rule: related_objE)
    case (1 m m')
    note rel = value_eq_field [OF 1(3,4)] wf_field [OF 1(5)]
    note facts = related_facts [OF 1(3,4)]
    from rel(1) [of "''properties''"] rel(2) [of "''properties''"] show ?thesis
    proof (cases rule: related_objE)
      case (1 p p')
      have "closedStringConst (field p' k) = closedStringConst (field p k)" for k
        by (rule closedStringConst_eq) (rule value_eq_field [OF 1(3,4)] wf_field [OF 1(5)])+
      with 1(1,2) \<open>x = VObj m\<close> \<open>y = VObj m'\<close> show ?thesis
        by (simp add: facts reviewed_property_eq [OF 1(3,4,5)] Cons.IH [OF wfs] cong: option.case_cong)
    next
      case 2
      with \<open>x = VObj m\<close> \<open>y = VObj m'\<close> show ?thesis by (simp add: facts)
    qed
  qed simp
qed simp

lemma isClosedTaggedTargetUnionSchema_eq:
  assumes "value_eq v v'" and "wf_value v"
  shows "isClosedTaggedTargetUnionSchema v' = isClosedTaggedTargetUnionSchema v"
  using assms
proof (cases rule: related_objE)
  case (1 m m')
  note rel = value_eq_field [OF 1(3,4)] wf_field [OF 1(5)]
  note facts = related_facts [OF 1(3,4)]
  show ?thesis
  proof (cases "as_arr (field m ''oneOf'')")
    case None
    then have "as_arr (field m' ''oneOf'') = None"
      using value_eq_arr [OF value_eq_sym [OF rel(1)]] by (metis as_arr_Some not_None_eq option.discI)
    with None 1 show ?thesis
      by (simp add: isClosedTaggedTargetUnionSchema_def facts cong: option.case_cong)
  next
    case (Some xs)
    then obtain ys where ys: "field m' ''oneOf'' = VArr ys" "list_all2 value_eq xs ys"
      using value_eq_arr [OF rel(1)] by auto
    have "wf_values xs" using rel(2) [of "''oneOf''"] Some by simp
    with ys Some 1 show ?thesis
      by (simp add: isClosedTaggedTargetUnionSchema_def facts tagged_branches_eq [OF ys(2)]
          list_all2_lengthD [OF ys(2)] cong: option.case_cong)
  qed
qed (simp add: isClosedTaggedTargetUnionSchema_def)

lemma isBoundedDeclarativeCommandSchema_eq:
  assumes "value_eq v v'" and "wf_value v"
  shows "isBoundedDeclarativeCommandSchema v' = isBoundedDeclarativeCommandSchema v"
  using assms
proof (cases rule: related_objE)
  case (1 m m')
  note rel = value_eq_field [OF 1(3,4)] wf_field [OF 1(5)]
  note facts = related_facts [OF 1(3,4)]
  from rel(1) [of "''items''"] rel(2) [of "''items''"] show ?thesis
    using 1(1,2)
    by (cases rule: related_objE)
      (simp_all add: isBoundedDeclarativeCommandSchema_def facts related_facts)
qed (simp add: isBoundedDeclarativeCommandSchema_def)

lemma isReviewedBoundedDesiredFieldSchema_eq:
  assumes "value_eq v v'" and "wf_value v"
  shows "isReviewedBoundedDesiredFieldSchema k v' = isReviewedBoundedDesiredFieldSchema k v"
proof -
  have "isBoundedDeclarativeIntegerSchema v' = isBoundedDeclarativeIntegerSchema v"
    using assms by (cases rule: related_objE) (simp_all add: isBoundedDeclarativeIntegerSchema_def related_facts)
  then show ?thesis
    using assms
    by (simp add: isReviewedBoundedDesiredFieldSchema_def isBoundedDeclarativeCommandSchema_eq
        isCanonicalResourceTargetSchema_eq isClosedTaggedTargetUnionSchema_eq)
qed

lemma occurs_related:
  "occurs v location k c l \<Longrightarrow> value_eq v v' \<Longrightarrow> wf_value v \<Longrightarrow>
     \<exists>c'. occurs v' location k c' l \<and> value_eq c c' \<and> wf_value c"
proof (induction arbitrary: v' rule: occurs.induct)
  case (here k c m location)
  then obtain m' where m': "v' = VObj m'" "value_eq (VObj m) (VObj m')" using value_eq_obj by blast
  then obtain c' where "(k, c') \<in> set m'" "value_eq c c'" using value_eq_field_mem here by blast
  with m'(1) here show ?case by (auto intro: occurs.here simp: wf_fields_iff)
next
  case (below k' c' m location k c l)
  then obtain m' where m': "v' = VObj m'" "value_eq (VObj m) (VObj m')" using value_eq_obj by blast
  then obtain d' where d': "(k', d') \<in> set m'" "value_eq c' d'" using value_eq_field_mem below by blast
  have "wf_value c'" using below by (auto simp: wf_fields_iff)
  with below.IH d' m'(1) show ?case by (blast intro: occurs.below)
next
  case (item i xs location k c l)
  then obtain ys where ys: "v' = VArr ys" "list_all2 value_eq xs ys" using value_eq_arr by blast
  have "wf_value (xs ! i)" using item by (auto simp: wf_values_iff)
  moreover have "value_eq (xs ! i) (ys ! i)" "i < length ys"
    using ys(2) item.hyps by (auto simp: list_all2_conv_all_nth)
  ultimately show ?case using item.IH ys(1) by (blast intro: occurs.item)
qed

text \<open>
  C26. Whether a document is accepted does not depend on the order in which any map in it is
  iterated (only which of several offending members is named first does).
\<close>

theorem policy_order_independent:
  assumes "value_eq v v'" and "wf_value v"
  shows "(rejectForbiddenContent U v location = None) = (rejectForbiddenContent U v' location = None)"
proof -
  have one: "rejectForbiddenContent U b location = None"
    if "value_eq b a" "wf_value b" "rejectForbiddenContent U a location = None" for a b
  proof (rule occurs_all_accepted, intro allI impI)
    fix k c l
    assume "occurs b location k c l"
    from occurs_related [OF this that(1,2)]
    obtain c' where c': "occurs a location k c' l" "value_eq c c'" "wf_value c" by blast
    from occurs_rejected [OF c'(1) that(3)] have "member_allowed U k c' l" .
    with c'(2,3) show "member_allowed U k c l"
      by (simp add: member_allowed_def isReviewedBoundedDesiredFieldSchema_eq)
  qed
  show ?thesis
    using one [of v v'] one [of v' v] assms value_eq_sym value_eq_wf by blast
qed

theorem policy_order_independent_witness:
  "(rejectForbiddenContent ascii_tables (VObj [(''a'', VNull), (''b'', VArr [])]) [] = None) =
   (rejectForbiddenContent ascii_tables (VObj [(''b'', VArr []), (''a'', VNull)]) [] = None)"
proof (rule policy_order_independent)
  show "value_eq (VObj [(''a'', VNull), (''b'', VArr [])]) (VObj [(''b'', VArr []), (''a'', VNull)])"
    by (rule value_eq_perm) (simp add: add_mset_commute)
qed simp

section \<open>Bounds of integer schemas\<close>

text \<open>Below 53 bits the recognizer of a bounded integer compares the bounds exactly.\<close>

lemma bounded_integer_exact:
  assumes "field m ''type'' = VStr ''integer''" and "field m ''minimum'' = VInt lo" and "field m ''maximum'' = VInt hi"
    and "\<bar>lo\<bar> < 2 ^ 53" and "\<bar>hi\<bar> < 2 ^ 53"
  shows "isBoundedDeclarativeIntegerSchema (VObj m) \<longleftrightarrow> lo \<le> hi"
  using assms by (simp add: isBoundedDeclarativeIntegerSchema_def float_of_int_exact)

definition rounded_bounds_schema :: object where
  "rounded_bounds_schema =
     [(''type'', VStr ''integer''), (''minimum'', VNumber ''9007199254740993''),
      (''maximum'', VNumber ''9007199254740992'')]"

lemma rounded_bounds:
  "parse_int64 ''9007199254740992'' = Some 9007199254740992"
  "parse_int64 ''9007199254740993'' = Some 9007199254740993"
  "float_of_int 9007199254740992 = 9007199254740992"
  "float_of_int 9007199254740993 = 9007199254740992"
proof -
  have bl: "bit_length 9007199254740992 = 54" "bit_length 9007199254740993 = 54"
    using bit_length_eq [of 53] by auto
  show "float_of_int 9007199254740992 = 9007199254740992" "float_of_int 9007199254740993 = 9007199254740992"
    by (simp_all add: float_of_int_def float_of_nat_def bl round_even_def)
qed (simp_all add: parse_int64_def all_digits_def digits_value_def digit_value_def is_digit_def
    less_eq_char_def)

text \<open>
  Above it the conversion to a float loses the difference: an integer schema whose
  minimum 9007199254740993 exceeds its maximum 9007199254740992 is recognized as bounded,
  and the exempted field name is admitted with it.
\<close>

theorem integer_bounds_rounded:
  "parse_int64 ''9007199254740992'' = Some 9007199254740992 \<and>
   parse_int64 ''9007199254740993'' = Some 9007199254740993 \<and>
   isBoundedDeclarativeIntegerSchema (VObj rounded_bounds_schema) \<and>
   isReviewedBoundedDesiredFieldSchema ''concurrencyTarget'' (VObj rounded_bounds_schema)"
  by (simp add: rounded_bounds isReviewedBoundedDesiredFieldSchema_def
      isBoundedDeclarativeIntegerSchema_def rounded_bounds_schema_def go_simps)

end
