(* ===== verification/LocalReferences.thy ===== *)
theory LocalReferences
  imports StrictJson
begin

text \<open>
  Document-local references: the JSON Pointer escapes and the resolution of \<^verbatim>\<open>$ref\<close> fragments,
  which \<^verbatim>\<open>formpackage/schema.go\<close> and \<^verbatim>\<open>snapshot/contracts.go\<close> each implement, and the check
  that a schema only uses such fragments. The two resolvers are shown to be the same function
  up to the spelling of their errors and the pointer they start from.
\<close>

section \<open>Pointer tokens\<close>

definition escapePointer :: "bytes \<Rightarrow> bytes" where
  "escapePointer s = replace_byte CHR ''/'' ''~1'' (replace_byte CHR ''~'' ''~0'' s)"

text \<open>The one-pass replacer of \<^verbatim>\<open>appendSchemaPointer\<close>.\<close>

definition replace_token :: "bytes \<Rightarrow> bytes" where
  "replace_token s =
     concat (map (\<lambda>c. if c = CHR ''~'' then ''~0'' else if c = CHR ''/'' then ''~1'' else [c]) s)"

definition appendSchemaPointer :: "bytes \<Rightarrow> bytes list \<Rightarrow> bytes" where
  "appendSchemaPointer pointer tokens = pointer @ concat (map (\<lambda>t. CHR ''/'' # replace_token t) tokens)"

fun decodeJSONPointerToken :: "bytes \<Rightarrow> bytes option" where
  "decodeJSONPointerToken [] = Some []"
| "decodeJSONPointerToken (c # s) =
     (if c \<noteq> CHR ''~'' then map_option (\<lambda>t. c # t) (decodeJSONPointerToken s)
      else (case s of
              [] \<Rightarrow> None
            | d # r \<Rightarrow>
                if d = CHR ''0'' then map_option (\<lambda>t. CHR ''~'' # t) (decodeJSONPointerToken r)
                else if d = CHR ''1'' then map_option (\<lambda>t. CHR ''/'' # t) (decodeJSONPointerToken r)
                else None))"

text \<open>The copy of \<^verbatim>\<open>snapshot/contracts.go\<close>.\<close>

fun decodeLocalJSONPointerToken :: "bytes \<Rightarrow> bytes \<times> bool" where
  "decodeLocalJSONPointerToken [] = ([], True)"
| "decodeLocalJSONPointerToken (c # s) =
     (if c \<noteq> CHR ''~'' then
        (case decodeLocalJSONPointerToken s of (t, ok) \<Rightarrow> if ok then (c # t, True) else ([], False))
      else (case s of
              [] \<Rightarrow> ([], False)
            | d # r \<Rightarrow>
                if d \<noteq> CHR ''0'' \<and> d \<noteq> CHR ''1'' then ([], False)
                else (case decodeLocalJSONPointerToken r of
                        (t, ok) \<Rightarrow>
                          if ok then ((if d = CHR ''0'' then CHR ''~'' else CHR ''/'') # t, True)
                          else ([], False))))"

lemma escape_simps:
  "escapePointer [] = []"
  "escapePointer (c # s) =
     (if c = CHR ''~'' then ''~0'' else if c = CHR ''/'' then ''~1'' else [c]) @ escapePointer s"
  by (simp_all add: escapePointer_def)

lemma replace_token_escape: "replace_token s = escapePointer s"
  by (induction s) (simp_all add: replace_token_def escape_simps)

lemma decode_escape: "decodeJSONPointerToken (escapePointer s) = Some s"
  by (induction s) (simp_all add: escape_simps)

lemma decode_local:
  "decodeLocalJSONPointerToken s =
     (case decodeJSONPointerToken s of None \<Rightarrow> ([], False) | Some t \<Rightarrow> (t, True))"
  by (induction s rule: decodeJSONPointerToken.induct) (auto split: option.splits list.splits)

lemma escape_no_slash: "CHR ''/'' \<notin> set (escapePointer s)"
  by (induction s) (auto simp: escape_simps)

text \<open>
  Escaping a member name for a JSON Pointer loses nothing: the escaped token has no
  slash of its own, and decoding it gives the name back, with either of the two decoders.
\<close>

theorem pointer_token_round_trip:
  "decodeJSONPointerToken (escapePointer s) = Some s \<and>
   decodeLocalJSONPointerToken (escapePointer s) = (s, True) \<and> CHR ''/'' \<notin> set (escapePointer s) \<and>
   appendSchemaPointer pointer [s] = pointer @ CHR ''/'' # escapePointer s"
  using decode_escape [of s] escape_no_slash [of s]
  by (simp add: decode_local appendSchemaPointer_def replace_token_escape)

section \<open>Resolution\<close>

text \<open>\<^verbatim>\<open>url.PathUnescape\<close>.\<close>

fun path_unescape :: "bytes \<Rightarrow> bytes option" where
  "path_unescape [] = Some []"
| "path_unescape (c # s) =
     (if c \<noteq> CHR ''%'' then map_option (\<lambda>t. c # t) (path_unescape s)
      else (case s of
              a # b # r \<Rightarrow>
                (case (hex_digit_value a, hex_digit_value b) of
                   (Some i, Some j) \<Rightarrow> map_option (\<lambda>t. char_of (16 * i + j) # t) (path_unescape r)
                 | _ \<Rightarrow> None)
            | _ \<Rightarrow> None))"

datatype reference_error =
    NotFragment | BadFragment | BadPointerEscape | NoSuchMember bytes | BadArrayToken bytes
  | ArrayOutOfRange bytes | NotContainer bytes

definition resolve_token :: "gval \<Rightarrow> bytes \<Rightarrow> reference_error + gval" where
  "resolve_token current token =
     (case current of
        VObj m \<Rightarrow> if has_key m token then Inr (field m token) else Inl (NoSuchMember token)
      | VArr xs \<Rightarrow>
          if token = ''-'' \<or> (1 < length token \<and> hd token = CHR ''0'') then Inl (BadArrayToken token)
          else (case parse_int64 token of
                  None \<Rightarrow> Inl (ArrayOutOfRange token)
                | Some i \<Rightarrow>
                    if i < 0 \<or> i \<ge> int (length xs) then Inl (ArrayOutOfRange token) else Inr (xs ! nat i))
      | _ \<Rightarrow> Inl (NotContainer token))"

fun resolve_tokens :: "gval \<Rightarrow> bytes \<Rightarrow> bytes list \<Rightarrow> reference_error + gval \<times> bytes" where
  "resolve_tokens current pointer [] = Inr (current, pointer)"
| "resolve_tokens current pointer (raw # raws) =
     (case decodeJSONPointerToken raw of
        None \<Rightarrow> Inl BadPointerEscape
      | Some token \<Rightarrow>
          bind_res (resolve_token current token) (\<lambda>next.
            resolve_tokens next (appendSchemaPointer pointer [token]) raws))"

definition resolveLocalSchemaReference :: "gval \<Rightarrow> bytes \<Rightarrow> reference_error + gval \<times> bytes" where
  "resolveLocalSchemaReference doc reference =
     (if reference = ''#'' then Inr (doc, ''#'')
      else if \<not> has_prefix reference ''#/'' then Inl NotFragment
      else (case path_unescape (drop 1 reference) of
              None \<Rightarrow> Inl BadFragment
            | Some pointer \<Rightarrow>
                resolve_tokens doc ''#'' (split_on CHR ''/'' (trim_prefix pointer ''/''))))"

text \<open>The copy of \<^verbatim>\<open>snapshot/contracts.go\<close>, which answers no error.\<close>

definition contract_token :: "gval \<Rightarrow> bytes \<Rightarrow> gval option" where
  "contract_token current token =
     (case current of
        VObj m \<Rightarrow> if has_key m token then Some (field m token) else None
      | VArr xs \<Rightarrow>
          if token = ''-'' \<or> (1 < length token \<and> hd token = CHR ''0'') then None
          else (case parse_int64 token of
                  None \<Rightarrow> None
                | Some i \<Rightarrow> if i < 0 \<or> i \<ge> int (length xs) then None else Some (xs ! nat i))
      | _ \<Rightarrow> None)"

fun contract_tokens :: "gval \<Rightarrow> bytes \<Rightarrow> bytes list \<Rightarrow> (gval \<times> bytes) option" where
  "contract_tokens current pointer [] = Some (current, pointer)"
| "contract_tokens current pointer (raw # raws) =
     (case decodeLocalJSONPointerToken raw of
        (token, ok) \<Rightarrow>
          if \<not> ok then None
          else (case contract_token current token of
                  None \<Rightarrow> None
                | Some next \<Rightarrow> contract_tokens next (pointer @ ''/'' @ escapePointer token) raws))"

definition resolveLocalContractReference :: "gval \<Rightarrow> bytes \<Rightarrow> bytes \<Rightarrow> (gval \<times> bytes) option" where
  "resolveLocalContractReference doc rootPointer reference =
     (if reference = ''#'' then Some (doc, rootPointer)
      else if \<not> has_prefix reference ''#/'' then None
      else (case path_unescape (drop 1 reference) of
              None \<Rightarrow> None
            | Some pointer \<Rightarrow>
                contract_tokens doc rootPointer (split_on CHR ''/'' (trim_prefix pointer ''/''))))"

definition ok_of :: "'e + 'a \<Rightarrow> 'a option" where
  "ok_of r = (case r of Inl _ \<Rightarrow> None | Inr a \<Rightarrow> Some a)"

lemma ok_of_simps [simp]: "ok_of (Inl e) = None" "ok_of (Inr a) = Some a"
  by (simp_all add: ok_of_def)

lemma contract_token_ok: "contract_token v t = ok_of (resolve_token v t)"
  by (cases v) (auto simp: contract_token_def resolve_token_def split: option.split)

lemma contract_tokens_ok:
  "contract_tokens v (p @ q) raws = map_option (\<lambda>(w, r). (w, p @ drop k r)) (ok_of (resolve_tokens v (h @ q) raws))"
  if "length h = k"
  using that
proof (induction raws arbitrary: v q)
  case (Cons raw raws)
  show ?case
  proof (cases "decodeJSONPointerToken raw")
    case (Some token)
    show ?thesis
    proof (cases "resolve_token v token")
      case (Inr w)
      have "appendSchemaPointer (h @ q) [token] = h @ (q @ ''/'' @ escapePointer token)"
        by (simp add: appendSchemaPointer_def replace_token_escape)
      with Inr Some Cons.IH [of w "q @ ''/'' @ escapePointer token"] Cons.prems show ?thesis
        by (simp add: decode_local contract_token_ok)
    qed (simp add: Some decode_local contract_token_ok)
  qed (simp add: decode_local)
qed simp

text \<open>
  C36. The two copies of the reference resolver agree: the one of the compiler succeeds exactly
  when the one of the package verifier does, on the same value, and reports the same pointer
  below its own starting point.
\<close>

theorem reference_resolvers_agree:
  "resolveLocalContractReference doc rootPointer reference =
     map_option (\<lambda>(v, pointer). (v, rootPointer @ drop 1 pointer))
       (ok_of (resolveLocalSchemaReference doc reference))"
  using contract_tokens_ok [of "''#''" 1 doc rootPointer "[]"]
  by (simp add: resolveLocalContractReference_def resolveLocalSchemaReference_def split: option.split)

subsection \<open>A reference stays inside its document\<close>

inductive part_of :: "gval \<Rightarrow> gval \<Rightarrow> bool" where
  part_self: "part_of v v"
| part_member: "(k, w) \<in> set m \<Longrightarrow> part_of v w \<Longrightarrow> part_of v (VObj m)"
| part_item: "w \<in> set xs \<Longrightarrow> part_of v w \<Longrightarrow> part_of v (VArr xs)"

lemma part_trans: "part_of v w \<Longrightarrow> part_of u v \<Longrightarrow> part_of u w"
  by (induction rule: part_of.induct) (auto intro: part_of.intros)

lemma resolve_token_part:
  assumes "resolve_token v t = Inr w"
  shows "part_of w v"
proof (cases v)
  case (VObj m)
  with assms have "has_key m t" "w = field m t" by (auto simp: resolve_token_def split: if_splits)
  with VObj show ?thesis using field_mem [of m t] by (auto intro: part_member part_self)
next
  case (VArr xs)
  with assms have "w \<in> set xs"
    by (auto simp: resolve_token_def nat_less_iff split: if_splits option.splits)
  with VArr show ?thesis by (auto intro: part_item part_self)
qed (use assms in \<open>simp_all add: resolve_token_def\<close>)

lemma resolve_tokens_part: "resolve_tokens v p raws = Inr (w, q) \<Longrightarrow> part_of w v"
proof (induction raws arbitrary: v p)
  case (Cons raw raws)
  then obtain t u where "resolve_token v t = Inr u" "resolve_tokens u (appendSchemaPointer p [t]) raws = Inr (w, q)"
    by (auto simp: err_simps split: option.splits)
  then show ?case using Cons.IH resolve_token_part part_trans by blast
qed (simp add: part_self)

lemma resolve_part: "resolveLocalSchemaReference doc reference = Inr (v, p) \<Longrightarrow> part_of v doc"
  using resolve_tokens_part
  by (auto simp: resolveLocalSchemaReference_def part_self split: if_splits option.splits)

section \<open>Fragment-only references\<close>

datatype fragment_error = DynamicReference bytes | RemoteReference bytes

definition local_reference :: "gval \<Rightarrow> bool" where
  "local_reference v = (case v of VStr r \<Rightarrow> r = ''#'' \<or> has_prefix r ''#/'' | _ \<Rightarrow> False)"

fun verifyFragmentOnlyReferences :: "gval \<Rightarrow> bytes \<Rightarrow> fragment_error option"
  and verify_fields :: "object \<Rightarrow> bytes \<Rightarrow> fragment_error option"
  and verify_items :: "gval list \<Rightarrow> bytes \<Rightarrow> nat \<Rightarrow> fragment_error option" where
  "verifyFragmentOnlyReferences (VObj m) location = verify_fields m location"
| "verifyFragmentOnlyReferences (VArr xs) location = verify_items xs location 0"
| "verifyFragmentOnlyReferences _ location = None"
| "verify_fields [] location = None"
| "verify_fields ((key, child) # rest) location =
     (let childLocation = location @ ''.'' @ key in
      if key = ''$dynamicRef'' then Some (DynamicReference childLocation)
      else if key = ''$ref'' \<and> \<not> local_reference child then Some (RemoteReference childLocation)
      else (case verifyFragmentOnlyReferences child childLocation of
              Some e \<Rightarrow> Some e | None \<Rightarrow> verify_fields rest location))"
| "verify_items [] location i = None"
| "verify_items (x # xs) location i =
     (case verifyFragmentOnlyReferences x (location @ ''['' @ decimal i @ '']'') of
        Some e \<Rightarrow> Some e | None \<Rightarrow> verify_items xs location (Suc i))"

text \<open>Every member anywhere in a value.\<close>

fun value_members :: "gval \<Rightarrow> object"
  and fields_members :: "object \<Rightarrow> object"
  and items_members :: "gval list \<Rightarrow> object" where
  "value_members (VObj m) = fields_members m"
| "value_members (VArr xs) = items_members xs"
| "value_members _ = []"
| "fields_members [] = []"
| "fields_members ((k, v) # m) = (k, v) # value_members v @ fields_members m"
| "items_members [] = []"
| "items_members (x # xs) = value_members x @ items_members xs"

definition closed_member :: "bytes \<times> gval \<Rightarrow> bool" where
  "closed_member e \<longleftrightarrow> fst e \<noteq> ''$dynamicRef'' \<and> (fst e = ''$ref'' \<longrightarrow> local_reference (snd e))"

lemma verify_closed:
  shows "verifyFragmentOnlyReferences v l = None \<longleftrightarrow> list_all closed_member (value_members v)"
    and "verify_fields m l = None \<longleftrightarrow> list_all closed_member (fields_members m)"
    and "verify_items xs l i = None \<longleftrightarrow> list_all closed_member (items_members xs)"
  by (induction v l and m l and xs l i rule: verifyFragmentOnlyReferences_verify_fields_verify_items.induct)
    (auto simp: closed_member_def Let_def split: option.splits)

text \<open>
  A schema passes the reference check exactly if no member anywhere in it is a dynamic
  reference and every \<^verbatim>\<open>$ref\<close> in it is the root or a JSON Pointer fragment of the same
  document; so the order in which the maps are walked does not matter.
\<close>

theorem fragment_references_exact:
  "(verifyFragmentOnlyReferences schema location = None) = list_all closed_member (value_members schema)"
  by (rule verify_closed(1))

end
