(* ===== verification/SchemaProof.thy ===== *)
theory SchemaProof
  imports ContentPolicy LocalReferences
begin

text \<open>
  The portable closure proof of \<^verbatim>\<open>formpackage/schema.go\<close>: \<^verbatim>\<open>validatePortableSchemaStructure\<close>
  walks the graph of a schema's nodes and local references, remembering each node's result by
  its canonical pointer, and answers for every node whether it admits no object, only objects
  of an explicitly closed kind, or arbitrary ones. The walk is bounded by depth, so it is a
  terminating function here; a node's checks before and after its children are \<open>start_node\<close>,
  \<open>literal_mode\<close> and \<open>finish_mode\<close>.
\<close>

definition maxSchemaProofDepth :: nat where "maxSchemaProofDepth = 64"
definition maxSchemaProofOps :: nat where "maxSchemaProofOps = 4096"
definition portableMapKeyPattern :: bytes where "portableMapKeyPattern = ''^[A-Za-z][A-Za-z0-9._-]{0,63}$''"
definition portableMapPolicyKey :: bytes where "portableMapPolicyKey = ''x-takoform-fieldPolicy''"
definition portableMapPolicyValue :: bytes where "portableMapPolicyValue = ''portable-data-only-v1''"

datatype objectAdmission = objectOpen | objectClosed | objectExcluded

record proof_result =
  pr_mode :: objectAdmission
  pr_maxDepth :: nat

text \<open>A memo entry is \<open>None\<close> while its node is being visited.\<close>

record validator =
  va_memo :: "bytes \<Rightarrow> proof_result option option"
  va_operations :: nat

datatype proof_error =
    ProofDepth bytes | ProofCycle bytes | ProofBudget bytes
  | TrueSchema bytes | NotSchema bytes | ForbiddenKeyword bytes bytes | WrongDialect bytes
  | ConstNotAlone bytes | KeywordNotObject bytes bytes | ForbiddenSchemaField bytes bytes
  | NamesNotArray bytes | NameNotString bytes | DependentNotObject bytes
  | ArrayWithoutItems bytes | ObjectOpenEnded bytes | MapNotPure bytes
  | MapPolicyMissing bytes | MapPolicyDiffers bytes | AdditionalMissing bytes
  | ImplicitObject bytes | NotSchemaArray bytes bytes | EnumEmpty bytes
  | RefNotString bytes | RefUnresolved bytes reference_error | AdmitsObjects bytes

section \<open>Keywords\<close>

definition schemaObjectKeyword :: "object \<Rightarrow> bytes \<Rightarrow> bytes \<Rightarrow> proof_error + object option" where
  "schemaObjectKeyword schema keyword location =
     (if \<not> has_key schema keyword then Inr None
      else (case as_obj (field schema keyword) of
              None \<Rightarrow> Inl (KeywordNotObject location keyword)
            | Some m \<Rightarrow> Inr (Some m)))"

definition hasObjectKeywords :: "object \<Rightarrow> bool" where
  "hasObjectKeywords schema =
     list_ex (has_key schema)
       [''properties'', ''required'', ''additionalProperties'', ''unevaluatedProperties'', ''propertyNames'',
        ''dependentRequired'', ''dependentSchemas'', ''minProperties'', ''maxProperties'']"

definition schemaTypeIncludes :: "gval \<Rightarrow> bytes \<Rightarrow> bool" where
  "schemaTypeIncludes v wanted =
     (case v of VStr s \<Rightarrow> s = wanted | VArr xs \<Rightarrow> list_ex (\<lambda>x. x = VStr wanted) xs | _ \<Rightarrow> False)"

definition validatePortableMapPropertyNames :: "gval \<Rightarrow> bytes \<Rightarrow> proof_error option" where
  "validatePortableMapPropertyNames v location =
     (case as_obj v of
        None \<Rightarrow> Some (MapPolicyMissing location)
      | Some names \<Rightarrow>
          guard_err (length names = 3 \<and> field names ''type'' = VStr ''string'' \<and>
            field names ''pattern'' = VStr portableMapKeyPattern \<and>
            field names portableMapPolicyKey = VStr portableMapPolicyValue) (MapPolicyDiffers location))"

definition validateExplicitObjectClosure :: "object \<Rightarrow> bool \<Rightarrow> bytes \<Rightarrow> proof_error option" where
  "validateExplicitObjectClosure schema hasProperties location =
     (case field schema ''additionalProperties'' of
        VBool b \<Rightarrow> guard_err (\<not> b) (ObjectOpenEnded location)
      | VObj _ \<Rightarrow>
          (if hasProperties \<or> field schema ''required'' \<noteq> VNull \<or> field schema ''dependentRequired'' \<noteq> VNull \<or>
              field schema ''dependentSchemas'' \<noteq> VNull \<or> field schema ''unevaluatedProperties'' \<noteq> VNull
           then Some (MapNotPure location)
           else validatePortableMapPropertyNames (field schema ''propertyNames'') (location @ ''.propertyNames''))
      | _ \<Rightarrow> Some (AdditionalMissing location))"

fun admissionForLiteral :: "gval \<Rightarrow> objectAdmission" where
  "admissionForLiteral (VObj _) = objectOpen"
| "admissionForLiteral _ = objectExcluded"

definition intersectObjectAdmission :: "objectAdmission \<Rightarrow> objectAdmission \<Rightarrow> objectAdmission" where
  "intersectObjectAdmission a b =
     (if a = objectExcluded \<or> b = objectExcluded then objectExcluded
      else if a = objectClosed \<or> b = objectClosed then objectClosed else objectOpen)"

definition unionObjectAdmission :: "objectAdmission \<Rightarrow> objectAdmission \<Rightarrow> objectAdmission" where
  "unionObjectAdmission a b =
     (if a = objectOpen \<or> b = objectOpen then objectOpen
      else if a = objectClosed \<or> b = objectClosed then objectClosed else objectExcluded)"

section \<open>Field names\<close>

definition in_desired :: "bytes \<Rightarrow> bool" where
  "in_desired location = has_prefix location ''desiredSchema''"

definition check_name :: "unicode \<Rightarrow> bytes \<Rightarrow> bytes \<Rightarrow> bytes \<Rightarrow> gval \<Rightarrow> proof_error option" where
  "check_name U location reported name schema =
     (if in_desired location \<and> isReviewedBoundedDesiredFieldSchema name schema then None
      else guard_err (\<not> isForbiddenFieldName U name) (ForbiddenSchemaField name reported))"

definition validateSchemaFieldNameArray ::
  "unicode \<Rightarrow> gval \<Rightarrow> bytes \<Rightarrow> object \<Rightarrow> proof_error option" where
  "validateSchemaFieldNameArray U v location properties =
     (if v = VNull then None
      else (case as_arr v of
              None \<Rightarrow> Some (NamesNotArray location)
            | Some xs \<Rightarrow>
                first_err (map (\<lambda>x.
                  case as_str x of
                    None \<Rightarrow> Some (NameNotString location)
                  | Some name \<Rightarrow> check_name U location location name (field properties name)) xs)))"

definition validateDependentRequiredNames :: "unicode \<Rightarrow> gval \<Rightarrow> bytes \<Rightarrow> proof_error option" where
  "validateDependentRequiredNames U v location =
     (if v = VNull then None
      else (case as_obj v of
              None \<Rightarrow> Some (DependentNotObject location)
            | Some dependencies \<Rightarrow>
                first_err (map (\<lambda>(name, required).
                  if isForbiddenFieldName U name then Some (ForbiddenSchemaField name location)
                  else validateSchemaFieldNameArray U required (location @ ''.'' @ name) []) dependencies)))"

section \<open>One node\<close>

definition forbidden_keywords :: "bytes list" where
  "forbidden_keywords =
     [''patternProperties'', ''dependencies'', ''contentEncoding'', ''contentMediaType'', ''contentSchema'']"

definition scope_keywords :: "bytes list" where
  "scope_keywords =
     [''$id'', ''$anchor'', ''$dynamicAnchor'', ''$recursiveAnchor'', ''$recursiveRef'', ''$vocabulary'']"

definition forbidden_keyword :: "object \<Rightarrow> bytes \<Rightarrow> bytes \<Rightarrow> proof_error option" where
  "forbidden_keyword schema location keyword =
     guard_err (\<not> has_key schema keyword) (ForbiddenKeyword location keyword)"

definition node_keywords :: "object \<Rightarrow> bytes \<Rightarrow> proof_error option" where
  "node_keywords schema location =
     first_err (map (forbidden_keyword schema location) forbidden_keywords @
       [guard_err (\<not> has_key schema ''$schema'' \<or>
          field schema ''$schema'' = VStr ''https://json-schema.org/draft/2020-12/schema'') (WrongDialect location)] @
       map (forbidden_keyword schema location) scope_keywords)"

definition object_const :: "object \<Rightarrow> bool" where
  "object_const schema = (case field schema ''const'' of VObj _ \<Rightarrow> True | _ \<Rightarrow> False)"

definition node_names :: "unicode \<Rightarrow> object \<Rightarrow> object option \<Rightarrow> bytes \<Rightarrow> proof_error option" where
  "node_names U schema properties location =
     first_err
       [first_err (map (\<lambda>(name, child). check_name U location (location @ ''.properties'') name child)
          (case properties of Some m \<Rightarrow> m | None \<Rightarrow> [])),
        validateSchemaFieldNameArray U (field schema ''required'') (location @ ''.required'')
          (case properties of Some m \<Rightarrow> m | None \<Rightarrow> []),
        validateDependentRequiredNames U (field schema ''dependentRequired'') (location @ ''.dependentRequired'')]"

definition type_mode :: "object \<Rightarrow> bool \<Rightarrow> bytes \<Rightarrow> proof_error + objectAdmission" where
  "type_mode schema hasProperties location =
     (if schemaTypeIncludes (field schema ''type'') ''array'' \<and> \<not> has_key schema ''items''
      then Inl (ArrayWithoutItems location)
      else if schemaTypeIncludes (field schema ''type'') ''object'' then
        check_then (validateExplicitObjectClosure schema hasProperties location) (Inr objectClosed)
      else if has_key schema ''type'' then Inr objectExcluded
      else if hasObjectKeywords schema then Inl (ImplicitObject location)
      else Inr objectOpen)"

datatype node_plan = False_Schema | Exact_Const gval | Schema_Node object objectAdmission

definition start_node :: "unicode \<Rightarrow> gval \<Rightarrow> bytes \<Rightarrow> proof_error + node_plan" where
  "start_node U v location =
     (case v of
        VBool b \<Rightarrow> if b then Inl (TrueSchema location) else Inr False_Schema
      | VObj schema \<Rightarrow>
          check_then (node_keywords schema location)
            (if length schema = 1 \<and> object_const schema then Inr (Exact_Const (field schema ''const''))
             else if object_const schema then Inl (ConstNotAlone location)
             else bind_res (schemaObjectKeyword schema ''properties'' location) (\<lambda>properties.
               check_then (node_names U schema properties location)
                 (bind_res (type_mode schema (properties \<noteq> None) location) (\<lambda>mode.
                   Inr (Schema_Node schema mode)))))
      | _ \<Rightarrow> Inl (NotSchema location))"

definition literal_mode :: "object \<Rightarrow> bytes \<Rightarrow> objectAdmission \<Rightarrow> proof_error + objectAdmission" where
  "literal_mode schema location mode =
     (let mode1 = (if has_key schema ''const''
                   then intersectObjectAdmission mode (admissionForLiteral (field schema ''const'')) else mode) in
      if \<not> has_key schema ''enum'' then Inr mode1
      else (case as_arr (field schema ''enum'') of
              None \<Rightarrow> Inl (EnumEmpty location)
            | Some values \<Rightarrow>
                if values = [] then Inl (EnumEmpty location)
                else Inr (intersectObjectAdmission mode1
                  (foldl (\<lambda>m x. unionObjectAdmission m (admissionForLiteral x)) objectExcluded values))))"

definition union_modes :: "objectAdmission \<Rightarrow> objectAdmission list \<Rightarrow> objectAdmission" where
  "union_modes mode modes =
     (if modes = [] then mode
      else intersectObjectAdmission mode (foldl unionObjectAdmission objectExcluded modes))"

text \<open>The modes of \<^verbatim>\<open>allOf\<close>, \<^verbatim>\<open>anyOf\<close> and \<^verbatim>\<open>oneOf\<close>, in this order; the last group, \<^verbatim>\<open>prefixItems\<close>,
  says nothing of the node itself.\<close>

fun finish_mode :: "bytes \<Rightarrow> objectAdmission \<Rightarrow> objectAdmission list list \<Rightarrow> proof_error + objectAdmission" where
  "finish_mode location mode (allOf # anyOf # oneOf # _) =
     (let mode1 = intersectObjectAdmission mode (foldl intersectObjectAdmission objectOpen allOf);
          mode2 = union_modes (union_modes mode1 anyOf) oneOf in
      if mode2 = objectOpen then Inl (AdmitsObjects location) else Inr mode2)"
| "finish_mode location mode _ = Inl (AdmitsObjects location)"

section \<open>Children\<close>

type_synonym child = "gval \<times> bytes \<times> bytes"

definition object_children :: "object \<Rightarrow> bytes \<Rightarrow> bytes \<Rightarrow> bytes \<Rightarrow> proof_error + child list" where
  "object_children schema location pointer keyword =
     bind_res (schemaObjectKeyword schema keyword location) (\<lambda>children.
       Inr (map (\<lambda>(name, child). (child, location @ ''.'' @ keyword @ ''.'' @ name,
              appendSchemaPointer pointer [keyword, name]))
         (case children of Some m \<Rightarrow> m | None \<Rightarrow> [])))"

definition single_keywords :: "bytes list" where
  "single_keywords =
     [''additionalProperties'', ''items'', ''contains'', ''unevaluatedItems'', ''unevaluatedProperties'',
      ''propertyNames'', ''not'', ''if'', ''then'', ''else'']"

definition single_children :: "object \<Rightarrow> bytes \<Rightarrow> bytes \<Rightarrow> child list" where
  "single_children schema location pointer =
     map (\<lambda>keyword. (field schema keyword, location @ ''.'' @ keyword, appendSchemaPointer pointer [keyword]))
       (filter (\<lambda>keyword. has_key schema keyword \<and>
            \<not> (keyword = ''additionalProperties'' \<and> field schema keyword = VBool False)) single_keywords)"

fun indexed_children :: "bytes \<Rightarrow> bytes \<Rightarrow> bytes \<Rightarrow> nat \<Rightarrow> gval list \<Rightarrow> child list" where
  "indexed_children location pointer keyword i [] = []"
| "indexed_children location pointer keyword i (x # xs) =
     (x, location @ ''.'' @ keyword @ ''['' @ decimal i @ '']'', appendSchemaPointer pointer [keyword, decimal i])
       # indexed_children location pointer keyword (Suc i) xs"

definition array_children :: "object \<Rightarrow> bytes \<Rightarrow> bytes \<Rightarrow> bytes \<Rightarrow> proof_error + child list" where
  "array_children schema location pointer keyword =
     (if \<not> has_key schema keyword then Inr []
      else (case as_arr (field schema keyword) of
              None \<Rightarrow> Inl (NotSchemaArray location keyword)
            | Some xs \<Rightarrow>
                if xs = [] then Inl (NotSchemaArray location keyword)
                else Inr (indexed_children location pointer keyword 0 xs)))"

definition object_keywords :: "bytes list" where
  "object_keywords = [''$defs'', ''definitions'', ''properties'', ''dependentSchemas'']"

definition array_keywords :: "bytes list" where
  "array_keywords = [''allOf'', ''anyOf'', ''oneOf'', ''prefixItems'']"

definition child_groups :: "object \<Rightarrow> bytes \<Rightarrow> bytes \<Rightarrow> (proof_error + child list) list" where
  "child_groups schema location pointer =
     map (object_children schema location pointer) object_keywords @
     [Inr (single_children schema location pointer)] @
     map (array_children schema location pointer) array_keywords"

section \<open>The walk\<close>

definition consumeOperation :: "bytes \<Rightarrow> validator \<Rightarrow> proof_error + validator" where
  "consumeOperation location st =
     (let n = Suc (va_operations st) in
      if n > maxSchemaProofOps then Inl (ProofBudget location) else Inr (st\<lparr>va_operations := n\<rparr>))"

definition record_depth :: "nat list \<Rightarrow> nat" where
  "record_depth ds = foldr (\<lambda>d m. max (Suc d) m) ds 0"

text \<open>The finite data of an object const: the deepest chain below a node, and the budget spent.\<close>

fun validateExactObjectConst ::
  "gval \<Rightarrow> bytes \<Rightarrow> nat \<Rightarrow> validator \<Rightarrow> proof_error + nat \<times> validator"
  and const_fields :: "object \<Rightarrow> bytes \<Rightarrow> nat \<Rightarrow> validator \<Rightarrow> proof_error + nat \<times> validator"
  and const_items :: "gval list \<Rightarrow> bytes \<Rightarrow> nat \<Rightarrow> nat \<Rightarrow> validator \<Rightarrow> proof_error + nat \<times> validator" where
  "validateExactObjectConst v location depth st =
     (if depth > maxSchemaProofDepth then Inl (ProofDepth location)
      else bind_res (consumeOperation location st) (\<lambda>st.
        case v of
          VObj m \<Rightarrow> const_fields m location depth st
        | VArr xs \<Rightarrow> const_items xs location 0 depth st
        | _ \<Rightarrow> Inr (0, st)))"
| "const_fields [] location depth st = Inr (0, st)"
| "const_fields ((name, child) # m) location depth st =
     bind_res (validateExactObjectConst child (location @ ''.'' @ name) (Suc depth) st) (\<lambda>(d, st).
     bind_res (const_fields m location depth st) (\<lambda>(rest, st). Inr (max (Suc d) rest, st)))"
| "const_items [] location i depth st = Inr (0, st)"
| "const_items (x # xs) location i depth st =
     bind_res (validateExactObjectConst x (location @ ''['' @ decimal i @ '']'') (Suc depth) st) (\<lambda>(d, st).
     bind_res (const_items xs location (Suc i) depth st) (\<lambda>(rest, st). Inr (max (Suc d) rest, st)))"

declare validateExactObjectConst.simps [simp del]

definition remember :: "bytes \<Rightarrow> proof_result option \<Rightarrow> validator \<Rightarrow> validator" where
  "remember pointer r st = st\<lparr>va_memo := (va_memo st)(pointer \<mapsto> r)\<rparr>"

text \<open>A node's result is refused or remembered once its depth is known.\<close>

definition settle ::
  "bytes \<Rightarrow> bytes \<Rightarrow> nat \<Rightarrow> proof_error + proof_result \<times> validator \<Rightarrow> proof_error + proof_result \<times> validator" where
  "settle location pointer depth r =
     bind_res r (\<lambda>(r, st).
       if depth + pr_maxDepth r > maxSchemaProofDepth then Inl (ProofDepth location)
       else Inr (r, remember pointer (Some r) st))"

definition reference_child ::
  "gval \<Rightarrow> object \<Rightarrow> bytes \<Rightarrow> validator \<Rightarrow> proof_error + child option \<times> validator" where
  "reference_child doc schema location st =
     (if \<not> has_key schema ''$ref'' then Inr (None, st)
      else (case as_str (field schema ''$ref'') of
              None \<Rightarrow> Inl (RefNotString location)
            | Some reference \<Rightarrow>
                bind_res (consumeOperation (location @ ''.$ref'') st) (\<lambda>st.
                  case resolveLocalSchemaReference doc reference of
                    Inl e \<Rightarrow> Inl (RefUnresolved location e)
                  | Inr (target, targetPointer) \<Rightarrow>
                      Inr (Some (target, location @ ''.$ref('' @ reference @ '')'', targetPointer), st))))"

definition combine ::
  "bytes \<Rightarrow> objectAdmission \<Rightarrow> proof_result list list \<Rightarrow> proof_result option \<Rightarrow> proof_error + proof_result" where
  "combine location mode results target =
     (let mode1 = (case target of None \<Rightarrow> mode | Some r \<Rightarrow> intersectObjectAdmission mode (pr_mode r)) in
      bind_res (finish_mode location mode1 (map (map pr_mode) (drop 5 results))) (\<lambda>mode2.
        Inr \<lparr>pr_mode = mode2,
             pr_maxDepth = record_depth (map pr_maxDepth (concat results @ (case target of None \<Rightarrow> [] | Some r \<Rightarrow> [r])))\<rparr>))"

text \<open>The functions below are \<^verbatim>\<open>validate\<close> with \<^verbatim>\<open>validateUncached\<close> inside, and the loops over a
  node's children; results come back group by group.\<close>

function (sequential) validate ::
  "unicode \<Rightarrow> gval \<Rightarrow> gval \<Rightarrow> bytes \<Rightarrow> bytes \<Rightarrow> nat \<Rightarrow> validator \<Rightarrow> proof_error + proof_result \<times> validator"
  and validate_children ::
  "unicode \<Rightarrow> gval \<Rightarrow> child list \<Rightarrow> nat \<Rightarrow> validator \<Rightarrow> proof_error + proof_result list \<times> validator"
  and validate_groups ::
  "unicode \<Rightarrow> gval \<Rightarrow> (proof_error + child list) list \<Rightarrow> nat \<Rightarrow> validator \<Rightarrow> proof_error + proof_result list list \<times> validator" where
  "validate U doc v location pointer depth st =
     (if depth > maxSchemaProofDepth then Inl (ProofDepth location)
      else case va_memo st pointer of
        Some None \<Rightarrow> Inl (ProofCycle location)
      | Some (Some r) \<Rightarrow>
          if depth + pr_maxDepth r > maxSchemaProofDepth then Inl (ProofDepth location) else Inr (r, st)
      | None \<Rightarrow>
          bind_res (consumeOperation location st) (\<lambda>st.
          settle location pointer depth
            (case start_node U v location of
               Inl e \<Rightarrow> Inl e
             | Inr False_Schema \<Rightarrow>
                 Inr (\<lparr>pr_mode = objectExcluded, pr_maxDepth = 0\<rparr>, remember pointer None st)
             | Inr (Exact_Const c) \<Rightarrow>
                 bind_res (validateExactObjectConst c (location @ ''.const'') 0 (remember pointer None st))
                   (\<lambda>(d, st). Inr (\<lparr>pr_mode = objectClosed, pr_maxDepth = d\<rparr>, st))
             | Inr (Schema_Node schema mode) \<Rightarrow>
                 bind_res (validate_groups U doc (child_groups schema location pointer) (Suc depth)
                             (remember pointer None st)) (\<lambda>(results, st).
                 bind_res (literal_mode schema location mode) (\<lambda>mode.
                 bind_res (reference_child doc schema location st) (\<lambda>(target, st).
                   case target of
                     None \<Rightarrow> bind_res (combine location mode results None) (\<lambda>r. Inr (r, st))
                   | Some (v', location', pointer') \<Rightarrow>
                       bind_res (validate U doc v' location' pointer' (Suc depth) st) (\<lambda>(r, st).
                         bind_res (combine location mode results (Some r)) (\<lambda>r. Inr (r, st)))))))))"
| "validate_children U doc [] depth st = Inr ([], st)"
| "validate_children U doc ((v, location, pointer) # cs) depth st =
     bind_res (validate U doc v location pointer depth st) (\<lambda>(r, st).
     bind_res (validate_children U doc cs depth st) (\<lambda>(rs, st). Inr (r # rs, st)))"
| "validate_groups U doc [] depth st = Inr ([], st)"
| "validate_groups U doc (Inl e # gs) depth st = Inl e"
| "validate_groups U doc (Inr cs # gs) depth st =
     bind_res (validate_children U doc cs depth st) (\<lambda>(rs, st).
     bind_res (validate_groups U doc gs depth st) (\<lambda>(rss, st). Inr (rs # rss, st)))"
  by pat_completeness auto
termination
  by (relation "measures
       [case_sum (\<lambda>(_, _, _, _, _, depth, _). 66 - depth)
          (case_sum (\<lambda>(_, _, _, depth, _). 66 - depth) (\<lambda>(_, _, _, depth, _). 66 - depth)),
        case_sum (\<lambda>_. 0) (case_sum (\<lambda>_. 1) (\<lambda>_. 2)),
        case_sum (\<lambda>_. 0) (case_sum (\<lambda>(_, _, cs, _). length cs) (\<lambda>(_, _, gs, _). length gs))]")
    (auto simp: maxSchemaProofDepth_def)

declare validate.simps [simp del]

definition validatePortableClosure :: "unicode \<Rightarrow> gval \<Rightarrow> bytes \<Rightarrow> proof_error option" where
  "validatePortableClosure U v location =
     (case validate U v v location ''#'' 0 \<lparr>va_memo = Map.empty, va_operations = 0\<rparr> of
        Inl e \<Rightarrow> Some e | Inr _ \<Rightarrow> None)"

end
