(* ===== verification/SchemaWork.thy ===== *)
theory SchemaWork
  imports SchemaProof
begin

text \<open>
  The two worst-case work estimates of \<^verbatim>\<open>formpackage/schema.go\<close>: of a schema on its own and
  against a concrete fixture. Both walk the schema graph with a memo and add the remembered
  work of every edge, saturating just above the limit. Without the closure proof the walk has
  no depth bound of its own, so it takes fuel here; \<open>estimates_enough_fuel\<close> shows that the
  fuel supplied suffices once the closure proof has accepted the schema. The sums never
  reach the range where a \<^verbatim>\<open>uint64\<close> wraps.
\<close>

definition maxSchemaValidationWork :: nat where "maxSchemaValidationWork = 16384"

definition saturatingSchemaWorkAdd :: "nat \<Rightarrow> nat \<Rightarrow> nat" where
  "saturatingSchemaWorkAdd left right =
     (let limit = maxSchemaValidationWork + 1 in
      if left \<ge> limit \<or> right \<ge> limit \<or> left > limit - right then limit else left + right)"

lemma saturating_add:
  "saturatingSchemaWorkAdd a b = min (maxSchemaValidationWork + 1) (a + b)"
  by (auto simp: saturatingSchemaWorkAdd_def Let_def min_def)

datatype work_error =
    WorkCycle bytes | WorkNotSchema bytes | WorkKeyword proof_error | WorkNotArray bytes bytes
  | WorkRefNotString bytes | WorkRef reference_error | WorkOutOfFuel

section \<open>The schema on its own\<close>

type_synonym work_child = "gval \<times> bytes"

definition work_object :: "object \<Rightarrow> bytes \<Rightarrow> bytes \<Rightarrow> work_error + work_child list" where
  "work_object schema pointer keyword =
     (case schemaObjectKeyword schema keyword pointer of
        Inl e \<Rightarrow> Inl (WorkKeyword e)
      | Inr children \<Rightarrow>
          Inr (map (\<lambda>(name, child). (child, appendSchemaPointer pointer [keyword, name]))
            (case children of Some m \<Rightarrow> m | None \<Rightarrow> [])))"

definition work_singles :: "object \<Rightarrow> bytes \<Rightarrow> work_child list" where
  "work_singles schema pointer =
     map (\<lambda>keyword. (field schema keyword, appendSchemaPointer pointer [keyword]))
       (filter (has_key schema) single_keywords)"

definition work_items :: "gval list \<Rightarrow> bytes \<Rightarrow> bytes \<Rightarrow> work_child list" where
  "work_items xs pointer keyword =
     map (\<lambda>(i, x). (x, appendSchemaPointer pointer [keyword, decimal i])) (zip [0..<length xs] xs)"

definition work_array :: "object \<Rightarrow> bytes \<Rightarrow> bytes \<Rightarrow> work_error + work_child list" where
  "work_array schema pointer keyword =
     (if \<not> has_key schema keyword then Inr []
      else (case as_arr (field schema keyword) of
              None \<Rightarrow> Inl (WorkNotArray pointer keyword)
            | Some xs \<Rightarrow> Inr (work_items xs pointer keyword)))"

definition work_reference :: "gval \<Rightarrow> object \<Rightarrow> bytes \<Rightarrow> work_error + work_child list" where
  "work_reference doc schema pointer =
     (if \<not> has_key schema ''$ref'' then Inr []
      else (case as_str (field schema ''$ref'') of
              None \<Rightarrow> Inl (WorkRefNotString pointer)
            | Some text \<Rightarrow>
                (case resolveLocalSchemaReference doc text of
                   Inl e \<Rightarrow> Inl (WorkRef e)
                 | Inr (target, targetPointer) \<Rightarrow> Inr [(target, targetPointer)])))"

definition work_groups :: "gval \<Rightarrow> object \<Rightarrow> bytes \<Rightarrow> (work_error + work_child list) list" where
  "work_groups doc schema pointer =
     map (work_object schema pointer) [''properties'', ''dependentSchemas''] @
     [Inr (work_singles schema pointer)] @
     map (work_array schema pointer) array_keywords @
     [work_reference doc schema pointer]"

type_synonym memo = "bytes \<Rightarrow> nat option option"

text \<open>A loop over children stops once the work is above the limit; the next keyword's loop
  starts again.\<close>

fun estimate :: "nat \<Rightarrow> gval \<Rightarrow> gval \<Rightarrow> bytes \<Rightarrow> memo \<Rightarrow> work_error + nat \<times> memo"
  and estimate_children :: "nat \<Rightarrow> gval \<Rightarrow> work_child list \<Rightarrow> nat \<Rightarrow> memo \<Rightarrow> work_error + nat \<times> memo"
  and estimate_groups ::
  "nat \<Rightarrow> gval \<Rightarrow> (work_error + work_child list) list \<Rightarrow> nat \<Rightarrow> memo \<Rightarrow> work_error + nat \<times> memo" where
  "estimate 0 doc v pointer memo = Inl WorkOutOfFuel"
| "estimate (Suc fuel) doc v pointer memo =
     (case memo pointer of
        Some None \<Rightarrow> Inl (WorkCycle pointer)
      | Some (Some w) \<Rightarrow> Inr (w, memo)
      | None \<Rightarrow>
          (case v of
             VBool _ \<Rightarrow> Inr (1, memo(pointer \<mapsto> Some 1))
           | VObj schema \<Rightarrow>
               bind_res (estimate_groups fuel doc (work_groups doc schema pointer) 1 (memo(pointer \<mapsto> None)))
                 (\<lambda>(w, memo). Inr (w, memo(pointer \<mapsto> Some w)))
           | _ \<Rightarrow> Inl (WorkNotSchema pointer)))"
| "estimate_children fuel doc [] work memo = Inr (work, memo)"
| "estimate_children fuel doc ((v, pointer) # cs) work memo =
     bind_res (estimate fuel doc v pointer memo) (\<lambda>(w, memo).
       let work' = saturatingSchemaWorkAdd work w in
       if work' > maxSchemaValidationWork then Inr (work', memo)
       else estimate_children fuel doc cs work' memo)"
| "estimate_groups fuel doc [] work memo = Inr (work, memo)"
| "estimate_groups fuel doc (Inl e # gs) work memo = Inl e"
| "estimate_groups fuel doc (Inr cs # gs) work memo =
     bind_res (estimate_children fuel doc cs work memo) (\<lambda>(work, memo).
       estimate_groups fuel doc gs work memo)"

definition estimate_fuel :: nat where "estimate_fuel = 66"

datatype structure_error =
    NotClosed proof_error | NoEstimate work_error | TooMuchWork bytes

definition validatePortableSchemaStructure :: "unicode \<Rightarrow> gval \<Rightarrow> bytes \<Rightarrow> structure_error option" where
  "validatePortableSchemaStructure U v location =
     (case validatePortableClosure U v location of
        Some e \<Rightarrow> Some (NotClosed e)
      | None \<Rightarrow>
          (case estimate estimate_fuel v v ''#'' Map.empty of
             Inl e \<Rightarrow> Some (NoEstimate e)
           | Inr (work, _) \<Rightarrow>
               if work > maxSchemaValidationWork then Some (TooMuchWork location) else None))"

section \<open>The schema against a fixture\<close>

type_synonym work_key = "bytes \<times> bytes \<times> bytes"
type_synonym instance_child = "gval \<times> bytes \<times> gval \<times> bytes \<times> bytes"
type_synonym instance_memo = "work_key \<Rightarrow> nat option option"

definition fixture_objects ::
  "object \<Rightarrow> object option \<Rightarrow> bytes \<Rightarrow> object \<Rightarrow> bytes \<Rightarrow> bytes \<Rightarrow> instance_child list" where
  "fixture_objects schema properties sp obj ip role =
     (let declared = (case properties of Some m \<Rightarrow> m | None \<Rightarrow> []) in
      (if has_key schema ''additionalProperties'' then
         map (\<lambda>(name, x). (field schema ''additionalProperties'', appendSchemaPointer sp [''additionalProperties''],
                x, appendSchemaPointer ip [name], role))
           (filter (\<lambda>(name, x). \<not> has_key declared name) obj) else []) @
      (if has_key schema ''propertyNames'' then
         map (\<lambda>(name, x). (field schema ''propertyNames'', appendSchemaPointer sp [''propertyNames''],
                VStr name, appendSchemaPointer ip [''@propertyName'', name], ''property-name'')) obj else []) @
      (if has_key schema ''unevaluatedProperties'' then
         map (\<lambda>(name, x). (field schema ''unevaluatedProperties'', appendSchemaPointer sp [''unevaluatedProperties''],
                x, appendSchemaPointer ip [name], role)) obj else []))"

definition fixture_each ::
  "object \<Rightarrow> bytes \<Rightarrow> bytes \<Rightarrow> nat \<Rightarrow> gval list \<Rightarrow> bytes \<Rightarrow> bytes \<Rightarrow> instance_child list" where
  "fixture_each schema keyword sp from xs ip role =
     (if has_key schema keyword then
        map (\<lambda>i. (field schema keyword, appendSchemaPointer sp [keyword], xs ! i,
               appendSchemaPointer ip [decimal i], role)) [from..<length xs]
      else [])"

definition fixture_arrays :: "object \<Rightarrow> bytes \<Rightarrow> gval list \<Rightarrow> bytes \<Rightarrow> bytes \<Rightarrow> instance_child list" where
  "fixture_arrays schema sp xs ip role =
     (let prefix = (case as_arr (field schema ''prefixItems'') of Some ps \<Rightarrow> ps | None \<Rightarrow> []) in
      map (\<lambda>i. (prefix ! i, appendSchemaPointer sp [''prefixItems'', decimal i], xs ! i,
             appendSchemaPointer ip [decimal i], role)) [0..<min (length prefix) (length xs)] @
      fixture_each schema ''items'' sp (length prefix) xs ip role @
      fixture_each schema ''contains'' sp 0 xs ip role @
      fixture_each schema ''unevaluatedItems'' sp 0 xs ip role)"

definition fixture_groups ::
  "gval \<Rightarrow> object \<Rightarrow> bytes \<Rightarrow> gval \<Rightarrow> bytes \<Rightarrow> bytes \<Rightarrow> (work_error + instance_child list) list" where
  "fixture_groups doc schema sp v ip role =
     (let same = map (\<lambda>(child, p). (child, p, v, ip, role));
          keyword = (\<lambda>k. case schemaObjectKeyword schema k sp of Inl e \<Rightarrow> Inl (WorkKeyword e) | Inr m \<Rightarrow> Inr m);
          obj = as_obj v in
      [bind_res (keyword ''properties'') (\<lambda>properties.
         Inr (case (obj, properties) of
                (Some m, Some ps) \<Rightarrow>
                  map (\<lambda>(name, child). (child, appendSchemaPointer sp [''properties'', name], field m name,
                         appendSchemaPointer ip [name], role)) (filter (\<lambda>(name, child). has_key m name) ps)
              | _ \<Rightarrow> [])),
       bind_res (keyword ''dependentSchemas'') (\<lambda>dependents.
         Inr (case (obj, dependents) of
                (Some m, Some ds) \<Rightarrow>
                  map (\<lambda>(name, child). (child, appendSchemaPointer sp [''dependentSchemas'', name], v, ip, role))
                    (filter (\<lambda>(name, child). has_key m name) ds)
              | _ \<Rightarrow> [])),
       bind_res (keyword ''properties'') (\<lambda>properties.
         Inr (case obj of Some m \<Rightarrow> fixture_objects schema properties sp m ip role | None \<Rightarrow> [])),
       Inr (case as_arr v of Some xs \<Rightarrow> fixture_arrays schema sp xs ip role | None \<Rightarrow> []),
       Inr (same (map (\<lambda>k. (field schema k, appendSchemaPointer sp [k]))
              (filter (has_key schema) [''not'', ''if'', ''then'', ''else''])))] @
      map (\<lambda>k. bind_res (work_array schema sp k) (\<lambda>cs. Inr (same cs))) [''allOf'', ''anyOf'', ''oneOf''] @
      [bind_res (work_reference doc schema sp) (\<lambda>cs. Inr (same cs))])"

text \<open>Here \<^verbatim>\<open>addChild\<close> itself does nothing once the work is above the limit.\<close>

function (sequential) fixture_estimate ::
  "nat \<Rightarrow> gval \<Rightarrow> gval \<Rightarrow> bytes \<Rightarrow> gval \<Rightarrow> bytes \<Rightarrow> bytes \<Rightarrow> instance_memo \<Rightarrow> work_error + nat \<times> instance_memo"
  and fixture_children ::
  "nat \<Rightarrow> gval \<Rightarrow> instance_child list \<Rightarrow> nat \<Rightarrow> instance_memo \<Rightarrow> work_error + nat \<times> instance_memo"
  and fixture_loops ::
  "nat \<Rightarrow> gval \<Rightarrow> (work_error + instance_child list) list \<Rightarrow> nat \<Rightarrow> instance_memo \<Rightarrow> work_error + nat \<times> instance_memo" where
  "fixture_estimate 0 doc s sp v ip role memo = Inl WorkOutOfFuel"
| "fixture_estimate (Suc fuel) doc s sp v ip role memo =
     (case memo (sp, ip, role) of
        Some None \<Rightarrow> Inl (WorkCycle sp)
      | Some (Some w) \<Rightarrow> Inr (w, memo)
      | None \<Rightarrow>
          (case s of
             VBool _ \<Rightarrow> Inr (1, memo((sp, ip, role) \<mapsto> Some 1))
           | VObj schema \<Rightarrow>
               bind_res (fixture_loops fuel doc (fixture_groups doc schema sp v ip role) 1
                           (memo((sp, ip, role) \<mapsto> None)))
                 (\<lambda>(w, memo). Inr (w, memo((sp, ip, role) \<mapsto> Some w)))
           | _ \<Rightarrow> Inl (WorkNotSchema sp)))"
| "fixture_children fuel doc [] work memo = Inr (work, memo)"
| "fixture_children fuel doc ((s, sp, v, ip, role) # cs) work memo =
     (if work > maxSchemaValidationWork then fixture_children fuel doc cs work memo
      else bind_res (fixture_estimate fuel doc s sp v ip role memo) (\<lambda>(w, memo).
             fixture_children fuel doc cs (saturatingSchemaWorkAdd work w) memo))"
| "fixture_loops fuel doc [] work memo = Inr (work, memo)"
| "fixture_loops fuel doc (Inl e # gs) work memo = Inl e"
| "fixture_loops fuel doc (Inr cs # gs) work memo =
     bind_res (fixture_children fuel doc cs work memo) (\<lambda>(work, memo). fixture_loops fuel doc gs work memo)"
  by pat_completeness auto
termination
  by (relation "measures
       [case_sum (\<lambda>(fuel, _). fuel) (case_sum (\<lambda>(fuel, _). fuel) (\<lambda>(fuel, _). fuel)),
        case_sum (\<lambda>_. 0) (case_sum (\<lambda>_. 1) (\<lambda>_. 2)),
        case_sum (\<lambda>_. 0) (case_sum (\<lambda>(_, _, cs, _). length cs) (\<lambda>(_, _, gs, _). length gs))]")
    auto

end
