(* ===== verification/Materialize.thy ===== *)
theory Materialize
  imports FormModel
begin

text \<open>
  Default materialization of \<^verbatim>\<open>snapshot/snapshot.go\<close>: \<open>materializeSchemaValue\<close> fills the
  omitted members of a desired value from the defaults its schema declares, recursively and
  through the branch a discriminator selects. The recursion follows the schema, every
  recursive call being on a strict part of it. The theorems say that a value is only ever
  extended, that an omitted default and the same default written out materialize alike, and
  that materializing twice changes nothing.
\<close>

section \<open>Sizes of values\<close>

fun weight :: "gval \<Rightarrow> nat"
  and weight_items :: "gval list \<Rightarrow> nat"
  and weight_fields :: "object \<Rightarrow> nat" where
  "weight (VArr xs) = Suc (weight_items xs)"
| "weight (VObj m) = Suc (weight_fields m)"
| "weight _ = 1"
| "weight_items [] = 0"
| "weight_items (x # xs) = weight x + weight_items xs"
| "weight_fields [] = 0"
| "weight_fields ((k, v) # m) = weight v + weight_fields m"

lemma weight_pos [simp]: "0 < weight v" by (cases v) auto

lemma weight_item: "x \<in> set xs \<Longrightarrow> weight x \<le> weight_items xs"
  by (induction xs) auto

lemma weight_member: "(k, v) \<in> set m \<Longrightarrow> weight v \<le> weight_fields m"
  by (induction m) auto

lemma weight_field: "has_key m k \<Longrightarrow> weight (field m k) \<le> weight_fields m"
  using weight_member field_mem by metis

definition map_or_nil :: "gval \<Rightarrow> object" where
  "map_or_nil v = (case as_obj v of Some m \<Rightarrow> m | None \<Rightarrow> [])"

definition list_or_nil :: "gval \<Rightarrow> gval list" where
  "list_or_nil v = (case as_arr v of Some xs \<Rightarrow> xs | None \<Rightarrow> [])"

lemma field_VNull_key: "field m k \<noteq> VNull \<Longrightarrow> has_key m k"
  using field_absent by blast

lemma weight_obj_field: "field m k = VObj c \<Longrightarrow> weight_fields c < weight_fields m"
  using weight_field [of m k] field_VNull_key [of m k] by simp

lemma weight_arr_field: "field m k = VArr c \<Longrightarrow> weight_items c < weight_fields m"
  using weight_field [of m k] field_VNull_key [of m k] by simp

lemma weight_map_or_nil: "weight_fields (map_or_nil v) < weight v"
  by (cases v) (simp_all add: map_or_nil_def)

lemma weight_branch: "b \<in> set (list_or_nil (field m k)) \<Longrightarrow> weight_fields (map_or_nil b) < weight_fields m"
  using weight_map_or_nil [of b] weight_item [of b "list_or_nil (field m k)"] weight_arr_field [of m k]
  by (cases "field m k") (auto simp: list_or_nil_def)

section \<open>Cloning\<close>

fun cloneJSONValue :: "gval \<Rightarrow> gval"
  and clone_fields :: "object \<Rightarrow> object"
  and clone_items :: "gval list \<Rightarrow> gval list" where
  "cloneJSONValue (VObj m) = VObj (clone_fields m)"
| "cloneJSONValue (VArr xs) = VArr (clone_items xs)"
| "cloneJSONValue v = v"
| "clone_fields [] = []"
| "clone_fields ((k, v) # m) = (k, cloneJSONValue v) # clone_fields m"
| "clone_items [] = []"
| "clone_items (x # xs) = cloneJSONValue x # clone_items xs"

lemma clone_same [simp]: "cloneJSONValue v = v" "clone_fields m = m" "clone_items xs = xs"
  by (induction v and m and xs rule: cloneJSONValue_clone_fields_clone_items.induct) auto

section \<open>Materialization\<close>

definition union_discriminator :: "object \<Rightarrow> bytes" where
  "union_discriminator schema = str_member schema ''x-takoform-discriminator''"

definition branch_tag :: "bytes \<Rightarrow> gval \<Rightarrow> bytes" where
  "branch_tag d rawBranch =
     str_member (map_or_nil (field (map_or_nil (field (map_or_nil rawBranch) ''properties'')) d)) ''const''"

definition selected_branch :: "object \<Rightarrow> object \<Rightarrow> gval option" where
  "selected_branch schema obj =
     (let d = union_discriminator schema in
      List.find (\<lambda>b. branch_tag d b = str_member obj d) (list_or_nil (field schema ''oneOf'')))"

text \<open>The schema of a member: its property's, or that of additional properties.\<close>

definition child_schema :: "object \<Rightarrow> bytes \<Rightarrow> object option" where
  "child_schema schema key =
     (case as_obj (field (map_or_nil (field schema ''properties'')) key) of
        Some c \<Rightarrow> Some c
      | None \<Rightarrow> as_obj (field schema ''additionalProperties''))"

definition property_default :: "gval \<Rightarrow> gval option" where
  "property_default rawProperty =
     (let p = map_or_nil rawProperty in
      if has_key p ''default'' then Some (field p ''default'') else None)"

lemma selected_weight: "selected_branch s obj = Some b \<Longrightarrow> weight_fields (map_or_nil b) < weight_fields s"
proof -
  assume "selected_branch s obj = Some b"
  then have "b \<in> set (list_or_nil (field s ''oneOf''))"
    by (auto simp: selected_branch_def Let_def find_Some_iff)
  then show ?thesis by (rule weight_branch)
qed

lemma child_weight: "child_schema s k = Some c \<Longrightarrow> weight_fields c < weight_fields s"
proof -
  assume c: "child_schema s k = Some c"
  show ?thesis
  proof (cases "as_obj (field (map_or_nil (field s ''properties'')) k)")
    case None
    with c show ?thesis using weight_obj_field [of s "''additionalProperties''" c] by (simp add: child_schema_def)
  next
    case (Some d)
    then have "weight_fields d < weight_fields (map_or_nil (field s ''properties''))"
      using weight_obj_field by simp
    moreover have "weight_fields (map_or_nil (field s ''properties'')) \<le> weight_fields s"
      using weight_obj_field [of s "''properties''"] by (cases "field s ''properties''") (auto simp: map_or_nil_def)
    ultimately show ?thesis using c Some by (simp add: child_schema_def)
  qed
qed

lemma property_weight:
  "(n, raw) \<in> set (map_or_nil (field s ''properties'')) \<Longrightarrow> weight_fields (map_or_nil raw) < weight_fields s"
  using weight_map_or_nil [of raw] weight_member [of n raw "map_or_nil (field s ''properties'')"]
    weight_obj_field [of s "''properties''"]
  by (cases "field s ''properties''") (auto simp: map_or_nil_def)

function (sequential) materializeSchemaValue :: "object \<Rightarrow> gval \<Rightarrow> gval" where
  "materializeSchemaValue schema v =
     (if union_discriminator schema \<noteq> [] then
        (case v of
           VObj obj \<Rightarrow>
             (case selected_branch schema obj of
                Some b \<Rightarrow> materializeSchemaValue (map_or_nil b) (VObj obj)
              | None \<Rightarrow> cloneJSONValue v)
         | _ \<Rightarrow> cloneJSONValue v)
      else if str_member schema ''type'' = ''object'' then
        (case v of
           VObj obj \<Rightarrow>
             VObj (map (\<lambda>(key, item).
                     (key, case child_schema schema key of
                             None \<Rightarrow> cloneJSONValue item
                           | Some c \<Rightarrow> materializeSchemaValue c item)) obj @
                   concat (map (\<lambda>(name, raw).
                     if has_key obj name then []
                     else (case property_default raw of
                             None \<Rightarrow> []
                           | Some d \<Rightarrow> [(name, materializeSchemaValue (map_or_nil raw) (cloneJSONValue d))]))
                     (map_or_nil (field schema ''properties''))))
         | _ \<Rightarrow> cloneJSONValue v)
      else if str_member schema ''type'' = ''array'' then
        (case v of
           VArr items \<Rightarrow>
             VArr (map (\<lambda>item. case as_obj (field schema ''items'') of
                                None \<Rightarrow> cloneJSONValue item
                              | Some c \<Rightarrow> materializeSchemaValue c item) items)
         | _ \<Rightarrow> cloneJSONValue v)
      else cloneJSONValue v)"
  by pat_completeness auto
termination
  by (relation "measure (\<lambda>(schema, _). weight_fields schema)")
    (auto simp: selected_weight child_weight property_weight weight_obj_field)

declare materializeSchemaValue.simps [simp del]

lemma materialize_union:
  "union_discriminator s \<noteq> [] \<Longrightarrow> materializeSchemaValue s (VObj obj) =
     (case selected_branch s obj of Some b \<Rightarrow> materializeSchemaValue (map_or_nil b) (VObj obj) | None \<Rightarrow> VObj obj)"
  by (subst materializeSchemaValue.simps) (simp split: option.split)

definition member_value :: "object \<Rightarrow> bytes \<times> gval \<Rightarrow> bytes \<times> gval" where
  "member_value s e =
     (fst e, case child_schema s (fst e) of None \<Rightarrow> snd e | Some c \<Rightarrow> materializeSchemaValue c (snd e))"

definition default_members :: "object \<Rightarrow> object \<Rightarrow> object \<Rightarrow> object" where
  "default_members s obj props =
     concat (map (\<lambda>(name, raw).
       if has_key obj name then []
       else (case property_default raw of
               None \<Rightarrow> [] | Some d \<Rightarrow> [(name, materializeSchemaValue (map_or_nil raw) d)])) props)"

lemma materialize_object:
  "union_discriminator s = [] \<Longrightarrow> str_member s ''type'' = ''object'' \<Longrightarrow>
     materializeSchemaValue s (VObj obj) =
     VObj (map (member_value s) obj @ default_members s obj (map_or_nil (field s ''properties'')))"
  by (subst materializeSchemaValue.simps)
    (simp add: member_value_def default_members_def case_prod_beta cong: option.case_cong if_cong)

lemma materialize_array:
  "union_discriminator s = [] \<Longrightarrow> str_member s ''type'' = ''array'' \<Longrightarrow>
     materializeSchemaValue s (VArr xs) =
     VArr (case as_obj (field s ''items'') of None \<Rightarrow> xs | Some c \<Rightarrow> map (materializeSchemaValue c) xs)"
  by (subst materializeSchemaValue.simps) (simp split: option.split)

lemma materialize_other:
  assumes "\<And>obj. v = VObj obj \<Longrightarrow> union_discriminator s = [] \<and> str_member s ''type'' \<noteq> ''object''"
    and "\<And>xs. v = VArr xs \<Longrightarrow> union_discriminator s \<noteq> [] \<or> str_member s ''type'' \<noteq> ''array''"
  shows "materializeSchemaValue s v = v"
  using assms by (subst materializeSchemaValue.simps) (auto split: gval.split)

section \<open>A value is only extended\<close>

inductive extends_value :: "gval \<Rightarrow> gval \<Rightarrow> bool" where
  ext_same: "extends_value v v"
| ext_object: "list_all2 (rel_prod (=) extends_value) m m' \<Longrightarrow> list_all (\<lambda>e. \<not> has_key m (fst e)) new
    \<Longrightarrow> extends_value (VObj m) (VObj (m' @ new))"
| ext_array: "list_all2 extends_value xs ys \<Longrightarrow> extends_value (VArr xs) (VArr ys)"
  monos prod.rel_mono

lemma default_members_new: "list_all (\<lambda>e. \<not> has_key obj (fst e)) (default_members s obj props)"
  by (auto simp: default_members_def list_all_iff split: if_splits option.splits)

lemma materialize_extends: "extends_value v (materializeSchemaValue s v)"
proof (induction "weight_fields s" arbitrary: s v rule: less_induct)
  case less
  have item: "extends_value v (case c of None \<Rightarrow> v | Some c \<Rightarrow> materializeSchemaValue c v)"
    if "\<And>d. c = Some d \<Longrightarrow> weight_fields d < weight_fields s" for c v
    using less that by (cases c) (auto intro: ext_same)
  consider (union) obj where "v = VObj obj" "union_discriminator s \<noteq> []"
    | (object) obj where "v = VObj obj" "union_discriminator s = []" "str_member s ''type'' = ''object''"
    | (array) xs where "v = VArr xs" "union_discriminator s = []" "str_member s ''type'' = ''array''"
    | (other) "materializeSchemaValue s v = v"
    using materialize_other [of v s] by blast
  then show ?case
  proof cases
    case union
    then show ?thesis
      using less selected_weight by (auto simp: materialize_union split: option.split intro: ext_same)
  next
    case object
    have "list_all2 (rel_prod (=) extends_value) obj (map (member_value s) obj)"
      using item child_weight
      by (auto simp: list_all2_conv_all_nth rel_prod_sel member_value_def)
    then show ?thesis
      using object default_members_new by (simp add: materialize_object ext_object)
  next
    case array
    have it: "extends_value v (case as_obj (field s ''items'') of None \<Rightarrow> v
        | Some c \<Rightarrow> materializeSchemaValue c v)" for v
      by (rule item) (simp add: weight_obj_field)
    have "list_all2 extends_value xs (map (\<lambda>v. case as_obj (field s ''items'') of None \<Rightarrow> v
        | Some c \<Rightarrow> materializeSchemaValue c v) xs)"
      using it by (simp add: list_all2_conv_all_nth)
    moreover have "materializeSchemaValue s v = VArr (map (\<lambda>v. case as_obj (field s ''items'') of None \<Rightarrow> v
        | Some c \<Rightarrow> materializeSchemaValue c v) xs)"
      using array by (auto simp: materialize_array split: option.split)
    ultimately show ?thesis using array(1) by (simp add: ext_array)
  next
    case other
    then show ?thesis by (simp add: ext_same)
  qed
qed

text \<open>
  C35. Materialization only adds: every member and item of the desired value is still there,
  in its place, itself at most extended, and what is new are members the value did not have.
\<close>

theorem materialize_only_adds: "extends_value v (materializeSchemaValue schema v)"
  by (rule materialize_extends)

section \<open>Omitted and explicit defaults\<close>

lemma default_members_explicit:
  assumes "distinct (keys props)" and "(n, raw) \<in> set props" and "property_default raw = Some d" and "\<not> has_key obj n"
  shows "mset ((n, materializeSchemaValue (map_or_nil raw) d) # default_members s (obj @ [(n, w)]) props) =
    mset (default_members s obj props)"
  using assms
proof (induction props)
  case (Cons e props)
  obtain k r where e: "e = (k, r)" by (cases e)
  show ?case
  proof (cases "k = n")
    case True
    have "default_members s (obj @ [(n, w)]) props = default_members s obj props"
    proof -
      have "n \<notin> set (keys props)" using Cons.prems(1) e True by simp
      then show ?thesis
        unfolding default_members_def
        by (intro arg_cong [where f = concat] map_cong refl) (auto simp: go_simps rev_image_eqI split: prod.split)
    qed
    moreover have "r = raw" using Cons.prems(1,2) e True by (auto simp: rev_image_eqI)
    ultimately show ?thesis
      using Cons.prems e True by (simp add: default_members_def go_simps)
  next
    case False
    then have "(n, raw) \<in> set props" using Cons.prems(2) e by simp
    with Cons have "mset ((n, materializeSchemaValue (map_or_nil raw) d) # default_members s (obj @ [(n, w)]) props) =
      mset (default_members s obj props)" by simp
    then show ?thesis using e False by (simp add: default_members_def go_simps)
  qed
qed simp

lemma explicit_default:
  assumes u: "union_discriminator s = []" "str_member s ''type'' = ''object''"
    and p: "field s ''properties'' = VObj props" "distinct (keys props)" "field props n = VObj p"
    and d: "has_key p ''default''" and o': "\<not> has_key obj n"
  shows "value_eq (materializeSchemaValue s (VObj (obj @ [(n, field p ''default'')])))
    (materializeSchemaValue s (VObj obj))"
proof -
  have k: "has_key props n" using p(3) field_VNull_key by force
  have mem: "(n, VObj p) \<in> set props" using field_mem [OF k] p(3) by simp
  have c: "child_schema s n = Some p" using p by (simp add: child_schema_def map_or_nil_def)
  have pd: "property_default (VObj p) = Some (field p ''default'')"
    using d by (simp add: property_default_def map_or_nil_def Let_def)
  have "mset (map (member_value s) (obj @ [(n, field p ''default'')]) @
        default_members s (obj @ [(n, field p ''default'')]) props) =
      mset (map (member_value s) obj @ default_members s obj props)"
    using default_members_explicit [OF p(2) mem pd o', of s "field p ''default''"]
    by (simp add: member_value_def c map_or_nil_def)
  then show ?thesis
    using u p(1) by (simp add: materialize_object map_or_nil_def value_eq_perm del: map_append mset_append)
qed

text \<open>
  Omitting a member and writing out its default are the same: with the default of a
  property given explicitly or left out, an object materializes to the same value, up to the
  order of members that canonicalization removes.
\<close>

theorem explicit_default_same:
  assumes "union_discriminator schema = []" and "str_member schema ''type'' = ''object''"
    and "field schema ''properties'' = VObj props" and "distinct (keys props)" and "field props n = VObj p"
    and "has_key p ''default''" and "\<not> has_key obj n"
  shows "value_eq (materializeSchemaValue schema (VObj (obj @ [(n, field p ''default'')])))
    (materializeSchemaValue schema (VObj obj))"
  using assms by (rule explicit_default)

section \<open>Materializing twice\<close>

text \<open>A schema whose unions name a constant tag in every branch, at every depth.\<close>

definition union_tagged :: "object \<Rightarrow> bool" where
  "union_tagged s \<longleftrightarrow> union_discriminator s = [] \<or>
     list_all (\<lambda>b. branch_tag (union_discriminator s) b \<noteq> []) (list_or_nil (field s ''oneOf''))"

fun well_tagged :: "gval \<Rightarrow> bool"
  and fields_tagged :: "object \<Rightarrow> bool"
  and items_tagged :: "gval list \<Rightarrow> bool" where
  "well_tagged (VObj m) = (union_tagged m \<and> fields_tagged m)"
| "well_tagged (VArr xs) = items_tagged xs"
| "well_tagged v = True"
| "fields_tagged [] = True"
| "fields_tagged ((k, v) # m) = (well_tagged v \<and> fields_tagged m)"
| "items_tagged [] = True"
| "items_tagged (x # xs) = (well_tagged x \<and> items_tagged xs)"

definition good_schema :: "object \<Rightarrow> bool" where
  "good_schema s \<longleftrightarrow> wf_value (VObj s) \<and> well_tagged (VObj s)"

lemma fields_tagged_iff: "fields_tagged m \<longleftrightarrow> (\<forall>(k, v)\<in>set m. well_tagged v)"
  by (induction m) auto

lemma items_tagged_iff: "items_tagged xs \<longleftrightarrow> (\<forall>x\<in>set xs. well_tagged x)"
  by (induction xs) auto

lemma good_nil: "good_schema []"
  by (simp add: good_schema_def union_tagged_def union_discriminator_def str_member_def go_simps)

lemma good_map_or_nil: "wf_value v \<Longrightarrow> well_tagged v \<Longrightarrow> good_schema (map_or_nil v)"
  using good_nil by (cases v) (simp_all add: map_or_nil_def good_schema_def)

lemma good_field:
  assumes "good_schema s"
  shows "wf_value (field s k)" and "well_tagged (field s k)"
  using assms wf_field [of s k] field_mem [of s k] field_absent [of s k]
  by (cases "has_key s k"; auto simp: good_schema_def fields_tagged_iff)+

lemma good_member: "good_schema s \<Longrightarrow> (k, v) \<in> set s \<Longrightarrow> good_schema (map_or_nil v)"
  by (rule good_map_or_nil) (auto simp: good_schema_def wf_fields_iff fields_tagged_iff)

lemma good_obj_field: "good_schema s \<Longrightarrow> field s k = VObj c \<Longrightarrow> good_schema c"
  using good_field [of s k] good_map_or_nil [of "field s k"] by (simp add: map_or_nil_def)

lemma good_child: "good_schema s \<Longrightarrow> child_schema s k = Some c \<Longrightarrow> good_schema c"
proof -
  assume s: "good_schema s" and c: "child_schema s k = Some c"
  have "good_schema (map_or_nil (field s ''properties''))" using good_field [OF s] by (rule good_map_or_nil)
  then show ?thesis
    using s c by (auto simp: child_schema_def split: option.splits dest: good_obj_field)
qed

lemma good_selected: "good_schema s \<Longrightarrow> selected_branch s obj = Some b \<Longrightarrow> good_schema (map_or_nil b)"
proof -
  assume s: "good_schema s" and b: "selected_branch s obj = Some b"
  then obtain xs where xs: "field s ''oneOf'' = VArr xs" "b \<in> set xs"
    by (cases "field s ''oneOf''") (auto simp: selected_branch_def Let_def find_Some_iff list_or_nil_def)
  then show ?thesis
    using good_field [OF s, of "''oneOf''"]
    by (intro good_map_or_nil) (auto simp: wf_values_iff items_tagged_iff)
qed

inductive_cases extends_objE: "extends_value (VObj m) w"
inductive_cases extends_strE: "extends_value (VStr t) w"

lemma extends_str_field:
  "list_all2 (rel_prod (=) extends_value) m m' \<Longrightarrow> field m k = VStr t \<Longrightarrow> field (m' @ new) k = VStr t"
proof (induction rule: list_all2_induct)
  case (Cons e m e' m')
  then show ?case
    by (cases e; cases e') (auto simp: go_simps rel_prod_sel split: if_splits elim: extends_strE)
qed (simp add: go_simps)

lemma extends_tag:
  assumes "extends_value (VObj m) w" and "str_member m k \<noteq> []"
  shows "\<exists>m'. w = VObj m' \<and> str_member m' k = str_member m k"
proof -
  have f: "field m k = VStr (str_member m k)"
    using assms(2) by (cases "field m k") (auto simp: str_member_def)
  have "\<exists>m'. VObj (n @ new) = VObj m' \<and> str_member m' k = str_member m k"
    if "list_all2 (rel_prod (=) extends_value) m n" for n new
    using extends_str_field [OF that f, of new] by (simp add: str_member_def)
  with assms(1) show ?thesis by (elim extends_objE) auto
qed

lemma default_members_Cons:
  "default_members s obj ((k, r) # props) =
     (if has_key obj k then []
      else (case property_default r of
              None \<Rightarrow> [] | Some d \<Rightarrow> [(k, materializeSchemaValue (map_or_nil r) d)])) @
     default_members s obj props"
  by (simp add: default_members_def)

lemma default_members_key:
  "(n, w) \<in> set (default_members s obj props) \<longleftrightarrow>
     (\<exists>raw d. (n, raw) \<in> set props \<and> \<not> has_key obj n \<and> property_default raw = Some d \<and>
        w = materializeSchemaValue (map_or_nil raw) d)"
proof (induction props)
  case (Cons e props)
  obtain k r where e: "e = (k, r)" by (cases e)
  have "(n, w) \<in> set (default_members s obj (e # props)) \<longleftrightarrow>
      (n = k \<and> \<not> has_key obj n \<and> (\<exists>d. property_default r = Some d \<and> w = materializeSchemaValue (map_or_nil r) d)) \<or>
      (n, w) \<in> set (default_members s obj props)"
    by (cases "property_default r") (auto simp: default_members_Cons e)
  then show ?case unfolding Cons.IH e by auto
qed (simp add: default_members_def)

lemma default_members_done:
  assumes "\<And>n raw d. (n, raw) \<in> set props \<Longrightarrow> property_default raw = Some d \<Longrightarrow> has_key obj n"
  shows "default_members s obj props = []"
  using assms default_members_key [of _ _ s obj props]
  by (cases "default_members s obj props") (auto, metis list.set_intros(1))

lemma property_default_obj: "property_default raw = Some d \<Longrightarrow> raw = VObj (map_or_nil raw)"
  by (cases raw) (auto simp: property_default_def map_or_nil_def Let_def go_simps)

lemma materialize_twice:
  "good_schema s \<Longrightarrow> materializeSchemaValue s (materializeSchemaValue s v) = materializeSchemaValue s v"
proof (induction "weight_fields s" arbitrary: s v rule: less_induct)
  case less
  note s = less.prems
  consider (union) obj where "v = VObj obj" "union_discriminator s \<noteq> []"
    | (object) obj where "v = VObj obj" "union_discriminator s = []" "str_member s ''type'' = ''object''"
    | (array) xs where "v = VArr xs" "union_discriminator s = []" "str_member s ''type'' = ''array''"
    | (other) "materializeSchemaValue s v = v"
    using materialize_other [of v s] by blast
  then show ?case
  proof cases
    case union
    show ?thesis
    proof (cases "selected_branch s obj")
      case None
      then show ?thesis using union by (simp add: materialize_union)
    next
      case (Some b)
      let ?t = "str_member obj (union_discriminator s)"
      have bt: "branch_tag (union_discriminator s) b = ?t" "b \<in> set (list_or_nil (field s ''oneOf''))"
        using Some by (auto simp: selected_branch_def Let_def find_Some_iff)
      then have "?t \<noteq> []"
        using s union(2) by (auto simp: good_schema_def union_tagged_def list_all_iff)
      then obtain obj' where o': "materializeSchemaValue (map_or_nil b) (VObj obj) = VObj obj'"
          "str_member obj' (union_discriminator s) = ?t"
        using extends_tag [OF materialize_extends] by blast
      then have "selected_branch s obj' = Some b" using Some by (simp add: selected_branch_def Let_def)
      then show ?thesis
        using union Some o' less.hyps [OF selected_weight [OF Some] good_selected [OF s Some], of "VObj obj"]
        by (simp add: materialize_union)
    qed
  next
    case object
    let ?props = "map_or_nil (field s ''properties'')"
    let ?o = "map (member_value s) obj @ default_members s obj ?props"
    have gp: "good_schema ?props" using good_field [OF s] by (rule good_map_or_nil)
    have old: "member_value s (member_value s e) = member_value s e" for e
      using less.hyps [OF child_weight good_child [OF s]]
      by (auto simp: member_value_def split: option.split)
    have new: "member_value s e = e" if e: "e \<in> set (default_members s obj ?props)" for e
    proof -
      obtain raw d where r: "(fst e, raw) \<in> set ?props" "property_default raw = Some d"
          "snd e = materializeSchemaValue (map_or_nil raw) d"
        using e default_members_key [of "fst e" "snd e" s obj ?props] by auto
      have "field ?props (fst e) = raw"
        using gp r(1) by (simp add: good_schema_def field_def)
      then have "child_schema s (fst e) = Some (map_or_nil raw)"
        using property_default_obj [OF r(2)] by (simp add: child_schema_def) (metis as_obj_Some option.simps(5))
      then show ?thesis
        using r(3) less.hyps [OF child_weight good_child [OF s], of "fst e" "map_or_nil raw" "fst e" d]
        by (simp add: member_value_def prod_eq_iff)
    qed
    have "has_key ?o n" if "(n, raw) \<in> set ?props" "property_default raw = Some d" for n raw d
    proof (cases "has_key obj n")
      case True
      then show ?thesis by (auto simp: has_key_keys member_value_def)
    next
      case False
      then have "(n, materializeSchemaValue (map_or_nil raw) d) \<in> set (default_members s obj ?props)"
        using that by (auto simp: default_members_key)
      then show ?thesis by (force simp: has_key_keys)
    qed
    then have "default_members s ?o ?props = []" by (rule default_members_done)
    moreover have "map (member_value s) ?o = ?o" using old new by (simp add: map_idI)
    ultimately show ?thesis using object by (simp add: materialize_object)
  next
    case array
    then show ?thesis
      using less.hyps [OF weight_obj_field good_obj_field [OF s]]
      by (auto simp: materialize_array split: option.split)
  qed simp
qed

text \<open>
  C34. Materialization is idempotent on a schema whose objects have distinct member names and whose
  discriminated unions carry a constant tag in each branch, at every depth: materializing a
  materialized value again gives the same value. The selection does not ask for the tag, and
  without it the property fails (\<open>untagged_branch_twice\<close>).
\<close>

theorem materialize_idempotent:
  assumes "good_schema schema"
  shows "materializeSchemaValue schema (materializeSchemaValue schema v) = materializeSchemaValue schema v"
  using assms by (rule materialize_twice)

section \<open>An example\<close>

definition size_branch :: object where
  "size_branch =
     [(''type'', VStr ''object''),
      (''properties'', VObj [(''kind'', VObj [(''const'', VStr ''sized'')]),
         (''size'', VObj [(''type'', VStr ''integer''), (''default'', VNumber ''1'')])])]"

definition size_schema :: object where
  "size_schema = [(''x-takoform-discriminator'', VStr ''kind''), (''oneOf'', VArr [VObj size_branch])]"

lemmas schema_simps = union_tagged_def union_discriminator_def str_member_def go_simps map_or_nil_def list_or_nil_def
  branch_tag_def selected_branch_def property_default_def child_schema_def

lemma size_schema_good: "good_schema size_schema"
  by (simp add: good_schema_def size_schema_def size_branch_def schema_simps)

lemma size_branch_members: "materializeSchemaValue size_branch (VObj obj) =
    VObj (map (member_value size_branch) obj @ (if has_key obj ''size'' then [] else [(''size'', VNumber ''1'')]))"
  by (subst materialize_object)
    (simp_all add: size_branch_def schema_simps default_members_Cons materialize_other, simp_all add: default_members_def)

lemma size_branch_kind: "member_value size_branch (''kind'', VStr t) = (''kind'', VStr t)"
  by (simp add: member_value_def size_branch_def schema_simps materialize_other)

theorem materialize_idempotent_witness:
  "materializeSchemaValue size_schema (VObj [(''kind'', VStr ''sized'')]) =
     VObj [(''kind'', VStr ''sized''), (''size'', VNumber ''1'')] \<and>
   materializeSchemaValue size_schema (materializeSchemaValue size_schema (VObj [(''kind'', VStr ''sized'')])) =
     materializeSchemaValue size_schema (VObj [(''kind'', VStr ''sized'')])"
proof
  have "selected_branch size_schema [(''kind'', VStr ''sized'')] = Some (VObj size_branch)"
    by (simp add: size_schema_def size_branch_def schema_simps)
  moreover have "union_discriminator size_schema \<noteq> []" by (simp add: size_schema_def schema_simps)
  ultimately show "materializeSchemaValue size_schema (VObj [(''kind'', VStr ''sized'')]) =
     VObj [(''kind'', VStr ''sized''), (''size'', VNumber ''1'')]"
    by (simp add: materialize_union map_or_nil_def size_branch_members size_branch_kind go_simps)
  show "materializeSchemaValue size_schema (materializeSchemaValue size_schema (VObj [(''kind'', VStr ''sized'')])) =
      materializeSchemaValue size_schema (VObj [(''kind'', VStr ''sized'')])"
    by (rule materialize_idempotent [OF size_schema_good])
qed

theorem explicit_default_same_witness:
  "value_eq (materializeSchemaValue size_branch (VObj ([] @ [(''size'', VNumber ''1'')])))
     (materializeSchemaValue size_branch (VObj []))"
proof -
  have "field [(''type'', VStr ''integer''), (''default'', VNumber ''1'')] ''default'' = VNumber ''1''"
    by (simp add: go_simps)
  then show ?thesis
    using explicit_default_same [of size_branch
        "[(''kind'', VObj [(''const'', VStr ''sized'')]),
          (''size'', VObj [(''type'', VStr ''integer''), (''default'', VNumber ''1'')])]" "''size''"
        "[(''type'', VStr ''integer''), (''default'', VNumber ''1'')]" "[]"]
    by (simp add: size_branch_def union_discriminator_def str_member_def go_simps)
qed

text \<open>
  A branch without a constant tag is selected by an object without the discriminator, and its
  own default for the discriminator then selects another branch the second time.
\<close>

definition plain_branch :: object where
  "plain_branch =
     [(''type'', VStr ''object''),
      (''properties'', VObj [(''kind'', VObj [(''default'', VStr ''sized'')])])]"

definition untagged_schema :: object where
  "untagged_schema = [(''x-takoform-discriminator'', VStr ''kind''),
     (''oneOf'', VArr [VObj plain_branch, VObj size_branch])]"

lemma untagged_branch_twice:
  "materializeSchemaValue untagged_schema (VObj []) = VObj [(''kind'', VStr ''sized'')]"
  "materializeSchemaValue untagged_schema (VObj [(''kind'', VStr ''sized'')]) =
     VObj [(''kind'', VStr ''sized''), (''size'', VNumber ''1'')]"
proof -
  have b: "selected_branch untagged_schema [] = Some (VObj plain_branch)"
    "selected_branch untagged_schema [(''kind'', VStr ''sized'')] = Some (VObj size_branch)"
    "union_discriminator untagged_schema \<noteq> []"
    by (simp_all add: untagged_schema_def plain_branch_def size_branch_def schema_simps)
  have "materializeSchemaValue plain_branch (VObj []) = VObj [(''kind'', VStr ''sized'')]"
    by (subst materialize_object)
      (simp_all add: plain_branch_def schema_simps default_members_Cons materialize_other, simp_all add: default_members_def)
  with b(1,3) show "materializeSchemaValue untagged_schema (VObj []) = VObj [(''kind'', VStr ''sized'')]"
    by (simp add: materialize_union map_or_nil_def)
  show "materializeSchemaValue untagged_schema (VObj [(''kind'', VStr ''sized'')]) =
     VObj [(''kind'', VStr ''sized''), (''size'', VNumber ''1'')]"
    using b(2,3) by (simp add: materialize_union map_or_nil_def size_branch_members size_branch_kind go_simps)
qed

end
