(* ===== verification/ContractDefinitions.thy ===== *)
theory ContractDefinitions
  imports LocalReferences
begin

text \<open>
  The semantic checks of Interface and Binding Definitions in \<^verbatim>\<open>formpackage/schema.go\<close>: operation
  names and their error vocabularies, fixtures closed over them, and the anchoring of the
  binding name grammar. A parsed RE2 expression has the node types of Go's \<^verbatim>\<open>regexp/syntax\<close>; the
  parser itself is a parameter. \<open>re_match n e i j\<close> is what the anchoring is about: in a
  text of \<open>n\<close> positions the expression can match from \<open>i\<close> to \<open>j\<close>, every node that reads
  characters being allowed to read any.
\<close>

section \<open>Interface Definitions\<close>

datatype interface_error =
    DocumentNotObject | OperationsNotArray | OperationNotObject nat | OperationName nat
  | DuplicateOperation bytes | ErrorsNotArray bytes | ErrorNotString bytes
  | FixturesNotArray | FixtureNotObject nat | StepsNotArray bytes | StepNotObject bytes nat
  | StepOperation bytes nat | UndeclaredOperation bytes bytes
  | ExpectedNotString bytes bytes | UndeclaredError bytes bytes bytes

fun all_strings :: "gval list \<Rightarrow> bytes list option" where
  "all_strings [] = Some []"
| "all_strings (v # vs) =
     (case as_str v of None \<Rightarrow> None | Some s \<Rightarrow> map_option (\<lambda>ss. s # ss) (all_strings vs))"

fun declared_operations ::
  "gval list \<Rightarrow> nat \<Rightarrow> (bytes \<times> bytes list) list \<Rightarrow> interface_error + (bytes \<times> bytes list) list" where
  "declared_operations [] i declared = Inr declared"
| "declared_operations (raw # rest) i declared =
     (case as_obj raw of
        None \<Rightarrow> Inl (OperationNotObject i)
      | Some operation \<Rightarrow>
          (case as_str (field operation ''name'') of
             None \<Rightarrow> Inl (OperationName i)
           | Some name \<Rightarrow>
               if map_of declared name \<noteq> None then Inl (DuplicateOperation name)
               else (case as_arr (field operation ''errors'') of
                       None \<Rightarrow> Inl (ErrorsNotArray name)
                     | Some errors \<Rightarrow>
                         (case all_strings errors of
                            None \<Rightarrow> Inl (ErrorNotString name)
                          | Some codes \<Rightarrow> declared_operations rest (Suc i) ((name, codes) # declared)))))"

definition check_step ::
  "(bytes \<times> bytes list) list \<Rightarrow> bytes \<Rightarrow> nat \<Rightarrow> gval \<Rightarrow> interface_error option" where
  "check_step declared fixtureName i raw =
     (case as_obj raw of
        None \<Rightarrow> Some (StepNotObject fixtureName i)
      | Some step \<Rightarrow>
          (case as_str (field step ''operation'') of
             None \<Rightarrow> Some (StepOperation fixtureName i)
           | Some operation \<Rightarrow>
               (case map_of declared operation of
                  None \<Rightarrow> Some (UndeclaredOperation fixtureName operation)
                | Some codes \<Rightarrow>
                    if \<not> has_key step ''expectedError'' then None
                    else (case as_str (field step ''expectedError'') of
                            None \<Rightarrow> Some (ExpectedNotString fixtureName operation)
                          | Some e \<Rightarrow>
                              if List.member codes e then None
                              else Some (UndeclaredError fixtureName e operation)))))"

fun check_steps ::
  "(bytes \<times> bytes list) list \<Rightarrow> bytes \<Rightarrow> nat \<Rightarrow> gval list \<Rightarrow> interface_error option" where
  "check_steps declared name i [] = None"
| "check_steps declared name i (raw # rest) =
     (case check_step declared name i raw of
        Some e \<Rightarrow> Some e | None \<Rightarrow> check_steps declared name (Suc i) rest)"

fun check_fixtures ::
  "(bytes \<times> bytes list) list \<Rightarrow> nat \<Rightarrow> gval list \<Rightarrow> interface_error option" where
  "check_fixtures declared i [] = None"
| "check_fixtures declared i (raw # rest) =
     (case as_obj raw of
        None \<Rightarrow> Some (FixtureNotObject i)
      | Some fixture \<Rightarrow>
          (let name = (case as_str (field fixture ''name'') of Some s \<Rightarrow> s | None \<Rightarrow> []) in
           case as_arr (field fixture ''steps'') of
             None \<Rightarrow> Some (StepsNotArray name)
           | Some steps \<Rightarrow>
               (case check_steps declared name 0 steps of
                  Some e \<Rightarrow> Some e | None \<Rightarrow> check_fixtures declared (Suc i) rest)))"

definition validateInterfaceDefinitionSemantics :: "gval \<Rightarrow> interface_error option" where
  "validateInterfaceDefinitionSemantics document =
     (case as_obj document of
        None \<Rightarrow> Some DocumentNotObject
      | Some def \<Rightarrow>
          (case as_arr (field def ''operations'') of
             None \<Rightarrow> Some OperationsNotArray
           | Some operations \<Rightarrow>
               (case declared_operations operations 0 [] of
                  Inl e \<Rightarrow> Some e
                | Inr declared \<Rightarrow>
                    if \<not> has_key def ''fixtures'' then None
                    else (case as_arr (field def ''fixtures'') of
                            None \<Rightarrow> Some FixturesNotArray
                          | Some fixtures \<Rightarrow> check_fixtures declared 0 fixtures))))"

subsection \<open>What an accepted Interface Definition is\<close>

definition operation_decl :: "gval \<Rightarrow> (bytes \<times> bytes list) option" where
  "operation_decl raw =
     (case raw of
        VObj m \<Rightarrow>
          (case (field m ''name'', field m ''errors'') of
             (VStr name, VArr errors) \<Rightarrow> map_option (\<lambda>codes. (name, codes)) (all_strings errors)
           | _ \<Rightarrow> None)
      | _ \<Rightarrow> None)"

definition operation_decls :: "gval list \<Rightarrow> (bytes \<times> bytes list) list" where
  "operation_decls ops = map (the \<circ> operation_decl) ops"

definition step_closed :: "(bytes \<times> bytes list) list \<Rightarrow> gval \<Rightarrow> bool" where
  "step_closed decls raw \<longleftrightarrow>
     (case raw of
        VObj m \<Rightarrow>
          (case field m ''operation'' of
             VStr operation \<Rightarrow>
               (case map_of decls operation of
                  Some codes \<Rightarrow>
                    \<not> has_key m ''expectedError'' \<or>
                    (case field m ''expectedError'' of VStr e \<Rightarrow> e \<in> set codes | _ \<Rightarrow> False)
                | None \<Rightarrow> False)
           | _ \<Rightarrow> False)
      | _ \<Rightarrow> False)"

definition fixture_closed :: "(bytes \<times> bytes list) list \<Rightarrow> gval \<Rightarrow> bool" where
  "fixture_closed decls raw \<longleftrightarrow>
     (case raw of
        VObj m \<Rightarrow> (case field m ''steps'' of VArr steps \<Rightarrow> list_all (step_closed decls) steps | _ \<Rightarrow> False)
      | _ \<Rightarrow> False)"

definition interface_closed :: "gval \<Rightarrow> bool" where
  "interface_closed document \<longleftrightarrow>
     (case document of
        VObj m \<Rightarrow>
          (case field m ''operations'' of
             VArr ops \<Rightarrow>
               list_all (\<lambda>op. operation_decl op \<noteq> None) ops \<and> distinct (map fst (operation_decls ops)) \<and>
               (\<not> has_key m ''fixtures'' \<or>
                (case field m ''fixtures'' of
                   VArr fs \<Rightarrow> list_all (fixture_closed (operation_decls ops)) fs | _ \<Rightarrow> False))
           | _ \<Rightarrow> False)
      | _ \<Rightarrow> False)"

lemma operation_decl_Some:
  "operation_decl raw = Some (name, codes) \<longleftrightarrow>
     (\<exists>m errors. raw = VObj m \<and> field m ''name'' = VStr name \<and> field m ''errors'' = VArr errors \<and>
        all_strings errors = Some codes)"
  by (auto simp: operation_decl_def split: gval.splits)

lemma declared_operations_Inr:
  "declared_operations ops i declared = Inr d \<longleftrightarrow>
     list_all (\<lambda>op. operation_decl op \<noteq> None) ops \<and> distinct (map fst (operation_decls ops)) \<and>
     set (map fst (operation_decls ops)) \<inter> fst ` set declared = {} \<and> d = rev (operation_decls ops) @ declared"
proof (induction ops arbitrary: i declared)
  case (Cons raw ops)
  show ?case
  proof (cases "operation_decl raw")
    case None
    then have "declared_operations (raw # ops) i declared \<noteq> Inr d"
      using operation_decl_Some [of raw] by (auto split: option.splits)
    then show ?thesis using None by simp
  next
    case (Some p)
    obtain name codes where p: "p = (name, codes)" by (cases p)
    with Some obtain m errors where "raw = VObj m" "field m ''name'' = VStr name" "field m ''errors'' = VArr errors"
        "all_strings errors = Some codes"
      by (auto simp: operation_decl_Some)
    then have "declared_operations (raw # ops) i declared =
        (if name \<in> fst ` set declared then Inl (DuplicateOperation name)
         else declared_operations ops (Suc i) ((name, codes) # declared))"
      by (simp add: map_of_eq_None_iff)
    moreover have "operation_decls (raw # ops) = (name, codes) # operation_decls ops"
      using Some p by (simp add: operation_decls_def)
    ultimately show ?thesis using Some by (auto simp: Cons.IH)
  qed
qed (auto simp: operation_decls_def)

lemma map_of_rev_distinct: "distinct (map fst xs) \<Longrightarrow> map_of (rev xs) = map_of xs"
  by (rule map_of_inject_set [THEN iffD2]) (auto simp: rev_map [symmetric])

lemma check_step_None: "check_step declared name i raw = None \<longleftrightarrow> step_closed declared raw"
  by (cases raw) (auto simp: check_step_def step_closed_def List.member_iff
      split: option.splits gval.splits)

lemma check_steps_None: "check_steps declared name i steps = None \<longleftrightarrow> list_all (step_closed declared) steps"
proof (induction steps arbitrary: i)
  case (Cons raw steps)
  then show ?case using check_step_None [of declared name i raw] by (cases "check_step declared name i raw") auto
qed simp

lemma check_fixtures_None:
  "check_fixtures declared i fs = None \<longleftrightarrow> list_all (fixture_closed declared) fs"
proof (induction fs arbitrary: i)
  case (Cons raw fs)
  show ?case
  proof (cases raw)
    case (VObj m)
    show ?thesis
    proof (cases "field m ''steps''")
      case (VArr steps)
      let ?c = "check_steps declared (case as_str (field m ''name'') of Some s \<Rightarrow> s | None \<Rightarrow> []) 0 steps"
      show ?thesis
        using check_steps_None [of declared "case as_str (field m ''name'') of Some s \<Rightarrow> s | None \<Rightarrow> []" 0 steps]
        by (cases ?c) (simp_all add: VObj VArr fixture_closed_def [of declared "VObj m"] Cons.IH)
    qed (simp_all add: VObj fixture_closed_def)
  qed (simp_all add: fixture_closed_def)
qed simp

lemma step_closed_cong: "map_of d = map_of d' \<Longrightarrow> step_closed d = step_closed d'"
proof -
  assume same: "map_of d = map_of d'"
  show ?thesis unfolding fun_eq_iff step_closed_def same by simp
qed

lemma fixture_closed_cong: "map_of d = map_of d' \<Longrightarrow> fixture_closed d = fixture_closed d'"
proof -
  assume same: "map_of d = map_of d'"
  show ?thesis unfolding fun_eq_iff fixture_closed_def step_closed_cong [OF same] by simp
qed

text \<open>
  C37. The semantic check accepts precisely the closed Interface Definitions: operations that are
  objects with a string name and string errors, names unique, and every fixture step naming a
  declared operation and, where it expects an error, one of that operation's own errors. The
  first loop's map, which the code fills in order, is read as the declarations themselves.
\<close>
theorem interface_semantics_exact:
  "(validateInterfaceDefinitionSemantics document = None) = interface_closed document"
proof (cases document)
  case (VObj m)
  show ?thesis
  proof (cases "field m ''operations''")
    case (VArr ops)
    show ?thesis
    proof (cases "declared_operations ops 0 []")
      case (Inl e)
      then have "\<not> (list_all (\<lambda>op. operation_decl op \<noteq> None) ops \<and> distinct (map fst (operation_decls ops)))"
        using declared_operations_Inr [of ops 0 "[]" "rev (operation_decls ops)"] by auto
      then show ?thesis
        by (auto simp: validateInterfaceDefinitionSemantics_def interface_closed_def VObj VArr Inl)
    next
      case (Inr d)
      then have ops: "list_all (\<lambda>op. operation_decl op \<noteq> None) ops" "distinct (map fst (operation_decls ops))"
          "d = rev (operation_decls ops)"
        by (auto simp: declared_operations_Inr)
      then have "fixture_closed d = fixture_closed (operation_decls ops)"
        by (intro fixture_closed_cong) (simp add: map_of_rev_distinct)
      then show ?thesis
        using ops by (cases "field m ''fixtures''")
          (simp_all add: validateInterfaceDefinitionSemantics_def interface_closed_def VObj VArr Inr
            check_fixtures_None)
    qed
  qed (simp_all add: validateInterfaceDefinitionSemantics_def interface_closed_def VObj)
qed (simp_all add: validateInterfaceDefinitionSemantics_def interface_closed_def)

section \<open>Binding Definitions\<close>

datatype re_op =
    OpNoMatch | OpEmptyMatch | OpLiteral | OpCharClass | OpAnyCharNotNL | OpAnyChar
  | OpBeginLine | OpEndLine | OpBeginText | OpEndText | OpWordBoundary | OpNoWordBoundary
  | OpCapture | OpStar | OpPlus | OpQuest | OpRepeat | OpConcat | OpAlternate

datatype re2 = Regexp (Op: re_op) (Min: int) (Max: int) (Sub: "re2 list")

fun unwrapRegexCapture :: "re2 \<Rightarrow> re2" where
  "unwrapRegexCapture (Regexp OpCapture lo hi [e]) = unwrapRegexCapture e"
| "unwrapRegexCapture e = e"

lemma unwrap_size: "size (unwrapRegexCapture e) \<le> size e"
  by (induction e rule: unwrapRegexCapture.induct) auto

lemma sub_size: "e \<in> set (Sub (unwrapRegexCapture r)) \<Longrightarrow> size e < size r"
proof -
  assume e: "e \<in> set (Sub (unwrapRegexCapture r))"
  have "size e < size (unwrapRegexCapture r)"
    using e size_list_estimation' [of e "Sub (unwrapRegexCapture r)" "size e" size]
    by (cases "unwrapRegexCapture r") auto
  then show ?thesis using unwrap_size [of r] by simp
qed

text \<open>\<open>boundary\<close> is \<^verbatim>\<open>OpBeginText\<close> or \<^verbatim>\<open>OpEndText\<close>; a concatenation is anchored by the part
  at that end. The two functions of the code differ in these two places only.\<close>

function regexRequiresBeginText :: "re2 \<Rightarrow> bool" where
  "regexRequiresBeginText r =
     (let e = unwrapRegexCapture r in
      case Op e of
        OpBeginText \<Rightarrow> True
      | OpAlternate \<Rightarrow> Sub e \<noteq> [] \<and> (\<forall>a\<in>set (Sub e). regexRequiresBeginText a)
      | OpConcat \<Rightarrow> (if Sub e = [] then False else regexRequiresBeginText (hd (Sub e)))
      | OpPlus \<Rightarrow> (case Sub e of [a] \<Rightarrow> regexRequiresBeginText a | _ \<Rightarrow> False)
      | OpRepeat \<Rightarrow> (if Min e > 0 then case Sub e of [a] \<Rightarrow> regexRequiresBeginText a | _ \<Rightarrow> False else False)
      | _ \<Rightarrow> False)"
  by pat_completeness auto
termination
  by (relation "measure size") (auto intro!: sub_size hd_in_set)

function regexRequiresEndText :: "re2 \<Rightarrow> bool" where
  "regexRequiresEndText r =
     (let e = unwrapRegexCapture r in
      case Op e of
        OpEndText \<Rightarrow> True
      | OpAlternate \<Rightarrow> Sub e \<noteq> [] \<and> (\<forall>a\<in>set (Sub e). regexRequiresEndText a)
      | OpConcat \<Rightarrow> (if Sub e = [] then False else regexRequiresEndText (last (Sub e)))
      | OpPlus \<Rightarrow> (case Sub e of [a] \<Rightarrow> regexRequiresEndText a | _ \<Rightarrow> False)
      | OpRepeat \<Rightarrow> (if Min e > 0 then case Sub e of [a] \<Rightarrow> regexRequiresEndText a | _ \<Rightarrow> False else False)
      | _ \<Rightarrow> False)"
  by pat_completeness auto
termination
  by (relation "measure size") (auto intro!: sub_size hd_in_set last_in_set)

declare regexRequiresBeginText.simps [simp del] regexRequiresEndText.simps [simp del]

definition hasUnescapedRegexSuffix :: "bytes \<Rightarrow> char \<Rightarrow> bool" where
  "hasUnescapedRegexSuffix pattern suffix =
     (pattern \<noteq> [] \<and> last pattern = suffix \<and>
      even (length (takeWhile (\<lambda>c. c = CHR 0x5C) (tl (rev pattern)))))"

datatype binding_error =
    BindingNotObject | GrammarNotString | GrammarNotAnchored | GrammarNotCompilable
  | GrammarNotParsable | GrammarPartlyAnchored

definition validateBindingDefinitionSemantics ::
  "(bytes \<Rightarrow> bool) \<Rightarrow> (bytes \<Rightarrow> re2 option) \<Rightarrow> gval \<Rightarrow> binding_error option" where
  "validateBindingDefinitionSemantics compiles parse document =
     (case as_obj document of
        None \<Rightarrow> Some BindingNotObject
      | Some def \<Rightarrow>
          (case as_str (field def ''bindingNameGrammar'') of
             None \<Rightarrow> Some GrammarNotString
           | Some grammar \<Rightarrow>
               if \<not> has_prefix grammar ''^'' \<or> \<not> hasUnescapedRegexSuffix grammar CHR ''$''
               then Some GrammarNotAnchored
               else if \<not> compiles grammar then Some GrammarNotCompilable
               else (case parse grammar of
                       None \<Rightarrow> Some GrammarNotParsable
                     | Some e \<Rightarrow>
                         if \<not> regexRequiresBeginText e \<or> \<not> regexRequiresEndText e
                         then Some GrammarPartlyAnchored else None)))"

subsection \<open>What the anchoring promises\<close>

text \<open>A chain of matches of the listed expressions, end to end.\<close>

inductive re_match :: "nat \<Rightarrow> re2 \<Rightarrow> nat \<Rightarrow> nat \<Rightarrow> bool"
  and re_chain :: "nat \<Rightarrow> re2 list \<Rightarrow> nat \<Rightarrow> nat \<Rightarrow> bool"
  for n :: nat where
  chars: "o1 \<in> {OpLiteral, OpCharClass, OpAnyCharNotNL, OpAnyChar} \<Longrightarrow> i \<le> j \<Longrightarrow> j \<le> n \<Longrightarrow>
     re_match n (Regexp o1 lo hi es) i j"
| blank: "o1 \<in> {OpEmptyMatch, OpBeginLine, OpEndLine, OpWordBoundary, OpNoWordBoundary} \<Longrightarrow> i \<le> n \<Longrightarrow>
     re_match n (Regexp o1 lo hi es) i i"
| begin_text: "re_match n (Regexp OpBeginText lo hi es) 0 0"
| end_text: "re_match n (Regexp OpEndText lo hi es) n n"
| capture: "re_match n e i j \<Longrightarrow> re_match n (Regexp OpCapture lo hi [e]) i j"
| alternate: "e \<in> set es \<Longrightarrow> re_match n e i j \<Longrightarrow> re_match n (Regexp OpAlternate lo hi es) i j"
| concat: "re_chain n es i j \<Longrightarrow> re_match n (Regexp OpConcat lo hi es) i j"
| quest: "re_match n e i j \<Longrightarrow> re_match n (Regexp OpQuest lo hi [e]) i j"
| quest_none: "i \<le> n \<Longrightarrow> re_match n (Regexp OpQuest lo hi [e]) i i"
| star: "re_chain n (replicate k e) i j \<Longrightarrow> re_match n (Regexp OpStar lo hi [e]) i j"
| plus: "0 < k \<Longrightarrow> re_chain n (replicate k e) i j \<Longrightarrow> re_match n (Regexp OpPlus lo hi [e]) i j"
| repeat: "lo \<le> int k \<Longrightarrow> re_chain n (replicate k e) i j \<Longrightarrow> re_match n (Regexp OpRepeat lo hi [e]) i j"
| done_chain: "i \<le> n \<Longrightarrow> re_chain n [] i i"
| step_chain: "re_match n e i k \<Longrightarrow> re_chain n es k j \<Longrightarrow> re_chain n (e # es) i j"

lemma begin_anchored:
  "re_match n e i j \<Longrightarrow> regexRequiresBeginText e \<Longrightarrow> i = 0"
  "re_chain n es i j \<Longrightarrow> es \<noteq> [] \<Longrightarrow> regexRequiresBeginText (hd es) \<Longrightarrow> i = 0"
proof (induction rule: re_match_re_chain.inducts)
  case (capture e i j lo hi)
  from capture.prems have "regexRequiresBeginText e"
    by (subst (asm) regexRequiresBeginText.simps, subst regexRequiresBeginText.simps) simp
  then show ?case by (rule capture.IH)
qed (auto simp: regexRequiresBeginText.simps [of "Regexp _ _ _ _"] split: if_splits)

lemma end_anchored:
  "re_match n e i j \<Longrightarrow> regexRequiresEndText e \<Longrightarrow> j = n"
  "re_chain n es i j \<Longrightarrow> es \<noteq> [] \<Longrightarrow> regexRequiresEndText (last es) \<Longrightarrow> j = n"
proof (induction rule: re_match_re_chain.inducts)
  case (capture e i j lo hi)
  from capture.prems have "regexRequiresEndText e"
    by (subst (asm) regexRequiresEndText.simps, subst regexRequiresEndText.simps) simp
  then show ?case by (rule capture.IH)
next
  case (step_chain e i k es j)
  then show ?case by (cases es) (auto elim: re_chain.cases)
qed (auto simp: regexRequiresEndText.simps [of "Regexp _ _ _ _"] last_replicate split: if_splits)

text \<open>
  A binding name grammar the check accepts can only match the whole text: whatever the
  text, a match of the parsed expression starts at its beginning and ends at its end. The two
  syntactic walks are enough, through captures, alternatives, concatenations and repetitions.
\<close>
theorem accepted_grammar_anchored:
  assumes "validateBindingDefinitionSemantics compiles parse document = None"
    and "document = VObj def"
    and "field def ''bindingNameGrammar'' = VStr grammar"
    and "parse grammar = Some e"
    and "re_match n e i j"
  shows "i = 0 \<and> j = n"
proof -
  from assms have "regexRequiresBeginText e" "regexRequiresEndText e"
    by (auto simp: validateBindingDefinitionSemantics_def split: if_splits option.splits)
  with assms(5) show ?thesis using begin_anchored(1) end_anchored(1) by blast
qed

text \<open>The grammar \<^verbatim>\<open>^[A-Z]+$\<close>, as the parser reads it.\<close>

definition upper_grammar :: re2 where
  "upper_grammar =
     Regexp OpConcat 0 0
       [Regexp OpBeginText 0 0 [], Regexp OpPlus 0 0 [Regexp OpCharClass 0 0 []], Regexp OpEndText 0 0 []]"

lemma upper_grammar_match: "re_match 3 upper_grammar 0 3"
proof -
  note here = done_chain [of 3 3, simplified]
  have "re_match 3 (Regexp OpCharClass 0 0 []) 0 3" by (rule chars) simp_all
  from step_chain [OF this here]
  have "re_match 3 (Regexp OpPlus 0 0 [Regexp OpCharClass 0 0 []]) 0 3"
    by (intro plus [of 1]) simp_all
  from step_chain [OF begin_text step_chain [OF this step_chain [OF end_text here]]]
  show ?thesis unfolding upper_grammar_def by (rule concat)
qed

lemma accepted_grammar_anchored_witness:
  "(let document = VObj [(''bindingNameGrammar'', VStr ''^[A-Z]+$'')] in
    validateBindingDefinitionSemantics (\<lambda>_. True) (\<lambda>_. Some upper_grammar) document = None) \<and>
   (0::nat) = 0 \<and> (3::nat) = 3"
proof -
  have ok: "validateBindingDefinitionSemantics (\<lambda>_. True) (\<lambda>_. Some upper_grammar)
      (VObj [(''bindingNameGrammar'', VStr ''^[A-Z]+$'')]) = None"
    by (simp add: validateBindingDefinitionSemantics_def field_simps hasUnescapedRegexSuffix_def
      upper_grammar_def regexRequiresBeginText.simps regexRequiresEndText.simps)
  show ?thesis
    using accepted_grammar_anchored [OF ok refl _ refl upper_grammar_match] ok by (simp add: field_simps)
qed

end
