(* ===== verification/DefinitionModel.thy ===== *)
theory DefinitionModel
  imports SchemaLibrary SchemaWork Materialize ContractDefinitions
begin

text \<open>
  How \<^verbatim>\<open>formpackage/schema.go\<close> validates a Form Definition: decoding into the structs of
  \<^verbatim>\<open>model.go\<close>, the inline schemas, the semantic checks on interfaces and fixtures, and the
  constraints' pointers into the desired schema. \<open>engines\<close> holds what other packages supply:
  the JSON Schema compiler of inline schemas, the RE2 compiler and parser, and the semantic
  version parser.
\<close>

record 'v engines =
  en_inline :: "bytes \<Rightarrow> gval \<Rightarrow> (gval \<Rightarrow> bool) option"
  en_compiles :: "bytes \<Rightarrow> bool"
  en_parse :: "bytes \<Rightarrow> re2 option"
  en_semver :: "bytes \<Rightarrow> 'v option"
  en_equals :: "'v \<Rightarrow> 'v \<Rightarrow> bool"
  en_less :: "'v \<Rightarrow> 'v \<Rightarrow> bool"

section \<open>Decoding\<close>

definition empty_constraint :: form_constraint where
  "empty_constraint = \<lparr>fc_kind = [], fc_reference = [], fc_keyedBy = [], fc_list = [], fc_member = [],
     fc_total = 0, fc_property = [], fc_output = [], fc_references = [], fc_anchor = [], fc_members = [],
     fc_through = []\<rparr>"

definition empty_input :: interface_input where
  "empty_input = \<lparr>ii_name = [], ii_source = [], ii_pointer = [], ii_value = None\<rparr>"

definition empty_descriptor :: interface_descriptor where
  "empty_descriptor = \<lparr>id_name = [], id_version = [], id_description = [], id_required = False,
     id_resourceURIInput = [], id_document = [], id_documentSchema = None, id_inputs = []\<rparr>"

definition empty_fixture :: conformance_fixture where
  "empty_fixture = \<lparr>cf_name = [], cf_desiredPath = [], cf_observedPath = [], cf_outputPath = []\<rparr>"

definition empty_negative :: negative_fixture where
  "empty_negative = \<lparr>nf_name = [], nf_stage = [], nf_inputPath = [], nf_expectedFailure = []\<rparr>"

definition empty_definition :: form_definition where
  "empty_definition = \<lparr>fd_apiVersion = [], fd_kind = [], fd_definitionVersion = [], fd_title = [],
     fd_description = [], fd_status = [], fd_role = [], fd_requiresHostAPI = [], fd_constraints = [],
     fd_desiredSchema = None, fd_observedSchema = None, fd_outputSchema = None, fd_immutableFields = [],
     fd_lifecycleCapabilities = [], fd_interfaces = [], fd_providedInterfaces = [],
     fd_acceptedBindings = [], fd_conformanceFixtures = [], fd_negativeFixtures = []\<rparr>"

text \<open>A map of which the nil and the empty state are used alike (reading a nil map is reading an
  empty one, but it is marshalled as \<^verbatim>\<open>null\<close>), and \<^verbatim>\<open>json.RawMessage\<close>, of which
  only the presence matters here.\<close>

definition dec_object :: "object decoder" where
  "dec_object v old = map_option (case_option [] id) (dec_map False v (Some old))"

definition map_of_nil :: "object option \<Rightarrow> object" where
  "map_of_nil m = (case m of None \<Rightarrow> [] | Some m \<Rightarrow> m)"

definition nil_value :: "object option \<Rightarrow> gval" where
  "nil_value m = (case m of None \<Rightarrow> VNull | Some m \<Rightarrow> VObj m)"

definition dec_raw :: "gval option decoder" where
  "dec_raw v old = Some (Some v)"

definition constraint_fields :: "form_constraint struct_fields" where
  "constraint_fields =
     [(''kind'', member dec_str fc_kind fc_kind_update),
      (''reference'', member dec_str fc_reference fc_reference_update),
      (''keyedBy'', member dec_str fc_keyedBy fc_keyedBy_update),
      (''list'', member dec_str fc_list fc_list_update),
      (''member'', member dec_str fc_member fc_member_update),
      (''total'', member dec_int fc_total fc_total_update),
      (''property'', member dec_str fc_property fc_property_update),
      (''output'', member dec_str fc_output fc_output_update),
      (''references'', member (dec_slice dec_str []) fc_references fc_references_update),
      (''anchor'', member dec_str fc_anchor fc_anchor_update),
      (''members'', member dec_str fc_members fc_members_update),
      (''through'', member dec_str fc_through fc_through_update)]"

definition input_fields :: "interface_input struct_fields" where
  "input_fields =
     [(''name'', member dec_str ii_name ii_name_update),
      (''source'', member dec_str ii_source ii_source_update),
      (''pointer'', member dec_str ii_pointer ii_pointer_update),
      (''value'', member dec_raw ii_value ii_value_update)]"

definition descriptor_fields :: "interface_descriptor struct_fields" where
  "descriptor_fields =
     [(''name'', member dec_str id_name id_name_update),
      (''version'', member dec_str id_version id_version_update),
      (''description'', member dec_str id_description id_description_update),
      (''required'', member dec_bool id_required id_required_update),
      (''resourceUriInput'', member dec_str id_resourceURIInput id_resourceURIInput_update),
      (''document'', member dec_object id_document id_document_update),
      (''documentSchema'', member (dec_map False) id_documentSchema id_documentSchema_update),
      (''inputs'', member (dec_slice (dec_struct False input_fields) empty_input) id_inputs id_inputs_update)]"

definition fixture_fields_of :: "conformance_fixture struct_fields" where
  "fixture_fields_of =
     [(''name'', member dec_str cf_name cf_name_update),
      (''desiredPath'', member dec_str cf_desiredPath cf_desiredPath_update),
      (''observedPath'', member dec_str cf_observedPath cf_observedPath_update),
      (''outputPath'', member dec_str cf_outputPath cf_outputPath_update)]"

definition negative_fields :: "negative_fixture struct_fields" where
  "negative_fields =
     [(''name'', member dec_str nf_name nf_name_update),
      (''stage'', member dec_str nf_stage nf_stage_update),
      (''inputPath'', member dec_str nf_inputPath nf_inputPath_update),
      (''expectedFailure'', member dec_str nf_expectedFailure nf_expectedFailure_update)]"

definition definition_fields :: "form_definition struct_fields" where
  "definition_fields =
     [(''apiVersion'', member dec_str fd_apiVersion fd_apiVersion_update),
      (''kind'', member dec_str fd_kind fd_kind_update),
      (''definitionVersion'', member dec_str fd_definitionVersion fd_definitionVersion_update),
      (''title'', member dec_str fd_title fd_title_update),
      (''description'', member dec_str fd_description fd_description_update),
      (''status'', member dec_str fd_status fd_status_update),
      (''role'', member dec_str fd_role fd_role_update),
      (''requiresHostApi'', member dec_str fd_requiresHostAPI fd_requiresHostAPI_update),
      (''constraints'', member (dec_slice (dec_struct False constraint_fields) empty_constraint)
         fd_constraints fd_constraints_update),
      (''desiredSchema'', member (dec_map False) fd_desiredSchema fd_desiredSchema_update),
      (''observedSchema'', member (dec_map False) fd_observedSchema fd_observedSchema_update),
      (''outputSchema'', member (dec_map False) fd_outputSchema fd_outputSchema_update),
      (''immutableFields'', member (dec_slice dec_str []) fd_immutableFields fd_immutableFields_update),
      (''lifecycleCapabilities'',
         member (dec_slice dec_str []) fd_lifecycleCapabilities fd_lifecycleCapabilities_update),
      (''interfaces'', member (dec_slice (dec_struct False descriptor_fields) empty_descriptor)
         fd_interfaces fd_interfaces_update),
      (''providedInterfaces'', member (dec_slice (dec_interface_ref False) empty_interface_ref)
         fd_providedInterfaces fd_providedInterfaces_update),
      (''acceptedBindings'', member (dec_slice (dec_binding_ref False) empty_binding_ref)
         fd_acceptedBindings fd_acceptedBindings_update),
      (''conformanceFixtures'', member (dec_slice (dec_struct False fixture_fields_of) empty_fixture)
         fd_conformanceFixtures fd_conformanceFixtures_update),
      (''negativeConformanceFixtures'', member (dec_slice (dec_struct False negative_fields) empty_negative)
         fd_negativeFixtures fd_negativeFixtures_update)]"

section \<open>Inline schemas\<close>

datatype inline_error =
    InlineReference fragment_error | InlineStructure structure_error | InlineCompile

definition compileInlineSchema ::
  "unicode \<Rightarrow> 'v engines \<Rightarrow> object \<Rightarrow> bytes \<Rightarrow> inline_error + (gval \<Rightarrow> bool)" where
  "compileInlineSchema U E schema name =
     (case verifyFragmentOnlyReferences (VObj schema) name of
        Some e \<Rightarrow> Inl (InlineReference e)
      | None \<Rightarrow>
          (case validatePortableSchemaStructure U (VObj schema) name of
             Some e \<Rightarrow> Inl (InlineStructure e)
           | None \<Rightarrow>
               (case en_inline E name (VObj schema) of
                  None \<Rightarrow> Inl InlineCompile
                | Some validates \<Rightarrow> Inr validates)))"

section \<open>Semantics\<close>

datatype path_error =
    PathLength | PathBackslash | PathAbsolute | PathColon | PathNotClean | PathSegment

definition validatePackagePath :: "bytes \<Rightarrow> path_error option" where
  "validatePackagePath p =
     (if p = [] \<or> length p > 240 then Some PathLength
      else if contains_byte CHR 0x5C p then Some PathBackslash
      else if has_prefix p ''/'' then Some PathAbsolute
      else if contains_byte CHR '':'' p then Some PathColon
      else if path_clean p \<noteq> p \<or> path_clean p = ''.'' \<or> path_clean p = ''..'' \<or> has_prefix (path_clean p) ''../''
      then Some PathNotClean
      else if list_ex (\<lambda>seg. seg = [] \<or> seg = ''.'' \<or> seg = ''..'') (split_on CHR ''/'' p)
      then Some PathSegment else None)"

datatype semantics_error =
    TooManyFixtures | TooManyNegatives | DuplicateInterface bytes
  | DuplicateInput bytes bytes | LiteralWithoutValue bytes bytes | LiteralWithPointer bytes bytes
  | ResourceURICarries bytes bytes | ValueNotLiteral bytes bytes | ResourceURIInputMismatch bytes
  | ResourceURIWithoutInput bytes | DuplicateFixture bytes
  | DesiredPath bytes path_error | ObservedPath bytes path_error | OutputPath bytes path_error
  | NegativePath bytes path_error

text \<open>The counters are the inputs named as, and the inputs taken from, the resource URI.\<close>

fun interface_inputs ::
  "bytes \<Rightarrow> bytes \<Rightarrow> bytes list \<Rightarrow> nat \<Rightarrow> nat \<Rightarrow> interface_input list \<Rightarrow> semantics_error + nat \<times> nat" where
  "interface_inputs key uriInput names matching uris [] = Inr (matching, uris)"
| "interface_inputs key uriInput names matching uris (input # inputs) =
     (let name = ii_name input; source = ii_source input; hasValue = (ii_value input \<noteq> None) in
      if List.member names name then Inl (DuplicateInput key name)
      else if source = InterfaceInputSourceLiteral then
        (if \<not> hasValue then Inl (LiteralWithoutValue key name)
         else if ii_pointer input \<noteq> [] then Inl (LiteralWithPointer key name)
         else interface_inputs key uriInput (name # names) matching uris inputs)
      else if source = InterfaceInputSourceResourceURI then
        (if ii_pointer input \<noteq> [] \<or> hasValue then Inl (ResourceURICarries key name)
         else interface_inputs key uriInput (name # names)
                (if name = uriInput then Suc matching else matching) (Suc uris) inputs)
      else if hasValue then Inl (ValueNotLiteral key name)
      else interface_inputs key uriInput (name # names) matching uris inputs)"

definition validateInterfaceInputs ::
  "bytes \<Rightarrow> bytes \<Rightarrow> interface_input list \<Rightarrow> semantics_error option" where
  "validateInterfaceInputs key uriInput inputs =
     (case interface_inputs key uriInput [] 0 0 inputs of
        Inl e \<Rightarrow> Some e
      | Inr (matching, uris) \<Rightarrow>
          if uriInput \<noteq> [] \<and> (matching \<noteq> 1 \<or> uris \<noteq> 1) then Some (ResourceURIInputMismatch key)
          else if uriInput = [] \<and> uris \<noteq> 0 then Some (ResourceURIWithoutInput key)
          else None)"

definition interface_name :: "interface_descriptor \<Rightarrow> bytes" where
  "interface_name d = id_name d @ ''@'' @ id_version d"

fun check_interfaces :: "bytes list \<Rightarrow> interface_descriptor list \<Rightarrow> semantics_error option" where
  "check_interfaces names [] = None"
| "check_interfaces names (d # ds) =
     (if List.member names (interface_name d) then Some (DuplicateInterface (interface_name d))
      else (case validateInterfaceInputs (interface_name d) (id_resourceURIInput d) (id_inputs d) of
              Some e \<Rightarrow> Some e
            | None \<Rightarrow> check_interfaces (interface_name d # names) ds))"

definition optional_path :: "bytes \<Rightarrow> (path_error \<Rightarrow> semantics_error) \<Rightarrow> semantics_error option" where
  "optional_path p e = (if p = [] then None else map_option e (validatePackagePath p))"

fun check_conformance :: "bytes list \<Rightarrow> conformance_fixture list \<Rightarrow> semantics_error + bytes list" where
  "check_conformance names [] = Inr names"
| "check_conformance names (f # fs) =
     (if List.member names (cf_name f) then Inl (DuplicateFixture (cf_name f))
      else check_then
        (first_err [map_option (DesiredPath (cf_name f)) (validatePackagePath (cf_desiredPath f)),
           optional_path (cf_observedPath f) (ObservedPath (cf_name f)),
           optional_path (cf_outputPath f) (OutputPath (cf_name f))])
        (check_conformance (cf_name f # names) fs))"

fun check_negatives :: "bytes list \<Rightarrow> negative_fixture list \<Rightarrow> semantics_error option" where
  "check_negatives names [] = None"
| "check_negatives names (f # fs) =
     (if List.member names (nf_name f) then Some (DuplicateFixture (nf_name f))
      else (case validatePackagePath (nf_inputPath f) of
              Some e \<Rightarrow> Some (NegativePath (nf_name f) e)
            | None \<Rightarrow> check_negatives (nf_name f # names) fs))"

definition maxConformanceFixtures :: nat where "maxConformanceFixtures = 32"

definition validateDefinitionSemantics :: "form_definition \<Rightarrow> semantics_error option" where
  "validateDefinitionSemantics d =
     (if length (fd_conformanceFixtures d) > maxConformanceFixtures then Some TooManyFixtures
      else if length (fd_negativeFixtures d) > maxConformanceFixtures then Some TooManyNegatives
      else (case check_interfaces [] (fd_interfaces d) of
              Some e \<Rightarrow> Some e
            | None \<Rightarrow>
                (case check_conformance [] (fd_conformanceFixtures d) of
                   Inl e \<Rightarrow> Some e
                 | Inr names \<Rightarrow> check_negatives names (fd_negativeFixtures d))))"

end
