(* ===== verification/HostResources.thy ===== *)
theory HostResources
  imports HostAwait DefinitionModel
begin

text \<open>
  The resource lifecycle of \<^verbatim>\<open>hostclient/resources.go\<close>: availability, the desired-state schema,
  validation, preparation, apply, read, observe, delete and import. Each call checks its
  arguments, sends one request through \<open>do_request\<close>, and checks the answer; what follows an
  accepted mutation is \<open>finishResourceMutation\<close>.
\<close>

definition expectedGenerationHeader :: bytes where
  "expectedGenerationHeader = ''Takoform-Expected-Generation''"

section \<open>Availability and definitions\<close>

record form_availability =
  fa_identity :: form_reference
  fa_definitionKnown :: bool
  fa_installed :: bool
  fa_executable :: bool
  fa_activated :: bool
  fa_availableToPrincipal :: bool
  fa_operations :: "bytes list"
  fa_deprecated :: bool

record definition_response =
  dr_identity :: form_reference
  dr_displayName :: bytes
  dr_description :: bytes
  dr_desiredSchema :: "object option"

definition empty_availability :: form_availability where
  "empty_availability = \<lparr>fa_identity = empty_reference, fa_definitionKnown = False, fa_installed = False,
     fa_executable = False, fa_activated = False, fa_availableToPrincipal = False, fa_operations = [],
     fa_deprecated = False\<rparr>"

definition empty_definition_response :: definition_response where
  "empty_definition_response = \<lparr>dr_identity = empty_reference, dr_displayName = [], dr_description = [],
     dr_desiredSchema = None\<rparr>"

definition availability_fields :: "form_availability struct_fields" where
  "availability_fields =
     [(''identity'', member (dec_struct True reference_fields) fa_identity fa_identity_update),
      (''definitionKnown'', member dec_bool fa_definitionKnown fa_definitionKnown_update),
      (''installed'', member dec_bool fa_installed fa_installed_update),
      (''executable'', member dec_bool fa_executable fa_executable_update),
      (''activated'', member dec_bool fa_activated fa_activated_update),
      (''availableToPrincipal'', member dec_bool fa_availableToPrincipal fa_availableToPrincipal_update),
      (''operations'', member (dec_slice dec_str []) fa_operations fa_operations_update),
      (''deprecated'', member dec_bool fa_deprecated fa_deprecated_update)]"

definition definition_response_fields :: "definition_response struct_fields" where
  "definition_response_fields =
     [(''identity'', member (dec_struct True reference_fields) dr_identity dr_identity_update),
      (''displayName'', member dec_str dr_displayName dr_displayName_update),
      (''description'', member dec_str dr_description dr_description_update),
      (''desiredSchema'', member (dec_map True) dr_desiredSchema dr_desiredSchema_update)]"

definition dec_forms :: "form_availability list decoder" where
  "dec_forms = dec_struct True
     [(''forms'', dec_slice (dec_struct True availability_fields) empty_availability)]"

definition containsString :: "bytes list \<Rightarrow> bytes \<Rightarrow> bool" where
  "containsString vals want = List.member vals want"

definition check_forms :: "form_ref \<Rightarrow> bytes \<Rightarrow> form_availability list \<Rightarrow> host_error option" where
  "check_forms ref operation forms =
     (case forms of
        [available] \<Rightarrow>
          if \<not> sameFormRef ref (fe_formRef (fa_identity available)) then Some FormNotReturned
          else if \<not> fa_definitionKnown available \<or> \<not> fa_installed available \<or> \<not> fa_executable available \<or>
                  \<not> fa_activated available \<or> \<not> fa_availableToPrincipal available
          then Some FormNotAvailable
          else guard_err (containsString (fa_operations available) operation) (OperationUnsupported operation)
      | _ \<Rightarrow> Some FormNotReturned)"

definition EnsureFormAvailable ::
  "host \<Rightarrow> client \<Rightarrow> ctx \<Rightarrow> bytes \<Rightarrow> form_ref \<Rightarrow> bytes \<Rightarrow> unit io" where
  "EnsureFormAvailable H C c space ref operation =
     check_io (requireReady C)
       (check_io (map_option Identity (ValidateStableFormRef (h_libs H) ref))
         (check_io (map_option (SpaceOf ''exact FormRef availability'') (ValidateSpaceID space))
           (bind_io (do_request H C c ''GET''
                (cl_apiBase C @ ''/forms?'' @ encode_query (formsAvailabilityQuery space ref)) [] None False [200])
             (\<lambda>(_, _, data).
                lift_io (decodeBody H data dec_forms [])
                  (\<lambda>forms. check_io (check_forms ref operation forms) (return_io ()))))))"

definition GetFormDefinition ::
  "host \<Rightarrow> client \<Rightarrow> ctx \<Rightarrow> bytes \<Rightarrow> form_ref \<Rightarrow> definition_response io" where
  "GetFormDefinition H C c space ref =
     check_io (requireReady C)
       (check_io (map_option Identity (ValidateStableFormRef (h_libs H) ref))
         (check_io (map_option (SpaceOf ''exact Form Definition'') (ValidateSpaceID space))
           (bind_io (do_request H C c ''GET''
                (cl_apiBase C @ ''/form-definitions/'' @ groupPathSegment (fr_apiVersion ref) @ ''/'' @
                   fr_kind ref @ ''?'' @ encode_query (exactFormQuery space ref)) [] None False [200])
             (\<lambda>(_, _, data).
                lift_io (decodeBody H data (dec_struct True definition_response_fields) empty_definition_response)
                  (\<lambda>out.
                     check_io (guard_err (sameFormRef ref (fe_formRef (dr_identity out))) DefinitionSubstituted)
                       (check_io (guard_err (dr_desiredSchema out \<noteq> None) NoDesiredSchema)
                         (return_io out)))))))"

section \<open>Request bodies\<close>

text \<open>Members of the wire shape with \<^verbatim>\<open>omitempty\<close>.\<close>

definition omit_empty :: "bytes \<Rightarrow> bytes \<Rightarrow> object" where
  "omit_empty k s = (if s = [] then [] else [(k, VStr s)])"

definition enc_reference :: "form_reference option \<Rightarrow> gval" where
  "enc_reference form =
     (case form of
        None \<Rightarrow> VNull
      | Some f \<Rightarrow>
          VObj ([(''formRef'', enc_form_ref (fe_formRef f))] @
            omit_empty ''packageDigest'' (fe_packageDigest f)))"

definition request_spec :: "resource \<Rightarrow> object" where
  "request_spec r = (case rs_spec r of None \<Rightarrow> [] | Some m \<Rightarrow> m)"

text \<open>Only the name and the Space of the metadata are sent.\<close>

definition requestBodyFor :: "resource \<Rightarrow> object" where
  "requestBodyFor r =
     [(''apiVersion'', VStr (rs_apiVersion r)), (''kind'', VStr (rs_kind r)),
      (''form'', enc_reference (rs_form r)),
      (''metadata'', VObj [(''name'', VStr (md_name (rs_metadata r))),
         (''space'', VStr (md_space (rs_metadata r)))]),
      (''spec'', sort_maps (VObj (request_spec r)))]"

definition apply_body :: "resource \<Rightarrow> bytes \<Rightarrow> fence \<Rightarrow> object" where
  "apply_body r prepareDigest f =
     requestBodyFor r @ [(''review'', VObj [(''prepareDigest'', VStr prepareDigest)])] @
     omit_empty ''expectedUid'' (fn_expectedUID f) @
     omit_empty ''expectedGeneration'' (fn_expectedGeneration f)"

definition import_body :: "resource \<Rightarrow> bytes \<Rightarrow> object" where
  "import_body r nativeID = requestBodyFor r @ [(''nativeId'', VStr nativeID)]"

definition canonicalValueDigest :: "host \<Rightarrow> gval \<Rightarrow> canonical_error + bytes" where
  "canonicalValueDigest H v = digestCanonical (h_transform H) (marshal_any v)"

section \<open>Validate and prepare\<close>

definition ValidateResource :: "host \<Rightarrow> client \<Rightarrow> ctx \<Rightarrow> resource option \<Rightarrow> validate_result io" where
  "ValidateResource H C c given =
     check_io (requireReady C)
       (check_io (map_option Identity (validateRequestResource (h_libs H) given))
         (bind_io (do_request H C c ''POST'' (cl_apiBase C @ ''/resources/validate'') []
              (Some (json_encode (VObj (requestBodyFor (the given))))) False [200])
           (\<lambda>(_, _, data).
              lift_io (decodeBody H data (dec_struct True validate_fields)
                  \<lparr>vr_valid = False, vr_diagnostics = None\<rparr>)
                (\<lambda>out. check_io (guard_err (vr_diagnostics out \<noteq> None) NoDiagnostics) (return_io out)))))"

definition validatePrepareResult ::
  "host \<Rightarrow> resource \<Rightarrow> object \<Rightarrow> prepare_result \<Rightarrow> host_error option" where
  "validatePrepareResult H r requestSpec out =
     (let prepared = pp_resource out in
      case (rs_form r, rs_form prepared) of
        (Some form, Some form') \<Rightarrow>
          if \<not> sameFormRef (fe_formRef form) (fe_formRef form') then Some PrepareFormRef
          else if rs_apiVersion prepared \<noteq> rs_apiVersion r \<or> rs_kind prepared \<noteq> rs_kind r
          then Some PrepareIdentity
          else if md_name (rs_metadata prepared) \<noteq> md_name (rs_metadata r) \<or>
                  md_space (rs_metadata prepared) \<noteq> md_space (rs_metadata r) then Some PrepareName
          else (case canonicalValueDigest H (VObj requestSpec) of
                  Inl e \<Rightarrow> Some (DigestFailed e)
                | Inr requestDigest \<Rightarrow>
                    (case canonicalValueDigest H (VObj (map_of_nil (rs_spec prepared))) of
                       Inl e \<Rightarrow> Some (DigestFailed e)
                     | Inr preparedDigest \<Rightarrow>
                         if preparedDigest \<noteq> requestDigest then Some PrepareSpec
                         else if pr_specDigest (pp_review out) \<noteq> requestDigest then Some PrepareSpecDigest
                         else if \<not> validWireDigest (pr_prepareDigest (pp_review out))
                         then Some PrepareDigestInvalid
                         else None))
      | _ \<Rightarrow> Some PrepareFormRef)"

definition fence_ok :: "bytes \<Rightarrow> bool" where
  "fence_ok generation \<longleftrightarrow> generation = [] \<or> validCanonicalDecimal generation"

definition PrepareResource :: "host \<Rightarrow> client \<Rightarrow> ctx \<Rightarrow> resource option \<Rightarrow> fence \<Rightarrow> prepare_result io" where
  "PrepareResource H C c given f =
     check_io (requireReady C)
       (check_io (map_option Identity (validateRequestResource (h_libs H) given))
         (check_io (guard_err (fence_ok (fn_expectedGeneration f)) BadGenerationFence)
           (bind_io (do_request H C c ''POST'' (cl_apiBase C @ ''/resources/prepare'')
                (if fn_expectedGeneration f = [] then []
                 else [(expectedGenerationHeader, fn_expectedGeneration f)])
                (Some (json_encode (VObj (requestBodyFor (the given))))) False [200])
             (\<lambda>(_, _, data).
                check_io (map_option Wire (validatePrepareResponseWire (h_transform H) data))
                  (lift_io (decodeBody H data (dec_struct True prepare_fields) empty_prepare)
                    (\<lambda>out.
                       check_io (validatePrepareResult H (the given) (request_spec (the given)) out)
                         (return_io out)))))))"

section \<open>Accepted mutations\<close>

text \<open>The resource of a wrapped or direct answer, or the failure.\<close>

definition read_envelope ::
  "host \<Rightarrow> bytes \<Rightarrow> form_ref \<Rightarrow> bytes \<Rightarrow> bytes \<Rightarrow> host_error + resource" where
  "read_envelope H data ref name space =
     (case validateResourceResponseWire (h_transform H) data True of
        Some e \<Rightarrow> Inl (Wire e)
      | None \<Rightarrow>
          bind_res (decodeBody H data dec_resource_envelope empty_resource) (\<lambda>out.
            case verifyResourceResponse ref name space out of
              Some e \<Rightarrow> Inl (Verification e)
            | None \<Rightarrow> Inr out))"

definition read_resource ::
  "host \<Rightarrow> bytes \<Rightarrow> form_ref \<Rightarrow> bytes \<Rightarrow> bytes \<Rightarrow> host_error + resource" where
  "read_resource H data ref name space =
     (case validateResourceResponseWire (h_transform H) data False of
        Some e \<Rightarrow> Inl (Wire e)
      | None \<Rightarrow>
          bind_res (decodeBody H data dec_resource empty_resource) (\<lambda>out.
            case verifyResourceResponse ref name space out of
              Some e \<Rightarrow> Inl (Verification e)
            | None \<Rightarrow> Inr out))"

definition finishResourceMutation ::
  "host \<Rightarrow> client \<Rightarrow> ctx \<Rightarrow> answer \<Rightarrow> form_ref \<Rightarrow> bytes \<Rightarrow> bytes \<Rightarrow> resource io" where
  "finishResourceMutation H C c answer ref name space w =
     (case answer of (status, headers, data) \<Rightarrow>
        if status = 202 then
          (case decodeOperationEnvelope H data of
             Inl e \<Rightarrow> (Inl (Accepted [] [] e), w)
           | Inr op \<Rightarrow>
               (case awaitOperation H C c op
                    (parseRetryAfter (h_texts H) (w_now w) (header_get headers ''Retry-After'')) 0 w of
                  ((terminal, failure), w') \<Rightarrow>
                    let uid = (if operationTargetUID terminal \<noteq> [] then operationTargetUID terminal
                               else operationTargetUID (Some op)) in
                    (case (failure, terminal) of
                       (Some e, _) \<Rightarrow> (Inl (Accepted (op_id op) uid e), w')
                     | (None, None) \<Rightarrow> (Inl (Accepted (op_id op) uid NoTerminalResult), w')
                     | (None, Some t) \<Rightarrow>
                         (case read_envelope H (op_result t) ref name space of
                            Inl e \<Rightarrow> (Inl (Accepted (op_id op) uid e), w')
                          | Inr out \<Rightarrow> (Inr out, w')))))
        else
          (case read_resource H data ref name space of
             Inl e \<Rightarrow> (Inl (Accepted [] [] e), w)
           | Inr out \<Rightarrow>
               (case requireRevisionETag (headers ''ETag'') (md_revision (rs_metadata out)) of
                  Some e \<Rightarrow> (Inl (Accepted [] (md_uid (rs_metadata out)) (ETag e)), w)
                | None \<Rightarrow> (Inr out, w))))"

definition apply_operation :: "fence \<Rightarrow> bytes" where
  "apply_operation f = (if fn_expectedGeneration f = [] then ''create'' else ''update'')"

definition mutation_headers :: "bytes \<Rightarrow> bytes \<Rightarrow> (bytes \<times> bytes) list" where
  "mutation_headers key generation =
     [(''Idempotency-Key'', key),
      (if generation = [] then (''If-None-Match'', ''*'') else (expectedGenerationHeader, generation))]"

text \<open>The PUT of an apply, once the form is available and the review is there.\<close>

definition apply_put ::
  "host \<Rightarrow> client \<Rightarrow> ctx \<Rightarrow> resource \<Rightarrow> form_ref \<Rightarrow> fence \<Rightarrow> prepare_result \<Rightarrow> answer io" where
  "apply_put H C c r ref f prepared =
     (let raw = json_encode (VObj (apply_body r (pr_prepareDigest (pp_review prepared)) f));
          m = rs_metadata r in
      do_request H C c ''PUT'' (resourceURL C ref (md_name m) [] [])
        (mutation_headers
           (incarnationKey ''apply'' ref (md_name m) (md_space m) (fn_expectedUID f)
              (fn_expectedGeneration f) (bodyDigest raw))
           (fn_expectedGeneration f))
        (Some raw) True [200, 201, 202])"

definition form_ref_of :: "resource \<Rightarrow> form_ref" where
  "form_ref_of r = (case rs_form r of None \<Rightarrow> empty_form_ref | Some form \<Rightarrow> fe_formRef form)"

definition apply_ready ::
  "host \<Rightarrow> client \<Rightarrow> ctx \<Rightarrow> resource option \<Rightarrow> fence \<Rightarrow> prepare_result io" where
  "apply_ready H C c given f =
     check_io (requireReady C)
       (check_io (map_option Identity (validateRequestResource (h_libs H) given))
         (check_io (guard_err (fence_ok (fn_expectedGeneration f)) BadGenerationFence)
           (check_io (guard_err (fn_expectedUID f = [] \<or> rx_match uidPattern (fn_expectedUID f)) BadUIDFence)
             (bind_io (EnsureFormAvailable H C c (md_space (rs_metadata (the given))) (form_ref_of (the given))
                  (apply_operation f))
               (\<lambda>_. PrepareResource H C c given f)))))"

definition ApplyResource :: "host \<Rightarrow> client \<Rightarrow> ctx \<Rightarrow> resource option \<Rightarrow> fence \<Rightarrow> resource io" where
  "ApplyResource H C c given f =
     bind_io (apply_ready H C c given f)
       (\<lambda>prepared.
          let r = the given; ref = form_ref_of r; m = rs_metadata r in
          bind_io (apply_put H C c r ref f prepared)
            (\<lambda>answer. finishResourceMutation H C c answer ref (md_name m) (md_space m)))"

definition import_checks :: "host \<Rightarrow> client \<Rightarrow> resource option \<Rightarrow> bytes \<Rightarrow> host_error option" where
  "import_checks H C given nativeID =
     (let m = rs_metadata (the given) in
      first_err
        [requireReady C,
         map_option Identity (validateRequestResource (h_libs H) given),
         guard_err (trim_space nativeID \<noteq> []) NoNativeID,
         guard_err (fence_ok (md_generation m)) BadGenerationFence,
         guard_err (md_uid m = [] \<or> rx_match uidPattern (md_uid m)) BadUIDFence,
         guard_err (md_generation m = [] \<or> md_uid m \<noteq> []) FenceWithoutUID])"

definition ImportResource :: "host \<Rightarrow> client \<Rightarrow> ctx \<Rightarrow> resource option \<Rightarrow> bytes \<Rightarrow> resource io" where
  "ImportResource H C c given nativeID =
     check_io (import_checks H C given nativeID)
       (let r = the given; ref = form_ref_of r; m = rs_metadata r;
            raw = json_encode (VObj (import_body r nativeID)) in
        bind_io (do_request H C c ''POST'' (resourceURL C ref (md_name m) ''import'' [])
            (mutation_headers
               (incarnationKey ''import'' ref (md_name m) (md_space m) (md_uid m) (md_generation m) (bodyDigest raw))
               (md_generation m))
            (Some raw) True [200, 201, 202])
          (\<lambda>answer. finishResourceMutation H C c answer ref (md_name m) (md_space m)))"

section \<open>Reading, observing and deleting\<close>

definition not_found :: "answer io \<Rightarrow> answer io" where
  "not_found m w =
     (case m w of
        (Inl e, w') \<Rightarrow> (Inl (if isResourceNotFound e then ErrNotFound else e), w')
      | r \<Rightarrow> r)"

definition read_checks ::
  "host \<Rightarrow> client \<Rightarrow> bytes \<Rightarrow> bytes \<Rightarrow> form_ref \<Rightarrow> bytes \<Rightarrow> host_error option" where
  "read_checks H C what space ref name =
     first_err
       [requireReady C, map_option Identity (ValidateStableFormRef (h_libs H) ref),
        map_option (SpaceOf what) (ValidateSpaceID space),
        map_option Identity (ValidateResourceName name)]"

definition GetResource :: "host \<Rightarrow> client \<Rightarrow> ctx \<Rightarrow> bytes \<Rightarrow> form_ref \<Rightarrow> bytes \<Rightarrow> resource io" where
  "GetResource H C c space ref name =
     check_io (read_checks H C ''resource read'' space ref name)
       (bind_io (not_found (do_request H C c ''GET''
            (resourceURL C ref name [] (exactFormQuery space ref)) [] None False [200]))
         (\<lambda>(_, headers, data).
            lift_io (read_resource H data ref name space)
              (\<lambda>out. check_io (map_option ETag (requireRevisionETag (headers ''ETag'') (md_revision (rs_metadata out))))
                 (return_io out))))"

definition fenced_checks ::
  "host \<Rightarrow> client \<Rightarrow> bytes \<Rightarrow> bytes \<Rightarrow> form_ref \<Rightarrow> bytes \<Rightarrow> bytes \<Rightarrow> bytes \<Rightarrow> host_error option" where
  "fenced_checks H C what space ref name uid generation =
     first_err
       [read_checks H C what space ref name,
        guard_err (validCanonicalDecimal generation) BadGenerationFence,
        guard_err (rx_match uidPattern uid) BadUIDFence]"

definition fenced_headers ::
  "bytes \<Rightarrow> form_ref \<Rightarrow> bytes \<Rightarrow> bytes \<Rightarrow> bytes \<Rightarrow> bytes \<Rightarrow> (bytes \<times> bytes) list" where
  "fenced_headers action ref name space uid generation =
     [(expectedGenerationHeader, generation),
      (''Idempotency-Key'', incarnationKey action ref name space uid generation [])]"

definition fencedStatusAction ::
  "host \<Rightarrow> client \<Rightarrow> ctx \<Rightarrow> bytes \<Rightarrow> bytes \<Rightarrow> form_ref \<Rightarrow> bytes \<Rightarrow> bytes \<Rightarrow> bytes \<Rightarrow> resource io" where
  "fencedStatusAction H C c action space ref name uid generation =
     check_io (fenced_checks H C (''resource '' @ action) space ref name uid generation)
       (bind_io (not_found (do_request H C c ''POST''
            (resourceURL C ref name action (exactFormQuery space ref))
            (fenced_headers action ref name space uid generation) None True [200]))
         (\<lambda>(_, headers, data).
            lift_io (read_envelope H data ref name space)
              (\<lambda>out.
                 check_io (guard_err (md_generation (rs_metadata out) = generation) ChangedGeneration)
                   (check_io (if headers ''ETag'' = [] then None
                              else map_option ETag
                                (requireRevisionETag (headers ''ETag'') (md_revision (rs_metadata out))))
                     (return_io out)))))"

definition ObserveResource ::
  "host \<Rightarrow> client \<Rightarrow> ctx \<Rightarrow> bytes \<Rightarrow> form_ref \<Rightarrow> bytes \<Rightarrow> bytes \<Rightarrow> bytes \<Rightarrow> resource io" where
  "ObserveResource H C c space ref name uid generation =
     fencedStatusAction H C c ''observe'' space ref name uid generation"

text \<open>The last steps of a delete: nothing left to do, or an Operation to await.\<close>

definition finish_delete :: "host \<Rightarrow> client \<Rightarrow> ctx \<Rightarrow> answer \<Rightarrow> unit io" where
  "finish_delete H C c answer w =
     (case answer of (status, headers, data) \<Rightarrow>
        if status = 204 then (Inr (), w)
        else (case decodeOperationEnvelope H data of
                Inl e \<Rightarrow> (Inl e, w)
              | Inr op \<Rightarrow>
                  (case awaitOperation H C c op
                       (parseRetryAfter (h_texts H) (w_now w) (header_get headers ''Retry-After'')) 0 w of
                     ((_, None), w') \<Rightarrow> (Inr (), w')
                   | ((_, Some e), w') \<Rightarrow>
                       (Inl (case api_of e of
                               None \<Rightarrow> e
                             | Some a \<Rightarrow> if ae_code a = ''resource_not_found'' then ErrNotFound else e), w'))))"

definition DeleteResource ::
  "host \<Rightarrow> client \<Rightarrow> ctx \<Rightarrow> bytes \<Rightarrow> form_ref \<Rightarrow> bytes \<Rightarrow> bytes \<Rightarrow> bytes \<Rightarrow> unit io" where
  "DeleteResource H C c space ref name uid generation =
     check_io (fenced_checks H C ''resource delete'' space ref name uid generation)
       (bind_io (not_found (do_request H C c ''DELETE''
            (resourceURL C ref name [] (exactFormQuery space ref))
            (fenced_headers ''delete'' ref name space uid generation) None True [204, 202]))
         (finish_delete H C c))"

end
