(* ===== verification/HostProofs.thy ===== *)
theory HostProofs
  imports HostResources
begin

text \<open>
  What the calls of the Host API client guarantee: a request is sent again only after a
  complete retryable envelope and unchanged, an await is over by its deadline and reaches the
  terminal record of a host that finishes in time, a returned resource is the verified one that
  was asked for, and an error is an AcceptedError exactly if the host took the mutation.
\<close>

section \<open>Sending again\<close>

text \<open>A reply with a complete stable envelope that is marked retryable.\<close>

definition retryable_reply :: "host \<Rightarrow> reply \<Rightarrow> bool" where
  "retryable_reply H reply \<longleftrightarrow>
     (case reply of
        NoReply \<Rightarrow> False
      | Reply r \<Rightarrow>
          (case rp_body r of
             None \<Rightarrow> False
           | Some data \<Rightarrow>
               (case stable_body (h_transform H) (rp_status r) data of
                  None \<Rightarrow> False
                | Some b \<Rightarrow> eb_retryable b = Some True)))"

lemma refused_retryable:
  assumes "read_response H now verb ok reply = Refused e" and "isPortableRetryable (Some e)"
  shows "retryable_reply H reply"
  using assms portable_retry
  by (fastforce simp: read_response_def retryable_reply_def split: reply.splits option.splits if_splits)

lemma exchange_log:
  "exchange H c rq w = (reply, w') \<Longrightarrow> w_log w' = (rq, reply) # w_log w"
  by (auto simp: exchange_def Let_def split: if_splits)

lemma wait_timer_log: "wait_timer H c delay w = (b, w') \<Longrightarrow> w_log w' = w_log w"
  by (auto simp: wait_timer_def Let_def split: option.splits if_splits)

lemma waitForRetry_log: "waitForRetry H c attempt ra w = (b, w') \<Longrightarrow> w_log w' = w_log w"
  by (metis waitForRetry_def wait_timer_log)

lemma waitForPoll_log: "waitForPoll H c attempt ra w = (b, w') \<Longrightarrow> w_log w' = w_log w"
  by (metis waitForPoll_def wait_timer_log)

text \<open>A reply the call takes for a success; whether it is one does not depend on the time.\<close>

definition success_reply :: "host \<Rightarrow> bytes \<Rightarrow> int list \<Rightarrow> reply \<Rightarrow> bool" where
  "success_reply H verb ok reply \<longleftrightarrow>
     (case read_response H 0 verb ok reply of Success _ _ _ \<Rightarrow> True | _ \<Rightarrow> False)"

lemma success_now:
  "read_response H now verb ok reply = Success s h d \<longleftrightarrow> read_response H now' verb ok reply = Success s h d"
  by (auto simp: read_response_def split: reply.splits option.splits if_splits)

lemma success_reply_iff:
  "success_reply H verb ok reply \<longleftrightarrow> (\<exists>s h d. read_response H now verb ok reply = Success s h d)"
proof -
  have "success_reply H verb ok reply \<longleftrightarrow> (\<exists>s h d. read_response H 0 verb ok reply = Success s h d)"
    by (auto simp: success_reply_def split: outcome.splits)
  then show ?thesis by (simp only: success_now [of H 0 verb ok reply _ _ _ now])
qed

text \<open>
  The replies to the attempts of one call, newest first: all but the newest are retryable, and
  the newest is the success if the call succeeds; a call that fails had no success.
\<close>

definition sent_again :: "host \<Rightarrow> request \<Rightarrow> int list \<Rightarrow> nat \<Rightarrow> world \<Rightarrow> (host_error + answer) \<times> world \<Rightarrow> bool" where
  "sent_again H rq ok limit w res \<longleftrightarrow>
     (\<exists>replies. w_log (snd res) = map (Pair rq) replies @ w_log w \<and> length replies \<le> limit \<and>
        list_all (retryable_reply H) (tl replies) \<and>
        (case fst res of
           Inl _ \<Rightarrow> \<not> list_ex (success_reply H (rq_method rq) ok) replies
         | Inr (status, headers, data) \<Rightarrow>
             replies \<noteq> [] \<and>
             read_response H (w_now (snd res)) (rq_method rq) ok (hd replies) = Success status headers data))"

lemma sent_again_step:
  assumes "sent_again H rq ok n w1 res" and "w_log w1 = (rq, reply) # w_log w" and "retryable_reply H reply"
    and "\<not> success_reply H (rq_method rq) ok reply"
  shows "sent_again H rq ok (Suc n) w res"
proof -
  obtain replies where r: "w_log (snd res) = map (Pair rq) replies @ w_log w1" "length replies \<le> n"
      "list_all (retryable_reply H) (tl replies)"
      "case fst res of Inl _ \<Rightarrow> \<not> list_ex (success_reply H (rq_method rq) ok) replies
         | Inr (status, headers, data) \<Rightarrow> replies \<noteq> [] \<and>
             read_response H (w_now (snd res)) (rq_method rq) ok (hd replies) = Success status headers data"
    using assms(1) by (auto simp: sent_again_def)
  show ?thesis
    unfolding sent_again_def
    by (rule exI [of _ "replies @ [reply]"])
       (use r assms(2,3,4) in \<open>cases replies; auto split: sum.splits\<close>)
qed

lemma do_attempts_sent:
  "sent_again H rq ok left w (do_attempts H c rq retryStable ok attempt left w)"
proof (induction left arbitrary: attempt w)
  case 0
  then show ?case by (simp add: sent_again_def)
next
  case (Suc n)
  show ?case
  proof (cases "h_url H (rq_url rq) = None")
    case True
    then show ?thesis by (simp add: sent_again_def)
  next
    case False
    then obtain u where u: "h_url H (rq_url rq) = Some u" by auto
    obtain reply w1 where e: "exchange H c rq w = (reply, w1)" by (cases "exchange H c rq w")
    note log = exchange_log [OF e]
    have one: "sent_again H rq ok (Suc n) w (r, w1)"
      if "case r of Inl _ \<Rightarrow> \<not> success_reply H (rq_method rq) ok reply | Inr (status, headers, data) \<Rightarrow>
            read_response H (w_now w1) (rq_method rq) ok reply = Success status headers data"
      for r :: "host_error + answer"
      unfolding sent_again_def
      by (rule exI [of _ "[reply]"]) (use log that in \<open>auto split: sum.splits\<close>)
    note success = success_reply_iff [of H "rq_method rq" ok reply "w_now w1"]
    show ?thesis
    proof (cases "read_response H (w_now w1) (rq_method rq) ok reply")
      case (Failed x)
      with success one [of "Inl x"] u e show ?thesis by simp
    next
      case (Success s h d)
      with one [of "Inr (s, h, d)"] u e show ?thesis by simp
    next
      case (Refused a)
      then have ns: "\<not> success_reply H (rq_method rq) ok reply" using success by simp
      show ?thesis
      proof (cases "retryStable \<and> 0 < n \<and> isPortableRetryable (Some a)")
        case False
        with ns one [of "Inl (Api a)"] Refused u e show ?thesis by auto
      next
        case True
        obtain b w2 where v: "waitForRetry H c attempt (ae_retryAfter a) w1 = (b, w2)"
          by (cases "waitForRetry H c attempt (ae_retryAfter a) w1")
        have l2: "w_log w2 = (rq, reply) # w_log w" using waitForRetry_log [OF v] log by simp
        have rr: "retryable_reply H reply" using refused_retryable [OF Refused] True by simp
        show ?thesis
        proof (cases b)
          case True
          with sent_again_step [OF Suc.IH [of w2 "Suc attempt"] l2 rr ns]
            \<open>retryStable \<and> 0 < n \<and> _\<close> Refused e v u
          show ?thesis by simp
        next
          case False
          have "sent_again H rq ok (Suc n) w (Inl ContextEnded, w2)"
            unfolding sent_again_def by (rule exI [of _ "[reply]"]) (use l2 ns in simp)
          with False \<open>retryStable \<and> 0 < n \<and> _\<close> Refused e v u
          show ?thesis by simp
        qed
      qed
    qed
  qed
qed

text \<open>
  C13. A call sends one request, and sends it again, unchanged, only after a reply that carries a
  complete stable envelope marked retryable; it never exceeds the client's attempts, and a
  call that does not ask for retries sends at most one.
\<close>

theorem retries_only_stable:
  "\<exists>replies.
     w_log (snd (do_request H C c verb url headers body retryStable ok w)) =
       map (Pair (build_request C verb url headers body)) replies @ w_log w \<and>
     length replies \<le> (if retryStable then cl_retryAttempts C else 1) \<and>
     list_all (retryable_reply H) (tl replies)"
  using do_attempts_sent [of H "build_request C verb url headers body" ok
      "if retryStable then cl_retryAttempts C else 1" w c retryStable 0]
  by (auto simp: do_request_def sent_again_def simp del: do_attempts.simps)

section \<open>Awaiting an Operation\<close>

lemma wait_timer_until:
  "wait_timer H c delay w = (b, w') \<Longrightarrow> ctx_done c = Some e \<Longrightarrow> w_now w' \<le> max (w_now w) e"
  by (auto simp: wait_timer_def Let_def split: if_splits)

lemma waitForPoll_until:
  "waitForPoll H c attempt ra w = (b, w') \<Longrightarrow> ctx_done c = Some e \<Longrightarrow> w_now w' \<le> max (w_now w) e"
  by (metis waitForPoll_def wait_timer_until)

lemma exchange_until:
  "exchange H c rq w = (reply, w') \<Longrightarrow> ctx_done c = Some e \<Longrightarrow> w_now w' \<le> max (w_now w) e"
  by (auto simp: exchange_def Let_def ended_by_def end_time_def split: if_splits)

lemma do_once_until:
  assumes "do_request H C c verb url hs body False ok w = (r, w')" and "ctx_done c = Some e"
  shows "w_now w' \<le> max (w_now w) e"
  using assms exchange_until
  by (fastforce simp: do_request_def split: if_splits prod.splits outcome.splits)

lemma getOperation_until:
  assumes "getOperation H C c opid w = (r, w')" and "ctx_done c = Some e"
  shows "w_now w' \<le> max (w_now w) e"
  using assms do_once_until
  by (fastforce simp: getOperation_def check_io_def bind_io_def lift_io_def
      split: option.splits prod.splits sum.splits)

text \<open>How an await ends: with the terminal record, or with an error.\<close>

definition await_outcome :: "operation option \<times> host_error option \<Rightarrow> bool" where
  "await_outcome r \<longleftrightarrow>
     (case fst r of
        None \<Rightarrow> snd r \<noteq> None
      | Some t \<Rightarrow> op_done t \<and> finalizeOperation t = r)"

lemma finalize_outcome: "op_done t \<Longrightarrow> await_outcome (finalizeOperation t)"
  by (auto simp: await_outcome_def finalizeOperation_def split: option.splits)

lemma await_loop_ends:
  "await_outcome (fst (await_loop H C c deadline opid attempt op ra w)) \<and>
   w_now (snd (await_loop H C c deadline opid attempt op ra w)) \<le> max (w_now w) deadline"
proof (induction H C c deadline opid attempt op ra w rule: await_loop.induct)
  case (1 H C c deadline opid attempt op ra w)
  obtain e where e: "ctx_done (poll_ctx c deadline) = Some e" "e \<le> deadline"
    using ctx_done_poll by blast
  show ?case
  proof (cases "op_done op")
    case True
    then show ?thesis by (simp add: await_loop.simps finalize_outcome)
  next
    case False
    obtain b w1 where b: "waitForPoll H (poll_ctx c deadline) attempt ra w = (b, w1)"
      by (cases "waitForPoll H (poll_ctx c deadline) attempt ra w")
    note w1 = waitForPoll_until [OF b e(1)]
    obtain r w2 where r: "getOperation H C (poll_ctx c deadline) opid w1 = (r, w2)"
      by (cases "getOperation H C (poll_ctx c deadline) opid w1")
    note w2 = getOperation_until [OF r e(1)]
    show ?thesis
    proof (cases b)
      case b': False
      with False b w1 e(2) show ?thesis
        by (subst (1 2) await_loop.simps) (simp add: await_outcome_def)
    next
      case b': True
      show ?thesis
      proof (cases r)
        case (Inl x)
        with False b b' r w1 w2 e(2) show ?thesis
          by (subst (1 2) await_loop.simps) (simp add: await_outcome_def)
      next
        case (Inr p)
        obtain op' ra' where p: "p = (op', ra')" by (cases p)
        have "await_outcome (fst (await_loop H C c deadline opid (Suc attempt) op' ra' w2)) \<and>
          w_now (snd (await_loop H C c deadline opid (Suc attempt) op' ra' w2)) \<le> max (w_now w2) deadline"
          by (rule 1 [OF False b [symmetric] _ r [symmetric] Inr p [symmetric]]) (use b' in simp)
        then show ?thesis
          using False b b' r Inr p w1 w2 e(2) by (subst (1 2) await_loop.simps) auto
      qed
    qed
  qed
qed

text \<open>
  C12. Awaiting an Operation always returns, whatever the host answers or asks to wait: either with the
  terminal record and what finalizing it gives, or with an error, and no later than the
  deadline that the call's argument, the caller's context and the client's default give it.
\<close>

theorem await_returns_by_deadline:
  "case awaitOperation H C c op ra deadline w of (res, w') \<Rightarrow>
     await_outcome res \<and> w_now w' \<le> max (w_now w) (poll_deadline C c (w_now w) deadline)"
  using await_loop_ends [of H C c "poll_deadline C c (w_now w) deadline" "op_id op" 0 op ra w]
  by (cases "awaitOperation H C c op ra deadline w") (simp add: awaitOperation_def)

subsection \<open>A host that finishes\<close>

text \<open>
  The host answers every read of the operation within \<open>L\<close> nanoseconds with a readable record of
  it, asks for no waiting, and from time \<open>T\<close> on the record is terminal.
\<close>

definition finishes :: "host \<Rightarrow> client \<Rightarrow> bytes \<Rightarrow> int \<Rightarrow> int \<Rightarrow> bool" where
  "finishes H C opid T L \<longleftrightarrow>
     (\<forall>w rq. rq_url rq = operationURL C opid [] \<longrightarrow>
        int (h_latency H w rq) \<le> L \<and>
        (case h_reply H w rq of
           NoReply \<Rightarrow> False
         | Reply r \<Rightarrow>
             rp_status r = 200 \<and> rp_contentLength r \<le> maxResponseBodyBytes \<and>
             rp_header r ''Retry-After'' = [] \<and>
             (case rp_body r of
                None \<Rightarrow> False
              | Some data \<Rightarrow>
                  int (length data) \<le> maxResponseBodyBytes \<and>
                  (case read_operation H opid data of
                     Inl _ \<Rightarrow> False
                   | Inr op \<Rightarrow> w_now w < T \<or> op_done op))))"

definition fair_random :: "host \<Rightarrow> bool" where
  "fair_random H \<longleftrightarrow> (\<forall>w n. 0 < n \<longrightarrow> 0 \<le> h_random H w n \<and> h_random H w n < n)"

lemma no_hint [simp]: "parseRetryAfter X now [] = 0"
  by (simp add: parseRetryAfter_def trim_space_def Let_def)

lemma getOperation_finishes:
  assumes f: "finishes H C opid T L" and C: "cl_apiBase C \<noteq> []" and id: "rx_match operationIDPattern opid"
    and url: "h_url H (operationURL C opid []) \<noteq> None"
    and c: "ctx_done c = Some e" and t: "w_now w + 1 + L < e"
  shows "\<exists>op w'. getOperation H C c opid w = (Inr (op, 0), w') \<and>
           w_now w' \<le> w_now w + 1 + L \<and> (w_now w < T \<or> op_done op)"
proof -
  define rq where "rq = build_request C ''GET'' (operationURL C opid []) [] None"
  have rq: "rq_url rq = operationURL C opid []" "rq_method rq = ''GET''"
    by (simp_all add: rq_def build_request_def Let_def)
  have h: "int (h_latency H w rq) \<le> L \<and>
      (case h_reply H w rq of
         NoReply \<Rightarrow> False
       | Reply r \<Rightarrow>
           rp_status r = 200 \<and> rp_contentLength r \<le> maxResponseBodyBytes \<and>
           rp_header r ''Retry-After'' = [] \<and>
           (case rp_body r of
              None \<Rightarrow> False
            | Some data \<Rightarrow>
                int (length data) \<le> maxResponseBodyBytes \<and>
                (case read_operation H opid data of
                   Inl _ \<Rightarrow> False
                 | Inr op \<Rightarrow> w_now w < T \<or> op_done op)))"
    using f rq(1) unfolding finishes_def by blast
  obtain r where rp: "h_reply H w rq = Reply r" using h by (cases "h_reply H w rq") auto
  obtain data where data: "rp_body r = Some data" using h rp by (cases "rp_body r") auto
  obtain op where op: "read_operation H opid data = Inr op"
    using h rp data by (cases "read_operation H opid data") auto
  have r: "h_reply H w rq = Reply r" "rp_status r = 200"
      "rp_contentLength r \<le> maxResponseBodyBytes" "rp_header r ''Retry-After'' = []"
      "rp_body r = Some data" "int (length data) \<le> maxResponseBodyBytes"
      "read_operation H opid data = Inr op" "w_now w < T \<or> op_done op" "int (h_latency H w rq) \<le> L"
    using h rp data op by simp_all
  define w1 where "w1 = w\<lparr>w_now := w_now w + 1 + int (h_latency H w rq), w_log := (rq, Reply r) # w_log w\<rparr>"
  have "exchange H c rq w = (Reply r, w1)"
    using t r(1,9) c by (simp add: exchange_def ended_by_def w1_def Let_def)
  moreover have "read_response H (w_now w1) ''GET'' [200] (Reply r) = Success 200 (rp_header r) data"
    using r by (simp add: read_response_def containsStatus_def)
  ultimately have "do_request H C c ''GET'' (operationURL C opid []) [] None False [200] w =
      (Inr (200, rp_header r, data), w1)"
    using url rq by (auto simp: do_request_def simp flip: rq_def)
  then have "getOperation H C c opid w = (Inr (op, 0), w1)"
    using C id r(4,7)
    by (simp add: getOperation_def requireReady_def guard_err_def bind_io_def header_get_def)
  moreover have "w_now w1 \<le> w_now w + 1 + L" using r(9) by (simp add: w1_def)
  ultimately show ?thesis using r(8) by blast
qed

lemma waitForPoll_short:
  assumes "fair_random H" and "ctx_done c = Some e" and "w_now w + pollMaxDelay < e"
  shows "\<exists>w1. waitForPoll H c attempt 0 w = (True, w1) \<and> w_now w1 \<le> w_now w + pollMaxDelay"
proof -
  define d where "d = h_random H w (pollBackoffWindow attempt)"
  have p: "0 < pollBackoffWindow attempt" "pollBackoffWindow attempt \<le> pollMaxDelay"
    using poll_window_range by auto
  then have "0 \<le> d" "d < pollBackoffWindow attempt"
    using assms(1) unfolding fair_random_def d_def by blast+
  with p have "0 \<le> d" "d < pollMaxDelay" by simp_all
  then show ?thesis
    using assms(2,3) by (auto simp: waitForPoll_def wait_timer_def Let_def simp flip: d_def)
qed

lemma await_loop_finishes:
  assumes f: "finishes H C opid T L" and C: "cl_apiBase C \<noteq> []" and id: "rx_match operationIDPattern opid"
    and url: "h_url H (operationURL C opid []) \<noteq> None" and rnd: "fair_random H"
    and c: "cx_cancel c = None" and d: "T + 2 * L + pollMaxDelay + 1 < deadline"
    and L: "0 \<le> L" and t: "w_now w \<le> T + L"
  shows "\<exists>t. op_done t \<and> fst (await_loop H C c deadline opid attempt op 0 w) = finalizeOperation t"
  using t
proof (induction "nat (T + L - w_now w)" arbitrary: attempt op w rule: less_induct)
  case less
  have e: "ctx_done (poll_ctx c deadline) = Some deadline"
    using c by (simp add: ctx_done_def poll_ctx_def)
  show ?case
  proof (cases "op_done op")
    case True
    then show ?thesis by (auto simp: await_loop.simps)
  next
    case False
    obtain w1 where w1: "waitForPoll H (poll_ctx c deadline) attempt 0 w = (True, w1)"
        "w_now w1 \<le> w_now w + pollMaxDelay"
      using waitForPoll_short [OF rnd e, of w attempt] less.prems d L by auto
    have "w_now w1 + 1 + L < deadline" using w1(2) less.prems d by simp
    from getOperation_finishes [OF f C id url e this] obtain op' w2 where
      g: "getOperation H C (poll_ctx c deadline) opid w1 = (Inr (op', 0), w2)"
        "w_now w2 \<le> w_now w1 + 1 + L" "w_now w1 < T \<or> op_done op'"
      by blast
    have step: "await_loop H C c deadline opid attempt op 0 w =
        await_loop H C c deadline opid (Suc attempt) op' 0 w2"
      using False w1(1) g(1) by (subst await_loop.simps) simp
    have now: "w_now w < w_now w2"
      using waitForPoll_now [OF w1(1)] getOperation_now(2) [OF g(1) refl] by simp
    show ?thesis
    proof (cases "op_done op'")
      case True
      then show ?thesis unfolding step by (auto simp: await_loop.simps)
    next
      case undone: False
      with g(2,3) have "w_now w2 \<le> T + L" by simp
      then show ?thesis unfolding step using now by (intro less.hyps) auto
    qed
  qed
qed

text \<open>
  C11. A host that finishes is heard: when every read of the Operation is answered within \<open>L\<close> by a
  valid record that is terminal from time \<open>T\<close> on, and the deadline leaves room for one more
  poll after that, awaiting it returns a terminal record and never a deadline error.
\<close>

theorem await_reaches_terminal:
  assumes "finishes H C (op_id op) T L" and "0 \<le> L" and "fair_random H"
    and "cl_apiBase C \<noteq> []" and "rx_match operationIDPattern (op_id op)"
    and "h_url H (operationURL C (op_id op) []) \<noteq> None"
    and "cx_cancel c = None" and "w_now w \<le> T + L"
    and "T + 2 * L + pollMaxDelay + 1 < poll_deadline C c (w_now w) deadline"
  shows "\<exists>t. op_done t \<and> fst (awaitOperation H C c op 0 deadline w) = finalizeOperation t"
  unfolding awaitOperation_def
  by (rule await_loop_finishes [OF assms(1,4,5,6,3,7,9,2,8)])

end
