(* ===== verification/HostLifecycle.thy ===== *)
theory HostLifecycle
  imports HostProofs
begin

text \<open>
  The lifecycle calls as a whole: which resources they return, and what their errors say about
  the host's state.
\<close>

section \<open>Verified resources\<close>

definition canonical_counter :: "bytes \<Rightarrow> bool" where
  "canonical_counter s \<longleftrightarrow> (\<exists>n. 1 \<le> n \<and> n < 2 ^ 63 \<and> s = decimal n)"

definition condition_ok :: "condition \<Rightarrow> bool" where
  "condition_ok c \<longleftrightarrow>
     (\<exists>reasons. map_of conditionReasons (cd_type c) = Some reasons \<and> cd_reason c \<in> set reasons) \<and>
     cd_status c \<in> {''True'', ''False'', ''Unknown''} \<and> rune_count (cd_hostReason c) \<le> 256 \<and>
     rune_count (cd_message c) \<le> 4096 \<and> validDateTime (cd_lastTransitionTime c)"

definition verified_status :: "resource_status \<Rightarrow> bool" where
  "verified_status st \<longleftrightarrow>
     canonical_counter (st_observedGeneration st) \<and>
     (\<exists>conditions. st_conditions st = Some conditions \<and> length conditions \<le> 16 \<and>
        (\<forall>c\<in>set conditions. condition_ok c) \<and> distinct (map cd_type conditions) \<and>
        ''Ready'' \<in> cd_type ` set conditions)"

definition verified_resource :: "form_ref \<Rightarrow> bytes \<Rightarrow> bytes \<Rightarrow> resource \<Rightarrow> bool" where
  "verified_resource ref name space r \<longleftrightarrow>
     (\<exists>form st. rs_form r = Some form \<and> fe_formRef form = ref \<and>
        (fe_packageDigest form = [] \<or> ValidDigest (fe_packageDigest form)) \<and>
        rs_apiVersion r = fr_apiVersion ref \<and> rs_kind r = fr_kind ref \<and>
        md_name (rs_metadata r) = name \<and> md_space (rs_metadata r) = space \<and>
        name \<in> lang resourceNamePattern \<and> ValidateSpaceID space = None \<and>
        md_uid (rs_metadata r) \<in> lang uidPattern \<and>
        canonical_counter (md_generation (rs_metadata r)) \<and>
        canonical_counter (md_revision (rs_metadata r)) \<and>
        rs_spec r \<noteq> None \<and> rs_status r = Some st \<and> verified_status st)"

lemma digit_char_value: "is_digit c \<Longrightarrow> digit_char (digit_value c) = c \<and> digit_value c < 10"
  by (auto simp: is_digit_def less_eq_char_def digit_char_def digit_value_def)

lemma digit_char_zero: "d < 10 \<Longrightarrow> digit_char d = CHR ''0'' \<longleftrightarrow> d = 0"
proof -
  assume d: "d < 10"
  have "digit_value (digit_char d) = d" using d by (simp add: digit_char_def digit_value_def)
  moreover have "digit_value CHR ''0'' = 0" by (simp add: digit_value_def)
  moreover have "digit_char 0 = CHR ''0''" by code_simp
  ultimately show ?thesis by auto
qed

lemma decimal_of_digits:
  "list_all is_digit s \<Longrightarrow> s \<noteq> [] \<Longrightarrow> hd s \<noteq> CHR ''0'' \<Longrightarrow> decimal (digits_value s) = s \<and> 0 < digits_value s"
proof (induction s rule: rev_induct)
  case (snoc c s)
  have c: "digit_char (digit_value c) = c" "digit_value c < 10" using digit_char_value snoc.prems(1) by auto
  show ?case
  proof (cases "s = []")
    case True
    have "digit_value c \<noteq> 0"
      using snoc.prems True c digit_char_zero [of "digit_value c"] by auto
    with True c show ?thesis by (simp add: digits_value_def decimal.simps)
  next
    case False
    then have IH: "decimal (digits_value s) = s" "0 < digits_value s" using snoc by auto
    then have "decimal (10 * digits_value s + digit_value c) = s @ [c]"
      using c by (subst decimal.simps) simp
    with IH show ?thesis by (simp add: digits_value_snoc)
  qed
qed simp

lemma digit_runes: "list_all (\<lambda>r. 48 \<le> r \<and> r \<le> 57) (runes s) = list_all is_digit s"
  by (subst list_all_runes_ascii)
     (auto simp: is_digit_def less_eq_char_def code_def list_all_iff)

lemma canonical_decimal: "validCanonicalDecimal s = canonical_counter s"
proof
  assume v: "validCanonicalDecimal s"
  then have s: "s \<noteq> []" "hd s \<noteq> CHR ''0''" "list_all is_digit s"
    by (auto simp: validCanonicalDecimal_def digit_runes split: if_splits)
  with decimal_of_digits have d: "s = decimal (digits_value s)" "0 < digits_value s" by auto
  then have "int (digits_value s) < 2 ^ 63"
    using v parse_int64_decimal [of "digits_value s"]
    by (simp add: validCanonicalDecimal_def split: if_splits option.splits)
  then have "digits_value s < 2 ^ 63" by simp
  with d show "canonical_counter s" unfolding canonical_counter_def by (metis Suc_leI One_nat_def)
next
  assume "canonical_counter s"
  then obtain n where n: "1 \<le> n" "n < 2 ^ 63" "s = decimal n" unfolding canonical_counter_def by blast
  have z: "hd (decimal n) \<noteq> CHR ''0''" if "1 \<le> n" for n
    using that
  proof (induction n rule: decimal.induct)
    case (1 n)
    show ?case
    proof (cases "n < 10")
      case True
      with 1(2) show ?thesis by (simp add: decimal.simps [of n] digit_char_zero)
    next
      case False
      with 1 have "hd (decimal (n div 10)) \<noteq> CHR ''0''" by auto
      with False decimal_digits [of "n div 10"] show ?thesis by (subst decimal.simps) simp
    qed
  qed
  have "int n < 2 ^ 63" using n(2) by simp
  with n z decimal_digits [of n] parse_int64_decimal [of n] show "validCanonicalDecimal s"
    by (simp add: validCanonicalDecimal_def digit_runes)
qed

lemma check_condition_None:
  "check_condition seen c = None \<longleftrightarrow> condition_ok c \<and> cd_type c \<notin> set seen"
proof -
  have t: "map_of conditionReasons k \<noteq> None \<longleftrightarrow> k \<in> set conditionTypes" for k
    by (simp add: conditionReasons_def conditionTypes_def)
  have s: "k \<in> {''True'', ''False'', ''Unknown''} \<longleftrightarrow> k \<in> set conditionStatuses" for k
    by (simp add: conditionStatuses_def)
  have h: "\<not> (cd_hostReason c \<noteq> [] \<and> rune_count (cd_hostReason c) > 256) \<longleftrightarrow>
      rune_count (cd_hostReason c) \<le> 256"
    by (auto simp: rune_count_def)
  show ?thesis
  proof (cases "map_of conditionReasons (cd_type c)")
    case None
    with t [of "cd_type c"] show ?thesis by (simp add: check_condition_def condition_ok_def)
  next
    case (Some reasons)
    with t [of "cd_type c"] h show ?thesis
      unfolding condition_ok_def s by (auto simp: check_condition_def)
  qed
qed

lemma check_conditions_None:
  "check_conditions seen cs = None \<longleftrightarrow>
     (\<forall>c\<in>set cs. condition_ok c) \<and> distinct (map cd_type cs) \<and> cd_type ` set cs \<inter> set seen = {} \<and>
     ''Ready'' \<in> cd_type ` set cs \<union> set seen"
proof (induction cs arbitrary: seen)
  case (Cons c cs)
  show ?case
  proof (cases "check_condition seen c")
    case None
    then show ?thesis using Cons.IH [of "cd_type c # seen"] check_condition_None [of seen c] by auto
  next
    case (Some e)
    then show ?thesis using check_condition_None [of seen c] by auto
  qed
qed simp

lemma verify_status_None: "verify_status st = None \<longleftrightarrow> verified_status st"
  by (auto simp: verify_status_def verified_status_def canonical_decimal check_conditions_None
      split: option.splits)

lemma verify_None:
  "verifyResourceResponse ref name space r = None \<longleftrightarrow> verified_resource ref name space r"
proof (cases "rs_form r")
  case None
  then show ?thesis by (simp add: verifyResourceResponse_def verified_resource_def)
next
  case (Some form)
  have n: "ValidateResourceName k = None \<longleftrightarrow> k \<in> lang resourceNamePattern" for k
    by (simp add: ValidateResourceName_def rx_match_lang)
  have "verifyResourceResponse ref name space r = None \<longleftrightarrow>
      ref = fe_formRef form \<and> (fe_packageDigest form = [] \<or> ValidDigest (fe_packageDigest form)) \<and>
      (rs_apiVersion r = fr_apiVersion ref \<and> rs_kind r = fr_kind ref) \<and>
      (md_name (rs_metadata r) = name \<and> md_space (rs_metadata r) = space) \<and>
      md_name (rs_metadata r) \<in> lang resourceNamePattern \<and> ValidateSpaceID (md_space (rs_metadata r)) = None \<and>
      md_uid (rs_metadata r) \<in> lang uidPattern \<and> canonical_counter (md_generation (rs_metadata r)) \<and>
      canonical_counter (md_revision (rs_metadata r)) \<and> rs_spec r \<noteq> None \<and>
      (\<exists>st. rs_status r = Some st \<and> verified_status st)"
    by (cases "rs_status r")
       (simp_all add: verifyResourceResponse_def Some Let_def first_err_None sameFormRef_eq n rx_match_lang
          canonical_decimal verify_status_None del: not_None_eq)
  with Some show ?thesis by (auto simp: verified_resource_def)
qed

lemma read_verified:
  "read_resource H data ref name space = Inr out \<Longrightarrow> verified_resource ref name space out"
  "read_envelope H data ref name space = Inr out \<Longrightarrow> verified_resource ref name space out"
  by (auto simp: read_resource_def read_envelope_def err_simps verify_None split: option.splits)

section \<open>What the log of a call holds\<close>

definition logs_only :: "(request \<Rightarrow> bool) \<Rightarrow> world \<Rightarrow> world \<Rightarrow> bool" where
  "logs_only P w w' \<longleftrightarrow> (\<exists>new. w_log w' = new @ w_log w \<and> list_all (\<lambda>(rq, _). P rq) new)"

lemma logs_only_refl [simp]: "logs_only P w w"
  by (simp add: logs_only_def)

lemma logs_only_trans: "logs_only P w w1 \<Longrightarrow> logs_only P w1 w2 \<Longrightarrow> logs_only P w w2"
  by (fastforce simp: logs_only_def)

lemma logs_only_same: "w_log w' = w_log w \<Longrightarrow> logs_only P w w'"
  by (simp add: logs_only_def)

lemma do_request_sent:
  "sent_again H (build_request C verb url headers body) ok (if retryStable then cl_retryAttempts C else 1) w
     (do_request H C c verb url headers body retryStable ok w)"
  unfolding do_request_def by (rule do_attempts_sent)

lemma build_request_method [simp]: "rq_method (build_request C verb url headers body) = verb"
  by (simp add: build_request_def Let_def)

lemma do_request_logs:
  assumes "\<And>rq. rq_method rq = verb \<Longrightarrow> P rq"
  shows "logs_only P w (snd (do_request H C c verb url headers body retryStable ok w))"
proof -
  obtain replies where "w_log (snd (do_request H C c verb url headers body retryStable ok w)) =
      map (Pair (build_request C verb url headers body)) replies @ w_log w"
    using do_request_sent [of H C verb url headers body ok retryStable w c] by (auto simp: sent_again_def)
  then show ?thesis
    unfolding logs_only_def using assms by (auto simp: list_all_iff)
qed

fun is_accepted :: "host_error \<Rightarrow> bool" where
  "is_accepted (Accepted _ _ _) = True"
| "is_accepted _ = False"

lemma do_attempts_error:
  "fst (do_attempts H c rq retryStable ok attempt left w) = Inl e \<Longrightarrow> \<not> is_accepted e"
proof (induction left arbitrary: attempt w)
  case (Suc n)
  have "\<not> is_accepted x" if "read_response H now verb ok reply = Failed x" for now verb reply x
    using that by (auto simp: read_response_def split: reply.splits option.splits if_splits)
  with Suc show ?case by (fastforce split: if_splits prod.splits outcome.splits bool.splits)
qed auto

text \<open>A call that sends no PUT and whose errors say nothing about acceptance.\<close>

definition not_put :: "request \<Rightarrow> bool" where "not_put rq \<longleftrightarrow> rq_method rq \<noteq> ''PUT''"

definition silent :: "'a io \<Rightarrow> bool" where
  "silent m \<longleftrightarrow>
     (\<forall>w. logs_only not_put w (snd (m w)) \<and>
        (case fst (m w) of Inl e \<Rightarrow> \<not> is_accepted e | Inr _ \<Rightarrow> True))"

lemma silent_return [intro!]: "silent (return_io a)"
  by (simp add: silent_def)

lemma silent_check [intro!]:
  "(\<And>e. x = Some e \<Longrightarrow> \<not> is_accepted e) \<Longrightarrow> silent m \<Longrightarrow> silent (check_io x m)"
  by (cases x) (simp_all add: silent_def)

lemma silent_lift [intro!]:
  "(\<And>e. x = Inl e \<Longrightarrow> \<not> is_accepted e) \<Longrightarrow> (\<And>a. silent (f a)) \<Longrightarrow> silent (lift_io x f)"
  by (cases x) (simp_all add: silent_def)

lemma silent_bind [intro!]:
  assumes m: "silent m" and f: "\<And>a. silent (f a)"
  shows "silent (bind_io m f)"
  unfolding silent_def
proof
  fix w
  obtain r w1 where r: "m w = (r, w1)" by (cases "m w")
  have l: "logs_only not_put w w1" using m r unfolding silent_def by (metis snd_conv)
  show "logs_only not_put w (snd (bind_io m f w)) \<and>
      (case fst (bind_io m f w) of Inl e \<Rightarrow> \<not> is_accepted e | Inr _ \<Rightarrow> True)"
  proof (cases r)
    case (Inl e)
    have "\<not> is_accepted e" using m r Inl unfolding silent_def by (metis fst_conv sum.case(1))
    with l r Inl show ?thesis by (simp add: bind_io_def)
  next
    case (Inr a)
    have "logs_only not_put w1 (snd (f a w1)) \<and>
        (case fst (f a w1) of Inl e \<Rightarrow> \<not> is_accepted e | Inr _ \<Rightarrow> True)"
      using f [of a] unfolding silent_def by blast
    with l r Inr show ?thesis by (auto simp: bind_io_def intro: logs_only_trans)
  qed
qed

lemma silent_do_request [intro!]:
  "verb \<noteq> ''PUT'' \<Longrightarrow> silent (do_request H C c verb url headers body retryStable ok)"
  unfolding silent_def
proof
  fix w
  assume p: "verb \<noteq> ''PUT''"
  have "logs_only not_put w (snd (do_request H C c verb url headers body retryStable ok w))"
    by (rule do_request_logs) (use p in \<open>simp add: not_put_def\<close>)
  moreover have "\<not> is_accepted e"
    if "fst (do_request H C c verb url headers body retryStable ok w) = Inl e" for e
    using that do_attempts_error by (auto simp: do_request_def)
  ultimately show "logs_only not_put w (snd (do_request H C c verb url headers body retryStable ok w)) \<and>
      (case fst (do_request H C c verb url headers body retryStable ok w) of
         Inl e \<Rightarrow> \<not> is_accepted e | Inr _ \<Rightarrow> True)"
    by (auto split: sum.splits)
qed

lemma silent_case_prod [intro!]: "(\<And>a b. silent (f a b)) \<Longrightarrow> silent (case p of (a, b) \<Rightarrow> f a b)"
  by (cases p) simp

lemma plain_errors:
  "decodeBody H data d zero = Inl e \<Longrightarrow> \<not> is_accepted e"
  "requireReady C = Some e \<Longrightarrow> \<not> is_accepted e"
  "check_forms ref op forms = Some e \<Longrightarrow> \<not> is_accepted e"
  "validatePrepareResult H r spec out = Some e \<Longrightarrow> \<not> is_accepted e"
  by (auto simp: decodeBody_def requireReady_def check_forms_def validatePrepareResult_def Let_def guard_err_def
      split: if_splits sum.splits list.splits option.splits)

lemma silent_ready: "silent (apply_ready H C c given f)"
  unfolding apply_ready_def EnsureFormAvailable_def PrepareResource_def
  by (auto dest: plain_errors simp: guard_err_def split: if_splits)

text \<open>An await sends reads only.\<close>

lemma getOperation_logs: "getOperation H C c opid w = (r, w') \<Longrightarrow> logs_only not_put w w'"
proof -
  assume g: "getOperation H C c opid w = (r, w')"
  have q: "logs_only not_put w (snd (do_request H C c ''GET'' url hs body rs ok w))" for url hs body rs ok
    by (rule do_request_logs) (simp add: not_put_def)
  from g have "w' = w \<or> w' = snd (do_request H C c ''GET'' (operationURL C opid []) [] None False [200] w)"
    by (auto simp: getOperation_def check_io_def bind_io_def lift_io_def
        split: option.splits prod.splits sum.splits)
  with q show ?thesis by auto
qed

lemma await_loop_logs: "logs_only not_put w (snd (await_loop H C c deadline opid attempt op ra w))"
proof (induction H C c deadline opid attempt op ra w rule: await_loop.induct)
  case (1 H C c deadline opid attempt op ra w)
  show ?case
  proof (cases "op_done op")
    case True
    then show ?thesis by (simp add: await_loop.simps)
  next
    case False
    obtain b w1 where b: "waitForPoll H (poll_ctx c deadline) attempt ra w = (b, w1)"
      by (cases "waitForPoll H (poll_ctx c deadline) attempt ra w")
    have l1: "logs_only not_put w w1" using waitForPoll_log [OF b] by (rule logs_only_same)
    obtain r w2 where r: "getOperation H C (poll_ctx c deadline) opid w1 = (r, w2)"
      by (cases "getOperation H C (poll_ctx c deadline) opid w1")
    have l2: "logs_only not_put w w2" by (rule logs_only_trans [OF l1 getOperation_logs [OF r]])
    show ?thesis
    proof (cases "b \<and> (\<exists>p. r = Inr p)")
      case True
      then obtain op' ra' where p: "b" "r = Inr (op', ra')" by auto
      have "logs_only not_put w2 (snd (await_loop H C c deadline opid (Suc attempt) op' ra' w2))"
        by (rule 1 [OF False b [symmetric] _ r [symmetric] p(2) refl]) (use p(1) in simp)
      with l2 have "logs_only not_put w (snd (await_loop H C c deadline opid (Suc attempt) op' ra' w2))"
        by (rule logs_only_trans)
      then show ?thesis using False b r p by (subst await_loop.simps) simp
    next
      case stop: False
      show ?thesis
        using False b r l1 l2 stop by (subst await_loop.simps) (cases b; cases r; auto)
    qed
  qed
qed

lemma finish_log_error:
  "logs_only not_put w (snd (finishResourceMutation H C c answer ref name space w)) \<and>
   (case fst (finishResourceMutation H C c answer ref name space w) of Inl e \<Rightarrow> is_accepted e | Inr _ \<Rightarrow> True)"
proof -
  have "logs_only not_put w w'" if "awaitOperation H C c op ra d w = (res, w')" for op ra d res w'
    using that await_loop_logs [of w H C c] unfolding awaitOperation_def by (metis snd_conv)
  then show ?thesis
    by (auto simp: finishResourceMutation_def Let_def split: prod.splits sum.splits option.splits)
qed

section \<open>Acceptance\<close>

definition new_log :: "world \<Rightarrow> world \<Rightarrow> (request \<times> reply) list" where
  "new_log w w' = take (length (w_log w') - length (w_log w)) (w_log w')"

lemma new_log_append: "w_log w' = new @ w_log w \<Longrightarrow> new_log w w' = new"
  by (simp add: new_log_def)

text \<open>
  The host answered a PUT with one of the statuses of acceptance, whatever became of the body;
  and it did so in a response whose body arrived in full within the 8 MiB the client reads.
\<close>

definition accepting :: "response \<Rightarrow> bool" where
  "accepting r \<longleftrightarrow> rp_status r \<in> {200, 201, 202}"

definition whole_body :: "response \<Rightarrow> bool" where
  "whole_body r \<longleftrightarrow>
     rp_contentLength r \<le> 8388608 \<and> (\<exists>data. rp_body r = Some data \<and> length data \<le> 8388608)"

definition put_reply :: "(response \<Rightarrow> bool) \<Rightarrow> request \<times> reply \<Rightarrow> bool" where
  "put_reply P entry \<longleftrightarrow>
     rq_method (fst entry) = ''PUT'' \<and> (case snd entry of NoReply \<Rightarrow> False | Reply r \<Rightarrow> P r)"

definition put_accepted :: "(request \<times> reply) list \<Rightarrow> bool" where
  "put_accepted entries = list_ex (put_reply accepting) entries"

definition put_received :: "(request \<times> reply) list \<Rightarrow> bool" where
  "put_received entries = list_ex (put_reply (\<lambda>r. accepting r \<and> whole_body r)) entries"

lemma put_append [simp]:
  "put_accepted (a @ b) \<longleftrightarrow> put_accepted a \<or> put_accepted b"
  "put_received (a @ b) \<longleftrightarrow> put_received a \<or> put_received b"
  by (simp_all add: put_accepted_def put_received_def)

lemma received_accepted: "put_received entries \<Longrightarrow> put_accepted entries"
  by (fastforce simp: put_received_def put_accepted_def put_reply_def list_ex_iff split: reply.splits)

lemma no_put_accepted: "logs_only not_put w w' \<Longrightarrow> \<exists>new. w_log w' = new @ w_log w \<and> \<not> put_accepted new"
  by (fastforce simp: logs_only_def put_accepted_def put_reply_def not_put_def list_all_iff list_ex_iff)

lemma received_success:
  "rq_method rq = ''PUT'' \<Longrightarrow>
     put_reply (\<lambda>r. accepting r \<and> whole_body r) (rq, reply) \<longleftrightarrow> success_reply H ''PUT'' [200, 201, 202] reply"
  by (auto simp: put_reply_def accepting_def whole_body_def success_reply_def read_response_def maxResponseBodyBytes_def
      containsStatus_def split: reply.splits option.splits)

text \<open>The two errors of a reply that was cut off or too long, which the status does not enter.\<close>

definition body_lost :: "host_error \<Rightarrow> bool" where
  "body_lost e \<longleftrightarrow> e = BodyUnreadable \<or> e = ResponseTooLarge"

lemma read_not_lost:
  assumes "read_response H now ''PUT'' [200, 201, 202] reply = out"
    and "case out of Success _ _ _ \<Rightarrow> False | Failed e \<Rightarrow> \<not> body_lost e | Refused _ \<Rightarrow> True"
  shows "\<not> put_reply accepting (rq, reply)"
  using assms
  by (auto simp: put_reply_def accepting_def read_response_def containsStatus_def body_lost_def
      split: reply.splits option.splits if_splits)

lemma do_attempts_not_lost:
  assumes "do_attempts H c rq retryStable [200, 201, 202] attempt left w = (Inl e, w')" and "rq_method rq = ''PUT''"
    and "\<not> body_lost e"
  shows "\<exists>new. w_log w' = new @ w_log w \<and> \<not> put_accepted new"
  using assms(1)
proof (induction left arbitrary: attempt w)
  case 0
  then show ?case by (auto simp: put_accepted_def)
next
  case (Suc n)
  obtain reply w1 where x: "exchange H c rq w = (reply, w1)" by (cases "exchange H c rq w")
  note log = exchange_log [OF x]
  let ?out = "read_response H (w_now w1) ''PUT'' [200, 201, 202] reply"
  have one: "w_log v = w_log w1 \<Longrightarrow>
      case ?out of Success _ _ _ \<Rightarrow> False | Failed e \<Rightarrow> \<not> body_lost e | Refused _ \<Rightarrow> True \<Longrightarrow>
      \<exists>new. w_log v = new @ w_log w \<and> \<not> put_accepted new" for v
    using log read_not_lost [OF refl, of H "w_now w1" reply rq]
    by (intro exI [of _ "[(rq, reply)]"]) (simp add: put_accepted_def)
  show ?case
  proof (cases "h_url H (rq_url rq) = None")
    case True
    with Suc.prems show ?thesis by (auto simp: put_accepted_def)
  next
    case url: False
    show ?thesis
    proof (cases "\<exists>a. ?out = Refused a \<and> retryStable \<and> 0 < n \<and> isPortableRetryable (Some a)")
      case False
      with Suc.prems x url assms(2,3) show ?thesis
        by (intro one) (auto split: outcome.splits if_splits)
    next
      case True
      then obtain a where a: "?out = Refused a" "retryStable" "0 < n" "isPortableRetryable (Some a)" by blast
      obtain b w2 where v: "waitForRetry H c attempt (ae_retryAfter a) w1 = (b, w2)"
        by (cases "waitForRetry H c attempt (ae_retryAfter a) w1")
      have l2: "w_log w2 = w_log w1" by (rule waitForRetry_log [OF v])
      obtain new where new: "w_log w2 = new @ w_log w" "\<not> put_accepted new" using one [OF l2] a(1) by auto
      show ?thesis
      proof (cases b)
        case False
        with Suc.prems x url assms(2) a v new show ?thesis by auto
      next
        case True
        with Suc.prems x url assms(2) a v have
          "do_attempts H c rq retryStable [200, 201, 202] (Suc attempt) n w2 = (Inl e, w')" by simp
        then obtain more where "w_log w' = more @ w_log w2" "\<not> put_accepted more" using Suc.IH by blast
        with new show ?thesis by (intro exI [of _ "more @ new"]) simp
      qed
    qed
  qed
qed

lemma apply_put_log:
  assumes "apply_put H C c r ref f prepared w = (res, w')"
  shows "\<exists>new. w_log w' = new @ w_log w \<and> (put_received new \<longleftrightarrow> (\<exists>a. res = Inr a)) \<and>
     (case res of Inr _ \<Rightarrow> True | Inl e \<Rightarrow> body_lost e \<or> \<not> put_accepted new)"
    and "res = Inl e \<Longrightarrow> \<not> is_accepted e"
proof -
  obtain url hs body where d: "apply_put H C c r ref f prepared =
      do_request H C c ''PUT'' url hs body True [200, 201, 202]"
    by (metis apply_put_def)
  have q: "do_request H C c ''PUT'' url hs body True [200, 201, 202] w = (res, w')"
    using assms unfolding d .
  let ?rq = "build_request C ''PUT'' url hs body"
  obtain replies where rep: "w_log w' = map (Pair ?rq) replies @ w_log w"
      "case res of Inl _ \<Rightarrow> \<not> list_ex (success_reply H ''PUT'' [200, 201, 202]) replies
         | Inr (status, headers, data) \<Rightarrow> replies \<noteq> [] \<and>
             read_response H (w_now w') ''PUT'' [200, 201, 202] (hd replies) = Success status headers data"
    using do_request_sent [of H C "''PUT''" url hs body "[200, 201, 202]" True w c]
    unfolding sent_again_def q build_request_method fst_conv snd_conv by blast
  have "put_received (map (Pair ?rq) replies) \<longleftrightarrow> list_ex (success_reply H ''PUT'' [200, 201, 202]) replies"
    by (simp add: put_received_def list_ex_iff received_success [where H = H])
  moreover have "list_ex (success_reply H ''PUT'' [200, 201, 202]) replies \<longleftrightarrow> (\<exists>a. res = Inr a)"
    using rep(2) success_reply_iff [of H "''PUT''" "[200, 201, 202]" _ "w_now w'"]
    by (cases res; cases replies) auto
  moreover have "case res of Inr _ \<Rightarrow> True | Inl e \<Rightarrow> body_lost e \<or> \<not> put_accepted (map (Pair ?rq) replies)"
    using q do_attempts_not_lost [of H c ?rq True 0 "cl_retryAttempts C" w _ w'] rep(1)
    by (auto simp: do_request_def split: sum.splits)
  ultimately show "\<exists>new. w_log w' = new @ w_log w \<and> (put_received new \<longleftrightarrow> (\<exists>a. res = Inr a)) \<and>
     (case res of Inr _ \<Rightarrow> True | Inl e \<Rightarrow> body_lost e \<or> \<not> put_accepted new)"
    using rep(1) by blast
  show "res = Inl e \<Longrightarrow> \<not> is_accepted e"
    using assms do_attempts_error unfolding d do_request_def by (metis fst_conv)
qed

text \<open>
  C10. What an apply's error says about the host. The call returns a resource or an AcceptedError
  exactly if one of its PUTs was answered 200, 201 or 202 in a response whose body arrived in full
  within 8 MiB. Any other error means that no PUT was answered with such a status at all, with two
  exceptions, which the client does not mark although the host accepted: an accepting response
  whose body cannot be read, and one that exceeds 8 MiB.
\<close>

theorem apply_reports_acceptance:
  "case ApplyResource H C c given f w of (res, w') \<Rightarrow>
     (case res of
        Inr _ \<Rightarrow> put_received (new_log w w')
      | Inl e \<Rightarrow>
          if put_received (new_log w w') then is_accepted e
          else if put_accepted (new_log w w') then e = BodyUnreadable \<or> e = ResponseTooLarge
          else \<not> is_accepted e)"
proof -
  obtain r1 w1 where ready: "apply_ready H C c given f w = (r1, w1)" by (cases "apply_ready H C c given f w")
  have s: "logs_only not_put w w1" "r1 = Inl e \<Longrightarrow> \<not> is_accepted e" for e
    using silent_ready [of H C c given f] ready
    unfolding silent_def by (metis snd_conv, metis fst_conv sum.case(1))
  obtain n1 where n1: "w_log w1 = n1 @ w_log w" "\<not> put_accepted n1" "\<not> put_received n1"
    using no_put_accepted [OF s(1)] received_accepted by blast
  show ?thesis
  proof (cases r1)
    case (Inl e)
    with s(2) n1 ready show ?thesis by (simp add: ApplyResource_def bind_io_def new_log_append)
  next
    case (Inr prepared)
    let ?r = "the given" and ?ref = "form_ref_of (the given)"
    obtain r2 w2 where put: "apply_put H C c ?r ?ref f prepared w1 = (r2, w2)"
      by (cases "apply_put H C c ?r ?ref f prepared w1")
    obtain n2 where n2: "w_log w2 = n2 @ w_log w1" "put_received n2 \<longleftrightarrow> (\<exists>a. r2 = Inr a)"
        "case r2 of Inr _ \<Rightarrow> True | Inl e \<Rightarrow> body_lost e \<or> \<not> put_accepted n2"
      using apply_put_log(1) [OF put] by blast
    show ?thesis
    proof (cases r2)
      case (Inl e)
      have "new_log w w2 = n2 @ n1" using n1 n2 by (simp add: new_log_append)
      moreover have "\<not> is_accepted e" using apply_put_log(2) [OF put] Inl by blast
      ultimately show ?thesis
        using ready put n1(2,3) n2(2,3) Inl Inr by (auto simp: ApplyResource_def bind_io_def Let_def body_lost_def)
    next
      case (Inr answer)
      let ?fin = "finishResourceMutation H C c answer ?ref (md_name (rs_metadata ?r)) (md_space (rs_metadata ?r)) w2"
      obtain r3 w3 where fin: "?fin = (r3, w3)" by (cases ?fin)
      have l: "logs_only not_put w2 w3" "case r3 of Inl e \<Rightarrow> is_accepted e | Inr _ \<Rightarrow> True"
        using finish_log_error [of w2 H C c answer ?ref "md_name (rs_metadata ?r)" "md_space (rs_metadata ?r)"] fin
        by simp_all
      obtain n3 where n3: "w_log w3 = n3 @ w_log w2" using no_put_accepted [OF l(1)] by blast
      have "new_log w w3 = n3 @ n2 @ n1" using n1 n2 n3 by (simp add: new_log_append)
      moreover have "put_received n2" using n2(2) Inr by blast
      ultimately show ?thesis
        using ready put fin l(2) Inr \<open>r1 = Inr prepared\<close>
        by (cases r3) (simp_all add: ApplyResource_def bind_io_def Let_def)
    qed
  qed
qed

section \<open>What the calls return\<close>

lemma finish_verified:
  "fst (finishResourceMutation H C c answer ref name space w) = Inr out \<Longrightarrow> verified_resource ref name space out"
  by (auto simp: finishResourceMutation_def Let_def dest: read_verified
      split: prod.splits sum.splits option.splits if_splits)

lemma bind_io_fst:
  "fst (bind_io m f w) = Inr b \<longleftrightarrow> (\<exists>a w1. m w = (Inr a, w1) \<and> fst (f a w1) = Inr b)"
  by (auto simp: bind_io_def split: prod.splits sum.splits)

lemma check_lift_fst:
  "fst (check_io x m w) = Inr a \<longleftrightarrow> x = None \<and> fst (m w) = Inr a"
  "fst (lift_io r g w) = Inr b \<longleftrightarrow> (\<exists>a. r = Inr a \<and> fst (g a w) = Inr b)"
  by (auto simp: check_io_def lift_io_def split: option.splits sum.splits)

lemmas call_Inr = bind_io_fst check_lift_fst return_io_def

text \<open>The result of a call for the resource \<open>name\<close> of \<open>ref\<close> in \<open>space\<close> is an error or that resource.\<close>

definition answers_resource :: "form_ref \<Rightarrow> bytes \<Rightarrow> bytes \<Rightarrow> (host_error + resource) \<times> world \<Rightarrow> bool" where
  "answers_resource ref name space res \<longleftrightarrow>
     (case fst res of Inl _ \<Rightarrow> True | Inr out \<Rightarrow> verified_resource ref name space out)"

lemma answers_resourceI:
  "(\<And>out. fst res = Inr out \<Longrightarrow> verified_resource ref name space out) \<Longrightarrow> answers_resource ref name space res"
  by (auto simp: answers_resource_def split: sum.splits)

text \<open>
  C14. Every resource a call hands out is the verified one that was asked for: the exact FormRef,
  name and Space of the request, a valid uid, canonical positive 64-bit counters, a spec, and at most
  16 conditions of distinct known types, allowed reasons and RFC 3339 times with Ready among them.
\<close>

theorem returned_resources_verified:
  "answers_resource ref name space (GetResource H C c space ref name w) \<and>
   answers_resource ref name space (ObserveResource H C c space ref name uid generation w) \<and>
   answers_resource (form_ref_of r) (md_name (rs_metadata r)) (md_space (rs_metadata r))
     (ApplyResource H C c (Some r) f w) \<and>
   answers_resource (form_ref_of r) (md_name (rs_metadata r)) (md_space (rs_metadata r))
     (ImportResource H C c (Some r) nativeID w)"
proof (intro conjI answers_resourceI)
  fix out
  show "verified_resource ref name space out" if "fst (GetResource H C c space ref name w) = Inr out"
    using that by (auto simp: GetResource_def call_Inr dest: read_verified)
  show "verified_resource ref name space out"
    if "fst (ObserveResource H C c space ref name uid generation w) = Inr out"
    using that by (auto simp: ObserveResource_def fencedStatusAction_def call_Inr dest: read_verified)
  show "verified_resource (form_ref_of r) (md_name (rs_metadata r)) (md_space (rs_metadata r)) out"
    if "fst (ApplyResource H C c (Some r) f w) = Inr out"
    using that by (auto simp: ApplyResource_def Let_def bind_io_fst dest: finish_verified)
  show "verified_resource (form_ref_of r) (md_name (rs_metadata r)) (md_space (rs_metadata r)) out"
    if "fst (ImportResource H C c (Some r) nativeID w) = Inr out"
    using that by (auto simp: ImportResource_def Let_def bind_io_fst check_lift_fst dest: finish_verified)
qed

end
