(* ===== verification/HostEnvelopes.thy ===== *)
theory HostEnvelopes
  imports HostLifecycle
begin

text \<open>
  What the client takes from a host's words: which error bodies earn a retry, which Retry-After
  seconds are waited for as they are written, which operations share an idempotency key, and what a
  terminal error keeps of its record.
\<close>

section \<open>Retryable envelopes\<close>

lemma decoded_stable:
  "stable_body transform status data = Some b \<longleftrightarrow>
     trim_space data \<noteq> [] \<and> complete_envelope status b \<and>
     (\<exists>v. valid_utf8 data \<and> parseDocument data = Inr v \<and> transform data \<noteq> None \<and>
        dec_error_envelope v empty_body = Some b)"
proof (cases "decodeStrictJSON transform data dec_error_envelope empty_body")
  case (Inl e)
  then have "\<not> (\<exists>v. valid_utf8 data \<and> parseDocument data = Inr v \<and> transform data \<noteq> None \<and>
      dec_error_envelope v empty_body = Some b)"
    using decodeStrictJSON_Inr [of transform data dec_error_envelope empty_body b] by auto
  with Inl show ?thesis by (auto simp: stable_body_def)
next
  case (Inr b')
  then show ?thesis
    using decodeStrictJSON_Inr [of transform data dec_error_envelope empty_body b]
    by (auto simp: stable_body_def split: if_splits)
qed

lemma auto_codes_nonblank:
  "isStableErrorEnvelope status c True \<Longrightarrow> trim_space c \<noteq> []"
proof -
  assume "isStableErrorEnvelope status c True"
  then have "c \<in> {''resource_busy'', ''backend_unavailable'', ''rate_limited'', ''deadline_exceeded''}"
    by (auto simp: retryable_statuses)
  moreover have "trim_space s = s"
    if "s \<in> {''resource_busy'', ''backend_unavailable'', ''rate_limited'', ''deadline_exceeded''}" for s
    by (rule trim_space_plain) (use that in \<open>auto simp: code_def is_space_def\<close>)
  ultimately show ?thesis by auto
qed

text \<open>
  C17. An error response counts as retryable exactly if its body is a strict I-JSON document that
  decodes into an envelope with a message, a request id and the member retryable set to true, under
  one of the four retryable codes and the HTTP status of that code. A complete envelope that says
  retryable false, or leaves the member out, does not.
\<close>

theorem retry_needs_stable_envelope:
  "isPortableRetryable (Some (parseAPIError transform H now status data header)) \<longleftrightarrow>
     (\<exists>v b. trim_space data \<noteq> [] \<and> valid_utf8 data \<and> parseDocument data = Inr v \<and>
        transform data \<noteq> None \<and> dec_error_envelope v empty_body = Some b \<and>
        trim_space (eb_message b) \<noteq> [] \<and> trim_space (eb_requestId b) \<noteq> [] \<and> eb_retryable b = Some True \<and>
        (eb_code b, status) \<in> {(''resource_busy'', 409), (''backend_unavailable'', 503),
          (''rate_limited'', 429), (''deadline_exceeded'', 504)})"
proof -
  have "complete_envelope status b \<and> eb_retryable b = Some True \<longleftrightarrow>
      trim_space (eb_message b) \<noteq> [] \<and> trim_space (eb_requestId b) \<noteq> [] \<and> eb_retryable b = Some True \<and>
      isStableErrorEnvelope status (eb_code b) True" for b
    using auto_codes_nonblank [of status "eb_code b"] by (auto simp: complete_envelope_def)
  then show ?thesis unfolding portable_retry decoded_stable retryable_statuses [symmetric] by blast
qed

section \<open>Retry-After seconds\<close>

text \<open>
  A Retry-After of \<open>n\<close> seconds is waited for as written exactly up to 9223372036 seconds; any greater
  number that is still a 64-bit integer wraps around in the conversion to nanoseconds.
\<close>

theorem retry_after_exact:
  assumes "n < 2 ^ 63"
  shows "parseRetryAfter H now (decimal n) = int n * time_Second \<longleftrightarrow> n \<le> 9223372036"
proof -
  have "parseRetryAfter H now (decimal n) = wrap64 (int n * time_Second)"
    using assms by (intro retry_after_seconds) simp
  then show ?thesis by (auto simp: wrap64_eq time_Second_def)
qed

definition no_http_texts :: http_texts where
  "no_http_texts = \<lparr>ht_parse_time = \<lambda>_. None, ht_status_text = \<lambda>_. []\<rparr>"

theorem retry_after_exact_witness:
  "parseRetryAfter no_http_texts 0 (decimal 120) = int 120 * time_Second \<and>
   parseRetryAfter no_http_texts 0 (decimal 9223372037) \<noteq> int 9223372037 * time_Second"
  using retry_after_exact [of 120 no_http_texts 0] retry_after_exact [of 9223372037 no_http_texts 0] by simp

section \<open>Idempotency keys\<close>

text \<open>The text an incarnation key is the digest of.\<close>

definition key_message :: "bytes list \<Rightarrow> bytes" where
  "key_message vals = json_encode (VArr (map VStr vals))"

lemma key_message_inj:
  assumes "list_all valid_utf8 xs" and "list_all valid_utf8 ys" and "key_message xs = key_message ys"
  shows "xs = ys"
proof -
  have w: "wire_value (VArr (map VStr xs)) \<and> value_depth (VArr (map VStr xs)) \<le> 256"
    if "list_all valid_utf8 xs" for xs
  proof -
    have "wire_values (map VStr xs)" using that by (induction xs) auto
    moreover have "values_depth (map VStr xs) = 0" by (induction xs) auto
    ultimately show ?thesis by simp
  qed
  have "Inr (VArr (map VStr xs)) = (Inr (VArr (map VStr ys)) :: json_error + gval)"
    using json_round_trip w assms unfolding key_message_def by metis
  then have "map VStr xs = map VStr ys" by simp
  then show ?thesis by (rule list.inj_map_strong [rotated]) simp
qed

lemma hex_digit_inj: "a < 16 \<Longrightarrow> b < 16 \<Longrightarrow> hex_digit a = hex_digit b \<Longrightarrow> a = b"
  by (auto simp: hex_digit_def split: if_splits dest: arg_cong [of _ _ "of_char :: char \<Rightarrow> nat"])

lemma hex_encode_inj:
  "\<forall>b\<in>set xs. b < 256 \<Longrightarrow> \<forall>b\<in>set ys. b < 256 \<Longrightarrow> hex_encode xs = hex_encode ys \<Longrightarrow> xs = ys"
proof (induction xs arbitrary: ys)
  case Nil
  then show ?case by (cases ys) (auto simp: hex_encode_def)
next
  case (Cons x xs)
  then obtain y ys' where y: "ys = y # ys'" by (cases ys) (auto simp: hex_encode_def)
  with Cons.prems have d: "hex_digit (x div 16) = hex_digit (y div 16)" "hex_digit (x mod 16) = hex_digit (y mod 16)"
      "hex_encode xs = hex_encode ys'"
    by (simp_all add: hex_encode_def)
  have "x < 16 * 16" "y < 16 * 16" using Cons.prems y by auto
  then have b: "x div 16 < 16" "y div 16 < 16" by (auto dest: less_mult_imp_div_less)
  have "x div 16 = y div 16" by (rule hex_digit_inj [OF b d(1)])
  moreover have "x mod 16 = y mod 16" by (rule hex_digit_inj [OF _ _ d(2)]) simp_all
  ultimately have "x = y" by (metis div_mult_mod_eq)
  moreover have "xs = ys'" by (rule Cons.IH [OF _ _ d(3)]) (use Cons.prems y in simp_all)
  ultimately show ?case using y by simp
qed

lemma mutationKey_eq: "mutationKey xs = mutationKey ys \<longleftrightarrow> sha256 (key_message xs) = sha256 (key_message ys)"
  using hex_encode_inj [of "sha256 (key_message xs)" "sha256 (key_message ys)"] sha256_byte
  by (auto simp: mutationKey_def key_message_def)

text \<open>
  C18. Two lifecycle operations share an idempotency key only if they agree on the operation, the group,
  the kind, the name, the Space, the uid, the generation and the body digest, or if SHA-256 collides on
  two different key texts.
\<close>

theorem idempotency_key_separates:
  assumes "list_all valid_utf8 [operation, fr_apiVersion ref, fr_kind ref, name, space, uid, generation, body]"
    and "list_all valid_utf8 [operation', fr_apiVersion ref', fr_kind ref', name', space', uid', generation', body']"
  shows "incarnationKey operation ref name space uid generation body =
      incarnationKey operation' ref' name' space' uid' generation' body' \<longleftrightarrow>
    (operation, fr_apiVersion ref, fr_kind ref, name, space, uid, generation, body) =
      (operation', fr_apiVersion ref', fr_kind ref', name', space', uid', generation', body') \<or>
    (let m = key_message [operation, fr_apiVersion ref, fr_kind ref, name, space, uid, generation, body];
         m' = key_message [operation', fr_apiVersion ref', fr_kind ref', name', space', uid', generation', body'] in
     m \<noteq> m' \<and> sha256 m = sha256 m')"
proof -
  let ?xs = "[operation, fr_apiVersion ref, fr_kind ref, name, space, uid, generation, body]"
  let ?ys = "[operation', fr_apiVersion ref', fr_kind ref', name', space', uid', generation', body']"
  have "(operation, fr_apiVersion ref, fr_kind ref, name, space, uid, generation, body) =
      (operation', fr_apiVersion ref', fr_kind ref', name', space', uid', generation', body') \<longleftrightarrow> ?xs = ?ys"
    by simp
  moreover have "key_message ?xs = key_message ?ys \<Longrightarrow> ?xs = ?ys" by (rule key_message_inj [OF assms])
  ultimately show ?thesis unfolding incarnationKey_def mutationKey_eq Let_def by metis
qed

definition worker_ref :: form_ref where
  "worker_ref = \<lparr>fr_apiVersion = ''queue.example.net'', fr_kind = ''Worker'',
     fr_definitionVersion = ''1.0.0'', fr_schemaDigest = []\<rparr>"

lemma utf8_plain: "ascii_string s \<Longrightarrow> valid_utf8 s"
  by (rule valid_utf8_ascii)

theorem idempotency_key_separates_witness:
  "incarnationKey ''delete'' worker_ref ''app'' ''main'' ''u1'' ''1'' [] =
     incarnationKey ''delete'' worker_ref ''app'' ''main'' ''u2'' ''1'' [] \<longleftrightarrow>
   (let m = key_message [''delete'', ''queue.example.net'', ''Worker'', ''app'', ''main'', ''u1'', ''1'', []];
        m' = key_message [''delete'', ''queue.example.net'', ''Worker'', ''app'', ''main'', ''u2'', ''1'', []] in
    m \<noteq> m' \<and> sha256 m = sha256 m')"
proof -
  have "list_all valid_utf8 [''delete'', fr_apiVersion worker_ref, fr_kind worker_ref, ''app'', ''main'', u, ''1'', []]"
    if "u \<in> {''u1'', ''u2''}" for u
    using that by (auto intro!: utf8_plain simp: worker_ref_def code_def)
  from idempotency_key_separates [OF this this, of "''u1''" "''u2''"] show ?thesis
    by (simp add: worker_ref_def)
qed

text \<open>
  The key is said to hold the exact FormRef, but two versions of a form, with different definitions and
  schema digests, give an operation without a body the same key.
\<close>

lemma key_ignores_form_version:
  "incarnationKey operation (ref\<lparr>fr_definitionVersion := v, fr_schemaDigest := d\<rparr>) name space uid generation body =
     incarnationKey operation ref name space uid generation body"
  by (simp add: incarnationKey_def)

section \<open>Terminal errors\<close>

text \<open>The request id every terminal error must carry does not reach the caller.\<close>

lemma terminal_error_drops_request_id:
  assumes "op_error op = Some e"
  shows "\<exists>a. finalizeOperation op = (Some op, Some (Api a)) \<and> ae_code a = oe_code e \<and> ae_requestId a = []"
  using assms by (simp add: finalizeOperation_def)

text \<open>A \<^verbatim>\<open>null\<close> for \<^verbatim>\<open>done\<close> or \<^verbatim>\<open>retryable\<close> is read as false.\<close>

lemma raw_null_is_false: "rawBool ''null'' = Some False"
proof -
  have "parseDocument ''null'' = Inr VNull"
    using json_round_trip [of VNull] by simp
  then show ?thesis unfolding rawBool_def dec_bool_def by (rule Unmarshal_strict [THEN trans]) (rule gval.case)
qed

end
