(* ===== verification/HostSamples.thy ===== *)
theory HostSamples
  imports HostEnvelopes
begin

text \<open>
  A concrete host that answers every request with the same terminal Operation, and the polling
  guarantee applied to it.
\<close>

section \<open>Reading marshalled texts\<close>

definition plain_char :: "char \<Rightarrow> bool" where
  "plain_char ch \<longleftrightarrow> 32 \<le> code ch \<and> code ch < 128 \<and> code ch \<notin> {34, 38, 60, 62, 92}"

lemma encode_plain: "list_all plain_char s \<Longrightarrow> encode_chars s = s"
proof (induction s)
  case (Cons a s)
  then have "encode_chars (a # s) = escape_rune (code a) [a] @ s"
    by (simp add: encode_chars_def plain_char_def)
  with Cons.prems show ?case by (simp add: escape_rune_def plain_char_def)
qed (simp add: encode_chars_def)

lemma plain_utf8: "list_all plain_char s \<Longrightarrow> valid_utf8 s"
  by (intro valid_utf8_ascii) (auto simp: plain_char_def ascii_string_def list_all_iff)

lemma Unmarshal_encoded:
  "wire_value v \<Longrightarrow> value_depth v \<le> 256 \<Longrightarrow> Unmarshal (json_encode v) d zero = d v zero"
  by (rule Unmarshal_strict [OF json_round_trip])

lemma trim_space_not_blank:
  assumes "code c < 128" and "\<not> is_space (code c)"
  shows "trim_space (c # s) \<noteq> []"
proof -
  have "dropWhile (\<lambda>(r, _). is_space r) (rev (rune_chunks s) @ [(code c, [c])]) =
      dropWhile (\<lambda>(r, _). is_space r) (rev (rune_chunks s)) @ [(code c, [c])]"
    using assms(2) by (subst dropWhile_append3) auto
  with assms show ?thesis by (simp add: trim_space_def)
qed

section \<open>A terminal Operation\<close>

definition sample_record :: object where
  "sample_record =
     [(''apiVersion'', VStr OperationAPIVersion), (''kind'', VStr OperationKind), (''id'', VStr ''op_a''),
      (''done'', VBool True), (''result'', VObj [])]"

definition sample_text :: bytes where "sample_text = json_encode (VObj sample_record)"

definition sample_operation :: operation where
  "sample_operation = \<lparr>op_apiVersion = OperationAPIVersion, op_kind = OperationKind, op_id = ''op_a'',
     op_done = True, op_target = None, op_metadata = None, op_result = ''{}'', op_error = None\<rparr>"

definition sample_host :: host where
  "sample_host =
     \<lparr>h_reply = \<lambda>_ _. Reply \<lparr>rp_status = 200, rp_header = \<lambda>_. [], rp_contentLength = - 1,
        rp_body = Some sample_text\<rparr>,
      h_latency = \<lambda>_ _. 5, h_random = \<lambda>_ _. 0, h_tie = \<lambda>_. False,
      h_url = \<lambda>s. Some \<lparr>u_scheme = [], u_host = [], u_hostname = [], u_port = [], u_user = False,
        u_path = [], u_escaped = [], u_query = [], u_fragment = [], u_text = s\<rparr>,
      h_loopback = \<lambda>_. False, h_equal_fold = (=), h_texts = no_http_texts,
      h_libs = \<lparr>lib_transform = Some, lib_schemas = True, lib_schema_ok = \<lambda>_ _. True,
        lib_unicode = ascii_tables\<rparr>\<rparr>"

definition sample_client :: client where
  "sample_client = (NewWithOptions ''https://h'' [] 0 0)\<lparr>cl_apiBase := ''https://h/v1''\<rparr>"

lemma sample_plain:
  "list_all plain_char OperationAPIVersion" "list_all plain_char OperationKind" "list_all plain_char ''op_a''"
  "list_all plain_char ''apiVersion''" "list_all plain_char ''kind''" "list_all plain_char ''id''"
  "list_all plain_char ''done''" "list_all plain_char ''result''"
  by (simp_all add: plain_char_def code_def OperationAPIVersion_def OperationKind_def)

lemma sample_wire: "wire_value (VObj sample_record)" "value_depth (VObj sample_record) \<le> 256"
  by (simp_all add: sample_record_def sample_plain [THEN plain_utf8])

lemma poll_parse: "parseDocument sample_text = Inr (VObj sample_record)"
  unfolding sample_text_def by (rule json_round_trip [OF sample_wire])

lemma sample_raw:
  "raw_object sample_text =
     Some [(''apiVersion'', json_encode (VStr OperationAPIVersion)), (''kind'', json_encode (VStr OperationKind)),
       (''id'', json_encode (VStr ''op_a'')), (''done'', ''true''), (''result'', ''{}'')]"
  unfolding sample_text_def raw_object_encoded [OF sample_wire] by (simp add: member_texts_def sample_record_def)

lemma sample_root:
  "decode_root (h_transform sample_host) sample_text =
     Inr [(''apiVersion'', json_encode (VStr OperationAPIVersion)), (''kind'', json_encode (VStr OperationKind)),
       (''id'', json_encode (VStr ''op_a'')), (''done'', ''true''), (''result'', ''{}'')]"
proof -
  have "decodeStrictJSON (h_transform sample_host) sample_text (dec_raw_map sample_text) None =
      Inr (Some [(''apiVersion'', json_encode (VStr OperationAPIVersion)), (''kind'', json_encode (VStr OperationKind)),
       (''id'', json_encode (VStr ''op_a'')), (''done'', ''true''), (''result'', ''{}'')])"
    unfolding decodeStrictJSON_Inr
    by (rule exI [of _ "VObj sample_record"])
       (simp add: poll_parse parsed_utf8 [OF poll_parse] dec_raw_map_def sample_raw h_transform_def sample_host_def)
  then show ?thesis by (simp add: decode_root_def)
qed

lemma raw_strings:
  "list_all plain_char s \<Longrightarrow> rawString (json_encode (VStr s)) = Some s"
  unfolding rawString_def by (subst Unmarshal_encoded) (simp_all add: plain_utf8)

lemma raw_true: "rawBool ''true'' = Some True"
  unfolding rawBool_def dec_bool_def
  using Unmarshal_encoded [of "VBool True" "\<lambda>v old. case v of VNull \<Rightarrow> Some old | VBool b \<Rightarrow> Some b | _ \<Rightarrow> None" False]
  by simp

lemma raw_empty_object: "rawJSONObject ''{}''"
proof -
  have "trim_space ''{}'' = ''{}''"
    by (rule trim_space_plain) (auto simp: code_def is_space_def)
  then show ?thesis by (simp add: rawJSONObject_def)
qed

lemma sample_id: "rx_match operationIDPattern ''op_a''" by code_simp

lemma sample_wire_ok: "validateOperationWire (h_transform sample_host) sample_text False = None"
  unfolding validateOperationWire_def sample_root sum.case if_False validate_operation_object_def Let_def
  by (simp add: first_err_None closed_keys_def object_keys_agree resourceObjectKeys_None raw_at_def
      wire_string_def raw_strings [OF sample_plain(1)] raw_strings [OF sample_plain(2)]
      raw_strings [OF sample_plain(3)] sample_id raw_true optional_member_def raw_empty_object
      del: json_encode.simps rx_match.simps)

lemma poll_decoded: "dec_operation sample_text (VObj sample_record) empty_operation = Some sample_operation"
proof -
  have "unmarshal_raw_map sample_text =
      Some (Some [(''apiVersion'', json_encode (VStr OperationAPIVersion)), (''kind'', json_encode (VStr OperationKind)),
       (''id'', json_encode (VStr ''op_a'')), (''done'', ''true''), (''result'', ''{}'')])"
    unfolding unmarshal_raw_map_def Unmarshal_strict [OF poll_parse] dec_raw_map_def sample_raw gval.case by simp
  then have "last_text (raw_field (keys operation_fields) ''result'' sample_text) = ''{}''"
    by (simp add: raw_field_def raw_children_def operation_fields_def field_of_def last_text_def)
  then show ?thesis
    by (simp add: dec_operation_def dec_struct_def sample_record_def operation_fields_def member_def
        dec_bool_def dec_text_def empty_operation_def sample_operation_def)
qed

lemma sample_blank: "trim_space sample_text \<noteq> []"
  unfolding sample_text_def json_encode.simps
  by (rule trim_space_not_blank) (simp_all add: code_def is_space_def)

lemma sample_read: "read_operation sample_host ''op_a'' sample_text = Inr sample_operation"
proof -
  have "decodeBody sample_host sample_text (dec_operation sample_text) empty_operation = Inr sample_operation"
  proof -
    have "decodeStrictJSON (h_transform sample_host) sample_text (dec_operation sample_text) empty_operation =
        Inr sample_operation"
      unfolding decodeStrictJSON_Inr
      by (rule exI [of _ "VObj sample_record"])
         (simp add: poll_parse parsed_utf8 [OF poll_parse] poll_decoded h_transform_def sample_host_def)
    then show ?thesis by (simp add: decodeBody_def sample_blank)
  qed
  moreover have "validateOperation (Some sample_operation) = None"
    by (simp add: validateOperation_def sample_operation_def sample_id del: rx_match.simps)
  moreover have "op_id sample_operation = ''op_a''" by (simp add: sample_operation_def)
  ultimately show ?thesis by (simp add: read_operation_def sample_wire_ok)
qed

lemma sample_length: "length sample_text \<le> 200"
  by (simp add: sample_text_def sample_record_def encode_string_def sample_plain [THEN encode_plain])
     (simp add: OperationAPIVersion_def OperationKind_def)

lemma sample_finishes: "finishes sample_host sample_client ''op_a'' 0 5"
  using sample_length
  by (simp add: finishes_def sample_host_def maxResponseBodyBytes_def sample_read [unfolded sample_host_def]
      sample_operation_def)

definition sample_world :: world where "sample_world = \<lparr>w_now = 0, w_log = []\<rparr>"
definition sample_ctx :: ctx where "sample_ctx = \<lparr>cx_deadline = None, cx_cancel = None\<rparr>"

text \<open>A pending record of the same operation, as the mutation's answer gives it.\<close>

definition pending_operation :: operation where
  "pending_operation = sample_operation\<lparr>op_done := False, op_result := []\<rparr>"

theorem await_reaches_terminal_witness:
  "\<exists>t. op_done t \<and>
     fst (awaitOperation sample_host sample_client sample_ctx pending_operation 0 0 sample_world) =
       finalizeOperation t"
proof (rule await_reaches_terminal [of _ _ _ 0 5])
  have [simp]: "op_id pending_operation = ''op_a''"
    by (simp add: pending_operation_def sample_operation_def)
  show "finishes sample_host sample_client (op_id pending_operation) 0 5" by (simp add: sample_finishes)
  show "rx_match operationIDPattern (op_id pending_operation)" by (simp add: sample_id del: rx_match.simps)
  show "fair_random sample_host" by (simp add: fair_random_def sample_host_def)
qed (simp_all add: sample_client_def sample_host_def sample_ctx_def sample_world_def poll_deadline_def
      NewWithOptions_def defaultOverallDeadline_def pollMaxDelay_def time_Second_def)

end
