(* ===== verification/StandardService.thy ===== *)
theory StandardService
  imports PublicationIdentity
begin

text \<open>
  \<^verbatim>\<open>formpackage/standard_service.go\<close>: standard service identities and a host's support answer.
\<close>

definition LegacyStandardServiceAPIVersion :: bytes where "LegacyStandardServiceAPIVersion = ''standards.takoform.com/v1alpha1''"
definition StandardServiceAPIVersion :: bytes where "StandardServiceAPIVersion = ''standards.takoform.com/v1''"
definition StandardServiceSupportAPIVersion :: bytes where "StandardServiceSupportAPIVersion = ''support.takoform.com/v1''"

definition rx_dot_label :: rx where
  "rx_dot_label = Seq (chr CHR ''.'') rx_label"

definition PatternStandardServiceProtocol :: rx where
  "PatternStandardServiceProtocol = seqs [rx_label, rx_dot_label, rx_dot_label, Star rx_dot_label]"

definition StandardServiceProtocolMaxLength :: nat where
  "StandardServiceProtocolMaxLength = 253"

record standard_service_ref =
  ss_apiVersion :: bytes
  ss_protocol :: bytes

datatype standard_service_error = ServiceAPIVersion | ServiceProtocolLength | ServiceProtocolPattern

definition ValidateStandardServiceRef :: "standard_service_ref \<Rightarrow> standard_service_error option" where
  "ValidateStandardServiceRef ref =
     (if ss_apiVersion ref \<noteq> StandardServiceAPIVersion then Some ServiceAPIVersion
      else if rune_count (ss_protocol ref) > StandardServiceProtocolMaxLength then Some ServiceProtocolLength
      else if \<not> rx_match PatternStandardServiceProtocol (ss_protocol ref) then Some ServiceProtocolPattern
      else None)"

datatype standard_support_error =
    SupportRef standard_service_error | SupportAPIVersion | SupportKind | SupportOmitsRef
  | SupportAnswered standard_service_error | SupportDifferentRef | SupportOmitsSatisfiable

definition ValidateStandardServiceSupport ::
  "standard_service_ref \<Rightarrow> object \<Rightarrow> standard_support_error + bool" where
  "ValidateStandardServiceSupport ref profile =
     (case ValidateStandardServiceRef ref of
        Some e \<Rightarrow> Inl (SupportRef e)
      | None \<Rightarrow>
          if str_member profile ''apiVersion'' \<noteq> StandardServiceSupportAPIVersion then Inl SupportAPIVersion
          else if str_member profile ''kind'' \<noteq> ''StandardServiceSupport'' then Inl SupportKind
          else (case as_obj (field profile ''serviceRef'') of
                  None \<Rightarrow> Inl SupportOmitsRef
                | Some rawRef \<Rightarrow>
                    (let answered = \<lparr>ss_apiVersion = str_member rawRef ''apiVersion'',
                                     ss_protocol = str_member rawRef ''protocol''\<rparr> in
                     case ValidateStandardServiceRef answered of
                       Some e \<Rightarrow> Inl (SupportAnswered e)
                     | None \<Rightarrow>
                         if answered \<noteq> ref then Inl SupportDifferentRef
                         else (case as_bool (field profile ''satisfiable'') of
                                 None \<Rightarrow> Inl SupportOmitsSatisfiable
                               | Some b \<Rightarrow> Inr b))))"

lemma lang_Seq_I: "w = s @ t \<Longrightarrow> s \<in> lang r \<Longrightarrow> t \<in> lang q \<Longrightarrow> w \<in> lang (Seq r q)"
  by auto

lemma label_no_dot: "s \<in> lang rx_label \<Longrightarrow> CHR ''.'' \<notin> set s"
  using lang_chars [of s rx_label] by (fastforce simp: pattern_defs in_cls_def in_range_def code_def)

lemma lang_dot_label: "s \<in> lang rx_dot_label \<longleftrightarrow> (\<exists>t\<in>lang rx_label. s = CHR ''.'' # t)"
  by (auto simp: rx_dot_label_def lang_chr)

abbreviation dotted :: "bytes list \<Rightarrow> bytes" where
  "dotted ts \<equiv> concat (map (\<lambda>t. CHR ''.'' # t) ts)"

lemma lang_dot_labels: "s \<in> star_set (lang rx_dot_label) \<longleftrightarrow> (\<exists>ts. set ts \<subseteq> lang rx_label \<and> s = dotted ts)"
proof
  assume "s \<in> star_set (lang rx_dot_label)"
  then show "\<exists>ts. set ts \<subseteq> lang rx_label \<and> s = dotted ts"
  proof induction
    case (star_step s t)
    then obtain u ts where "u \<in> lang rx_label" "s = CHR ''.'' # u" "set ts \<subseteq> lang rx_label" "t = dotted ts"
      by (auto simp: lang_dot_label)
    then show ?case by (intro exI [of _ "u # ts"]) simp
  qed (rule exI [of _ "[]"], simp)
next
  assume "\<exists>ts. set ts \<subseteq> lang rx_label \<and> s = dotted ts"
  then obtain ts where "set ts \<subseteq> lang rx_label" "s = dotted ts" by auto
  then show "s \<in> star_set (lang rx_dot_label)"
  proof (induction ts arbitrary: s)
    case (Cons t ts)
    then have "CHR ''.'' # t \<in> lang rx_dot_label" by (auto simp: lang_dot_label)
    from star_step [OF this Cons.IH [OF _ refl]] Cons.prems show ?case by simp
  qed (simp add: star_Nil)
qed

lemma split_dotted:
  "CHR ''.'' \<notin> set x \<Longrightarrow> \<forall>t\<in>set ts. CHR ''.'' \<notin> set t \<Longrightarrow> split_on CHR ''.'' (x @ dotted ts) = x # ts"
  by (induction ts arbitrary: x) (simp_all add: split_on_no_sep split_on_append_sep)

lemma join_dotted: "join_with ''.'' (x # ts) = x @ dotted ts"
  by (induction ts arbitrary: x) simp_all

lemma protocol_labels:
  "rx_match PatternStandardServiceProtocol s \<longleftrightarrow>
     3 \<le> length (split_on CHR ''.'' s) \<and> list_all (rx_match rx_label) (split_on CHR ''.'' s)"
proof
  assume "rx_match PatternStandardServiceProtocol s"
  then obtain x a b ts where labels: "x \<in> lang rx_label" "a \<in> lang rx_label" "b \<in> lang rx_label"
      "set ts \<subseteq> lang rx_label" and s: "s = x @ dotted (a # b # ts)"
    by (auto simp: rx_match_lang PatternStandardServiceProtocol_def lang_dot_label lang_dot_labels)
  then have "split_on CHR ''.'' s = x # a # b # ts"
    unfolding s using label_no_dot by (intro split_dotted) auto
  with labels show "3 \<le> length (split_on CHR ''.'' s) \<and> list_all (rx_match rx_label) (split_on CHR ''.'' s)"
    by (auto simp: rx_match_lang list_all_iff)
next
  assume "3 \<le> length (split_on CHR ''.'' s) \<and> list_all (rx_match rx_label) (split_on CHR ''.'' s)"
  then obtain x a b ts where split: "split_on CHR ''.'' s = x # a # b # ts"
      and labels: "set (x # a # b # ts) \<subseteq> lang rx_label"
    by (auto simp: numeral_eq_Suc Suc_le_length_iff rx_match_lang list_all_iff subset_iff)
  have "s = x @ (CHR ''.'' # a) @ (CHR ''.'' # b) @ dotted ts"
    using join_split [of "CHR ''.''" s] by (simp add: split join_dotted)
  moreover have "CHR ''.'' # a \<in> lang rx_dot_label" "CHR ''.'' # b \<in> lang rx_dot_label"
      "dotted ts \<in> lang (Star rx_dot_label)"
    using labels by (auto simp: lang_dot_label lang_dot_labels)
  ultimately show "rx_match PatternStandardServiceProtocol s"
    unfolding rx_match_lang PatternStandardServiceProtocol_def seqs.simps
    using labels by (elim lang_Seq_I [OF _ _ lang_Seq_I [OF refl _ lang_Seq_I [OF refl]]]) auto
qed

lemma service_ref_exact:
  "ValidateStandardServiceRef ref = None \<longleftrightarrow>
     ss_apiVersion ref = StandardServiceAPIVersion \<and> rune_count (ss_protocol ref) \<le> 253 \<and>
     3 \<le> length (split_on CHR ''.'' (ss_protocol ref)) \<and>
     list_all (rx_match rx_label) (split_on CHR ''.'' (ss_protocol ref))"
  by (auto simp: ValidateStandardServiceRef_def StandardServiceProtocolMaxLength_def protocol_labels)

lemma str_member_iff: "s \<noteq> [] \<Longrightarrow> str_member m k = s \<longleftrightarrow> field m k = VStr s"
  by (auto simp: str_member_def split: gval.splits)

lemma support_exact:
  assumes "ValidateStandardServiceRef ref = None"
  shows "ValidateStandardServiceSupport ref profile = Inr b \<longleftrightarrow>
     field profile ''apiVersion'' = VStr StandardServiceSupportAPIVersion \<and>
     field profile ''kind'' = VStr ''StandardServiceSupport'' \<and>
     field profile ''satisfiable'' = VBool b \<and>
     (case field profile ''serviceRef'' of
        VObj r \<Rightarrow> field r ''apiVersion'' = VStr (ss_apiVersion ref) \<and> field r ''protocol'' = VStr (ss_protocol ref)
      | _ \<Rightarrow> False)"
proof (cases "field profile ''serviceRef''")
  case (VObj r)
  have "ss_apiVersion ref \<noteq> [] \<and> ss_protocol ref \<noteq> []"
    using assms by (auto simp: ValidateStandardServiceRef_def StandardServiceAPIVersion_def protocol_labels
      split: if_splits)
  then have same: "\<lparr>ss_apiVersion = str_member r ''apiVersion'', ss_protocol = str_member r ''protocol''\<rparr> = ref \<longleftrightarrow>
      field r ''apiVersion'' = VStr (ss_apiVersion ref) \<and> field r ''protocol'' = VStr (ss_protocol ref)"
    using str_member_iff by (cases ref) auto
  have "ValidateStandardServiceSupport ref profile = Inr b \<longleftrightarrow>
      str_member profile ''apiVersion'' = StandardServiceSupportAPIVersion \<and>
      str_member profile ''kind'' = ''StandardServiceSupport'' \<and>
      field profile ''satisfiable'' = VBool b \<and>
      \<lparr>ss_apiVersion = str_member r ''apiVersion'', ss_protocol = str_member r ''protocol''\<rparr> = ref"
    (is "_ = (_ \<and> _ \<and> _ \<and> ?answered = ref)")
    using assms by (cases "?answered = ref"; cases "ValidateStandardServiceRef ?answered")
      (auto simp: ValidateStandardServiceSupport_def VObj split: option.splits)
  then show ?thesis
    by (simp add: VObj same str_member_iff StandardServiceSupportAPIVersion_def)
qed (auto simp: ValidateStandardServiceSupport_def assms)

text \<open>
  A standard service identity is valid precisely when it names the stable version and its
  protocol is at least three dot-separated labels within the length limit; a support answer is
  accepted with decision \<open>b\<close> precisely when the identity asked for is valid and the answer is
  the stable envelope for that exact identity with that boolean decision.
\<close>
theorem standard_service_exact:
  "(ValidateStandardServiceRef ref = None) =
     (ss_apiVersion ref = StandardServiceAPIVersion \<and> rune_count (ss_protocol ref) \<le> 253 \<and>
      3 \<le> length (split_on CHR ''.'' (ss_protocol ref)) \<and>
      list_all (rx_match rx_label) (split_on CHR ''.'' (ss_protocol ref))) \<and>
   (ValidateStandardServiceSupport ref profile = Inr b) =
     (ValidateStandardServiceRef ref = None \<and>
      field profile ''apiVersion'' = VStr StandardServiceSupportAPIVersion \<and>
      field profile ''kind'' = VStr ''StandardServiceSupport'' \<and>
      field profile ''satisfiable'' = VBool b \<and>
      (case field profile ''serviceRef'' of
         VObj r \<Rightarrow> field r ''apiVersion'' = VStr (ss_apiVersion ref) \<and> field r ''protocol'' = VStr (ss_protocol ref)
       | _ \<Rightarrow> False))"
proof (intro conjI service_ref_exact)
  show "(ValidateStandardServiceSupport ref profile = Inr b) =
     (ValidateStandardServiceRef ref = None \<and>
      field profile ''apiVersion'' = VStr StandardServiceSupportAPIVersion \<and>
      field profile ''kind'' = VStr ''StandardServiceSupport'' \<and>
      field profile ''satisfiable'' = VBool b \<and>
      (case field profile ''serviceRef'' of
         VObj r \<Rightarrow> field r ''apiVersion'' = VStr (ss_apiVersion ref) \<and> field r ''protocol'' = VStr (ss_protocol ref)
       | _ \<Rightarrow> False))"
    using support_exact [of ref profile b]
    by (cases "ValidateStandardServiceRef ref") (simp_all add: ValidateStandardServiceSupport_def)
qed

end
