(* ===== verification/HostSupport.thy ===== *)
theory HostSupport
  imports HostResources StandardService
begin

text \<open>
  Host support profiles: \<^verbatim>\<open>hostclient/support.go\<close>. A profile is loosely typed JSON under a closed
  identity; what a client may rely on is that every profile a call returns passed
  \<open>validateSupportProfile\<close> and names the contract that was asked for. The first half is the
  validation, in the order of its checks; then come the calls. What a profile means without an
  order of checks, and what the calls return, is in \<open>HostSupportProofs\<close>.
\<close>

section \<open>Vocabulary\<close>

definition SupportProfileAPIVersion :: bytes where
  "SupportProfileAPIVersion = ''support.takoform.com/v1''"

definition supportProfileKinds :: "bytes list" where
  "supportProfileKinds = [''FormSupport'', ''InterfaceSupport'', ''BindingSupport'', ''StandardServiceSupport'']"

definition rx_lower_word :: rx where
  "rx_lower_word = Seq (Cls [c_lower]) (Star (Cls [c_lower, c_digit]))"

definition supportProfileNamePattern :: rx where
  "supportProfileNamePattern = Seq rx_lower_word (Star (Seq (chr CHR ''.'') rx_lower_word))"

definition supportProfileBindingName :: rx where
  "supportProfileBindingName =
     Seq rx_lower_word (Star (Seq (Cls [(CHR ''.'', CHR ''.''), c_dash]) rx_lower_word))"

definition supportProfileSemver :: rx where
  "supportProfileSemver = rx_semver"

definition supportProfileBindingNameVersion :: rx where
  "supportProfileBindingNameVersion = seqs [supportProfileBindingName, chr CHR ''@'', rx_semver]"

definition supportProfileOperations :: "bytes list" where
  "supportProfileOperations = [''create'', ''read'', ''update'', ''delete'', ''import'', ''observe'']"

definition supportProfileKeys :: "bytes list" where
  "supportProfileKeys =
     [''apiVersion'', ''kind'', ''formRef'', ''interfaceRef'', ''bindingRef'', ''operations'',
      ''supportedEnums'', ''supportedRanges'', ''supportedBindings'', ''limits'', ''serviceRef'',
      ''satisfiable'']"

datatype key_problem = KeyMissing bytes | KeyUnknown bytes

datatype profile_error =
    ProfileUnknownField bytes | ProfileAPIVersion | ProfileKind bytes
  | ProfileOmits bytes | ProfileForbids bytes | ProfileRefNotObject bytes
  | ProfileRefKeys bytes key_problem | ProfileFormRef identity_error | ProfileInterfaceRef
  | ProfileBindingRef | ProfileServiceRef standard_service_error | ProfileSatisfiable
  | OperationsNotArray | OperationNotString | OperationUnknown bytes | OperationRepeated bytes
  | CapabilityNotObject bytes | CapabilityPointer bytes bytes
  | EnumNotStrings bytes | EnumEntry bytes | EnumRepeated bytes bytes
  | RangeNotObject bytes | RangeBound bytes bytes | RangeBoundType bytes bytes
  | BindingsNotStrings | BindingEntry | BindingRepeated bytes
  | LimitNotNumber bytes | LimitOutOfRange bytes

section \<open>Validation\<close>

definition exactObjectKeys :: "object \<Rightarrow> bytes list \<Rightarrow> key_problem option" where
  "exactObjectKeys m required =
     (case List.find (\<lambda>k. \<not> has_key m k) required of
        Some k \<Rightarrow> Some (KeyMissing k)
      | None \<Rightarrow> map_option KeyUnknown (List.find (\<lambda>k. k \<notin> set required) (keys m)))"

definition validateSupportFormRef :: "libs \<Rightarrow> object \<Rightarrow> profile_error option" where
  "validateSupportFormRef L m =
     first_err
       [map_option (ProfileRefKeys ''formRef'')
          (exactObjectKeys m [''apiVersion'', ''kind'', ''definitionVersion'', ''schemaDigest'']),
        map_option ProfileFormRef (ValidateStableFormRef L
          \<lparr>fr_apiVersion = str_member m ''apiVersion'', fr_kind = str_member m ''kind'',
           fr_definitionVersion = str_member m ''definitionVersion'',
           fr_schemaDigest = str_member m ''schemaDigest''\<rparr>)]"

definition contract_ref_keys :: "bytes list" where
  "contract_ref_keys = [''apiVersion'', ''name'', ''version'', ''schemaDigest'']"

definition contract_ref_ok :: "bytes \<Rightarrow> rx \<Rightarrow> object \<Rightarrow> bool" where
  "contract_ref_ok apiVersion names m \<longleftrightarrow>
     str_member m ''apiVersion'' = apiVersion \<and> length (str_member m ''name'') \<le> 128 \<and>
     rx_match names (str_member m ''name'') \<and>
     rx_match supportProfileSemver (str_member m ''version'') \<and>
     ValidDigest (str_member m ''schemaDigest'')"

definition validateSupportInterfaceRef :: "object \<Rightarrow> profile_error option" where
  "validateSupportInterfaceRef m =
     first_err
       [map_option (ProfileRefKeys ''interfaceRef'') (exactObjectKeys m contract_ref_keys),
        guard_err (contract_ref_ok ''interfaces.takoform.com/v1alpha1'' supportProfileNamePattern m)
          ProfileInterfaceRef]"

definition validateSupportBindingRef :: "object \<Rightarrow> profile_error option" where
  "validateSupportBindingRef m =
     first_err
       [map_option (ProfileRefKeys ''bindingRef'') (exactObjectKeys m contract_ref_keys),
        guard_err (contract_ref_ok ''bindings.takoform.com/v1alpha2'' supportProfileBindingName m)
          ProfileBindingRef]"

definition validateSupportServiceRef :: "object \<Rightarrow> profile_error option" where
  "validateSupportServiceRef m =
     first_err
       [map_option (ProfileRefKeys ''serviceRef'') (exactObjectKeys m [''apiVersion'', ''protocol'']),
        map_option ProfileServiceRef (ValidateStandardServiceRef
          \<lparr>ss_apiVersion = str_member m ''apiVersion'', ss_protocol = str_member m ''protocol''\<rparr>)]"

text \<open>Each reference member with the one profile kind that carries it.\<close>

definition support_refs :: "(bytes \<times> bytes) list" where
  "support_refs =
     [(''formRef'', ''FormSupport''), (''interfaceRef'', ''InterfaceSupport''),
      (''bindingRef'', ''BindingSupport''), (''serviceRef'', ''StandardServiceSupport'')]"

definition validate_support_ref :: "libs \<Rightarrow> bytes \<Rightarrow> object \<Rightarrow> profile_error option" where
  "validate_support_ref L key m =
     (if key = ''formRef'' then validateSupportFormRef L m
      else if key = ''interfaceRef'' then validateSupportInterfaceRef m
      else if key = ''bindingRef'' then validateSupportBindingRef m
      else if key = ''serviceRef'' then validateSupportServiceRef m
      else None)"

definition check_support_ref ::
  "libs \<Rightarrow> object \<Rightarrow> bytes \<Rightarrow> bytes \<times> bytes \<Rightarrow> profile_error option" where
  "check_support_ref L profile kind entry =
     (case entry of (key, needs) \<Rightarrow>
        if kind = needs \<and> \<not> has_key profile key then Some (ProfileOmits key)
        else if kind \<noteq> needs \<and> has_key profile key then Some (ProfileForbids key)
        else if \<not> has_key profile key then None
        else (case as_obj (field profile key) of
                None \<Rightarrow> Some (ProfileRefNotObject key)
              | Some m \<Rightarrow> validate_support_ref L key m))"

definition check_satisfiable :: "object \<Rightarrow> bytes \<Rightarrow> profile_error option" where
  "check_satisfiable profile kind =
     (if kind = ''StandardServiceSupport'' then
        first_err
          [guard_err (\<not> has_key profile ''operations'') (ProfileForbids ''operations''),
           guard_err (has_key profile ''satisfiable'') (ProfileOmits ''satisfiable''),
           guard_err (as_bool (field profile ''satisfiable'') \<noteq> None) ProfileSatisfiable]
      else guard_err (\<not> has_key profile ''satisfiable'') (ProfileForbids ''satisfiable''))"

definition validateSupportProfileRefs :: "libs \<Rightarrow> object \<Rightarrow> bytes \<Rightarrow> profile_error option" where
  "validateSupportProfileRefs L profile kind =
     first_err (map (check_support_ref L profile kind) support_refs @ [check_satisfiable profile kind])"

text \<open>
  The loops over an array of strings without repeats: \<open>read\<close> is the check of one entry, \<open>seen\<close>
  what came before it.
\<close>

fun each_unique :: "('a \<Rightarrow> 'e + bytes) \<Rightarrow> (bytes \<Rightarrow> 'e) \<Rightarrow> bytes list \<Rightarrow> 'a list \<Rightarrow> 'e option" where
  "each_unique read repeated seen [] = None"
| "each_unique read repeated seen (x # xs) =
     (case read x of
        Inl e \<Rightarrow> Some e
      | Inr s \<Rightarrow>
          if List.member seen s then Some (repeated s)
          else each_unique read repeated (s # seen) xs)"

definition read_operation_name :: "gval \<Rightarrow> profile_error + bytes" where
  "read_operation_name raw =
     (case as_str raw of
        None \<Rightarrow> Inl OperationNotString
      | Some s \<Rightarrow> if \<not> List.member supportProfileOperations s then Inl (OperationUnknown s) else Inr s)"

definition validateSupportProfileOperations :: "object \<Rightarrow> profile_error option" where
  "validateSupportProfileOperations profile =
     (if \<not> has_key profile ''operations'' then
        guard_err (field profile ''kind'' \<noteq> VStr ''FormSupport'') (ProfileOmits ''operations'')
      else (case as_arr (field profile ''operations'') of
              None \<Rightarrow> Some OperationsNotArray
            | Some ops \<Rightarrow> each_unique read_operation_name OperationRepeated [] ops))"

definition validateSupportPointer :: "bytes \<Rightarrow> bool" where
  "validateSupportPointer pointer \<longleftrightarrow>
     rune_count pointer \<le> 512 \<and> has_prefix pointer ''/'' \<and> CHR 0x00 \<notin> set pointer"

definition isSupportRangeValue :: "gval \<Rightarrow> bool" where
  "isSupportRangeValue v =
     (case v of VStr _ \<Rightarrow> True | VNumber n \<Rightarrow> parse_int64 n \<noteq> None | _ \<Rightarrow> False)"

definition read_enum_entry :: "bytes \<Rightarrow> gval \<Rightarrow> profile_error + bytes" where
  "read_enum_entry pointer v =
     (case as_str v of
        None \<Rightarrow> Inl (EnumEntry pointer)
      | Some s \<Rightarrow> if rune_count s > 128 then Inl (EnumEntry pointer) else Inr s)"

definition check_enum :: "bytes \<times> gval \<Rightarrow> profile_error option" where
  "check_enum entry =
     (case entry of (pointer, raw) \<Rightarrow>
        if \<not> validateSupportPointer pointer then Some (CapabilityPointer ''supportedEnums'' pointer)
        else (case as_arr raw of
                None \<Rightarrow> Some (EnumNotStrings pointer)
              | Some vals \<Rightarrow>
                  if vals = [] then Some (EnumNotStrings pointer)
                  else each_unique (read_enum_entry pointer) (EnumRepeated pointer) [] vals))"

definition check_range :: "bytes \<times> gval \<Rightarrow> profile_error option" where
  "check_range entry =
     (case entry of (pointer, raw) \<Rightarrow>
        if \<not> validateSupportPointer pointer then Some (CapabilityPointer ''supportedRanges'' pointer)
        else (case as_obj raw of
                None \<Rightarrow> Some (RangeNotObject pointer)
              | Some bounds \<Rightarrow>
                  first_err (map (\<lambda>(key, bound).
                    if key \<noteq> ''minimum'' \<and> key \<noteq> ''maximum'' then Some (RangeBound pointer key)
                    else guard_err (isSupportRangeValue bound) (RangeBoundType pointer key)) bounds)))"

definition read_binding_entry :: "gval \<Rightarrow> profile_error + bytes" where
  "read_binding_entry raw =
     (case as_str raw of
        None \<Rightarrow> Inl BindingEntry
      | Some s \<Rightarrow>
          if length s > 256 \<or> \<not> rx_match supportProfileBindingNameVersion s then Inl BindingEntry
          else Inr s)"

definition check_bindings :: "gval \<Rightarrow> profile_error option" where
  "check_bindings raw =
     (case as_arr raw of
        None \<Rightarrow> Some BindingsNotStrings
      | Some entries \<Rightarrow>
          if length entries > 256 then Some BindingsNotStrings
          else each_unique read_binding_entry BindingRepeated [] entries)"

definition check_limit :: "bytes \<times> gval \<Rightarrow> profile_error option" where
  "check_limit entry =
     (case entry of (pointer, raw) \<Rightarrow>
        if \<not> validateSupportPointer pointer then Some (CapabilityPointer ''limits'' pointer)
        else (case as_number raw of
                None \<Rightarrow> Some (LimitNotNumber pointer)
              | Some n \<Rightarrow>
                  (case parse_int64 n of
                     None \<Rightarrow> Some (LimitOutOfRange pointer)
                   | Some i \<Rightarrow>
                       if i < 0 \<or> i > 2 ^ 53 - 1 then Some (LimitOutOfRange pointer) else None)))"

text \<open>An optional object whose entries are checked one by one.\<close>

definition check_entries ::
  "object \<Rightarrow> bytes \<Rightarrow> (bytes \<times> gval \<Rightarrow> profile_error option) \<Rightarrow> profile_error option" where
  "check_entries profile key check =
     (if \<not> has_key profile key then None
      else (case as_obj (field profile key) of
              None \<Rightarrow> Some (CapabilityNotObject key)
            | Some m \<Rightarrow> first_err (map check m)))"

definition validateSupportProfileCapabilities :: "object \<Rightarrow> profile_error option" where
  "validateSupportProfileCapabilities profile =
     first_err
       [check_entries profile ''supportedEnums'' check_enum,
        check_entries profile ''supportedRanges'' check_range,
        (if has_key profile ''supportedBindings'' then check_bindings (field profile ''supportedBindings'')
         else None),
        check_entries profile ''limits'' check_limit]"

definition validateSupportProfile :: "libs \<Rightarrow> object \<Rightarrow> profile_error option" where
  "validateSupportProfile L profile =
     (let kind = str_member profile ''kind'' in
      first_err
        [map_option ProfileUnknownField
           (List.find (\<lambda>k. \<not> List.member supportProfileKeys k) (keys profile)),
         guard_err (str_member profile ''apiVersion'' = SupportProfileAPIVersion) ProfileAPIVersion,
         guard_err (List.member supportProfileKinds kind) (ProfileKind kind),
         validateSupportProfileRefs L profile kind,
         validateSupportProfileOperations profile,
         validateSupportProfileCapabilities profile])"

section \<open>The calls\<close>

datatype support_error =
    SupportCall host_error | SupportProfile profile_error | SupportIdentity identity_error
  | SupportService standard_service_error | SupportAnswer standard_support_error
  | SupportOmitsProfiles | SupportTooManyProfiles | SupportNoName
  | SupportOtherKind bytes | SupportOmitsReference bytes | SupportOtherContract
  | SupportOtherForm | SupportOtherDefinition

type_synonym 'a support_io = "(world, support_error, 'a) action"

definition dec_profiles :: "object option list option decoder" where
  "dec_profiles = dec_struct True [(''profiles'', dec_nil_slice (dec_map True) None)]"

definition support_get :: "host \<Rightarrow> client \<Rightarrow> ctx \<Rightarrow> bytes \<Rightarrow> bytes support_io" where
  "support_get H C c fullURL =
     via SupportCall (bind_io (do_request H C c ''GET'' fullURL [] None False [200])
       (\<lambda>(_, _, data). return_io data))"

definition ListFormSupport :: "host \<Rightarrow> client \<Rightarrow> ctx \<Rightarrow> object list support_io" where
  "ListFormSupport H C c =
     check_io (map_option SupportCall (requireReady C))
       (bind_io (support_get H C c (cl_apiBase C @ ''/support/forms''))
         (\<lambda>data.
            lift_io (map_sum SupportCall id (decodeBody H data dec_profiles None))
              (\<lambda>profiles.
                 case profiles of
                   None \<Rightarrow> fail_io SupportOmitsProfiles
                 | Some ps \<Rightarrow>
                     check_io (guard_err (length ps \<le> 1024) SupportTooManyProfiles)
                       (check_io (first_err (map (\<lambda>p. map_option SupportProfile
                            (validateSupportProfile (h_libs H) (map_of_nil p))) ps))
                         (return_io (map map_of_nil ps))))))"

text \<open>One profile, read and validated.\<close>

definition read_profile :: "host \<Rightarrow> client \<Rightarrow> ctx \<Rightarrow> bytes \<Rightarrow> object support_io" where
  "read_profile H C c fullURL =
     bind_io (support_get H C c fullURL)
       (\<lambda>data.
          lift_io (map_sum SupportCall id (decodeBody H data (dec_map True) None))
            (\<lambda>decoded.
               check_io (map_option SupportProfile (validateSupportProfile (h_libs H) (map_of_nil decoded)))
                 (return_io (map_of_nil decoded))))"

definition contractSupport ::
  "host \<Rightarrow> client \<Rightarrow> ctx \<Rightarrow> bytes \<Rightarrow> bytes \<Rightarrow> bytes \<Rightarrow> bytes \<Rightarrow> bytes \<Rightarrow> object support_io" where
  "contractSupport H C c route kind refKey name version =
     check_io (map_option SupportCall (requireReady C))
       (check_io (guard_err (trim_space name \<noteq> [] \<and> trim_space version \<noteq> []) SupportNoName)
         (bind_io (read_profile H C c
              (cl_apiBase C @ ''/support/'' @ route @ ''/'' @ PathEscape name @ ''/'' @ PathEscape version))
           (\<lambda>profile.
              check_io (guard_err (str_member profile ''kind'' = kind)
                  (SupportOtherKind (str_member profile ''kind'')))
                (case as_obj (field profile refKey) of
                   None \<Rightarrow> fail_io (SupportOmitsReference refKey)
                 | Some r \<Rightarrow>
                     check_io (guard_err (str_member r ''name'' = name \<and> str_member r ''version'' = version)
                         SupportOtherContract)
                       (return_io profile)))))"

definition GetInterfaceSupport :: "host \<Rightarrow> client \<Rightarrow> ctx \<Rightarrow> bytes \<Rightarrow> bytes \<Rightarrow> object support_io" where
  "GetInterfaceSupport H C c name version =
     contractSupport H C c ''interfaces'' ''InterfaceSupport'' ''interfaceRef'' name version"

definition GetBindingSupport :: "host \<Rightarrow> client \<Rightarrow> ctx \<Rightarrow> bytes \<Rightarrow> bytes \<Rightarrow> object support_io" where
  "GetBindingSupport H C c name version =
     contractSupport H C c ''bindings'' ''BindingSupport'' ''bindingRef'' name version"

definition GetStandardServiceSupport :: "host \<Rightarrow> client \<Rightarrow> ctx \<Rightarrow> bytes \<Rightarrow> object support_io" where
  "GetStandardServiceSupport H C c protocol =
     (let ref = \<lparr>ss_apiVersion = StandardServiceAPIVersion, ss_protocol = protocol\<rparr> in
      check_io (map_option SupportService (ValidateStandardServiceRef ref))
        (check_io (map_option SupportCall (requireReady C))
          (bind_io (read_profile H C c (cl_apiBase C @ ''/support/standard-services/'' @ PathEscape protocol))
            (\<lambda>profile.
               lift_io (map_sum SupportAnswer id (ValidateStandardServiceSupport ref profile))
                 (\<lambda>_. return_io profile)))))"

definition check_form_profile :: "form_ref \<Rightarrow> object \<Rightarrow> support_error option" where
  "check_form_profile ref profile =
     (case as_obj (field profile ''formRef'') of
        None \<Rightarrow> None
      | Some m \<Rightarrow>
          first_err
            [guard_err (str_member m ''apiVersion'' = fr_apiVersion ref \<and> str_member m ''kind'' = fr_kind ref \<and>
                str_member m ''definitionVersion'' = fr_definitionVersion ref) SupportOtherForm,
             guard_err (str_member m ''schemaDigest'' = [] \<or>
                str_member m ''schemaDigest'' = fr_schemaDigest ref) SupportOtherDefinition])"

definition GetFormSupport :: "host \<Rightarrow> client \<Rightarrow> ctx \<Rightarrow> form_ref \<Rightarrow> object support_io" where
  "GetFormSupport H C c ref =
     check_io (map_option SupportCall (requireReady C))
       (check_io (map_option SupportIdentity (ValidateStableFormRef (h_libs H) ref))
         (bind_io (read_profile H C c
              (cl_apiBase C @ ''/support/forms/'' @ groupPathSegment (fr_apiVersion ref) @ ''/'' @
                 PathEscape (fr_kind ref) @ ''/'' @ PathEscape (fr_definitionVersion ref)))
           (\<lambda>profile. check_io (check_form_profile ref profile) (return_io profile))))"

end
