(* ===== verification/HostSupportProofs.thy ===== *)
theory HostSupportProofs
  imports HostSupport
begin

text \<open>
  What a support profile means: \<open>closed_profile\<close> states the validation of \<open>HostSupport\<close> as one
  predicate, without an order of checks or of map iteration, and every profile a support call
  returns satisfies it and names the contract that was asked for.
\<close>

section \<open>The meaning of a profile\<close>

definition distinct_strings :: "(bytes \<Rightarrow> bool) \<Rightarrow> gval \<Rightarrow> bool" where
  "distinct_strings P v \<longleftrightarrow> (\<exists>ss. v = VArr (map VStr ss) \<and> distinct ss \<and> list_all P ss)"

definition closed_ref :: "libs \<Rightarrow> bytes \<Rightarrow> object \<Rightarrow> bool" where
  "closed_ref L key m \<longleftrightarrow>
     (key = ''formRef'' \<and>
        set (keys m) = {''apiVersion'', ''kind'', ''definitionVersion'', ''schemaDigest''} \<and>
        ValidateStableFormRef L
          \<lparr>fr_apiVersion = str_member m ''apiVersion'', fr_kind = str_member m ''kind'',
           fr_definitionVersion = str_member m ''definitionVersion'',
           fr_schemaDigest = str_member m ''schemaDigest''\<rparr> = None) \<or>
     (key = ''interfaceRef'' \<and> set (keys m) = set contract_ref_keys \<and>
        contract_ref_ok ''interfaces.takoform.com/v1alpha1'' supportProfileNamePattern m) \<or>
     (key = ''bindingRef'' \<and> set (keys m) = set contract_ref_keys \<and>
        contract_ref_ok ''bindings.takoform.com/v1alpha2'' supportProfileBindingName m) \<or>
     (key = ''serviceRef'' \<and> set (keys m) = {''apiVersion'', ''protocol''} \<and>
        ValidateStandardServiceRef
          \<lparr>ss_apiVersion = str_member m ''apiVersion'', ss_protocol = str_member m ''protocol''\<rparr> = None)"

definition closed_entries :: "object \<Rightarrow> bytes \<Rightarrow> (gval \<Rightarrow> bool) \<Rightarrow> bool" where
  "closed_entries p key P \<longleftrightarrow>
     (has_key p key \<longrightarrow>
        (\<exists>m. field p key = VObj m \<and> (\<forall>(pointer, v)\<in>set m. validateSupportPointer pointer \<and> P v)))"

definition range_bounds :: "gval \<Rightarrow> bool" where
  "range_bounds v \<longleftrightarrow>
     (\<exists>m. v = VObj m \<and> set (keys m) \<subseteq> {''minimum'', ''maximum''} \<and> (\<forall>(k, b)\<in>set m. isSupportRangeValue b))"

definition limit_value :: "gval \<Rightarrow> bool" where
  "limit_value v \<longleftrightarrow> (\<exists>n i. v = VNumber n \<and> parse_int64 n = Some i \<and> 0 \<le> i \<and> i < 2 ^ 53)"

text \<open>The members a profile of each kind has.\<close>

definition kind_members :: "libs \<Rightarrow> object \<Rightarrow> bytes \<Rightarrow> bool" where
  "kind_members L p kind \<longleftrightarrow>
     (\<forall>(key, needs)\<in>set support_refs.
        has_key p key = (kind = needs) \<and>
        (kind = needs \<longrightarrow> (\<exists>m. field p key = VObj m \<and> closed_ref L key m))) \<and>
     has_key p ''satisfiable'' = (kind = ''StandardServiceSupport'') \<and>
     (kind = ''StandardServiceSupport'' \<longrightarrow> \<not> has_key p ''operations'' \<and> (\<exists>b. field p ''satisfiable'' = VBool b)) \<and>
     (kind = ''FormSupport'' \<longrightarrow> has_key p ''operations'')"

definition closed_profile :: "libs \<Rightarrow> object \<Rightarrow> bool" where
  "closed_profile L p \<longleftrightarrow>
     set (keys p) \<subseteq> set supportProfileKeys \<and>
     field p ''apiVersion'' = VStr SupportProfileAPIVersion \<and>
     (\<exists>kind\<in>set supportProfileKinds. field p ''kind'' = VStr kind \<and> kind_members L p kind) \<and>
     (has_key p ''operations'' \<longrightarrow>
        distinct_strings (\<lambda>s. s \<in> set supportProfileOperations) (field p ''operations'')) \<and>
     closed_entries p ''supportedEnums''
       (\<lambda>v. v \<noteq> VArr [] \<and> distinct_strings (\<lambda>s. rune_count s \<le> 128) v) \<and>
     closed_entries p ''supportedRanges'' range_bounds \<and>
     (has_key p ''supportedBindings'' \<longrightarrow>
        distinct_strings (\<lambda>s. length s \<le> 256 \<and> rx_match supportProfileBindingNameVersion s)
          (field p ''supportedBindings'') \<and>
        (\<exists>xs. field p ''supportedBindings'' = VArr xs \<and> length xs \<le> 256)) \<and>
     closed_entries p ''limits'' limit_value"

section \<open>The checks, one by one\<close>

lemma find_None_list_all: "List.find P xs = None \<longleftrightarrow> list_all (\<lambda>x. \<not> P x) xs"
  by (auto simp: find_None_iff list_all_iff)

lemma exact_keys: "exactObjectKeys m required = None \<longleftrightarrow> set (keys m) = set required"
proof -
  have "exactObjectKeys m required = None \<longleftrightarrow>
      (\<forall>k\<in>set required. has_key m k) \<and> (\<forall>k\<in>set (keys m). k \<in> set required)"
    by (cases "List.find (\<lambda>k. \<not> has_key m k) required")
       (auto simp: exactObjectKeys_def find_None_iff find_Some_iff split: option.splits)
  then show ?thesis by (auto simp: has_key_keys)
qed

lemma each_unique_None:
  "each_unique read repeated seen xs = None \<longleftrightarrow>
     (\<exists>ss. list_all2 (\<lambda>x s. read x = Inr s) xs ss \<and> distinct ss \<and> set ss \<inter> set seen = {})"
proof (induction xs arbitrary: seen)
  case (Cons x xs)
  show ?case
  proof (cases "read x")
    case (Inr s)
    have "each_unique read repeated seen (x # xs) = None \<longleftrightarrow>
        s \<notin> set seen \<and> each_unique read repeated (s # seen) xs = None"
      using Inr by simp
    also have "\<dots> \<longleftrightarrow> s \<notin> set seen \<and>
        (\<exists>ss. list_all2 (\<lambda>x s. read x = Inr s) xs ss \<and> distinct ss \<and> set ss \<inter> set (s # seen) = {})"
      unfolding Cons.IH ..
    also have "\<dots> \<longleftrightarrow>
        (\<exists>ss. list_all2 (\<lambda>x s. read x = Inr s) xs ss \<and> distinct (s # ss) \<and> set (s # ss) \<inter> set seen = {})"
      by auto
    also have "\<dots> \<longleftrightarrow>
        (\<exists>ss. list_all2 (\<lambda>x s. read x = Inr s) (x # xs) ss \<and> distinct ss \<and> set ss \<inter> set seen = {})"
      using Inr by (fastforce simp: list_all2_Cons1)
    finally show ?thesis .
  qed (auto simp: list_all2_Cons1)
qed simp

lemma list_all2_map_right: "list_all2 (\<lambda>x s. x = f s \<and> P s) xs ss \<longleftrightarrow> xs = map f ss \<and> list_all P ss"
proof (induction ss arbitrary: xs)
  case (Cons s ss)
  then show ?case by (cases xs) auto
qed simp

lemma unique_strings:
  assumes "\<And>x s. read x = Inr s \<longleftrightarrow> x = VStr s \<and> P s"
  shows "each_unique read repeated [] xs = None \<longleftrightarrow> distinct_strings P (VArr xs)"
  by (auto simp: each_unique_None assms list_all2_map_right distinct_strings_def)

lemma read_entries:
  "read_operation_name x = Inr s \<longleftrightarrow> x = VStr s \<and> s \<in> set supportProfileOperations"
  "read_enum_entry pointer x = Inr s \<longleftrightarrow> x = VStr s \<and> rune_count s \<le> 128"
  "read_binding_entry x = Inr s \<longleftrightarrow> x = VStr s \<and> length s \<le> 256 \<and> rx_match supportProfileBindingNameVersion s"
  by (cases x; auto simp: read_operation_name_def read_enum_entry_def read_binding_entry_def)+

lemmas unique_entries = unique_strings [OF read_entries(1)] unique_strings [OF read_entries(2)]
  unique_strings [OF read_entries(3)]

lemma check_enum_None:
  "check_enum (k, v) = None \<longleftrightarrow>
     validateSupportPointer k \<and> v \<noteq> VArr [] \<and> distinct_strings (\<lambda>s. rune_count s \<le> 128) v"
proof (cases v)
  case (VArr xs)
  then show ?thesis by (auto simp: check_enum_def unique_entries)
qed (auto simp: check_enum_def distinct_strings_def)

lemma check_range_None:
  "check_range (k, v) = None \<longleftrightarrow> validateSupportPointer k \<and> range_bounds v"
proof (cases v)
  case (VObj m)
  have "check_range (k, v) = None \<longleftrightarrow> validateSupportPointer k \<and>
      (\<forall>(key, b)\<in>set m. (key = ''minimum'' \<or> key = ''maximum'') \<and> isSupportRangeValue b)"
    by (fastforce simp: check_range_def VObj split: if_splits)
  then show ?thesis by (auto simp: VObj range_bounds_def)
qed (auto simp: check_range_def range_bounds_def)

lemma check_limit_None:
  "check_limit (k, v) = None \<longleftrightarrow> validateSupportPointer k \<and> limit_value v"
  by (cases v) (auto simp: check_limit_def limit_value_def split: option.splits)

lemma check_entries_None:
  assumes "\<And>k v. check (k, v) = None \<longleftrightarrow> validateSupportPointer k \<and> P v"
  shows "check_entries p key check = None \<longleftrightarrow> closed_entries p key P"
  by (cases "field p key")
     (auto simp: check_entries_def closed_entries_def first_err_map_None assms)

lemma capabilities_None:
  "validateSupportProfileCapabilities p = None \<longleftrightarrow>
     closed_entries p ''supportedEnums''
       (\<lambda>v. v \<noteq> VArr [] \<and> distinct_strings (\<lambda>s. rune_count s \<le> 128) v) \<and>
     closed_entries p ''supportedRanges'' range_bounds \<and>
     (has_key p ''supportedBindings'' \<longrightarrow>
        distinct_strings (\<lambda>s. length s \<le> 256 \<and> rx_match supportProfileBindingNameVersion s)
          (field p ''supportedBindings'') \<and>
        (\<exists>xs. field p ''supportedBindings'' = VArr xs \<and> length xs \<le> 256)) \<and>
     closed_entries p ''limits'' limit_value"
proof -
  have b: "check_bindings v = None \<longleftrightarrow>
      distinct_strings (\<lambda>s. length s \<le> 256 \<and> rx_match supportProfileBindingNameVersion s) v \<and>
      (\<exists>xs. v = VArr xs \<and> length xs \<le> 256)" for v
    by (cases v) (auto simp: check_bindings_def unique_entries)
  show ?thesis
    by (simp add: validateSupportProfileCapabilities_def first_err_None_list b
      check_entries_None [OF check_enum_None] check_entries_None [OF check_range_None]
      check_entries_None [OF check_limit_None])
qed

lemma support_ref_None:
  assumes "key \<in> {''formRef'', ''interfaceRef'', ''bindingRef'', ''serviceRef''}"
  shows "validate_support_ref L key m = None \<longleftrightarrow> closed_ref L key m"
  using assms
  by (auto simp: validate_support_ref_def closed_ref_def validateSupportFormRef_def
    validateSupportInterfaceRef_def validateSupportBindingRef_def validateSupportServiceRef_def
    first_err_None_list exact_keys)

lemma check_support_ref_None:
  assumes "(key, needs) \<in> set support_refs"
  shows "check_support_ref L p kind (key, needs) = None \<longleftrightarrow>
     has_key p key = (kind = needs) \<and>
     (kind = needs \<longrightarrow> (\<exists>m. field p key = VObj m \<and> closed_ref L key m))"
proof -
  have "key \<in> {''formRef'', ''interfaceRef'', ''bindingRef'', ''serviceRef''}"
    using assms by (auto simp: support_refs_def)
  from support_ref_None [OF this] show ?thesis
    by (cases "field p key") (auto simp: check_support_ref_def)
qed

lemma satisfiable_None:
  "check_satisfiable p kind = None \<longleftrightarrow>
     has_key p ''satisfiable'' = (kind = ''StandardServiceSupport'') \<and>
     (kind = ''StandardServiceSupport'' \<longrightarrow> \<not> has_key p ''operations'' \<and> (\<exists>b. field p ''satisfiable'' = VBool b))"
  by (cases "field p ''satisfiable''") (auto simp: check_satisfiable_def first_err_None_list)

lemma operations_None:
  "validateSupportProfileOperations p = None \<longleftrightarrow>
     (field p ''kind'' = VStr ''FormSupport'' \<longrightarrow> has_key p ''operations'') \<and>
     (has_key p ''operations'' \<longrightarrow>
        distinct_strings (\<lambda>s. s \<in> set supportProfileOperations) (field p ''operations''))"
  by (cases "field p ''operations''")
     (auto simp: validateSupportProfileOperations_def unique_entries distinct_strings_def)

lemma profile_closed: "validateSupportProfile L p = None \<longleftrightarrow> closed_profile L p"
proof -
  let ?kind = "str_member p ''kind''"
  have refs: "first_err (map (check_support_ref L p kind) support_refs) = None \<longleftrightarrow>
      (\<forall>(key, needs)\<in>set support_refs.
        has_key p key = (kind = needs) \<and>
        (kind = needs \<longrightarrow> (\<exists>m. field p key = VObj m \<and> closed_ref L key m)))" for kind
    unfolding first_err_map_None using check_support_ref_None [of _ _ L p kind] by fastforce
  have kind: "field p ''kind'' = VStr kind \<longleftrightarrow> ?kind = kind" if "kind \<in> set supportProfileKinds" for kind
    using str_member_iff [of kind p "''kind''"] that by (auto simp: supportProfileKinds_def)
  have version: "str_member p ''apiVersion'' = SupportProfileAPIVersion \<longleftrightarrow>
      field p ''apiVersion'' = VStr SupportProfileAPIVersion"
    by (rule str_member_iff) (simp add: SupportProfileAPIVersion_def)
  have known: "map_option ProfileUnknownField
        (List.find (\<lambda>k. \<not> List.member supportProfileKeys k) (keys p)) = None \<longleftrightarrow>
      set (keys p) \<subseteq> set supportProfileKeys"
    by (auto simp: find_None_iff)
  have "validateSupportProfile L p = None \<longleftrightarrow>
      set (keys p) \<subseteq> set supportProfileKeys \<and>
      field p ''apiVersion'' = VStr SupportProfileAPIVersion \<and>
      (?kind \<in> set supportProfileKinds \<and> validateSupportProfileRefs L p ?kind = None \<and>
       validateSupportProfileOperations p = None) \<and>
      validateSupportProfileCapabilities p = None"
    unfolding validateSupportProfile_def Let_def first_err_None_list known guard_err_None version
    by simp
  also have "(?kind \<in> set supportProfileKinds \<and> validateSupportProfileRefs L p ?kind = None \<and>
       validateSupportProfileOperations p = None) \<longleftrightarrow>
      (\<exists>kind\<in>set supportProfileKinds. field p ''kind'' = VStr kind \<and> kind_members L p kind) \<and>
      (has_key p ''operations'' \<longrightarrow>
        distinct_strings (\<lambda>s. s \<in> set supportProfileOperations) (field p ''operations''))"
  proof (cases "?kind \<in> set supportProfileKinds")
    case True
    have "(\<exists>kind\<in>set supportProfileKinds. field p ''kind'' = VStr kind \<and> kind_members L p kind) \<longleftrightarrow>
        kind_members L p ?kind"
      using True kind by blast
    moreover have "field p ''kind'' = VStr ''FormSupport'' \<longleftrightarrow> ?kind = ''FormSupport''"
      by (rule kind) (simp add: supportProfileKinds_def)
    moreover have "validateSupportProfileRefs L p ?kind = None \<and>
        (?kind = ''FormSupport'' \<longrightarrow> has_key p ''operations'') \<longleftrightarrow> kind_members L p ?kind"
      unfolding validateSupportProfileRefs_def first_err_append_None refs first_err_None_list
        satisfiable_None kind_members_def by simp
    ultimately show ?thesis using True operations_None [of p] by blast
  next
    case False
    then show ?thesis using kind by blast
  qed
  finally show ?thesis unfolding closed_profile_def capabilities_None by simp
qed

section \<open>What the calls return\<close>

definition contract_profile :: "libs \<Rightarrow> bytes \<Rightarrow> bytes \<Rightarrow> bytes \<Rightarrow> bytes \<Rightarrow> object \<Rightarrow> bool" where
  "contract_profile L kind refKey name version p \<longleftrightarrow>
     closed_profile L p \<and> field p ''kind'' = VStr kind \<and>
     (\<exists>r. field p refKey = VObj r \<and> closed_ref L refKey r \<and>
        field r ''name'' = VStr name \<and> field r ''version'' = VStr version)"

definition form_profile :: "libs \<Rightarrow> form_ref \<Rightarrow> object \<Rightarrow> bool" where
  "form_profile L ref p \<longleftrightarrow>
     closed_profile L p \<and>
     (field p ''kind'' = VStr ''FormSupport'' \<longrightarrow>
        (\<exists>r. field p ''formRef'' = VObj r \<and> closed_ref L ''formRef'' r \<and>
           str_member r ''apiVersion'' = fr_apiVersion ref \<and> str_member r ''kind'' = fr_kind ref \<and>
           str_member r ''definitionVersion'' = fr_definitionVersion ref \<and>
           (str_member r ''schemaDigest'' = [] \<or> str_member r ''schemaDigest'' = fr_schemaDigest ref)))"

definition service_profile :: "libs \<Rightarrow> bytes \<Rightarrow> object \<Rightarrow> bool" where
  "service_profile L protocol p \<longleftrightarrow>
     closed_profile L p \<and> field p ''kind'' = VStr ''StandardServiceSupport'' \<and>
     (\<exists>b. field p ''satisfiable'' = VBool b) \<and>
     (\<exists>r. field p ''serviceRef'' = VObj r \<and> field r ''protocol'' = VStr protocol)"

lemma profile_ref:
  assumes "closed_profile L p" "field p key = VObj m" "(key, needs) \<in> set support_refs"
  shows "closed_ref L key m"
proof -
  have key: "has_key p key" using assms(2) field_absent [of p key] by auto
  from assms(1) obtain kind where "kind_members L p kind" unfolding closed_profile_def by blast
  then have "\<forall>(key, needs)\<in>set support_refs. has_key p key = (kind = needs) \<and>
      (kind = needs \<longrightarrow> (\<exists>m. field p key = VObj m \<and> closed_ref L key m))"
    unfolding kind_members_def by (rule conjunct1)
  from bspec [OF this assms(3)] have "has_key p key = (kind = needs) \<and>
      (kind = needs \<longrightarrow> (\<exists>m. field p key = VObj m \<and> closed_ref L key m))"
    unfolding prod.case .
  with key assms(2) show ?thesis by simp
qed

lemma read_profile_closed:
  assumes "read_profile H C c u w = (Inr p, w')"
  shows "closed_profile (h_libs H) p"
proof -
  from assms obtain decoded where "validateSupportProfile (h_libs H) (map_of_nil decoded) = None"
      and "map_of_nil decoded = p"
    unfolding read_profile_def io_Inr return_io_def by blast
  then show ?thesis using profile_closed by metis
qed

lemma trim_space_empty: "trim_space [] = []" by code_simp

lemma contract_answer:
  assumes "contractSupport H C c route kind refKey name version w = (Inr p, w')"
    and "(refKey, kind) \<in> set support_refs"
  shows "contract_profile (h_libs H) kind refKey name version p"
proof -
  from assms(1) obtain profile w1 r where read: "read_profile H C c
        (cl_apiBase C @ ''/support/'' @ route @ ''/'' @ PathEscape name @ ''/'' @ PathEscape version) w = (Inr profile, w1)"
      and r: "str_member p ''kind'' = kind" "p = profile"
      "field p refKey = VObj r" "str_member r ''name'' = name" "str_member r ''version'' = version"
      "trim_space name \<noteq> []" "trim_space version \<noteq> []"
    unfolding contractSupport_def io_Inr by (auto simp: check_io_def split: option.splits)
  have closed: "closed_profile (h_libs H) p" using read_profile_closed [OF read] r(2) by simp
  have "name \<noteq> []" "version \<noteq> []" using r by (auto simp: trim_space_empty)
  moreover have "kind \<noteq> []" using assms(2) by (auto simp: support_refs_def)
  ultimately show ?thesis
    unfolding contract_profile_def using closed r profile_ref [OF closed r(3) assms(2)] str_member_iff [of kind p]
      str_member_iff [of name r] str_member_iff [of version r] by auto
qed

lemma form_answer:
  assumes "GetFormSupport H C c ref w = (Inr p, w')"
  shows "form_profile (h_libs H) ref p"
proof -
  from assms have p: "closed_profile (h_libs H) p" "check_form_profile ref p = None"
    unfolding GetFormSupport_def io_Inr by (auto dest: read_profile_closed)
  show ?thesis
    unfolding form_profile_def
  proof (intro conjI impI)
    assume "field p ''kind'' = VStr ''FormSupport''"
    with p(1) obtain r where r: "field p ''formRef'' = VObj r" "closed_ref (h_libs H) ''formRef'' r"
      unfolding closed_profile_def kind_members_def by (auto simp: support_refs_def)
    with p(2) show "\<exists>r. field p ''formRef'' = VObj r \<and> closed_ref (h_libs H) ''formRef'' r \<and>
        str_member r ''apiVersion'' = fr_apiVersion ref \<and> str_member r ''kind'' = fr_kind ref \<and>
        str_member r ''definitionVersion'' = fr_definitionVersion ref \<and>
        (str_member r ''schemaDigest'' = [] \<or> str_member r ''schemaDigest'' = fr_schemaDigest ref)"
      by (intro exI [of _ r]) (simp add: check_form_profile_def)
  qed (rule p(1))
qed

lemma service_answer:
  assumes "GetStandardServiceSupport H C c protocol w = (Inr p, w')"
  shows "service_profile (h_libs H) protocol p"
proof -
  from assms obtain b where p: "closed_profile (h_libs H) p"
      "map_sum SupportAnswer id (ValidateStandardServiceSupport \<lparr>ss_apiVersion = StandardServiceAPIVersion, ss_protocol = protocol\<rparr> p) = Inr b"
      "ValidateStandardServiceRef \<lparr>ss_apiVersion = StandardServiceAPIVersion, ss_protocol = protocol\<rparr> = None"
    unfolding GetStandardServiceSupport_def Let_def io_Inr
    by (auto dest: read_profile_closed split: sum.splits)
  with p(1) show ?thesis using p(2) unfolding service_profile_def map_sum_Inr support_exact [OF p(3)]
    by (auto split: gval.splits)
qed

text \<open>
  A form profile is not asked for its kind: a closed profile of another kind passes, as it has no
  \<^verbatim>\<open>formRef\<close> to compare.
\<close>

lemma form_support_any_kind:
  assumes "closed_profile L p" and "field p ''kind'' \<noteq> VStr ''FormSupport''"
  shows "check_form_profile ref p = None"
proof -
  from assms obtain kind where "kind_members L p kind" "kind \<noteq> ''FormSupport''"
    unfolding closed_profile_def by blast
  then have "\<not> has_key p ''formRef''" by (simp add: kind_members_def support_refs_def)
  then show ?thesis by (simp add: check_form_profile_def field_absent)
qed

text \<open>The result of a call is an error, or satisfies \<open>P\<close>.\<close>

definition answers :: "('a \<Rightarrow> bool) \<Rightarrow> ('e + 'a) \<times> world \<Rightarrow> bool" where
  "answers P res \<longleftrightarrow> (case fst res of Inl _ \<Rightarrow> True | Inr a \<Rightarrow> P a)"

lemma answersI: "(\<And>a w'. res = (Inr a, w') \<Longrightarrow> P a) \<Longrightarrow> answers P res"
  by (cases res) (auto simp: answers_def split: sum.splits)

lemma list_answer:
  assumes "ListFormSupport H C c w = (Inr ps, w')"
  shows "length ps \<le> 1024 \<and> list_all (closed_profile (h_libs H)) ps"
proof -
  from assms obtain decoded where d: "ps = map map_of_nil decoded" "length decoded \<le> 1024"
      "first_err (map (\<lambda>p. map_option SupportProfile (validateSupportProfile (h_libs H) (map_of_nil p))) decoded) = None"
    unfolding ListFormSupport_def io_Inr return_io_def
    by (auto simp: fail_io_def io_Inr return_io_def split: option.splits)
  then show ?thesis by (simp add: list_all_iff profile_closed)
qed

text \<open>
  C16. A support profile is accepted precisely when it satisfies the order-free closure predicate, and
  every profile the support calls return is closed. An Interface, Binding or service call returns a
  profile of that kind that names exactly the name and version, or the protocol, asked for. The Form
  call does not ask for the kind: what it returns is a profile of kind FormSupport whose formRef is
  the requested line, with the requested schemaDigest if it states one, or a closed profile of
  another kind.
\<close>

theorem support_profiles_closed:
  "(validateSupportProfile L p = None) = closed_profile L p \<and>
   answers (\<lambda>ps. length ps \<le> 1024 \<and> list_all (closed_profile (h_libs H)) ps) (ListFormSupport H C c w) \<and>
   answers (contract_profile (h_libs H) ''InterfaceSupport'' ''interfaceRef'' name version)
     (GetInterfaceSupport H C c name version w) \<and>
   answers (contract_profile (h_libs H) ''BindingSupport'' ''bindingRef'' name version)
     (GetBindingSupport H C c name version w) \<and>
   answers (service_profile (h_libs H) protocol) (GetStandardServiceSupport H C c protocol w) \<and>
   answers (form_profile (h_libs H) ref) (GetFormSupport H C c ref w)"
  by (intro conjI answersI profile_closed)
     (auto simp: GetInterfaceSupport_def GetBindingSupport_def support_refs_def
       intro: contract_answer form_answer service_answer dest: list_answer)

end
