(* ===== verification/HostArtifacts.thy ===== *)
theory HostArtifacts
  imports HostLifecycle
begin

text \<open>
  The content-addressed artifact transport of \<^verbatim>\<open>hostclient/artifacts.go\<close>. The upload session
  starts with the manifest, sends the blobs the host does not hold, and commits; every blob is
  checked against its digest before a byte of it leaves the client, and the digest a call returns
  is the canonical digest of the manifest it was given. The 16 random bytes of the start's
  idempotency key are an argument: \<open>None\<close> when the random source fails.
\<close>

section \<open>Data\<close>

definition uploadIDPattern :: rx where
  "uploadIDPattern =
     seqs [lit ''up_'', Cls [c_upper, c_lower, c_digit],
       upto_rep 124 (Cls [c_upper, c_lower, c_digit, c_dot, c_under, c_dash])]"

record upload_status =
  us_uploadID :: bytes
  us_missing :: "bytes list option"

definition empty_upload :: upload_status where
  "empty_upload = \<lparr>us_uploadID = [], us_missing = None\<rparr>"

definition upload_fields :: "upload_status struct_fields" where
  "upload_fields =
     [(''uploadId'', member dec_str us_uploadID us_uploadID_update),
      (''missingBlobs'', member (dec_nil_slice dec_str []) us_missing us_missing_update)]"

definition dec_commit :: "bytes decoder" where
  "dec_commit = dec_struct True [(''manifestDigest'', dec_str)]"

datatype artifact_error =
    ArtifactCall host_error | NoManifest | ManifestCanonical canonical_error | NonceFailed
  | BadUploadID | NoMissingBlobs | BadMissingDigest bytes | BlobNotProvided bytes | BlobMismatch bytes
  | CommitResult host_error | OtherManifestCommitted bytes bytes
  | BadBlobDigest | BadManifestDigest | AnswerCanonical canonical_error | OtherManifestAnswered

type_synonym 'a artifact_io = "(world, artifact_error, 'a) action"

text \<open>A request whose error is returned as it is.\<close>

definition artifact_call ::
  "host \<Rightarrow> client \<Rightarrow> ctx \<Rightarrow> bytes \<Rightarrow> bytes \<Rightarrow> (bytes \<times> bytes) list \<Rightarrow> bytes option \<Rightarrow> bool \<Rightarrow> int list
    \<Rightarrow> answer artifact_io" where
  "artifact_call H C c verb url headers body retryStable ok =
     via ArtifactCall (do_request H C c verb url headers body retryStable ok)"

section \<open>Upload\<close>

definition manifest_bytes :: "object \<Rightarrow> bytes" where
  "manifest_bytes manifest = marshal_any (VObj manifest)"

text \<open>The upload's start: its answer, checked.\<close>

definition check_upload :: "upload_status \<Rightarrow> artifact_error option" where
  "check_upload status =
     first_err
       [guard_err (rx_match uploadIDPattern (us_uploadID status)) BadUploadID,
        guard_err (us_missing status \<noteq> None) NoMissingBlobs]"

definition start_upload ::
  "host \<Rightarrow> client \<Rightarrow> ctx \<Rightarrow> object \<Rightarrow> bytes \<Rightarrow> nat list \<Rightarrow> upload_status artifact_io" where
  "start_upload H C c manifest expected nonce =
     bind_io (artifact_call H C c ''POST'' (cl_apiBase C @ ''/artifacts/uploads'')
         [(''Idempotency-Key'', mutationKey [''artifact-upload-start'', expected, hex_encode nonce])]
         (Some (marshal_any (VObj [(''manifest'', VObj manifest)]))) True [200, 201])
       (\<lambda>(_, _, data).
          lift_io (map_sum ArtifactCall id (decodeBody H data (dec_struct True upload_fields) empty_upload))
            (\<lambda>status. check_io (check_upload status) (return_io status)))"

definition blob_url :: "client \<Rightarrow> bytes \<Rightarrow> bytes \<Rightarrow> bytes" where
  "blob_url C uploadID digest =
     cl_apiBase C @ ''/artifacts/uploads/'' @ PathEscape uploadID @ ''/blobs/'' @ PathEscape digest"

text \<open>One missing blob: checked, then sent.\<close>

definition check_blob :: "(bytes \<rightharpoonup> bytes) \<Rightarrow> bytes \<Rightarrow> artifact_error option" where
  "check_blob blobs digest =
     (if \<not> validWireDigest digest then Some (BadMissingDigest digest)
      else (case blobs digest of
              None \<Rightarrow> Some (BlobNotProvided digest)
            | Some blob \<Rightarrow> guard_err (''sha256:'' @ hex_encode (sha256 blob) = digest) (BlobMismatch digest)))"

definition put_blob ::
  "host \<Rightarrow> client \<Rightarrow> ctx \<Rightarrow> (bytes \<rightharpoonup> bytes) \<Rightarrow> bytes \<Rightarrow> bytes \<Rightarrow> answer artifact_io" where
  "put_blob H C c blobs uploadID digest =
     check_io (check_blob blobs digest)
       (artifact_call H C c ''PUT'' (blob_url C uploadID digest)
          [(''Content-Type'', ''application/octet-stream'')] (blobs digest) False [201, 204])"

text \<open>
  The commit. An asynchronous one is awaited; its terminal record must carry the result. Awaiting
  answers a record or an error, never neither, so the third case is not reached.
\<close>

definition commit_answer :: "host \<Rightarrow> client \<Rightarrow> ctx \<Rightarrow> answer \<Rightarrow> bytes artifact_io" where
  "commit_answer H C c answer w =
     (case answer of (status, headers, data) \<Rightarrow>
        if status = 202 then
          (case decodeOperationEnvelope H data of
             Inl e \<Rightarrow> (Inl (ArtifactCall e), w)
           | Inr op \<Rightarrow>
               (case awaitOperation H C c op
                    (parseRetryAfter (h_texts H) (w_now w) (header_get headers ''Retry-After'')) 0 w of
                  ((_, Some e), w') \<Rightarrow> (Inl (ArtifactCall e), w')
                | ((Some t, None), w') \<Rightarrow>
                    (map_sum CommitResult id (decodeBody H (op_result t) dec_commit []), w')
                | ((None, None), w') \<Rightarrow> (Inl (ArtifactCall NoTerminalResult), w')))
        else (map_sum ArtifactCall id (decodeBody H data dec_commit []), w))"

definition commit_upload ::
  "host \<Rightarrow> client \<Rightarrow> ctx \<Rightarrow> bytes \<Rightarrow> bytes \<Rightarrow> bytes artifact_io" where
  "commit_upload H C c uploadID expected =
     bind_io (artifact_call H C c ''POST''
         (cl_apiBase C @ ''/artifacts/uploads/'' @ PathEscape uploadID @ ''/commit'')
         [(''Idempotency-Key'', mutationKey [''artifact-commit'', uploadID, expected])]
         None True [200, 201, 202])
       (\<lambda>answer.
          bind_io (commit_answer H C c answer)
            (\<lambda>committed.
               check_io (guard_err (committed = expected) (OtherManifestCommitted committed expected))
                 (return_io committed)))"

definition UploadArtifact ::
  "host \<Rightarrow> client \<Rightarrow> ctx \<Rightarrow> nat list option \<Rightarrow> object option \<Rightarrow> (bytes \<rightharpoonup> bytes) \<Rightarrow> bytes artifact_io" where
  "UploadArtifact H C c nonce manifest blobs =
     check_io (map_option ArtifactCall (requireReady C))
       (check_io (guard_err (manifest \<noteq> None) NoManifest)
         (lift_io (map_sum ManifestCanonical id
             (digestCanonical (h_transform H) (manifest_bytes (the manifest))))
           (\<lambda>expected.
              check_io (guard_err (nonce \<noteq> None) NonceFailed)
                (bind_io (start_upload H C c (the manifest) expected (the nonce))
                  (\<lambda>status.
                     bind_io (each_io (put_blob H C c blobs (us_uploadID status)) (the (us_missing status)))
                       (\<lambda>_. commit_upload H C c (us_uploadID status) expected))))))"

section \<open>The other calls\<close>

definition AbandonUpload :: "host \<Rightarrow> client \<Rightarrow> ctx \<Rightarrow> bytes \<Rightarrow> unit artifact_io" where
  "AbandonUpload H C c uploadID =
     check_io (map_option ArtifactCall (requireReady C))
       (check_io (guard_err (rx_match uploadIDPattern uploadID) BadUploadID)
         (bind_io (artifact_call H C c ''DELETE'' (cl_apiBase C @ ''/artifacts/uploads/'' @ PathEscape uploadID)
              [(''Idempotency-Key'', mutationKey [''artifact-upload-abandon'', uploadID])] None True [204])
           (\<lambda>_. return_io ())))"

definition not_found_status :: "host_error \<Rightarrow> bool" where
  "not_found_status e = (case api_of e of None \<Rightarrow> False | Some a \<Rightarrow> ae_status a = 404)"

definition HeadBlob :: "host \<Rightarrow> client \<Rightarrow> ctx \<Rightarrow> bytes \<Rightarrow> bool artifact_io" where
  "HeadBlob H C c digest =
     check_io (map_option ArtifactCall (requireReady C))
       (check_io (guard_err (validWireDigest digest) BadBlobDigest)
         (\<lambda>w. case do_request H C c ''HEAD'' (cl_apiBase C @ ''/artifacts/blobs/'' @ PathEscape digest)
                   [] None False [200] w of
                (Inr _, w') \<Rightarrow> (Inr True, w')
              | (Inl e, w') \<Rightarrow> (if not_found_status e then Inr False else Inl (ArtifactCall e), w')))"

definition check_manifest_answer :: "host \<Rightarrow> bytes \<Rightarrow> bytes \<Rightarrow> artifact_error option" where
  "check_manifest_answer H digest data =
     (case digestCanonical (h_transform H) data of
        Inl e \<Rightarrow> Some (AnswerCanonical e)
      | Inr actual \<Rightarrow> guard_err (actual = digest) OtherManifestAnswered)"

text \<open>The manifest; a \<^verbatim>\<open>null\<close> document is the nil map.\<close>

definition GetArtifactManifest :: "host \<Rightarrow> client \<Rightarrow> ctx \<Rightarrow> bytes \<Rightarrow> object option artifact_io" where
  "GetArtifactManifest H C c digest =
     check_io (map_option ArtifactCall (requireReady C))
       (check_io (guard_err (validWireDigest digest) BadManifestDigest)
         (bind_io (artifact_call H C c ''GET'' (cl_apiBase C @ ''/artifacts/'' @ PathEscape digest)
              [] None False [200])
           (\<lambda>(_, _, data).
              check_io (check_manifest_answer H digest data)
                (lift_io (map_sum ArtifactCall id (decodeBody H data (dec_map True) None))
                  return_io))))"

section \<open>What an upload sends\<close>

text \<open>A PUT of the call carries a blob the caller gave, under the digest of its bytes.\<close>

definition blob_put :: "client \<Rightarrow> (bytes \<rightharpoonup> bytes) \<Rightarrow> request \<Rightarrow> bool" where
  "blob_put C blobs rq \<longleftrightarrow>
     (rq_method rq = ''PUT'' \<longrightarrow>
        (\<exists>blob uploadID. rq_body rq = Some blob \<and> blobs (DigestBytes blob) = Some blob \<and>
           rx_match uploadIDPattern uploadID \<and> rq_url rq = blob_url C uploadID (DigestBytes blob)))"

text \<open>Some exchange of the log put the blob \<open>digest\<close> and was answered with a success.\<close>

definition blob_stored :: "host \<Rightarrow> (bytes \<rightharpoonup> bytes) \<Rightarrow> (request \<times> reply) list \<Rightarrow> bytes \<Rightarrow> bool" where
  "blob_stored H blobs exchanges digest \<longleftrightarrow>
     list_ex (\<lambda>(rq, reply). rq_method rq = ''PUT'' \<and> rq_body rq = blobs digest \<and>
       success_reply H ''PUT'' [201, 204] reply) exchanges"

text \<open>An exchange of the log started the upload: its answer reads as \<open>status\<close>.\<close>

definition upload_started :: "host \<Rightarrow> (request \<times> reply) list \<Rightarrow> upload_status \<Rightarrow> bool" where
  "upload_started H exchanges status \<longleftrightarrow>
     list_ex (\<lambda>(rq, reply). rq_method rq = ''POST'' \<and>
       (case read_response H 0 ''POST'' [200, 201] reply of
          Success _ _ data \<Rightarrow> decodeBody H data (dec_struct True upload_fields) empty_upload = Inr status
        | _ \<Rightarrow> False)) exchanges"

text \<open>
  An upload that returns a digest: it is the canonical digest of the manifest, and of the blobs
  some start of this call reported missing each one was stored.
\<close>

definition upload_complete ::
  "host \<Rightarrow> object option \<Rightarrow> (bytes \<rightharpoonup> bytes) \<Rightarrow> (request \<times> reply) list \<Rightarrow> bytes \<Rightarrow> bool" where
  "upload_complete H manifest blobs exchanges digest \<longleftrightarrow>
     (\<exists>m status missing. manifest = Some m \<and>
        digestCanonical (h_transform H) (manifest_bytes m) = Inr digest \<and>
        upload_started H exchanges status \<and> us_missing status = Some missing \<and>
        list_all (blob_stored H blobs exchanges) missing)"

declare map_sum_Inr [simp]

lemma build_request_fields [simp]:
  "rq_url (build_request C verb url headers body) = url"
  "rq_body (build_request C verb url headers body) = body"
  by (simp_all add: build_request_def Let_def)

lemma digest_of: "''sha256:'' @ hex_encode (sha256 b) = DigestBytes b"
  by (simp add: DigestBytes_def digestPrefix_def)

text \<open>The exchanges of one request, and its success among them.\<close>

lemma artifact_call_log:
  assumes "artifact_call H C c verb url headers body retryStable ok w = (r, w')"
  obtains new where "w_log w' = new @ w_log w"
    and "list_all (\<lambda>(rq, _). rq = build_request C verb url headers body) new"
    and "\<And>status hs data. r = Inr (status, hs, data) \<Longrightarrow>
      list_ex (\<lambda>(rq, reply). rq = build_request C verb url headers body \<and>
        read_response H 0 verb ok reply = Success status hs data) new"
proof -
  let ?rq = "build_request C verb url headers body"
  obtain r0 where r0: "do_request H C c verb url headers body retryStable ok w = (r0, w')"
      "\<And>a. r = Inr a \<Longrightarrow> r0 = Inr a"
    using assms by (auto simp: artifact_call_def via_def split: prod.splits sum.splits)
  obtain replies where rep: "w_log w' = map (Pair ?rq) replies @ w_log w"
      "case r0 of Inl _ \<Rightarrow> \<not> list_ex (success_reply H verb ok) replies
         | Inr (status, headers, data) \<Rightarrow> replies \<noteq> [] \<and>
             read_response H (w_now w') verb ok (hd replies) = Success status headers data"
    using do_request_sent [of H C verb url headers body ok retryStable w c]
    unfolding sent_again_def r0(1) build_request_method fst_conv snd_conv by blast
  show thesis
  proof (rule that [OF rep(1)])
    show "list_all (\<lambda>(rq, _). rq = ?rq) (map (Pair ?rq) replies)" by (auto simp: list_all_iff)
    fix status hs data
    assume "r = Inr (status, hs, data)"
    then have s: "replies \<noteq> []" "read_response H (w_now w') verb ok (hd replies) = Success status hs data"
      using rep(2) r0(2) by auto
    then have "read_response H 0 verb ok (hd replies) = Success status hs data"
      using success_now by metis
    with s(1) show "list_ex (\<lambda>(rq, reply). rq = ?rq \<and> read_response H 0 verb ok reply = Success status hs data)
        (map (Pair ?rq) replies)"
      by (cases replies) auto
  qed
qed

lemma logs_only_mono: "logs_only P w w' \<Longrightarrow> (\<And>rq. P rq \<Longrightarrow> Q rq) \<Longrightarrow> logs_only Q w w'"
  by (fastforce simp: logs_only_def list_all_iff)

lemma stored_append:
  "blob_stored H blobs (a @ b) d \<longleftrightarrow> blob_stored H blobs a d \<or> blob_stored H blobs b d"
  by (simp add: blob_stored_def)

lemma started_append:
  "upload_started H (a @ b) status \<longleftrightarrow> upload_started H a status \<or> upload_started H b status"
  by (simp add: upload_started_def)

lemma not_put_blob: "not_put rq \<Longrightarrow> blob_put C blobs rq"
  by (simp add: not_put_def blob_put_def)

text \<open>What a stretch of the call sends, and what its new exchanges show when it returns \<open>a\<close>.\<close>

definition sends ::
  "(request \<Rightarrow> bool) \<Rightarrow> ((request \<times> reply) list \<Rightarrow> 'a \<Rightarrow> bool) \<Rightarrow> world \<Rightarrow> ('e + 'a) \<times> world \<Rightarrow> bool" where
  "sends P Q w res \<longleftrightarrow>
     (\<exists>new. w_log (snd res) = new @ w_log w \<and> list_all (\<lambda>(rq, _). P rq) new \<and>
        (case fst res of Inl _ \<Rightarrow> True | Inr a \<Rightarrow> Q new a))"

lemma sends_none: "sends P Q w (Inl e, w)"
  by (simp add: sends_def)

lemma sends_here: "Q [] a \<Longrightarrow> sends P Q w (Inr a, w)"
  by (simp add: sends_def)

lemma sends_check: "(x = None \<Longrightarrow> sends P Q w (m w)) \<Longrightarrow> sends P Q w (check_io x m w)"
  by (cases x) (simp_all add: sends_none)

lemma sends_lift: "(\<And>a. x = Inr a \<Longrightarrow> sends P Q w (f a w)) \<Longrightarrow> sends P Q w (lift_io x f w)"
  by (cases x) (simp_all add: sends_none)

lemma sends_bind:
  assumes m: "sends P R w (m w)"
    and f: "\<And>old a w1. R old a \<Longrightarrow> sends P (\<lambda>new b. Q (new @ old) b) w1 (f a w1)"
  shows "sends P Q w (bind_io m f w)"
proof -
  obtain r w1 where r: "m w = (r, w1)" by (cases "m w")
  with m obtain old where old: "w_log w1 = old @ w_log w" "list_all (\<lambda>(rq, _). P rq) old"
      "case r of Inl _ \<Rightarrow> True | Inr a \<Rightarrow> R old a"
    by (auto simp: sends_def)
  show ?thesis
  proof (cases r)
    case (Inl e)
    with old r show ?thesis by (auto simp: sends_def bind_io_def)
  next
    case (Inr a)
    with old f have "sends P (\<lambda>new b. Q (new @ old) b) w1 (f a w1)" by simp
    then obtain new where "w_log (snd (f a w1)) = new @ w_log w1" "list_all (\<lambda>(rq, _). P rq) new"
        "case fst (f a w1) of Inl _ \<Rightarrow> True | Inr b \<Rightarrow> Q (new @ old) b"
      unfolding sends_def by blast
    with old(1,2) r Inr show ?thesis
      unfolding sends_def by (intro exI [of _ "new @ old"]) (simp add: bind_io_def)
  qed
qed

lemma sends_mono: "sends P Q w res \<Longrightarrow> (\<And>new a. Q new a \<Longrightarrow> R new a) \<Longrightarrow> sends P R w res"
  by (auto simp: sends_def split: sum.splits)

lemma sends_call:
  assumes "P (build_request C verb url headers body)"
  shows "sends P (\<lambda>new (status, hs, data).
      list_ex (\<lambda>(rq, reply). rq = build_request C verb url headers body \<and>
        read_response H 0 verb ok reply = Success status hs data) new) w
    (artifact_call H C c verb url headers body retryStable ok w)"
proof -
  obtain r w' where r: "artifact_call H C c verb url headers body retryStable ok w = (r, w')"
    by (cases "artifact_call H C c verb url headers body retryStable ok w")
  obtain new where new: "w_log w' = new @ w_log w"
      "list_all (\<lambda>(rq, _). rq = build_request C verb url headers body) new"
      "\<And>status hs data. r = Inr (status, hs, data) \<Longrightarrow>
        list_ex (\<lambda>(rq, reply). rq = build_request C verb url headers body \<and>
          read_response H 0 verb ok reply = Success status hs data) new"
    using artifact_call_log [OF r] by blast
  with assms show ?thesis unfolding r sends_def
    by (intro exI [of _ new]) (auto simp: list_all_iff split: sum.splits)
qed

section \<open>The upload as a whole\<close>

lemma start_sends:
  "sends (blob_put C blobs) (\<lambda>new status. upload_started H new status \<and> check_upload status = None) w
     (start_upload H C c manifest expected nonce w)"
  unfolding start_upload_def
proof (rule sends_bind [OF sends_call])
  show "blob_put C blobs (build_request C ''POST'' url hs body)" for url hs body
    by (simp add: blob_put_def)
next
  fix old w1 and a :: answer
  assume success: "case a of (status, hs, data) \<Rightarrow>
      list_ex (\<lambda>(rq, reply).
        rq = build_request C ''POST'' (cl_apiBase C @ ''/artifacts/uploads'')
          [(''Idempotency-Key'', mutationKey [''artifact-upload-start'', expected, hex_encode nonce])]
          (Some (marshal_any (VObj [(''manifest'', VObj manifest)]))) \<and>
        read_response H 0 ''POST'' [200, 201] reply = Success status hs data) old"
  obtain s hs data where a: "a = (s, hs, data)" by (cases a)
  show "sends (blob_put C blobs) (\<lambda>new status. upload_started H (new @ old) status \<and> check_upload status = None)
      w1 ((case a of (_, _, data) \<Rightarrow>
        lift_io (map_sum ArtifactCall id (decodeBody H data (dec_struct True upload_fields) empty_upload))
          (\<lambda>status. check_io (check_upload status) (return_io status))) w1)"
    unfolding a prod.case
  proof (intro sends_lift sends_check)
    fix status
    assume "map_sum ArtifactCall id (decodeBody H data (dec_struct True upload_fields) empty_upload) = Inr status"
      and "check_upload status = None"
    moreover from this success have "upload_started H old status"
      by (auto simp: a upload_started_def list_ex_iff intro!: bexI)
    ultimately show "sends (blob_put C blobs)
        (\<lambda>new status. upload_started H (new @ old) status \<and> check_upload status = None) w1 (return_io status w1)"
      by (simp add: sends_here return_io_def)
  qed
qed

lemma checked_blob:
  assumes "check_blob blobs digest = None"
  obtains blob where "blobs digest = Some blob" and "DigestBytes blob = digest"
  using assms unfolding check_blob_def digest_of by (auto split: if_splits option.splits)

lemma put_sends:
  assumes "rx_match uploadIDPattern uploadID"
  shows "sends (blob_put C blobs) (\<lambda>new _. blob_stored H blobs new digest) w
    (put_blob H C c blobs uploadID digest w)"
  unfolding put_blob_def
proof (rule sends_check)
  assume "check_blob blobs digest = None"
  then obtain blob where b: "blobs digest = Some blob" "DigestBytes blob = digest" by (rule checked_blob)
  show "sends (blob_put C blobs) (\<lambda>new _. blob_stored H blobs new digest) w
      (artifact_call H C c ''PUT'' (blob_url C uploadID digest)
        [(''Content-Type'', ''application/octet-stream'')] (blobs digest) False [201, 204] w)"
  proof (rule sends_mono [OF sends_call])
    show "blob_put C blobs (build_request C ''PUT'' (blob_url C uploadID digest)
        [(''Content-Type'', ''application/octet-stream'')] (blobs digest))"
      using b assms by (auto simp: blob_put_def)
  next
    show "blob_stored H blobs new digest"
      if "case a of (status, hs, data) \<Rightarrow>
        list_ex (\<lambda>(rq, reply).
          rq = build_request C ''PUT'' (blob_url C uploadID digest)
            [(''Content-Type'', ''application/octet-stream'')] (blobs digest) \<and>
          read_response H 0 ''PUT'' [201, 204] reply = Success status hs data) new"
      for new and a :: answer
      using that by (cases a) (auto simp: blob_stored_def list_ex_iff success_reply_def intro: bexI [rotated])
  qed
qed

lemma blobs_sends:
  assumes "rx_match uploadIDPattern uploadID"
  shows "sends (blob_put C blobs) (\<lambda>new _. list_all (blob_stored H blobs new) missing) w
    (each_io (put_blob H C c blobs uploadID) missing w)"
proof (induction missing arbitrary: w)
  case (Cons d ds)
  show ?case unfolding each_io.simps
  proof (rule sends_bind [OF put_sends [OF assms]])
    fix old w1 and a :: answer
    assume d: "blob_stored H blobs old d"
    show "sends (blob_put C blobs) (\<lambda>new b. list_all (blob_stored H blobs (new @ old)) (d # ds)) w1
        (bind_io (each_io (put_blob H C c blobs uploadID) ds) (\<lambda>ys. return_io (a # ys)) w1)"
      by (rule sends_bind [OF Cons.IH])
         (use d in \<open>auto intro!: sends_here simp: return_io_def stored_append list_all_iff\<close>)
  qed
qed (simp add: sends_here)

lemma commit_answer_logs: "sends (blob_put C blobs) (\<lambda>_ _. True) w (commit_answer H C' c answer w)"
proof -
  have "logs_only not_put w w'" if "awaitOperation H C' c op ra d w = (res, w')" for op ra d res w'
    using that await_loop_logs [of w H C' c] unfolding awaitOperation_def by (metis snd_conv)
  then have "logs_only not_put w (snd (commit_answer H C' c answer w))"
    by (auto simp: commit_answer_def split: prod.splits sum.splits option.splits)
  then have "logs_only (blob_put C blobs) w (snd (commit_answer H C' c answer w))"
    by (rule logs_only_mono) (rule not_put_blob)
  then show ?thesis by (auto simp: sends_def logs_only_def split: sum.splits)
qed

lemma commit_sends:
  "sends (blob_put C blobs) (\<lambda>_ digest. digest = expected) w (commit_upload H C c uploadID expected w)"
  unfolding commit_upload_def
proof (rule sends_bind [OF sends_call])
  show "blob_put C blobs (build_request C ''POST'' url hs body)" for url hs body
    by (simp add: blob_put_def)
  fix old w1 and answer :: answer
  show "sends (blob_put C blobs) (\<lambda>new digest. digest = expected) w1
      (bind_io (commit_answer H C c answer)
        (\<lambda>committed. check_io (guard_err (committed = expected) (OtherManifestCommitted committed expected))
           (return_io committed)) w1)"
    by (rule sends_bind [OF commit_answer_logs]) (auto intro!: sends_check sends_here)
qed

lemma upload_sends:
  "sends (blob_put C blobs) (upload_complete H manifest blobs) w (UploadArtifact H C c nonce manifest blobs w)"
  unfolding UploadArtifact_def
proof (intro sends_check sends_lift)
  fix expected
  assume m: "guard_err (manifest \<noteq> None) NoManifest = None"
    and e: "map_sum ManifestCanonical id
        (digestCanonical (h_transform H) (manifest_bytes (the manifest))) = Inr expected"
  have e': "digestCanonical (h_transform H) (manifest_bytes (the manifest)) = Inr expected"
    using e by simp
  show "sends (blob_put C blobs) (upload_complete H manifest blobs) w
      (bind_io (start_upload H C c (the manifest) expected (the nonce))
        (\<lambda>status.
           bind_io (each_io (put_blob H C c blobs (us_uploadID status)) (the (us_missing status)))
             (\<lambda>_. commit_upload H C c (us_uploadID status) expected)) w)"
  proof (rule sends_bind [OF start_sends])
    fix old status w1
    assume s: "upload_started H old status \<and> check_upload status = None"
    then have id: "rx_match uploadIDPattern (us_uploadID status)"
      and missing: "us_missing status = Some (the (us_missing status))"
      by (auto simp: check_upload_def)
    show "sends (blob_put C blobs) (\<lambda>new b. upload_complete H manifest blobs (new @ old) b) w1
        (bind_io (each_io (put_blob H C c blobs (us_uploadID status)) (the (us_missing status)))
          (\<lambda>_. commit_upload H C c (us_uploadID status) expected) w1)"
    proof (rule sends_bind [OF blobs_sends [OF id]])
      fix mid ys w2
      assume "list_all (blob_stored H blobs mid) (the (us_missing status))"
      then show "sends (blob_put C blobs) (\<lambda>new b. upload_complete H manifest blobs ((new @ mid) @ old) b) w2
          (commit_upload H C c (us_uploadID status) expected w2)"
        using m e' s missing
        by (intro sends_mono [OF commit_sends])
           (auto simp: upload_complete_def started_append stored_append list_all_iff
             intro!: exI [of _ status] exI [of _ "the (us_missing status)"])
    qed
  qed
qed

text \<open>
  C15. Every PUT an upload sends carries a blob the caller gave under the digest of its bytes, whatever
  the host answers; and a digest it returns is the canonical digest of the manifest, with every
  blob the host had reported missing stored by the call.
\<close>

theorem upload_content_addressed:
  "case UploadArtifact H C c nonce manifest blobs w of (res, w') \<Rightarrow>
     logs_only (blob_put C blobs) w w' \<and>
     (case res of Inl _ \<Rightarrow> True | Inr digest \<Rightarrow> upload_complete H manifest blobs (new_log w w') digest)"
  using upload_sends [of C blobs H manifest w c nonce]
  by (auto simp: sends_def logs_only_def new_log_append split: prod.splits sum.splits)

text \<open>A manifest read by digest is the decoding of bytes whose canonical digest it is.\<close>

theorem manifest_content_addressed:
  "case GetArtifactManifest H C c digest w of (res, _) \<Rightarrow>
     (case res of
        Inl _ \<Rightarrow> True
      | Inr manifest \<Rightarrow>
          ValidDigest digest \<and>
          (\<exists>data. digestCanonical (h_transform H) data = Inr digest \<and>
             decodeBody H data (dec_map True) None = Inr manifest))"
proof (cases "GetArtifactManifest H C c digest w")
  case (Pair res w')
  show ?thesis
  proof (cases res)
    case (Inr manifest)
    then obtain data where "ValidDigest digest" "check_manifest_answer H digest data = None"
        "map_sum ArtifactCall id (decodeBody H data (dec_map True) None) = Inr manifest"
      using Pair unfolding GetArtifactManifest_def io_Inr return_io_def validWireDigest_def
      by (auto simp: io_Inr)
    then show ?thesis using Pair Inr
      by (auto simp: check_manifest_answer_def split: sum.splits)
  qed (simp add: Pair)
qed

end
