(* ===== verification/PackageFiles.thy ===== *)
theory PackageFiles
  imports Effects DefinitionModel "HOL-Library.AList"
begin

text \<open>
  The file side of the package verifier: \<^verbatim>\<open>formpackage/secure_open_unix.go\<close> and the root,
  inventory and read functions of \<^verbatim>\<open>formpackage/verify.go\<close>. The operating system is a
  parameter, a \<open>platform\<close> whose every call may answer anything and change the world, so a
  file that is swapped while it is verified is one of its behaviours. The model writes out
  what the code does with each answer. The last section counts descriptors.
\<close>

section \<open>File information\<close>

text \<open>\<^verbatim>\<open>fs.FileMode\<close> is 32 bits; \<^verbatim>\<open>os.SameFile\<close> compares the identity. A time is its instant
  together with what else its representation holds.\<close>

type_synonym go_time = "int \<times> nat"

record file_info =
  fi_mode :: "32 word"
  fi_size :: int
  fi_modTime :: go_time
  fi_identity :: nat

definition ModeDir :: "32 word" where "ModeDir = 0x80000000"
definition ModeSymlink :: "32 word" where "ModeSymlink = 0x08000000"
definition ModeType :: "32 word" where "ModeType = 0x8F280000"

definition is_dir :: "file_info \<Rightarrow> bool" where "is_dir i \<longleftrightarrow> and (fi_mode i) ModeDir \<noteq> 0"
definition is_symlink :: "file_info \<Rightarrow> bool" where "is_symlink i \<longleftrightarrow> and (fi_mode i) ModeSymlink \<noteq> 0"
definition is_regular :: "file_info \<Rightarrow> bool" where "is_regular i \<longleftrightarrow> and (fi_mode i) ModeType = 0"
definition is_executable :: "file_info \<Rightarrow> bool" where "is_executable i \<longleftrightarrow> and (fi_mode i) 0x49 \<noteq> 0"

definition same_instant :: "go_time \<Rightarrow> go_time \<Rightarrow> bool" where "same_instant s t \<longleftrightarrow> fst s = fst t"
definition same_file :: "file_info \<Rightarrow> file_info \<Rightarrow> bool" where "same_file i j \<longleftrightarrow> fi_identity i = fi_identity j"

definition sameStableMetadata :: "file_info \<Rightarrow> file_info \<Rightarrow> bool" where
  "sameStableMetadata left right \<longleftrightarrow>
     fi_mode left = fi_mode right \<and> fi_size left = fi_size right \<and>
     same_instant (fi_modTime left) (fi_modTime right)"

section \<open>The system\<close>

text \<open>
  What \<^verbatim>\<open>filepath.WalkDir\<close> hands its callback, in order: an error, the root itself, or an entry
  with its path below the root and the answer of \<^verbatim>\<open>entry.Info\<close>. A file's content is what can be
  read of it and whether reading then fails.
\<close>

datatype walk_event = Walk_Error | Walk_Root | Walk_Entry bytes "file_info option"

record 'w platform =
  os_lstat :: "bytes \<Rightarrow> 'w \<Rightarrow> file_info option \<times> 'w"
  os_openRoot :: "bytes \<Rightarrow> 'w \<Rightarrow> nat option \<times> 'w"
  os_dup :: "nat \<Rightarrow> 'w \<Rightarrow> nat option \<times> 'w"
  os_openat :: "nat \<Rightarrow> bytes \<Rightarrow> bool \<Rightarrow> 'w \<Rightarrow> nat option \<times> 'w"
  os_close :: "nat \<Rightarrow> 'w \<Rightarrow> 'w"
  os_stat :: "nat \<Rightarrow> 'w \<Rightarrow> file_info option \<times> 'w"
  os_content :: "nat \<Rightarrow> 'w \<Rightarrow> (bytes \<times> bool) \<times> 'w"
  os_walk :: "bytes \<Rightarrow> 'w \<Rightarrow> walk_event list \<times> 'w"

datatype file_error =
    RootInspect | RootNotDirectory | RootOpen | RootInspectOpened | RootChangedOpening
  | RootReinspectHandle | RootReinspect | RootChanged
  | WalkFailed | EntryInfo bytes | EntrySymlink bytes | EntryNotRegular bytes | EntryExecutable bytes
  | EntryExtension bytes | EntryPath bytes path_error | NoIndexFile
  | NotInventoried | ReadPath path_error | ReadLstat | ReadNotRegular | ReadIdentity | ReadExecutable
  | ReadTooLarge int | OpenPath path_error | OpenDup | OpenComponent bytes | OpenFile bytes
  | ReadStat | ReadChangedOpening | ReadFailed | ReadGrew | ReadStatAfter | ReadLstatAfter
  | ReadChangedReading

text \<open>An answer of the system, \<open>None\<close> being the error.\<close>

definition ask :: "'e \<Rightarrow> ('w \<Rightarrow> 'a option \<times> 'w) \<Rightarrow> ('w, 'e, 'a) action" where
  "ask e call w = (case call w of (None, w') \<Rightarrow> (Inl e, w') | (Some a, w') \<Rightarrow> (Inr a, w'))"

lemma ask_Inr [err_simps]: "ask e call w = (Inr a, w') \<longleftrightarrow> call w = (Some a, w')"
  by (auto simp: ask_def split: prod.splits option.splits)

text \<open>\<^verbatim>\<open>defer handle.Close()\<close>.\<close>

definition closing :: "'w platform \<Rightarrow> nat \<Rightarrow> ('w, 'e, 'a) action \<Rightarrow> ('w, 'e, 'a) action" where
  "closing OS h m w = (case m w of (r, w') \<Rightarrow> (r, os_close OS h w'))"

lemma closing_Inr [err_simps]:
  "closing OS h m w = (Inr a, w') \<longleftrightarrow> (\<exists>w1. m w = (Inr a, w1) \<and> w' = os_close OS h w1)"
  by (auto simp: closing_def split: prod.splits)

section \<open>Opening\<close>

fun open_components :: "'w platform \<Rightarrow> nat \<Rightarrow> bytes list \<Rightarrow> ('w, file_error, nat) action" where
  "open_components OS current [] w = (Inr current, w)"
| "open_components OS current (c # cs) w =
     (case os_openat OS current c True w of
        (None, w') \<Rightarrow> (Inl (OpenComponent c), os_close OS current w')
      | (Some following, w') \<Rightarrow> open_components OS following cs (os_close OS current w'))"

definition secureOpenRelative :: "'w platform \<Rightarrow> nat \<Rightarrow> bytes \<Rightarrow> ('w, file_error, nat) action" where
  "secureOpenRelative OS rootHandle relative =
     (let components = split_on CHR ''/'' relative in
      check_io (map_option OpenPath (validatePackagePath relative))
       (bind_io (ask OpenDup (os_dup OS rootHandle)) (\<lambda>dup.
        bind_io (open_components OS dup (butlast components)) (\<lambda>current.
        closing OS current (ask (OpenFile relative) (os_openat OS current (last components) False))))))"

definition openStablePackageRoot :: "'w platform \<Rightarrow> bytes \<Rightarrow> ('w, file_error, nat \<times> file_info) action" where
  "openStablePackageRoot OS dir =
     bind_io (ask RootInspect (os_lstat OS dir)) (\<lambda>before.
     check_io (guard_err (is_dir before \<and> \<not> is_symlink before) RootNotDirectory)
      (bind_io (ask RootOpen (os_openRoot OS dir)) (\<lambda>h w.
        case os_stat OS h w of
          (None, w') \<Rightarrow> (Inl RootInspectOpened, os_close OS h w')
        | (Some opened, w') \<Rightarrow>
            if \<not> is_dir opened \<or> \<not> same_file before opened \<or> \<not> sameStableMetadata before opened
            then (Inl RootChangedOpening, os_close OS h w')
            else (Inr (h, opened), w'))))"

definition assertPackageRootStable ::
  "'w platform \<Rightarrow> bytes \<Rightarrow> nat \<Rightarrow> file_info \<Rightarrow> ('w, file_error, unit) action" where
  "assertPackageRootStable OS dir h expected =
     bind_io (ask RootReinspectHandle (os_stat OS h)) (\<lambda>opened.
     bind_io (ask RootReinspect (os_lstat OS dir)) (\<lambda>current.
     check_io (guard_err
        (\<not> (is_symlink current \<or> \<not> is_dir current \<or> \<not> same_file expected opened \<or> \<not> same_file opened current \<or>
            \<not> sameStableMetadata expected opened \<or> \<not> sameStableMetadata opened current)) RootChanged)
       (return_io ())))"

section \<open>Inventory\<close>

definition executableExtensions :: "bytes list" where
  "executableExtensions =
     [''.bat'', ''.bin'', ''.c'', ''.cc'', ''.class'', ''.cmd'',
      ''.com'', ''.cpp'', ''.cs'', ''.cxx'', ''.dll'', ''.dylib'',
      ''.exe'', ''.go'', ''.groovy'', ''.h'', ''.hcl'', ''.hpp'',
      ''.htm'', ''.html'', ''.jar'', ''.java'', ''.js'', ''.jsx'',
      ''.kt'', ''.kts'', ''.lua'', ''.mjs'', ''.php'', ''.pl'',
      ''.ps1'', ''.py'', ''.rb'', ''.rs'', ''.scala'', ''.sh'',
      ''.so'', ''.sql'', ''.svelte'', ''.swift'', ''.tf'', ''.ts'',
      ''.tsx'', ''.vue'', ''.wasm'']"

text \<open>\<^verbatim>\<open>path.Ext\<close>: from the last dot of the last element on.\<close>

definition path_ext :: "bytes \<Rightarrow> bytes" where
  "path_ext s =
     (let base = rev (takeWhile (\<lambda>c. c \<noteq> CHR ''/'') (rev s)) in
      case split_last CHR ''.'' base of None \<Rightarrow> [] | Some (_, e) \<Rightarrow> CHR ''.'' # e)"

definition extension :: "unicode \<Rightarrow> bytes \<Rightarrow> bytes" where
  "extension U p = go_to_lower U (path_ext p)"

type_synonym inventory = "(bytes \<times> file_info) list"

definition inventory_entry ::
  "unicode \<Rightarrow> bytes \<Rightarrow> file_info \<Rightarrow> inventory \<Rightarrow> file_error + inventory" where
  "inventory_entry U relative info files =
     (if is_symlink info then Inl (EntrySymlink relative)
      else if is_dir info then Inr files
      else if \<not> is_regular info then Inl (EntryNotRegular relative)
      else if is_executable info then Inl (EntryExecutable relative)
      else if List.member executableExtensions (extension U relative) then Inl (EntryExtension relative)
      else check_then (map_option (EntryPath relative) (validatePackagePath relative))
        (Inr (AList.update relative info files)))"

fun inventory_walk :: "unicode \<Rightarrow> walk_event list \<Rightarrow> inventory \<Rightarrow> file_error + inventory" where
  "inventory_walk U [] files = Inr files"
| "inventory_walk U (Walk_Error # events) files = Inl WalkFailed"
| "inventory_walk U (Walk_Root # events) files = inventory_walk U events files"
| "inventory_walk U (Walk_Entry relative None # events) files = Inl (EntryInfo relative)"
| "inventory_walk U (Walk_Entry relative (Some info) # events) files =
     bind_res (inventory_entry U relative info files) (inventory_walk U events)"

definition inventoryDirectory ::
  "'w platform \<Rightarrow> unicode \<Rightarrow> bytes \<Rightarrow> ('w, file_error, inventory) action" where
  "inventoryDirectory OS U dir w =
     (case os_walk OS dir w of
        (events, w') \<Rightarrow>
          (bind_res (inventory_walk U events []) (\<lambda>files.
             if map_of files PackageIndexFilename = None then Inl NoIndexFile else Inr files), w'))"

section \<open>Reading\<close>

text \<open>\<^verbatim>\<open>io.ReadAll(io.LimitReader(handle, limit))\<close>: a failure behind the limit is not seen.\<close>

definition read_limited :: "'w platform \<Rightarrow> nat \<Rightarrow> int \<Rightarrow> ('w, file_error, bytes) action" where
  "read_limited OS h limit w =
     (case os_content OS h w of
        ((available, failing), w') \<Rightarrow>
          if int (length available) \<ge> limit then (Inr (take (nat limit) available), w')
          else if failing then (Inl ReadFailed, w') else (Inr available, w'))"

definition readBoundedRegularFile ::
  "'w platform \<Rightarrow> nat \<Rightarrow> bytes \<Rightarrow> bytes \<Rightarrow> int \<Rightarrow> file_info option \<Rightarrow> ('w, file_error, bytes) action" where
  "readBoundedRegularFile OS rootHandle dir relative maximum found =
     (case found of
        None \<Rightarrow> fail_io NotInventoried
      | Some inventoried \<Rightarrow>
     check_io (map_option ReadPath (validatePackagePath relative))
     (let filePath = path_join [dir, relative] in
     bind_io (ask ReadLstat (os_lstat OS filePath)) (\<lambda>before.
     check_io (guard_err (is_regular before \<and> \<not> is_symlink before) ReadNotRegular)
     (check_io (guard_err (same_file inventoried before) ReadIdentity)
     (check_io (guard_err (\<not> is_executable before) ReadExecutable)
     (check_io (guard_err (fi_size before \<le> maximum) (ReadTooLarge (fi_size before)))
     (bind_io (secureOpenRelative OS rootHandle relative) (\<lambda>h. closing OS h
      (bind_io (ask ReadStat (os_stat OS h)) (\<lambda>opened.
      check_io (guard_err (\<not> (\<not> is_regular opened \<or> is_executable opened \<or>
          \<not> same_file inventoried opened \<or> \<not> sameStableMetadata before opened)) ReadChangedOpening)
      (bind_io (read_limited OS h (maximum + 1)) (\<lambda>raw.
      check_io (guard_err (int (length raw) \<le> maximum) ReadGrew)
      (bind_io (ask ReadStatAfter (os_stat OS h)) (\<lambda>afterHandle.
      bind_io (ask ReadLstatAfter (os_lstat OS filePath)) (\<lambda>afterPath.
      check_io (guard_err (\<not> (is_symlink afterPath \<or> \<not> same_file opened afterPath \<or>
          \<not> sameStableMetadata opened afterHandle \<or> \<not> sameStableMetadata opened afterPath)) ReadChangedReading)
       (return_io raw))))))))))))))))"

end
