(* ===== verification/DefinitionValidation.thy ===== *)
theory DefinitionValidation
  imports DefinitionModel
begin

text \<open>
  The constraints of a Form Definition against its desired schema, and the whole validation
  of \<^verbatim>\<open>formpackage/schema.go\<close>: Form, Interface and Binding Definitions, desired instances,
  portable data and package indexes.
\<close>

section \<open>Pointers into the desired schema\<close>

datatype node_error =
    NotNonRootPointer | BadPropertyToken bytes | NoProperties | UndeclaredProperty

fun schema_node :: "object \<Rightarrow> bool \<Rightarrow> bytes list \<Rightarrow> node_error + object \<times> bool" where
  "schema_node current required [] = Inr (current, required)"
| "schema_node current required (raw # raws) =
     (case decodeJSONPointerToken raw of
        None \<Rightarrow> Inl (BadPropertyToken raw)
      | Some name \<Rightarrow>
          if name = [] \<or> name = ''*'' then Inl (BadPropertyToken raw)
          else (case as_obj (field current ''properties'') of
                  None \<Rightarrow> Inl NoProperties
                | Some properties \<Rightarrow>
                    (case as_obj (field properties name) of
                       None \<Rightarrow> Inl UndeclaredProperty
                     | Some next \<Rightarrow>
                         schema_node next (required \<and> stringSetContains (field current ''required'') name) raws)))"

definition desiredSchemaNodeAtPointer :: "object \<Rightarrow> bytes \<Rightarrow> node_error + object \<times> bool" where
  "desiredSchemaNodeAtPointer schema pointer =
     (if pointer = [] \<or> \<not> has_prefix pointer ''/'' \<or> has_suffix pointer ''/'' then Inl NotNonRootPointer
      else schema_node schema True (split_on CHR ''/'' (trim_prefix pointer ''/'')))"

definition portableScalarSchemaType :: "gval \<Rightarrow> bool" where
  "portableScalarSchemaType v =
     (case as_str v of
        None \<Rightarrow> False
      | Some t \<Rightarrow> List.member [''string'', ''integer'', ''number'', ''boolean''] t)"

text \<open>The walk stops silently below depth 64, so the first argument counts down from 65.\<close>

fun relation_walk :: "nat \<Rightarrow> object \<Rightarrow> bytes \<Rightarrow> bytes list" where
  "relation_walk 0 node pointer = []"
| "relation_walk (Suc n) node pointer =
     (if has_key node ''x-takoform-target-formrefs'' \<or> has_key node ''x-takoform-required-interface''
      then (if pointer = [] then [] else [pointer])
      else concat (map (\<lambda>raw. case as_obj raw of None \<Rightarrow> [] | Some branch \<Rightarrow> relation_walk n branch pointer)
             (list_or_nil (field node ''oneOf''))) @
           (case as_obj (field node ''items'') of
              None \<Rightarrow> [] | Some items \<Rightarrow> relation_walk n items (pointer @ ''/*'')) @
           concat (map (\<lambda>(name, raw).
               case as_obj raw of
                 None \<Rightarrow> []
               | Some child \<Rightarrow> relation_walk n child (pointer @ ''/'' @ escapePointer name))
             (map_or_nil (field node ''properties''))))"

definition definitionRelationPointers :: "object \<Rightarrow> bytes list" where
  "definitionRelationPointers schema = relation_walk 65 schema []"

section \<open>Constraints\<close>

datatype constraint_error =
    OrderedPairPointer nat bytes node_error | OrderedPairNotNumeric nat bytes
  | UniqueByList nat bytes node_error | UniqueByNotArray nat bytes | UniqueByNotObjects nat bytes
  | UniqueByNotRequired nat bytes bytes | UniqueByNotScalar nat bytes bytes
  | NotRelation nat bytes bytes

definition ordered_pointer :: "object \<Rightarrow> nat \<Rightarrow> bytes \<Rightarrow> constraint_error option" where
  "ordered_pointer schema i pointer =
     (case desiredSchemaNodeAtPointer schema pointer of
        Inl e \<Rightarrow> Some (OrderedPairPointer i pointer e)
      | Inr (node, required) \<Rightarrow>
          guard_err (required \<and> (field node ''type'' = VStr ''integer'' \<or> field node ''type'' = VStr ''number''))
            (OrderedPairNotNumeric i pointer))"

definition unique_by :: "object \<Rightarrow> nat \<Rightarrow> form_constraint \<Rightarrow> constraint_error option" where
  "unique_by schema i c =
     (case desiredSchemaNodeAtPointer schema (fc_list c) of
        Inl e \<Rightarrow> Some (UniqueByList i (fc_list c) e)
      | Inr (lst, _) \<Rightarrow>
          if field lst ''type'' \<noteq> VStr ''array'' then Some (UniqueByNotArray i (fc_list c))
          else (case as_obj (field lst ''items'') of
                  None \<Rightarrow> Some (UniqueByNotObjects i (fc_list c))
                | Some items \<Rightarrow>
                    if field items ''type'' \<noteq> VStr ''object'' then Some (UniqueByNotObjects i (fc_list c))
                    else (case as_obj (field items ''properties'') of
                            None \<Rightarrow> Some (UniqueByNotRequired i (fc_member c) (fc_list c))
                          | Some properties \<Rightarrow>
                              if \<not> stringSetContains (field items ''required'') (fc_member c)
                              then Some (UniqueByNotRequired i (fc_member c) (fc_list c))
                              else (case as_obj (field properties (fc_member c)) of
                                      None \<Rightarrow> Some (UniqueByNotScalar i (fc_member c) (fc_list c))
                                    | Some m \<Rightarrow>
                                        guard_err (portableScalarSchemaType (field m ''type''))
                                          (UniqueByNotScalar i (fc_member c) (fc_list c))))))"

definition validateDefinitionStructuralConstraints :: "form_definition \<Rightarrow> constraint_error option" where
  "validateDefinitionStructuralConstraints d =
     first_err (map (\<lambda>(i, c).
         if fc_kind c = ''orderedPair'' then
           first_err (map (ordered_pointer (map_of_nil (fd_desiredSchema d)) i) (fc_references c))
         else if fc_kind c = ''uniqueBy'' then unique_by (map_of_nil (fd_desiredSchema d)) i c
         else None)
       (enumerate 0 (fd_constraints d)))"

definition local_pointers :: "form_constraint \<Rightarrow> bytes list" where
  "local_pointers c =
     (if fc_kind c = ''acyclic'' then [fc_reference c]
      else if fc_kind c = ''distinctPair'' \<or> fc_kind c = ''uniquePair'' then fc_references c
      else if fc_kind c = ''sameResolvedTarget'' then [fc_anchor c, fc_members c]
      else [])"

definition relation_kinds :: "bytes list" where
  "relation_kinds = [''acyclic'', ''distinctPair'', ''uniquePair'', ''sameResolvedTarget'']"

definition validateDefinitionConstraintRelations :: "form_definition \<Rightarrow> constraint_error option" where
  "validateDefinitionConstraintRelations d =
     (case validateDefinitionStructuralConstraints d of
        Some e \<Rightarrow> Some e
      | None \<Rightarrow>
          if \<not> list_ex (\<lambda>c. List.member relation_kinds (fc_kind c)) (fd_constraints d) then None
          else (let relations = definitionRelationPointers (map_of_nil (fd_desiredSchema d)) in
                first_err (map (\<lambda>(i, c).
                  first_err (map (\<lambda>pointer.
                      guard_err (List.member relations pointer) (NotRelation i (fc_kind c) pointer))
                    (local_pointers c)))
                  (enumerate 0 (fd_constraints d)))))"

section \<open>Form Definitions\<close>

datatype definition_error =
    DefSchemasNotLoaded | DefNotJSON | DefUnsupported bytes | DefDocument document_error
  | DefPolicy policy_error | DefInline bytes inline_error | DefInterfaceDocument nat
  | DefSemantics semantics_error | DefConstraint constraint_error | DefCapability

record compiled_schemas =
  cs_desired :: "gval \<Rightarrow> bool"
  cs_observed :: "(gval \<Rightarrow> bool) option"
  cs_output :: "(gval \<Rightarrow> bool) option"

definition definition_schema :: "bytes \<Rightarrow> family_profile \<Rightarrow> schema_id option" where
  "definition_schema apiVersion profile =
     (if apiVersion = LegacyFormAPIVersion then Some legacyDefinition
      else if apiVersion = CurrentFormAPIVersion then Some currentDefinition
      else if NamespacedFormGroup apiVersion then
        Some (case profile of
                retainedBetaFamilyProfile \<Rightarrow> betaFamilyDefinition
              | currentNeutralFamilyProfile \<Rightarrow> stableFamilyDefinition)
      else None)"

definition inline_schema ::
  "unicode \<Rightarrow> 'v engines \<Rightarrow> object \<Rightarrow> bytes \<Rightarrow> definition_error + (gval \<Rightarrow> bool)" where
  "inline_schema U E schema name =
     (case compileInlineSchema U E schema name of Inl e \<Rightarrow> Inl (DefInline name e) | Inr f \<Rightarrow> Inr f)"

definition optional_schema ::
  "unicode \<Rightarrow> 'v engines \<Rightarrow> object option \<Rightarrow> bytes \<Rightarrow> definition_error + (gval \<Rightarrow> bool) option" where
  "optional_schema U E schema name =
     (case schema of
        None \<Rightarrow> Inr None
      | Some m \<Rightarrow> bind_res (inline_schema U E m name) (\<lambda>f. Inr (Some f)))"

definition descriptor_document ::
  "unicode \<Rightarrow> 'v engines \<Rightarrow> nat \<times> interface_descriptor \<Rightarrow> definition_error option" where
  "descriptor_document U E = (\<lambda>(i, d).
     case id_documentSchema d of
       None \<Rightarrow> None
     | Some schema \<Rightarrow>
         (case inline_schema U E schema (''interfaces['' @ decimal i @ ''].documentSchema'') of
            Inl e \<Rightarrow> Some e
          | Inr validates \<Rightarrow> guard_err (validates (VObj (id_document d))) (DefInterfaceDocument i)))"

definition validateDefinitionWithFamilyProfile ::
  "libs \<Rightarrow> 'v engines \<Rightarrow> bytes \<Rightarrow> family_profile \<Rightarrow>
     definition_error + form_definition \<times> gval \<times> compiled_schemas" where
  "validateDefinitionWithFamilyProfile L E raw profile =
     (if \<not> lib_schemas L then Inl DefSchemasNotLoaded
      else case envelope_api raw of
        None \<Rightarrow> Inl DefNotJSON
      | Some apiVersion \<Rightarrow>
          (case definition_schema apiVersion profile of
             None \<Rightarrow> Inl (DefUnsupported apiVersion)
           | Some schema \<Rightarrow>
               (case validateDocumentWithValue L raw schema (dec_struct False definition_fields) empty_definition of
                  Inl e \<Rightarrow> Inl (DefDocument e)
                | Inr (d, v) \<Rightarrow>
                    check_then (map_option DefPolicy (rejectForbiddenContent (lib_unicode L) v ''$''))
                      (bind_res (inline_schema (lib_unicode L) E (map_of_nil (fd_desiredSchema d)) ''desiredSchema'') (\<lambda>desired.
                       bind_res (optional_schema (lib_unicode L) E (fd_observedSchema d) ''observedSchema'') (\<lambda>observed.
                       bind_res (optional_schema (lib_unicode L) E (fd_outputSchema d) ''outputSchema'') (\<lambda>output.
                         check_then (first_err (map (descriptor_document (lib_unicode L) E)
                             (enumerate 0 (fd_interfaces d))))
                           (check_then (map_option DefSemantics (validateDefinitionSemantics d))
                             (check_then (map_option DefConstraint (validateDefinitionConstraintRelations d))
                               (Inr (d, v, \<lparr>cs_desired = desired, cs_observed = observed, cs_output = output\<rparr>)))))))))))"

definition validateDefinitionWithSchemas ::
  "libs \<Rightarrow> 'v engines \<Rightarrow> bytes \<Rightarrow> definition_error + form_definition \<times> gval \<times> compiled_schemas" where
  "validateDefinitionWithSchemas L E raw =
     validateDefinitionWithFamilyProfile L E raw currentNeutralFamilyProfile"

definition ValidateDefinition :: "libs \<Rightarrow> 'v engines \<Rightarrow> bytes \<Rightarrow> definition_error + form_definition" where
  "ValidateDefinition L E raw =
     bind_res (validateDefinitionWithSchemas L E raw) (\<lambda>(d, _, _). Inr d)"

definition RevalidateDefinition ::
  "libs \<Rightarrow> 'v engines \<Rightarrow> verified_package \<Rightarrow> definition_error + form_definition" where
  "RevalidateDefinition L E p =
     (if \<not> package_Valid p then Inl DefCapability
      else bind_res (validateDefinitionWithFamilyProfile L E (vd_canonicalDefinition (the p))
             (familyProfileForPackage (pi_apiVersion (vd_index (the p))))) (\<lambda>(d, _, _). Inr d))"

section \<open>Other documents\<close>

datatype contract_error =
    ContractSchemasNotLoaded | ContractDocument document_error
  | ContractInterface interface_error | ContractBinding binding_error

definition ValidateInterfaceDefinition :: "libs \<Rightarrow> bytes \<Rightarrow> contract_error option" where
  "ValidateInterfaceDefinition L raw =
     (if \<not> lib_schemas L then Some ContractSchemasNotLoaded
      else case validateDocument L raw interfaceDefinition (dec_any False) VNull of
        Inl e \<Rightarrow> Some (ContractDocument e)
      | Inr document \<Rightarrow> map_option ContractInterface (validateInterfaceDefinitionSemantics document))"

definition ValidateBindingDefinition :: "libs \<Rightarrow> 'v engines \<Rightarrow> bytes \<Rightarrow> contract_error option" where
  "ValidateBindingDefinition L E raw =
     (if \<not> lib_schemas L then Some ContractSchemasNotLoaded
      else case validateDocument L raw bindingDefinition (dec_any False) VNull of
        Inl e \<Rightarrow> Some (ContractDocument e)
      | Inr document \<Rightarrow>
          map_option ContractBinding
            (validateBindingDefinitionSemantics (en_compiles E) (en_parse E) document))"

text \<open>The schema takes the detour through its JSON text; the values of a schema can always be
  marshalled, so that error of the code does not occur.\<close>

datatype instance_error =
    SchemaDecode | SchemaNotObject | InstanceSchema inline_error | InstanceInvalid

definition ValidateDesiredInstance ::
  "unicode \<Rightarrow> 'v engines \<Rightarrow> object option \<Rightarrow> gval \<Rightarrow> instance_error option" where
  "ValidateDesiredInstance U E schema v =
     (case Unmarshal (marshal_any (nil_value schema)) (dec_any True) VNull of
        None \<Rightarrow> Some SchemaDecode
      | Some normalizedValue \<Rightarrow>
          (case as_obj normalizedValue of
             None \<Rightarrow> Some SchemaNotObject
           | Some normalized \<Rightarrow>
               (case compileInlineSchema U E normalized ''desiredSchema'' of
                  Inl e \<Rightarrow> Some (InstanceSchema e)
                | Inr validates \<Rightarrow> guard_err (validates v) InstanceInvalid)))"

definition ValidatePortableData :: "unicode \<Rightarrow> gval \<Rightarrow> policy_error option" where
  "ValidatePortableData U v = rejectForbiddenContent U v ''$runtime''"

datatype index_error =
    IndexSchemasNotLoaded | IndexCanonical canonical_error | IndexNotJSON | IndexUnsupported bytes
  | IndexDocument document_error

definition empty_file :: package_file where
  "empty_file = \<lparr>pf_path = [], pf_mediaType = [], pf_size = 0, pf_digest = []\<rparr>"

definition file_fields :: "package_file struct_fields" where
  "file_fields =
     [(''path'', member dec_str pf_path pf_path_update),
      (''mediaType'', member dec_str pf_mediaType pf_mediaType_update),
      (''size'', member dec_int pf_size pf_size_update),
      (''digest'', member dec_str pf_digest pf_digest_update)]"

definition index_fields :: "package_index struct_fields" where
  "index_fields =
     [(''apiVersion'', member dec_str pi_apiVersion pi_apiVersion_update),
      (''kind'', member dec_str pi_kind pi_kind_update),
      (''packageVersion'', member dec_str pi_packageVersion pi_packageVersion_update),
      (''formRef'', member (dec_form_ref False) pi_formRef pi_formRef_update),
      (''definitionPath'', member dec_str pi_definitionPath pi_definitionPath_update),
      (''files'', member (dec_slice (dec_struct False file_fields) empty_file) pi_files pi_files_update)]"

definition index_schema :: "bytes \<Rightarrow> schema_id option" where
  "index_schema apiVersion =
     map_of [(PackageAPIVersion, indexV1Alpha1), (LegacyContentAddressedPackageAPIVersion, indexV1Alpha2),
       (CurrentPackageAPIVersion, indexV1Alpha3), (FamilyPackageAPIVersion, indexV1Alpha4),
       (VersionlessFamilyPackageAPIVersion, indexV1Alpha5)] apiVersion"

definition validateIndex :: "libs \<Rightarrow> bytes \<Rightarrow> index_error + package_index \<times> gval" where
  "validateIndex L raw =
     (if \<not> lib_schemas L then Inl IndexSchemasNotLoaded
      else case Canonicalize (lib_transform L) raw of
        Inl e \<Rightarrow> Inl (IndexCanonical e)
      | Inr _ \<Rightarrow>
          (case envelope_api raw of
             None \<Rightarrow> Inl IndexNotJSON
           | Some apiVersion \<Rightarrow>
               (case index_schema apiVersion of
                  None \<Rightarrow> Inl (IndexUnsupported apiVersion)
                | Some schema \<Rightarrow>
                    (case validateDocumentWithValue L raw schema (dec_struct False index_fields) empty_index of
                       Inl e \<Rightarrow> Inl (IndexDocument e)
                     | Inr r \<Rightarrow> Inr r))))"

definition ValidatePackageIndex :: "libs \<Rightarrow> bytes \<Rightarrow> index_error + package_index" where
  "ValidatePackageIndex L raw = bind_res (validateIndex L raw) (\<lambda>(index, _). Inr index)"

end
