(* ===== verification/SchemaSoundness.thy ===== *)
theory SchemaSoundness
  imports SchemaWork GoFloat
begin

text \<open>
  What the closure proof proves. Canonical pointers determine the nodes of a document
  (\<open>at_unique\<close>), so the memo can be read as statements about nodes: \<open>node_invariant\<close> says
  that a property of node results which holds of every node when it holds of its children
  and its reference holds of everything the memoised walk returns. Two properties are put
  through it: that the graph below a node is no deeper than its result says, which bounds
  the work estimates, and that the admission mode is right for every instance.
\<close>

section \<open>Canonical pointers\<close>

definition array_index :: "bytes \<Rightarrow> nat option" where
  "array_index t =
     (if t \<noteq> [] \<and> list_all is_digit t then Some (digits_value t) else map_option nat (parse_int64 t))"

inductive node_at :: "gval \<Rightarrow> bytes \<Rightarrow> gval \<Rightarrow> bool" for doc where
  at_doc: "node_at doc ''#'' doc"
| at_member: "node_at doc p (VObj m) \<Longrightarrow> has_key m t \<Longrightarrow> node_at doc (appendSchemaPointer p [t]) (field m t)"
| at_item: "node_at doc p (VArr xs) \<Longrightarrow> array_index t = Some i \<Longrightarrow> i < length xs \<Longrightarrow>
     node_at doc (appendSchemaPointer p [t]) (xs ! i)"

lemma append_one: "appendSchemaPointer p [t] = p @ CHR ''/'' # escapePointer t"
  by (simp add: appendSchemaPointer_def replace_token_escape)

lemma append_two: "appendSchemaPointer p [s, t] = appendSchemaPointer (appendSchemaPointer p [s]) [t]"
  by (simp add: appendSchemaPointer_def)

lemma append_inject: "appendSchemaPointer p [t] = appendSchemaPointer q [u] \<longleftrightarrow> p = q \<and> t = u"
proof
  assume "appendSchemaPointer p [t] = appendSchemaPointer q [u]"
  then have "split_last CHR ''/'' (p @ CHR ''/'' # escapePointer t) = split_last CHR ''/'' (q @ CHR ''/'' # escapePointer u)"
    by (simp add: append_one)
  then have "p = q \<and> escapePointer t = escapePointer u"
    by (simp add: split_last_append escape_no_slash)
  then show "p = q \<and> t = u" by (metis decode_escape option.inject)
qed simp

lemma append_not_doc: "appendSchemaPointer p [t] \<noteq> ''#''"
proof
  assume "appendSchemaPointer p [t] = ''#''"
  then have "set (p @ CHR ''/'' # escapePointer t) = {CHR ''#''}" by (simp add: append_one)
  then show False by auto
qed

inductive_cases at_appendE: "node_at doc (appendSchemaPointer p [t]) v"

lemma at_unique: "node_at doc p v \<Longrightarrow> node_at doc p w \<Longrightarrow> w = v"
proof (induction arbitrary: w rule: node_at.induct)
  case at_doc
  then show ?case by cases (use append_not_doc in \<open>force+\<close>)
next
  case (at_member p m t)
  from at_member.prems show ?case
    by cases (use at_member append_not_doc [of p t] in \<open>auto simp: append_inject\<close>)
next
  case (at_item p xs t i)
  from at_item.prems show ?case
    by cases (use at_item append_not_doc [of p t] in \<open>auto simp: append_inject\<close>)
qed

lemma array_index_decimal [simp]: "array_index (decimal i) = Some i"
  using decimal_digits [of i] by (simp add: array_index_def)

lemma array_index_parse: "parse_int64 t = Some i \<Longrightarrow> 0 \<le> i \<Longrightarrow> array_index t = Some (nat i)"
  by (cases t) (auto simp: array_index_def parse_int64_def all_digits_def Let_def is_digit_def code_def
    split: if_splits)

lemma at_token: "node_at doc p v \<Longrightarrow> resolve_token v t = Inr w \<Longrightarrow> node_at doc (appendSchemaPointer p [t]) w"
  by (cases v) (auto simp: resolve_token_def array_index_parse nat_less_iff
    intro: at_member at_item split: if_splits option.splits)

lemma at_tokens: "node_at doc p v \<Longrightarrow> resolve_tokens v p raws = Inr (w, q) \<Longrightarrow> node_at doc q w"
proof (induction raws arbitrary: v p)
  case (Cons raw raws)
  then obtain t u where "resolve_token v t = Inr u" "resolve_tokens u (appendSchemaPointer p [t]) raws = Inr (w, q)"
    by (auto simp: err_simps split: option.splits)
  then show ?case using Cons.IH at_token [OF Cons.prems(1)] by blast
qed simp

lemma at_reference: "resolveLocalSchemaReference doc reference = Inr (w, q) \<Longrightarrow> node_at doc q w"
  using at_tokens [OF at_doc]
  by (auto simp: resolveLocalSchemaReference_def at_doc split: if_splits option.splits)

lemma at_wf: "node_at doc p v \<Longrightarrow> wf_value doc \<Longrightarrow> wf_value v"
proof (induction rule: node_at.induct)
  case (at_member p m t)
  then show ?case using field_mem [of m t] by (auto simp: wf_fields_iff)
qed (auto simp: wf_values_iff)

subsection \<open>Children\<close>

lemma at_object_children:
  assumes "node_at doc p (VObj schema)" and "wf_value doc"
    and "object_children schema l p keyword = Inr cs" and "(v, l', q) \<in> set cs"
  shows "node_at doc q v"
proof -
  from assms(3,4) obtain m name where m: "field schema keyword = VObj m" "has_key schema keyword"
      and v: "(name, v) \<in> set m" and q: "q = appendSchemaPointer (appendSchemaPointer p [keyword]) [name]"
    by (auto simp: object_children_def schemaObjectKeyword_def append_two split: if_splits option.splits)
  then have at: "node_at doc (appendSchemaPointer p [keyword]) (VObj m)" using at_member [OF assms(1)] by metis
  from at_wf [OF this assms(2)] v have "has_key m name" "field m name = v"
    by (auto simp: field_def has_key_def)
  with at_member [OF at, of name] q show ?thesis by simp
qed

lemma at_single_children:
  assumes "node_at doc p (VObj schema)" and "(v, l', q) \<in> set (single_children schema l p)"
  shows "node_at doc q v"
  using assms(2) at_member [OF assms(1)] by (auto simp: single_children_def)

lemma indexed_children_nth:
  "(v, l', q) \<in> set (indexed_children l p keyword i xs) \<Longrightarrow>
     \<exists>j<length xs. v = xs ! j \<and> q = appendSchemaPointer p [keyword, decimal (i + j)]"
proof (induction xs arbitrary: i)
  case (Cons x xs)
  show ?case
  proof (cases "(v, l', q) \<in> set (indexed_children l p keyword (Suc i) xs)")
    case True
    from Cons.IH [OF this] obtain j where "j < length xs" "v = xs ! j"
        "q = appendSchemaPointer p [keyword, decimal (Suc i + j)]"
      by blast
    then show ?thesis by (intro exI [of _ "Suc j"]) simp
  next
    case False
    with Cons.prems show ?thesis by (intro exI [of _ 0]) auto
  qed
qed simp

lemma at_array_children:
  assumes "node_at doc p (VObj schema)" and "array_children schema l p keyword = Inr cs" and "(v, l', q) \<in> set cs"
  shows "node_at doc q v"
proof (cases "has_key schema keyword")
  case True
  with assms(2) obtain xs where xs: "field schema keyword = VArr xs" "cs = indexed_children l p keyword 0 xs"
    by (auto simp: array_children_def split: option.splits if_splits)
  with assms(3) obtain j where "j < length xs" "v = xs ! j" "q = appendSchemaPointer p [keyword, decimal j]"
    using indexed_children_nth [of v l' q l p keyword 0 xs] by auto
  with at_item [of doc "appendSchemaPointer p [keyword]" xs "decimal j" j] at_member [OF assms(1) True] xs
  show ?thesis by (simp add: append_two)
qed (use assms in \<open>simp add: array_children_def\<close>)

lemma at_child_groups:
  assumes "node_at doc p (VObj schema)" and "wf_value doc"
    and "Inr cs \<in> set (child_groups schema l p)" and "(v, l', q) \<in> set cs"
  shows "node_at doc q v"
  using assms(3) at_object_children [OF assms(1,2) sym assms(4)] at_single_children [OF assms(1)]
    at_array_children [OF assms(1) sym assms(4)] assms(4)
  unfolding child_groups_def by auto

section \<open>Results of the walk\<close>

lemma consume_memo: "consumeOperation l st = Inr st' \<Longrightarrow> va_memo st' = va_memo st"
  by (auto simp: consumeOperation_def Let_def split: if_splits)

lemma exact_const_memo:
  shows "validateExactObjectConst v l d st = Inr (n, st') \<Longrightarrow> va_memo st' = va_memo st"
    and "const_fields m l d st = Inr (n, st') \<Longrightarrow> va_memo st' = va_memo st"
    and "const_items xs l i d st = Inr (n, st') \<Longrightarrow> va_memo st' = va_memo st"
proof (induction v l d st and m l d st and xs l i d st arbitrary: n st' and n st' and n st'
    rule: validateExactObjectConst_const_fields_const_items.induct)
  case (1 v location depth st)
  from "1.prems" obtain st1 where st1: "consumeOperation location st = Inr st1" "\<not> depth > maxSchemaProofDepth"
      and body: "(case v of VObj m \<Rightarrow> const_fields m location depth st1
         | VArr xs \<Rightarrow> const_items xs location 0 depth st1 | _ \<Rightarrow> Inr (0, st1)) = Inr (n, st')"
    by (auto simp: validateExactObjectConst.simps [of v] bind_res_Inr split: if_splits)
  show ?case
    using body st1(1) "1.IH"(1) [OF st1(2), of st1 _ n st'] "1.IH"(2) [OF st1(2), of st1 _ n st'] consume_memo [OF st1(1)]
    by (cases v) auto
next
  case (3 name child m location depth st)
  from "3.prems" obtain d1 st1 d2 where
      run: "validateExactObjectConst child (location @ ''.'' @ name) (Suc depth) st = Inr (d1, st1)"
        "const_fields m location depth st1 = Inr (d2, st')"
    by (auto simp: bind_res_Inr)
  show ?case using "3.IH"(1) [OF run(1)] "3.IH"(2) [OF run(1) refl run(2)] by simp
next
  case (5 x xs location i depth st)
  from "5.prems" obtain d1 st1 d2 where
      run: "validateExactObjectConst x (location @ ''['' @ decimal i @ '']'') (Suc depth) st = Inr (d1, st1)"
        "const_items xs location (Suc i) depth st1 = Inr (d2, st')"
    by (auto simp: bind_res_Inr)
  show ?case using "5.IH"(1) [OF run(1)] "5.IH"(2) [OF run(1) refl run(2)] by simp
qed simp_all

definition children_ok :: "(gval \<Rightarrow> bytes \<Rightarrow> proof_result \<Rightarrow> bool) \<Rightarrow> child list \<Rightarrow> proof_result list \<Rightarrow> bool" where
  "children_ok P = list_all2 (\<lambda>(v, l, p) r. P v p r)"

definition groups_ok ::
  "(gval \<Rightarrow> bytes \<Rightarrow> proof_result \<Rightarrow> bool) \<Rightarrow> (proof_error + child list) list \<Rightarrow> proof_result list list \<Rightarrow> bool" where
  "groups_ok P = list_all2 (\<lambda>g rs. \<exists>cs. g = Inr cs \<and> children_ok P cs rs)"

definition target_ok ::
  "(gval \<Rightarrow> bytes \<Rightarrow> proof_result \<Rightarrow> bool) \<Rightarrow> gval \<Rightarrow> object \<Rightarrow> proof_result option \<Rightarrow> bool" where
  "target_ok P doc schema target \<longleftrightarrow>
     (case target of
        None \<Rightarrow> \<not> has_key schema ''$ref''
      | Some r \<Rightarrow>
          has_key schema ''$ref'' \<and>
          (\<exists>reference v q. field schema ''$ref'' = VStr reference \<and>
             resolveLocalSchemaReference doc reference = Inr (v, q) \<and> P v q r))"

lemma reference_child_cases:
  assumes "reference_child doc schema l st = Inr (target, st')"
  obtains (no_ref) "target = None" "st' = st" "\<not> has_key schema ''$ref''"
  | (ref_case) reference v q where "target = Some (v, l @ ''.$ref('' @ reference @ '')'', q)"
      "has_key schema ''$ref''" "field schema ''$ref'' = VStr reference"
      "resolveLocalSchemaReference doc reference = Inr (v, q)" "va_memo st' = va_memo st"
proof (cases "has_key schema ''$ref''")
  case True
  with assms obtain reference st1 where ref: "field schema ''$ref'' = VStr reference"
      and st1: "consumeOperation (l @ ''.$ref'') st = Inr st1"
      and res: "(case resolveLocalSchemaReference doc reference of
              Inl e \<Rightarrow> Inl (RefUnresolved l e)
            | Inr (target, targetPointer) \<Rightarrow>
                Inr (Some (target, l @ ''.$ref('' @ reference @ '')'', targetPointer), st1)) = Inr (target, st')"
    by (auto simp: reference_child_def bind_res_Inr split: option.splits)
  then obtain v q where "resolveLocalSchemaReference doc reference = Inr (v, q)"
    by (cases "resolveLocalSchemaReference doc reference") auto
  with res ref_case [OF _ True ref this] consume_memo [OF st1] show thesis by simp
next
  case False
  with assms show thesis by (intro no_ref) (simp_all add: reference_child_def)
qed

text \<open>How a node's result comes about.\<close>

lemma start_false: "start_node U v l = Inr False_Schema \<Longrightarrow> v = VBool False"
  by (cases v) (auto simp: start_node_def check_then_Inr bind_res_Inr split: if_splits)

lemma start_schema: "start_node U v l = Inr (Schema_Node schema mode) \<Longrightarrow> v = VObj schema"
  by (cases v) (auto simp: start_node_def check_then_Inr bind_res_Inr split: if_splits)

lemma start_const: "start_node U v l = Inr (Exact_Const c) \<Longrightarrow> \<exists>schema. v = VObj schema \<and> length schema = 1 \<and>
    object_const schema \<and> c = field schema ''const''"
  by (cases v) (auto simp: start_node_def check_then_Inr bind_res_Inr split: if_splits)

lemma validate_cases:
  assumes "validate U doc v l p d st = Inr (r, st')"
  obtains (remembered) "va_memo st p = Some (Some r)" "st' = st" "d + pr_maxDepth r \<le> maxSchemaProofDepth"
  | (excluded) st1 where "start_node U v l = Inr False_Schema" "consumeOperation l st = Inr st1"
      "r = \<lparr>pr_mode = objectExcluded, pr_maxDepth = 0\<rparr>" "st' = remember p (Some r) (remember p None st1)"
      "d + pr_maxDepth r \<le> maxSchemaProofDepth"
  | (const) st1 c n st2 where "start_node U v l = Inr (Exact_Const c)" "consumeOperation l st = Inr st1"
      "validateExactObjectConst c (l @ ''.const'') 0 (remember p None st1) = Inr (n, st2)"
      "r = \<lparr>pr_mode = objectClosed, pr_maxDepth = n\<rparr>" "st' = remember p (Some r) st2"
      "d + pr_maxDepth r \<le> maxSchemaProofDepth"
  | (node) st1 schema mode results st2 mode' target st3 st4 target_r where
      "start_node U v l = Inr (Schema_Node schema mode)" "consumeOperation l st = Inr st1" "va_memo st p = None"
      "d \<le> maxSchemaProofDepth"
      "validate_groups U doc (child_groups schema l p) (Suc d) (remember p None st1) = Inr (results, st2)"
      "literal_mode schema l mode = Inr mode'"
      "reference_child doc schema l st2 = Inr (target, st3)"
      "case target of None \<Rightarrow> target_r = None \<and> st4 = st3
       | Some (w, l', q) \<Rightarrow> \<exists>tr. target_r = Some tr \<and> validate U doc w l' q (Suc d) st3 = Inr (tr, st4)"
      "combine l mode' results target_r = Inr r" "st' = remember p (Some r) st4"
      "d + pr_maxDepth r \<le> maxSchemaProofDepth"
proof (cases "va_memo st p")
  case (Some m)
  with assms show thesis
    by (cases m) (auto simp: validate.simps [of U doc v l p d st] split: if_splits intro: remembered)
next
  case None
  with assms obtain st1 r' st4 where st1: "consumeOperation l st = Inr st1"
      and fin: "d \<le> maxSchemaProofDepth" "d + pr_maxDepth r \<le> maxSchemaProofDepth" "st' = remember p (Some r) st4"
      and body: "(case start_node U v l of
               Inl e \<Rightarrow> Inl e
             | Inr False_Schema \<Rightarrow>
                 Inr (\<lparr>pr_mode = objectExcluded, pr_maxDepth = 0\<rparr>, remember p None st1)
             | Inr (Exact_Const c) \<Rightarrow>
                 bind_res (validateExactObjectConst c (l @ ''.const'') 0 (remember p None st1))
                   (\<lambda>(d, st). Inr (\<lparr>pr_mode = objectClosed, pr_maxDepth = d\<rparr>, st))
             | Inr (Schema_Node schema mode) \<Rightarrow>
                 bind_res (validate_groups U doc (child_groups schema l p) (Suc d)
                             (remember p None st1)) (\<lambda>(results, st).
                 bind_res (literal_mode schema l mode) (\<lambda>mode.
                 bind_res (reference_child doc schema l st) (\<lambda>(target, st).
                   case target of
                     None \<Rightarrow> bind_res (combine l mode results None) (\<lambda>r. Inr (r, st))
                   | Some (v', location', pointer') \<Rightarrow>
                       bind_res (validate U doc v' location' pointer' (Suc d) st) (\<lambda>(r, st).
                         bind_res (combine l mode results (Some r)) (\<lambda>r. Inr (r, st))))))) = Inr (r, st4)"
    by (auto simp: validate.simps [of U doc v l p d st] bind_res_Inr settle_def split: if_splits)
  show thesis
  proof (cases "start_node U v l")
    case (Inl e)
    with body show thesis by simp
  next
    case (Inr plan)
    show thesis
    proof (cases plan)
      case False_Schema
      with Inr body fin st1 show thesis by (auto intro!: excluded)
    next
      case (Exact_Const c)
      with Inr body fin st1 show thesis by (auto simp: bind_res_Inr intro: const)
    next
      case (Schema_Node schema mode)
      with Inr body obtain results st2 mode' target st3 where
          run: "validate_groups U doc (child_groups schema l p) (Suc d) (remember p None st1) = Inr (results, st2)"
            "literal_mode schema l mode = Inr mode'" "reference_child doc schema l st2 = Inr (target, st3)"
          and rest: "(case target of
                     None \<Rightarrow> bind_res (combine l mode' results None) (\<lambda>r. Inr (r, st3))
                   | Some (v', location', pointer') \<Rightarrow>
                       bind_res (validate U doc v' location' pointer' (Suc d) st3) (\<lambda>(r, st).
                         bind_res (combine l mode' results (Some r)) (\<lambda>r. Inr (r, st)))) = Inr (r, st4)"
        by (auto simp: bind_res_Inr)
      show thesis
      proof (cases target)
        case None
        with rest have "combine l mode' results None = Inr r" "st4 = st3" by (auto simp: bind_res_Inr)
        with node [OF Inr [unfolded Schema_Node] st1 \<open>va_memo st p = None\<close> fin(1) run, of None st3] None fin
        show thesis by simp
      next
        case (Some t)
        obtain w l' q where t: "t = (w, l', q)" by (cases t)
        with rest Some obtain tr where "validate U doc w l' q (Suc d) st3 = Inr (tr, st4)"
            "combine l mode' results (Some tr) = Inr r"
          by (auto simp: bind_res_Inr)
        with node [OF Inr [unfolded Schema_Node] st1 \<open>va_memo st p = None\<close> fin(1) run, of "Some tr" st4] Some t fin
        show thesis by simp
      qed
    qed
  qed
qed

section \<open>Invariants of node results\<close>

definition memo_ok :: "(gval \<Rightarrow> bytes \<Rightarrow> proof_result \<Rightarrow> bool) \<Rightarrow> gval \<Rightarrow> validator \<Rightarrow> bool" where
  "memo_ok P doc st \<longleftrightarrow>
     (\<forall>p r v. va_memo st p = Some (Some r) \<longrightarrow> node_at doc p v \<longrightarrow> P v p r)"

lemma memo_ok_visiting: "memo_ok P doc st \<Longrightarrow> memo_ok P doc (remember p None st)"
  by (simp add: memo_ok_def remember_def)

lemma memo_ok_done: "memo_ok P doc st \<Longrightarrow> node_at doc p v \<Longrightarrow> P v p r \<Longrightarrow> memo_ok P doc (remember p (Some r) st)"
  using at_unique by (fastforce simp: memo_ok_def remember_def)

lemma memo_ok_same: "memo_ok P doc st \<Longrightarrow> va_memo st' = va_memo st \<Longrightarrow> memo_ok P doc st'"
  by (simp add: memo_ok_def)

locale node_invariant =
  fixes P :: "gval \<Rightarrow> gval \<Rightarrow> bytes \<Rightarrow> proof_result \<Rightarrow> bool"
  assumes false_schema: "P doc (VBool False) p \<lparr>pr_mode = objectExcluded, pr_maxDepth = 0\<rparr>"
    and exact_const: "start_node U v l = Inr (Exact_Const c) \<Longrightarrow>
      P doc v p \<lparr>pr_mode = objectClosed, pr_maxDepth = n\<rparr>"
    and schema_node: "start_node U v l = Inr (Schema_Node schema mode) \<Longrightarrow>
      groups_ok (P doc) (child_groups schema l p) results \<Longrightarrow>
      literal_mode schema l mode = Inr mode' \<Longrightarrow> target_ok (P doc) doc schema target \<Longrightarrow>
      combine l mode' results target = Inr r \<Longrightarrow> P doc v p r"
begin

definition walk_ok :: "unicode \<Rightarrow> gval \<Rightarrow> nat \<Rightarrow> bool" where
  "walk_ok U doc d \<longleftrightarrow>
     (\<forall>v l p st r st'. validate U doc v l p d st = Inr (r, st') \<longrightarrow> node_at doc p v \<longrightarrow>
        memo_ok (P doc) doc st \<longrightarrow> P doc v p r \<and> memo_ok (P doc) doc st')"

lemma walk_children:
  assumes "walk_ok U doc d"
  shows "validate_children U doc cs d st = Inr (rs, st') \<Longrightarrow> \<forall>(v, l, p)\<in>set cs. node_at doc p v \<Longrightarrow>
      memo_ok (P doc) doc st \<Longrightarrow> children_ok (P doc) cs rs \<and> memo_ok (P doc) doc st'"
proof (induction cs arbitrary: st rs)
  case (Cons c cs)
  obtain v l p where c: "c = (v, l, p)" by (cases c)
  with Cons.prems(1) obtain r st1 rs' where "validate U doc v l p d st = Inr (r, st1)"
      and rest: "validate_children U doc cs d st1 = Inr (rs', st')" and rs: "rs = r # rs'"
    by (auto simp: bind_res_Inr)
  with assms Cons.prems c have head: "P doc v p r" and memo: "memo_ok (P doc) doc st1"
    by (auto simp: walk_ok_def)
  from Cons.IH [OF rest _ memo] Cons.prems(2) head show ?case by (simp add: c rs children_ok_def)
qed (simp add: children_ok_def)

lemma walk_groups:
  assumes "walk_ok U doc d"
  shows "validate_groups U doc gs d st = Inr (rss, st') \<Longrightarrow>
      \<forall>cs. Inr cs \<in> set gs \<longrightarrow> (\<forall>(v, l, p)\<in>set cs. node_at doc p v) \<Longrightarrow>
      memo_ok (P doc) doc st \<Longrightarrow> groups_ok (P doc) gs rss \<and> memo_ok (P doc) doc st'"
proof (induction gs arbitrary: st rss)
  case (Cons g gs)
  from Cons.prems(1) obtain cs where g: "g = Inr cs" by (cases g) simp_all
  with Cons.prems(1) obtain rs st1 rss' where here: "validate_children U doc cs d st = Inr (rs, st1)"
      and rest: "validate_groups U doc gs d st1 = Inr (rss', st')" and rss: "rss = rs # rss'"
    by (auto simp: bind_res_Inr)
  have cs: "\<forall>(v, l, p)\<in>set cs. node_at doc p v" using Cons.prems(2) g by simp
  from walk_children [OF assms here cs Cons.prems(3)]
  have head: "children_ok (P doc) cs rs" and memo: "memo_ok (P doc) doc st1" by auto
  from Cons.IH [OF rest _ memo] Cons.prems(2) head show ?case by (simp add: g rss groups_ok_def)
qed (simp add: groups_ok_def)

lemma walk_node:
  assumes wf: "wf_value doc" and deeper: "walk_ok U doc (Suc d)"
  shows "walk_ok U doc d"
  unfolding walk_ok_def
proof (intro allI impI)
  fix v l p st r st'
  assume run: "validate U doc v l p d st = Inr (r, st')" and v: "node_at doc p v"
    and memo: "memo_ok (P doc) doc st"
  have settled: "P doc v p r \<Longrightarrow> memo_ok (P doc) doc st1 \<Longrightarrow> st' = remember p (Some r) st1 \<Longrightarrow>
      P doc v p r \<and> memo_ok (P doc) doc st'" for st1
    using memo_ok_done [OF _ v] by blast
  from run show "P doc v p r \<and> memo_ok (P doc) doc st'"
  proof (cases rule: validate_cases)
    case remembered
    with memo v show ?thesis by (auto simp: memo_ok_def)
  next
    case (excluded st1)
    have "v = VBool False"
      using excluded(1) by (rule start_false)
    with excluded(3) have "P doc v p r" by (simp add: false_schema)
    moreover have "memo_ok (P doc) doc (remember p None st1)"
      by (rule memo_ok_visiting [OF memo_ok_same [OF memo consume_memo [OF excluded(2)]]])
    ultimately show ?thesis using settled excluded(4) by blast
  next
    case (const st1 c n st2)
    have "P doc v p r" using exact_const [OF const(1)] const(4) by simp
    moreover have "memo_ok (P doc) doc st2"
      by (rule memo_ok_same [OF memo_ok_visiting [OF memo_ok_same [OF memo consume_memo [OF const(2)]]]
            exact_const_memo(1) [OF const(3)]])
    ultimately show ?thesis using settled const(5) by blast
  next
    case (node st1 schema mode results st2 mode' target st3 st4 target_r)
    have schema: "v = VObj schema"
      using node(1) by (rule start_schema)
    have visiting: "memo_ok (P doc) doc (remember p None st1)"
      by (rule memo_ok_visiting [OF memo_ok_same [OF memo consume_memo [OF node(2)]]])
    have nodes: "\<forall>cs. Inr cs \<in> set (child_groups schema l p) \<longrightarrow> (\<forall>(w, l', q)\<in>set cs. node_at doc q w)"
      using at_child_groups [OF v [unfolded schema] wf] by fastforce
    from walk_groups [OF deeper node(5) nodes visiting]
    have groups: "groups_ok (P doc) (child_groups schema l p) results" and st2: "memo_ok (P doc) doc st2"
      by auto
    have "target_ok (P doc) doc schema target_r \<and> memo_ok (P doc) doc st4"
      using node(7)
    proof (cases rule: reference_child_cases)
      case no_ref
      then show ?thesis using node(8) st2 by (simp add: target_ok_def)
    next
      case (ref_case reference w q)
      then obtain tr where tr: "target_r = Some tr"
          "validate U doc w (l @ ''.$ref('' @ reference @ '')'') q (Suc d) st3 = Inr (tr, st4)"
        using node(8) by auto
      have "memo_ok (P doc) doc st3" by (rule memo_ok_same [OF st2 ref_case(5)])
      with deeper tr(2) at_reference [OF ref_case(4)] have "P doc w q tr \<and> memo_ok (P doc) doc st4"
        by (auto simp: walk_ok_def)
      then show ?thesis using ref_case tr(1) by (auto simp: target_ok_def)
    qed
    with schema_node [OF node(1) groups node(6) _ node(9)] settled node(10) show ?thesis by blast
  qed
qed

lemma walk_ok: "wf_value doc \<Longrightarrow> walk_ok U doc d"
proof (induction "66 - d" arbitrary: d)
  case 0
  then have "d > maxSchemaProofDepth" by (simp add: maxSchemaProofDepth_def)
  then have "validate U doc v l p d st = Inl (ProofDepth l)" for v l p st
    by (subst validate.simps) simp
  then show ?case by (simp add: walk_ok_def)
next
  case (Suc k)
  then have "walk_ok U doc (Suc d)" by simp
  then show ?case by (rule walk_node [OF Suc.prems])
qed

lemma proved_root:
  assumes "wf_value doc" and "validatePortableClosure U doc location = None"
  shows "\<exists>r. P doc doc ''#'' r \<and> pr_maxDepth r \<le> maxSchemaProofDepth"
proof -
  from assms(2) obtain r st where run: "validate U doc doc location ''#'' 0 \<lparr>va_memo = Map.empty, va_operations = 0\<rparr> = Inr (r, st)"
    by (auto simp: validatePortableClosure_def split: sum.splits)
  with walk_ok [OF assms(1), of U 0] have "P doc doc ''#'' r"
    by (auto simp: walk_ok_def memo_ok_def at_doc)
  moreover from run have "pr_maxDepth r \<le> maxSchemaProofDepth"
    by (cases rule: validate_cases) simp_all
  ultimately show ?thesis by blast
qed

end

section \<open>Depth\<close>

text \<open>The graph of work children below a node has no path of \<open>n\<close> nodes.\<close>

fun shallow :: "nat \<Rightarrow> gval \<Rightarrow> gval \<Rightarrow> bytes \<Rightarrow> bool" where
  "shallow 0 doc v p = False"
| "shallow (Suc n) doc v p =
     (case v of
        VObj schema \<Rightarrow>
          (\<forall>cs. Inr cs \<in> set (work_groups doc schema p) \<longrightarrow> (\<forall>(w, q)\<in>set cs. shallow n doc w q))
      | _ \<Rightarrow> True)"

lemma shallow_mono: "shallow n doc v p \<Longrightarrow> n \<le> m \<Longrightarrow> shallow m doc v p"
proof (induction n arbitrary: m v p)
  case (Suc n)
  then obtain k where "m = Suc k" "n \<le> k" by (cases m) auto
  with Suc show ?case by (cases v) (auto simp: case_prod_beta)
qed simp

lemma children_fuel:
  "\<forall>(w, q)\<in>set cs. \<forall>memo. estimate n doc w q memo \<noteq> Inl WorkOutOfFuel \<Longrightarrow>
     estimate_children n doc cs work memo \<noteq> Inl WorkOutOfFuel"
proof (induction cs arbitrary: work memo)
  case (Cons c cs)
  obtain w q where c: "c = (w, q)" by (cases c)
  then show ?case
    using Cons by (cases "estimate n doc w q memo") (auto simp: Let_def split: if_splits)
qed simp

lemma groups_fuel:
  "Inl WorkOutOfFuel \<notin> set gs \<Longrightarrow>
     \<forall>cs. Inr cs \<in> set gs \<longrightarrow> (\<forall>(w, q)\<in>set cs. \<forall>memo. estimate n doc w q memo \<noteq> Inl WorkOutOfFuel) \<Longrightarrow>
     estimate_groups n doc gs work memo \<noteq> Inl WorkOutOfFuel"
proof (induction gs arbitrary: work memo)
  case (Cons g gs)
  show ?case
  proof (cases g)
    case (Inr cs)
    with Cons.prems have "\<forall>(w, q)\<in>set cs. \<forall>memo. estimate n doc w q memo \<noteq> Inl WorkOutOfFuel" by auto
    from children_fuel [OF this, of work memo] Cons Inr show ?thesis
      by (cases "estimate_children n doc cs work memo") auto
  qed (use Cons.prems in auto)
qed simp

lemma work_groups_no_fuel: "Inl WorkOutOfFuel \<notin> set (work_groups doc schema p)"
  by (auto simp: work_groups_def work_object_def work_array_def work_reference_def
    split: sum.splits option.splits if_splits)

lemma shallow_estimate: "shallow n doc v p \<Longrightarrow> estimate n doc v p memo \<noteq> Inl WorkOutOfFuel"
proof (induction n arbitrary: v p memo)
  case (Suc n)
  show ?case
  proof (cases v)
    case (VObj schema)
    have "estimate_groups n doc (work_groups doc schema p) 1 memo' \<noteq> Inl WorkOutOfFuel" for memo'
      using Suc VObj by (intro groups_fuel work_groups_no_fuel) fastforce
    then show ?thesis
      using VObj by (auto simp: bind_res_def split: option.splits sum.splits)
  qed (simp_all split: option.splits)
qed simp

lemma record_depth_bound: "d \<in> set ds \<Longrightarrow> Suc d \<le> record_depth ds"
  by (induction ds) (auto simp: record_depth_def)

lemma groups_ok_child:
  assumes "groups_ok P gs results" and "Inr cs \<in> set gs" and "(w, l, q) \<in> set cs"
  shows "\<exists>r. P w q r \<and> r \<in> set (concat results)"
proof -
  from assms(2) obtain i where i: "i < length gs" "gs ! i = Inr cs" by (auto simp: in_set_conv_nth)
  with assms(1) have rs: "i < length results" "children_ok P cs (results ! i)"
    by (auto simp: groups_ok_def list_all2_conv_all_nth)
  from assms(3) obtain j where "j < length cs" "cs ! j = (w, l, q)" by (auto simp: in_set_conv_nth)
  with rs(2) have "j < length (results ! i)" "P w q (results ! i ! j)"
    by (auto simp: children_ok_def list_all2_conv_all_nth case_prod_beta)
  with rs(1) show ?thesis by (auto intro!: exI [of _ "results ! i ! j"] bexI [of _ "results ! i"])
qed

lemma work_object_child:
  assumes "work_object schema p k = Inr cs" and "(w, q) \<in> set cs"
  shows "\<exists>cs' l'. object_children schema l p k = Inr cs' \<and> (w, l', q) \<in> set cs'"
proof -
  from assms obtain m name where m: "has_key schema k" "field schema k = VObj m" "(name, w) \<in> set m"
      "q = appendSchemaPointer p [k, name]"
    by (auto simp: work_object_def schemaObjectKeyword_def split: if_splits option.splits)
  then show ?thesis
    by (intro exI [of _ "map (\<lambda>(name, child). (child, l @ ''.'' @ k @ ''.'' @ name,
          appendSchemaPointer p [k, name])) m"] exI [of _ "l @ ''.'' @ k @ ''.'' @ name"])
      (force simp: object_children_def schemaObjectKeyword_def)
qed

lemma work_single_child:
  assumes "(w, q) \<in> set (work_singles schema p)"
  shows "w = VBool False \<or> (\<exists>l'. (w, l', q) \<in> set (single_children schema l p))"
  using assms by (auto simp: work_singles_def single_children_def)

lemma indexed_children_mem:
  "j < length xs \<Longrightarrow> \<exists>l'. (xs ! j, l', appendSchemaPointer p [k, decimal (i + j)]) \<in> set (indexed_children l p k i xs)"
proof (induction xs arbitrary: i j)
  case (Cons x xs)
  show ?case
  proof (cases j)
    case (Suc m)
    then show ?thesis using Cons.IH [of m "Suc i"] Cons.prems by auto
  qed auto
qed simp

lemma work_array_child:
  assumes "work_array schema p k = Inr cs" and "(w, q) \<in> set cs"
  shows "\<exists>cs' l'. array_children schema l p k = Inr cs' \<and> (w, l', q) \<in> set cs'"
proof -
  from assms obtain xs where xs: "has_key schema k" "field schema k = VArr xs" "cs = work_items xs p k"
    by (auto simp: work_array_def split: if_splits option.splits)
  with assms(2) obtain j where "j < length xs" "w = xs ! j" "q = appendSchemaPointer p [k, decimal j]"
    by (auto simp: work_items_def in_set_zip)
  with xs indexed_children_mem [of j xs p k 0 l] show ?thesis by (auto simp: array_children_def)
qed

text \<open>A node's work children are among the walk's, but for a closed \<^verbatim>\<open>additionalProperties\<close>.\<close>

lemma work_children_proved:
  assumes groups: "groups_ok P (child_groups schema l p) results" and target: "target_ok P doc schema target"
    and cs: "Inr cs \<in> set (work_groups doc schema p)" and w: "(w, q) \<in> set cs"
  shows "w = VBool False \<or>
    (\<exists>r. P w q r \<and> r \<in> set (concat results @ (case target of None \<Rightarrow> [] | Some r \<Rightarrow> [r])))"
proof -
  from cs consider k where "k \<in> {''properties'', ''dependentSchemas''}" "Inr cs = work_object schema p k"
    | "cs = work_singles schema p"
    | k where "k \<in> set array_keywords" "Inr cs = work_array schema p k"
    | "Inr cs = work_reference doc schema p"
    by (auto simp: work_groups_def)
  then show ?thesis
  proof cases
    case 1
    from work_object_child [OF 1(2) [symmetric] w, of l] obtain cs' l' where
        child: "object_children schema l p k = Inr cs'" "(w, l', q) \<in> set cs'"
      by blast
    then have "Inr cs' \<in> object_children schema l p ` set object_keywords"
      using 1(1) by (auto simp: image_iff object_keywords_def)
    then have "Inr cs' \<in> set (child_groups schema l p)" by (simp add: child_groups_def)
    from groups_ok_child [OF groups this child(2)] show ?thesis by auto
  next
    case 2
    have singles: "Inr (single_children schema l p) \<in> set (child_groups schema l p)"
      by (simp add: child_groups_def)
    from work_single_child [OF w [unfolded 2], of l] show ?thesis
    proof
      assume "\<exists>l'. (w, l', q) \<in> set (single_children schema l p)"
      then obtain l' where "(w, l', q) \<in> set (single_children schema l p)" ..
      from groups_ok_child [OF groups singles this] show ?thesis by auto
    qed simp
  next
    case 3
    with work_array_child [OF 3(2) [symmetric] w, of l] obtain cs' l' where
        "array_children schema l p k = Inr cs'" "(w, l', q) \<in> set cs'"
      by blast
    moreover from this 3(1) have "Inr cs' \<in> set (child_groups schema l p)"
      by (auto simp: child_groups_def image_iff intro!: bexI [of _ k])
    ultimately show ?thesis using groups_ok_child [OF groups] by fastforce
  next
    case 4
    then obtain reference where "field schema ''$ref'' = VStr reference" "has_key schema ''$ref''"
        "resolveLocalSchemaReference doc reference = Inr (w, q)"
      using w by (auto simp: work_reference_def split: if_splits option.splits sum.splits)
    with target show ?thesis by (auto simp: target_ok_def split: option.splits)
  qed
qed

definition bounded_depth :: "gval \<Rightarrow> gval \<Rightarrow> bytes \<Rightarrow> proof_result \<Rightarrow> bool" where
  "bounded_depth doc v p r \<longleftrightarrow> shallow (pr_maxDepth r + 2) doc v p"

interpretation depth: node_invariant bounded_depth
proof
  fix doc p
  show "bounded_depth doc (VBool False) p \<lparr>pr_mode = objectExcluded, pr_maxDepth = 0\<rparr>"
    by (simp add: bounded_depth_def)
next
  fix U v l c doc p n
  assume "start_node U v l = Inr (Exact_Const c)"
  then obtain schema where v: "v = VObj schema" "length schema = 1" "object_const schema"
    using start_const by blast
  then obtain x where "schema = [(''const'', x)]"
    by (auto simp: length_Suc_conv object_const_def go_simps split: if_splits)
  with v show "bounded_depth doc v p \<lparr>pr_mode = objectClosed, pr_maxDepth = n\<rparr>"
    by (auto simp: bounded_depth_def work_groups_def work_object_def work_singles_def work_array_def
      work_reference_def schemaObjectKeyword_def go_simps single_keywords_def array_keywords_def)
next
  fix U v l schema mode doc p results mode' target r
  assume start: "start_node U v l = Inr (Schema_Node schema mode)"
    and groups: "groups_ok (bounded_depth doc) (child_groups schema l p) results"
    and target: "target_ok (bounded_depth doc) doc schema target"
    and r: "combine l mode' results target = Inr r"
  let ?all = "concat results @ (case target of None \<Rightarrow> [] | Some r \<Rightarrow> [r])"
  have depth: "pr_maxDepth r = record_depth (map pr_maxDepth ?all)"
    using r by (auto simp: combine_def bind_res_Inr Let_def split: option.splits)
  have "shallow (Suc (pr_maxDepth r)) doc w q"
    if cs: "Inr cs \<in> set (work_groups doc schema p)" "(w, q) \<in> set cs" for cs w q
  proof -
    from work_children_proved [OF groups target cs] consider "w = VBool False"
      | r' where "bounded_depth doc w q r'" "r' \<in> set ?all" by blast
    then show ?thesis
    proof cases
      case 2
      then have "Suc (pr_maxDepth r') \<le> pr_maxDepth r"
        unfolding depth by (intro record_depth_bound) (force simp: image_iff)
      with 2(1) show ?thesis unfolding bounded_depth_def by (elim shallow_mono) simp
    qed simp
  qed
  then show "bounded_depth doc v p r"
    using start_schema [OF start] by (auto simp: bounded_depth_def)
qed

text \<open>A closed schema has no chain of work children longer than the estimates' fuel.\<close>

lemma closed_shallow:
  assumes "wf_value schema" and "validatePortableClosure U schema location = None"
  shows "shallow estimate_fuel schema schema ''#''"
  using depth.proved_root [OF assms] shallow_mono
  unfolding bounded_depth_def estimate_fuel_def maxSchemaProofDepth_def by fastforce

end
