(* ===== verification/FixtureWork.thy ===== *)
theory FixtureWork
  imports SchemaSoundness
begin

text \<open>
  The work estimate of a schema against a fixture visits, below a schema node, only children
  the schema's own estimate visits too. So the depth that the closure proof allows bounds its
  recursion as well, however large the fixture is.
\<close>

definition below_node :: "gval \<Rightarrow> object \<Rightarrow> bytes \<Rightarrow> gval \<Rightarrow> bytes \<Rightarrow> bool" where
  "below_node doc schema sp s q \<longleftrightarrow> (\<exists>cs. Inr cs \<in> set (work_groups doc schema sp) \<and> (s, q) \<in> set cs)"

lemma below_single:
  "k \<in> set single_keywords \<Longrightarrow> has_key schema k \<Longrightarrow>
     below_node doc schema sp (field schema k) (appendSchemaPointer sp [k])"
  unfolding below_node_def
  by (intro exI [of _ "work_singles schema sp"]) (auto simp: work_groups_def work_singles_def)

lemma below_object:
  assumes "k = ''properties'' \<or> k = ''dependentSchemas''" and "schemaObjectKeyword schema k sp = Inr (Some m)"
    and "(name, child) \<in> set m"
  shows "below_node doc schema sp child (appendSchemaPointer sp [k, name])"
proof -
  from assms(2) have "work_object schema sp k = Inr (map (\<lambda>(name, child). (child, appendSchemaPointer sp [k, name])) m)"
    by (simp add: work_object_def)
  moreover from this assms(1) have "Inr (map (\<lambda>(name, child). (child, appendSchemaPointer sp [k, name])) m)
      \<in> set (work_groups doc schema sp)"
    by (auto simp: work_groups_def)
  ultimately show ?thesis using assms(3) unfolding below_node_def by force
qed

lemma below_array:
  assumes "k \<in> set array_keywords" and "work_array schema sp k = Inr cs" and "(s, q) \<in> set cs"
  shows "below_node doc schema sp s q"
  using assms unfolding below_node_def work_groups_def by (intro exI [of _ cs]) (auto simp: image_iff intro!: bexI)

lemma below_prefix:
  assumes "field schema ''prefixItems'' = VArr ps" and "i < length ps"
  shows "below_node doc schema sp (ps ! i) (appendSchemaPointer sp [''prefixItems'', decimal i])"
proof (rule below_array)
  have "has_key schema ''prefixItems''" using assms(1) field_absent by fastforce
  with assms(1) show "work_array schema sp ''prefixItems'' = Inr (work_items ps sp ''prefixItems'')"
    by (simp add: work_array_def)
  show "(ps ! i, appendSchemaPointer sp [''prefixItems'', decimal i]) \<in> set (work_items ps sp ''prefixItems'')"
    using assms(2) by (force simp: work_items_def in_set_zip)
qed (simp add: array_keywords_def)

lemma below_reference:
  "work_reference doc schema sp = Inr cs \<Longrightarrow> (s, q) \<in> set cs \<Longrightarrow> below_node doc schema sp s q"
  unfolding below_node_def work_groups_def by (intro exI [of _ cs]) auto

lemma fixture_objects_below:
  "(s, q, c) \<in> set (fixture_objects schema properties sp m ip role) \<Longrightarrow> below_node doc schema sp s q"
  by (auto simp: fixture_objects_def Let_def split: if_splits
    intro!: below_single) (simp_all add: single_keywords_def)

lemma fixture_each_below:
  "(s, q, c) \<in> set (fixture_each schema k sp i xs ip role) \<Longrightarrow> k \<in> set single_keywords \<Longrightarrow>
     below_node doc schema sp s q"
  by (auto simp: fixture_each_def split: if_splits intro: below_single)

lemma fixture_arrays_below:
  assumes "(s, q, c) \<in> set (fixture_arrays schema sp xs ip role)"
  shows "below_node doc schema sp s q"
proof -
  let ?ps = "case as_arr (field schema ''prefixItems'') of Some ps \<Rightarrow> ps | None \<Rightarrow> []"
  from assms consider i where "i < length ?ps" "s = ?ps ! i" "q = appendSchemaPointer sp [''prefixItems'', decimal i]"
    | k i where "k \<in> {''items'', ''contains'', ''unevaluatedItems''}"
        "(s, q, c) \<in> set (fixture_each schema k sp i xs ip role)"
    by (auto simp: fixture_arrays_def Let_def)
  then show ?thesis
  proof cases
    case 1
    then obtain ps where "field schema ''prefixItems'' = VArr ps" by (auto split: option.splits)
    with 1 below_prefix show ?thesis by simp
  next
    case 2
    then show ?thesis by (intro fixture_each_below) (auto simp: single_keywords_def)
  qed
qed

definition keyword_object :: "object \<Rightarrow> bytes \<Rightarrow> bytes \<Rightarrow> work_error + object option" where
  "keyword_object schema sp k =
     (case schemaObjectKeyword schema k sp of Inl e \<Rightarrow> Inl (WorkKeyword e) | Inr m \<Rightarrow> Inr m)"

lemma keyword_object_Inr: "keyword_object schema sp k = Inr m \<longleftrightarrow> schemaObjectKeyword schema k sp = Inr m"
  by (simp add: keyword_object_def split: sum.splits)

lemma named_children_below:
  assumes "Inr cs = bind_res (keyword_object schema sp k) (\<lambda>ps. Inr (case (obj, ps) of
        (Some m, Some ps) \<Rightarrow> map (\<lambda>(name, child). (child, appendSchemaPointer sp [k, name], f m name))
          (filter (\<lambda>(name, child). has_key m name) ps)
      | _ \<Rightarrow> []))"
    and "k = ''properties'' \<or> k = ''dependentSchemas''" and "(s, q, c) \<in> set cs"
  shows "below_node doc schema sp s q"
proof -
  from assms(1) obtain ps where ps: "schemaObjectKeyword schema k sp = Inr ps"
      "cs = (case (obj, ps) of
        (Some m, Some ps) \<Rightarrow> map (\<lambda>(name, child). (child, appendSchemaPointer sp [k, name], f m name))
          (filter (\<lambda>(name, child). has_key m name) ps)
      | _ \<Rightarrow> [])"
    by (auto simp: bind_res_def keyword_object_Inr split: sum.splits)
  with assms(3) obtain m' n where "ps = Some m'" "(n, s) \<in> set m'" "q = appendSchemaPointer sp [k, n]"
    by (auto split: option.splits)
  with ps(1) below_object [OF assms(2), of schema sp m' n s doc] show ?thesis by simp
qed

definition instance_loops ::
  "gval \<Rightarrow> object \<Rightarrow> bytes \<Rightarrow> gval \<Rightarrow> bytes \<Rightarrow> bytes \<Rightarrow> (work_error + instance_child list) list" where
  "instance_loops doc schema sp v ip role =
     [bind_res (keyword_object schema sp ''properties'') (\<lambda>properties.
         Inr (case (as_obj v, properties) of
                (Some m, Some ps) \<Rightarrow>
                  map (\<lambda>(name, child). (child, appendSchemaPointer sp [''properties'', name], field m name,
                         appendSchemaPointer ip [name], role)) (filter (\<lambda>(name, child). has_key m name) ps)
              | _ \<Rightarrow> [])),
       bind_res (keyword_object schema sp ''dependentSchemas'') (\<lambda>dependents.
         Inr (case (as_obj v, dependents) of
                (Some m, Some ds) \<Rightarrow>
                  map (\<lambda>(name, child). (child, appendSchemaPointer sp [''dependentSchemas'', name], v, ip, role))
                    (filter (\<lambda>(name, child). has_key m name) ds)
              | _ \<Rightarrow> [])),
       bind_res (keyword_object schema sp ''properties'') (\<lambda>properties.
         Inr (case as_obj v of Some m \<Rightarrow> fixture_objects schema properties sp m ip role | None \<Rightarrow> [])),
       Inr (case as_arr v of Some xs \<Rightarrow> fixture_arrays schema sp xs ip role | None \<Rightarrow> [])]"

lemma instance_loops_below:
  assumes "Inr cs \<in> set (instance_loops doc schema sp v ip role)" and "(s, q, c) \<in> set cs"
  shows "below_node doc schema sp s q"
  using assms(1) unfolding instance_loops_def list.set insert_iff empty_iff
proof (elim disjE FalseE)
  assume a: "Inr cs = bind_res (keyword_object schema sp ''properties'') (\<lambda>properties.
         Inr (case as_obj v of Some m \<Rightarrow> fixture_objects schema properties sp m ip role | None \<Rightarrow> []))"
  then obtain ps m where "cs = fixture_objects schema ps sp m ip role"
    using assms(2) by (auto simp: bind_res_def split: sum.splits option.splits)
  with assms(2) show ?thesis using fixture_objects_below by simp
next
  assume "Inr cs = (Inr (case as_arr v of Some xs \<Rightarrow> fixture_arrays schema sp xs ip role | None \<Rightarrow> []) :: work_error + _)"
  with assms(2) show ?thesis using fixture_arrays_below by (auto split: option.splits)
qed (erule named_children_below [OF _ _ assms(2)], simp)+

lemma same_children_below:
  assumes "(s, q, c) \<in> set (map (\<lambda>(child, p). (child, p, v, ip, role)) ds)"
    and "\<And>s q. (s, q) \<in> set ds \<Longrightarrow> below_node doc schema sp s q"
  shows "below_node doc schema sp s q"
  using assms by auto

lemma fixture_groups_below:
  assumes cs: "Inr cs \<in> set (fixture_groups doc schema sp v ip role)" and c: "(s, q, c) \<in> set cs"
  shows "below_node doc schema sp s q"
proof -
  let ?same = "map (\<lambda>(child, p). (child, p, v, ip, role))"
  let ?singles = "map (\<lambda>k. (field schema k, appendSchemaPointer sp [k]))
      (filter (has_key schema) [''not'', ''if'', ''then'', ''else''])"
  have "fixture_groups doc schema sp v ip role = instance_loops doc schema sp v ip role @ Inr (?same ?singles) #
      map (\<lambda>k. bind_res (work_array schema sp k) (\<lambda>cs. Inr (?same cs))) [''allOf'', ''anyOf'', ''oneOf''] @
      [bind_res (work_reference doc schema sp) (\<lambda>cs. Inr (?same cs))]"
    unfolding fixture_groups_def instance_loops_def keyword_object_def Let_def append.simps ..
  with cs consider "Inr cs \<in> set (instance_loops doc schema sp v ip role)" | "cs = ?same ?singles"
    | k where "k \<in> {''allOf'', ''anyOf'', ''oneOf''}" "Inr cs = bind_res (work_array schema sp k) (\<lambda>cs. Inr (?same cs))"
    | "Inr cs = bind_res (work_reference doc schema sp) (\<lambda>cs. Inr (?same cs))"
    by (simp only: set_append list.set set_map Un_iff insert_iff empty_iff image_insert image_empty sum.inject) blast
  then show ?thesis
  proof cases
    case 1
    with c instance_loops_below show ?thesis by blast
  next
    case 2
    have "below_node doc schema sp s q" if "(s, q) \<in> set ?singles" for s q
      using that by (auto simp del: filter.simps simp: single_keywords_def intro!: below_single)
    with c [unfolded 2] show ?thesis by (rule same_children_below)
  next
    case 3
    then obtain ds where ds: "work_array schema sp k = Inr ds" "cs = ?same ds"
      by (auto simp: bind_res_def split: sum.splits)
    have "k \<in> set array_keywords" using 3(1) by (auto simp: array_keywords_def)
    from c [unfolded ds(2)] below_array [OF this ds(1)] show ?thesis by (rule same_children_below)
  next
    case 4
    then obtain ds where ds: "work_reference doc schema sp = Inr ds" "cs = ?same ds"
      by (auto simp: bind_res_def split: sum.splits)
    from c [unfolded ds(2)] below_reference [OF ds(1)] show ?thesis by (rule same_children_below)
  qed
qed

section \<open>Fuel\<close>

lemma fixture_children_fuel:
  assumes "\<And>s q v ip role memo. (s, q, v, ip, role) \<in> set cs \<Longrightarrow>
      fixture_estimate n doc s q v ip role memo \<noteq> Inl WorkOutOfFuel"
  shows "fixture_children n doc cs work memo \<noteq> Inl WorkOutOfFuel"
  using assms
proof (induction cs arbitrary: work memo)
  case (Cons c cs)
  obtain s q v ip role where c: "c = (s, q, v, ip, role)" by (cases c)
  from Cons.prems have head: "fixture_estimate n doc s q v ip role memo \<noteq> Inl WorkOutOfFuel" by (simp add: c)
  have rest: "fixture_children n doc cs work' memo' \<noteq> Inl WorkOutOfFuel" for work' memo'
    by (intro Cons.IH Cons.prems) simp
  from head rest show ?case
    by (cases "fixture_estimate n doc s q v ip role memo") (auto simp: c)
qed simp

lemma fixture_loops_fuel:
  assumes "Inl WorkOutOfFuel \<notin> set gs"
    and "\<And>cs s q v ip role memo. Inr cs \<in> set gs \<Longrightarrow> (s, q, v, ip, role) \<in> set cs \<Longrightarrow>
      fixture_estimate n doc s q v ip role memo \<noteq> Inl WorkOutOfFuel"
  shows "fixture_loops n doc gs work memo \<noteq> Inl WorkOutOfFuel"
  using assms
proof (induction gs arbitrary: work memo)
  case (Cons g gs)
  have rest: "fixture_loops n doc gs work' memo' \<noteq> Inl WorkOutOfFuel" for work' memo'
    by (rule Cons.IH; use Cons.prems in force)
  show ?case
  proof (cases g)
    case (Inr cs)
    have "fixture_children n doc cs work memo \<noteq> Inl WorkOutOfFuel"
      by (rule fixture_children_fuel) (use Cons.prems Inr in force)
    with rest Inr show ?thesis by (cases "fixture_children n doc cs work memo") auto
  qed (use Cons.prems in auto)
qed simp

lemma work_errors_not_fuel:
  "work_array schema sp k \<noteq> Inl WorkOutOfFuel" "work_reference doc schema sp \<noteq> Inl WorkOutOfFuel"
  by (auto simp: work_array_def work_reference_def split: option.splits sum.splits)

lemma fixture_groups_no_fuel: "Inl WorkOutOfFuel \<notin> set (fixture_groups doc schema sp v ip role)"
  using work_errors_not_fuel
  by (auto simp: fixture_groups_def Let_def bind_res_def split: sum.splits)

lemma shallow_below: "shallow (Suc n) doc (VObj schema) sp \<Longrightarrow> below_node doc schema sp s q \<Longrightarrow> shallow n doc s q"
  by (auto simp: below_node_def)

lemma shallow_fixture: "shallow n doc s sp \<Longrightarrow> fixture_estimate n doc s sp v ip role memo \<noteq> Inl WorkOutOfFuel"
proof (induction n arbitrary: s sp v ip role memo)
  case (Suc n)
  show ?case
  proof (cases s)
    case (VObj schema)
    have "fixture_loops n doc (fixture_groups doc schema sp v ip role) 1 memo' \<noteq> Inl WorkOutOfFuel" for memo'
    proof (rule fixture_loops_fuel [OF fixture_groups_no_fuel])
      fix cs s q v' ip' role' memo
      assume "Inr cs \<in> set (fixture_groups doc schema sp v ip role)" "(s, q, v', ip', role') \<in> set cs"
      then have "below_node doc schema sp s q" by (rule fixture_groups_below)
      with Suc.prems VObj have "shallow n doc s q" using shallow_below by blast
      then show "fixture_estimate n doc s q v' ip' role' memo \<noteq> Inl WorkOutOfFuel" by (rule Suc.IH)
    qed
    with VObj show ?thesis by (auto simp: bind_res_def split: option.splits sum.splits)
  qed (simp_all split: option.splits)
qed simp

definition fixture_fuel :: nat where "fixture_fuel = 66"

text \<open>
  C38. Both work estimates always give an answer when the closure proof has accepted the schema:
  the depth the proof allows bounds the recursion of the estimate of the schema alone, and of
  its estimate against a fixture of any size, so the fuel supplied is never used up. The code
  has no other bound on those recursions.
\<close>
theorem estimates_enough_fuel:
  assumes "wf_value schema" and "validatePortableClosure U schema location = None"
  shows "estimate estimate_fuel schema schema ''#'' Map.empty \<noteq> Inl WorkOutOfFuel \<and>
    fixture_estimate fixture_fuel schema schema ''#'' v ''#'' ''value'' Map.empty \<noteq> Inl WorkOutOfFuel"
  using closed_shallow [OF assms] shallow_estimate shallow_fixture
  unfolding fixture_fuel_def estimate_fuel_def by blast

end
