(* ===== verification/PackageVerify.thy ===== *)
theory PackageVerify
  imports PackageFiles DefinitionValidation FixtureWork
begin

text \<open>
  \<^verbatim>\<open>VerifyDirectory\<close> of \<^verbatim>\<open>formpackage/verify.go\<close>: the checks of the index listing, of every
  payload's bytes, of the definition's identity, of the fixtures and of the content policy,
  in the code's order. An index file lists each payload with its size and digest; the verifier
  returns the capability that the rest of the program takes as proof. Where the code ranges
  over a map of payloads, the model takes the listing's order; which refusal is returned can
  depend on it, whether there is one cannot.
\<close>

definition maxIndexBytes :: int where "maxIndexBytes = 4 * 2 ^ 20"
definition maxDefinitionBytes :: int where "maxDefinitionBytes = 4 * 2 ^ 20"
definition maxJSONPayloadBytes :: int where "maxJSONPayloadBytes = 16 * 2 ^ 20"
definition maxPayloadBytes :: int where "maxPayloadBytes = 64 * 2 ^ 20"
definition maxPackageBytes :: int where "maxPackageBytes = 256 * 2 ^ 20"
definition maxPackageFiles :: nat where "maxPackageFiles = 1024"

datatype media_error =
    ExecutableExtension bytes | JSONExtension bytes | MarkdownExtension bytes | TextExtension bytes
  | UnsupportedMedia bytes bytes

datatype fixture_error =
    FixtureNotJSON bytes | FixtureEstimate bytes work_error | FixtureTooMuchWork bytes | FixtureInvalid bytes

datatype package_error =
    Files file_error | ReadIndex file_error | BadIndex index_error | TooManyFiles nat
  | UnsupportedPackage bytes bytes
  | FilePath nat path_error | ListsIndex | DuplicatePath bytes | UnsortedPath bytes bytes
  | PayloadDigestForm bytes | PayloadSize bytes | DefinitionTooLarge bytes | JSONTooLarge bytes
  | Media media_error | PackageTooLarge | DefinitionCount nat | ClosureMismatch
  | ReadPayload bytes file_error | SizeDiffers bytes nat int | DigestDiffers bytes bytes bytes
  | PayloadCanonical bytes canonical_error | PayloadNotJSON bytes | PayloadNotText bytes
  | DefinitionUnlisted bytes | DefinitionMedia bytes bytes | BadDefinition definition_error
  | DefinitionCanonical canonical_error | SchemaDigestDiffers bytes bytes | IdentityDiffers
  | BadFormRef form_ref_error | ContentPolicy policy_error
  | FixtureUnlisted bytes bytes | FixtureMedia bytes bytes | Fixture fixture_error
  | NoObservedSchema bytes | NoOutputSchema bytes
  | NegativeUnlisted bytes bytes | NegativeMedia bytes bytes | NegativeStage bytes bytes
  | NegativeNoSchema bytes bytes | NegativeFailure bytes bytes | NegativePassed bytes bytes
  | IndexDigest canonical_error

section \<open>Media types\<close>

definition isJSONMediaType :: "bytes \<Rightarrow> bool" where
  "isJSONMediaType mediaType \<longleftrightarrow>
     has_suffix mediaType ''+json'' \<or> mediaType = ''application/json'' \<or> mediaType = ''application/schema+json''"

definition validateMediaType :: "unicode \<Rightarrow> bytes \<Rightarrow> bytes \<Rightarrow> media_error option" where
  "validateMediaType U filePath mediaType =
     (let ext = extension U filePath in
      if List.member executableExtensions ext then Some (ExecutableExtension filePath)
      else if mediaType = DefinitionMediaType \<or> mediaType = ''application/schema+json'' \<or>
          mediaType = ''application/json'' then
        guard_err (ext = ''.json'') (JSONExtension filePath)
      else if mediaType = ''text/markdown'' then
        guard_err (ext = ''.md'' \<or> ext = ''.markdown'') (MarkdownExtension filePath)
      else if mediaType = ''text/plain'' then guard_err (ext = ''.txt'') (TextExtension filePath)
      else Some (UnsupportedMedia filePath mediaType))"

section \<open>The listing\<close>

text \<open>The loop's state: the paths so far, last first, the bytes listed and the definitions counted.\<close>

definition check_file ::
  "unicode \<Rightarrow> nat \<Rightarrow> bytes list \<Rightarrow> int \<Rightarrow> package_file \<Rightarrow> package_error option" where
  "check_file U position ordered payloadBytes file =
     (case validatePackagePath (pf_path file) of
        Some e \<Rightarrow> Some (FilePath position e)
      | None \<Rightarrow>
          if pf_path file = PackageIndexFilename then Some ListsIndex
          else if List.member ordered (pf_path file) then Some (DuplicatePath (pf_path file))
          else if ordered \<noteq> [] \<and> hd ordered \<ge> pf_path file then Some (UnsortedPath (pf_path file) (hd ordered))
          else if \<not> ValidDigest (pf_digest file) then Some (PayloadDigestForm (pf_path file))
          else if pf_size file < 0 \<or> pf_size file > maxPayloadBytes then Some (PayloadSize (pf_path file))
          else if pf_mediaType file = DefinitionMediaType \<and> pf_size file > maxDefinitionBytes
          then Some (DefinitionTooLarge (pf_path file))
          else if isJSONMediaType (pf_mediaType file) \<and> pf_size file > maxJSONPayloadBytes
          then Some (JSONTooLarge (pf_path file))
          else (case validateMediaType U (pf_path file) (pf_mediaType file) of
                  Some e \<Rightarrow> Some (Media e)
                | None \<Rightarrow> guard_err (payloadBytes \<le> maxPackageBytes - pf_size file) PackageTooLarge))"

fun check_files ::
  "unicode \<Rightarrow> nat \<Rightarrow> bytes list \<Rightarrow> int \<Rightarrow> nat \<Rightarrow> package_file list \<Rightarrow> package_error + bytes list \<times> int \<times> nat" where
  "check_files U position ordered payloadBytes definitions [] = Inr (rev ordered, payloadBytes, definitions)"
| "check_files U position ordered payloadBytes definitions (file # files) =
     check_then (check_file U position ordered payloadBytes file)
       (check_files U (Suc position) (pf_path file # ordered) (payloadBytes + pf_size file)
          (if pf_mediaType file = DefinitionMediaType then Suc definitions else definitions) files)"

definition supported_package :: "package_index \<Rightarrow> bool" where
  "supported_package index \<longleftrightarrow>
     (pi_apiVersion index = PackageAPIVersion \<or> pi_apiVersion index = LegacyContentAddressedPackageAPIVersion \<or>
      pi_apiVersion index = CurrentPackageAPIVersion \<or> FamilyPackageLane (pi_apiVersion index)) \<and>
     pi_kind index = PackageKind"

definition check_listing ::
  "unicode \<Rightarrow> inventory \<Rightarrow> package_index \<Rightarrow> package_error + int" where
  "check_listing U actualFiles index =
     (if length (pi_files index) > maxPackageFiles then Inl (TooManyFiles (length (pi_files index)))
      else if \<not> supported_package index then Inl (UnsupportedPackage (pi_apiVersion index) (pi_kind index))
      else bind_res (check_files U 0 [] 0 0 (pi_files index)) (\<lambda>(ordered, payloadBytes, definitions).
        if definitions \<noteq> 1 then Inl (DefinitionCount definitions)
        else if ordered \<noteq> sort_strings (filter (\<lambda>p. p \<noteq> PackageIndexFilename) (map fst actualFiles))
        then Inl ClosureMismatch
        else Inr payloadBytes))"

section \<open>Payloads\<close>

text \<open>A payload that was read: the listed file, its bytes, and its value where it is JSON.\<close>

type_synonym payload = "package_file \<times> bytes \<times> gval option"

definition payload_limit :: "package_file \<Rightarrow> int" where
  "payload_limit file =
     (if pf_mediaType file = DefinitionMediaType then maxDefinitionBytes
      else if isJSONMediaType (pf_mediaType file) then maxJSONPayloadBytes else maxPayloadBytes)"

definition check_payload :: "libs \<Rightarrow> package_file \<Rightarrow> bytes \<Rightarrow> package_error + payload" where
  "check_payload L file raw =
     (if int (length raw) \<noteq> pf_size file then Inl (SizeDiffers (pf_path file) (length raw) (pf_size file))
      else if DigestBytes raw \<noteq> pf_digest file
      then Inl (DigestDiffers (pf_path file) (DigestBytes raw) (pf_digest file))
      else if isJSONMediaType (pf_mediaType file) then
        (case Canonicalize (lib_transform L) raw of
           Inl e \<Rightarrow> Inl (PayloadCanonical (pf_path file) e)
         | Inr _ \<Rightarrow>
             (case Unmarshal raw (dec_any False) VNull of
                None \<Rightarrow> Inl (PayloadNotJSON (pf_path file))
              | Some v \<Rightarrow> Inr (file, raw, Some v)))
      else if \<not> valid_utf8 raw \<or> List.member raw (CHR 0x00) then Inl (PayloadNotText (pf_path file))
      else Inr (file, raw, None))"

definition read_payload ::
  "'w platform \<Rightarrow> libs \<Rightarrow> nat \<Rightarrow> bytes \<Rightarrow> inventory \<Rightarrow> package_file \<Rightarrow> ('w, package_error, payload) action" where
  "read_payload OS L h dir actualFiles file w =
     (case readBoundedRegularFile OS h dir (pf_path file) (payload_limit file)
             (map_of actualFiles (pf_path file)) w of
        (Inl e, w') \<Rightarrow> (Inl (ReadPayload (pf_path file) e), w')
      | (Inr raw, w') \<Rightarrow> (check_payload L file raw, w'))"

definition listed :: "payload list \<Rightarrow> bytes \<Rightarrow> package_file option" where
  "listed ps path = map_of (map (\<lambda>(f, _). (pf_path f, f)) ps) path"

text \<open>A missing key reads as \<^verbatim>\<open>nil\<close>.\<close>

definition payload_bytes :: "payload list \<Rightarrow> bytes \<Rightarrow> bytes" where
  "payload_bytes ps path =
     (case map_of (map (\<lambda>(f, raw, _). (pf_path f, raw)) ps) path of Some raw \<Rightarrow> raw | None \<Rightarrow> [])"

section \<open>Fixtures\<close>

definition fixture_stages :: "form_definition \<Rightarrow> (bytes \<times> bool) list" where
  "fixture_stages d =
     filter (\<lambda>(p, _). p \<noteq> [])
       (concat (map (\<lambda>f. [(cf_desiredPath f, True), (cf_observedPath f, False), (cf_outputPath f, False)])
          (fd_conformanceFixtures d)) @
        map (\<lambda>f. (nf_inputPath f, nf_stage f = ''desired'')) (fd_negativeFixtures d))"

definition definitionDesiredFixturePaths :: "form_definition \<Rightarrow> bytes \<Rightarrow> bool" where
  "definitionDesiredFixturePaths d path \<longleftrightarrow>
     List.member (fixture_stages d) (path, True) \<and> \<not> List.member (fixture_stages d) (path, False)"

definition validateFixtureAgainstSchema ::
  "(gval \<Rightarrow> bool) \<Rightarrow> object \<Rightarrow> bytes \<Rightarrow> bytes \<Rightarrow> fixture_error option" where
  "validateFixtureAgainstSchema validates source raw label =
     (case Unmarshal raw (dec_any True) VNull of
        None \<Rightarrow> Some (FixtureNotJSON label)
      | Some v \<Rightarrow>
          (case fixture_estimate fixture_fuel (VObj source) (VObj source) ''#'' v ''#'' ''value'' Map.empty of
             Inl e \<Rightarrow> Some (FixtureEstimate label e)
           | Inr (work, _) \<Rightarrow>
               if work > maxSchemaValidationWork then Some (FixtureTooMuchWork label)
               else guard_err (validates v) (FixtureInvalid label)))"

definition fixture_path :: "payload list \<Rightarrow> bytes \<Rightarrow> bytes \<Rightarrow> package_error option" where
  "fixture_path ps name path =
     (if path = [] then None
      else case listed ps path of
        None \<Rightarrow> Some (FixtureUnlisted name path)
      | Some file \<Rightarrow> guard_err (pf_mediaType file = ''application/json'') (FixtureMedia name path))"

text \<open>An optional stage: no path needs no schema.\<close>

definition optional_fixture ::
  "payload list \<Rightarrow> (gval \<Rightarrow> bool) option \<Rightarrow> object option \<Rightarrow> bytes \<Rightarrow> bytes \<Rightarrow> package_error \<Rightarrow> package_error option" where
  "optional_fixture ps compiled source path label missing =
     (if path = [] then None
      else case compiled of
        None \<Rightarrow> Some missing
      | Some validates \<Rightarrow>
          map_option Fixture (validateFixtureAgainstSchema validates (map_of_nil source) (payload_bytes ps path) label))"

definition conformance_fixture_check ::
  "payload list \<Rightarrow> form_definition \<Rightarrow> compiled_schemas \<Rightarrow> conformance_fixture \<Rightarrow> package_error option" where
  "conformance_fixture_check ps d schemas f =
     first_err
      [first_err (map (fixture_path ps (cf_name f)) [cf_desiredPath f, cf_observedPath f, cf_outputPath f]),
       map_option Fixture (validateFixtureAgainstSchema (cs_desired schemas) (map_of_nil (fd_desiredSchema d))
         (payload_bytes ps (cf_desiredPath f)) (cf_name f @ '' desired'')),
       optional_fixture ps (cs_observed schemas) (fd_observedSchema d) (cf_observedPath f)
         (cf_name f @ '' observed'') (NoObservedSchema (cf_name f)),
       optional_fixture ps (cs_output schemas) (fd_outputSchema d) (cf_outputPath f)
         (cf_name f @ '' output'') (NoOutputSchema (cf_name f))]"

definition stage_schema ::
  "form_definition \<Rightarrow> compiled_schemas \<Rightarrow> bytes \<Rightarrow> ((gval \<Rightarrow> bool) option \<times> object option) option" where
  "stage_schema d schemas stage =
     (if stage = ''desired'' then Some (Some (cs_desired schemas), fd_desiredSchema d)
      else if stage = ''observed'' then Some (cs_observed schemas, fd_observedSchema d)
      else if stage = ''output'' then Some (cs_output schemas, fd_outputSchema d)
      else None)"

definition negative_fixture_check ::
  "payload list \<Rightarrow> form_definition \<Rightarrow> compiled_schemas \<Rightarrow> negative_fixture \<Rightarrow> package_error option" where
  "negative_fixture_check ps d schemas f =
     (case listed ps (nf_inputPath f) of
        None \<Rightarrow> Some (NegativeUnlisted (nf_name f) (nf_inputPath f))
      | Some file \<Rightarrow>
          if pf_mediaType file \<noteq> ''application/json'' then Some (NegativeMedia (nf_name f) (nf_inputPath f))
          else (case stage_schema d schemas (nf_stage f) of
            None \<Rightarrow> Some (NegativeStage (nf_name f) (nf_stage f))
          | Some (None, _) \<Rightarrow> Some (NegativeNoSchema (nf_name f) (nf_stage f))
          | Some (Some validates, source) \<Rightarrow>
              if nf_expectedFailure f \<noteq> ''schema_validation_failed''
              then Some (NegativeFailure (nf_name f) (nf_expectedFailure f))
              else guard_err
                (validateFixtureAgainstSchema validates (map_of_nil source) (payload_bytes ps (nf_inputPath f))
                   (nf_name f @ '' '' @ nf_stage f) \<noteq> None)
                (NegativePassed (nf_name f) (nf_stage f))))"

section \<open>Content policy\<close>

definition payload_policy ::
  "unicode \<Rightarrow> package_index \<Rightarrow> form_definition \<Rightarrow> payload \<Rightarrow> package_error option" where
  "payload_policy U index d = (\<lambda>(file, _, v).
     case v of
       None \<Rightarrow> None
     | Some doc \<Rightarrow>
         if pf_path file = pi_definitionPath index then None
         else map_option ContentPolicy
           (if definitionDesiredFixturePaths d (pf_path file)
            then rejectForbiddenDesiredFixtureContent U doc (map_of_nil (fd_desiredSchema d)) (pf_path file)
            else rejectForbiddenContent U doc (pf_path file)))"

section \<open>The verdict on the bytes\<close>

definition newVerifiedPackage ::
  "bytes \<Rightarrow> package_index \<Rightarrow> bytes \<Rightarrow> payload list \<Rightarrow> verified_data" where
  "newVerifiedPackage packageDigest index canonicalDefinition ps =
     \<lparr>vd_issuer = verifiedPackageIssuerToken, vd_packageDigest = packageDigest,
      vd_formRef = pi_formRef index, vd_index = index, vd_canonicalDefinition = canonicalDefinition,
      vd_payloads = map (\<lambda>(f, raw, _). (pf_path f, raw)) ps\<rparr>"

definition judge_definition ::
  "libs \<Rightarrow> 'v engines \<Rightarrow> package_index \<Rightarrow> payload list \<Rightarrow>
     package_error + form_definition \<times> compiled_schemas \<times> bytes" where
  "judge_definition L E index ps =
     (case listed ps (pi_definitionPath index) of
        None \<Rightarrow> Inl (DefinitionUnlisted (pi_definitionPath index))
      | Some file \<Rightarrow>
          if pf_mediaType file \<noteq> DefinitionMediaType
          then Inl (DefinitionMedia (pi_definitionPath index) (pf_mediaType file))
          else (let raw = payload_bytes ps (pi_definitionPath index);
                    familyProfile = familyProfileForPackage (pi_apiVersion index) in
            case validateDefinitionWithFamilyProfile L E raw familyProfile of
              Inl e \<Rightarrow> Inl (BadDefinition e)
            | Inr (d, _, schemas) \<Rightarrow>
                (case Canonicalize (lib_transform L) raw of
                   Inl e \<Rightarrow> Inl (DefinitionCanonical e)
                 | Inr canonical \<Rightarrow>
                     if DigestBytes canonical \<noteq> fr_schemaDigest (pi_formRef index)
                     then Inl (SchemaDigestDiffers (fr_schemaDigest (pi_formRef index)) (DigestBytes canonical))
                     else if fd_apiVersion d \<noteq> fr_apiVersion (pi_formRef index) \<or>
                         fd_kind d \<noteq> fr_kind (pi_formRef index) \<or>
                         fd_definitionVersion d \<noteq> fr_definitionVersion (pi_formRef index)
                     then Inl IdentityDiffers
                     else (case validateFormRefWithFamilyProfile L (json_encode (enc_form_ref (pi_formRef index)))
                             familyProfile of
                             Inl e \<Rightarrow> Inl (BadFormRef e)
                           | Inr _ \<Rightarrow> Inr (d, schemas, canonical)))))"

definition judge ::
  "libs \<Rightarrow> 'v engines \<Rightarrow> bytes \<Rightarrow> package_index \<Rightarrow> int \<Rightarrow> payload list \<Rightarrow>
     package_error + verification_report" where
  "judge L E indexRaw index payloadBytes ps =
     bind_res (judge_definition L E index ps) (\<lambda>(d, schemas, canonical).
     check_then (first_err (map (payload_policy (lib_unicode L) index d) ps))
     (check_then (first_err (map (conformance_fixture_check ps d schemas) (fd_conformanceFixtures d)))
     (check_then (first_err (map (negative_fixture_check ps d schemas) (fd_negativeFixtures d)))
     (case DigestCanonicalJSON (lib_transform L) indexRaw of
        Inl e \<Rightarrow> Inl (IndexDigest e)
      | Inr packageDigest \<Rightarrow>
          Inr \<lparr>vr_packageDigest = packageDigest, vr_formRef = pi_formRef index,
               vr_fileCount = length (pi_files index), vr_payloadBytes = payloadBytes,
               vr_verified = Some (newVerifiedPackage packageDigest index canonical ps)\<rparr>))))"

section \<open>The verifier\<close>

definition verify_opened ::
  "'w platform \<Rightarrow> libs \<Rightarrow> 'v engines \<Rightarrow> bytes \<Rightarrow> nat \<Rightarrow> file_info \<Rightarrow>
     ('w, package_error, verification_report) action" where
  "verify_opened OS L E dir h rootInfo =
     bind_io (via Files (inventoryDirectory OS (lib_unicode L) dir)) (\<lambda>actualFiles.
     bind_io (via Files (assertPackageRootStable OS dir h rootInfo)) (\<lambda>_.
     bind_io (via ReadIndex (readBoundedRegularFile OS h dir PackageIndexFilename maxIndexBytes
                (map_of actualFiles PackageIndexFilename))) (\<lambda>indexRaw.
     lift_io (case validateIndex L indexRaw of Inl e \<Rightarrow> Inl (BadIndex e) | Inr (index, _) \<Rightarrow> Inr index) (\<lambda>index.
     lift_io (check_listing (lib_unicode L) actualFiles index) (\<lambda>payloadBytes.
     bind_io (each_io (read_payload OS L h dir actualFiles) (pi_files index)) (\<lambda>ps.
     lift_io (judge L E indexRaw index payloadBytes ps) (\<lambda>report.
     bind_io (via Files (assertPackageRootStable OS dir h rootInfo)) (\<lambda>_.
     return_io report))))))))"

definition VerifyDirectory ::
  "'w platform \<Rightarrow> libs \<Rightarrow> 'v engines \<Rightarrow> bytes \<Rightarrow> ('w, package_error, verification_report) action" where
  "VerifyDirectory OS L E dir =
     bind_io (via Files (openStablePackageRoot OS dir)) (\<lambda>(h, rootInfo).
       closing OS h (verify_opened OS L E dir h rootInfo))"

end
