(* ===== verification/PackageListing.thy ===== *)
theory PackageListing
  imports PackageVerify
begin

text \<open>
  What the listing check of \<^verbatim>\<open>VerifyDirectory\<close> accepts, stated without its loop: the listing
  is strictly sorted, names exactly the files that are there, and respects every bound. The
  loop bounds the running total before each addition; as no size is negative, that is the
  bound on the whole sum.
\<close>

definition listed_file_ok :: "unicode \<Rightarrow> package_file \<Rightarrow> bool" where
  "listed_file_ok U f \<longleftrightarrow>
     validatePackagePath (pf_path f) = None \<and> pf_path f \<noteq> PackageIndexFilename \<and>
     ValidDigest (pf_digest f) \<and> 0 \<le> pf_size f \<and> pf_size f \<le> maxPayloadBytes \<and>
     (pf_mediaType f = DefinitionMediaType \<longrightarrow> pf_size f \<le> maxDefinitionBytes) \<and>
     (isJSONMediaType (pf_mediaType f) \<longrightarrow> pf_size f \<le> maxJSONPayloadBytes) \<and>
     validateMediaType U (pf_path f) (pf_mediaType f) = None"

definition definition_files :: "package_file list \<Rightarrow> package_file list" where
  "definition_files fs = filter (\<lambda>f. pf_mediaType f = DefinitionMediaType) fs"

definition total_size :: "package_file list \<Rightarrow> int" where "total_size fs = sum_list (map pf_size fs)"

lemma total_size_simps [simp]: "total_size [] = 0" "total_size (f # fs) = pf_size f + total_size fs"
  by (simp_all add: total_size_def)

lemma total_size_nonneg: "\<forall>f\<in>set fs. listed_file_ok U f \<Longrightarrow> 0 \<le> total_size fs"
  by (induction fs) (auto simp: listed_file_ok_def)

lemma check_file_None:
  "check_file U i ordered n f = None \<longleftrightarrow>
     listed_file_ok U f \<and> pf_path f \<notin> set ordered \<and> (ordered = [] \<or> hd ordered < pf_path f) \<and>
     n + pf_size f \<le> maxPackageBytes"
  by (auto simp: check_file_def listed_file_ok_def not_le split: option.splits if_splits)

lemma sorted_snoc_iff:
  assumes "sorted_wrt (<) (rev ordered)"
  shows "sorted_wrt (<) (rev ordered @ [p :: bytes]) \<longleftrightarrow> p \<notin> set ordered \<and> (ordered = [] \<or> hd ordered < p)"
proof (cases ordered)
  case (Cons o' os)
  with assms have "\<forall>x\<in>set os. x < o'" by (auto simp: sorted_wrt_append)
  with assms Cons show ?thesis by (auto simp: sorted_wrt_append dest: order.strict_trans)
qed simp

lemma check_files_Inr:
  "sorted_wrt (<) (rev ordered) \<Longrightarrow>
   check_files U i ordered n d fs = Inr (paths, m, c) \<longleftrightarrow>
     (\<forall>f\<in>set fs. listed_file_ok U f) \<and> sorted_wrt (<) (rev ordered @ map pf_path fs) \<and>
     (fs = [] \<or> n + total_size fs \<le> maxPackageBytes) \<and>
     paths = rev ordered @ map pf_path fs \<and> m = n + total_size fs \<and> c = d + length (definition_files fs)"
proof (induction fs arbitrary: i ordered n d)
  case Nil
  then show ?case by (auto simp: definition_files_def)
next
  case (Cons f fs)
  have snoc: "sorted_wrt (<) (rev (pf_path f # ordered)) \<longleftrightarrow>
      pf_path f \<notin> set ordered \<and> (ordered = [] \<or> hd ordered < pf_path f)"
    using sorted_snoc_iff [OF Cons.prems] by simp
  have total: "n + pf_size f \<le> maxPackageBytes"
    if "\<forall>f\<in>set fs. listed_file_ok U f" "n + (pf_size f + total_size fs) \<le> maxPackageBytes"
    using that total_size_nonneg by fastforce
  show ?case
  proof (cases "sorted_wrt (<) (rev (pf_path f # ordered))")
    case True
    from Cons.IH [OF this] snoc True total show ?thesis
      by (auto simp: check_then_Inr check_file_None definition_files_def algebra_simps)
  next
    case False
    then have "\<not> sorted_wrt (<) (rev ordered @ map pf_path (f # fs))" by (auto simp: sorted_wrt_append)
    with False snoc show ?thesis by (auto simp: check_then_Inr check_file_None)
  qed
qed

lemma sorted_is_sort:
  assumes "sorted_wrt (<) (xs :: bytes list)"
  shows "xs = sort_strings ys \<longleftrightarrow> mset xs = mset ys"
proof
  assume m: "mset xs = mset ys"
  have "sorted_wrt (bytes_order.weak) xs"
    using assms by (rule sorted_wrt_mono_rel [rotated]) (auto simp: bytes_order.weak_def)
  moreover have "sorted_wrt (bytes_order.weak) (sort_strings ys)"
    unfolding sort_strings_def by (rule bytes_order.sort_by_sorted) simp
  ultimately show "xs = sort_strings ys"
    by (rule bytes_order.sorted_weak_unique) (simp_all add: m sort_strings_def)
qed (simp add: sort_strings_def)

text \<open>The files of the directory the index has to list.\<close>

definition payload_paths :: "inventory \<Rightarrow> bytes list" where
  "payload_paths actualFiles = filter (\<lambda>p. p \<noteq> PackageIndexFilename) (map fst actualFiles)"

definition listing_closed :: "unicode \<Rightarrow> inventory \<Rightarrow> package_index \<Rightarrow> bool" where
  "listing_closed U actualFiles index \<longleftrightarrow>
     length (pi_files index) \<le> maxPackageFiles \<and> supported_package index \<and>
     (\<forall>f\<in>set (pi_files index). listed_file_ok U f) \<and>
     sorted_wrt (<) (map pf_path (pi_files index)) \<and>
     mset (map pf_path (pi_files index)) = mset (payload_paths actualFiles) \<and>
     length (definition_files (pi_files index)) = 1 \<and>
     total_size (pi_files index) \<le> maxPackageBytes"

lemma check_listing_Inr:
  "check_listing U actualFiles index = Inr n \<longleftrightarrow>
     listing_closed U actualFiles index \<and> n = total_size (pi_files index)"
proof -
  let ?fs = "pi_files index"
  have loop: "check_files U 0 [] 0 0 ?fs = Inr (paths, m, c) \<longleftrightarrow>
      (\<forall>f\<in>set ?fs. listed_file_ok U f) \<and> sorted_wrt (<) (map pf_path ?fs) \<and>
      (?fs = [] \<or> total_size ?fs \<le> maxPackageBytes) \<and> paths = map pf_path ?fs \<and> m = total_size ?fs \<and>
      c = length (definition_files ?fs)" for paths m c
    using check_files_Inr [of "[]" U 0 0 0 ?fs paths m c] by simp
  have empty: "definition_files [] = []" by (simp add: definition_files_def)
  show ?thesis
    unfolding check_listing_def guarded_Inr listing_closed_def payload_paths_def
    using sorted_is_sort [of "map pf_path ?fs" "filter (\<lambda>p. p \<noteq> PackageIndexFilename) (map fst actualFiles)"] empty
    by (auto simp: loop split: prod.splits)
qed

text \<open>
  C5. The listing of a package index is accepted exactly if it is closed: at most 1024 files
  under a supported package identity, each with a canonical path and digest, a media type that
  fits its extension and a size within the bound of that type, strictly sorted, together the
  payload files of the directory and no others, exactly one of them a Form Definition, and at
  most 256 MiB in all. The bytes counted are the listed ones.
\<close>
theorem listing_exact:
  "check_listing U actualFiles index = Inr n \<longleftrightarrow>
     listing_closed U actualFiles index \<and> n = total_size (pi_files index)"
  by (rule check_listing_Inr)

end
