(* ===== verification/PackageHandles.thy ===== *)
theory PackageHandles
  imports PackageVerify
begin

text \<open>
  Every file descriptor the package verifier opens is closed again exactly once, on every
  path, errors included. An observed platform behaves as the platform it is made of and keeps
  a note in the world: one function says what opening does to the note, another what closing
  does. The interface \<open>ledger\<close> asks that closing a descriptor undoes its opening. With a count
  per descriptor it gives the balance; with functions that do nothing it says that the
  verifier does not see what else the world holds.
\<close>

section \<open>Observed platforms\<close>

definition aside :: "'a \<times> 'w \<Rightarrow> 'n \<Rightarrow> 'a \<times> 'w \<times> 'n" where
  "aside r l = (fst r, snd r, l)"

definition on_open :: "(nat \<Rightarrow> 'n \<Rightarrow> 'n) \<Rightarrow> nat option \<times> 'w \<Rightarrow> 'n \<Rightarrow> nat option \<times> 'w \<times> 'n" where
  "on_open up r l = (fst r, snd r, case fst r of None \<Rightarrow> l | Some h \<Rightarrow> up h l)"

definition observed :: "(nat \<Rightarrow> 'n \<Rightarrow> 'n) \<Rightarrow> (nat \<Rightarrow> 'n \<Rightarrow> 'n) \<Rightarrow> 'w platform \<Rightarrow> ('w \<times> 'n) platform" where
  "observed up down OS =
     \<lparr>os_lstat = (\<lambda>p (w, l). aside (os_lstat OS p w) l),
      os_openRoot = (\<lambda>p (w, l). on_open up (os_openRoot OS p w) l),
      os_dup = (\<lambda>h (w, l). on_open up (os_dup OS h w) l),
      os_openat = (\<lambda>h c d (w, l). on_open up (os_openat OS h c d w) l),
      os_close = (\<lambda>h (w, l). (os_close OS h w, down h l)),
      os_stat = (\<lambda>h (w, l). aside (os_stat OS h w) l),
      os_content = (\<lambda>h (w, l). aside (os_content OS h w) l),
      os_walk = (\<lambda>p (w, l). aside (os_walk OS p w) l)\<rparr>"

text \<open>The observed action does what the plain one does and leaves the note as it was, or
  leaves it owning the handle it returns.\<close>

definition keeps_note :: "('w \<times> 'n, 'e, 'a) action \<Rightarrow> ('w, 'e, 'a) action \<Rightarrow> bool" where
  "keeps_note m' m \<longleftrightarrow> (\<forall>w l. m' (w, l) = (fst (m w), snd (m w), l))"

named_theorems ledger_rules

lemma note_run: "keeps_note m' m \<Longrightarrow> m' (w, l) = (fst (m w), snd (m w), l)"
  by (simp add: keeps_note_def)

lemma ledger_pure [ledger_rules]:
  "keeps_note (fail_io e) (fail_io e)" "keeps_note (return_io a) (return_io a)"
  by (simp_all add: keeps_note_def)

lemma ledger_bind [ledger_rules]:
  assumes "keeps_note m' m" and "\<And>a. keeps_note (f' a) (f a)"
  shows "keeps_note (bind_io m' f') (bind_io m f)"
  using assms by (auto simp: keeps_note_def bind_io_def split: prod.splits sum.splits)

lemma ledger_check [ledger_rules]: "keeps_note m' m \<Longrightarrow> keeps_note (check_io c m') (check_io c m)"
  by (auto simp: keeps_note_def check_io_def split: option.splits)

lemma ledger_lift [ledger_rules]: "(\<And>a. keeps_note (f' a) (f a)) \<Longrightarrow> keeps_note (lift_io r f') (lift_io r f)"
  by (auto simp: keeps_note_def lift_io_def split: sum.splits)

lemma ledger_via [ledger_rules]: "keeps_note m' m \<Longrightarrow> keeps_note (via g m') (via g m)"
  by (auto simp: keeps_note_def via_def split: prod.splits sum.splits)

lemma ledger_each [ledger_rules]:
  assumes "\<And>x. keeps_note (f' x) (f x)"
  shows "keeps_note (each_io f' xs) (each_io f xs)"
proof (induction xs)
  case (Cons x xs)
  have "keeps_note (bind_io (f' x) (\<lambda>y. bind_io (each_io f' xs) (\<lambda>ys. return_io (y # ys))))
     (bind_io (f x) (\<lambda>y. bind_io (each_io f xs) (\<lambda>ys. return_io (y # ys))))"
    by (intro ledger_rules assms Cons.IH)
  then show ?case by (simp add: keeps_note_def)
qed (simp add: keeps_note_def)

section \<open>Ledgers\<close>

locale ledger =
  fixes up :: "nat \<Rightarrow> 'n \<Rightarrow> 'n" and down :: "nat \<Rightarrow> 'n \<Rightarrow> 'n"
  assumes undo [simp]: "down h (up h l) = l" "down c (up h (up c l)) = up h l"
begin

abbreviation seen :: "'w platform \<Rightarrow> ('w \<times> 'n) platform" where "seen \<equiv> observed up down"

lemmas seen_def = observed_def

lemma seen_simps:
  "os_close (seen OS) h (w, l) = (os_close OS h w, down h l)"
  "os_openat (seen OS) h c d (w, l) = on_open up (os_openat OS h c d w) l"
  by (simp_all add: observed_def)

definition owns_result ::
  "('w \<times> 'n, 'e, 'a) action \<Rightarrow> ('w, 'e, 'a) action \<Rightarrow> ('a \<Rightarrow> nat) \<Rightarrow> bool" where
  "owns_result m' m h \<longleftrightarrow>
     (\<forall>w l. m' (w, l) = (fst (m w), snd (m w), case fst (m w) of Inl _ \<Rightarrow> l | Inr a \<Rightarrow> up (h a) l))"

definition trades_handle ::
  "nat \<Rightarrow> ('w \<times> 'n, 'e, nat) action \<Rightarrow> ('w, 'e, nat) action \<Rightarrow> bool" where
  "trades_handle c m' m \<longleftrightarrow>
     (\<forall>w l. m' (w, up c l) = (fst (m w), snd (m w), case fst (m w) of Inl _ \<Rightarrow> l | Inr h \<Rightarrow> up h l))"

lemma ledger_ask [ledger_rules]:
  "keeps_note (ask e (os_lstat (seen OS) p)) (ask e (os_lstat OS p))"
  "keeps_note (ask e (os_stat (seen OS) h)) (ask e (os_stat OS h))"
  by (auto simp: keeps_note_def ask_def seen_def aside_def split: prod.splits option.splits)

lemma ledger_open [ledger_rules]:
  "owns_result (ask e (os_openRoot (seen OS) p)) (ask e (os_openRoot OS p)) id"
  "owns_result (ask e (os_dup (seen OS) h)) (ask e (os_dup OS h)) id"
  "owns_result (ask e (os_openat (seen OS) h c d)) (ask e (os_openat OS h c d)) id"
  by (auto simp: owns_result_def ask_def seen_def on_open_def split: prod.splits option.splits)

text \<open>A handle that is owned and closed at the end is gone.\<close>

lemma ledger_closing [ledger_rules]:
  assumes "owns_result m' m h" and "\<And>a. keeps_note (f' a) (f a)"
  shows "keeps_note (bind_io m' (\<lambda>a. closing (seen OS) (h a) (f' a))) (bind_io m (\<lambda>a. closing OS (h a) (f a)))"
  using assms
  by (auto simp: owns_result_def keeps_note_def bind_io_def closing_def seen_def
    split: prod.splits sum.splits)

lemma ledger_id_closing [ledger_rules]:
  assumes "owns_result m' m id" and "\<And>a. keeps_note (f' a) (f a)"
  shows "keeps_note (bind_io m' (\<lambda>a. closing (seen OS) a (f' a))) (bind_io m (\<lambda>a. closing OS a (f a)))"
  using ledger_closing [OF assms, of OS] by simp

lemma owns_bind [ledger_rules]:
  "keeps_note m' m \<Longrightarrow> (\<And>a. owns_result (f' a) (f a) h) \<Longrightarrow> owns_result (bind_io m' f') (bind_io m f) h"
  by (auto simp: keeps_note_def owns_result_def bind_io_def split: prod.splits sum.splits)

lemma owns_check [ledger_rules]: "owns_result m' m h \<Longrightarrow> owns_result (check_io c m') (check_io c m) h"
  by (auto simp: owns_result_def check_io_def split: option.splits)

lemma owns_trade:
  assumes "owns_result m' m id" and "\<And>c. trades_handle c (f' c) (f c)"
  shows "owns_result (bind_io m' f') (bind_io m f) id"
  using assms by (auto simp: owns_result_def trades_handle_def bind_io_def split: prod.splits sum.splits)

section \<open>The verifier's actions\<close>

lemma open_components_trades:
  "trades_handle current (open_components (seen OS) current cs) (open_components OS current cs)"
proof (induction cs arbitrary: current)
  case (Cons c cs)
  show ?case
    unfolding trades_handle_def
    using Cons [unfolded trades_handle_def]
    by (auto simp: seen_simps on_open_def split: prod.splits option.splits)
qed (simp add: trades_handle_def)

lemma final_open_trades:
  "trades_handle current (closing (seen OS) current (ask e (os_openat (seen OS) current c False)))
     (closing OS current (ask e (os_openat OS current c False)))"
  by (auto simp: trades_handle_def closing_def ask_def seen_def on_open_def split: prod.splits option.splits)

lemma trades_bind:
  "trades_handle c m' m \<Longrightarrow> (\<And>h. trades_handle h (f' h) (f h)) \<Longrightarrow> trades_handle c (bind_io m' f') (bind_io m f)"
  by (auto simp: trades_handle_def bind_io_def split: prod.splits sum.splits)

lemma ledger_secure_open [ledger_rules]:
  "owns_result (secureOpenRelative (seen OS) h p) (secureOpenRelative OS h p) id"
  unfolding secureOpenRelative_def Let_def
  by (intro ledger_rules owns_trade trades_bind open_components_trades final_open_trades)

lemma ledger_read_limited [ledger_rules]:
  "keeps_note (read_limited (seen OS) h limit) (read_limited OS h limit)"
  by (auto simp: keeps_note_def read_limited_def seen_def aside_def split: prod.splits)

lemma ledger_read [ledger_rules]:
  "keeps_note (readBoundedRegularFile (seen OS) h dir p maximum found)
     (readBoundedRegularFile OS h dir p maximum found)"
proof (cases found)
  case (Some info)
  show ?thesis
    unfolding readBoundedRegularFile_def Let_def Some option.case
    by (intro ledger_rules)
qed (simp add: readBoundedRegularFile_def ledger_rules)

lemma ledger_inventory [ledger_rules]:
  "keeps_note (inventoryDirectory (seen OS) U dir) (inventoryDirectory OS U dir)"
  by (auto simp: keeps_note_def inventoryDirectory_def seen_def aside_def split: prod.splits)

lemma ledger_stable [ledger_rules]:
  "keeps_note (assertPackageRootStable (seen OS) dir h i) (assertPackageRootStable OS dir h i)"
  unfolding assertPackageRootStable_def by (intro ledger_rules)

lemma ledger_root [ledger_rules]:
  "owns_result (openStablePackageRoot (seen OS) dir) (openStablePackageRoot OS dir) fst"
proof -
  have "owns_result
      (bind_io (ask RootOpen (os_openRoot (seen OS) dir)) (\<lambda>h w. case os_stat (seen OS) h w of
          (None, w') \<Rightarrow> (Inl RootInspectOpened, os_close (seen OS) h w')
        | (Some opened, w') \<Rightarrow> if bad opened then (Inl RootChangedOpening, os_close (seen OS) h w')
            else (Inr (h, opened), w')))
      (bind_io (ask RootOpen (os_openRoot OS dir)) (\<lambda>h w. case os_stat OS h w of
          (None, w') \<Rightarrow> (Inl RootInspectOpened, os_close OS h w')
        | (Some opened, w') \<Rightarrow> if bad opened then (Inl RootChangedOpening, os_close OS h w')
            else (Inr (h, opened), w'))) fst" for bad :: "file_info \<Rightarrow> bool"
    by (auto simp: owns_result_def bind_io_def ask_def seen_def on_open_def aside_def
      split: prod.splits option.splits)
  from this [of "\<lambda>opened. \<not> is_dir opened \<or> \<not> same_file before opened \<or> \<not> sameStableMetadata before opened" for before]
  show ?thesis
    unfolding openStablePackageRoot_def by (intro owns_bind [OF ledger_ask(1)] owns_check)
qed

lemma owns_via [ledger_rules]: "owns_result m' m h \<Longrightarrow> owns_result (via g m') (via g m) h"
  by (auto simp: owns_result_def via_def split: prod.splits sum.splits)

lemma ledger_payload [ledger_rules]:
  "keeps_note (read_payload (seen OS) L h dir files f) (read_payload OS L h dir files f)"
  unfolding keeps_note_def read_payload_def note_run [OF ledger_read]
  by (auto split: prod.splits sum.splits)

lemma observed_verify:
  "VerifyDirectory (seen OS) L E dir (w, l) =
     (fst (VerifyDirectory OS L E dir w), snd (VerifyDirectory OS L E dir w), l)"
proof -
  have "keeps_note (verify_opened (seen OS) L E dir h i) (verify_opened OS L E dir h i)" for h i
    unfolding verify_opened_def by (intro ledger_rules)
  then have "keeps_note (VerifyDirectory (seen OS) L E dir) (VerifyDirectory OS L E dir)"
    unfolding VerifyDirectory_def case_prod_beta by (intro ledger_rules)
  then show ?thesis by (rule note_run)
qed

end

section \<open>The balance\<close>

type_synonym counts = "nat \<Rightarrow> int"

definition credit :: "nat \<Rightarrow> counts \<Rightarrow> counts" where "credit h l = l(h := l h + 1)"
definition debit :: "nat \<Rightarrow> counts \<Rightarrow> counts" where "debit h l = l(h := l h - 1)"

interpretation counted: ledger credit debit
  by unfold_locales (auto simp: credit_def debit_def fun_eq_iff)

text \<open>A note that is never written.\<close>

interpretation unseen: ledger "\<lambda>_ l. l" "\<lambda>_ l. l"
  by unfold_locales simp_all

text \<open>
  C8. The package verifier closes every descriptor it opens exactly once, whatever the system
  answers and wherever verification stops: on a platform that counts, \<^verbatim>\<open>VerifyDirectory\<close> gives
  the result it gives without counting and leaves every count as it found it.
\<close>
theorem handles_balanced:
  "VerifyDirectory (observed credit debit OS) L E dir (w, counts) =
     (fst (VerifyDirectory OS L E dir w), snd (VerifyDirectory OS L E dir w), counts)"
  by (rule counted.observed_verify)

end
