(* ===== verification/PackageClosure.thy ===== *)
theory PackageClosure
  imports PackageListing PackageHandles
begin

text \<open>
  What a successful \<^verbatim>\<open>VerifyDirectory\<close> promises of the report it returns, whatever the file
  system did meanwhile: the bytes it holds are the ones the index lists, the definition is the
  one its reference names, and the fixtures and the content policy hold of those bytes.
\<close>

section \<open>The promise\<close>

definition fixture_accepted :: "(gval \<Rightarrow> bool) \<Rightarrow> object option \<Rightarrow> bytes \<Rightarrow> bool" where
  "fixture_accepted validates source raw \<longleftrightarrow>
     (\<exists>v work memo. Unmarshal raw (dec_any True) VNull = Some v \<and>
        fixture_estimate fixture_fuel (VObj (map_of_nil source)) (VObj (map_of_nil source)) ''#'' v ''#'' ''value''
          Map.empty = Inr (work, memo) \<and>
        work \<le> maxSchemaValidationWork \<and> validates v)"

text \<open>A payload the package lists as JSON.\<close>

definition json_payload :: "verified_data \<Rightarrow> bytes \<Rightarrow> bytes \<Rightarrow> bool" where
  "json_payload p path raw \<longleftrightarrow>
     map_of (vd_payloads p) path = Some raw \<and>
     (\<exists>f\<in>set (pi_files (vd_index p)). pf_path f = path \<and> pf_mediaType f = ''application/json'')"

definition stage_accepted ::
  "verified_data \<Rightarrow> (gval \<Rightarrow> bool) option \<Rightarrow> object option \<Rightarrow> bytes \<Rightarrow> bool" where
  "stage_accepted p compiled source path \<longleftrightarrow>
     (\<exists>raw validates. json_payload p path raw \<and> compiled = Some validates \<and> fixture_accepted validates source raw)"

definition fixtures_hold :: "verified_data \<Rightarrow> form_definition \<Rightarrow> compiled_schemas \<Rightarrow> bool" where
  "fixtures_hold p d schemas \<longleftrightarrow>
     (\<forall>f\<in>set (fd_conformanceFixtures d).
        stage_accepted p (Some (cs_desired schemas)) (fd_desiredSchema d) (cf_desiredPath f) \<and>
        (cf_observedPath f \<noteq> [] \<longrightarrow>
           stage_accepted p (cs_observed schemas) (fd_observedSchema d) (cf_observedPath f)) \<and>
        (cf_outputPath f \<noteq> [] \<longrightarrow> stage_accepted p (cs_output schemas) (fd_outputSchema d) (cf_outputPath f))) \<and>
     (\<forall>f\<in>set (fd_negativeFixtures d).
        nf_expectedFailure f = ''schema_validation_failed'' \<and>
        (\<exists>raw validates source. json_payload p (nf_inputPath f) raw \<and>
           stage_schema d schemas (nf_stage f) = Some (Some validates, source) \<and>
           \<not> fixture_accepted validates source raw))"

definition payload_ok :: "package_file \<Rightarrow> bytes \<times> bytes \<Rightarrow> bool" where
  "payload_ok f = (\<lambda>(path, raw).
     path = pf_path f \<and> int (length raw) = pf_size f \<and> DigestBytes raw = pf_digest f \<and> valid_utf8 raw \<and>
     (if isJSONMediaType (pf_mediaType f) then (\<exists>v. parseDocument raw = Inr v) else CHR 0x00 \<notin> set raw))"

definition policy_holds :: "unicode \<Rightarrow> verified_data \<Rightarrow> form_definition \<Rightarrow> bool" where
  "policy_holds U p d \<longleftrightarrow>
     (\<forall>f\<in>set (pi_files (vd_index p)). \<forall>raw v.
        isJSONMediaType (pf_mediaType f) \<longrightarrow> pf_path f \<noteq> pi_definitionPath (vd_index p) \<longrightarrow>
        map_of (vd_payloads p) (pf_path f) = Some raw \<longrightarrow> Unmarshal raw (dec_any False) VNull = Some v \<longrightarrow>
        (if definitionDesiredFixturePaths d (pf_path f)
         then rejectForbiddenDesiredFixtureContent U v (map_of_nil (fd_desiredSchema d)) (pf_path f) = None
         else rejectForbiddenContent U v (pf_path f) = None))"

definition definition_closed :: "libs \<Rightarrow> 'v engines \<Rightarrow> verified_data \<Rightarrow> bool" where
  "definition_closed L E p \<longleftrightarrow>
     (\<exists>raw d v schemas.
        map_of (vd_payloads p) (pi_definitionPath (vd_index p)) = Some raw \<and>
        validateDefinitionWithFamilyProfile L E raw (familyProfileForPackage (pi_apiVersion (vd_index p)))
          = Inr (d, v, schemas) \<and>
        lib_transform L raw = Some (vd_canonicalDefinition p) \<and>
        DigestBytes (vd_canonicalDefinition p) = fr_schemaDigest (vd_formRef p) \<and>
        fd_apiVersion d = fr_apiVersion (vd_formRef p) \<and> fd_kind d = fr_kind (vd_formRef p) \<and>
        fd_definitionVersion d = fr_definitionVersion (vd_formRef p) \<and>
        policy_holds (lib_unicode L) p d \<and> fixtures_hold p d schemas)"

definition package_closed :: "libs \<Rightarrow> 'v engines \<Rightarrow> verification_report \<Rightarrow> bool" where
  "package_closed L E report \<longleftrightarrow>
     (\<exists>p files. vr_verified report = Some p \<and> files = pi_files (vd_index p) \<and>
        package_Valid (vr_verified report) \<and> vr_packageDigest report = vd_packageDigest p \<and>
        vr_formRef report = vd_formRef p \<and> vd_formRef p = pi_formRef (vd_index p) \<and>
        vr_fileCount report = length files \<and> length files \<le> maxPackageFiles \<and>
        vr_payloadBytes report = total_size files \<and> total_size files \<le> maxPackageBytes \<and>
        sorted_wrt (<) (map pf_path files) \<and> list_all2 payload_ok files (vd_payloads p) \<and>
        length (definition_files files) = 1 \<and> definition_closed L E p)"

section \<open>Payloads\<close>

lemma Unmarshal_empty: "Unmarshal [] d zero = None"
  by (simp add: Unmarshal_def unmarshal_value_def lax_value.simps skipWhitespace_def scan_value_def)

definition payload_checked :: "libs \<Rightarrow> package_file \<Rightarrow> payload \<Rightarrow> bool" where
  "payload_checked L f = (\<lambda>(g, raw, v). g = f \<and> payload_ok f (pf_path f, raw) \<and>
     v = (if isJSONMediaType (pf_mediaType f) then Unmarshal raw (dec_any False) VNull else None) \<and>
     (isJSONMediaType (pf_mediaType f) \<longrightarrow> v \<noteq> None))"

lemma check_payload_Inr: "check_payload L f raw = Inr x \<Longrightarrow> payload_checked L f x"
  by (auto simp: check_payload_def payload_checked_def payload_ok_def Canonicalize_Inr
    split: if_splits sum.splits option.splits)

lemma read_payload_Inr: "read_payload OS L h dir files f w = (Inr x, w') \<Longrightarrow> payload_checked L f x"
  by (auto simp: read_payload_def intro: check_payload_Inr split: prod.splits sum.splits)

lemma read_payloads:
  "each_io (read_payload OS L h dir actual) files w = (Inr ps, w') \<Longrightarrow> list_all2 (payload_checked L) files ps"
  by (rule list_all2_mono [OF each_io_Inr]) (auto intro: read_payload_Inr)

definition held_payloads :: "payload list \<Rightarrow> (bytes \<times> bytes) list" where
  "held_payloads ps = map (\<lambda>(f, raw, _). (pf_path f, raw)) ps"

lemma held_payloads_ok: "list_all2 (payload_checked L) files ps \<Longrightarrow> list_all2 payload_ok files (held_payloads ps)"
  unfolding held_payloads_def list_all2_map2
  by (erule list_all2_mono) (auto simp: payload_checked_def)

lemma checked_files: "list_all2 (payload_checked L) files ps \<Longrightarrow> map fst ps = files"
  by (induction rule: list_all2_induct) (auto simp: payload_checked_def)

lemma listed_file: "list_all2 (payload_checked L) files ps \<Longrightarrow> listed ps path = Some f \<Longrightarrow> f \<in> set files \<and> pf_path f = path"
  by (auto simp: listed_def dest!: map_of_SomeD checked_files) (metis fst_conv image_eqI)

lemma payload_bytes_held: "payload_bytes ps path = (case map_of (held_payloads ps) path of Some raw \<Rightarrow> raw | None \<Rightarrow> [])"
  by (simp add: payload_bytes_def held_payloads_def)

lemma listed_held: "listed ps path = Some f \<Longrightarrow> map_of (held_payloads ps) path = Some (payload_bytes ps path)"
proof -
  assume "listed ps path = Some f"
  then have "path \<in> fst ` set (held_payloads ps)"
    by (force simp: listed_def held_payloads_def dest!: map_of_SomeD)
  then have "map_of (held_payloads ps) path \<noteq> None" by (simp add: map_of_eq_None_iff)
  then show ?thesis by (auto simp: payload_bytes_held)
qed

section \<open>Fixtures\<close>

lemma fixture_accepted_iff:
  "validateFixtureAgainstSchema validates (map_of_nil source) raw label = None \<longleftrightarrow>
     fixture_accepted validates source raw"
  by (auto simp: validateFixtureAgainstSchema_def fixture_accepted_def not_less
    split: option.splits sum.splits prod.splits)

lemma fixture_rejected:
  "validateFixtureAgainstSchema validates (map_of_nil source) raw label = Some e \<Longrightarrow>
     \<not> fixture_accepted validates source raw"
  by (simp flip: fixture_accepted_iff [of validates source raw label])

lemma fixture_accepted_bytes: "fixture_accepted validates source raw \<Longrightarrow> raw \<noteq> []"
  by (auto simp: fixture_accepted_def Unmarshal_empty)

text \<open>The package data holds the payloads that were checked.\<close>

definition carries :: "libs \<Rightarrow> package_index \<Rightarrow> payload list \<Rightarrow> verified_data \<Rightarrow> bool" where
  "carries L index ps p \<longleftrightarrow>
     list_all2 (payload_checked L) (pi_files index) ps \<and> vd_payloads p = held_payloads ps \<and> vd_index p = index"

lemma carriesD:
  assumes "carries L index ps p"
  shows "list_all2 (payload_checked L) (pi_files index) ps" and "vd_payloads p = held_payloads ps" and "vd_index p = index"
  using assms by (simp_all add: carries_def)

lemma json_listed:
  assumes c: "carries L index ps p"
    and "listed ps path = Some f" and "pf_mediaType f = ''application/json''"
  shows "json_payload p path (payload_bytes ps path)"
  using listed_held [OF assms(2)] listed_file [OF carriesD(1) [OF c] assms(2)] assms(3) carriesD(2,3) [OF c]
  by (auto simp: json_payload_def)

lemma fixture_path_json:
  assumes c: "carries L index ps p"
    and "fixture_path ps name path = None" and "path \<noteq> []"
  shows "json_payload p path (payload_bytes ps path)"
  using assms json_listed [OF c] by (auto simp: fixture_path_def split: option.splits)

lemma desired_accepted:
  assumes c: "carries L index ps p"
    and "fixture_path ps name path = None"
    and "validateFixtureAgainstSchema validates (map_of_nil source) (payload_bytes ps path) label = None"
    and "[] \<notin> pf_path ` set (pi_files index)"
  shows "stage_accepted p (Some validates) source path"
proof -
  from assms(3) have accepted: "fixture_accepted validates source (payload_bytes ps path)"
    by (simp add: fixture_accepted_iff)
  have "path \<noteq> []"
  proof
    assume "path = []"
    moreover have "fst ` set (held_payloads ps) = pf_path ` fst ` set ps"
      by (force simp: held_payloads_def)
    moreover have "fst ` set ps = set (pi_files index)" using checked_files [OF carriesD(1) [OF c]] by (metis set_map)
    ultimately have "map_of (held_payloads ps) path = None" using assms(4) by (simp add: map_of_eq_None_iff)
    with fixture_accepted_bytes [OF accepted] show False by (simp add: payload_bytes_held)
  qed
  from fixture_path_json [OF c assms(2) this] accepted show ?thesis by (auto simp: stage_accepted_def)
qed

lemma optional_accepted:
  assumes c: "carries L index ps p"
    and "fixture_path ps name path = None" and "optional_fixture ps compiled source path label e = None"
    and "path \<noteq> []"
  shows "stage_accepted p compiled source path"
  using assms fixture_path_json [OF c assms(2) assms(4)]
  by (auto simp: optional_fixture_def stage_accepted_def fixture_accepted_iff split: option.splits)

lemma conformance_accepted:
  assumes c: "carries L index ps p"
    and "conformance_fixture_check ps d schemas f = None" and "[] \<notin> pf_path ` set (pi_files index)"
  shows "stage_accepted p (Some (cs_desired schemas)) (fd_desiredSchema d) (cf_desiredPath f) \<and>
    (cf_observedPath f \<noteq> [] \<longrightarrow> stage_accepted p (cs_observed schemas) (fd_observedSchema d) (cf_observedPath f)) \<and>
    (cf_outputPath f \<noteq> [] \<longrightarrow> stage_accepted p (cs_output schemas) (fd_outputSchema d) (cf_outputPath f))"
  using assms unfolding conformance_fixture_check_def
  by (auto intro: desired_accepted [OF c] optional_accepted [OF c])

lemma negative_rejected:
  assumes c: "carries L index ps p"
    and "negative_fixture_check ps d schemas f = None"
  shows "nf_expectedFailure f = ''schema_validation_failed'' \<and>
    (\<exists>raw validates source. json_payload p (nf_inputPath f) raw \<and>
       stage_schema d schemas (nf_stage f) = Some (Some validates, source) \<and> \<not> fixture_accepted validates source raw)"
  using assms json_listed [OF c]
  by (auto simp: negative_fixture_check_def split: option.splits if_splits) (metis fixture_rejected)

lemma policy_accepted:
  assumes c: "carries L index ps p"
    and "first_err (map (payload_policy U index d) ps) = None" and "distinct (map pf_path (pi_files index))"
  shows "policy_holds U p d"
  unfolding policy_holds_def carriesD(2,3) [OF c]
proof (intro ballI allI impI)
  fix f raw v
  assume f: "f \<in> set (pi_files index)" and json: "isJSONMediaType (pf_mediaType f)"
    and path: "pf_path f \<noteq> pi_definitionPath index"
    and raw: "map_of (held_payloads ps) (pf_path f) = Some raw" and v: "Unmarshal raw (dec_any False) VNull = Some v"
  from f carriesD(1) [OF c] obtain x where x: "x \<in> set ps" "payload_checked L f x"
    by (metis in_set_conv_nth list_all2_conv_all_nth)
  then obtain raw' v' where split: "x = (f, raw', Some v')" "Unmarshal raw' (dec_any False) VNull = Some v'"
    using json by (cases x) (auto simp: payload_checked_def)
  have "distinct (map fst (held_payloads ps))"
    using assms(3) unfolding checked_files [OF carriesD(1) [OF c], symmetric] by (simp add: held_payloads_def case_prod_beta comp_def)
  moreover have "(pf_path f, raw') \<in> set (held_payloads ps)" using x(1) split(1) by (force simp: held_payloads_def)
  ultimately have "raw' = raw" using raw by (simp add: map_of_eq_Some_iff)
  with split v have "v' = v" by simp
  have "payload_policy U index d x = None" using assms(2) x(1) by simp
  with split(1) \<open>v' = v\<close> path show "if definitionDesiredFixturePaths d (pf_path f)
      then rejectForbiddenDesiredFixtureContent U v (map_of_nil (fd_desiredSchema d)) (pf_path f) = None
      else rejectForbiddenContent U v (pf_path f) = None"
    by (auto simp: payload_policy_def split: if_splits)
qed

section \<open>The verifier\<close>

lemma judge_definition_Inr:
  assumes "judge_definition L E index ps = Inr (d, schemas, canonical)"
  obtains f v where "listed ps (pi_definitionPath index) = Some f"
    and "validateDefinitionWithFamilyProfile L E (payload_bytes ps (pi_definitionPath index))
        (familyProfileForPackage (pi_apiVersion index)) = Inr (d, v, schemas)"
    and "lib_transform L (payload_bytes ps (pi_definitionPath index)) = Some canonical"
    and "DigestBytes canonical = fr_schemaDigest (pi_formRef index)"
    and "fd_apiVersion d = fr_apiVersion (pi_formRef index)" and "fd_kind d = fr_kind (pi_formRef index)"
    and "fd_definitionVersion d = fr_definitionVersion (pi_formRef index)"
  using assms
  by (auto simp: judge_definition_def Let_def Canonicalize_Inr split: option.splits if_splits sum.splits prod.splits)

lemma judge_Inr:
  assumes "judge L E raw index n ps = Inr report"
  obtains d schemas canonical digest where "judge_definition L E index ps = Inr (d, schemas, canonical)"
    and "first_err (map (payload_policy (lib_unicode L) index d) ps) = None"
    and "\<forall>f\<in>set (fd_conformanceFixtures d). conformance_fixture_check ps d schemas f = None"
    and "\<forall>f\<in>set (fd_negativeFixtures d). negative_fixture_check ps d schemas f = None"
    and "report = \<lparr>vr_packageDigest = digest, vr_formRef = pi_formRef index,
               vr_fileCount = length (pi_files index), vr_payloadBytes = n,
               vr_verified = Some (newVerifiedPackage digest index canonical ps)\<rparr>"
proof -
  from assms obtain d schemas canonical where
      d: "judge_definition L E index ps = Inr (d, schemas, canonical)"
        "first_err (map (payload_policy (lib_unicode L) index d) ps) = None"
        "first_err (map (conformance_fixture_check ps d schemas) (fd_conformanceFixtures d)) = None"
        "first_err (map (negative_fixture_check ps d schemas) (fd_negativeFixtures d)) = None"
    and digest: "(case DigestCanonicalJSON (lib_transform L) raw of Inl e \<Rightarrow> Inl (IndexDigest e)
      | Inr digest \<Rightarrow> Inr \<lparr>vr_packageDigest = digest, vr_formRef = pi_formRef index,
               vr_fileCount = length (pi_files index), vr_payloadBytes = n,
               vr_verified = Some (newVerifiedPackage digest index canonical ps)\<rparr>) = Inr report"
    unfolding judge_def bind_res_Inr check_then_Inr by (auto simp: check_then_Inr)
  from digest obtain digest where "report = \<lparr>vr_packageDigest = digest, vr_formRef = pi_formRef index,
               vr_fileCount = length (pi_files index), vr_payloadBytes = n,
               vr_verified = Some (newVerifiedPackage digest index canonical ps)\<rparr>"
    by (auto split: sum.splits)
  with d show ?thesis by (intro that) simp_all
qed

lemma judged_closed:
  assumes listing: "listing_closed U actual index" and checked: "list_all2 (payload_checked L) (pi_files index) ps"
    and report: "judge L E raw index (total_size (pi_files index)) ps = Inr report"
  shows "package_closed L E report"
proof -
  from report obtain d schemas canonical digest where
      d: "judge_definition L E index ps = Inr (d, schemas, canonical)"
    and policy: "first_err (map (payload_policy (lib_unicode L) index d) ps) = None"
    and conformance: "\<forall>f\<in>set (fd_conformanceFixtures d). conformance_fixture_check ps d schemas f = None"
    and negative: "\<forall>f\<in>set (fd_negativeFixtures d). negative_fixture_check ps d schemas f = None"
    and r: "report = \<lparr>vr_packageDigest = digest, vr_formRef = pi_formRef index,
        vr_fileCount = length (pi_files index), vr_payloadBytes = total_size (pi_files index),
        vr_verified = Some (newVerifiedPackage digest index canonical ps)\<rparr>"
    by (rule judge_Inr)
  let ?p = "newVerifiedPackage digest index canonical ps"
  have c: "carries L index ps ?p" by (simp add: carries_def checked newVerifiedPackage_def held_payloads_def)
  have paths: "[] \<notin> pf_path ` set (pi_files index)" "distinct (map pf_path (pi_files index))"
    using listing strict_sorted_iff
    by (auto simp: listing_closed_def listed_file_ok_def validatePackagePath_def)
  have "fixtures_hold ?p d schemas"
    unfolding fixtures_hold_def
    using conformance negative conformance_accepted [OF c _ paths(1)] negative_rejected [OF c] by blast
  moreover have "policy_holds (lib_unicode L) ?p d" by (rule policy_accepted [OF c policy paths(2)])
  ultimately have "definition_closed L E ?p"
    using d
  proof (elim judge_definition_Inr)
    fix f v
    assume f: "listed ps (pi_definitionPath index) = Some f"
    show ?thesis if "fixtures_hold ?p d schemas" and "policy_holds (lib_unicode L) ?p d"
      and "validateDefinitionWithFamilyProfile L E (payload_bytes ps (pi_definitionPath index))
          (familyProfileForPackage (pi_apiVersion index)) = Inr (d, v, schemas)"
      and "lib_transform L (payload_bytes ps (pi_definitionPath index)) = Some canonical"
      and "DigestBytes canonical = fr_schemaDigest (pi_formRef index)"
      and "fd_apiVersion d = fr_apiVersion (pi_formRef index)" and "fd_kind d = fr_kind (pi_formRef index)"
      and "fd_definitionVersion d = fr_definitionVersion (pi_formRef index)"
      using that listed_held [OF f]
      unfolding definition_closed_def
      by (intro exI [of _ "payload_bytes ps (pi_definitionPath index)"] exI [of _ d] exI [of _ v] exI [of _ schemas])
        (simp add: newVerifiedPackage_def held_payloads_def)
  qed
  moreover have "list_all2 payload_ok (pi_files index) (vd_payloads ?p)"
    using held_payloads_ok [OF checked] carriesD(2) [OF c] by simp
  ultimately show ?thesis
    using listing unfolding package_closed_def listing_closed_def r
    by (simp add: newVerifiedPackage_def package_Valid_def)
qed

text \<open>
  C4. A report of \<^verbatim>\<open>VerifyDirectory\<close> vouches for its package, whatever the system answers: it
  holds the bytes of exactly the listed files, in strict order, each with its listed size and
  digest and valid as its media type says; the sizes add up to the count it reports, within
  the bounds; the one Form Definition is valid, hashes to the schema digest of its reference and
  carries its identity; every JSON payload passes the content policy; every positive fixture
  is admitted by its schema and every negative one is not.
\<close>
theorem verified_package_closed:
  "case fst (VerifyDirectory OS L E dir w) of Inl e \<Rightarrow> True | Inr report \<Rightarrow> package_closed L E report"
proof (cases "VerifyDirectory OS L E dir w")
  case (Pair r w')
  show ?thesis
  proof (cases r)
    case (Inr report)
    with Pair obtain h i w1 w2 where "verify_opened OS L E dir h i w1 = (Inr report, w2)"
      by (auto simp: VerifyDirectory_def err_simps)
    then obtain actual raw index n ps where
        "check_listing (lib_unicode L) actual index = Inr n" "judge L E raw index n ps = Inr report"
        "list_all2 (payload_checked L) (pi_files index) ps"
      unfolding verify_opened_def err_simps by (auto dest: read_payloads)
    then have "package_closed L E report" using judged_closed by (auto simp: check_listing_Inr)
    with Pair Inr show ?thesis by simp
  qed (simp add: Pair)
qed

end
