(* ===== verification/PackageStaging.thy ===== *)
theory PackageStaging
  imports PackageClosure
begin

text \<open>
  \<^verbatim>\<open>VerifyFS\<close> of \<^verbatim>\<open>formpackage/verify_fs.go\<close>: a package embedded in a read-only file system is
  inventoried, copied file by file into a fresh private directory, inventoried again and
  then verified by \<^verbatim>\<open>VerifyDirectory\<close>. The embedded file system and the calls that write the
  staging directory are parameters of the same kind as the \<open>platform\<close>. The last section shows
  that no staging directory is left behind.
\<close>

section \<open>Embedded file systems\<close>

text \<open>
  What \<^verbatim>\<open>fs.WalkDir\<close> hands its callback: an error, or an entry with its path, whether its type
  says symlink, and the answer of \<^verbatim>\<open>entry.Info\<close>.
\<close>

datatype fs_event = Fs_Error | Fs_Entry bytes bool "file_info option"

record 'w fsys =
  fs_walk :: "'w \<Rightarrow> fs_event list \<times> 'w"
  fs_open :: "bytes \<Rightarrow> 'w \<Rightarrow> nat option \<times> 'w"
  fs_stat :: "nat \<Rightarrow> 'w \<Rightarrow> file_info option \<times> 'w"
  fs_content :: "nat \<Rightarrow> 'w \<Rightarrow> (bytes \<times> bool) \<times> 'w"
  fs_close :: "nat \<Rightarrow> 'w \<Rightarrow> 'w"

record 'w staging =
  st_mkdirTemp :: "'w \<Rightarrow> bytes option \<times> 'w"
  st_mkdirAll :: "bytes \<Rightarrow> 'w \<Rightarrow> bool \<times> 'w"
  st_create :: "bytes \<Rightarrow> 'w \<Rightarrow> nat option \<times> 'w"
  st_write :: "nat \<Rightarrow> bytes \<Rightarrow> 'w \<Rightarrow> (nat \<times> bool) \<times> 'w"
  st_close :: "nat \<Rightarrow> 'w \<Rightarrow> bool \<times> 'w"
  st_removeAll :: "bytes \<Rightarrow> 'w \<Rightarrow> bool \<times> 'w"

datatype embedded_error =
    NilFileSystem | InvalidRoot bytes | SubFailed bytes
  | FsWalk | FsPath bytes | FsSymlink bytes | FsInfo bytes | FsNotRegular bytes | FsExecutable bytes
  | FsPackagePath bytes path_error | FsExtension bytes | FsDuplicate bytes | FsTooMany | FsSize bytes
  | FsTooLarge | FsNoIndex
  | FsOpen bytes | FsStat bytes | FsChangedOpening bytes | FsRead bytes | FsGrew bytes | FsSizeChanged bytes
  | FsStatAfter bytes | FsChangedReading bytes
  | StageCreate | StageParent bytes | StageFile bytes | StageWrite bytes | StageShort bytes | StageClose bytes
  | ClosureChanged nat nat | EntryDisappeared bytes | EntryChanged bytes
  | Unverified package_error | StageRemove

text \<open>\<^verbatim>\<open>fs.ValidPath\<close>.\<close>

definition fs_valid_path :: "bytes \<Rightarrow> bool" where
  "fs_valid_path name \<longleftrightarrow>
     valid_utf8 name \<and>
     (name = ''.'' \<or>
      list_all (\<lambda>seg. seg \<noteq> [] \<and> seg \<noteq> ''.'' \<and> seg \<noteq> ''..'') (split_on CHR ''/'' name))"

section \<open>Inventory\<close>

record immutable_file =
  if_mode :: "32 word"
  if_size :: int
  if_modTime :: go_time

type_synonym fs_inventory = "(bytes \<times> immutable_file) list"

text \<open>The loop's state is the inventory, newest entry first, and the bytes counted.\<close>

definition fs_entry_size :: "bytes \<Rightarrow> int" where
  "fs_entry_size relative = (if relative = PackageIndexFilename then maxIndexBytes else maxPayloadBytes)"

definition fs_entry ::
  "unicode \<Rightarrow> bytes \<Rightarrow> file_info \<Rightarrow> fs_inventory \<times> int \<Rightarrow> embedded_error + fs_inventory \<times> int" where
  "fs_entry U relative info = (\<lambda>(files, total).
     if is_symlink info then Inl (FsSymlink relative)
     else if is_dir info then Inr (files, total)
     else if \<not> is_regular info then Inl (FsNotRegular relative)
     else if is_executable info then Inl (FsExecutable relative)
     else (case validatePackagePath relative of
             Some e \<Rightarrow> Inl (FsPackagePath relative e)
           | None \<Rightarrow>
               if List.member executableExtensions (extension U relative) then Inl (FsExtension relative)
               else if map_of files relative \<noteq> None then Inl (FsDuplicate relative)
               else if length files \<ge> maxPackageFiles + 1 then Inl FsTooMany
               else if fi_size info < 0 \<or> fi_size info > fs_entry_size relative then Inl (FsSize relative)
               else if total > maxPackageBytes + maxIndexBytes - fi_size info then Inl FsTooLarge
               else Inr ((relative, \<lparr>if_mode = fi_mode info, if_size = fi_size info,
                       if_modTime = fi_modTime info\<rparr>) # files, total + fi_size info)))"

fun fs_inventory_walk ::
  "unicode \<Rightarrow> fs_event list \<Rightarrow> fs_inventory \<times> int \<Rightarrow> embedded_error + fs_inventory \<times> int" where
  "fs_inventory_walk U [] s = Inr s"
| "fs_inventory_walk U (Fs_Error # events) s = Inl FsWalk"
| "fs_inventory_walk U (Fs_Entry relative symlink info # events) s =
     (if relative = ''.'' then fs_inventory_walk U events s
      else if \<not> fs_valid_path relative then Inl (FsPath relative)
      else if symlink then Inl (FsSymlink relative)
      else case info of
        None \<Rightarrow> Inl (FsInfo relative)
      | Some i \<Rightarrow> bind_res (fs_entry U relative i s) (fs_inventory_walk U events))"

definition inventoryImmutableFS ::
  "unicode \<Rightarrow> 'w fsys \<Rightarrow> ('w, embedded_error, fs_inventory) action" where
  "inventoryImmutableFS U F w =
     (case fs_walk F w of
        (events, w') \<Rightarrow>
          (bind_res (fs_inventory_walk U events ([], 0)) (\<lambda>(files, _).
             if map_of files PackageIndexFilename = None then Inl FsNoIndex else Inr files), w'))"

text \<open>
  The inventories are compared with Go's \<^verbatim>\<open>!=\<close> on structs, representation of the time
  included; a single file is compared by its instant. The loop ranges over a map.
\<close>

definition compareImmutableFSInventories :: "fs_inventory \<Rightarrow> fs_inventory \<Rightarrow> embedded_error option" where
  "compareImmutableFSInventories before after =
     (if length before \<noteq> length after then Some (ClosureChanged (length before) (length after))
      else first_err (map (\<lambda>(relative, expected).
        case map_of after relative of
          None \<Rightarrow> Some (EntryDisappeared relative)
        | Some actual \<Rightarrow> guard_err (actual = expected) (EntryChanged relative)) before))"

section \<open>Reading\<close>

definition sameImmutableFSFile :: "immutable_file \<Rightarrow> file_info \<Rightarrow> bool" where
  "sameImmutableFSFile expected actual \<longleftrightarrow>
     if_mode expected = fi_mode actual \<and> if_size expected = fi_size actual \<and>
     same_instant (if_modTime expected) (fi_modTime actual)"

definition fs_read_limited :: "'w fsys \<Rightarrow> bytes \<Rightarrow> nat \<Rightarrow> int \<Rightarrow> ('w, embedded_error, bytes) action" where
  "fs_read_limited F relative h limit w =
     (case fs_content F h w of
        ((available, failing), w') \<Rightarrow>
          if int (length available) \<ge> limit then (Inr (take (nat limit) available), w')
          else if failing then (Inl (FsRead relative), w') else (Inr available, w'))"

definition readImmutableFSFile ::
  "'w fsys \<Rightarrow> bytes \<Rightarrow> int \<Rightarrow> immutable_file \<Rightarrow> ('w, embedded_error, bytes) action" where
  "readImmutableFSFile F relative maximum inventoried =
     bind_io (ask (FsOpen relative) (fs_open F relative)) (\<lambda>h w.
       case
         (bind_io (ask (FsStat relative) (fs_stat F h)) (\<lambda>before.
          check_io (guard_err (sameImmutableFSFile inventoried before \<and> is_regular before \<and> \<not> is_executable before)
            (FsChangedOpening relative))
          (bind_io (fs_read_limited F relative h (maximum + 1)) (\<lambda>raw.
          check_io (guard_err (int (length raw) \<le> maximum) (FsGrew relative))
          (check_io (guard_err (int (length raw) = if_size inventoried) (FsSizeChanged relative))
          (bind_io (ask (FsStatAfter relative) (fs_stat F h)) (\<lambda>after.
          check_io (guard_err (sameImmutableFSFile inventoried after) (FsChangedReading relative))
            (return_io raw))))))) w) of
         (r, w') \<Rightarrow> (r, fs_close F h w'))"

section \<open>Staging\<close>

text \<open>\<^verbatim>\<open>filepath.Dir\<close>.\<close>

definition path_dir :: "bytes \<Rightarrow> bytes" where
  "path_dir s = path_clean (rev (dropWhile (\<lambda>c. c \<noteq> CHR ''/'') (rev s)))"

definition demand :: "'e \<Rightarrow> ('w \<Rightarrow> bool \<times> 'w) \<Rightarrow> ('w, 'e, unit) action" where
  "demand e call w = (case call w of (ok, w') \<Rightarrow> (if ok then Inr () else Inl e, w'))"

text \<open>The handle is closed before the result of writing is looked at.\<close>

definition write_staged :: "'w staging \<Rightarrow> bytes \<Rightarrow> bytes \<Rightarrow> nat \<Rightarrow> ('w, embedded_error, unit) action" where
  "write_staged ST relative raw h w =
     (case st_write ST h raw w of
        ((written, wrote), w') \<Rightarrow>
          (case st_close ST h w' of
             (shut, w'') \<Rightarrow>
               (if \<not> wrote then Inl (StageWrite relative)
                else if written \<noteq> length raw then Inl (StageShort relative)
                else if \<not> shut then Inl (StageClose relative) else Inr (), w'')))"

definition stage_file ::
  "'w staging \<Rightarrow> 'w fsys \<Rightarrow> bytes \<Rightarrow> bytes \<times> immutable_file \<Rightarrow> ('w, embedded_error, unit) action" where
  "stage_file ST F temp = (\<lambda>(relative, inventoried).
     bind_io (readImmutableFSFile F relative (fs_entry_size relative) inventoried) (\<lambda>raw.
     let destination = path_join [temp, relative] in
     bind_io (demand (StageParent relative) (st_mkdirAll ST (path_dir destination))) (\<lambda>_.
     bind_io (ask (StageFile relative) (st_create ST destination)) (write_staged ST relative raw))))"

definition by_path :: "fs_inventory \<Rightarrow> (bytes \<times> immutable_file) list" where
  "by_path files =
     map (\<lambda>p. (p, the (map_of files p))) (sort_strings (map fst files))"

definition stage_all ::
  "'w staging \<Rightarrow> unicode \<Rightarrow> 'w fsys \<Rightarrow> fs_inventory \<Rightarrow> bytes \<Rightarrow> ('w, embedded_error, unit) action" where
  "stage_all ST U F before temp =
     bind_io (each_io (stage_file ST F temp) (by_path before)) (\<lambda>_.
     bind_io (inventoryImmutableFS U F) (\<lambda>after.
     check_io (compareImmutableFSInventories before after) (return_io ())))"

text \<open>
  The deferred removal runs on every return while \<open>removed\<close> is unset: after a failure before
  the verification, and again after a removal that failed.
\<close>

definition remove_staged :: "'w staging \<Rightarrow> bytes \<Rightarrow> 'w \<Rightarrow> 'w" where
  "remove_staged ST temp w = snd (st_removeAll ST temp w)"

definition verify_staged ::
  "'w platform \<Rightarrow> 'w staging \<Rightarrow> libs \<Rightarrow> 'v engines \<Rightarrow> bytes \<Rightarrow> ('w, embedded_error, verification_report) action" where
  "verify_staged OS ST L E temp w =
     (case VerifyDirectory OS L E temp w of
        (r, w1) \<Rightarrow>
          (case st_removeAll ST temp w1 of
             (removed, w2) \<Rightarrow>
               let w3 = (if removed then w2 else remove_staged ST temp w2) in
               (case r of
                  Inl e \<Rightarrow> (Inl (Unverified e), w3)
                | Inr report \<Rightarrow> (if \<not> removed then Inl StageRemove else Inr report, w3))))"

definition verify_embedded ::
  "'w platform \<Rightarrow> 'w staging \<Rightarrow> libs \<Rightarrow> 'v engines \<Rightarrow> 'w fsys \<Rightarrow> ('w, embedded_error, verification_report) action" where
  "verify_embedded OS ST L E F =
     bind_io (inventoryImmutableFS (lib_unicode L) F) (\<lambda>before.
     bind_io (ask StageCreate (st_mkdirTemp ST)) (\<lambda>temp w.
       case stage_all ST (lib_unicode L) F before temp w of
         (Inl e, w') \<Rightarrow> (Inl e, remove_staged ST temp w')
       | (Inr _, w') \<Rightarrow> verify_staged OS ST L E temp w'))"

definition VerifyFS ::
  "'w platform \<Rightarrow> 'w staging \<Rightarrow> libs \<Rightarrow> 'v engines \<Rightarrow> (bytes \<Rightarrow> 'w fsys option) option \<Rightarrow> bytes \<Rightarrow>
     ('w, embedded_error, verification_report) action" where
  "VerifyFS OS ST L E source dir =
     (case source of
        None \<Rightarrow> fail_io NilFileSystem
      | Some sub \<Rightarrow>
          if dir = [] \<or> \<not> fs_valid_path dir then fail_io (InvalidRoot dir)
          else (case sub dir of
                  None \<Rightarrow> fail_io (SubFailed dir)
                | Some F \<Rightarrow> verify_embedded OS ST L E F))"

section \<open>Nothing is left behind\<close>

text \<open>A run is observed: the creation and the removal of staging directories are logged, newest first.\<close>

datatype stage_op = Created bytes | Removed bytes bool

type_synonym log = "stage_op list"

definition quiet_fs :: "'w fsys \<Rightarrow> ('w \<times> log) fsys" where
  "quiet_fs F =
     \<lparr>fs_walk = (\<lambda>(w, l). aside (fs_walk F w) l),
      fs_open = (\<lambda>p (w, l). aside (fs_open F p w) l),
      fs_stat = (\<lambda>h (w, l). aside (fs_stat F h w) l),
      fs_content = (\<lambda>h (w, l). aside (fs_content F h w) l),
      fs_close = (\<lambda>h (w, l). (fs_close F h w, l))\<rparr>"

definition logged :: "'w staging \<Rightarrow> ('w \<times> log) staging" where
  "logged ST =
     \<lparr>st_mkdirTemp = (\<lambda>(w, l). case st_mkdirTemp ST w of
          (None, w') \<Rightarrow> (None, w', l) | (Some t, w') \<Rightarrow> (Some t, w', Created t # l)),
      st_mkdirAll = (\<lambda>p (w, l). aside (st_mkdirAll ST p w) l),
      st_create = (\<lambda>p (w, l). aside (st_create ST p w) l),
      st_write = (\<lambda>h raw (w, l). aside (st_write ST h raw w) l),
      st_close = (\<lambda>h (w, l). aside (st_close ST h w) l),
      st_removeAll = (\<lambda>p (w, l). case st_removeAll ST p w of (ok, w') \<Rightarrow> (ok, w', Removed p ok # l))\<rparr>"

definition quiet :: "'w platform \<Rightarrow> ('w \<times> log) platform" where
  "quiet = observed (\<lambda>_ l. l) (\<lambda>_ l. l)"

text \<open>Staging was never begun, or its last operation removes the directory; with a report, the
  one removal succeeded.\<close>

fun cleaned :: "'e + 'a \<Rightarrow> log \<Rightarrow> bool" where
  "cleaned r [] \<longleftrightarrow> isl r"
| "cleaned r [Removed p ok, Created q] \<longleftrightarrow> p = q \<and> (\<not> isl r \<longrightarrow> ok)"
| "cleaned r [Removed p ok, Removed p' ok', Created q] \<longleftrightarrow> p = q \<and> p' = q \<and> \<not> ok' \<and> isl r"
| "cleaned r _ \<longleftrightarrow> False"

lemma keeps_ask [ledger_rules]:
  "(\<And>w l. call' (w, l) = aside (call w) l) \<Longrightarrow> keeps_note (ask e call') (ask e call)"
  by (auto simp: keeps_note_def ask_def aside_def split: prod.splits option.splits)

lemma keeps_demand [ledger_rules]:
  "(\<And>w l. call' (w, l) = aside (call w) l) \<Longrightarrow> keeps_note (demand e call') (demand e call)"
  by (auto simp: keeps_note_def demand_def aside_def split: prod.splits)

lemma logged_simps [simp]:
  "st_mkdirAll (logged ST) p (w, l) = aside (st_mkdirAll ST p w) l"
  "st_create (logged ST) p (w, l) = aside (st_create ST p w) l"
  "fs_open (quiet_fs F) p (w, l) = aside (fs_open F p w) l"
  "fs_stat (quiet_fs F) h (w, l) = aside (fs_stat F h w) l"
  "st_removeAll (logged ST) p (w, l) = (fst (st_removeAll ST p w), snd (st_removeAll ST p w),
      Removed p (fst (st_removeAll ST p w)) # l)"
  by (simp_all add: logged_def quiet_fs_def split: prod.splits)

lemma keeps_inventory [ledger_rules]:
  "keeps_note (inventoryImmutableFS U (quiet_fs F)) (inventoryImmutableFS U F)"
  by (auto simp: keeps_note_def inventoryImmutableFS_def quiet_fs_def aside_def split: prod.splits)

lemma keeps_fs_read [ledger_rules]:
  "keeps_note (fs_read_limited (quiet_fs F) p h limit) (fs_read_limited F p h limit)"
  by (auto simp: keeps_note_def fs_read_limited_def quiet_fs_def aside_def split: prod.splits)

lemma keeps_fs_closing:
  "keeps_note m' m \<Longrightarrow> keeps_note (\<lambda>w. case m' w of (r, w') \<Rightarrow> (r, fs_close (quiet_fs F) h w'))
     (\<lambda>w. case m w of (r, w') \<Rightarrow> (r, fs_close F h w'))"
  by (auto simp: keeps_note_def quiet_fs_def split: prod.splits)

lemma keeps_fs_file [ledger_rules]:
  "keeps_note (readImmutableFSFile (quiet_fs F) p limit i) (readImmutableFSFile F p limit i)"
  unfolding readImmutableFSFile_def by (intro ledger_rules keeps_fs_closing logged_simps)

lemma keeps_write [ledger_rules]: "keeps_note (write_staged (logged ST) p raw h) (write_staged ST p raw h)"
  by (auto simp: keeps_note_def write_staged_def logged_def aside_def split: prod.splits)

lemma keeps_stage_file [ledger_rules]:
  "keeps_note (stage_file (logged ST) (quiet_fs F) temp x) (stage_file ST F temp x)"
  unfolding stage_file_def Let_def case_prod_beta by (intro ledger_rules logged_simps)

lemma keeps_stage_all:
  "keeps_note (stage_all (logged ST) U (quiet_fs F) before temp) (stage_all ST U F before temp)"
  unfolding stage_all_def by (intro ledger_rules)

lemma staged_cleaned:
  "case verify_staged (quiet OS) (logged ST) L E temp (w, [Created temp]) of (r, w', l) \<Rightarrow> cleaned r l"
  unfolding verify_staged_def quiet_def unseen.observed_verify
  by (auto simp: remove_staged_def Let_def split: prod.splits sum.splits)

lemma embedded_cleaned:
  "case verify_embedded (quiet OS) (logged ST) L E (quiet_fs F) (w, []) of (r, w', l) \<Rightarrow> cleaned r l"
proof (cases "inventoryImmutableFS (lib_unicode L) F w")
  case (Pair r w1)
  have first_inventory: "inventoryImmutableFS (lib_unicode L) (quiet_fs F) (w, []) = (r, w1, [])"
    by (simp add: note_run [OF keeps_inventory] Pair)
  show ?thesis
  proof (cases r)
    case (Inr before)
    show ?thesis
    proof (cases "st_mkdirTemp ST w1")
      case (Pair t w2)
      show ?thesis
      proof (cases t)
        case None
        with Pair Inr first_inventory show ?thesis
          by (simp add: verify_embedded_def bind_io_def ask_def logged_def)
      next
        case (Some temp)
        have made: "ask StageCreate (st_mkdirTemp (logged ST)) (w1, []) = (Inr temp, w2, [Created temp])"
          using Pair Some by (simp add: ask_def logged_def)
        show ?thesis
          using staged_cleaned [of OS ST L E temp "snd (stage_all ST (lib_unicode L) F before temp w2)"] Inr first_inventory made
          by (auto simp: verify_embedded_def bind_io_def note_run [OF keeps_stage_all] remove_staged_def
            split: prod.splits sum.splits)
      qed
    qed
  qed (use first_inventory in \<open>simp add: verify_embedded_def bind_io_def\<close>)
qed

text \<open>
  C9. Verifying an embedded package leaves nothing behind: on every path, errors included,
  either no staging directory was created or the last staging operation removes it. A report is
  returned only after its directory was removed successfully, at the first attempt.
\<close>
theorem staging_removed:
  "case VerifyFS (quiet OS) (logged ST) L E (map_option (\<lambda>sub p. map_option quiet_fs (sub p)) source) dir (w, []) of
     (r, w', l) \<Rightarrow> cleaned r l"
proof (cases "source = None \<or> dir = [] \<or> \<not> fs_valid_path dir \<or> the source dir = None")
  case False
  then obtain sub F where "source = Some sub" "sub dir = Some F" "dir \<noteq> []" "fs_valid_path dir" by auto
  then show ?thesis using embedded_cleaned [of OS ST L E F w] by (simp add: VerifyFS_def)
qed (auto simp: VerifyFS_def split: option.splits)

end
