(* ===== verification/SnapshotModel.thy ===== *)
theory SnapshotModel
  imports DefinitionValidation
begin

text \<open>
  The data of the compiler of \<^verbatim>\<open>snapshot/snapshot.go\<close> and \<^verbatim>\<open>snapshot/contracts.go\<close>: its
  input, the exact identities, the compiled artifacts, diagnostics and their order, the
  order of Form identities, and the Host API lanes. The texts of errors of other functions and
  Go's quoting \<^verbatim>\<open>%q\<close> enter messages only and are the parameter \<open>texts\<close>.
\<close>

record texts =
  tx_quote :: "bytes \<Rightarrow> bytes"
  tx_canonical :: "canonical_error \<Rightarrow> bytes"
  tx_definition :: "definition_error \<Rightarrow> bytes"
  tx_contract :: "contract_error \<Rightarrow> bytes"
  tx_unmarshal :: "bytes \<Rightarrow> bytes"

section \<open>Diagnostics\<close>

definition DiagnosticInvalidInput :: bytes where "DiagnosticInvalidInput = ''invalid_input''"
definition DiagnosticInvalidArtifact :: bytes where "DiagnosticInvalidArtifact = ''invalid_artifact''"
definition DiagnosticDigestMismatch :: bytes where "DiagnosticDigestMismatch = ''digest_mismatch''"
definition DiagnosticDuplicateIdentity :: bytes where "DiagnosticDuplicateIdentity = ''duplicate_identity''"
definition DiagnosticUnresolvedReference :: bytes where
  "DiagnosticUnresolvedReference = ''unresolved_reference''"
definition DiagnosticAmbiguousDefault :: bytes where "DiagnosticAmbiguousDefault = ''ambiguous_default''"
definition DiagnosticMissingDefault :: bytes where "DiagnosticMissingDefault = ''missing_default''"
definition DiagnosticUnsupportedHostAPI :: bytes where
  "DiagnosticUnsupportedHostAPI = ''unsupported_host_api''"

record diagnostic =
  dg_code :: bytes
  dg_subject :: bytes
  dg_pointer :: bytes
  dg_message :: bytes

definition new_diagnostic :: "bytes \<Rightarrow> bytes \<Rightarrow> bytes \<Rightarrow> bytes \<Rightarrow> diagnostic" where
  "new_diagnostic c subject pointer message =
     \<lparr>dg_code = c, dg_subject = subject, dg_pointer = pointer, dg_message = message\<rparr>"

definition diagnostic_less :: "diagnostic \<Rightarrow> diagnostic \<Rightarrow> bool" where
  "diagnostic_less a b =
     (if dg_subject a \<noteq> dg_subject b then dg_subject a < dg_subject b
      else if dg_pointer a \<noteq> dg_pointer b then dg_pointer a < dg_pointer b
      else if dg_code a \<noteq> dg_code b then dg_code a < dg_code b
      else dg_message a < dg_message b)"

definition sortedDiagnostics :: "diagnostic list \<Rightarrow> diagnostic list" where
  "sortedDiagnostics diagnostics = sort_by diagnostic_less diagnostics"

section \<open>Identities\<close>

record exact_key =
  ek_group :: bytes
  ek_kind :: bytes
  ek_version :: bytes
  ek_digest :: bytes

definition keyFor :: "form_ref \<Rightarrow> exact_key" where
  "keyFor r = \<lparr>ek_group = fr_apiVersion r, ek_kind = fr_kind r, ek_version = fr_definitionVersion r,
     ek_digest = fr_schemaDigest r\<rparr>"

definition key_ref :: "exact_key \<Rightarrow> form_ref" where
  "key_ref k = \<lparr>fr_apiVersion = ek_group k, fr_kind = ek_kind k, fr_definitionVersion = ek_version k,
     fr_schemaDigest = ek_digest k\<rparr>"

definition identity_text :: "bytes \<Rightarrow> bytes \<Rightarrow> bytes \<Rightarrow> bytes \<Rightarrow> bytes" where
  "identity_text a b c d = a @ ''/'' @ b @ ''@'' @ c @ '' schema='' @ d"

definition key_String :: "exact_key \<Rightarrow> bytes" where
  "key_String k = identity_text (ek_group k) (ek_kind k) (ek_version k) (ek_digest k)"

record interface_key =
  ik_apiVersion :: bytes
  ik_name :: bytes
  ik_version :: bytes
  ik_digest :: bytes

definition interfaceKeyFor :: "interface_ref \<Rightarrow> interface_key" where
  "interfaceKeyFor r = \<lparr>ik_apiVersion = if_apiVersion r, ik_name = if_name r, ik_version = if_version r,
     ik_digest = if_schemaDigest r\<rparr>"

definition interface_key_String :: "interface_key \<Rightarrow> bytes" where
  "interface_key_String k = identity_text (ik_apiVersion k) (ik_name k) (ik_version k) (ik_digest k)"

record binding_key =
  bk_apiVersion :: bytes
  bk_name :: bytes
  bk_version :: bytes
  bk_digest :: bytes

definition bindingKeyFor :: "binding_ref \<Rightarrow> binding_key" where
  "bindingKeyFor r = \<lparr>bk_apiVersion = br_apiVersion r, bk_name = br_name r, bk_version = br_version r,
     bk_digest = br_schemaDigest r\<rparr>"

definition binding_key_String :: "binding_key \<Rightarrow> bytes" where
  "binding_key_String k = identity_text (bk_apiVersion k) (bk_name k) (bk_version k) (bk_digest k)"

lemma keyFor_inject [simp]: "keyFor a = keyFor b \<longleftrightarrow> a = b"
  by (cases a; cases b) (simp add: keyFor_def)

lemma key_ref_keyFor [simp]: "key_ref (keyFor r) = r" "keyFor (key_ref k) = k"
  by (cases r; cases k; simp add: keyFor_def key_ref_def)+

lemma interfaceKeyFor_inject [simp]: "interfaceKeyFor a = interfaceKeyFor b \<longleftrightarrow> a = b"
  by (cases a; cases b) (simp add: interfaceKeyFor_def)

lemma bindingKeyFor_inject [simp]: "bindingKeyFor a = bindingKeyFor b \<longleftrightarrow> a = b"
  by (cases a; cases b) (simp add: bindingKeyFor_def)

lemma keyFor_parts [simp]:
  "ek_group (keyFor r) = fr_apiVersion r" "ek_kind (keyFor r) = fr_kind r"
  "ek_version (keyFor r) = fr_definitionVersion r" "ek_digest (keyFor r) = fr_schemaDigest r"
  by (simp_all add: keyFor_def)

section \<open>Orders\<close>

text \<open>The comparison of Form identities; semantic versions are compared where both parse.\<close>

definition lessKey :: "'v engines \<Rightarrow> exact_key \<Rightarrow> exact_key \<Rightarrow> bool" where
  "lessKey E left right =
     (if ek_group left \<noteq> ek_group right then ek_group left < ek_group right
      else if ek_kind left \<noteq> ek_kind right then ek_kind left < ek_kind right
      else (case (en_semver E (ek_version left), en_semver E (ek_version right)) of
              (Some a, Some b) \<Rightarrow>
                if \<not> en_equals E a b then en_less E a b
                else if ek_version left \<noteq> ek_version right then ek_version left < ek_version right
                else ek_digest left < ek_digest right
            | _ \<Rightarrow>
                if ek_version left \<noteq> ek_version right then ek_version left < ek_version right
                else ek_digest left < ek_digest right))"

definition sortedKeys :: "'v engines \<Rightarrow> exact_key list \<Rightarrow> exact_key list" where
  "sortedKeys E ks = sort_by (lessKey E) ks"

definition interface_key_less :: "interface_key \<Rightarrow> interface_key \<Rightarrow> bool" where
  "interface_key_less a b =
     (if ik_apiVersion a \<noteq> ik_apiVersion b then ik_apiVersion a < ik_apiVersion b
      else if ik_name a \<noteq> ik_name b then ik_name a < ik_name b
      else if ik_version a \<noteq> ik_version b then ik_version a < ik_version b
      else ik_digest a < ik_digest b)"

definition sortedInterfaceKeys :: "interface_key list \<Rightarrow> interface_key list" where
  "sortedInterfaceKeys ks = sort_by interface_key_less ks"

definition binding_key_less :: "binding_key \<Rightarrow> binding_key \<Rightarrow> bool" where
  "binding_key_less a b =
     (if bk_apiVersion a \<noteq> bk_apiVersion b then bk_apiVersion a < bk_apiVersion b
      else if bk_name a \<noteq> bk_name b then bk_name a < bk_name b
      else if bk_version a \<noteq> bk_version b then bk_version a < bk_version b
      else bk_digest a < bk_digest b)"

definition sortedBindingKeys :: "binding_key list \<Rightarrow> binding_key list" where
  "sortedBindingKeys ks = sort_by binding_key_less ks"

record group_kind =
  gk_group :: bytes
  gk_kind :: bytes

definition group_kind_of :: "bytes \<Rightarrow> bytes \<Rightarrow> group_kind" where
  "group_kind_of g k = \<lparr>gk_group = g, gk_kind = k\<rparr>"

definition group_kind_less :: "group_kind \<Rightarrow> group_kind \<Rightarrow> bool" where
  "group_kind_less a b =
     (if gk_group a \<noteq> gk_group b then gk_group a < gk_group b else gk_kind a < gk_kind b)"

text \<open>A comparison through an injective list of strings is total.\<close>

lemma total_less_by_key:
  assumes "\<And>x y. lt x y \<longleftrightarrow> key x < (key y :: bytes list)" and "\<And>x y. key x = key y \<Longrightarrow> x = y"
  shows "total_less lt (\<lambda>_. True)"
  using assms(2) by unfold_locales (auto simp: assms(1) dest: less_trans neq_iff [THEN iffD1])

interpretation diagnostics: total_less diagnostic_less "\<lambda>_. True"
proof (rule total_less_by_key)
  show "diagnostic_less x y \<longleftrightarrow> [dg_subject x, dg_pointer x, dg_code x, dg_message x]
      < [dg_subject y, dg_pointer y, dg_code y, dg_message y]" for x y
    by (auto simp: diagnostic_less_def)
qed (simp add: diagnostic.equality)

interpretation interface_keys: total_less interface_key_less "\<lambda>_. True"
proof (rule total_less_by_key)
  show "interface_key_less x y \<longleftrightarrow> [ik_apiVersion x, ik_name x, ik_version x, ik_digest x]
      < [ik_apiVersion y, ik_name y, ik_version y, ik_digest y]" for x y
    by (auto simp: interface_key_less_def)
qed (simp add: interface_key.equality)

interpretation binding_keys: total_less binding_key_less "\<lambda>_. True"
proof (rule total_less_by_key)
  show "binding_key_less x y \<longleftrightarrow> [bk_apiVersion x, bk_name x, bk_version x, bk_digest x]
      < [bk_apiVersion y, bk_name y, bk_version y, bk_digest y]" for x y
    by (auto simp: binding_key_less_def)
qed (simp add: binding_key.equality)

interpretation group_kinds: total_less group_kind_less "\<lambda>_. True"
proof (rule total_less_by_key)
  show "group_kind_less x y \<longleftrightarrow> [gk_group x, gk_kind x] < [gk_group y, gk_kind y]" for x y
    by (auto simp: group_kind_less_def)
qed (simp add: group_kind.equality)

lemma sortedDiagnostics_mset: "mset ds = mset ds' \<Longrightarrow> sortedDiagnostics ds = sortedDiagnostics ds'"
  unfolding sortedDiagnostics_def by (rule diagnostics.sort_by_cong) auto

lemma sortedDiagnostics_Nil [simp]: "sortedDiagnostics ds = [] \<longleftrightarrow> ds = []"
  by (simp add: sortedDiagnostics_def)

text \<open>
  What a semantic-version library promises of the versions it parses: \<open>en_equals\<close> is an
  equivalence and \<open>en_less\<close> a strict order that is total up to it.
\<close>

definition semver_order :: "'v engines \<Rightarrow> bool" where
  "semver_order E \<longleftrightarrow>
     (\<forall>a. en_equals E a a) \<and> (\<forall>a b. en_equals E a b \<longrightarrow> en_equals E b a) \<and>
     (\<forall>a b c. en_equals E a b \<longrightarrow> en_equals E b c \<longrightarrow> en_equals E a c) \<and>
     (\<forall>a b. en_less E a b \<longrightarrow> \<not> en_equals E a b) \<and>
     (\<forall>a b c. en_less E a b \<longrightarrow> en_less E b c \<longrightarrow> en_less E a c) \<and>
     (\<forall>a b. en_equals E a b \<or> en_less E a b \<or> en_less E b a) \<and>
     (\<forall>a b c. en_equals E a b \<longrightarrow> en_less E b c \<longrightarrow> en_less E a c) \<and>
     (\<forall>a b c. en_less E a b \<longrightarrow> en_equals E b c \<longrightarrow> en_less E a c)"

definition parsed_key :: "'v engines \<Rightarrow> exact_key \<Rightarrow> bool" where
  "parsed_key E k \<longleftrightarrow> en_semver E (ek_version k) \<noteq> None"

text \<open>Versions that parse, with the ties broken by their texts and digests.\<close>

definition version_less :: "'v engines \<Rightarrow> exact_key \<Rightarrow> exact_key \<Rightarrow> bool" where
  "version_less E x y \<longleftrightarrow>
     (let a = the (en_semver E (ek_version x)); b = the (en_semver E (ek_version y)) in
      if en_equals E a b then [ek_version x, ek_digest x] < [ek_version y, ek_digest y] else en_less E a b)"

lemma lessKey_parsed:
  assumes "parsed_key E x" and "parsed_key E y"
  shows "lessKey E x y \<longleftrightarrow> ek_group x < ek_group y \<or> ek_group x = ek_group y \<and>
     (ek_kind x < ek_kind y \<or> ek_kind x = ek_kind y \<and> version_less E x y)"
  using assms by (auto simp: lessKey_def version_less_def parsed_key_def)

lemma semver_laws:
  assumes "semver_order E"
  shows "en_equals E a a" and "en_equals E a b \<Longrightarrow> en_equals E b a"
    and "en_equals E a b \<Longrightarrow> en_equals E b c \<Longrightarrow> en_equals E a c"
    and "en_less E a b \<Longrightarrow> \<not> en_equals E a b"
    and "en_less E a b \<Longrightarrow> en_less E b c \<Longrightarrow> en_less E a c"
    and "\<not> en_equals E a b \<Longrightarrow> \<not> en_less E a b \<Longrightarrow> en_less E b a"
    and "en_equals E a b \<Longrightarrow> en_less E b c \<Longrightarrow> en_less E a c"
    and "en_less E a b \<Longrightarrow> en_equals E b c \<Longrightarrow> en_less E a c"
proof -
  note d = assms [unfolded semver_order_def]
  note laws = d [THEN conjunct1, rule_format]
    d [THEN conjunct2, THEN conjunct1, rule_format]
    d [THEN conjunct2, THEN conjunct2, THEN conjunct1, rule_format]
    d [THEN conjunct2, THEN conjunct2, THEN conjunct2, THEN conjunct1, rule_format]
    d [THEN conjunct2, THEN conjunct2, THEN conjunct2, THEN conjunct2, THEN conjunct1, rule_format]
    d [THEN conjunct2, THEN conjunct2, THEN conjunct2, THEN conjunct2, THEN conjunct2, THEN conjunct1, rule_format]
    d [THEN conjunct2, THEN conjunct2, THEN conjunct2, THEN conjunct2, THEN conjunct2, THEN conjunct2, THEN conjunct1, rule_format]
    d [THEN conjunct2, THEN conjunct2, THEN conjunct2, THEN conjunct2, THEN conjunct2, THEN conjunct2, THEN conjunct2, rule_format]
  show "en_equals E a a" by (rule laws)
  show "en_equals E a b \<Longrightarrow> en_equals E b a" by (rule laws)
  show "en_equals E a b \<Longrightarrow> en_equals E b c \<Longrightarrow> en_equals E a c" by (rule laws(3))
  show "en_less E a b \<Longrightarrow> \<not> en_equals E a b" by (rule laws(4))
  show "en_less E a b \<Longrightarrow> en_less E b c \<Longrightarrow> en_less E a c" by (rule laws(5))
  show "\<not> en_equals E a b \<Longrightarrow> \<not> en_less E a b \<Longrightarrow> en_less E b a" using laws(6) by blast
  show "en_equals E a b \<Longrightarrow> en_less E b c \<Longrightarrow> en_less E a c" by (rule laws(7))
  show "en_less E a b \<Longrightarrow> en_equals E b c \<Longrightarrow> en_less E a c" by (rule laws(8))
qed

lemma version_step:
  assumes o: "semver_order E" and xy: "if en_equals E a b then t < u else en_less E a b"
    and yz: "if en_equals E b c then u < w else en_less E b c"
  shows "if en_equals E a c then t < (w :: bytes list) else en_less E a c"
proof (cases "en_equals E a b \<and> en_equals E b c")
  case True
  then have "en_equals E a c" using semver_laws(3) [OF o] by blast
  moreover have "t < w" using xy yz True by (auto elim: less_trans)
  ultimately show ?thesis by simp
next
  case False
  then consider "en_less E a b" "en_less E b c" | "en_equals E a b" "en_less E b c"
    | "en_less E a b" "en_equals E b c"
    using xy yz by (cases "en_equals E a b"; cases "en_equals E b c") simp_all
  then have "en_less E a c" by cases (fact semver_laws(5,7,8) [OF o])+
  then show ?thesis using semver_laws(4) [OF o] by simp
qed

lemma version_less_trans:
  "semver_order E \<Longrightarrow> version_less E x y \<Longrightarrow> version_less E y z \<Longrightarrow> version_less E x z"
  unfolding version_less_def Let_def by (rule version_step)

lemma version_less_irrefl: "semver_order E \<Longrightarrow> \<not> version_less E x x"
  by (simp add: version_less_def semver_laws(1))

lemma version_less_total:
  assumes o: "semver_order E" and xy: "\<not> version_less E x y" and yx: "\<not> version_less E y x"
  shows "ek_version x = ek_version y \<and> ek_digest x = ek_digest y"
proof -
  let ?a = "the (en_semver E (ek_version x))" and ?b = "the (en_semver E (ek_version y))"
  have e: "en_equals E ?a ?b"
    using xy yx semver_laws(2,6) [OF o, of ?a ?b] unfolding version_less_def Let_def
    by (cases "en_equals E ?a ?b"; cases "en_equals E ?b ?a") (simp_all add: semver_laws(2) [OF o])
  then have "en_equals E ?b ?a" by (rule semver_laws(2) [OF o])
  then have "\<not> [ek_version x, ek_digest x] < [ek_version y, ek_digest y]"
    "\<not> [ek_version y, ek_digest y] < [ek_version x, ek_digest x]"
    using e xy yx unfolding version_less_def Let_def by presburger+
  then have "[ek_version x, ek_digest x] = [ek_version y, ek_digest y]"
    using neq_iff [of "[ek_version x, ek_digest x]" "[ek_version y, ek_digest y]"] by blast
  then show ?thesis by simp
qed

lemma lex_trans:
  fixes a b c :: "'k::order"
  shows "a < b \<or> a = b \<and> P \<Longrightarrow> b < c \<or> b = c \<and> Q \<Longrightarrow> (P \<Longrightarrow> Q \<Longrightarrow> R) \<Longrightarrow> a < c \<or> a = c \<and> R"
  by (elim disjE conjE) (auto intro: less_trans)

lemma lessKey_total:
  assumes "semver_order E"
  shows "total_less (lessKey E) (parsed_key E)"
proof
  fix x
  assume "parsed_key E x"
  then show "\<not> lessKey E x x" using version_less_irrefl [OF assms] by (simp add: lessKey_parsed)
next
  fix x y z
  assume "parsed_key E x" "parsed_key E y" "parsed_key E z" "lessKey E x y" "lessKey E y z"
  note p = this
  show "lessKey E x z"
    unfolding lessKey_parsed [OF p(1,3)]
  proof (rule lex_trans [OF p(4,5) [unfolded lessKey_parsed [OF p(1,2)] lessKey_parsed [OF p(2,3)]]])
    assume "ek_kind x < ek_kind y \<or> ek_kind x = ek_kind y \<and> version_less E x y"
      and "ek_kind y < ek_kind z \<or> ek_kind y = ek_kind z \<and> version_less E y z"
    then show "ek_kind x < ek_kind z \<or> ek_kind x = ek_kind z \<and> version_less E x z"
      by (rule lex_trans) (rule version_less_trans [OF assms])
  qed
next
  fix x y
  assume p: "parsed_key E x" "parsed_key E y" and ne: "x \<noteq> y"
  have v: "version_less E x y \<or> version_less E y x"
    if "ek_group x = ek_group y" "ek_kind x = ek_kind y"
  proof (rule ccontr)
    assume "\<not> (version_less E x y \<or> version_less E y x)"
    then have "ek_version x = ek_version y \<and> ek_digest x = ek_digest y"
      by (intro version_less_total [OF assms]) blast+
    with that ne show False by (simp add: exact_key.equality)
  qed
  show "lessKey E x y \<or> lessKey E y x"
    unfolding lessKey_parsed [OF p] lessKey_parsed [OF p(2,1)]
    using v neq_iff [of "ek_group x" "ek_group y"] neq_iff [of "ek_kind x" "ek_kind y"] by argo
qed

section \<open>Form artifacts\<close>

record package_artifact =
  pa_origin :: bytes
  pa_expectedDigest :: bytes
  pa_package :: verified_package

record compiled_form =
  cf_ref :: form_ref
  cf_packageDigest :: bytes
  cf_definition :: form_definition
  cf_canonical :: bytes
  cf_origin :: bytes

definition artifactSubject :: "package_artifact \<Rightarrow> bytes" where
  "artifactSubject artifact =
     (if trim_space (pa_origin artifact) \<noteq> [] then pa_origin artifact
      else if package_Valid (pa_package artifact) then ''package:'' @ package_PackageDigest (pa_package artifact)
      else ''package:unverified'')"

definition definitionEntry :: "package_index \<Rightarrow> package_file option" where
  "definitionEntry index =
     List.find (\<lambda>f. pf_path f = pi_definitionPath index \<and> pf_mediaType f = DefinitionMediaType)
       (pi_files index)"

text \<open>\<^verbatim>\<open>%#v\<close> of a FormRef.\<close>

definition go_syntax_ref :: "texts \<Rightarrow> form_ref \<Rightarrow> bytes" where
  "go_syntax_ref T r =
     ''formpackage.FormRef{APIVersion:'' @ tx_quote T (fr_apiVersion r) @ '', Kind:'' @ tx_quote T (fr_kind r) @
     '', DefinitionVersion:'' @ tx_quote T (fr_definitionVersion r) @
     '', SchemaDigest:'' @ tx_quote T (fr_schemaDigest r) @ ''}''"

definition compileArtifact ::
  "libs \<Rightarrow> 'v engines \<Rightarrow> texts \<Rightarrow> package_artifact \<Rightarrow> diagnostic + compiled_form" where
  "compileArtifact L E T artifact =
     (let subject = artifactSubject artifact; p = pa_package artifact in
      if \<not> package_Valid p then
        Inl (new_diagnostic DiagnosticInvalidArtifact subject ''/package''
               ''package was not issued by the complete Form Package verifier'')
      else if \<not> ValidDigest (pa_expectedDigest artifact) then
        Inl (new_diagnostic DiagnosticInvalidArtifact subject ''/expectedDigest''
               ''expected package digest is not a canonical lowercase sha256 digest'')
      else if package_PackageDigest p \<noteq> pa_expectedDigest artifact then
        Inl (new_diagnostic DiagnosticDigestMismatch subject ''/package-index.json''
               (''package index digest is '' @ package_PackageDigest p @ '', expected '' @
                pa_expectedDigest artifact))
      else
        (let index = package_PackageIndex p; definitionRaw = package_Definition p;
             definitionPointer = ''/'' @ escapePointer (pi_definitionPath index);
             fail = (\<lambda>message. Inl (new_diagnostic DiagnosticInvalidArtifact subject definitionPointer message)) in
         case definitionEntry index of
           None \<Rightarrow>
             Inl (new_diagnostic DiagnosticInvalidArtifact subject ''/package-index.json/definitionPath''
                    ''definitionPath does not name the one Form Definition payload'')
         | Some _ \<Rightarrow>
             (case RevalidateDefinition L E p of
                Inl e \<Rightarrow> fail (tx_definition T e)
              | Inr d \<Rightarrow>
                  (case DigestCanonicalJSON (lib_transform L) definitionRaw of
                     Inl e \<Rightarrow> fail (tx_canonical T e)
                   | Inr definitionDigest \<Rightarrow>
                       (let definitionRef =
                              \<lparr>fr_apiVersion = fd_apiVersion d, fr_kind = fd_kind d,
                               fr_definitionVersion = fd_definitionVersion d,
                               fr_schemaDigest = definitionDigest\<rparr> in
                        if definitionRef \<noteq> pi_formRef index then
                          Inl (new_diagnostic DiagnosticDigestMismatch subject ''/package-index.json/formRef''
                                 (''package FormRef '' @ go_syntax_ref T (pi_formRef index) @
                                  '' does not match Definition '' @ go_syntax_ref T definitionRef))
                        else (case Canonicalize (lib_transform L) definitionRaw of
                                Inl e \<Rightarrow> fail (tx_canonical T e)
                              | Inr canonical \<Rightarrow>
                                  Inr \<lparr>cf_ref = pi_formRef index,
                                       cf_packageDigest = pa_expectedDigest artifact,
                                       cf_definition = d, cf_canonical = canonical,
                                       cf_origin = subject\<rparr>))))))"

end
