(* ===== verification/ContractGraph.thy ===== *)
theory ContractGraph
  imports SnapshotModel
begin

text \<open>
  \<^verbatim>\<open>snapshot/contracts.go\<close>: compiling the digest-pinned Interface and Binding Definitions, and
  closing the references between them and the Forms. The walk over a desired schema that
  collects the contract annotations follows \<^verbatim>\<open>$ref\<close> under a binding; it terminates because a
  reference already being followed under the same binding is not followed again, and the
  document has finitely many references and binding names.
\<close>

section \<open>Compiled contracts\<close>

record contract_artifact =
  ca_origin :: bytes
  ca_expectedDigest :: bytes
  ca_definition :: bytes

record interface_document =
  idoc_apiVersion :: bytes
  idoc_kind :: bytes
  idoc_name :: bytes
  idoc_version :: bytes
  idoc_operations :: "bytes list"

record runtime_projection =
  rp_operations :: "bytes list"
  rp_accessModes :: "bytes list list"

record binding_document =
  bd_apiVersion :: bytes
  bd_kind :: bytes
  bd_name :: bytes
  bd_version :: bytes
  bd_sourceRole :: bytes
  bd_targetInterface :: interface_ref
  bd_runtimeProjection :: runtime_projection

record compiled_interface =
  ci_public :: interface_ref
  ci_document :: interface_document
  ci_canonical :: bytes
  ci_origin :: bytes
  ci_operations :: "bytes set"

record binding_public =
  bp_ref :: binding_ref
  bp_targetInterface :: interface_ref

record compiled_binding =
  cb_public :: binding_public
  cb_document :: binding_document
  cb_canonical :: bytes
  cb_origin :: bytes

definition empty_interface_document :: interface_document where
  "empty_interface_document = \<lparr>idoc_apiVersion = [], idoc_kind = [], idoc_name = [], idoc_version = [],
     idoc_operations = []\<rparr>"

definition empty_projection :: runtime_projection where
  "empty_projection = \<lparr>rp_operations = [], rp_accessModes = []\<rparr>"

definition empty_binding_document :: binding_document where
  "empty_binding_document = \<lparr>bd_apiVersion = [], bd_kind = [], bd_name = [], bd_version = [],
     bd_sourceRole = [], bd_targetInterface = empty_interface_ref, bd_runtimeProjection = empty_projection\<rparr>"

text \<open>An anonymous struct of one member is that member.\<close>

definition interface_document_fields :: "interface_document struct_fields" where
  "interface_document_fields =
     [(''apiVersion'', member dec_str idoc_apiVersion idoc_apiVersion_update),
      (''kind'', member dec_str idoc_kind idoc_kind_update),
      (''name'', member dec_str idoc_name idoc_name_update),
      (''version'', member dec_str idoc_version idoc_version_update),
      (''operations'', member (dec_slice (dec_struct False [(''name'', dec_str)]) [])
         idoc_operations idoc_operations_update)]"

definition projection_fields :: "runtime_projection struct_fields" where
  "projection_fields =
     [(''operations'', member (dec_slice dec_str []) rp_operations rp_operations_update),
      (''accessModes'',
         member (dec_slice (dec_struct False [(''operations'', dec_slice dec_str [])]) [])
           rp_accessModes rp_accessModes_update)]"

definition binding_document_fields :: "binding_document struct_fields" where
  "binding_document_fields =
     [(''apiVersion'', member dec_str bd_apiVersion bd_apiVersion_update),
      (''kind'', member dec_str bd_kind bd_kind_update),
      (''name'', member dec_str bd_name bd_name_update),
      (''version'', member dec_str bd_version bd_version_update),
      (''sourceRole'', member dec_str bd_sourceRole bd_sourceRole_update),
      (''targetInterface'', member (dec_interface_ref False) bd_targetInterface bd_targetInterface_update),
      (''runtimeProjection'', member (dec_struct False projection_fields)
         bd_runtimeProjection bd_runtimeProjection_update)]"

definition contractArtifactSubject :: "bytes \<Rightarrow> bytes \<Rightarrow> bytes" where
  "contractArtifactSubject origin raw =
     (if trim_space origin \<noteq> [] then origin else ''bytes:'' @ DigestBytes raw)"

definition compileInterfaceArtifact ::
  "libs \<Rightarrow> texts \<Rightarrow> contract_artifact \<Rightarrow> diagnostic + compiled_interface" where
  "compileInterfaceArtifact L T artifact =
     (let subject = contractArtifactSubject (ca_origin artifact) (ca_definition artifact);
          fail = (\<lambda>message. Inl (new_diagnostic DiagnosticInvalidArtifact subject ''/definition'' message)) in
      if \<not> ValidDigest (ca_expectedDigest artifact) then
        Inl (new_diagnostic DiagnosticInvalidArtifact subject ''/expectedDigest''
               ''expected Interface digest is not a canonical lowercase sha256 digest'')
      else (case ValidateInterfaceDefinition L (ca_definition artifact) of
        Some e \<Rightarrow> fail (tx_contract T e)
      | None \<Rightarrow>
          (case DigestCanonicalJSON (lib_transform L) (ca_definition artifact) of
             Inl e \<Rightarrow> fail (tx_canonical T e)
           | Inr digest \<Rightarrow>
               if digest \<noteq> ca_expectedDigest artifact then
                 Inl (new_diagnostic DiagnosticDigestMismatch subject ''/definition''
                        (''Interface Definition digest is '' @ digest @ '', expected '' @ ca_expectedDigest artifact))
               else (case Unmarshal (ca_definition artifact) (dec_struct False interface_document_fields)
                            empty_interface_document of
                       None \<Rightarrow> fail (tx_unmarshal T (ca_definition artifact))
                     | Some document \<Rightarrow>
                         (case Canonicalize (lib_transform L) (ca_definition artifact) of
                            Inl e \<Rightarrow> fail (tx_canonical T e)
                          | Inr canonical \<Rightarrow>
                              Inr \<lparr>ci_public = \<lparr>if_apiVersion = idoc_apiVersion document,
                                     if_name = idoc_name document, if_version = idoc_version document,
                                     if_schemaDigest = digest\<rparr>,
                                   ci_document = document, ci_canonical = canonical, ci_origin = subject,
                                   ci_operations = set (idoc_operations document)\<rparr>)))))"

definition compileBindingArtifact ::
  "libs \<Rightarrow> 'v engines \<Rightarrow> texts \<Rightarrow> contract_artifact \<Rightarrow> diagnostic + compiled_binding" where
  "compileBindingArtifact L E T artifact =
     (let subject = contractArtifactSubject (ca_origin artifact) (ca_definition artifact);
          fail = (\<lambda>message. Inl (new_diagnostic DiagnosticInvalidArtifact subject ''/definition'' message)) in
      if \<not> ValidDigest (ca_expectedDigest artifact) then
        Inl (new_diagnostic DiagnosticInvalidArtifact subject ''/expectedDigest''
               ''expected Binding digest is not a canonical lowercase sha256 digest'')
      else (case ValidateBindingDefinition L E (ca_definition artifact) of
        Some e \<Rightarrow> fail (tx_contract T e)
      | None \<Rightarrow>
          (case DigestCanonicalJSON (lib_transform L) (ca_definition artifact) of
             Inl e \<Rightarrow> fail (tx_canonical T e)
           | Inr digest \<Rightarrow>
               if digest \<noteq> ca_expectedDigest artifact then
                 Inl (new_diagnostic DiagnosticDigestMismatch subject ''/definition''
                        (''Binding Definition digest is '' @ digest @ '', expected '' @ ca_expectedDigest artifact))
               else (case Unmarshal (ca_definition artifact) (dec_struct False binding_document_fields)
                            empty_binding_document of
                       None \<Rightarrow> fail (tx_unmarshal T (ca_definition artifact))
                     | Some document \<Rightarrow>
                         (case Canonicalize (lib_transform L) (ca_definition artifact) of
                            Inl e \<Rightarrow> fail (tx_canonical T e)
                          | Inr canonical \<Rightarrow>
                              Inr \<lparr>cb_public =
                                     \<lparr>bp_ref = \<lparr>br_apiVersion = bd_apiVersion document,
                                        br_name = bd_name document, br_version = bd_version document,
                                        br_schemaDigest = digest\<rparr>,
                                      bp_targetInterface = bd_targetInterface document\<rparr>,
                                   cb_document = document, cb_canonical = canonical,
                                   cb_origin = subject\<rparr>)))))"

text \<open>The loop over artifacts: every diagnostic, and the compiled artifacts in input order.\<close>

fun compile_all :: "('a \<Rightarrow> 'd + 'c) \<Rightarrow> 'a list \<Rightarrow> 'd list \<times> 'c list" where
  "compile_all f [] = ([], [])"
| "compile_all f (a # as) =
     (case compile_all f as of
        (ds, cs) \<Rightarrow> (case f a of Inl d \<Rightarrow> (d # ds, cs) | Inr c \<Rightarrow> (ds, c # cs)))"

definition duplicateContractDiagnostic :: "bytes \<Rightarrow> bytes list \<Rightarrow> diagnostic" where
  "duplicateContractDiagnostic subject origins =
     new_diagnostic DiagnosticDuplicateIdentity subject []
       (''exact contract identity is supplied '' @ decimal (length origins) @ '' times by '' @
        join_with '', '' (sort_strings origins))"

definition interfaceOrigins :: "compiled_interface list \<Rightarrow> bytes list" where
  "interfaceOrigins cs = map ci_origin cs"

definition bindingOrigins :: "compiled_binding list \<Rightarrow> bytes list" where
  "bindingOrigins cs = map cb_origin cs"

text \<open>One group of candidates per identity, in key order: the single candidates are the map,
  every other group is a diagnostic.\<close>

definition single_candidates :: "('c \<Rightarrow> 'k) \<Rightarrow> 'c list \<Rightarrow> 'k \<Rightarrow> 'c option" where
  "single_candidates key cs k = (case group_all key cs k of [c] \<Rightarrow> Some c | _ \<Rightarrow> None)"

definition duplicate_groups :: "('c \<Rightarrow> 'k) \<Rightarrow> 'c list \<Rightarrow> ('k \<Rightarrow> 'c list \<Rightarrow> 'd) \<Rightarrow> 'k list \<Rightarrow> 'd list" where
  "duplicate_groups key cs report order =
     map (\<lambda>k. report k (group_all key cs k)) (filter (\<lambda>k. length (group_all key cs k) \<noteq> 1) order)"

definition projected_operations :: "binding_document \<Rightarrow> bytes list" where
  "projected_operations d =
     rp_operations (bd_runtimeProjection d) @ concat (rp_accessModes (bd_runtimeProjection d))"

definition binding_target_diagnostics ::
  "texts \<Rightarrow> (interface_key \<rightharpoonup> compiled_interface) \<Rightarrow> binding_key \<Rightarrow> compiled_binding \<Rightarrow> diagnostic list" where
  "binding_target_diagnostics T interfaces key binding =
     (let target = interfaceKeyFor (bd_targetInterface (cb_document binding)) in
      case interfaces target of
        None \<Rightarrow>
          [new_diagnostic DiagnosticUnresolvedReference (binding_key_String key) ''/targetInterface''
             (''exact target Interface '' @ interface_key_String target @ '' is absent from the Snapshot'')]
      | Some i \<Rightarrow>
          map (\<lambda>operation. new_diagnostic DiagnosticInvalidArtifact (binding_key_String key)
                 ''/runtimeProjection/operations''
                 (''operation '' @ tx_quote T operation @ '' is absent from exact target Interface '' @
                  interface_key_String target))
            (filter (\<lambda>operation. operation \<notin> ci_operations i) (projected_operations (cb_document binding))))"

record contract_graph =
  cg_interfaces :: "interface_key \<rightharpoonup> compiled_interface"
  cg_interfaceOrder :: "interface_key list"
  cg_bindings :: "binding_key \<rightharpoonup> compiled_binding"
  cg_bindingOrder :: "binding_key list"

definition interface_key_of :: "compiled_interface \<Rightarrow> interface_key" where
  "interface_key_of c = interfaceKeyFor (ci_public c)"

definition binding_key_of :: "compiled_binding \<Rightarrow> binding_key" where
  "binding_key_of c = bindingKeyFor (bp_ref (cb_public c))"

definition compileContracts ::
  "libs \<Rightarrow> 'v engines \<Rightarrow> texts \<Rightarrow> contract_artifact list \<Rightarrow> contract_artifact list \<Rightarrow>
     diagnostic list + contract_graph" where
  "compileContracts L E T interfaceArtifacts bindingArtifacts =
     (let (ids, ics) = compile_all (compileInterfaceArtifact L T) interfaceArtifacts;
          (bds, bcs) = compile_all (compileBindingArtifact L E T) bindingArtifacts in
      if ids @ bds \<noteq> [] then Inl (sortedDiagnostics (ids @ bds))
      else
        (let interfaceOrder = sortedInterfaceKeys (remdups (map interface_key_of ics));
             bindingOrder = sortedBindingKeys (remdups (map binding_key_of bcs));
             interfaces = single_candidates interface_key_of ics;
             bindings = single_candidates binding_key_of bcs;
             duplicates =
               duplicate_groups interface_key_of ics
                 (\<lambda>k ms. duplicateContractDiagnostic (interface_key_String k) (interfaceOrigins ms)) interfaceOrder @
               duplicate_groups binding_key_of bcs
                 (\<lambda>k ms. duplicateContractDiagnostic (binding_key_String k) (bindingOrigins ms)) bindingOrder in
         if duplicates \<noteq> [] then Inl (sortedDiagnostics duplicates)
         else
           (let targets = concat (map (\<lambda>k. binding_target_diagnostics T interfaces k (the (bindings k)))
                            bindingOrder) in
            if targets \<noteq> [] then Inl (sortedDiagnostics targets)
            else Inr \<lparr>cg_interfaces = interfaces, cg_interfaceOrder = interfaceOrder,
                      cg_bindings = bindings, cg_bindingOrder = bindingOrder\<rparr>)))"

section \<open>Contract annotations\<close>

record interface_annotation =
  ia_pointer :: bytes
  ia_ref :: interface_ref
  ia_bindingName :: bytes

record binding_annotation =
  ba_pointer :: bytes
  ba_name :: bytes

type_synonym annotations = "interface_annotation list \<times> binding_annotation list"

definition join_annotations :: "annotations list \<Rightarrow> annotations" where
  "join_annotations xs = (concat (map fst xs), concat (map snd xs))"

text \<open>All strings of a value: its references and binding names are among them.\<close>

fun value_strings :: "gval \<Rightarrow> bytes set"
  and items_strings :: "gval list \<Rightarrow> bytes set"
  and fields_strings :: "object \<Rightarrow> bytes set" where
  "value_strings (VStr s) = {s}"
| "value_strings (VArr xs) = items_strings xs"
| "value_strings (VObj m) = fields_strings m"
| "value_strings v = {}"
| "items_strings [] = {}"
| "items_strings (x # xs) = value_strings x \<union> items_strings xs"
| "fields_strings [] = {}"
| "fields_strings ((k, v) # m) = value_strings v \<union> fields_strings m"

lemma finite_strings [simp]:
  "finite (value_strings v)" "finite (items_strings xs)" "finite (fields_strings m)"
  by (induction v and xs and m rule: value_strings_items_strings_fields_strings.induct) auto

lemma strings_item: "x \<in> set xs \<Longrightarrow> value_strings x \<subseteq> items_strings xs"
  by (induction xs) auto

lemma strings_member: "(k, v) \<in> set m \<Longrightarrow> value_strings v \<subseteq> fields_strings m"
  by (induction m) auto

lemma strings_field: "value_strings (field m k) \<subseteq> fields_strings m"
proof (cases "has_key m k")
  case True
  then show ?thesis using strings_member field_mem by metis
qed (simp add: field_absent)

lemma strings_field_str: "field m k = VStr s \<Longrightarrow> s \<in> fields_strings m"
  using strings_field [of m k] by simp

lemma strings_contract_token: "contract_token v t = Some w \<Longrightarrow> value_strings w \<subseteq> value_strings v"
  using strings_field by (auto simp: contract_token_def split: gval.splits if_splits option.splits
      intro!: strings_item [THEN subsetD] nth_mem)

lemma strings_contract_tokens: "contract_tokens v p raws = Some (w, q) \<Longrightarrow> value_strings w \<subseteq> value_strings v"
proof (induction v p raws rule: contract_tokens.induct)
  case (2 v p raw raws)
  then show ?case
    by (auto split: prod.splits if_splits option.splits dest!: strings_contract_token)
qed auto

lemma strings_resolved:
  "resolveLocalContractReference doc p reference = Some (w, q) \<Longrightarrow> value_strings w \<subseteq> value_strings doc"
  by (auto simp: resolveLocalContractReference_def split: if_splits option.splits
      dest!: strings_contract_tokens)

definition ref_key :: "bytes \<Rightarrow> bytes \<Rightarrow> bytes" where
  "ref_key targetPointer bindingName = targetPointer @ [CHR 0x00] @ bindingName"

text \<open>The reference keys a walk can still meet.\<close>

definition open_keys :: "gval \<Rightarrow> bytes \<Rightarrow> bytes set \<Rightarrow> bytes list \<Rightarrow> bytes set" where
  "open_keys doc p strings stack =
     {ref_key q n | w q n s. s \<in> strings \<and> resolveLocalContractReference doc p s = Some (w, q) \<and> n \<in> strings} -
     set stack"

lemma finite_open_keys: "finite S \<Longrightarrow> finite (open_keys doc p S stack)"
proof -
  assume S: "finite S"
  have "open_keys doc p S stack \<subseteq>
     (\<lambda>(s, n). ref_key (snd (the (resolveLocalContractReference doc p s))) n) ` (S \<times> S)"
    by (force simp: open_keys_def)
  then show ?thesis using S by (blast intro: finite_subset finite_imageI finite_cartesian_product)
qed

lemma open_keys_mono: "S \<subseteq> S' \<Longrightarrow> finite S' \<Longrightarrow> card (open_keys doc p S stack) \<le> card (open_keys doc p S' stack)"
  by (rule card_mono) (rule finite_open_keys, assumption, unfold open_keys_def, blast)

lemma open_keys_push:
  assumes "S \<subseteq> S'" and "finite S'" and "s \<in> S'" and "n \<in> S'"
    and "resolveLocalContractReference doc p s = Some (w, q)" and "ref_key q n \<notin> set stack"
  shows "card (open_keys doc p S (ref_key q n # stack)) < card (open_keys doc p S' stack)"
proof (rule psubset_card_mono)
  show "finite (open_keys doc p S' stack)" using assms(2) by (rule finite_open_keys)
  have "ref_key q n \<in> open_keys doc p S' stack" using assms by (auto simp: open_keys_def)
  moreover have "open_keys doc p S (ref_key q n # stack) \<subseteq> open_keys doc p S' stack - {ref_key q n}"
    using assms(1) by (auto simp: open_keys_def) blast
  ultimately show "open_keys doc p S (ref_key q n # stack) \<subset> open_keys doc p S' stack" by blast
qed

definition walk_strings :: "gval \<Rightarrow> gval \<Rightarrow> bytes \<Rightarrow> bytes set" where
  "walk_strings doc v bindingName = insert bindingName (value_strings doc \<union> value_strings v)"

lemma walk_strings_finite [simp]: "finite (walk_strings doc v n)"
  by (simp add: walk_strings_def)

definition annotated_binding :: "object \<Rightarrow> bytes option" where
  "annotated_binding m = as_str (field m ''x-takoform-binding'')"

lemma annotated_string: "annotated_binding m = Some n \<Longrightarrow> n \<in> fields_strings m"
  using strings_field_str by (simp add: annotated_binding_def)

abbreviation binding_context :: "object \<Rightarrow> bytes \<Rightarrow> bytes" where
  "binding_context m outer \<equiv> case annotated_binding m of None \<Rightarrow> outer | Some n \<Rightarrow> n"

lemma context_strings: "binding_context m outer \<in> insert outer (fields_strings m)"
  using annotated_string by (auto split: option.splits)

text \<open>Going into a part of the value, and following a reference.\<close>

lemma walk_item:
  assumes "x \<in> set xs"
  shows "card (open_keys doc p (walk_strings doc x outer) stack)
     \<le> card (open_keys doc p (walk_strings doc (VArr xs) outer) stack)"
  using strings_item [OF assms] by (intro open_keys_mono) (auto simp: walk_strings_def)

lemma walk_member:
  "card (open_keys doc p (walk_strings doc (field m k) (binding_context m outer)) stack)
     \<le> card (open_keys doc p (walk_strings doc (VObj m) outer) stack)"
  using strings_field [of m k] context_strings [of outer m]
  by (intro open_keys_mono) (auto simp: walk_strings_def split del: option.split)

lemma walk_reference:
  assumes "field m k = VStr s" and r: "resolveLocalContractReference doc p s = Some (w, q)"
    and "ref_key q (binding_context m outer) \<notin> set stack"
  shows "card (open_keys doc p (walk_strings doc w (binding_context m outer))
           (ref_key q (binding_context m outer) # stack))
     < card (open_keys doc p (walk_strings doc (VObj m) outer) stack)"
  using strings_resolved [OF r] context_strings [of outer m] strings_field_str [OF assms(1)] assms(3)
  by (intro open_keys_push [OF _ _ _ _ r]) (auto simp: walk_strings_def split del: option.split)

lemma card_step: "a \<le> b \<Longrightarrow> c < d \<Longrightarrow> a < b \<or> a = (b :: nat) \<and> c < (d :: nat)"
  by auto

function contractAnnotationsWithBinding ::
  "(bytes \<Rightarrow> bytes option) \<Rightarrow> gval \<Rightarrow> bytes \<Rightarrow> bytes list \<Rightarrow> gval \<Rightarrow> bytes \<Rightarrow> bytes \<Rightarrow> annotations" where
  "contractAnnotationsWithBinding tr doc docPointer stack v pointer outer =
     (case v of
        VObj m \<Rightarrow>
          (let bindingName = (case annotated_binding m of Some n \<Rightarrow> n | None \<Rightarrow> outer) in
           join_annotations
             (([], case annotated_binding m of
                     Some n \<Rightarrow> [\<lparr>ba_pointer = pointer @ ''/x-takoform-binding'', ba_name = n\<rparr>]
                   | None \<Rightarrow> []) #
              map (\<lambda>key.
                (let childPointer = pointer @ ''/'' @ escapePointer key in
                 if key = ''x-takoform-required-interface'' then
                   (case DecodeStrictIJSON tr (marshal_any (field m key)) (dec_interface_ref True)
                           empty_interface_ref of
                      Inl _ \<Rightarrow> ([], [])
                    | Inr r \<Rightarrow>
                        ([\<lparr>ia_pointer = childPointer, ia_ref = r, ia_bindingName = bindingName\<rparr>], []))
                 else if key = ''x-takoform-binding'' then ([], [])
                 else if key = ''$ref'' then
                   (if bindingName = [] then ([], [])
                    else (case as_str (field m key) of
                            None \<Rightarrow> ([], [])
                          | Some reference \<Rightarrow>
                              (case resolveLocalContractReference doc docPointer reference of
                                 None \<Rightarrow> ([], [])
                               | Some (target, targetPointer) \<Rightarrow>
                                   if ref_key targetPointer bindingName \<in> set stack then ([], [])
                                   else contractAnnotationsWithBinding tr doc docPointer
                                          (ref_key targetPointer bindingName # stack)
                                          target targetPointer bindingName)))
                 else contractAnnotationsWithBinding tr doc docPointer stack (field m key) childPointer
                        bindingName))
                (sort_strings (keys m))))
      | VArr xs \<Rightarrow>
          join_annotations
            (map (\<lambda>(index, entry).
               contractAnnotationsWithBinding tr doc docPointer stack entry
                 (pointer @ ''/'' @ decimal index) outer)
               (enumerate 0 xs))
      | _ \<Rightarrow> ([], []))"
  by pat_completeness auto

termination contractAnnotationsWithBinding
proof (relation "measures
     [\<lambda>(tr, doc, p, stack, v, pointer, outer). card (open_keys doc p (walk_strings doc v outer) stack),
      \<lambda>(tr, doc, p, stack, v, pointer, outer). weight v]", goal_cases)
  case 1
  then show ?case by simp
next
  case (2 tr doc p stack v pointer outer xs e i y)
  then have y: "y \<in> set xs" by (auto simp: in_set_enumerate_eq)
  have "weight y < Suc (weight_items xs)" using weight_item [OF y] by simp
  from card_step [OF walk_item [OF y, of doc p outer stack] this] 2 show ?case by simp
next
  case (3 tr doc p stack v pointer outer m)
  then show ?case by (auto simp: walk_reference)
next
  case (4 tr doc p stack v pointer outer m b k c)
  then have "has_key m k" by (simp add: has_key_keys sort_strings_def)
  then have "weight (field m k) < Suc (weight_fields m)" using weight_field [of m k] by simp
  from card_step [OF walk_member [of doc p m k outer stack] this] 4 show ?case by simp
qed

declare contractAnnotationsWithBinding.simps [simp del]

definition contractAnnotations :: "(bytes \<Rightarrow> bytes option) \<Rightarrow> gval \<Rightarrow> bytes \<Rightarrow> annotations" where
  "contractAnnotations tr v pointer = contractAnnotationsWithBinding tr v pointer [] v pointer []"

section \<open>References from Forms\<close>

definition acceptedBindingByName :: "binding_ref list \<Rightarrow> bytes \<Rightarrow> binding_ref list" where
  "acceptedBindingByName bindings name = filter (\<lambda>b. br_name b = name) bindings"

definition unresolvedInterfaceDiagnostic :: "exact_key \<Rightarrow> bytes \<Rightarrow> interface_ref \<Rightarrow> diagnostic" where
  "unresolvedInterfaceDiagnostic form pointer r =
     new_diagnostic DiagnosticUnresolvedReference (key_String form) pointer
       (''exact Interface '' @ interface_key_String (interfaceKeyFor r) @ '' is absent from the Snapshot'')"

definition provided_diagnostics ::
  "(interface_key \<rightharpoonup> compiled_interface) \<Rightarrow> exact_key \<Rightarrow> form_definition \<Rightarrow> diagnostic list" where
  "provided_diagnostics interfaces key d =
     concat (map (\<lambda>(index, r).
       if interfaces (interfaceKeyFor r) = None
       then [unresolvedInterfaceDiagnostic key (''/providedInterfaces/'' @ decimal index) r] else [])
       (enumerate 0 (fd_providedInterfaces d)))"

definition accepted_diagnostics ::
  "texts \<Rightarrow> (binding_key \<rightharpoonup> compiled_binding) \<Rightarrow> exact_key \<Rightarrow> form_definition \<Rightarrow> diagnostic list" where
  "accepted_diagnostics T bindings key d =
     concat (map (\<lambda>(index, r).
       (case bindings (bindingKeyFor r) of
          None \<Rightarrow>
            [new_diagnostic DiagnosticUnresolvedReference (key_String key) (''/acceptedBindings/'' @ decimal index)
               (''exact Binding '' @ binding_key_String (bindingKeyFor r) @ '' is absent from the Snapshot'')]
        | Some b \<Rightarrow>
            if bd_sourceRole (cb_document b) \<noteq> fd_role d then
              [new_diagnostic DiagnosticInvalidArtifact (key_String key) (''/acceptedBindings/'' @ decimal index)
                 (''Binding sourceRole '' @ tx_quote T (bd_sourceRole (cb_document b)) @
                  '' does not match Form role '' @ tx_quote T (fd_role d))]
            else []))
       (enumerate 0 (fd_acceptedBindings d)))"

definition interface_annotation_diagnostics ::
  "texts \<Rightarrow> (interface_key \<rightharpoonup> compiled_interface) \<Rightarrow> (binding_key \<rightharpoonup> compiled_binding) \<Rightarrow> exact_key \<Rightarrow>
     form_definition \<Rightarrow> interface_annotation \<Rightarrow> diagnostic list" where
  "interface_annotation_diagnostics T interfaces bindings key d a =
     (let wanted = interfaceKeyFor (ia_ref a) in
      if interfaces wanted = None then [unresolvedInterfaceDiagnostic key (ia_pointer a) (ia_ref a)]
      else if ia_bindingName a = [] then []
      else (case acceptedBindingByName (fd_acceptedBindings d) (ia_bindingName a) of
              [accepted] \<Rightarrow>
                (case bindings (bindingKeyFor accepted) of
                   None \<Rightarrow> []
                 | Some b \<Rightarrow>
                     (let targeted = interfaceKeyFor (bd_targetInterface (cb_document b)) in
                      if wanted \<noteq> targeted then
                        [new_diagnostic DiagnosticInvalidArtifact (key_String key) (ia_pointer a)
                           (''Binding annotation '' @ tx_quote T (ia_bindingName a) @
                            '' requires exact Interface '' @ interface_key_String wanted @
                            '', but resolved Binding '' @
                            binding_key_String (bindingKeyFor (bp_ref (cb_public b))) @
                            '' targets '' @ interface_key_String targeted)]
                      else []))
            | _ \<Rightarrow> []))"

definition binding_annotation_diagnostics ::
  "texts \<Rightarrow> exact_key \<Rightarrow> form_definition \<Rightarrow> binding_annotation \<Rightarrow> diagnostic list" where
  "binding_annotation_diagnostics T key d a =
     (let matches = acceptedBindingByName (fd_acceptedBindings d) (ba_name a) in
      if length matches \<noteq> 1 then
        [new_diagnostic DiagnosticUnresolvedReference (key_String key) (ba_pointer a)
           (''Binding annotation '' @ tx_quote T (ba_name a) @ '' resolves to '' @
            decimal (length matches) @ '' exact accepted Binding refs; want one'')]
      else [])"

definition form_reference_diagnostics ::
  "libs \<Rightarrow> texts \<Rightarrow> contract_graph \<Rightarrow> exact_key \<Rightarrow> form_definition \<Rightarrow> diagnostic list" where
  "form_reference_diagnostics L T g key d =
     (let found = contractAnnotations (lib_transform L) (VObj (map_of_nil (fd_desiredSchema d))) ''/desiredSchema'' in
      provided_diagnostics (cg_interfaces g) key d @ accepted_diagnostics T (cg_bindings g) key d @
      concat (map (interface_annotation_diagnostics T (cg_interfaces g) (cg_bindings g) key d) (fst found)) @
      concat (map (binding_annotation_diagnostics T key d) (snd found)))"

definition closeContractReferences ::
  "libs \<Rightarrow> texts \<Rightarrow> (exact_key \<rightharpoonup> compiled_form) \<Rightarrow> exact_key list \<Rightarrow> contract_graph \<Rightarrow> diagnostic list" where
  "closeContractReferences L T forms ks g =
     sortedDiagnostics (concat (map (\<lambda>k. form_reference_diagnostics L T g k (cf_definition (the (forms k)))) ks))"

end
