(* ===== verification/SnapshotCompile.thy ===== *)
theory SnapshotCompile
  imports ContractGraph
begin

text \<open>
  \<^verbatim>\<open>Compile\<close> of \<^verbatim>\<open>snapshot/snapshot.go\<close>, stage by stage as the code has it, the snapshot it
  returns, and the snapshot's accessors, \<^verbatim>\<open>Validate\<close> and \<^verbatim>\<open>Materialize\<close>. A stage that finds
  problems ends the compilation with the sorted diagnostics of that stage.
\<close>

section \<open>Host API lanes\<close>

definition hostAPIPattern :: rx where
  "hostAPIPattern = seqs [lit ''forms.takoform.com/v'', plus (Cls [c_digit]),
     opt (seqs [alts [lit ''alpha'', lit ''beta''], plus (Cls [c_digit])])]"

definition hostAPILaneOrder :: "bytes \<rightharpoonup> nat" where
  "hostAPILaneOrder = map_of [(''forms.takoform.com/v1beta1'', 1), (''forms.takoform.com/v1beta4'', 2),
     (''forms.takoform.com/v1'', 3)]"

definition selectableHostAPILanes :: "bytes list" where
  "selectableHostAPILanes = [''forms.takoform.com/v1'']"

definition hostAPISatisfies :: "bytes \<Rightarrow> bytes \<Rightarrow> bool" where
  "hostAPISatisfies served required =
     (case (hostAPILaneOrder served, hostAPILaneOrder required) of
        (Some s, Some r) \<Rightarrow> s \<ge> r
      | _ \<Rightarrow> False)"

definition check_lane :: "texts \<Rightarrow> bytes \<Rightarrow> diagnostic option" where
  "check_lane T hostAPI =
     (if \<not> rx_match hostAPIPattern hostAPI then
        Some (new_diagnostic DiagnosticInvalidInput ''input'' ''/hostApi''
          (''HostAPI '' @ tx_quote T hostAPI @ '' is not a Takoform Host API lane identity''))
      else if hostAPILaneOrder hostAPI = None then
        Some (new_diagnostic DiagnosticInvalidInput ''input'' ''/hostApi''
          (''HostAPI '' @ tx_quote T hostAPI @ '' is not a Host API lane known by this Core build''))
      else if \<not> List.member selectableHostAPILanes hostAPI then
        Some (new_diagnostic DiagnosticUnsupportedHostAPI ''input'' ''/hostApi''
          (''HostAPI '' @ tx_quote T hostAPI @
           '' is a historical or unserved lane; only forms.takoform.com/v1 is currently selectable''))
      else None)"

section \<open>Input and result\<close>

record default_pin =
  dp_group :: bytes
  dp_kind :: bytes
  dp_ref :: form_ref

record compile_input =
  in_hostAPI :: bytes
  in_packages :: "package_artifact list"
  in_interfaces :: "contract_artifact list"
  in_bindings :: "contract_artifact list"
  in_defaultCreates :: "default_pin list"

record snapshot =
  sn_hostAPI :: bytes
  sn_digest :: bytes
  sn_ordered :: "exact_key list"
  sn_forms :: "exact_key \<rightharpoonup> compiled_form"
  sn_contracts :: contract_graph
  sn_defaults :: "group_kind \<rightharpoonup> exact_key"

section \<open>Stages\<close>

definition form_key_of :: "compiled_form \<Rightarrow> exact_key" where
  "form_key_of c = keyFor (cf_ref c)"

definition duplicateFormDiagnostic :: "exact_key \<Rightarrow> compiled_form list \<Rightarrow> diagnostic" where
  "duplicateFormDiagnostic key matches =
     new_diagnostic DiagnosticDuplicateIdentity (key_String key) []
       (''exact Form identity is supplied '' @ decimal (length matches) @ '' times by '' @
        join_with '', '' (sort_strings (map cf_origin matches)))"

definition required_diagnostics :: "bytes \<Rightarrow> exact_key \<Rightarrow> form_definition \<Rightarrow> diagnostic list" where
  "required_diagnostics hostAPI key d =
     (if fd_requiresHostAPI d = [] \<or> hostAPISatisfies hostAPI (fd_requiresHostAPI d) then []
      else [new_diagnostic DiagnosticUnsupportedHostAPI (key_String key) ''/requiresHostApi''
              (''Form requires Host API '' @ fd_requiresHostAPI d @ '', but this Snapshot serves '' @ hostAPI)])"

record target_ref =
  tr_pointer :: bytes
  tr_ref :: form_ref

function targetRefs :: "(bytes \<Rightarrow> bytes option) \<Rightarrow> gval \<Rightarrow> bytes \<Rightarrow> target_ref list" where
  "targetRefs transform v pointer =
     (case v of
        VObj m \<Rightarrow>
          concat (map (\<lambda>key.
            (let childPointer = pointer @ ''/'' @ escapePointer key in
             if key = ''x-takoform-target-formrefs'' then
               (case as_arr (field m key) of
                  None \<Rightarrow> []
                | Some entries \<Rightarrow>
                    concat (map (\<lambda>(index, entry).
                      (case DecodeStrictIJSON transform (marshal_any entry) (dec_form_ref True) empty_form_ref of
                         Inl _ \<Rightarrow> []
                       | Inr r \<Rightarrow> [\<lparr>tr_pointer = childPointer @ ''/'' @ decimal index, tr_ref = r\<rparr>]))
                      (enumerate 0 entries)))
             else targetRefs transform (field m key) childPointer))
            (sort_strings (keys m)))
      | VArr xs \<Rightarrow>
          concat (map (\<lambda>(index, entry). targetRefs transform entry (pointer @ ''/'' @ decimal index))
            (enumerate 0 xs))
      | _ \<Rightarrow> [])"
  by pat_completeness auto
termination
proof (relation "measure (\<lambda>(tr, v, pointer). weight v)", goal_cases)
  case 1
  show ?case by simp
next
  case (2 tr v pointer xs e i y)
  then have "y \<in> set xs" by (auto simp: in_set_enumerate_eq)
  then show ?case using 2 weight_item [of y xs] by simp
next
  case (3 tr v pointer m k c)
  then have "has_key m k" by (simp add: has_key_keys sort_strings_def)
  then show ?case using 3 weight_field [of m k] by simp
qed

declare targetRefs.simps [simp del]

definition form_targets :: "libs \<Rightarrow> form_definition \<Rightarrow> target_ref list" where
  "form_targets L d =
     targetRefs (lib_transform L) (VObj (map_of_nil (fd_desiredSchema d))) ''/desiredSchema''"

definition target_diagnostics ::
  "libs \<Rightarrow> (exact_key \<rightharpoonup> compiled_form) \<Rightarrow> exact_key \<Rightarrow> form_definition \<Rightarrow> diagnostic list" where
  "target_diagnostics L forms key d =
     concat (map (\<lambda>t.
       if forms (keyFor (tr_ref t)) = None then
         [new_diagnostic DiagnosticUnresolvedReference (key_String key) (tr_pointer t)
            (''exact target Form '' @ key_String (keyFor (tr_ref t)) @ '' is absent from the Snapshot'')]
       else [])
       (form_targets L d))"

definition pin_group :: "default_pin \<Rightarrow> group_kind" where
  "pin_group p = group_kind_of (dp_group p) (dp_kind p)"

definition key_group :: "exact_key \<Rightarrow> group_kind" where
  "key_group k = group_kind_of (ek_group k) (ek_kind k)"

definition default_of ::
  "default_pin list \<Rightarrow> (exact_key \<rightharpoonup> compiled_form) \<Rightarrow> group_kind \<Rightarrow> diagnostic + exact_key" where
  "default_of pins forms g =
     (let subject = gk_group g @ ''/'' @ gk_kind g; groupPins = group_all pin_group pins g in
      case groupPins of
        [] \<Rightarrow> Inl (new_diagnostic DiagnosticMissingDefault subject []
                ''supported group+kind has no explicit default-create FormRef'')
      | [pin] \<Rightarrow>
          if dp_group pin \<noteq> fr_apiVersion (dp_ref pin) \<or> dp_kind pin \<noteq> fr_kind (dp_ref pin) then
            Inl (new_diagnostic DiagnosticAmbiguousDefault subject []
              ''default-create group+kind does not match its exact FormRef'')
          else if forms (keyFor (dp_ref pin)) = None then
            Inl (new_diagnostic DiagnosticUnresolvedReference subject []
              (''default-create exact Form '' @ key_String (keyFor (dp_ref pin)) @
               '' is absent from the Snapshot''))
          else Inr (keyFor (dp_ref pin))
      | _ \<Rightarrow> Inl (new_diagnostic DiagnosticAmbiguousDefault subject []
                (''group+kind has '' @ decimal (length groupPins) @
                 '' default-create pins; exactly one is required'')))"

definition default_groups :: "default_pin list \<Rightarrow> exact_key list \<Rightarrow> group_kind list" where
  "default_groups pins ks = sort_by group_kind_less (remdups (map key_group ks @ map pin_group pins))"

definition compileDefaults ::
  "default_pin list \<Rightarrow> exact_key list \<Rightarrow> (exact_key \<rightharpoonup> compiled_form) \<Rightarrow>
     (group_kind \<times> exact_key) list \<times> diagnostic list" where
  "compileDefaults pins ks forms =
     (let outcomes = map (\<lambda>g. (g, default_of pins forms g)) (default_groups pins ks) in
      (concat (map (\<lambda>(g, r). case r of Inr k \<Rightarrow> [(g, k)] | Inl _ \<Rightarrow> []) outcomes),
       concat (map (\<lambda>(g, r). case r of Inl d \<Rightarrow> [d] | Inr _ \<Rightarrow> []) outcomes)))"

text \<open>The normalized document: an empty slice that was never appended to is \<^verbatim>\<open>null\<close>.\<close>

definition nil_array :: "gval list \<Rightarrow> gval" where
  "nil_array xs = (if xs = [] then VNull else VArr xs)"

definition enc_form :: "compiled_form \<Rightarrow> gval" where
  "enc_form c = VObj [(''ref'', enc_form_ref (cf_ref c)), (''packageDigest'', VStr (cf_packageDigest c))]"

definition enc_binding :: "binding_public \<Rightarrow> gval" where
  "enc_binding b =
     VObj [(''ref'', enc_binding_ref (bp_ref b)), (''targetInterface'', enc_interface_ref (bp_targetInterface b))]"

definition enc_default :: "group_kind \<times> exact_key \<Rightarrow> gval" where
  "enc_default = (\<lambda>(g, k). VObj [(''group'', VStr (gk_group g)), (''kind'', VStr (gk_kind g)),
     (''ref'', enc_form_ref (key_ref k))])"

text \<open>The defaults are given in the order of their groups, in which they were compiled.\<close>

definition snapshot_wire ::
  "bytes \<Rightarrow> exact_key list \<Rightarrow> (exact_key \<rightharpoonup> compiled_form) \<Rightarrow> contract_graph \<Rightarrow>
     (group_kind \<times> exact_key) list \<Rightarrow> gval" where
  "snapshot_wire hostAPI ks forms g defaults =
     VObj [(''format'', VStr ''takoform.compiled-snapshot@v1''), (''hostApi'', VStr hostAPI),
       (''forms'', VArr (map (\<lambda>k. enc_form (the (forms k))) ks)),
       (''interfaces'', nil_array (map (\<lambda>k.
          VObj [(''ref'', enc_interface_ref (ci_public (the (cg_interfaces g k))))]) (cg_interfaceOrder g))),
       (''bindings'', nil_array (map (\<lambda>k. enc_binding (cb_public (the (cg_bindings g k)))) (cg_bindingOrder g))),
       (''defaults'', nil_array (map enc_default (sort_by (\<lambda>a b. group_kind_less (fst a) (fst b)) defaults)))]"

definition snapshotDigest ::
  "libs \<Rightarrow> bytes \<Rightarrow> exact_key list \<Rightarrow> (exact_key \<rightharpoonup> compiled_form) \<Rightarrow> contract_graph \<Rightarrow>
     (group_kind \<times> exact_key) list \<Rightarrow> canonical_error + bytes" where
  "snapshotDigest L hostAPI ks forms g defaults =
     DigestCanonicalJSON (lib_transform L) (json_encode (snapshot_wire hostAPI ks forms g defaults))"

text \<open>A stage: its diagnostics, sorted, end the compilation. (The code sorts the diagnostics of the
  contracts, which are sorted, once more.)\<close>

definition stage :: "diagnostic list \<Rightarrow> diagnostic list + 'a \<Rightarrow> diagnostic list + 'a" where
  "stage ds r = (if ds \<noteq> [] then Inl (sortedDiagnostics ds) else r)"

definition Compile ::
  "libs \<Rightarrow> 'v engines \<Rightarrow> texts \<Rightarrow> compile_input \<Rightarrow> diagnostic list + snapshot" where
  "Compile L E T input =
     (case check_lane T (in_hostAPI input) of
        Some d \<Rightarrow> Inl [d]
      | None \<Rightarrow>
          (let (artifactDiagnostics, candidates) = compile_all (compileArtifact L E T) (in_packages input);
               ks = sortedKeys E (remdups (map form_key_of candidates));
               forms = single_candidates form_key_of candidates;
               definition_of = (\<lambda>k. cf_definition (the (forms k))) in
           stage artifactDiagnostics
           (stage (duplicate_groups form_key_of candidates duplicateFormDiagnostic ks)
            (bind_res (compileContracts L E T (in_interfaces input) (in_bindings input)) (\<lambda>g.
             stage (closeContractReferences L T forms ks g)
             (stage (concat (map (\<lambda>k. required_diagnostics (in_hostAPI input) k (definition_of k)) ks))
              (stage (concat (map (\<lambda>k. target_diagnostics L forms k (definition_of k)) ks))
               (let (defaults, defaultDiagnostics) = compileDefaults (in_defaultCreates input) ks forms in
                stage defaultDiagnostics
                (case snapshotDigest L (in_hostAPI input) ks forms g defaults of
                   Inl e \<Rightarrow> Inl [new_diagnostic DiagnosticInvalidInput ''input'' []
                              (''encode normalized Snapshot: '' @ tx_canonical T e)]
                 | Inr digest \<Rightarrow>
                     Inr \<lparr>sn_hostAPI = in_hostAPI input, sn_digest = digest, sn_ordered = ks,
                          sn_forms = forms, sn_contracts = g, sn_defaults = map_of defaults\<rparr>)))))))))"

section \<open>The snapshot\<close>

text \<open>The receiver of an accessor is a pointer and may be nil.\<close>

definition snapshot_HostAPI :: "snapshot option \<Rightarrow> bytes" where
  "snapshot_HostAPI s = (case s of None \<Rightarrow> [] | Some s \<Rightarrow> sn_hostAPI s)"

definition snapshot_Digest :: "snapshot option \<Rightarrow> bytes" where
  "snapshot_Digest s = (case s of None \<Rightarrow> [] | Some s \<Rightarrow> sn_digest s)"

definition snapshot_Forms :: "snapshot option \<Rightarrow> (form_ref \<times> bytes) list" where
  "snapshot_Forms s =
     (case s of None \<Rightarrow> []
      | Some s \<Rightarrow> map (\<lambda>k. (cf_ref (the (sn_forms s k)), cf_packageDigest (the (sn_forms s k)))) (sn_ordered s))"

definition snapshot_Default :: "snapshot option \<Rightarrow> bytes \<Rightarrow> bytes \<Rightarrow> form_ref option" where
  "snapshot_Default s g k =
     (case s of None \<Rightarrow> None | Some s \<Rightarrow> map_option key_ref (sn_defaults s (group_kind_of g k)))"

definition snapshot_Definition :: "snapshot option \<Rightarrow> form_ref \<Rightarrow> bytes option" where
  "snapshot_Definition s r =
     (case s of None \<Rightarrow> None | Some s \<Rightarrow> map_option cf_canonical (sn_forms s (keyFor r)))"

definition snapshot_Interfaces :: "snapshot option \<Rightarrow> interface_ref list" where
  "snapshot_Interfaces s =
     (case s of None \<Rightarrow> []
      | Some s \<Rightarrow> map (\<lambda>k. ci_public (the (cg_interfaces (sn_contracts s) k))) (cg_interfaceOrder (sn_contracts s)))"

definition snapshot_Bindings :: "snapshot option \<Rightarrow> binding_public list" where
  "snapshot_Bindings s =
     (case s of None \<Rightarrow> []
      | Some s \<Rightarrow> map (\<lambda>k. cb_public (the (cg_bindings (sn_contracts s) k))) (cg_bindingOrder (sn_contracts s)))"

definition snapshot_InterfaceDefinition :: "snapshot option \<Rightarrow> interface_ref \<Rightarrow> bytes option" where
  "snapshot_InterfaceDefinition s r =
     (case s of None \<Rightarrow> None
      | Some s \<Rightarrow> map_option ci_canonical (cg_interfaces (sn_contracts s) (interfaceKeyFor r)))"

definition snapshot_BindingDefinition :: "snapshot option \<Rightarrow> binding_ref \<Rightarrow> bytes option" where
  "snapshot_BindingDefinition s r =
     (case s of None \<Rightarrow> None
      | Some s \<Rightarrow> map_option cb_canonical (cg_bindings (sn_contracts s) (bindingKeyFor r)))"

datatype desired_error =
    NilSnapshot | FormAbsent exact_key | DesiredDecode decode_error
  | DesiredInvalid exact_key instance_error | DesiredCanonical canonical_error

definition snapshot_Validate ::
  "libs \<Rightarrow> 'v engines \<Rightarrow> snapshot option \<Rightarrow> form_ref \<Rightarrow> bytes \<Rightarrow> desired_error option" where
  "snapshot_Validate L E s r desired =
     (case s of
        None \<Rightarrow> Some NilSnapshot
      | Some s \<Rightarrow>
          (case sn_forms s (keyFor r) of
             None \<Rightarrow> Some (FormAbsent (keyFor r))
           | Some form \<Rightarrow>
               (case DecodeStrictIJSON (lib_transform L) desired (dec_any True) VNull of
                  Inl e \<Rightarrow> Some (DesiredDecode e)
                | Inr v \<Rightarrow>
                    map_option (DesiredInvalid (keyFor r))
                      (ValidateDesiredInstance (lib_unicode L) E (fd_desiredSchema (cf_definition form)) v))))"

definition snapshot_Materialize ::
  "libs \<Rightarrow> 'v engines \<Rightarrow> snapshot option \<Rightarrow> form_ref \<Rightarrow> bytes \<Rightarrow> desired_error + bytes" where
  "snapshot_Materialize L E s r desired =
     (case s of
        None \<Rightarrow> Inl NilSnapshot
      | Some s \<Rightarrow>
          (case sn_forms s (keyFor r) of
             None \<Rightarrow> Inl (FormAbsent (keyFor r))
           | Some form \<Rightarrow>
               (case DecodeStrictIJSON (lib_transform L) desired (dec_any True) VNull of
                  Inl e \<Rightarrow> Inl (DesiredDecode e)
                | Inr v \<Rightarrow>
                    (let materialized =
                           materializeSchemaValue (map_of_nil (fd_desiredSchema (cf_definition form))) v in
                     check_then
                       (map_option (DesiredInvalid (keyFor r))
                          (ValidateDesiredInstance (lib_unicode L) E
                             (fd_desiredSchema (cf_definition form)) materialized))
                       (case Canonicalize (lib_transform L) (marshal_any materialized) of
                          Inl e \<Rightarrow> Inl (DesiredCanonical e)
                        | Inr canonical \<Rightarrow> Inr canonical)))))"

end
