(* ===== verification/CorpusFiles.thy ===== *)
theory CorpusFiles
  imports PackageStaging SnapshotCompile
begin

text \<open>
  The manifest of the neutral artifact corpus and the file access of
  \<^verbatim>\<open>genericconformance/genericconformance.go\<close>: its records and strict decoding, relative paths,
  reads beneath a held root, and the private copy a package is verified in. What the
  system does beyond the \<open>platform\<close> and \<open>staging\<close> calls is the parameter \<open>corpus_os\<close>. The walk
  over a package is given as the list of entries its callback gets.
\<close>

section \<open>The manifest\<close>

definition CorpusFormat :: bytes where "CorpusFormat = ''takoform.core-artifact-corpus@v1''"
definition ReportFormat :: bytes where "ReportFormat = ''takoform.generic-conformance-report@v1''"
definition HostAPILane :: bytes where "HostAPILane = ''forms.takoform.com/v1''"

record package_input =
  pin_path :: bytes
  pin_packageDigest :: bytes

record contract_input =
  cin_path :: bytes
  cin_schemaDigest :: bytes

record snapshot_input =
  si_name :: bytes
  si_packages :: "package_input list"
  si_interfaces :: "contract_input list"
  si_bindings :: "contract_input list"
  si_defaultCreates :: "default_pin list"
  si_expectedFormRefs :: "form_ref list option"
  si_expectedInterfaces :: "interface_ref list"
  si_expectedBindings :: "binding_ref list"

record manifest =
  mf_format :: bytes
  mf_hostAPILane :: bytes
  mf_snapshotInputs :: "snapshot_input list"

definition empty_package_input :: package_input where
  "empty_package_input = \<lparr>pin_path = [], pin_packageDigest = []\<rparr>"

definition empty_contract_input :: contract_input where
  "empty_contract_input = \<lparr>cin_path = [], cin_schemaDigest = []\<rparr>"

definition empty_pin :: default_pin where
  "empty_pin = \<lparr>dp_group = [], dp_kind = [], dp_ref = empty_form_ref\<rparr>"

definition empty_snapshot_input :: snapshot_input where
  "empty_snapshot_input = \<lparr>si_name = [], si_packages = [], si_interfaces = [], si_bindings = [],
     si_defaultCreates = [], si_expectedFormRefs = None, si_expectedInterfaces = [], si_expectedBindings = []\<rparr>"

definition empty_manifest :: manifest where
  "empty_manifest = \<lparr>mf_format = [], mf_hostAPILane = [], mf_snapshotInputs = []\<rparr>"

definition package_input_fields :: "package_input struct_fields" where
  "package_input_fields =
     [(''path'', member dec_str pin_path pin_path_update),
      (''packageDigest'', member dec_str pin_packageDigest pin_packageDigest_update)]"

definition contract_input_fields :: "contract_input struct_fields" where
  "contract_input_fields =
     [(''path'', member dec_str cin_path cin_path_update),
      (''schemaDigest'', member dec_str cin_schemaDigest cin_schemaDigest_update)]"

definition pin_fields :: "default_pin struct_fields" where
  "pin_fields =
     [(''group'', member dec_str dp_group dp_group_update),
      (''kind'', member dec_str dp_kind dp_kind_update),
      (''ref'', member (dec_form_ref True) dp_ref dp_ref_update)]"

definition snapshot_input_fields :: "snapshot_input struct_fields" where
  "snapshot_input_fields =
     [(''name'', member dec_str si_name si_name_update),
      (''packages'', member (dec_slice (dec_struct True package_input_fields) empty_package_input)
         si_packages si_packages_update),
      (''interfaces'', member (dec_slice (dec_struct True contract_input_fields) empty_contract_input)
         si_interfaces si_interfaces_update),
      (''bindings'', member (dec_slice (dec_struct True contract_input_fields) empty_contract_input)
         si_bindings si_bindings_update),
      (''defaultCreates'', member (dec_slice (dec_struct True pin_fields) empty_pin)
         si_defaultCreates si_defaultCreates_update),
      (''expectedFormRefs'', member (dec_nil_slice (dec_form_ref True) empty_form_ref)
         si_expectedFormRefs si_expectedFormRefs_update),
      (''expectedInterfaces'', member (dec_slice (dec_interface_ref True) empty_interface_ref)
         si_expectedInterfaces si_expectedInterfaces_update),
      (''expectedBindings'', member (dec_slice (dec_binding_ref True) empty_binding_ref)
         si_expectedBindings si_expectedBindings_update)]"

definition manifest_fields :: "manifest struct_fields" where
  "manifest_fields =
     [(''format'', member dec_str mf_format mf_format_update),
      (''hostApiLane'', member dec_str mf_hostAPILane mf_hostAPILane_update),
      (''snapshotInputs'', member (dec_slice (dec_struct True snapshot_input_fields) empty_snapshot_input)
         mf_snapshotInputs mf_snapshotInputs_update)]"

datatype regular_error =
    RegularPath | RegularLstat | NotRegularFile | RegularOpen | RegularStat | ChangedOpening | RegularRead
  | RegularLstatAfter | ChangedReading

datatype relative_error =
    EmptyRoot | NotRelative | HasTraversal | RootLstat | RootNotRealDirectory | ComponentLstat bytes
  | ComponentSymlink bytes | NotADirectory | NotRegularPath | ComponentNotDirectory bytes

datatype copy_error =
    PackageDir | CopyMkdirTemp | CopyWalk | CopySymlink bytes | CopyMkdir bytes | CopyInfo bytes
  | CopyNotRegular bytes | CopyRead bytes regular_error | CopyWrite bytes

datatype manifest_error =
    PathRequired | AbsFailed | ManifestLstat | ManifestNotRegular | OpenManifestRoot
  | ReadManifest regular_error | DecodeManifest decode_error
  | WrongFormat bytes | WrongLane bytes | NotTwoInputs | ManifestNameless | DuplicateInput bytes
  | NoExternalFamily | NoZeroFamily

definition validateManifestShape :: "manifest \<Rightarrow> manifest_error option" where
  "validateManifestShape m =
     (let names = map si_name (mf_snapshotInputs m) in
      if mf_format m \<noteq> CorpusFormat then Some (WrongFormat (mf_format m))
      else if mf_hostAPILane m \<noteq> HostAPILane then Some (WrongLane (mf_hostAPILane m))
      else if length names \<noteq> 2 then Some NotTwoInputs
      else first_err
        [first_err (map (\<lambda>(i, name).
           if name = [] then Some ManifestNameless
           else guard_err (\<not> List.member (take i names) name) (DuplicateInput name)) (enumerate 0 names)),
         guard_err (List.member names ''external-family'') NoExternalFamily,
         guard_err (List.member names ''zero-family'') NoZeroFamily])"

section \<open>Paths\<close>

text \<open>A loop that carries a state and stops at the first error.\<close>

fun fold_io :: "('s \<Rightarrow> 'a \<Rightarrow> ('w, 'e, 's) action) \<Rightarrow> 's \<Rightarrow> 'a list \<Rightarrow> ('w, 'e, 's) action" where
  "fold_io f s [] w = (Inr s, w)"
| "fold_io f s (x # xs) w =
     (case f s x w of (Inl e, w') \<Rightarrow> (Inl e, w') | (Inr s', w') \<Rightarrow> fold_io f s' xs w')"

definition validRelativePath :: "bytes \<Rightarrow> bool" where
  "validRelativePath value \<longleftrightarrow>
     value \<noteq> [] \<and> value \<noteq> ''.'' \<and> \<not> has_prefix value ''/'' \<and>
     list_all (\<lambda>part. part \<noteq> [] \<and> part \<noteq> ''.'' \<and> part \<noteq> ''..'') (split_on CHR ''/'' value)"

fun resolve_components ::
  "'w platform \<Rightarrow> bool \<Rightarrow> bytes \<Rightarrow> bytes list \<Rightarrow> bytes list \<Rightarrow> ('w, relative_error, bytes) action" where
  "resolve_components OS wantDir current walked [] = return_io current"
| "resolve_components OS wantDir current walked (part # parts) =
     (let here = path_join [current, part]; shown = join_with ''/'' (walked @ [part]) in
      bind_io (ask (ComponentLstat shown) (os_lstat OS here)) (\<lambda>info.
      check_io (guard_err (\<not> is_symlink info) (ComponentSymlink shown))
      (check_io
         (if parts = [] then
            (if wantDir \<and> \<not> is_dir info then Some NotADirectory
             else guard_err (\<not> (\<not> wantDir \<and> \<not> is_regular info)) NotRegularPath)
          else guard_err (is_dir info) (ComponentNotDirectory shown))
         (resolve_components OS wantDir here (walked @ [part]) parts))))"

definition resolveRelative ::
  "'w platform \<Rightarrow> bytes \<Rightarrow> bytes \<Rightarrow> bool \<Rightarrow> ('w, relative_error, bytes) action" where
  "resolveRelative OS dir relative wantDir =
     check_io (guard_err (dir \<noteq> []) EmptyRoot)
     (check_io (guard_err (\<not> (relative = [] \<or> contains_byte (CHR 0x00) relative \<or> contains_byte CHR 0x5C relative \<or>
          has_prefix relative ''/'')) NotRelative)
     (check_io (guard_err (\<not> (relative = ''.'' \<or> \<not> validRelativePath relative \<or> path_clean relative \<noteq> relative))
          HasTraversal)
     (bind_io (ask RootLstat (os_lstat OS dir)) (\<lambda>info.
      check_io (guard_err (\<not> (is_symlink info \<or> \<not> is_dir info)) RootNotRealDirectory)
       (resolve_components OS wantDir dir [] (split_on CHR ''/'' relative))))))"

section \<open>Reads beneath a held root\<close>

datatype copy_event = Copy_Failed | Copy_Entry bytes bool bool "file_info option"

record 'w corpus_os =
  co_abs :: "bytes \<Rightarrow> 'w \<Rightarrow> bytes option \<times> 'w"
  co_openRoot :: "bytes \<Rightarrow> 'w \<Rightarrow> nat option \<times> 'w"
  co_lstat :: "nat \<Rightarrow> bytes \<Rightarrow> 'w \<Rightarrow> file_info option \<times> 'w"
  co_open :: "nat \<Rightarrow> bytes \<Rightarrow> 'w \<Rightarrow> nat option \<times> 'w"
  co_walk :: "nat \<Rightarrow> bytes \<Rightarrow> 'w \<Rightarrow> copy_event list \<times> 'w"
  co_mkdir :: "bytes \<Rightarrow> 'w \<Rightarrow> bool \<times> 'w"
  co_writeFile :: "bytes \<Rightarrow> bytes \<Rightarrow> 'w \<Rightarrow> bool \<times> 'w"

definition read_all :: "'w platform \<Rightarrow> nat \<Rightarrow> ('w, regular_error, bytes) action" where
  "read_all OS h w =
     (case os_content OS h w of ((available, failing), w') \<Rightarrow>
        (if failing then Inl RegularRead else Inr available, w'))"

definition readRegularRoot ::
  "'w platform \<Rightarrow> 'w corpus_os \<Rightarrow> nat \<Rightarrow> bytes \<Rightarrow> ('w, regular_error, bytes) action" where
  "readRegularRoot OS CO rt relative =
     check_io (guard_err (\<not> (relative = [] \<or> contains_byte (CHR 0x00) relative \<or> contains_byte CHR 0x5C relative \<or>
         has_prefix relative ''/'' \<or> path_clean relative \<noteq> relative \<or> \<not> validRelativePath relative)) RegularPath)
     (bind_io (ask RegularLstat (co_lstat CO rt relative)) (\<lambda>before.
      check_io (guard_err (\<not> (is_symlink before \<or> \<not> is_regular before)) NotRegularFile)
      (bind_io (ask RegularOpen (co_open CO rt relative)) (\<lambda>h. closing OS h
       (bind_io (ask RegularStat (os_stat OS h)) (\<lambda>opened.
        check_io (guard_err (\<not> (\<not> same_file before opened \<or> is_symlink opened \<or> \<not> is_regular opened)) ChangedOpening)
        (bind_io (read_all OS h) (\<lambda>raw.
         bind_io (ask RegularLstatAfter (co_lstat CO rt relative)) (\<lambda>after.
         check_io (guard_err (\<not> (\<not> same_file before after \<or> fi_size after \<noteq> int (length raw) \<or>
             is_symlink after \<or> \<not> is_regular after)) ChangedReading)
           (return_io raw))))))))))"

definition absoluteRegularPath ::
  "'w platform \<Rightarrow> 'w corpus_os \<Rightarrow> bytes \<Rightarrow> ('w, manifest_error, bytes) action" where
  "absoluteRegularPath OS CO input =
     check_io (guard_err (trim_space input \<noteq> []) PathRequired)
     (bind_io (ask AbsFailed (co_abs CO input)) (\<lambda>absolute.
      bind_io (ask ManifestLstat (os_lstat OS absolute)) (\<lambda>info.
      check_io (guard_err (\<not> (is_symlink info \<or> \<not> is_regular info)) ManifestNotRegular)
        (return_io absolute))))"

definition mustAbsolute :: "'w corpus_os \<Rightarrow> bytes \<Rightarrow> 'w \<Rightarrow> bytes \<times> 'w" where
  "mustAbsolute CO input w =
     (case co_abs CO input w of (Some absolute, w') \<Rightarrow> (absolute, w') | (None, w') \<Rightarrow> (input, w'))"

definition LoadManifest ::
  "'w platform \<Rightarrow> 'w corpus_os \<Rightarrow> libs \<Rightarrow> bytes \<Rightarrow> ('w, manifest_error, manifest \<times> bytes) action" where
  "LoadManifest OS CO L manifestPath =
     bind_io (absoluteRegularPath OS CO manifestPath) (\<lambda>absolute.
     bind_io (ask OpenManifestRoot (co_openRoot CO (path_dir absolute))) (\<lambda>rt. closing OS rt
      (bind_io (via ReadManifest (readRegularRoot OS CO rt (path_base absolute))) (\<lambda>raw.
       lift_io (case DecodeStrictIJSON (lib_transform L) raw (dec_struct True manifest_fields) empty_manifest of
            Inl e \<Rightarrow> Inl (DecodeManifest e) | Inr m \<Rightarrow> Inr m) (\<lambda>m.
       check_io (validateManifestShape m) (return_io (m, raw)))))))"

section \<open>A private copy\<close>

definition copy_entry ::
  "'w platform \<Rightarrow> 'w corpus_os \<Rightarrow> nat \<Rightarrow> bytes \<Rightarrow> bytes \<Rightarrow> copy_event \<Rightarrow> ('w, copy_error, unit) action" where
  "copy_entry OS CO rt relativeDir temp event =
     (case event of
        Copy_Failed \<Rightarrow> fail_io CopyWalk
      | Copy_Entry source symlink directory info \<Rightarrow>
          if symlink then fail_io (CopySymlink source)
          else (let relative = trim_prefix (trim_prefix source relativeDir) ''/'';
                    target = path_join [temp, relative] in
            if relative = [] then return_io ()
            else if directory then demand (CopyMkdir source) (co_mkdir CO target)
            else (case info of
                    None \<Rightarrow> fail_io (CopyInfo source)
                  | Some i \<Rightarrow>
                      check_io (guard_err (is_regular i) (CopyNotRegular source))
                      (bind_io (via (CopyRead source) (readRegularRoot OS CO rt source)) (\<lambda>raw.
                        demand (CopyWrite source) (co_writeFile CO target raw))))))"

definition stagePackage ::
  "'w platform \<Rightarrow> 'w staging \<Rightarrow> 'w corpus_os \<Rightarrow> nat \<Rightarrow> bytes \<Rightarrow> ('w, copy_error, bytes) action" where
  "stagePackage OS ST CO rt relativeDir =
     check_io (guard_err (\<not> (relativeDir \<noteq> ''.'' \<and>
         (\<not> validRelativePath relativeDir \<or> path_clean relativeDir \<noteq> relativeDir))) PackageDir)
     (bind_io (ask CopyMkdirTemp (st_mkdirTemp ST)) (\<lambda>temp w.
        case co_walk CO rt relativeDir w of
          (events, w1) \<Rightarrow>
            (case each_io (copy_entry OS CO rt relativeDir temp) events w1 of
               (Inl e, w2) \<Rightarrow> (Inl e, remove_staged ST temp w2)
             | (Inr _, w2) \<Rightarrow> (Inr temp, w2))))"

definition verifyStagedPackage ::
  "'w platform \<Rightarrow> 'w staging \<Rightarrow> 'w corpus_os \<Rightarrow> libs \<Rightarrow> 'v engines \<Rightarrow> nat \<Rightarrow> bytes \<Rightarrow>
     ('w, copy_error + package_error, verification_report) action" where
  "verifyStagedPackage OS ST CO L E rt relativeDir =
     bind_io (via Inl (stagePackage OS ST CO rt relativeDir)) (\<lambda>temp w.
       case VerifyDirectory OS L E temp w of (r, w') \<Rightarrow>
         ((case r of Inl e \<Rightarrow> Inl (Inr e) | Inr report \<Rightarrow> Inr report), remove_staged ST temp w'))"

end
