(* ===== verification/SnapshotGraph.thy ===== *)
theory SnapshotGraph
  imports SnapshotCompile
begin

text \<open>
  What a compilation establishes. The declarative side is a \<open>graph\<close>: sets of compiled Forms,
  Interfaces and Bindings with the selected defaults, and the closure conditions between
  them, stated without stages, orders or maps. \<open>compile_refines_graph\<close> says that
  \<^verbatim>\<open>Compile\<close> succeeds exactly on the inputs that supply a closed graph, with a snapshot that
  represents it.
\<close>

section \<open>Candidates\<close>

lemma compile_all_ok:
  "compile_all f as = ([], cs) \<longleftrightarrow> list_all2 (\<lambda>a c. f a = Inr c) as cs"
proof (induction as arbitrary: cs)
  case (Cons a as)
  then show ?case
    by (cases cs) (auto simp flip: Cons.IH split: prod.splits sum.splits)
qed auto

lemma compile_all_set:
  "set (snd (compile_all f as)) = {c. \<exists>a\<in>set as. f a = Inr c}"
  "set (fst (compile_all f as)) = {d. \<exists>a\<in>set as. f a = Inl d}"
  by (induction as) (auto split: prod.splits sum.splits)

lemma compile_all_Nil: "fst (compile_all f as) = [] \<longleftrightarrow> (\<forall>a\<in>set as. \<exists>c. f a = Inr c)"
  by (induction as) (auto split: prod.splits sum.splits)

lemma group_all_Nil: "group_all key cs k = [] \<longleftrightarrow> k \<notin> key ` set cs"
  by (auto simp: group_all_filter filter_empty_conv)

lemma group_all_single:
  "distinct (map key cs) \<Longrightarrow> c \<in> set cs \<Longrightarrow> group_all key cs (key c) = [c]"
proof (induction cs)
  case (Cons d cs)
  then show ?case
    using group_all_Nil [of key cs "key d"] by (auto simp: image_iff)
qed simp

lemma single_candidates_distinct:
  assumes "distinct (map key cs)"
  shows "single_candidates key cs k = Some c \<longleftrightarrow> c \<in> set cs \<and> key c = k"
proof
  assume "single_candidates key cs k = Some c"
  then have "group_all key cs k = [c]" by (auto simp: single_candidates_def split: list.splits)
  then have "c \<in> set (filter (\<lambda>v. key v = k) cs)" by (simp add: group_all_filter)
  then show "c \<in> set cs \<and> key c = k" by simp
next
  assume "c \<in> set cs \<and> key c = k"
  then show "single_candidates key cs k = Some c"
    using group_all_single [OF assms, of c] by (auto simp: single_candidates_def)
qed

lemma single_candidates_dom:
  assumes "distinct (map key cs)"
  shows "dom (single_candidates key cs) = key ` set cs" and "ran (single_candidates key cs) = set cs"
  using single_candidates_distinct [OF assms] by (auto simp: dom_def ran_def)

lemma group_lengths_distinct:
  "(\<forall>k\<in>key ` set cs. length (group_all key cs k) = 1) \<longleftrightarrow> distinct (map key cs)"
proof
  assume l: "\<forall>k\<in>key ` set cs. length (group_all key cs k) = 1"
  show "distinct (map key cs)"
    using l
  proof (induction cs)
    case (Cons c cs)
    have "length (group_all key (c # cs) (key c)) = 1" using Cons.prems by simp
    then have "group_all key cs (key c) = []" by simp
    then have c: "key c \<notin> key ` set cs" by (simp add: group_all_Nil)
    have "length (group_all key cs k) = 1" if "k \<in> key ` set cs" for k
    proof -
      have "k \<noteq> key c" using that c by (metis (full_types))
      then show ?thesis using Cons.prems that by auto
    qed
    then show ?case using c Cons.IH by auto
  qed simp
next
  assume "distinct (map key cs)"
  then show "\<forall>k\<in>key ` set cs. length (group_all key cs k) = 1"
    using group_all_single by fastforce
qed

lemma duplicate_groups_Nil:
  assumes "set order = key ` set cs"
  shows "duplicate_groups key cs report order = [] \<longleftrightarrow> distinct (map key cs)"
  unfolding group_lengths_distinct [symmetric] duplicate_groups_def using assms
  by (auto simp: filter_empty_conv)

lemma candidates_supply:
  assumes "compile_all f as = ([], cs)"
  shows "set cs = {c. \<exists>a\<in>set as. f a = Inr c}" and "\<forall>a\<in>set as. \<exists>c. f a = Inr c"
  using compile_all_set(1) [of f as] compile_all_Nil [of f as] assms by auto

text \<open>The artifacts supply a set of compiled objects, one per identity.\<close>

definition supplied :: "('a \<Rightarrow> 'd + 'c) \<Rightarrow> ('c \<Rightarrow> 'k) \<Rightarrow> 'a list \<Rightarrow> 'c set \<Rightarrow> bool" where
  "supplied f key as S \<longleftrightarrow>
     (\<forall>a\<in>set as. \<exists>c. f a = Inr c) \<and> S = {c. \<exists>a\<in>set as. f a = Inr c} \<and>
     distinct (map (\<lambda>a. key (projr (f a))) as)"

lemma supplied_iff:
  "supplied f key as S \<longleftrightarrow> (\<exists>cs. compile_all f as = ([], cs) \<and> distinct (map key cs) \<and> S = set cs)"
proof
  assume s: "supplied f key as S"
  obtain cs where cs: "compile_all f as = ([], cs)"
    using s compile_all_Nil [of f as] unfolding supplied_def by (metis prod.collapse)
  then have "list_all2 (\<lambda>a c. f a = Inr c) as cs" by (simp add: compile_all_ok)
  then have "map (\<lambda>a. key (projr (f a))) as = map key cs"
    by (induction rule: list_all2_induct) auto
  with s cs candidates_supply(1) [OF cs] show "\<exists>cs. compile_all f as = ([], cs) \<and> distinct (map key cs) \<and> S = set cs"
    unfolding supplied_def by (intro exI [of _ cs]) simp
next
  assume "\<exists>cs. compile_all f as = ([], cs) \<and> distinct (map key cs) \<and> S = set cs"
  then obtain cs where cs: "compile_all f as = ([], cs)" "distinct (map key cs)" "S = set cs" by blast
  then have "list_all2 (\<lambda>a c. f a = Inr c) as cs" by (simp add: compile_all_ok)
  then have "map (\<lambda>a. key (projr (f a))) as = map key cs"
    by (induction rule: list_all2_induct) auto
  with cs candidates_supply [OF cs(1)] show "supplied f key as S"
    by (simp add: supplied_def)
qed

section \<open>Graphs\<close>

record graph =
  gr_forms :: "compiled_form set"
  gr_interfaces :: "compiled_interface set"
  gr_bindings :: "compiled_binding set"
  gr_defaults :: "form_ref set"

definition binding_closed :: "graph \<Rightarrow> compiled_binding \<Rightarrow> bool" where
  "binding_closed G b \<longleftrightarrow>
     (\<exists>t\<in>gr_interfaces G. ci_public t = bd_targetInterface (cb_document b) \<and>
        set (projected_operations (cb_document b)) \<subseteq> ci_operations t)"

definition binding_by_ref :: "graph \<Rightarrow> binding_ref \<Rightarrow> compiled_binding \<Rightarrow> bool" where
  "binding_by_ref G r b \<longleftrightarrow> b \<in> gr_bindings G \<and> bp_ref (cb_public b) = r"

text \<open>An interface required under a binding name is the target of the binding accepted by that
  name, and that name is accepted exactly once wherever it is used.\<close>

definition annotations_closed :: "libs \<Rightarrow> graph \<Rightarrow> form_definition \<Rightarrow> bool" where
  "annotations_closed L G d \<longleftrightarrow>
     (let found = contractAnnotations (lib_transform L) (VObj (map_of_nil (fd_desiredSchema d))) ''/desiredSchema'' in
      (\<forall>a\<in>set (fst found). ia_ref a \<in> ci_public ` gr_interfaces G \<and>
         (ia_bindingName a \<noteq> [] \<longrightarrow>
          (\<forall>r b. acceptedBindingByName (fd_acceptedBindings d) (ia_bindingName a) = [r] \<longrightarrow>
             binding_by_ref G r b \<longrightarrow> bd_targetInterface (cb_document b) = ia_ref a))) \<and>
      (\<forall>a\<in>set (snd found). length (acceptedBindingByName (fd_acceptedBindings d) (ba_name a)) = 1))"

definition form_closed :: "libs \<Rightarrow> bytes \<Rightarrow> graph \<Rightarrow> compiled_form \<Rightarrow> bool" where
  "form_closed L hostAPI G f \<longleftrightarrow>
     set (fd_providedInterfaces (cf_definition f)) \<subseteq> ci_public ` gr_interfaces G \<and>
     (\<forall>r\<in>set (fd_acceptedBindings (cf_definition f)).
        \<exists>b. binding_by_ref G r b \<and> bd_sourceRole (cb_document b) = fd_role (cf_definition f)) \<and>
     annotations_closed L G (cf_definition f) \<and>
     (fd_requiresHostAPI (cf_definition f) = [] \<or> hostAPISatisfies hostAPI (fd_requiresHostAPI (cf_definition f))) \<and>
     tr_ref ` set (form_targets L (cf_definition f)) \<subseteq> cf_ref ` gr_forms G"

text \<open>One pin per group and kind of a supplied Form, naming a supplied Form of that group and kind.\<close>

definition pins_closed :: "default_pin list \<Rightarrow> graph \<Rightarrow> bool" where
  "pins_closed pins G \<longleftrightarrow>
     distinct (map pin_group pins) \<and> gr_defaults G = dp_ref ` set pins \<and>
     (\<forall>p\<in>set pins. dp_ref p \<in> cf_ref ` gr_forms G \<and> dp_group p = fr_apiVersion (dp_ref p) \<and>
        dp_kind p = fr_kind (dp_ref p)) \<and>
     (\<lambda>f. key_group (form_key_of f)) ` gr_forms G \<subseteq> pin_group ` set pins"

definition closed_graph ::
  "libs \<Rightarrow> 'v engines \<Rightarrow> texts \<Rightarrow> compile_input \<Rightarrow> graph \<Rightarrow> bool" where
  "closed_graph L E T i G \<longleftrightarrow>
     in_hostAPI i = ''forms.takoform.com/v1'' \<and>
     supplied (compileArtifact L E T) form_key_of (in_packages i) (gr_forms G) \<and>
     supplied (compileInterfaceArtifact L T) interface_key_of (in_interfaces i) (gr_interfaces G) \<and>
     supplied (compileBindingArtifact L E T) binding_key_of (in_bindings i) (gr_bindings G) \<and>
     (\<forall>b\<in>gr_bindings G. binding_closed G b) \<and>
     (\<forall>f\<in>gr_forms G. form_closed L (in_hostAPI i) G f) \<and>
     pins_closed (in_defaultCreates i) G"

text \<open>The graph a snapshot represents.\<close>

definition snapshot_graph :: "snapshot \<Rightarrow> graph" where
  "snapshot_graph s = \<lparr>gr_forms = ran (sn_forms s), gr_interfaces = ran (cg_interfaces (sn_contracts s)),
     gr_bindings = ran (cg_bindings (sn_contracts s)), gr_defaults = key_ref ` ran (sn_defaults s)\<rparr>"

section \<open>Stage by stage\<close>

lemma stage_Inr [simp]: "stage ds r = Inr s \<longleftrightarrow> ds = [] \<and> r = Inr s"
  by (simp add: stage_def)

lemma concat_Nil_iff: "concat (map f xs) = [] \<longleftrightarrow> (\<forall>x\<in>set xs. f x = [])"
  by auto

lemma enumerate_all: "(\<forall>p\<in>set (enumerate n xs). P (snd p)) \<longleftrightarrow> (\<forall>x\<in>set xs. P x)"
proof -
  have "(\<forall>p\<in>set (enumerate n xs). P (snd p)) \<longleftrightarrow> (\<forall>x\<in>snd ` set (enumerate n xs). P x)" by blast
  also have "snd ` set (enumerate n xs) = set xs" by (simp flip: set_map)
  finally show ?thesis .
qed

lemma member_of_candidates:
  assumes "distinct (map key cs)"
  shows "single_candidates key cs k = None \<longleftrightarrow> k \<notin> key ` set cs"
  using single_candidates_dom(1) [OF assms] by (metis domIff)

text \<open>Contracts.\<close>

lemma binding_target_Nil:
  assumes "distinct (map interface_key_of ics)"
  shows "binding_target_diagnostics T (single_candidates interface_key_of ics) k b = [] \<longleftrightarrow>
     (\<exists>t\<in>set ics. ci_public t = bd_targetInterface (cb_document b) \<and>
        set (projected_operations (cb_document b)) \<subseteq> ci_operations t)"
proof (cases "single_candidates interface_key_of ics (interfaceKeyFor (bd_targetInterface (cb_document b)))")
  case None
  then have "ci_public t \<noteq> bd_targetInterface (cb_document b)" if "t \<in> set ics" for t
    using that imageI [OF that, of interface_key_of] unfolding member_of_candidates [OF assms]
    by (metis interface_key_of_def)
  with None show ?thesis by (auto simp: binding_target_diagnostics_def)
next
  case (Some t)
  then have t: "t \<in> set ics" "ci_public t = bd_targetInterface (cb_document b)"
    unfolding single_candidates_distinct [OF assms] by (simp_all add: interface_key_of_def)
  have "u = t" if "u \<in> set ics" "ci_public u = bd_targetInterface (cb_document b)" for u
  proof -
    have "interface_key_of u = interface_key_of t" using that t by (simp add: interface_key_of_def)
    then show ?thesis using assms that(1) t(1) by (auto simp: distinct_map dest: inj_onD)
  qed
  with t have e: "(\<exists>u\<in>set ics. ci_public u = bd_targetInterface (cb_document b) \<and> Q u) \<longleftrightarrow> Q t" for Q
    by blast
  show ?thesis
    unfolding e by (simp add: binding_target_diagnostics_def Some filter_empty_conv subset_eq)
qed

definition graph_of_contracts :: "compiled_interface list \<Rightarrow> compiled_binding list \<Rightarrow> contract_graph" where
  "graph_of_contracts ics bcs =
     \<lparr>cg_interfaces = single_candidates interface_key_of ics,
      cg_interfaceOrder = sortedInterfaceKeys (remdups (map interface_key_of ics)),
      cg_bindings = single_candidates binding_key_of bcs,
      cg_bindingOrder = sortedBindingKeys (remdups (map binding_key_of bcs))\<rparr>"

lemma compileContracts_Inr:
  "compileContracts L E T ias bas = Inr g \<longleftrightarrow>
     (\<exists>ics bcs. compile_all (compileInterfaceArtifact L T) ias = ([], ics) \<and>
        compile_all (compileBindingArtifact L E T) bas = ([], bcs) \<and>
        distinct (map interface_key_of ics) \<and> distinct (map binding_key_of bcs) \<and>
        (\<forall>b\<in>set bcs. \<exists>t\<in>set ics. ci_public t = bd_targetInterface (cb_document b) \<and>
           set (projected_operations (cb_document b)) \<subseteq> ci_operations t) \<and>
        g = graph_of_contracts ics bcs)"
proof -
  obtain ids ics bds bcs where c: "compile_all (compileInterfaceArtifact L T) ias = (ids, ics)"
      "compile_all (compileBindingArtifact L E T) bas = (bds, bcs)"
    by (metis prod.collapse)
  have si: "set (sortedInterfaceKeys (remdups (map interface_key_of ics))) = interface_key_of ` set ics"
    by (simp add: sortedInterfaceKeys_def)
  have sb: "set (sortedBindingKeys (remdups (map binding_key_of bcs))) = binding_key_of ` set bcs"
    by (simp add: sortedBindingKeys_def)
  have t: "concat (map (\<lambda>k. binding_target_diagnostics T (single_candidates interface_key_of ics) k
        (the (single_candidates binding_key_of bcs k)))
        (sortedBindingKeys (remdups (map binding_key_of bcs)))) = [] \<longleftrightarrow>
      (\<forall>b\<in>set bcs. \<exists>t\<in>set ics. ci_public t = bd_targetInterface (cb_document b) \<and>
         set (projected_operations (cb_document b)) \<subseteq> ci_operations t)"
    if d: "distinct (map interface_key_of ics)" "distinct (map binding_key_of bcs)"
  proof -
    have "the (single_candidates binding_key_of bcs (binding_key_of b)) = b" if "b \<in> set bcs" for b
      using that single_candidates_distinct [OF d(2), of "binding_key_of b" b] by simp
    then show ?thesis by (simp only: concat_Nil_iff sb ball_simps binding_target_Nil [OF d(1)] cong: ball_cong)
  qed
  show ?thesis
    using t duplicate_groups_Nil [OF si] duplicate_groups_Nil [OF sb]
    by (auto simp: compileContracts_def c Let_def graph_of_contracts_def)
qed

text \<open>The references of a Form, in a graph whose sets the maps of the code represent.\<close>

definition represents :: "('k \<rightharpoonup> 'c) \<Rightarrow> ('c \<Rightarrow> 'k) \<Rightarrow> 'c set \<Rightarrow> bool" where
  "represents m key S \<longleftrightarrow> (\<forall>k c. m k = Some c \<longleftrightarrow> c \<in> S \<and> key c = k)"

lemma represents_candidates: "distinct (map key cs) \<Longrightarrow> represents (single_candidates key cs) key (set cs)"
  by (simp add: represents_def single_candidates_distinct)

lemma represents_None: "represents m key S \<Longrightarrow> m k = None \<longleftrightarrow> k \<notin> key ` S"
  unfolding represents_def by (metis image_iff not_None_eq option.distinct(1))

lemma represents_ran: "represents m key S \<Longrightarrow> ran m = S"
  by (auto simp: represents_def ran_def)

lemma interface_present:
  "represents m interface_key_of S \<Longrightarrow> m (interfaceKeyFor r) = None \<longleftrightarrow> r \<notin> ci_public ` S"
  using interfaceKeyFor_inject by (auto simp: represents_None interface_key_of_def image_iff)

lemma form_present:
  "represents m form_key_of S \<Longrightarrow> m (keyFor r) = None \<longleftrightarrow> r \<notin> cf_ref ` S"
  using keyFor_inject by (auto simp: represents_None form_key_of_def image_iff)

lemma binding_present:
  "represents m binding_key_of (gr_bindings G) \<Longrightarrow> m (bindingKeyFor r) = Some b \<longleftrightarrow> binding_by_ref G r b"
  by (simp add: represents_def binding_key_of_def binding_by_ref_def)

lemma binding_unique:
  "represents m binding_key_of (gr_bindings G) \<Longrightarrow> binding_by_ref G r b \<Longrightarrow> binding_by_ref G r c \<Longrightarrow> b = c"
  by (metis binding_present option.inject)

lemma provided_Nil:
  assumes "represents m interface_key_of S"
  shows "provided_diagnostics m k d = [] \<longleftrightarrow> set (fd_providedInterfaces d) \<subseteq> ci_public ` S"
  using enumerate_all [of 0 "fd_providedInterfaces d" "\<lambda>r. r \<in> ci_public ` S"]
  by (auto simp: provided_diagnostics_def interface_present [OF assms] case_prod_beta split: if_splits)

lemma accepted_Nil:
  assumes r: "represents m binding_key_of (gr_bindings G)"
  shows "accepted_diagnostics T m k d = [] \<longleftrightarrow>
     (\<forall>r\<in>set (fd_acceptedBindings d). \<exists>b. binding_by_ref G r b \<and> bd_sourceRole (cb_document b) = fd_role d)"
proof -
  have one: "(case m (bindingKeyFor r) of None \<Rightarrow> [f] | Some b \<Rightarrow>
      if bd_sourceRole (cb_document b) \<noteq> fd_role d then [h b] else []) = [] \<longleftrightarrow>
      (\<exists>b. binding_by_ref G r b \<and> bd_sourceRole (cb_document b) = fd_role d)" for r f h
    using binding_present [OF r, of r] binding_unique [OF r, of r]
    by (cases "m (bindingKeyFor r)") auto
  show ?thesis
    using enumerate_all [of 0 "fd_acceptedBindings d"
        "\<lambda>r. \<exists>b. binding_by_ref G r b \<and> bd_sourceRole (cb_document b) = fd_role d"]
    by (simp only: accepted_diagnostics_def concat_Nil_iff case_prod_beta one)
qed

lemma interface_annotation_Nil:
  assumes i: "represents mi interface_key_of (gr_interfaces G)" and b: "represents mb binding_key_of (gr_bindings G)"
  shows "interface_annotation_diagnostics T mi mb k d a = [] \<longleftrightarrow>
     ia_ref a \<in> ci_public ` gr_interfaces G \<and>
     (ia_bindingName a \<noteq> [] \<longrightarrow>
       (\<forall>r b. acceptedBindingByName (fd_acceptedBindings d) (ia_bindingName a) = [r] \<longrightarrow>
          binding_by_ref G r b \<longrightarrow> bd_targetInterface (cb_document b) = ia_ref a))"
proof -
  define accepted where "accepted = acceptedBindingByName (fd_acceptedBindings d) (ia_bindingName a)"
  have "interface_annotation_diagnostics T mi mb k d a = [] \<longleftrightarrow>
      mi (interfaceKeyFor (ia_ref a)) \<noteq> None \<and>
      (ia_bindingName a \<noteq> [] \<longrightarrow>
        (\<forall>r c. accepted = [r] \<longrightarrow> mb (bindingKeyFor r) = Some c \<longrightarrow>
           interfaceKeyFor (ia_ref a) = interfaceKeyFor (bd_targetInterface (cb_document c))))"
    unfolding interface_annotation_diagnostics_def Let_def accepted_def [symmetric]
    by (simp split: list.split option.split)
  also have "\<dots> \<longleftrightarrow> ia_ref a \<in> ci_public ` gr_interfaces G \<and>
      (ia_bindingName a \<noteq> [] \<longrightarrow> (\<forall>r c. accepted = [r] \<longrightarrow> binding_by_ref G r c \<longrightarrow>
         bd_targetInterface (cb_document c) = ia_ref a))"
    unfolding interface_present [OF i] binding_present [OF b] interfaceKeyFor_inject
    by (simp add: eq_commute)
  finally show ?thesis unfolding accepted_def .
qed

lemma references_Nil:
  assumes i: "represents (cg_interfaces g) interface_key_of (gr_interfaces G)"
    and b: "represents (cg_bindings g) binding_key_of (gr_bindings G)"
  shows "form_reference_diagnostics L T g k d = [] \<longleftrightarrow>
     set (fd_providedInterfaces d) \<subseteq> ci_public ` gr_interfaces G \<and>
     (\<forall>r\<in>set (fd_acceptedBindings d). \<exists>b. binding_by_ref G r b \<and> bd_sourceRole (cb_document b) = fd_role d) \<and>
     annotations_closed L G d"
proof -
  have "binding_annotation_diagnostics T k d a = [] \<longleftrightarrow>
      length (acceptedBindingByName (fd_acceptedBindings d) (ba_name a)) = 1" for a
    by (simp add: binding_annotation_diagnostics_def Let_def)
  then show ?thesis
    by (simp only: form_reference_diagnostics_def Let_def append_is_Nil_conv provided_Nil [OF i]
        accepted_Nil [OF b] concat_Nil_iff interface_annotation_Nil [OF i b] annotations_closed_def simp_thms)
qed

lemma targets_Nil:
  assumes "represents m form_key_of S"
  shows "target_diagnostics L m k d = [] \<longleftrightarrow> tr_ref ` set (form_targets L d) \<subseteq> cf_ref ` S"
  by (auto simp: target_diagnostics_def form_present [OF assms] split: if_splits)

lemma required_Nil:
  "required_diagnostics h k d = [] \<longleftrightarrow> fd_requiresHostAPI d = [] \<or> hostAPISatisfies h (fd_requiresHostAPI d)"
  by (simp add: required_diagnostics_def)

text \<open>Defaults.\<close>

definition good_pin :: "(exact_key \<rightharpoonup> compiled_form) \<Rightarrow> default_pin \<Rightarrow> bool" where
  "good_pin forms p \<longleftrightarrow> dp_group p = fr_apiVersion (dp_ref p) \<and> dp_kind p = fr_kind (dp_ref p) \<and>
     forms (keyFor (dp_ref p)) \<noteq> None"

lemma default_of_Inr:
  "default_of pins forms g = Inr k \<longleftrightarrow>
     (\<exists>p. group_all pin_group pins g = [p] \<and> good_pin forms p \<and> k = keyFor (dp_ref p))"
  by (auto simp: default_of_def good_pin_def Let_def split: list.splits if_splits)

lemma default_groups_set: "set (default_groups pins ks) = key_group ` set ks \<union> pin_group ` set pins"
  by (auto simp: default_groups_def)

definition defaults_ok :: "default_pin list \<Rightarrow> exact_key list \<Rightarrow> (exact_key \<rightharpoonup> compiled_form) \<Rightarrow> bool" where
  "defaults_ok pins ks forms \<longleftrightarrow> distinct (map pin_group pins) \<and> (\<forall>p\<in>set pins. good_pin forms p) \<and>
     key_group ` set ks \<subseteq> pin_group ` set pins"

lemma defaults_all_ok:
  "(\<forall>g\<in>set (default_groups pins ks). \<exists>k. default_of pins forms g = Inr k) \<longleftrightarrow> defaults_ok pins ks forms"
proof
  assume a: "\<forall>g\<in>set (default_groups pins ks). \<exists>k. default_of pins forms g = Inr k"
  have one: "\<exists>p. group_all pin_group pins g = [p] \<and> good_pin forms p" if "g \<in> set (default_groups pins ks)" for g
    using a that by (force simp: default_of_Inr)
  then have "\<forall>g\<in>pin_group ` set pins. length (group_all pin_group pins g) = 1"
    by (force simp: default_groups_set)
  then have d: "distinct (map pin_group pins)" by (simp only: group_lengths_distinct)
  have "good_pin forms p" if p: "p \<in> set pins" for p
    using one [of "pin_group p"] group_all_single [OF d p] p by (auto simp: default_groups_set)
  moreover have "key_group k \<in> pin_group ` set pins" if "k \<in> set ks" for k
    using one [of "key_group k"] group_all_Nil [of pin_group pins "key_group k"] that
    by (auto simp: default_groups_set)
  ultimately show "defaults_ok pins ks forms" using d by (auto simp: defaults_ok_def)
next
  assume o: "defaults_ok pins ks forms"
  show "\<forall>g\<in>set (default_groups pins ks). \<exists>k. default_of pins forms g = Inr k"
  proof
    fix g
    assume "g \<in> set (default_groups pins ks)"
    then obtain p where p: "p \<in> set pins" "pin_group p = g"
      using o by (auto simp: default_groups_set defaults_ok_def)
    then have "group_all pin_group pins g = [p]"
      using o group_all_single [of pin_group pins p] by (simp add: defaults_ok_def)
    then show "\<exists>k. default_of pins forms g = Inr k"
      using o p by (auto simp: default_of_Inr defaults_ok_def)
  qed
qed

lemma compileDefaults_ok:
  "snd (compileDefaults pins ks forms) = [] \<longleftrightarrow> defaults_ok pins ks forms"
proof -
  have "snd (compileDefaults pins ks forms) = [] \<longleftrightarrow>
      (\<forall>g\<in>set (default_groups pins ks). \<exists>k. default_of pins forms g = Inr k)"
    by (simp add: compileDefaults_def Let_def concat_Nil_iff split: sum.split)
      (metis Inl_Inr_False obj_sumE)
  then show ?thesis by (simp add: defaults_all_ok)
qed

lemma map_of_outcomes:
  "map_of (concat (map (\<lambda>g. case f g of Inr k \<Rightarrow> [(g, k)] | Inl _ \<Rightarrow> []) gs)) g =
     (if g \<in> set gs then (case f g of Inr k \<Rightarrow> Some k | Inl _ \<Rightarrow> None) else None)"
  by (induction gs) (auto split: sum.splits)

lemma defaults_map:
  assumes "defaults_ok pins ks forms"
  shows "map_of (fst (compileDefaults pins ks forms)) g = Some k \<longleftrightarrow>
     (\<exists>p\<in>set pins. pin_group p = g \<and> k = keyFor (dp_ref p))"
proof -
  have d: "distinct (map pin_group pins)" using assms by (simp add: defaults_ok_def)
  have "map_of (fst (compileDefaults pins ks forms)) g = Some k \<longleftrightarrow>
      g \<in> set (default_groups pins ks) \<and> default_of pins forms g = Inr k"
    using map_of_outcomes [of "default_of pins forms" "default_groups pins ks" g]
    by (auto simp: compileDefaults_def Let_def comp_def split: sum.splits)
  also have "\<dots> \<longleftrightarrow> (\<exists>p\<in>set pins. pin_group p = g \<and> k = keyFor (dp_ref p))"
  proof
    assume a: "g \<in> set (default_groups pins ks) \<and> default_of pins forms g = Inr k"
    then obtain p where p: "group_all pin_group pins g = [p]" "k = keyFor (dp_ref p)"
      by (auto simp: default_of_Inr)
    then have "p \<in> set (filter (\<lambda>p. pin_group p = g) pins)" by (simp add: group_all_filter)
    with p show "\<exists>p\<in>set pins. pin_group p = g \<and> k = keyFor (dp_ref p)" by auto
  next
    assume "\<exists>p\<in>set pins. pin_group p = g \<and> k = keyFor (dp_ref p)"
    then obtain p where p: "p \<in> set pins" "pin_group p = g" "k = keyFor (dp_ref p)" by blast
    with assms group_all_single [OF d, of p]
    show "g \<in> set (default_groups pins ks) \<and> default_of pins forms g = Inr k"
      by (auto simp: default_groups_set default_of_Inr defaults_ok_def)
  qed
  finally show ?thesis .
qed

lemma defaults_ran:
  "defaults_ok pins ks forms \<Longrightarrow>
     ran (map_of (fst (compileDefaults pins ks forms))) = keyFor ` dp_ref ` set pins"
  using defaults_map [of pins ks forms] unfolding ran_def by (auto simp: image_iff)

section \<open>The whole compilation\<close>

lemma lane_ok: "check_lane T h = None \<longleftrightarrow> h = ''forms.takoform.com/v1''"
proof
  assume "check_lane T h = None"
  then show "h = ''forms.takoform.com/v1''"
    by (auto simp: check_lane_def selectableHostAPILanes_def split: if_splits)
next
  have "rx_match hostAPIPattern ''forms.takoform.com/v1''" by code_simp
  moreover assume "h = ''forms.takoform.com/v1''"
  ultimately show "check_lane T h = None"
    by (simp add: check_lane_def hostAPILaneOrder_def selectableHostAPILanes_def)
qed

definition form_order :: "'v engines \<Rightarrow> compiled_form list \<Rightarrow> exact_key list" where
  "form_order E fs = sortedKeys E (remdups (map form_key_of fs))"

definition form_map :: "compiled_form list \<Rightarrow> exact_key \<rightharpoonup> compiled_form" where
  "form_map fs = single_candidates form_key_of fs"

definition pinned_defaults ::
  "'v engines \<Rightarrow> compile_input \<Rightarrow> compiled_form list \<Rightarrow> (group_kind \<times> exact_key) list" where
  "pinned_defaults E i fs = fst (compileDefaults (in_defaultCreates i) (form_order E fs) (form_map fs))"

definition snapshot_of ::
  "'v engines \<Rightarrow> compile_input \<Rightarrow> compiled_form list \<Rightarrow> contract_graph \<Rightarrow> bytes \<Rightarrow> snapshot" where
  "snapshot_of E i fs g digest =
     \<lparr>sn_hostAPI = in_hostAPI i, sn_digest = digest, sn_ordered = form_order E fs, sn_forms = form_map fs,
      sn_contracts = g, sn_defaults = map_of (pinned_defaults E i fs)\<rparr>"

definition form_problems ::
  "libs \<Rightarrow> texts \<Rightarrow> bytes \<Rightarrow> contract_graph \<Rightarrow> (exact_key \<rightharpoonup> compiled_form) \<Rightarrow> compiled_form \<Rightarrow> diagnostic list" where
  "form_problems L T hostAPI g forms f =
     form_reference_diagnostics L T g (form_key_of f) (cf_definition f) @
     required_diagnostics hostAPI (form_key_of f) (cf_definition f) @
     target_diagnostics L forms (form_key_of f) (cf_definition f)"

lemma form_order_set [simp]: "set (form_order E fs) = form_key_of ` set fs"
  by (simp add: form_order_def sortedKeys_def)

lemma form_map_self: "distinct (map form_key_of fs) \<Longrightarrow> f \<in> set fs \<Longrightarrow> form_map fs (form_key_of f) = Some f"
  by (simp add: form_map_def single_candidates_distinct)

lemma case_some_err: "(case x of None \<Rightarrow> r | Some d \<Rightarrow> Inl (f d)) = Inr b \<longleftrightarrow> x = None \<and> r = Inr b"
  by (cases x) auto

lemma Compile_Inr:
  "Compile L E T i = Inr s \<longleftrightarrow>
     (\<exists>fs g digest. in_hostAPI i = ''forms.takoform.com/v1'' \<and>
        compile_all (compileArtifact L E T) (in_packages i) = ([], fs) \<and> distinct (map form_key_of fs) \<and>
        compileContracts L E T (in_interfaces i) (in_bindings i) = Inr g \<and>
        (\<forall>f\<in>set fs. form_problems L T (in_hostAPI i) g (form_map fs) f = []) \<and>
        defaults_ok (in_defaultCreates i) (form_order E fs) (form_map fs) \<and>
        snapshotDigest L (in_hostAPI i) (form_order E fs) (form_map fs) g (pinned_defaults E i fs) = Inr digest \<and>
        s = snapshot_of E i fs g digest)"
proof -
  obtain ds fs where c: "compile_all (compileArtifact L E T) (in_packages i) = (ds, fs)"
    by (metis prod.collapse)
  obtain defaults dds where d: "compileDefaults (in_defaultCreates i) (form_order E fs) (form_map fs) = (defaults, dds)"
    by (metis prod.collapse)
  have dd: "dds = [] \<longleftrightarrow> defaults_ok (in_defaultCreates i) (form_order E fs) (form_map fs)"
    using compileDefaults_ok [of "in_defaultCreates i" "form_order E fs" "form_map fs"] by (simp add: d)
  have df: "pinned_defaults E i fs = defaults" by (simp add: pinned_defaults_def d)
  have dup: "duplicate_groups form_key_of fs duplicateFormDiagnostic (form_order E fs) = [] \<longleftrightarrow>
      distinct (map form_key_of fs)"
    by (rule duplicate_groups_Nil) simp
  note compile = Compile_def [of L E T i, unfolded c prod.case Let_def form_order_def [symmetric]
      form_map_def [symmetric] d]
  have "Compile L E T i = Inr s \<longleftrightarrow>
      check_lane T (in_hostAPI i) = None \<and> ds = [] \<and> distinct (map form_key_of fs) \<and>
      (\<exists>g digest. compileContracts L E T (in_interfaces i) (in_bindings i) = Inr g \<and>
         closeContractReferences L T (form_map fs) (form_order E fs) g = [] \<and>
         concat (map (\<lambda>k. required_diagnostics (in_hostAPI i) k (cf_definition (the (form_map fs k)))) (form_order E fs)) = [] \<and>
         concat (map (\<lambda>k. target_diagnostics L (form_map fs) k (cf_definition (the (form_map fs k)))) (form_order E fs)) = [] \<and>
         dds = [] \<and> snapshotDigest L (in_hostAPI i) (form_order E fs) (form_map fs) g defaults = Inr digest \<and>
         s = snapshot_of E i fs g digest)"
    unfolding compile
    by (simp add: dup bind_res_Inr snapshot_of_def df case_err_Inr case_some_err del: concat_eq_Nil_conv)
      (blast intro: sym)
  then have "Compile L E T i = Inr s \<longleftrightarrow>
      in_hostAPI i = ''forms.takoform.com/v1'' \<and> ds = [] \<and> distinct (map form_key_of fs) \<and>
      (\<exists>g digest. compileContracts L E T (in_interfaces i) (in_bindings i) = Inr g \<and>
         (\<forall>f\<in>set fs. form_problems L T (in_hostAPI i) g (form_map fs) f = []) \<and>
         defaults_ok (in_defaultCreates i) (form_order E fs) (form_map fs) \<and>
         snapshotDigest L (in_hostAPI i) (form_order E fs) (form_map fs) g defaults = Inr digest \<and>
         s = snapshot_of E i fs g digest)"
    unfolding lane_ok dd closeContractReferences_def sortedDiagnostics_Nil concat_Nil_iff form_order_set
      form_problems_def append_is_Nil_conv
    by (cases "distinct (map form_key_of fs)") (simp_all add: form_map_self ball_conj_distrib cong: ball_cong)
  then show ?thesis
    unfolding c prod.inject by (auto simp: df)
qed

end
