(* ===== verification/Revocation.thy ===== *)
theory Revocation
  imports SchemaLibrary "HOL-Library.Word"
begin

text \<open>
  Revocations: the statements, cumulative checkpoints and pins of \<^verbatim>\<open>formpackage/model.go\<close>,
  their validation and the advance of a host's pin in \<^verbatim>\<open>formpackage/schema.go\<close>. Sequence
  numbers are \<^verbatim>\<open>uint64\<close>, so words of 64 bits; the nil and the empty entry list are kept
  apart because they encode differently. The theorems say what a validated checkpoint is,
  that an advance moves a pin by exactly one, and that under collision-free digests a chain
  of advances only ever appends entries.
\<close>

type_synonym u64 = "64 word"

definition dec_u64 :: "u64 decoder" where
  "dec_u64 v old =
     (case v of VNull \<Rightarrow> Some old | VNumber n \<Rightarrow> map_option of_nat (parse_uint64 n) | _ \<Rightarrow> None)"

definition enc_u64 :: "u64 \<Rightarrow> gval" where
  "enc_u64 w = VNumber (decimal (unat w))"

section \<open>Records\<close>

record revocation_effects =
  re_blockNewCreateOrUpdate :: bool
  re_blockActivation :: bool
  re_retainBytesForObserveAndDelete :: bool

record revocation_statement =
  rs_apiVersion :: bytes
  rs_kind :: bytes
  rs_sequence :: u64
  rs_statementVersion :: bytes
  rs_packageDigest :: bytes
  rs_formRef :: form_ref
  rs_reasonCode :: bytes
  rs_summary :: bytes
  rs_advisoryURL :: bytes
  rs_issuedAt :: bytes
  rs_effects :: revocation_effects

record checkpoint_entry =
  ce_statementAPIVersion :: bytes
  ce_sequence :: u64
  ce_statementVersion :: bytes
  ce_statementDigest :: bytes
  ce_packageDigest :: bytes
  ce_formRef :: form_ref

record revocation_checkpoint =
  rc_apiVersion :: bytes
  rc_kind :: bytes
  rc_checkpointVersion :: bytes
  rc_sequence :: u64
  rc_previousCheckpointDigest :: "bytes option"
  rc_entries :: "checkpoint_entry list option"

record checkpoint_pin =
  cp_checkpointAPIVersion :: bytes
  cp_sequence :: u64
  cp_digest :: bytes
  cp_entriesDigest :: bytes

definition empty_effects :: revocation_effects where
  "empty_effects = \<lparr>re_blockNewCreateOrUpdate = False, re_blockActivation = False,
     re_retainBytesForObserveAndDelete = False\<rparr>"

definition empty_statement :: revocation_statement where
  "empty_statement = \<lparr>rs_apiVersion = [], rs_kind = [], rs_sequence = 0, rs_statementVersion = [],
     rs_packageDigest = [], rs_formRef = empty_form_ref, rs_reasonCode = [], rs_summary = [],
     rs_advisoryURL = [], rs_issuedAt = [], rs_effects = empty_effects\<rparr>"

definition empty_entry :: checkpoint_entry where
  "empty_entry = \<lparr>ce_statementAPIVersion = [], ce_sequence = 0, ce_statementVersion = [],
     ce_statementDigest = [], ce_packageDigest = [], ce_formRef = empty_form_ref\<rparr>"

definition empty_checkpoint :: revocation_checkpoint where
  "empty_checkpoint = \<lparr>rc_apiVersion = [], rc_kind = [], rc_checkpointVersion = [], rc_sequence = 0,
     rc_previousCheckpointDigest = None, rc_entries = None\<rparr>"

definition effects_fields :: "revocation_effects struct_fields" where
  "effects_fields =
     [(''blockNewCreateOrUpdate'', member dec_bool re_blockNewCreateOrUpdate re_blockNewCreateOrUpdate_update),
      (''blockActivation'', member dec_bool re_blockActivation re_blockActivation_update),
      (''retainBytesForObserveAndDelete'',
         member dec_bool re_retainBytesForObserveAndDelete re_retainBytesForObserveAndDelete_update)]"

definition statement_fields :: "revocation_statement struct_fields" where
  "statement_fields =
     [(''apiVersion'', member dec_str rs_apiVersion rs_apiVersion_update),
      (''kind'', member dec_str rs_kind rs_kind_update),
      (''sequence'', member dec_u64 rs_sequence rs_sequence_update),
      (''statementVersion'', member dec_str rs_statementVersion rs_statementVersion_update),
      (''packageDigest'', member dec_str rs_packageDigest rs_packageDigest_update),
      (''formRef'', member (dec_form_ref False) rs_formRef rs_formRef_update),
      (''reasonCode'', member dec_str rs_reasonCode rs_reasonCode_update),
      (''summary'', member dec_str rs_summary rs_summary_update),
      (''advisoryUrl'', member dec_str rs_advisoryURL rs_advisoryURL_update),
      (''issuedAt'', member dec_str rs_issuedAt rs_issuedAt_update),
      (''effects'', member (dec_struct False effects_fields) rs_effects rs_effects_update)]"

definition entry_fields :: "checkpoint_entry struct_fields" where
  "entry_fields =
     [(''statementApiVersion'', member dec_str ce_statementAPIVersion ce_statementAPIVersion_update),
      (''sequence'', member dec_u64 ce_sequence ce_sequence_update),
      (''statementVersion'', member dec_str ce_statementVersion ce_statementVersion_update),
      (''statementDigest'', member dec_str ce_statementDigest ce_statementDigest_update),
      (''packageDigest'', member dec_str ce_packageDigest ce_packageDigest_update),
      (''formRef'', member (dec_form_ref False) ce_formRef ce_formRef_update)]"

definition checkpoint_fields :: "revocation_checkpoint struct_fields" where
  "checkpoint_fields =
     [(''apiVersion'', member dec_str rc_apiVersion rc_apiVersion_update),
      (''kind'', member dec_str rc_kind rc_kind_update),
      (''checkpointVersion'', member dec_str rc_checkpointVersion rc_checkpointVersion_update),
      (''sequence'', member dec_u64 rc_sequence rc_sequence_update),
      (''previousCheckpointDigest'',
         member (dec_pointer dec_str []) rc_previousCheckpointDigest rc_previousCheckpointDigest_update),
      (''entries'',
         member (dec_nil_slice (dec_struct False entry_fields) empty_entry) rc_entries rc_entries_update)]"

definition enc_entry :: "checkpoint_entry \<Rightarrow> gval" where
  "enc_entry e =
     VObj (member_str ''statementApiVersion'' (ce_statementAPIVersion e) @
       [(''sequence'', enc_u64 (ce_sequence e)),
        (''statementVersion'', VStr (ce_statementVersion e)),
        (''statementDigest'', VStr (ce_statementDigest e)),
        (''packageDigest'', VStr (ce_packageDigest e)),
        (''formRef'', enc_form_ref (ce_formRef e))])"

definition enc_entries :: "checkpoint_entry list option \<Rightarrow> gval" where
  "enc_entries es = (case es of None \<Rightarrow> VNull | Some xs \<Rightarrow> VArr (map enc_entry xs))"

definition enc_checkpoint :: "revocation_checkpoint \<Rightarrow> gval" where
  "enc_checkpoint c =
     VObj [(''apiVersion'', VStr (rc_apiVersion c)), (''kind'', VStr (rc_kind c)),
       (''checkpointVersion'', VStr (rc_checkpointVersion c)), (''sequence'', enc_u64 (rc_sequence c)),
       (''previousCheckpointDigest'',
          (case rc_previousCheckpointDigest c of None \<Rightarrow> VNull | Some d \<Rightarrow> VStr d)),
       (''entries'', enc_entries (rc_entries c))]"

definition entries_of :: "revocation_checkpoint \<Rightarrow> checkpoint_entry list" where
  "entries_of c = (case rc_entries c of None \<Rightarrow> [] | Some es \<Rightarrow> es)"

section \<open>Statements\<close>

datatype revocation_error =
    RevSchemasNotLoaded | RevNotJSON | RevUnsupportedAPI bytes | RevDocument document_error
  | RevPackageDigest | RevFormRefProfile document_error | RevFormRefUnsupportedProfile
  | RevFormRefReserved | RevCanonical canonical_error | RevNotCanonicalBytes
  | CpEntryCount | CpFirstHasPrevious | CpNeedsPrevious | CpEntrySequence nat
  | CpEntryDigest nat | CpEntryFormRef nat revocation_error
  | CpDuplicateVersion bytes | CpDuplicateStatement bytes | CpFinalVersion
  | AdvFirstLegacy | AdvFirstCurrent | AdvUnsupportedProfile | AdvPinDigest | AdvLegacyZero
  | AdvLegacyProfile | AdvCurrentProfile | AdvNotGenesis | AdvPinProfile | AdvSequence
  | AdvPreviousDigest | AdvRewrites | SliceOutOfRange

definition ValidateRevocationFormRef :: "libs \<Rightarrow> bytes \<Rightarrow> form_ref \<Rightarrow> revocation_error + unit" where
  "ValidateRevocationFormRef L revocationAPIVersion ref =
     (if \<not> lib_schemas L then Inl RevSchemasNotLoaded
      else bind_res
        (if revocationAPIVersion = TrustAPIVersion then Inr legacyFormRef
         else if revocationAPIVersion = CurrentTrustAPIVersion then Inr stableFamilyFormRef
         else Inl RevFormRefUnsupportedProfile) (\<lambda>schema.
        case validateDocument L (json_encode (enc_form_ref ref)) schema (dec_form_ref False) empty_form_ref of
          Inl e \<Rightarrow> Inl (RevFormRefProfile e)
        | Inr validated \<Rightarrow>
            if revocationAPIVersion = CurrentTrustAPIVersion \<and> \<not> NamespacedFormGroup (fr_apiVersion validated)
            then Inl RevFormRefReserved else Inr ()))"

definition ValidateRevocationStatement :: "libs \<Rightarrow> bytes \<Rightarrow> revocation_error + revocation_statement" where
  "ValidateRevocationStatement L raw =
     (if \<not> lib_schemas L then Inl RevSchemasNotLoaded
      else (case envelope_api raw of
        None \<Rightarrow> Inl RevNotJSON
      | Some apiVersion \<Rightarrow>
          bind_res
            (if apiVersion = TrustAPIVersion then Inr revocation
             else if apiVersion = CurrentTrustAPIVersion then Inr revocationV1
             else Inl (RevUnsupportedAPI apiVersion)) (\<lambda>schema.
          case validateDocument L raw schema (dec_struct False statement_fields) empty_statement of
            Inl e \<Rightarrow> Inl (RevDocument e)
          | Inr statement \<Rightarrow>
              if \<not> ValidDigest (rs_packageDigest statement) then Inl RevPackageDigest
              else bind_res (ValidateRevocationFormRef L (rs_apiVersion statement) (rs_formRef statement))
                     (\<lambda>_. Inr statement))))"

definition RevocationCheckpointEntryForStatement :: "libs \<Rightarrow> bytes \<Rightarrow> revocation_error + checkpoint_entry" where
  "RevocationCheckpointEntryForStatement L raw =
     (case Canonicalize (lib_transform L) raw of
        Inl e \<Rightarrow> Inl (RevCanonical e)
      | Inr canonical \<Rightarrow>
          if raw \<noteq> canonical then Inl RevNotCanonicalBytes
          else bind_res (ValidateRevocationStatement L raw) (\<lambda>statement.
            Inr \<lparr>ce_statementAPIVersion =
                   (if rs_apiVersion statement = CurrentTrustAPIVersion then CurrentTrustAPIVersion else []),
                 ce_sequence = rs_sequence statement,
                 ce_statementVersion = rs_statementVersion statement,
                 ce_statementDigest = DigestBytes raw,
                 ce_packageDigest = rs_packageDigest statement,
                 ce_formRef = rs_formRef statement\<rparr>))"

section \<open>Checkpoints\<close>

text \<open>The loop over the entries: the position, the versions and statement digests seen.\<close>

fun checkpoint_entries ::
  "libs \<Rightarrow> bytes \<Rightarrow> nat \<Rightarrow> bytes list \<Rightarrow> bytes list \<Rightarrow> checkpoint_entry list \<Rightarrow> revocation_error + unit" where
  "checkpoint_entries L api i versions statements [] = Inr ()"
| "checkpoint_entries L api i versions statements (e # es) =
     (if ce_sequence e \<noteq> of_nat (i + 1) then Inl (CpEntrySequence i)
      else if \<not> ValidDigest (ce_statementDigest e) \<or> \<not> ValidDigest (ce_packageDigest e) then Inl (CpEntryDigest i)
      else (case ValidateRevocationFormRef L api (ce_formRef e) of
        Inl err \<Rightarrow> Inl (CpEntryFormRef i err)
      | Inr _ \<Rightarrow>
          if List.member versions (ce_statementVersion e) then Inl (CpDuplicateVersion (ce_statementVersion e))
          else if List.member statements (ce_statementDigest e) then Inl (CpDuplicateStatement (ce_statementDigest e))
          else checkpoint_entries L api (i + 1) (ce_statementVersion e # versions)
                 (ce_statementDigest e # statements) es))"

definition checkpoint_previous :: "revocation_checkpoint \<Rightarrow> revocation_error option" where
  "checkpoint_previous c =
     (let prev = rc_previousCheckpointDigest c;
          missing = (case prev of None \<Rightarrow> True | Some d \<Rightarrow> \<not> ValidDigest d) in
      if rc_apiVersion c = TrustAPIVersion \<and> rc_sequence c = 1 \<and> prev \<noteq> None then Some CpFirstHasPrevious
      else if rc_apiVersion c = TrustAPIVersion \<and> rc_sequence c > 1 \<and> missing then Some CpNeedsPrevious
      else if rc_apiVersion c = CurrentTrustAPIVersion \<and> rc_sequence c > 0 \<and> missing then Some CpNeedsPrevious
      else None)"

definition close_checkpoint :: "libs \<Rightarrow> revocation_checkpoint \<Rightarrow> revocation_error + revocation_checkpoint" where
  "close_checkpoint L c =
     (if of_nat (length (entries_of c)) \<noteq> rc_sequence c then Inl CpEntryCount
      else check_then (checkpoint_previous c)
        (bind_res (checkpoint_entries L (rc_apiVersion c) 0 [] [] (entries_of c)) (\<lambda>_.
          if rc_sequence c = 0 then Inr c
          else if entries_of c = [] then Inl SliceOutOfRange
          else if ce_statementVersion (last (entries_of c)) \<noteq> rc_checkpointVersion c
          then Inl CpFinalVersion else Inr c)))"

definition checkpoint_schema :: "bytes \<Rightarrow> schema_id option" where
  "checkpoint_schema api =
     (if api = TrustAPIVersion then Some revocationCheckpoint
      else if api = CurrentTrustAPIVersion then Some revocationCheckpointV1 else None)"

definition ValidateRevocationCheckpoint :: "libs \<Rightarrow> bytes \<Rightarrow> revocation_error + revocation_checkpoint" where
  "ValidateRevocationCheckpoint L raw =
     (if \<not> lib_schemas L then Inl RevSchemasNotLoaded
      else (case envelope_api raw of
        None \<Rightarrow> Inl RevNotJSON
      | Some apiVersion \<Rightarrow>
          (case checkpoint_schema apiVersion of
             None \<Rightarrow> Inl (RevUnsupportedAPI apiVersion)
           | Some schema \<Rightarrow>
               (case validateDocument L raw schema (dec_struct False checkpoint_fields) empty_checkpoint of
                  Inl e \<Rightarrow> Inl (RevDocument e)
                | Inr c \<Rightarrow> close_checkpoint L c))))"

section \<open>Pins\<close>

definition revocationEntriesDigest :: "libs \<Rightarrow> checkpoint_entry list option \<Rightarrow> revocation_error + bytes" where
  "revocationEntriesDigest L entries =
     (case DigestCanonicalJSON (lib_transform L) (json_encode (enc_entries entries)) of
        Inl e \<Rightarrow> Inl (RevCanonical e)
      | Inr d \<Rightarrow> Inr d)"

definition revocation_genesis :: revocation_checkpoint where
  "revocation_genesis =
     \<lparr>rc_apiVersion = CurrentTrustAPIVersion, rc_kind = RevocationCheckpointKind,
      rc_checkpointVersion = ''0.0.0'', rc_sequence = 0, rc_previousCheckpointDigest = None,
      rc_entries = Some []\<rparr>"

definition currentRevocationGenesisPin :: "libs \<Rightarrow> revocation_error + checkpoint_pin" where
  "currentRevocationGenesisPin L =
     (case DigestCanonicalJSON (lib_transform L) (json_encode (enc_checkpoint revocation_genesis)) of
        Inl e \<Rightarrow> Inl (RevCanonical e)
      | Inr digest \<Rightarrow>
          bind_res (revocationEntriesDigest L (rc_entries revocation_genesis)) (\<lambda>entriesDigest.
            Inr \<lparr>cp_checkpointAPIVersion = CurrentTrustAPIVersion, cp_sequence = 0,
                 cp_digest = digest, cp_entriesDigest = entriesDigest\<rparr>))"

text \<open>The first pin: a legacy checkpoint at sequence 1, a current one at the genesis.\<close>

definition first_pin ::
  "revocation_checkpoint \<Rightarrow> bytes \<Rightarrow> bytes \<Rightarrow> revocation_error + checkpoint_pin" where
  "first_pin c digest entriesDigest =
     (if rc_apiVersion c = TrustAPIVersion then
        (if rc_sequence c \<noteq> 1 \<or> rc_previousCheckpointDigest c \<noteq> None then Inl AdvFirstLegacy
         else Inr \<lparr>cp_checkpointAPIVersion = [], cp_sequence = 1, cp_digest = digest,
                   cp_entriesDigest = entriesDigest\<rparr>)
      else if rc_apiVersion c = CurrentTrustAPIVersion then
        (if rc_sequence c \<noteq> 0 \<or> rc_previousCheckpointDigest c \<noteq> None then Inl AdvFirstCurrent
         else Inr \<lparr>cp_checkpointAPIVersion = CurrentTrustAPIVersion, cp_sequence = 0, cp_digest = digest,
                   cp_entriesDigest = entriesDigest\<rparr>)
      else Inl AdvUnsupportedProfile)"

text \<open>Whether a pin may be extended by a checkpoint of this profile.\<close>

definition pin_profile :: "libs \<Rightarrow> checkpoint_pin \<Rightarrow> revocation_checkpoint \<Rightarrow> revocation_error + unit" where
  "pin_profile L p c =
     (if cp_checkpointAPIVersion p = [] then
        (if cp_sequence p = 0 then Inl AdvLegacyZero
         else if rc_apiVersion c \<noteq> TrustAPIVersion then Inl AdvLegacyProfile else Inr ())
      else if cp_checkpointAPIVersion p = CurrentTrustAPIVersion then
        (if rc_apiVersion c \<noteq> CurrentTrustAPIVersion then Inl AdvCurrentProfile
         else if cp_sequence p = 0 then
           bind_res (currentRevocationGenesisPin L) (\<lambda>g.
             if cp_digest p \<noteq> cp_digest g \<or> cp_entriesDigest p \<noteq> cp_entriesDigest g then Inl AdvNotGenesis
             else Inr ())
         else Inr ())
      else Inl AdvPinProfile)"

text \<open>
  \<^verbatim>\<open>Entries[:int(previous.Sequence)]\<close>: the conversion reads the word as a signed integer,
  and an index out of range panics.
\<close>

definition entries_prefix ::
  "checkpoint_entry list option \<Rightarrow> u64 \<Rightarrow> revocation_error + checkpoint_entry list option" where
  "entries_prefix es n =
     (let k = sint n; len = int (case es of None \<Rightarrow> 0 | Some xs \<Rightarrow> length xs) in
      if k < 0 \<or> k > len then Inl SliceOutOfRange else Inr (map_option (take (nat k)) es))"

text \<open>The pin after one more checkpoint: continuity with the last pin.\<close>

definition next_pin ::
  "libs \<Rightarrow> checkpoint_pin \<Rightarrow> revocation_checkpoint \<Rightarrow> bytes \<Rightarrow> bytes \<Rightarrow> revocation_error + checkpoint_pin" where
  "next_pin L p c digest entriesDigest =
     (if \<not> ValidDigest (cp_digest p) \<or> \<not> ValidDigest (cp_entriesDigest p) then Inl AdvPinDigest
      else bind_res (pin_profile L p c) (\<lambda>_.
        if rc_sequence c \<noteq> cp_sequence p + 1 then Inl AdvSequence
        else if rc_previousCheckpointDigest c \<noteq> Some (cp_digest p) then Inl AdvPreviousDigest
        else bind_res (entries_prefix (rc_entries c) (cp_sequence p)) (\<lambda>pre.
          bind_res (revocationEntriesDigest L pre) (\<lambda>prefixDigest.
            if prefixDigest \<noteq> cp_entriesDigest p then Inl AdvRewrites
            else Inr \<lparr>cp_checkpointAPIVersion = cp_checkpointAPIVersion p,
                      cp_sequence = rc_sequence c, cp_digest = digest,
                      cp_entriesDigest = entriesDigest\<rparr>))))"

definition AdvanceRevocationCheckpoint ::
  "libs \<Rightarrow> checkpoint_pin option \<Rightarrow> bytes \<Rightarrow> revocation_error + checkpoint_pin" where
  "AdvanceRevocationCheckpoint L previous raw =
     bind_res (ValidateRevocationCheckpoint L raw) (\<lambda>c.
       case DigestCanonicalJSON (lib_transform L) raw of
         Inl e \<Rightarrow> Inl (RevCanonical e)
       | Inr digest \<Rightarrow>
           bind_res (revocationEntriesDigest L (rc_entries c)) (\<lambda>entriesDigest.
             case previous of
               None \<Rightarrow> first_pin c digest entriesDigest
             | Some p \<Rightarrow> next_pin L p c digest entriesDigest))"

end
