(* ===== verification/RevocationChain.thy ===== *)
theory RevocationChain
  imports Revocation "HOL-Library.Sublist"
begin

text \<open>
  What revocation checkpoints guarantee: validation as a declarative specification, the
  pinned state of a host as a chain of accepted checkpoints, and the revocation check of
  \<^verbatim>\<open>trust/revocation.go\<close>. Digests are only compared, so a chain is append-only where the
  digests of the entry lists that occur in it do not collide and the canonicalizer keeps
  different documents apart.
\<close>

section \<open>Validation\<close>

definition entry_ok :: "libs \<Rightarrow> bytes \<Rightarrow> checkpoint_entry \<Rightarrow> bool" where
  "entry_ok L api e \<longleftrightarrow> ValidDigest (ce_statementDigest e) \<and> ValidDigest (ce_packageDigest e) \<and>
     ValidateRevocationFormRef L api (ce_formRef e) = Inr ()"

lemma checkpoint_entries_ok:
  "checkpoint_entries L api i vs ss es = Inr () \<longleftrightarrow>
     map ce_sequence es = map (\<lambda>j. of_nat (j + 1)) [i..<i + length es] \<and>
     list_all (entry_ok L api) es \<and>
     distinct (map ce_statementVersion es) \<and> set (map ce_statementVersion es) \<inter> set vs = {} \<and>
     distinct (map ce_statementDigest es) \<and> set (map ce_statementDigest es) \<inter> set ss = {}"
proof (induction es arbitrary: i vs ss)
  case (Cons e es)
  have u: "[i..<i + length (e # es)] = i # [Suc i..<Suc i + length es]"
    using upt_conv_Cons [of i "i + length (e # es)"] by simp
  show ?case
    unfolding u
    by (auto simp: Cons.IH entry_ok_def split: sum.splits)
qed simp

text \<open>A checkpoint's closure, without the order in which the code looks.\<close>

definition checkpoint_closed :: "libs \<Rightarrow> revocation_checkpoint \<Rightarrow> bool" where
  "checkpoint_closed L c \<longleftrightarrow>
     (let es = entries_of c in
      rc_sequence c = of_nat (length es) \<and>
      map ce_sequence es = map (\<lambda>j. of_nat (j + 1)) [0..<length es] \<and>
      list_all (entry_ok L (rc_apiVersion c)) es \<and>
      distinct (map ce_statementVersion es) \<and> distinct (map ce_statementDigest es) \<and>
      (rc_sequence c = 0 \<or> ce_statementVersion (last es) = rc_checkpointVersion c) \<and>
      checkpoint_previous c = None)"

lemma close_checkpoint_Inr: "close_checkpoint L c = Inr d \<longleftrightarrow> d = c \<and> checkpoint_closed L c"
proof -
  have e: "rc_sequence c = 0" if "of_nat (length (entries_of c)) = rc_sequence c" "entries_of c = []"
    using that by simp
  show ?thesis
    unfolding close_checkpoint_def checkpoint_closed_def Let_def
    by (auto simp: err_simps checkpoint_entries_ok dest: e)
qed

lemma ValidateRevocationCheckpoint_Inr:
  "ValidateRevocationCheckpoint L raw = Inr c \<longleftrightarrow>
     lib_schemas L \<and>
     (\<exists>api schema. envelope_api raw = Some api \<and> checkpoint_schema api = Some schema \<and>
        validateDocument L raw schema (dec_struct False checkpoint_fields) empty_checkpoint = Inr c) \<and>
     checkpoint_closed L c"
  unfolding ValidateRevocationCheckpoint_def guarded_Inr close_checkpoint_Inr by auto

text \<open>
  C31. A revocation checkpoint is accepted exactly if it is a document of its profile whose
  entries are closed: as many entries as the sequence says, numbered 1, 2, ... without a gap,
  no statement version or digest twice, every digest canonical, every FormRef of the
  checkpoint's profile, the last entry's version the checkpoint's own, and a predecessor
  digest precisely where the profile wants one.
\<close>

theorem checkpoint_validation_exact:
  "(ValidateRevocationCheckpoint L raw = Inr c) =
     (lib_schemas L \<and>
      (\<exists>api schema. envelope_api raw = Some api \<and> checkpoint_schema api = Some schema \<and>
         validateDocument L raw schema (dec_struct False checkpoint_fields) empty_checkpoint = Inr c) \<and>
      checkpoint_closed L c)"
  by (rule ValidateRevocationCheckpoint_Inr)

section \<open>One advance\<close>

lemma DigestCanonicalJSON_Inr:
  "DigestCanonicalJSON t input = Inr d \<longleftrightarrow>
     (\<exists>c v. valid_utf8 input \<and> parseDocument input = Inr v \<and> t input = Some c \<and> d = DigestBytes c)"
  by (auto simp: DigestCanonicalJSON_def err_simps Canonicalize_Inr)

lemma ValidDigest_canonical: "DigestCanonicalJSON t input = Inr d \<Longrightarrow> ValidDigest d"
  by (auto simp: DigestCanonicalJSON_Inr)

lemma revocationEntriesDigest_Inr:
  "revocationEntriesDigest L es = Inr d \<longleftrightarrow>
     DigestCanonicalJSON (lib_transform L) (json_encode (enc_entries es)) = Inr d"
  by (auto simp: revocationEntriesDigest_def split: sum.splits)

definition profile_of :: "revocation_checkpoint \<Rightarrow> bytes" where
  "profile_of c = (if rc_apiVersion c = TrustAPIVersion then [] else CurrentTrustAPIVersion)"

text \<open>A pin that identifies a validated checkpoint.\<close>

definition pin_of :: "libs \<Rightarrow> revocation_checkpoint \<Rightarrow> bytes \<Rightarrow> checkpoint_pin \<Rightarrow> bool" where
  "pin_of L c raw p \<longleftrightarrow>
     ValidateRevocationCheckpoint L raw = Inr c \<and>
     (rc_apiVersion c = TrustAPIVersion \<or> rc_apiVersion c = CurrentTrustAPIVersion) \<and>
     cp_checkpointAPIVersion p = profile_of c \<and> cp_sequence p = rc_sequence c \<and>
     DigestCanonicalJSON (lib_transform L) raw = Inr (cp_digest p) \<and>
     revocationEntriesDigest L (rc_entries c) = Inr (cp_entriesDigest p)"

lemma trust_versions [simp]:
  "TrustAPIVersion \<noteq> CurrentTrustAPIVersion" "CurrentTrustAPIVersion \<noteq> TrustAPIVersion"
  "CurrentTrustAPIVersion \<noteq> []" "TrustAPIVersion \<noteq> []" "[] \<noteq> CurrentTrustAPIVersion"
  by (simp_all add: epoch_defs)

lemma Advance_Inr:
  "AdvanceRevocationCheckpoint L previous raw = Inr q \<longleftrightarrow>
     (\<exists>c digest ed. ValidateRevocationCheckpoint L raw = Inr c \<and>
        DigestCanonicalJSON (lib_transform L) raw = Inr digest \<and>
        revocationEntriesDigest L (rc_entries c) = Inr ed \<and>
        (case previous of None \<Rightarrow> first_pin c digest ed | Some p \<Rightarrow> next_pin L p c digest ed) = Inr q)"
  unfolding AdvanceRevocationCheckpoint_def guarded_Inr by auto

lemma first_pin_Inr:
  "first_pin c digest ed = Inr p \<longleftrightarrow>
     (rc_apiVersion c = TrustAPIVersion \<and> rc_sequence c = 1 \<or>
      rc_apiVersion c = CurrentTrustAPIVersion \<and> rc_sequence c = 0) \<and>
     rc_previousCheckpointDigest c = None \<and>
     p = \<lparr>cp_checkpointAPIVersion = profile_of c, cp_sequence = rc_sequence c, cp_digest = digest,
          cp_entriesDigest = ed\<rparr>"
  by (auto simp: first_pin_def profile_of_def split: if_splits)

lemma Advance_first:
  "AdvanceRevocationCheckpoint L None raw = Inr p \<longleftrightarrow>
     (\<exists>c. pin_of L c raw p \<and> rc_previousCheckpointDigest c = None \<and>
        rc_sequence c = (if rc_apiVersion c = TrustAPIVersion then 1 else 0))"
proof -
  have "first_pin c digest ed = Inr p \<longleftrightarrow>
      (rc_apiVersion c = TrustAPIVersion \<or> rc_apiVersion c = CurrentTrustAPIVersion) \<and>
      cp_checkpointAPIVersion p = profile_of c \<and> cp_sequence p = rc_sequence c \<and>
      digest = cp_digest p \<and> ed = cp_entriesDigest p \<and> rc_previousCheckpointDigest c = None \<and>
      rc_sequence c = (if rc_apiVersion c = TrustAPIVersion then 1 else 0)" for c digest ed
    unfolding first_pin_Inr by (cases p) auto
  then show ?thesis
    unfolding Advance_Inr pin_of_def option.case by (auto simp del: if_split)
qed

lemma pin_profile_Inr:
  assumes "pin_profile L p c = Inr u"
  shows "cp_checkpointAPIVersion p = profile_of c"
    and "rc_apiVersion c = TrustAPIVersion \<or> rc_apiVersion c = CurrentTrustAPIVersion"
  using assms by (auto simp: pin_profile_def profile_of_def split: if_splits)

lemma next_pin_Inr:
  assumes "next_pin L p c digest ed = Inr q"
  shows "\<exists>pre. cp_checkpointAPIVersion p = profile_of c \<and>
      (rc_apiVersion c = TrustAPIVersion \<or> rc_apiVersion c = CurrentTrustAPIVersion) \<and>
      rc_sequence c = cp_sequence p + 1 \<and> rc_previousCheckpointDigest c = Some (cp_digest p) \<and>
      entries_prefix (rc_entries c) (cp_sequence p) = Inr pre \<and>
      revocationEntriesDigest L pre = Inr (cp_entriesDigest p) \<and>
      q = \<lparr>cp_checkpointAPIVersion = cp_checkpointAPIVersion p, cp_sequence = rc_sequence c,
           cp_digest = digest, cp_entriesDigest = ed\<rparr>"
proof -
  from assms obtain u where u: "pin_profile L p c = Inr u"
    by (auto simp: next_pin_def err_simps split: if_splits)
  show ?thesis
    using assms pin_profile_Inr [OF u] by (auto simp: next_pin_def err_simps u split: if_splits)
qed

lemma Advance_next:
  assumes "AdvanceRevocationCheckpoint L (Some p) raw = Inr q"
  shows "\<exists>c pre. pin_of L c raw q \<and> cp_checkpointAPIVersion q = cp_checkpointAPIVersion p \<and>
      cp_sequence q = cp_sequence p + 1 \<and> rc_previousCheckpointDigest c = Some (cp_digest p) \<and>
      entries_prefix (rc_entries c) (cp_sequence p) = Inr pre \<and>
      revocationEntriesDigest L pre = Inr (cp_entriesDigest p)"
proof -
  from assms obtain c digest ed where c: "ValidateRevocationCheckpoint L raw = Inr c"
      "DigestCanonicalJSON (lib_transform L) raw = Inr digest"
      "revocationEntriesDigest L (rc_entries c) = Inr ed" "next_pin L p c digest ed = Inr q"
    by (auto simp: Advance_Inr)
  from next_pin_Inr [OF c(4)] c(1-3) show ?thesis
    unfolding pin_of_def by auto
qed

section \<open>Digests identify entry lists\<close>

text \<open>
  What the canonicalizer of the other package promises (RFC 8785): two documents whose
  numbers are plain integers of at most 53 bits have the same canonical form only if they
  are the same up to the order of members.
\<close>

definition plain_number :: "bytes \<Rightarrow> bool" where
  "plain_number n \<longleftrightarrow> digits_value n < 2 ^ 53 \<and> n = decimal (digits_value n)"

fun plain_value :: "gval \<Rightarrow> bool"
  and plain_values :: "gval list \<Rightarrow> bool"
  and plain_fields :: "object \<Rightarrow> bool" where
  "plain_value (VNumber n) = plain_number n"
| "plain_value (VArr xs) = plain_values xs"
| "plain_value (VObj m) = plain_fields m"
| "plain_value v = True"
| "plain_values [] = True"
| "plain_values (x # xs) = (plain_value x \<and> plain_values xs)"
| "plain_fields [] = True"
| "plain_fields ((k, v) # m) = (plain_value v \<and> plain_fields m)"

definition faithful_canonicalizer :: "(bytes \<Rightarrow> bytes option) \<Rightarrow> bool" where
  "faithful_canonicalizer transform \<longleftrightarrow>
     (\<forall>a b c v w. transform a = Some c \<and> transform b = Some c \<and> parseDocument a = Inr v \<and>
        parseDocument b = Inr w \<and> plain_value v \<and> plain_value w \<longrightarrow> value_eq v w)"

text \<open>Entries as decoding leaves them: every string valid UTF-8.\<close>

definition ref_strings :: "form_ref \<Rightarrow> bool" where
  "ref_strings r \<longleftrightarrow> list_all valid_utf8
     [fr_apiVersion r, fr_kind r, fr_definitionVersion r, fr_schemaDigest r]"

definition entry_strings :: "checkpoint_entry \<Rightarrow> bool" where
  "entry_strings e \<longleftrightarrow> list_all valid_utf8
     [ce_statementAPIVersion e, ce_statementVersion e, ce_statementDigest e, ce_packageDigest e] \<and>
     ref_strings (ce_formRef e)"

definition small_entry :: "checkpoint_entry \<Rightarrow> bool" where
  "small_entry e \<longleftrightarrow> unat (ce_sequence e) < 2 ^ 53"

lemma plain_decimal [simp]: "plain_number (decimal n) \<longleftrightarrow> n < 2 ^ 53"
  by (simp add: plain_number_def)

lemma jnumber_decimal:
  assumes "n < 2 ^ 64"
  shows "jnumber (decimal n)"
proof -
  have j: "jint (decimal n)"
    using decimal_digits [of n] decimal_first [of n]
    by (cases n) (auto simp: jint_def decimal.simps [of 0] digit_char_def)
  have "(2::nat) ^ 64 \<le> (2 ^ 54 - 1) * 2 ^ 970"
    by (rule order_trans [of _ "2 ^ 970"]) (simp_all del: power_numeral_even)
  then have "\<not> overflows n 0" using assms by (simp add: overflows_def)
  then have "check_float False (decimal n) [] [] = None"
    by (simp add: check_float_def literal_mantissa_def literal_exponent_def signed_value_def)
  with j show ?thesis
    unfolding jnumber_def
    by (intro exI [of _ False] exI [of _ "decimal n"] exI [of _ "[]"]) (simp add: jfrac_def jexp_def)
qed

lemma valid_utf8_names [simp]:
  "valid_utf8 ''statementApiVersion''" "valid_utf8 ''sequence''" "valid_utf8 ''statementVersion''"
  "valid_utf8 ''statementDigest''" "valid_utf8 ''packageDigest''" "valid_utf8 ''formRef''"
  "valid_utf8 ''apiVersion''" "valid_utf8 ''kind''" "valid_utf8 ''definitionVersion''"
  "valid_utf8 ''schemaDigest''"
  by (simp_all add: valid_utf8_ascii ascii_string_def code_def)

lemma wire_form_ref: "ref_strings r \<Longrightarrow> wire_value (enc_form_ref r)"
  by (simp add: enc_form_ref_def ref_strings_def)

lemma wire_u64 [simp]: "wire_value (enc_u64 w)"
proof -
  have "unat w < 2 ^ 64" using unsigned_less [of w] by simp
  then show ?thesis by (simp add: enc_u64_def jnumber_decimal)
qed

lemma wire_entry: "entry_strings e \<Longrightarrow> wire_value (enc_entry e)"
  by (auto simp: enc_entry_def entry_strings_def member_str_def wire_form_ref)

lemma depth_entry: "value_depth (enc_entry e) \<le> 2"
  by (simp add: enc_entry_def member_str_def enc_u64_def enc_form_ref_def)

lemma depth_entries: "value_depth (enc_entries es) \<le> 256"
proof -
  have "values_depth (map enc_entry xs) \<le> 2" for xs
    using depth_entry by (induction xs) auto
  then show ?thesis
    by (auto simp: enc_entries_def intro: order_trans [of _ 2] split: option.splits)
qed

definition entries_strings :: "checkpoint_entry list option \<Rightarrow> bool" where
  "entries_strings es \<longleftrightarrow> (case es of None \<Rightarrow> True | Some xs \<Rightarrow> list_all entry_strings xs)"

definition small_entries :: "checkpoint_entry list option \<Rightarrow> bool" where
  "small_entries es \<longleftrightarrow> (case es of None \<Rightarrow> True | Some xs \<Rightarrow> list_all small_entry xs)"

lemma wire_entries: "entries_strings es \<Longrightarrow> wire_value (enc_entries es)"
  using wire_entry
  by (auto simp: enc_entries_def entries_strings_def wire_values_iff list_all_iff split: option.splits)

lemma plain_entry: "small_entry e \<Longrightarrow> plain_value (enc_entry e)"
  by (simp add: enc_entry_def member_str_def enc_u64_def enc_form_ref_def small_entry_def)

lemma plain_entries: "small_entries es \<Longrightarrow> plain_value (enc_entries es)"
proof -
  have "list_all small_entry xs \<Longrightarrow> plain_values (map enc_entry xs)" for xs
    by (induction xs) (auto intro: plain_entry)
  then show "small_entries es \<Longrightarrow> plain_value (enc_entries es)"
    by (auto simp: enc_entries_def small_entries_def split: option.splits)
qed

lemma value_eq_member:
  assumes "value_eq (VObj m) (VObj m')" and "distinct (keys m)"
  shows "field m k = VStr s \<longleftrightarrow> field m' k = VStr s" and "as_number (field m' k) = as_number (field m k)"
    and "value_eq (field m k) (field m' k)"
  using value_eq_scalar [OF value_eq_field [OF assms]] value_eq_field [OF assms] by auto

lemma enc_form_ref_inject: "value_eq (enc_form_ref a) (enc_form_ref b) \<Longrightarrow> a = b"
proof -
  assume e: "value_eq (enc_form_ref a) (enc_form_ref b)"
  note m = value_eq_member(1) [OF e [unfolded enc_form_ref_def]]
  have "fr_apiVersion b = fr_apiVersion a" using m [of "''apiVersion''" "fr_apiVersion a"] by (simp add: go_simps)
  moreover have "fr_kind b = fr_kind a" using m [of "''kind''" "fr_kind a"] by (simp add: go_simps)
  moreover have "fr_definitionVersion b = fr_definitionVersion a"
    using m [of "''definitionVersion''" "fr_definitionVersion a"] by (simp add: go_simps)
  moreover have "fr_schemaDigest b = fr_schemaDigest a"
    using m [of "''schemaDigest''" "fr_schemaDigest a"] by (simp add: go_simps)
  ultimately show "a = b" by simp
qed

lemma decimal_inject: "decimal a = decimal b \<longleftrightarrow> a = b"
  by (metis digits_value_decimal)

lemma enc_entry_inject: "value_eq (enc_entry a) (enc_entry b) \<Longrightarrow> a = b"
proof -
  assume e: "value_eq (enc_entry a) (enc_entry b)"
  note d = e [unfolded enc_entry_def]
  note m = value_eq_member [OF d]
  have dis: "distinct (keys (member_str ''statementApiVersion'' (ce_statementAPIVersion a) @
       [(''sequence'', enc_u64 (ce_sequence a)),
        (''statementVersion'', VStr (ce_statementVersion a)),
        (''statementDigest'', VStr (ce_statementDigest a)),
        (''packageDigest'', VStr (ce_packageDigest a)),
        (''formRef'', enc_form_ref (ce_formRef a))]))"
    by (simp add: member_str_def)
  have "ce_statementAPIVersion b = ce_statementAPIVersion a"
    using m(1) [OF dis, of "''statementApiVersion''" "ce_statementAPIVersion a"]
      m(1) [OF dis, of "''statementApiVersion''" "ce_statementAPIVersion b"]
    by (auto simp: field_append go_simps split: if_splits)
  moreover have "ce_sequence b = ce_sequence a"
    using m(2) [OF dis, of "''sequence''"]
    by (simp add: field_append go_simps enc_u64_def decimal_inject word_unat_eq_iff)
  moreover have "ce_statementVersion b = ce_statementVersion a"
    using m(1) [OF dis, of "''statementVersion''" "ce_statementVersion a"] by (simp add: field_append go_simps)
  moreover have "ce_statementDigest b = ce_statementDigest a"
    using m(1) [OF dis, of "''statementDigest''" "ce_statementDigest a"] by (simp add: field_append go_simps)
  moreover have "ce_packageDigest b = ce_packageDigest a"
    using m(1) [OF dis, of "''packageDigest''" "ce_packageDigest a"] by (simp add: field_append go_simps)
  moreover have "ce_formRef a = ce_formRef b"
    using m(3) [OF dis, of "''formRef''"] by (intro enc_form_ref_inject) (simp add: field_append go_simps)
  ultimately show "a = b" by simp
qed

lemma enc_entries_inject: "value_eq (enc_entries a) (enc_entries b) \<Longrightarrow> a = b"
proof -
  assume e: "value_eq (enc_entries a) (enc_entries b)"
  have l: "list_all2 value_eq (map enc_entry xs) (map enc_entry ys) \<Longrightarrow> xs = ys" for xs ys
    by (induction xs arbitrary: ys) (auto simp: list_all2_Cons1 Cons_eq_map_conv dest: enc_entry_inject)
  show "a = b"
  proof (cases a)
    case None
    with e value_eq_scalar(6) [OF e] show ?thesis by (auto simp: enc_entries_def split: option.splits)
  next
    case (Some xs)
    with value_eq_scalar(6) [OF e] e show ?thesis
      by (auto simp: enc_entries_def value_eq_arr_iff dest: l split: option.splits)
  qed
qed

text \<open>The canonical text whose digest a pin keeps.\<close>

definition entries_text :: "libs \<Rightarrow> checkpoint_entry list option \<Rightarrow> bytes option" where
  "entries_text L es = lib_transform L (json_encode (enc_entries es))"

lemma entries_digest_inject:
  assumes "faithful_canonicalizer (lib_transform L)"
    and "entries_strings a" "small_entries a" "entries_strings b" "small_entries b"
    and "revocationEntriesDigest L a = Inr d" "revocationEntriesDigest L b = Inr d"
    and coll: "\<And>s t. entries_text L a = Some s \<Longrightarrow> entries_text L b = Some t \<Longrightarrow>
      DigestBytes s = DigestBytes t \<Longrightarrow> s = t"
  shows "a = b"
proof -
  obtain s where s: "entries_text L a = Some s" "d = DigestBytes s"
    using assms(6) by (auto simp: revocationEntriesDigest_Inr DigestCanonicalJSON_Inr entries_text_def)
  obtain t where t: "entries_text L b = Some t" "d = DigestBytes t"
    using assms(7) by (auto simp: revocationEntriesDigest_Inr DigestCanonicalJSON_Inr entries_text_def)
  have "s = t" using coll s t by simp
  moreover have "parseDocument (json_encode (enc_entries es)) = Inr (enc_entries es)" if "entries_strings es" for es
    using wire_entries [OF that] depth_entries by (rule json_round_trip)
  ultimately have "value_eq (enc_entries a) (enc_entries b)"
    using assms(1-5) s t plain_entries unfolding faithful_canonicalizer_def entries_text_def by blast
  then show ?thesis by (rule enc_entries_inject)
qed

section \<open>Decoded entries\<close>

lemma find_field_mem: "find_field fs k = Some d \<Longrightarrow> \<exists>n. (n, d) \<in> set fs"
  by (auto simp: find_field_def find_Some_iff in_set_conv_nth split: option.splits dest!: map_of_SomeD)
    (metis nth_mem prod.collapse)

lemma dec_struct_inv:
  assumes step: "\<And>n d v r r'. (n, d) \<in> set fs \<Longrightarrow> wire_value v \<Longrightarrow> P r \<Longrightarrow> d v r = Some r' \<Longrightarrow> P r'"
    and "wire_value v" and "P r" and "dec_struct strict fs v r = Some r'"
  shows "P r'"
proof -
  have "P r'" if "wire_fields m" "P r" "dec_members strict fs m r = Some r'" for m r
    using that
  proof (induction m arbitrary: r)
    case (Cons e m)
    obtain k w where e: "e = (k, w)" by (cases e)
    show ?case
    proof (cases "find_field fs k")
      case None
      with Cons e show ?thesis by (auto split: if_splits)
    next
      case (Some d)
      then obtain n where n: "(n, d) \<in> set fs" using find_field_mem by metis
      from Cons.prems Some e obtain q where q: "d w r = Some q" "dec_members strict fs m q = Some r'"
        by (auto split: option.splits)
      have "P q" using step [OF n _ Cons.prems(2) q(1)] Cons.prems(1) e by simp
      with Cons q e show ?thesis by simp
    qed
  qed simp
  with assms(2-4) show ?thesis by (auto simp: dec_struct_def split: gval.splits)
qed

lemma dec_elems_inv:
  assumes "\<And>x y z. wire_value x \<Longrightarrow> P y \<Longrightarrow> d x y = Some z \<Longrightarrow> P z" and "P zero"
  shows "list_all P olds \<Longrightarrow> wire_values xs \<Longrightarrow> dec_elems d zero xs olds = Some ys \<Longrightarrow> list_all P ys"
proof (induction xs arbitrary: olds ys)
  case (Cons x xs)
  have "P (case olds of [] \<Rightarrow> zero | y # _ \<Rightarrow> y)" "list_all P (tl olds)"
    using Cons.prems(1) assms(2) by (cases olds; simp)+
  with Cons assms(1) show ?case by (auto split: option.splits)
qed simp

lemma dec_str_valid: "wire_value v \<Longrightarrow> valid_utf8 old \<Longrightarrow> dec_str v old = Some s \<Longrightarrow> valid_utf8 s"
  by (auto simp: dec_str_def split: gval.splits)

lemma member_Some: "member d get upd v r = Some r' \<longleftrightarrow> (\<exists>x. d v (get r) = Some x \<and> r' = upd (\<lambda>_. x) r)"
  by (auto simp: member_def)

lemma dec_form_ref_valid:
  assumes "wire_value v" and "ref_strings old" and "dec_form_ref strict v old = Some r"
  shows "ref_strings r"
proof (rule dec_struct_inv [where P = ref_strings, OF _ assms(1,2) assms(3) [unfolded dec_form_ref_def]])
  fix n d v r r'
  assume "(n, d) \<in> set form_ref_fields" "wire_value v" "ref_strings r" "d v r = Some r'"
  then show "ref_strings r'"
    by (auto simp: form_ref_fields_def member_Some ref_strings_def) (metis dec_str_valid)+
qed

lemma dec_entry_valid:
  assumes "wire_value v" and "entry_strings old" and "dec_struct strict entry_fields v old = Some e"
  shows "entry_strings e"
proof (rule dec_struct_inv [where P = entry_strings, OF _ assms])
  fix n d v r r'
  assume "(n, d) \<in> set entry_fields" "wire_value v" "entry_strings r" "d v r = Some r'"
  then show "entry_strings r'"
    by (auto simp: entry_fields_def member_Some entry_strings_def) (metis dec_str_valid dec_form_ref_valid)+
qed

lemma empty_entry_strings [simp]: "entry_strings empty_entry"
  by (simp add: empty_entry_def entry_strings_def ref_strings_def empty_form_ref_def)

lemma dec_entries_valid:
  assumes "wire_value v" and "entries_strings olds"
    and "dec_nil_slice (dec_struct False entry_fields) empty_entry v olds = Some es"
  shows "entries_strings es"
proof -
  have "list_all entry_strings ys"
    if "list_all entry_strings zs" "wire_values xs" "dec_elems (dec_struct False entry_fields) empty_entry xs zs = Some ys"
    for xs ys zs
    using dec_elems_inv [where P = entry_strings, OF _ empty_entry_strings that] dec_entry_valid by blast
  then show ?thesis
    using assms
    by (auto simp: dec_nil_slice_def entries_strings_def split: gval.splits option.splits) force
qed

lemma dec_checkpoint_valid:
  assumes "wire_value v" and "entries_strings (rc_entries old)"
    and "dec_struct strict checkpoint_fields v old = Some c"
  shows "entries_strings (rc_entries c)"
proof (rule dec_struct_inv [where P = "\<lambda>c. entries_strings (rc_entries c)", OF _ assms])
  fix n d v r r'
  assume "(n, d) \<in> set checkpoint_fields" "wire_value v" "entries_strings (rc_entries r)" "d v r = Some r'"
  then show "entries_strings (rc_entries r')"
    by (auto simp: checkpoint_fields_def member_Some) (metis dec_entries_valid)
qed

lemma validated_strings:
  assumes "ValidateRevocationCheckpoint L raw = Inr c"
  shows "entries_strings (rc_entries c)"
proof -
  from assms obtain schema where
    "validateDocument L raw schema (dec_struct False checkpoint_fields) empty_checkpoint = Inr c"
    by (auto simp: ValidateRevocationCheckpoint_Inr)
  then obtain v where "parseDocument raw = Inr v" "dec_struct False checkpoint_fields v empty_checkpoint = Some c"
    by (auto simp: validateDocument_Inr)
  then show ?thesis
    using dec_checkpoint_valid [OF parsed_wire, of raw v empty_checkpoint False c]
    by (simp add: empty_checkpoint_def entries_strings_def)
qed

lemma unat_of_nat_le: "unat (of_nat k :: u64) \<le> k"
  by (simp add: unsigned_of_nat take_bit_eq_mod)

lemma validated_small:
  assumes "ValidateRevocationCheckpoint L raw = Inr c" and "length (entries_of c) < 2 ^ 53"
  shows "small_entries (rc_entries c)"
proof -
  have m: "map ce_sequence (entries_of c) = map (\<lambda>j. of_nat (j + 1)) [0..<length (entries_of c)]"
    using assms(1) by (simp add: ValidateRevocationCheckpoint_Inr checkpoint_closed_def Let_def)
  have "small_entry e" if e: "e \<in> set (entries_of c)" for e
  proof -
    obtain j where j: "j < length (entries_of c)" "entries_of c ! j = e"
      using e by (auto simp: in_set_conv_nth)
    have "ce_sequence e = of_nat (j + 1)" using arg_cong [OF m, of "\<lambda>xs. xs ! j"] j by simp
    then have "unat (ce_sequence e) \<le> j + 1" by (simp only: unat_of_nat_le)
    then show ?thesis unfolding small_entry_def using j assms(2) by linarith
  qed
  then show ?thesis
    by (auto simp: small_entries_def entries_of_def list_all_iff split: option.splits)
qed

section \<open>The chain a host pins\<close>

text \<open>
  The checkpoints a host has accepted, the newest first, with the pin it keeps: it starts
  with no pin and replaces it by the result of each successful advance.
\<close>

inductive pinned :: "libs \<Rightarrow> revocation_checkpoint list \<Rightarrow> checkpoint_pin \<Rightarrow> bool" for L where
  pinned_first: "\<lbrakk>AdvanceRevocationCheckpoint L None raw = Inr p; ValidateRevocationCheckpoint L raw = Inr c\<rbrakk>
    \<Longrightarrow> pinned L [c] p"
| pinned_next: "\<lbrakk>pinned L cs p; AdvanceRevocationCheckpoint L (Some p) raw = Inr q;
     ValidateRevocationCheckpoint L raw = Inr c\<rbrakk> \<Longrightarrow> pinned L (c # cs) q"

inductive_cases pinned_ConsE: "pinned L (c # cs) p"

lemma pin_of_validated: "pin_of L c raw p \<Longrightarrow> ValidateRevocationCheckpoint L raw = Inr d \<Longrightarrow> d = c"
  by (simp add: pin_of_def)

lemma pinned_head: "pinned L cs p \<Longrightarrow> \<exists>c cs' raw. cs = c # cs' \<and> pin_of L c raw p"
proof (induction rule: pinned.induct)
  case (pinned_first raw p c)
  then show ?case by (auto simp: Advance_first dest: pin_of_validated)
next
  case (pinned_next cs p raw q c)
  then show ?case using Advance_next [OF pinned_next.hyps(2)] pin_of_validated by blast
qed

lemma profile_of_inject:
  assumes "pin_of L c raw p" and "pin_of L d raw' q" and "cp_checkpointAPIVersion p = cp_checkpointAPIVersion q"
  shows "rc_apiVersion c = rc_apiVersion d"
  using assms by (auto simp: pin_of_def profile_of_def split: if_splits)

lemma pinned_sequence:
  "pinned L cs p \<Longrightarrow>
     cp_sequence p = of_nat (length cs) - (if cp_checkpointAPIVersion p = [] then 0 else 1)"
proof (induction rule: pinned.induct)
  case (pinned_first raw p c)
  then show ?case by (auto simp: Advance_first pin_of_def profile_of_def split: if_splits)
next
  case (pinned_next cs p raw q c)
  then show ?case using Advance_next [OF pinned_next.hyps(2)] by auto
qed

lemma pinned_validated: "pinned L cs p \<Longrightarrow> c \<in> set cs \<Longrightarrow> \<exists>raw. ValidateRevocationCheckpoint L raw = Inr c"
  by (induction rule: pinned.induct) auto

text \<open>
  An advance compares the digest of the entries pinned so far with the digest of the same
  number of entries of the new checkpoint. The chain is free of collisions where two texts so
  compared are equal if their digests are; and every list is far below the 53 bits up to
  which the canonicalizer keeps numbers apart (the schemas allow 100000 entries).
\<close>

definition compared_apart :: "libs \<Rightarrow> revocation_checkpoint \<Rightarrow> revocation_checkpoint \<Rightarrow> bool" where
  "compared_apart L old new \<longleftrightarrow>
     (\<forall>pre s t. entries_prefix (rc_entries new) (rc_sequence old) = Inr pre \<and>
        entries_text L (rc_entries old) = Some s \<and> entries_text L pre = Some t \<and>
        DigestBytes s = DigestBytes t \<longrightarrow> s = t)"

fun no_collision :: "libs \<Rightarrow> revocation_checkpoint list \<Rightarrow> bool" where
  "no_collision L (new # old # cs) = (compared_apart L old new \<and> no_collision L (old # cs))"
| "no_collision L cs = True"

lemma no_collision_tail: "no_collision L (c # cs) \<Longrightarrow> no_collision L cs"
  by (cases cs) auto

definition small_chain :: "revocation_checkpoint list \<Rightarrow> bool" where
  "small_chain cs \<longleftrightarrow> list_all (\<lambda>c. length (entries_of c) < 2 ^ 53) cs"

definition extends :: "revocation_checkpoint \<Rightarrow> revocation_checkpoint \<Rightarrow> bool" where
  "extends new old \<longleftrightarrow> prefix (entries_of old) (entries_of new) \<and> rc_apiVersion new = rc_apiVersion old"

lemma extends_trans: "extends a b \<Longrightarrow> extends b c \<Longrightarrow> extends a c"
  unfolding extends_def by (metis prefix_order.order_trans)

lemma entries_prefix_take:
  "entries_prefix es n = Inr pre \<Longrightarrow> \<exists>k. pre = map_option (take k) es"
  by (auto simp: entries_prefix_def Let_def split: if_splits)

lemma take_strings: "entries_strings es \<Longrightarrow> entries_strings (map_option (take k) es)"
  by (auto simp: entries_strings_def list_all_iff split: option.splits dest: in_set_takeD)

lemma take_small: "small_entries es \<Longrightarrow> small_entries (map_option (take k) es)"
  by (auto simp: small_entries_def list_all_iff split: option.splits dest: in_set_takeD)

lemma advance_extends:
  assumes faithful: "faithful_canonicalizer (lib_transform L)" and coll: "no_collision L (c # d # cs)"
    and small: "small_chain (c # d # cs)" and p: "pin_of L d rawd p"
    and adv: "AdvanceRevocationCheckpoint L (Some p) raw = Inr q" and c: "ValidateRevocationCheckpoint L raw = Inr c"
  shows "extends c d"
proof -
  obtain pre where q: "pin_of L c raw q" "cp_checkpointAPIVersion q = cp_checkpointAPIVersion p"
      and pre: "entries_prefix (rc_entries c) (cp_sequence p) = Inr pre"
      "revocationEntriesDigest L pre = Inr (cp_entriesDigest p)"
    using Advance_next [OF adv] pin_of_validated [OF _ c] by metis
  from pre(1) obtain k where k: "pre = map_option (take k) (rc_entries c)" using entries_prefix_take by blast
  have d: "ValidateRevocationCheckpoint L rawd = Inr d" using p by (simp add: pin_of_def)
  have "rc_entries d = pre"
  proof (rule entries_digest_inject [OF faithful])
    show "entries_strings (rc_entries d)" by (rule validated_strings [OF d])
    show "entries_strings pre" unfolding k by (rule take_strings [OF validated_strings [OF c]])
    show "small_entries (rc_entries d)" by (rule validated_small [OF d]) (use small in \<open>simp add: small_chain_def\<close>)
    show "small_entries pre"
      unfolding k by (rule take_small [OF validated_small [OF c]]) (use small in \<open>simp add: small_chain_def\<close>)
    show "revocationEntriesDigest L (rc_entries d) = Inr (cp_entriesDigest p)" using p by (simp add: pin_of_def)
    show "revocationEntriesDigest L pre = Inr (cp_entriesDigest p)" by (rule pre(2))
    show "s = t" if "entries_text L (rc_entries d) = Some s" "entries_text L pre = Some t" "DigestBytes s = DigestBytes t" for s t
    proof -
      have "compared_apart L d c" using coll by simp
      moreover have "cp_sequence p = rc_sequence d" using p by (simp add: pin_of_def)
      ultimately show ?thesis using that pre(1) unfolding compared_apart_def by metis
    qed
  qed
  then have "entries_of d = take k (entries_of c)"
    unfolding k entries_of_def by (auto split: option.splits)
  then have "prefix (entries_of d) (entries_of c)" by (simp add: take_is_prefix)
  then show ?thesis
    unfolding extends_def using profile_of_inject [OF q(1) p q(2)] by simp
qed

lemma pinned_extends:
  "pinned L cs p \<Longrightarrow> faithful_canonicalizer (lib_transform L) \<Longrightarrow> no_collision L cs \<Longrightarrow> small_chain cs \<Longrightarrow>
     sorted_wrt extends cs"
proof (induction rule: pinned.induct)
  case (pinned_next cs p raw q c)
  from pinned_head [OF pinned_next.hyps(1)] obtain d ds rawd where cs: "cs = d # ds" and d: "pin_of L d rawd p"
    by blast
  have "extends c d"
    using pinned_next.prems unfolding cs
    by (rule advance_extends [OF _ _ _ d pinned_next.hyps(2,3)])
  moreover have "sorted_wrt extends cs"
    using pinned_next.IH [OF pinned_next.prems(1) no_collision_tail [OF pinned_next.prems(2)]] pinned_next.prems(3)
    by (simp add: small_chain_def)
  ultimately show ?case using extends_trans unfolding cs by auto
qed simp

section \<open>The revocation check\<close>

datatype check_error =
    CheckPackageDigest | CheckFormRef revocation_error | CheckDifferentFormRef | CheckRevoked bytes u64

fun find_revocation :: "checkpoint_entry list \<Rightarrow> bytes \<Rightarrow> form_ref \<Rightarrow> check_error option" where
  "find_revocation [] packageDigest formRef = None"
| "find_revocation (e # es) packageDigest formRef =
     (if ce_packageDigest e \<noteq> packageDigest then find_revocation es packageDigest formRef
      else if ce_formRef e \<noteq> formRef then Some CheckDifferentFormRef
      else Some (CheckRevoked (ce_statementVersion e) (ce_sequence e)))"

definition checkNotRevoked ::
  "libs \<Rightarrow> revocation_checkpoint \<Rightarrow> bytes \<Rightarrow> form_ref \<Rightarrow> check_error option" where
  "checkNotRevoked L c packageDigest formRef =
     (if \<not> ValidDigest packageDigest then Some CheckPackageDigest
      else (case ValidateRevocationFormRef L (rc_apiVersion c) formRef of
              Inl e \<Rightarrow> Some (CheckFormRef e)
            | Inr _ \<Rightarrow> find_revocation (entries_of c) packageDigest formRef))"

record extension_verification =
  ev_status :: bytes
  ev_checkpointVersion :: bytes
  ev_entryCount :: nat
  ev_pin :: checkpoint_pin

definition ValidCheckpointExtensionStatus :: bytes where
  "ValidCheckpointExtensionStatus = ''valid-extension''"

definition VerifyRevocationCheckpointExtension ::
  "libs \<Rightarrow> checkpoint_pin option \<Rightarrow> bytes \<Rightarrow> revocation_error + extension_verification" where
  "VerifyRevocationCheckpointExtension L previous checkpointJSON =
     bind_res (ValidateRevocationCheckpoint L checkpointJSON) (\<lambda>checkpoint.
     bind_res (AdvanceRevocationCheckpoint L previous checkpointJSON) (\<lambda>pin.
       Inr \<lparr>ev_status = ValidCheckpointExtensionStatus,
            ev_checkpointVersion = rc_checkpointVersion checkpoint,
            ev_entryCount = length (entries_of checkpoint), ev_pin = pin\<rparr>))"

lemma find_revocation_append:
  "find_revocation (xs @ ys) pd r =
     (case find_revocation xs pd r of Some e \<Rightarrow> Some e | None \<Rightarrow> find_revocation ys pd r)"
  by (induction xs) auto

lemma find_revocation_None: "find_revocation es pd r = None \<longleftrightarrow> pd \<notin> ce_packageDigest ` set es"
  by (induction es) auto

lemma checkNotRevoked_extends:
  assumes "extends new old" and "checkNotRevoked L old pd r = Some e"
  shows "checkNotRevoked L new pd r = Some e"
  using assms
  by (auto simp: checkNotRevoked_def extends_def prefix_def find_revocation_append split: if_splits sum.splits)

text \<open>
  C30. Revocation is permanent along a host's chain: whatever the check answers against a
  package under one accepted checkpoint (revoked, and by which statement, or mapped to another
  FormRef), it answers under every later one, and each later checkpoint lists the entries
  of the earlier ones first, unchanged and in order, under the same trust profile. Digests of
  the entry lists in the chain are taken not to collide.
\<close>

theorem revocation_permanent:
  assumes "pinned L (later @ old # earlier) p" and "faithful_canonicalizer (lib_transform L)"
    and "no_collision L (later @ old # earlier)" and "small_chain (later @ old # earlier)"
    and "new \<in> set later" and "checkNotRevoked L old packageDigest formRef = Some e"
  shows "checkNotRevoked L new packageDigest formRef = Some e \<and>
    prefix (entries_of old) (entries_of new) \<and> rc_apiVersion new = rc_apiVersion old"
proof -
  have "sorted_wrt extends (later @ old # earlier)" using assms(1-4) by (rule pinned_extends)
  then have "extends new old" using assms(5) by (auto simp: sorted_wrt_append)
  then show ?thesis using checkNotRevoked_extends [OF _ assms(6)] by (auto simp: extends_def)
qed

text \<open>
  C32. A host that has accepted \<open>n\<close> checkpoints of the current profile keeps a pin at sequence
  \<open>n - 1\<close> (the genesis is sequence 0), of the legacy profile at sequence \<open>n\<close>; the pin always
  names the digest of the last accepted checkpoint and of its entries.
\<close>

theorem pin_counts_checkpoints:
  assumes "pinned L cs p"
  shows "cp_sequence p = of_nat (length cs) - (if cp_checkpointAPIVersion p = [] then 0 else 1) \<and>
    (\<exists>raw. ValidateRevocationCheckpoint L raw = Inr (hd cs) \<and>
       DigestCanonicalJSON (lib_transform L) raw = Inr (cp_digest p) \<and>
       revocationEntriesDigest L (rc_entries (hd cs)) = Inr (cp_entriesDigest p))"
  using pinned_sequence [OF assms] pinned_head [OF assms] by (auto simp: pin_of_def)

section \<open>Encoding and decoding checkpoints\<close>

lemma dec_enc_u64 [simp]: "dec_u64 (enc_u64 w) old = Some w"
proof -
  have "unat w < 2 ^ 64" using unsigned_less [of w] by simp
  then show ?thesis by (simp add: dec_u64_def enc_u64_def parse_uint64_decimal)
qed

lemma dec_enc_entry: "dec_struct strict entry_fields (enc_entry e) empty_entry = Some e"
  by (cases e) (simp add: dec_struct_def entry_fields_def enc_entry_def member_str_def member_def empty_entry_def)

lemma dec_enc_entries:
  "dec_nil_slice (dec_struct strict entry_fields) empty_entry (enc_entries es) None = Some es"
proof -
  have "dec_elems (dec_struct strict entry_fields) empty_entry (map enc_entry xs) [] = Some xs" for xs
    by (induction xs) (simp_all add: dec_enc_entry)
  then show ?thesis by (cases es) (simp_all add: dec_nil_slice_def enc_entries_def)
qed

lemma dec_enc_checkpoint: "dec_struct strict checkpoint_fields (enc_checkpoint c) empty_checkpoint = Some c"
  using dec_enc_entries [of False "rc_entries c"]
  by (cases c; cases "rc_previousCheckpointDigest c")
    (simp_all add: dec_struct_def checkpoint_fields_def enc_checkpoint_def member_def empty_checkpoint_def
       dec_pointer_def)

definition checkpoint_strings :: "revocation_checkpoint \<Rightarrow> bool" where
  "checkpoint_strings c \<longleftrightarrow>
     list_all valid_utf8 [rc_apiVersion c, rc_kind c, rc_checkpointVersion c] \<and>
     pred_option valid_utf8 (rc_previousCheckpointDigest c) \<and> entries_strings (rc_entries c)"

lemma valid_utf8_checkpoint_names [simp]:
  "valid_utf8 ''checkpointVersion''" "valid_utf8 ''previousCheckpointDigest''" "valid_utf8 ''entries''"
  by (simp_all add: valid_utf8_ascii ascii_string_def code_def)

lemma wire_checkpoint: "checkpoint_strings c \<Longrightarrow> wire_value (enc_checkpoint c)"
  using wire_entries [of "rc_entries c"]
  by (auto simp: checkpoint_strings_def enc_checkpoint_def split: option.splits)

lemma depth_checkpoint: "value_depth (enc_checkpoint c) \<le> 256"
proof -
  have "values_depth (map enc_entry xs) \<le> 2" for xs
    using depth_entry by (induction xs) auto
  then have "value_depth (enc_entries es) \<le> 3" for es by (auto simp: enc_entries_def split: option.splits)
  then have "value_depth (enc_entries (rc_entries c)) \<le> 255" by (rule order_trans) simp
  then show ?thesis by (simp add: enc_checkpoint_def enc_u64_def split: option.split)
qed

lemma parse_checkpoint:
  "checkpoint_strings c \<Longrightarrow> parseDocument (json_encode (enc_checkpoint c)) = Inr (enc_checkpoint c)"
  by (intro json_round_trip wire_checkpoint depth_checkpoint)

text \<open>
  A checkpoint survives its own JSON form: decoding what it marshals to gives back every
  field, the nil and the empty entry list included.
\<close>

theorem checkpoint_json_round_trip:
  assumes "checkpoint_strings c"
  shows "Unmarshal (json_encode (enc_checkpoint c)) (dec_struct False checkpoint_fields) empty_checkpoint = Some c"
  by (simp add: Unmarshal_strict [OF parse_checkpoint [OF assms]] dec_enc_checkpoint)

section \<open>Slices stay in range\<close>

lemma bind_res_Inl: "bind_res r f = Inl e \<longleftrightarrow> r = Inl e \<or> (\<exists>a. r = Inr a \<and> f a = Inl e)"
  by (cases r) auto

lemma checkpoint_entries_in_range: "checkpoint_entries L api i vs ss es \<noteq> Inl SliceOutOfRange"
  by (induction es arbitrary: i vs ss) (auto split: sum.splits)

lemma close_checkpoint_in_range: "close_checkpoint L c \<noteq> Inl SliceOutOfRange"
proof
  assume s: "close_checkpoint L c = Inl SliceOutOfRange"
  then have "of_nat (length (entries_of c)) = rc_sequence c" by (simp add: close_checkpoint_def split: if_splits)
  moreover have "checkpoint_previous c \<noteq> Some SliceOutOfRange" by (simp add: checkpoint_previous_def Let_def)
  ultimately have "rc_sequence c \<noteq> 0 \<and> entries_of c = []"
    using s checkpoint_entries_in_range
    by (auto simp: close_checkpoint_def check_then_def bind_res_Inl split: option.splits if_splits)
  with \<open>of_nat (length (entries_of c)) = rc_sequence c\<close> show False by simp
qed

lemma validate_in_range: "ValidateRevocationCheckpoint L raw \<noteq> Inl SliceOutOfRange"
  using close_checkpoint_in_range
  by (auto simp: ValidateRevocationCheckpoint_def split: option.splits sum.splits)

lemma digest_in_range: "revocationEntriesDigest L es \<noteq> Inl SliceOutOfRange"
  by (auto simp: revocationEntriesDigest_def split: sum.splits)

lemma profile_in_range: "pin_profile L p c \<noteq> Inl SliceOutOfRange"
  using digest_in_range
  by (auto simp: pin_profile_def currentRevocationGenesisPin_def bind_res_Inl split: sum.splits)

lemma prefix_in_range:
  assumes n: "unat n < 2 ^ 63 - 1" and s: "of_nat (length (case es of None \<Rightarrow> [] | Some xs \<Rightarrow> xs)) = n + 1"
  shows "entries_prefix es n \<noteq> Inl SliceOutOfRange"
proof -
  define len where "len = length (case es of None \<Rightarrow> [] | Some xs \<Rightarrow> xs)"
  have "unat n < 2 ^ 63" using n by simp
  then have "int (unat n) < int (2 ^ 63)" by (simp only: of_nat_less_iff)
  then have "uint n < 2 ^ 63" by simp
  moreover have "- (2 ^ 63) \<le> uint n" by (rule order_trans [of _ 0]) simp_all
  ultimately have "- (2 ^ 63) \<le> uint n" "uint n < 2 ^ 63" by blast+
  then have k: "sint n = int (unat n)"
    by (simp add: sint_uint signed_take_bit_int_eq_self)
  have "unat (n + 1) = unat n + 1"
    using n unat_add_lem [of n 1] by simp
  then have "len mod 2 ^ 64 = unat n + 1"
    using arg_cong [OF s, of unat] by (simp add: len_def unsigned_of_nat take_bit_eq_mod)
  then have "unat n < len" using mod_less_eq_dividend [of len "2 ^ 64"] by linarith
  then have "int (unat n) < int len" by (simp only: of_nat_less_iff)
  then have "sint n < int len" "0 \<le> sint n" using k by simp_all
  then show ?thesis
    by (auto simp: entries_prefix_def len_def Let_def split: option.splits)
qed

text \<open>
  C33. Advancing a pin never slices out of range as long as the pinned sequence is below
  \<open>2 ^ 63 - 1\<close>: the conversion of the sequence to a signed index cannot go wrong, because a
  validated checkpoint has as many entries as its sequence says.
\<close>

theorem advance_in_range:
  assumes "unat (cp_sequence p) < 2 ^ 63 - 1"
  shows "AdvanceRevocationCheckpoint L (Some p) raw \<noteq> Inl SliceOutOfRange"
proof
  assume "AdvanceRevocationCheckpoint L (Some p) raw = Inl SliceOutOfRange"
  then obtain c digest ed where c: "ValidateRevocationCheckpoint L raw = Inr c"
      and n: "next_pin L p c digest ed = Inl SliceOutOfRange"
    using validate_in_range digest_in_range
    by (cases "DigestCanonicalJSON (lib_transform L) raw")
      (auto simp: AdvanceRevocationCheckpoint_def bind_res_Inl)
  have "of_nat (length (entries_of c)) = rc_sequence c"
    using c by (simp add: ValidateRevocationCheckpoint_Inr checkpoint_closed_def Let_def)
  moreover from n have "rc_sequence c = cp_sequence p + 1"
    using profile_in_range by (auto simp: next_pin_def bind_res_Inl split: if_splits)
  ultimately have "entries_prefix (rc_entries c) (cp_sequence p) \<noteq> Inl SliceOutOfRange"
    using assms by (intro prefix_in_range) (simp_all add: entries_of_def)
  then show False
    using n profile_in_range digest_in_range by (auto simp: next_pin_def bind_res_Inl split: if_splits)
qed

end
