(* ===== verification/SnapshotWire.thy ===== *)
theory SnapshotWire
  imports SnapshotGraph RevocationChain
begin

text \<open>
  The digest of a snapshot is always defined: every string that reaches the normalized
  document was decoded from a strict document or is a digest, so the document is one the
  canonicalizer accepts. This removes the digest from the conditions under which
  \<^verbatim>\<open>Compile\<close> succeeds.
\<close>

section \<open>Decoded strings\<close>

definition keeps :: "('r \<Rightarrow> bool) \<Rightarrow> 'r struct_fields \<Rightarrow> bool" where
  "keeps P fs \<longleftrightarrow> (\<forall>(n, d)\<in>set fs. \<forall>v r r'. wire_value v \<longrightarrow> P r \<longrightarrow> d v r = Some r' \<longrightarrow> P r')"

lemma dec_members_keeps:
  assumes "keeps P fs"
  shows "\<lbrakk>dec_members strict fs m r = Some r'; wire_fields m; P r\<rbrakk> \<Longrightarrow> P r'"
proof (induction m arbitrary: r)
  case (Cons e m)
  obtain k v where e: "e = (k, v)" by (cases e)
  show ?case
  proof (cases "find_field fs k")
    case None
    with Cons e show ?thesis by (auto split: if_splits)
  next
    case (Some d)
    then obtain n where d: "(n, d) \<in> set fs" using find_field_mem by blast
    from Cons.prems Some obtain r1 where r1: "d v r = Some r1" "dec_members strict fs m r1 = Some r'"
      by (auto simp: e split: option.splits)
    have "P r1" using assms d r1(1) Cons.prems by (fastforce simp: keeps_def e)
    with Cons r1 show ?thesis by (simp add: e)
  qed
qed simp

lemma dec_struct_keeps:
  "keeps P fs \<Longrightarrow> dec_struct strict fs v r = Some r' \<Longrightarrow> wire_value v \<Longrightarrow> P r \<Longrightarrow> P r'"
  using dec_members_keeps by (fastforce simp: dec_struct_def split: gval.splits)

definition definition_strings :: "form_definition \<Rightarrow> bool" where
  "definition_strings d \<longleftrightarrow> valid_utf8 (fd_apiVersion d) \<and> valid_utf8 (fd_kind d) \<and> valid_utf8 (fd_definitionVersion d)"

lemma definition_keeps: "keeps definition_strings definition_fields"
  unfolding keeps_def definition_fields_def
  by (auto simp: definition_strings_def member_def intro: dec_str_valid)

definition interface_ref_strings :: "interface_ref \<Rightarrow> bool" where
  "interface_ref_strings r \<longleftrightarrow> valid_utf8 (if_apiVersion r) \<and> valid_utf8 (if_name r) \<and>
     valid_utf8 (if_version r) \<and> valid_utf8 (if_schemaDigest r)"

lemma interface_ref_keeps: "keeps interface_ref_strings interface_ref_fields"
  unfolding keeps_def interface_ref_fields_def
  by (auto simp: interface_ref_strings_def member_def intro: dec_str_valid)

definition interface_document_strings :: "interface_document \<Rightarrow> bool" where
  "interface_document_strings d \<longleftrightarrow>
     valid_utf8 (idoc_apiVersion d) \<and> valid_utf8 (idoc_name d) \<and> valid_utf8 (idoc_version d)"

lemma interface_document_keeps: "keeps interface_document_strings interface_document_fields"
  unfolding keeps_def interface_document_fields_def
  by (auto simp: interface_document_strings_def member_def intro: dec_str_valid)

definition binding_document_strings :: "binding_document \<Rightarrow> bool" where
  "binding_document_strings d \<longleftrightarrow> valid_utf8 (bd_apiVersion d) \<and> valid_utf8 (bd_name d) \<and>
     valid_utf8 (bd_version d) \<and> interface_ref_strings (bd_targetInterface d)"

lemma binding_document_keeps: "keeps binding_document_strings binding_document_fields"
  unfolding keeps_def binding_document_fields_def
  using dec_struct_keeps [OF interface_ref_keeps]
  by (auto simp: binding_document_strings_def member_def dec_interface_ref_def intro: dec_str_valid)

lemma digest_utf8 [simp]: "valid_utf8 (DigestBytes s)"
proof -
  have "list_all is_hex_char (hex_encode (sha256 s))" by (auto simp: list_all_iff intro: hex_sha256_is_hex)
  then have "ascii_string (hex_encode (sha256 s))"
    by (rule ascii_all) (auto simp: is_hex_char_def less_eq_char_def code_def)
  then show ?thesis
    unfolding DigestBytes_def by (intro valid_utf8_ascii) (auto simp: digestPrefix_def ascii_string_def code_def)
qed

section \<open>Compiled artifacts\<close>

lemma validateDefinition_document:
  assumes "validateDefinitionWithFamilyProfile L E raw profile = Inr (d, r)"
  shows "\<exists>v. parseDocument raw = Inr v \<and> dec_struct False definition_fields v empty_definition = Some d"
  using assms
  by (auto simp: validateDefinitionWithFamilyProfile_def err_simps validateDocumentWithValue_Inr
      split: if_splits option.splits sum.splits prod.splits)

lemma revalidated_strings:
  assumes "RevalidateDefinition L E p = Inr d"
  shows "definition_strings d"
proof -
  obtain r where "validateDefinitionWithFamilyProfile L E (vd_canonicalDefinition (the p))
      (familyProfileForPackage (pi_apiVersion (vd_index (the p)))) = Inr (d, r)"
    using assms by (auto simp: RevalidateDefinition_def err_simps split: if_splits)
  then obtain v where "parseDocument (vd_canonicalDefinition (the p)) = Inr v"
      "dec_struct False definition_fields v empty_definition = Some d"
    using validateDefinition_document by blast
  then show ?thesis
    using dec_struct_keeps [OF definition_keeps] parsed_wire
    by (metis (no_types) definition_strings_def empty_definition_def form_definition.simps(1,2,3) valid_utf8_Nil)
qed

text \<open>What a compiled Form is known to be.\<close>

definition form_provenance :: "libs \<Rightarrow> 'v engines \<Rightarrow> package_artifact \<Rightarrow> compiled_form \<Rightarrow> bool" where
  "form_provenance L E a f \<longleftrightarrow>
     package_Valid (pa_package a) \<and> cf_packageDigest f = package_PackageDigest (pa_package a) \<and>
     cf_packageDigest f = pa_expectedDigest a \<and> ValidDigest (cf_packageDigest f) \<and>
     cf_ref f = pi_formRef (package_PackageIndex (pa_package a)) \<and>
     definitionEntry (package_PackageIndex (pa_package a)) \<noteq> None \<and>
     RevalidateDefinition L E (pa_package a) = Inr (cf_definition f) \<and>
     Canonicalize (lib_transform L) (package_Definition (pa_package a)) = Inr (cf_canonical f) \<and>
     fr_schemaDigest (cf_ref f) = DigestBytes (cf_canonical f) \<and>
     fr_apiVersion (cf_ref f) = fd_apiVersion (cf_definition f) \<and>
     fr_kind (cf_ref f) = fd_kind (cf_definition f) \<and>
     fr_definitionVersion (cf_ref f) = fd_definitionVersion (cf_definition f) \<and>
     cf_origin f = artifactSubject a"

lemma compileArtifact_Inr: "compileArtifact L E T a = Inr f \<longleftrightarrow> form_provenance L E a f"
proof -
  let ?p = "pa_package a" and ?t = "lib_transform L"
  have "compileArtifact L E T a = Inr f \<longleftrightarrow>
      package_Valid ?p \<and> ValidDigest (pa_expectedDigest a) \<and> package_PackageDigest ?p = pa_expectedDigest a \<and>
      (\<exists>e. definitionEntry (package_PackageIndex ?p) = Some e) \<and>
      (\<exists>d. RevalidateDefinition L E ?p = Inr d \<and>
        (\<exists>c. Canonicalize ?t (package_Definition ?p) = Inr c \<and>
          \<lparr>fr_apiVersion = fd_apiVersion d, fr_kind = fd_kind d, fr_definitionVersion = fd_definitionVersion d,
           fr_schemaDigest = DigestBytes c\<rparr> = pi_formRef (package_PackageIndex ?p) \<and>
          f = \<lparr>cf_ref = pi_formRef (package_PackageIndex ?p), cf_packageDigest = pa_expectedDigest a,
               cf_definition = d, cf_canonical = c, cf_origin = artifactSubject a\<rparr>))"
    by (auto simp: compileArtifact_def Let_def DigestCanonicalJSON_def err_simps
        split: if_splits option.splits sum.splits)
  also have "\<dots> \<longleftrightarrow> form_provenance L E a f"
    by (cases f; cases "pi_formRef (package_PackageIndex ?p)") (auto simp: form_provenance_def)
  finally show ?thesis .
qed

lemma form_strings:
  assumes "compileArtifact L E T a = Inr f"
  shows "ref_strings (cf_ref f)" and "valid_utf8 (cf_packageDigest f)"
proof -
  note p = assms [unfolded compileArtifact_Inr form_provenance_def]
  have "definition_strings (cf_definition f)" using p revalidated_strings by blast
  moreover have "fr_schemaDigest (cf_ref f) = DigestBytes (cf_canonical f)"
    "fr_apiVersion (cf_ref f) = fd_apiVersion (cf_definition f)"
    "fr_kind (cf_ref f) = fd_kind (cf_definition f)"
    "fr_definitionVersion (cf_ref f) = fd_definitionVersion (cf_definition f)"
    using p by blast+
  ultimately show "ref_strings (cf_ref f)" by (simp add: ref_strings_def definition_strings_def)
  from p have "ValidDigest (cf_packageDigest f)" by blast
  then obtain h where h: "cf_packageDigest f = digestPrefix @ h" "list_all is_hex_char h"
    by (auto simp: ValidDigest_iff)
  have "ascii_string h"
    by (rule ascii_all [OF h(2)]) (auto simp: is_hex_char_def less_eq_char_def code_def)
  then show "valid_utf8 (cf_packageDigest f)"
    unfolding h(1) by (intro valid_utf8_ascii) (auto simp: digestPrefix_def ascii_string_def code_def)
qed

lemma compileInterfaceArtifact_Inr:
  "compileInterfaceArtifact L T a = Inr c \<longleftrightarrow>
     ValidDigest (ca_expectedDigest a) \<and> ValidateInterfaceDefinition L (ca_definition a) = None \<and>
     Canonicalize (lib_transform L) (ca_definition a) = Inr (ci_canonical c) \<and>
     ca_expectedDigest a = DigestBytes (ci_canonical c) \<and>
     Unmarshal (ca_definition a) (dec_struct False interface_document_fields) empty_interface_document =
       Some (ci_document c) \<and>
     ci_public c = \<lparr>if_apiVersion = idoc_apiVersion (ci_document c), if_name = idoc_name (ci_document c),
       if_version = idoc_version (ci_document c), if_schemaDigest = ca_expectedDigest a\<rparr> \<and>
     ci_origin c = contractArtifactSubject (ca_origin a) (ca_definition a) \<and>
     ci_operations c = set (idoc_operations (ci_document c))"
  by (cases c) (auto simp: compileInterfaceArtifact_def Let_def DigestCanonicalJSON_def err_simps
      split: if_splits option.splits sum.splits)

lemma compileBindingArtifact_Inr:
  "compileBindingArtifact L E T a = Inr c \<longleftrightarrow>
     ValidDigest (ca_expectedDigest a) \<and> ValidateBindingDefinition L E (ca_definition a) = None \<and>
     Canonicalize (lib_transform L) (ca_definition a) = Inr (cb_canonical c) \<and>
     ca_expectedDigest a = DigestBytes (cb_canonical c) \<and>
     Unmarshal (ca_definition a) (dec_struct False binding_document_fields) empty_binding_document =
       Some (cb_document c) \<and>
     cb_public c = \<lparr>bp_ref = \<lparr>br_apiVersion = bd_apiVersion (cb_document c), br_name = bd_name (cb_document c),
         br_version = bd_version (cb_document c), br_schemaDigest = ca_expectedDigest a\<rparr>,
       bp_targetInterface = bd_targetInterface (cb_document c)\<rparr> \<and>
     cb_origin c = contractArtifactSubject (ca_origin a) (ca_definition a)"
  by (cases c) (auto simp: compileBindingArtifact_def Let_def DigestCanonicalJSON_def err_simps
      split: if_splits option.splits sum.splits)

lemma canonical_parsed: "Canonicalize t raw = Inr c \<Longrightarrow> \<exists>v. parseDocument raw = Inr v"
  by (simp add: Canonicalize_Inr)

lemma interface_strings:
  assumes "compileInterfaceArtifact L T a = Inr c"
  shows "interface_ref_strings (ci_public c)"
proof -
  note p = assms [unfolded compileInterfaceArtifact_Inr]
  then obtain v where v: "parseDocument (ca_definition a) = Inr v" using canonical_parsed by blast
  then have "dec_struct False interface_document_fields v empty_interface_document = Some (ci_document c)"
    using p by (simp add: Unmarshal_strict)
  then have "interface_document_strings (ci_document c)"
    by (rule dec_struct_keeps [OF interface_document_keeps])
      (use parsed_wire [OF v] in \<open>simp_all add: interface_document_strings_def empty_interface_document_def\<close>)
  with p show ?thesis by (simp add: interface_ref_strings_def interface_document_strings_def)
qed

definition binding_ref_strings :: "binding_ref \<Rightarrow> bool" where
  "binding_ref_strings r \<longleftrightarrow> valid_utf8 (br_apiVersion r) \<and> valid_utf8 (br_name r) \<and>
     valid_utf8 (br_version r) \<and> valid_utf8 (br_schemaDigest r)"

lemma binding_strings:
  assumes "compileBindingArtifact L E T a = Inr c"
  shows "binding_ref_strings (bp_ref (cb_public c)) \<and> interface_ref_strings (bp_targetInterface (cb_public c))"
proof -
  note p = assms [unfolded compileBindingArtifact_Inr]
  then obtain v where v: "parseDocument (ca_definition a) = Inr v" using canonical_parsed by blast
  then have "dec_struct False binding_document_fields v empty_binding_document = Some (cb_document c)"
    using p by (simp add: Unmarshal_strict)
  then have "binding_document_strings (cb_document c)"
    by (rule dec_struct_keeps [OF binding_document_keeps])
      (use parsed_wire [OF v] in \<open>simp_all add: binding_document_strings_def empty_binding_document_def
        interface_ref_strings_def empty_interface_ref_def\<close>)
  with p show ?thesis by (simp add: binding_ref_strings_def binding_document_strings_def)
qed

section \<open>The normalized document\<close>

lemma names_utf8 [simp]:
  "valid_utf8 ''format''" "valid_utf8 ''hostApi''" "valid_utf8 ''forms''" "valid_utf8 ''interfaces''"
  "valid_utf8 ''bindings''" "valid_utf8 ''defaults''" "valid_utf8 ''ref''" "valid_utf8 ''targetInterface''"
  "valid_utf8 ''group''" "valid_utf8 ''name''" "valid_utf8 ''version''"
  "valid_utf8 ''takoform.compiled-snapshot@v1''" "valid_utf8 ''forms.takoform.com/v1''"
  by (simp_all add: valid_utf8_ascii ascii_string_def code_def)

lemma wire_nil_array: "\<forall>x\<in>set xs. wire_value x \<Longrightarrow> wire_value (nil_array xs)"
  by (simp add: nil_array_def wire_values_iff)

lemma depth_values: "\<forall>x\<in>set xs. value_depth x \<le> n \<Longrightarrow> values_depth xs \<le> n"
  by (induction xs) auto

lemma depth_nil_array: "\<forall>x\<in>set xs. value_depth x \<le> n \<Longrightarrow> value_depth (nil_array xs) \<le> Suc n"
  using depth_values by (simp add: nil_array_def)

lemma depth_refs [simp]:
  "value_depth (enc_form_ref r) = 1" "value_depth (enc_interface_ref ir) = 1" "value_depth (enc_binding_ref br) = 1"
  by (simp_all add: enc_form_ref_def enc_interface_ref_def enc_binding_ref_def)

lemma wire_refs:
  "interface_ref_strings ir \<Longrightarrow> wire_value (enc_interface_ref ir)"
  "binding_ref_strings br \<Longrightarrow> wire_value (enc_binding_ref br)"
  by (simp_all add: enc_interface_ref_def enc_binding_ref_def interface_ref_strings_def binding_ref_strings_def)

lemma wire_default:
  "ref_strings (key_ref (snd p)) \<Longrightarrow> valid_utf8 (gk_group (fst p)) \<Longrightarrow> valid_utf8 (gk_kind (fst p)) \<Longrightarrow>
     wire_value (enc_default p)"
  by (cases p) (simp add: enc_default_def wire_form_ref)

lemma snapshot_wire_ok:
  assumes "\<forall>k\<in>set ks. ref_strings (cf_ref (the (forms k))) \<and> valid_utf8 (cf_packageDigest (the (forms k)))"
    and "\<forall>k\<in>set (cg_interfaceOrder g). interface_ref_strings (ci_public (the (cg_interfaces g k)))"
    and "\<forall>k\<in>set (cg_bindingOrder g). binding_ref_strings (bp_ref (cb_public (the (cg_bindings g k)))) \<and>
           interface_ref_strings (bp_targetInterface (cb_public (the (cg_bindings g k))))"
    and "\<forall>p\<in>set defaults. ref_strings (key_ref (snd p)) \<and> valid_utf8 (gk_group (fst p)) \<and>
           valid_utf8 (gk_kind (fst p))"
  shows "wire_value (snapshot_wire ''forms.takoform.com/v1'' ks forms g defaults)"
    and "value_depth (snapshot_wire ''forms.takoform.com/v1'' ks forms g defaults) \<le> 4"
proof -
  let ?is = "map (\<lambda>k. VObj [(''ref'', enc_interface_ref (ci_public (the (cg_interfaces g k))))]) (cg_interfaceOrder g)"
  let ?bs = "map (\<lambda>k. enc_binding (cb_public (the (cg_bindings g k)))) (cg_bindingOrder g)"
  let ?ds = "map enc_default (sort_by (\<lambda>a b. group_kind_less (fst a) (fst b)) defaults)"
  let ?fs = "map (\<lambda>k. enc_form (the (forms k))) ks"
  have w: "wire_value (nil_array ?is)" "wire_value (nil_array ?bs)" "wire_value (nil_array ?ds)" "wire_values ?fs"
    using assms by (auto intro!: wire_nil_array wire_default simp: wire_refs enc_binding_def wire_form_ref
        wire_values_iff enc_form_def)
  have d: "value_depth (nil_array ?is) \<le> Suc 2" "value_depth (nil_array ?bs) \<le> Suc 2"
    "value_depth (nil_array ?ds) \<le> Suc 2" "values_depth ?fs \<le> 2"
    by (rule depth_nil_array depth_values; auto simp: enc_binding_def enc_default_def enc_form_def)+
  show "wire_value (snapshot_wire ''forms.takoform.com/v1'' ks forms g defaults)"
    using w by (simp add: snapshot_wire_def)
  show "value_depth (snapshot_wire ''forms.takoform.com/v1'' ks forms g defaults) \<le> 4"
    using d by (simp add: snapshot_wire_def)
qed

text \<open>What the canonicalizer promises: it takes every strict document that is an object.\<close>

definition total_canonicalizer :: "(bytes \<Rightarrow> bytes option) \<Rightarrow> bool" where
  "total_canonicalizer transform \<longleftrightarrow> (\<forall>s m. parseDocument s = Inr (VObj m) \<longrightarrow> transform s \<noteq> None)"

lemma snapshot_digest_defined:
  assumes "total_canonicalizer (lib_transform L)" and "wire_value (snapshot_wire h ks forms g defaults)"
    and "value_depth (snapshot_wire h ks forms g defaults) \<le> 4"
  shows "\<exists>digest. snapshotDigest L h ks forms g defaults = Inr digest"
proof -
  let ?s = "json_encode (snapshot_wire h ks forms g defaults)"
  have p: "parseDocument ?s = Inr (snapshot_wire h ks forms g defaults)"
    using assms(2,3) by (intro json_round_trip) simp_all
  then have "lib_transform L ?s \<noteq> None"
    using assms(1) unfolding total_canonicalizer_def snapshot_wire_def by blast
  with p parsed_utf8 [OF p] show ?thesis
    by (auto simp: snapshotDigest_def DigestCanonicalJSON_def err_simps Canonicalize_Inr)
qed

end
