(* ===== verification/SnapshotProofs.thy ===== *)
theory SnapshotProofs
  imports SnapshotWire
begin

text \<open>
  The properties of \<^verbatim>\<open>Compile\<close>: it accepts exactly the inputs that supply a closed graph, the
  snapshot's references all resolve inside it, its maps and lists agree, its defaults are the
  pins of the input, and it does not depend on the order of the input.
\<close>

lemma graph_contracts_simps [simp]:
  "cg_interfaces (graph_of_contracts ics bcs) = single_candidates interface_key_of ics"
  "cg_bindings (graph_of_contracts ics bcs) = single_candidates binding_key_of bcs"
  "set (cg_interfaceOrder (graph_of_contracts ics bcs)) = interface_key_of ` set ics"
  "set (cg_bindingOrder (graph_of_contracts ics bcs)) = binding_key_of ` set bcs"
  by (simp_all add: graph_of_contracts_def sortedInterfaceKeys_def sortedBindingKeys_def)

definition lists_graph ::
  "compile_input \<Rightarrow> compiled_form list \<Rightarrow> compiled_interface list \<Rightarrow> compiled_binding list \<Rightarrow> graph" where
  "lists_graph i fs ics bcs = \<lparr>gr_forms = set fs, gr_interfaces = set ics, gr_bindings = set bcs,
     gr_defaults = dp_ref ` set (in_defaultCreates i)\<rparr>"

lemma lists_graph_simps [simp]:
  "gr_forms (lists_graph i fs ics bcs) = set fs" "gr_interfaces (lists_graph i fs ics bcs) = set ics"
  "gr_bindings (lists_graph i fs ics bcs) = set bcs"
  "gr_defaults (lists_graph i fs ics bcs) = dp_ref ` set (in_defaultCreates i)"
  by (simp_all add: lists_graph_def)

lemma defaults_closed:
  assumes "distinct (map form_key_of fs)"
  shows "defaults_ok pins (form_order E fs) (form_map fs) \<and> gr_defaults G = dp_ref ` set pins \<and>
     gr_forms G = set fs \<longleftrightarrow> pins_closed pins G \<and> gr_forms G = set fs"
proof -
  have r: "represents (form_map fs) form_key_of (set fs)"
    unfolding form_map_def using assms by (rule represents_candidates)
  have p: "good_pin (form_map fs) p \<longleftrightarrow> dp_ref p \<in> cf_ref ` set fs \<and> dp_group p = fr_apiVersion (dp_ref p) \<and>
      dp_kind p = fr_kind (dp_ref p)" for p
    unfolding good_pin_def form_present [OF r] by blast
  show ?thesis
    by (auto simp: defaults_ok_def pins_closed_def p image_image)
qed

lemma problems_closed:
  assumes "distinct (map form_key_of fs)" and "distinct (map interface_key_of ics)"
    and "distinct (map binding_key_of bcs)" and "gr_forms G = set fs" and "gr_interfaces G = set ics"
    and "gr_bindings G = set bcs"
  shows "form_problems L T h (graph_of_contracts ics bcs) (form_map fs) f = [] \<longleftrightarrow> form_closed L h G f"
proof -
  have r: "represents (form_map fs) form_key_of (gr_forms G)"
    "represents (cg_interfaces (graph_of_contracts ics bcs)) interface_key_of (gr_interfaces G)"
    "represents (cg_bindings (graph_of_contracts ics bcs)) binding_key_of (gr_bindings G)"
    using assms by (simp_all add: represents_candidates form_map_def)
  show ?thesis
    unfolding form_problems_def append_is_Nil_conv references_Nil [OF r(2,3)] required_Nil targets_Nil [OF r(1)]
      form_closed_def by blast
qed

text \<open>The digest of what the earlier stages let through is defined.\<close>

lemma pinned_default_source:
  assumes "(g, k) \<in> set (pinned_defaults E i fs)" and d: "distinct (map form_key_of fs)"
  shows "\<exists>f\<in>set fs. cf_ref f = key_ref k \<and> gk_group g = fr_apiVersion (cf_ref f) \<and> gk_kind g = fr_kind (cf_ref f)"
proof -
  have "default_of (in_defaultCreates i) (form_map fs) g = Inr k"
    using assms(1) by (auto simp: pinned_defaults_def compileDefaults_def Let_def split: sum.splits)
  then obtain p where p: "group_all pin_group (in_defaultCreates i) g = [p]" "good_pin (form_map fs) p"
      "k = keyFor (dp_ref p)"
    by (auto simp: default_of_Inr)
  then have "p \<in> set (filter (\<lambda>p. pin_group p = g) (in_defaultCreates i))" by (simp add: group_all_filter)
  then have g: "g = pin_group p" by simp
  have "represents (form_map fs) form_key_of (set fs)"
    unfolding form_map_def using d by (rule represents_candidates)
  then have "dp_ref p \<in> cf_ref ` set fs" using p(2) form_present by (auto simp: good_pin_def)
  then show ?thesis using p g by (auto simp: good_pin_def pin_group_def group_kind_of_def)
qed

lemma digest_defined:
  assumes "total_canonicalizer (lib_transform L)"
    and fs: "compile_all (compileArtifact L E T) ps = ([], fs)" "distinct (map form_key_of fs)"
    and ics: "compile_all (compileInterfaceArtifact L T) ias = ([], ics)" "distinct (map interface_key_of ics)"
    and bcs: "compile_all (compileBindingArtifact L E T) bas = ([], bcs)" "distinct (map binding_key_of bcs)"
  shows "\<exists>digest. snapshotDigest L ''forms.takoform.com/v1'' (form_order E fs) (form_map fs)
     (graph_of_contracts ics bcs) (pinned_defaults E i fs) = Inr digest"
proof -
  have f: "ref_strings (cf_ref f) \<and> valid_utf8 (cf_packageDigest f)" if "f \<in> set fs" for f
    using that candidates_supply(1) [OF fs(1)] form_strings by fastforce
  have c: "interface_ref_strings (ci_public c)" if "c \<in> set ics" for c
    using that candidates_supply(1) [OF ics(1)] interface_strings by fastforce
  have b: "binding_ref_strings (bp_ref (cb_public b)) \<and> interface_ref_strings (bp_targetInterface (cb_public b))"
    if "b \<in> set bcs" for b
    using that candidates_supply(1) [OF bcs(1)] binding_strings by fastforce
  have d: "ref_strings (key_ref (snd p)) \<and> valid_utf8 (gk_group (fst p)) \<and> valid_utf8 (gk_kind (fst p))"
    if "p \<in> set (pinned_defaults E i fs)" for p
    using pinned_default_source [of "fst p" "snd p"] that f fs(2) by (fastforce simp: ref_strings_def)
  have m: "the (single_candidates key cs (key x)) = x" if "distinct (map key cs)" "x \<in> set cs" for key cs x
    using single_candidates_distinct [OF that(1), of "key x" x] that(2) by simp
  note wire = snapshot_wire_ok [of "form_order E fs" "form_map fs" "graph_of_contracts ics bcs" "pinned_defaults E i fs"]
  show ?thesis
    by (rule snapshot_digest_defined [OF assms(1) wire(1) wire(2)])
      (simp_all add: form_map_def m [OF fs(2)] m [OF ics(2)] m [OF bcs(2)] f c b d cong: ball_cong)
qed

lemma snapshot_graph_lists:
  assumes "distinct (map form_key_of fs)" and "distinct (map interface_key_of ics)"
    and "distinct (map binding_key_of bcs)"
    and "defaults_ok (in_defaultCreates i) (form_order E fs) (form_map fs)"
  shows "snapshot_graph (snapshot_of E i fs (graph_of_contracts ics bcs) digest) = lists_graph i fs ics bcs"
  using assms
  by (simp add: snapshot_graph_def snapshot_of_def lists_graph_def form_map_def [of fs] single_candidates_dom
      pinned_defaults_def defaults_ran [unfolded form_map_def] image_image)

lemma closed_graph_lists:
  assumes d: "distinct (map form_key_of fs)" "distinct (map interface_key_of ics)" "distinct (map binding_key_of bcs)"
    and c: "compile_all (compileArtifact L E T) (in_packages i) = ([], fs)"
      "compile_all (compileInterfaceArtifact L T) (in_interfaces i) = ([], ics)"
      "compile_all (compileBindingArtifact L E T) (in_bindings i) = ([], bcs)"
  shows "closed_graph L E T i (lists_graph i fs ics bcs) \<longleftrightarrow>
     in_hostAPI i = ''forms.takoform.com/v1'' \<and>
     compileContracts L E T (in_interfaces i) (in_bindings i) = Inr (graph_of_contracts ics bcs) \<and>
     (\<forall>f\<in>set fs. form_problems L T (in_hostAPI i) (graph_of_contracts ics bcs) (form_map fs) f = []) \<and>
     defaults_ok (in_defaultCreates i) (form_order E fs) (form_map fs)"
proof -
  let ?G = "lists_graph i fs ics bcs"
  have g: "gr_forms ?G = set fs" "gr_interfaces ?G = set ics" "gr_bindings ?G = set bcs"
    "gr_defaults ?G = dp_ref ` set (in_defaultCreates i)"
    by (simp_all add: lists_graph_def)
  have s: "supplied (compileArtifact L E T) form_key_of (in_packages i) (gr_forms ?G)"
    "supplied (compileInterfaceArtifact L T) interface_key_of (in_interfaces i) (gr_interfaces ?G)"
    "supplied (compileBindingArtifact L E T) binding_key_of (in_bindings i) (gr_bindings ?G)"
    unfolding supplied_iff g using c d by blast+
  have b: "compileContracts L E T (in_interfaces i) (in_bindings i) = Inr (graph_of_contracts ics bcs) \<longleftrightarrow>
      (\<forall>b\<in>gr_bindings ?G. binding_closed ?G b)"
    unfolding compileContracts_Inr binding_closed_def g using c d by auto
  have p: "defaults_ok (in_defaultCreates i) (form_order E fs) (form_map fs) \<longleftrightarrow> pins_closed (in_defaultCreates i) ?G"
    using defaults_closed [OF d(1), of "in_defaultCreates i" E ?G] g by simp
  show ?thesis
    unfolding closed_graph_def b p problems_closed [OF d g(1,2,3)] using s g(1) by blast
qed

lemma compile_refines:
  assumes "total_canonicalizer (lib_transform L)"
  shows "(\<exists>s. Compile L E T i = Inr s \<and> snapshot_graph s = G) \<longleftrightarrow> closed_graph L E T i G"
proof
  assume "\<exists>s. Compile L E T i = Inr s \<and> snapshot_graph s = G"
  then obtain s where s: "Compile L E T i = Inr s" "snapshot_graph s = G" by blast
  then obtain fs g digest where c: "in_hostAPI i = ''forms.takoform.com/v1''"
      "compile_all (compileArtifact L E T) (in_packages i) = ([], fs)" "distinct (map form_key_of fs)"
      "compileContracts L E T (in_interfaces i) (in_bindings i) = Inr g"
      "\<forall>f\<in>set fs. form_problems L T (in_hostAPI i) g (form_map fs) f = []"
      "defaults_ok (in_defaultCreates i) (form_order E fs) (form_map fs)" "s = snapshot_of E i fs g digest"
    unfolding Compile_Inr by blast
  then obtain ics bcs where k: "compile_all (compileInterfaceArtifact L T) (in_interfaces i) = ([], ics)"
      "compile_all (compileBindingArtifact L E T) (in_bindings i) = ([], bcs)"
      "distinct (map interface_key_of ics)" "distinct (map binding_key_of bcs)" "g = graph_of_contracts ics bcs"
    unfolding compileContracts_Inr by blast
  have "G = lists_graph i fs ics bcs"
    using s(2) c(3,6,7) k(3,4,5) snapshot_graph_lists by metis
  with closed_graph_lists [OF c(3) k(3,4) c(2) k(1,2)] c k(5) show "closed_graph L E T i G" by simp
next
  assume G: "closed_graph L E T i G"
  then obtain fs ics bcs where l: "compile_all (compileArtifact L E T) (in_packages i) = ([], fs)"
      "distinct (map form_key_of fs)" "gr_forms G = set fs"
      "compile_all (compileInterfaceArtifact L T) (in_interfaces i) = ([], ics)"
      "distinct (map interface_key_of ics)" "gr_interfaces G = set ics"
      "compile_all (compileBindingArtifact L E T) (in_bindings i) = ([], bcs)"
      "distinct (map binding_key_of bcs)" "gr_bindings G = set bcs"
    unfolding closed_graph_def supplied_iff by blast
  have e: "G = lists_graph i fs ics bcs"
    using l(3,6,9) G by (cases G) (simp add: lists_graph_def closed_graph_def pins_closed_def)
  have c: "in_hostAPI i = ''forms.takoform.com/v1''"
    "compileContracts L E T (in_interfaces i) (in_bindings i) = Inr (graph_of_contracts ics bcs)"
    "\<forall>f\<in>set fs. form_problems L T (in_hostAPI i) (graph_of_contracts ics bcs) (form_map fs) f = []"
    "defaults_ok (in_defaultCreates i) (form_order E fs) (form_map fs)"
    using G closed_graph_lists [OF l(2,5,8,1,4,7)] unfolding e by blast+
  obtain digest where "snapshotDigest L ''forms.takoform.com/v1'' (form_order E fs) (form_map fs)
      (graph_of_contracts ics bcs) (pinned_defaults E i fs) = Inr digest"
    using digest_defined [OF assms l(1,2,4,5,7,8)] by blast
  then have "Compile L E T i = Inr (snapshot_of E i fs (graph_of_contracts ics bcs) digest)"
    unfolding Compile_Inr using c l(1,2) by auto
  then show "\<exists>s. Compile L E T i = Inr s \<and> snapshot_graph s = G"
    using snapshot_graph_lists [OF l(2,5,8) c(4)] e by blast
qed

text \<open>
  C1. \<open>Compile\<close> implements its declarative specification: it returns a snapshot of a graph
  exactly if the input supplies that graph, meaning that every artifact passes its own checks
  and digest pin, no identity is supplied twice, and all references between Forms, Interfaces
  and Bindings, the Host API requirements and the default pins are closed within it.
\<close>

theorem compile_refines_graph:
  assumes "total_canonicalizer (lib_transform L)"
  shows "(\<exists>s. Compile L E T i = Inr s \<and> snapshot_graph s = G) \<longleftrightarrow> closed_graph L E T i G"
  using assms by (rule compile_refines)

section \<open>The snapshot\<close>

lemma Compile_lists:
  assumes "Compile L E T i = Inr s"
  obtains fs ics bcs digest where "in_hostAPI i = ''forms.takoform.com/v1''"
    and "compile_all (compileArtifact L E T) (in_packages i) = ([], fs)" and "distinct (map form_key_of fs)"
    and "compile_all (compileInterfaceArtifact L T) (in_interfaces i) = ([], ics)"
    and "distinct (map interface_key_of ics)"
    and "compile_all (compileBindingArtifact L E T) (in_bindings i) = ([], bcs)"
    and "distinct (map binding_key_of bcs)"
    and "\<forall>f\<in>set fs. form_closed L (in_hostAPI i) (lists_graph i fs ics bcs) f"
    and "\<forall>b\<in>set bcs. binding_closed (lists_graph i fs ics bcs) b"
    and "defaults_ok (in_defaultCreates i) (form_order E fs) (form_map fs)"
    and "snapshotDigest L (in_hostAPI i) (form_order E fs) (form_map fs) (graph_of_contracts ics bcs)
           (pinned_defaults E i fs) = Inr digest"
    and "s = snapshot_of E i fs (graph_of_contracts ics bcs) digest"
proof -
  obtain fs g digest where c: "in_hostAPI i = ''forms.takoform.com/v1''"
      "compile_all (compileArtifact L E T) (in_packages i) = ([], fs)" "distinct (map form_key_of fs)"
      "compileContracts L E T (in_interfaces i) (in_bindings i) = Inr g"
      "\<forall>f\<in>set fs. form_problems L T (in_hostAPI i) g (form_map fs) f = []"
      "defaults_ok (in_defaultCreates i) (form_order E fs) (form_map fs)"
      "snapshotDigest L (in_hostAPI i) (form_order E fs) (form_map fs) g (pinned_defaults E i fs) = Inr digest"
      "s = snapshot_of E i fs g digest"
    using assms unfolding Compile_Inr by blast
  obtain ics bcs where k: "compile_all (compileInterfaceArtifact L T) (in_interfaces i) = ([], ics)"
      "compile_all (compileBindingArtifact L E T) (in_bindings i) = ([], bcs)"
      "distinct (map interface_key_of ics)" "distinct (map binding_key_of bcs)" "g = graph_of_contracts ics bcs"
    using c(4) unfolding compileContracts_Inr by blast
  have "closed_graph L E T i (lists_graph i fs ics bcs)"
    using closed_graph_lists [OF c(3) k(3,4) c(2) k(1,2)] c k(5) by simp
  then have "\<forall>f\<in>set fs. form_closed L (in_hostAPI i) (lists_graph i fs ics bcs) f"
    "\<forall>b\<in>set bcs. binding_closed (lists_graph i fs ics bcs) b"
    unfolding closed_graph_def lists_graph_simps by blast+
  with c k that show thesis by simp
qed

lemma snapshot_of_simps [simp]:
  "sn_hostAPI (snapshot_of E i fs g digest) = in_hostAPI i"
  "sn_digest (snapshot_of E i fs g digest) = digest"
  "sn_ordered (snapshot_of E i fs g digest) = form_order E fs"
  "sn_forms (snapshot_of E i fs g digest) = form_map fs"
  "sn_contracts (snapshot_of E i fs g digest) = g"
  "sn_defaults (snapshot_of E i fs g digest) = map_of (pinned_defaults E i fs)"
  by (simp_all add: snapshot_of_def)

text \<open>A map from identities: its keys are the listed ones, and each value has its key, whose
  digest is that of the value's canonical bytes.\<close>

definition keyed :: "('k \<rightharpoonup> 'c) \<Rightarrow> 'k list \<Rightarrow> ('c \<Rightarrow> 'k) \<Rightarrow> ('k \<Rightarrow> bytes) \<Rightarrow> ('c \<Rightarrow> bytes) \<Rightarrow> bool" where
  "keyed m order key digest canonical \<longleftrightarrow> distinct order \<and> set order = dom m \<and>
     (\<forall>k c. m k = Some c \<longrightarrow> key c = k \<and> digest k = DigestBytes (canonical c))"

lemma keyed_candidates:
  assumes "distinct (map key cs)" and "distinct order" and "set order = key ` set cs"
    and "\<And>c. c \<in> set cs \<Longrightarrow> digest (key c) = DigestBytes (canonical c)"
  shows "keyed (single_candidates key cs) order key digest canonical"
  using single_candidates_dom(1) [OF assms(1)] single_candidates_distinct [OF assms(1)] assms(2-4)
  by (auto simp: keyed_def)

definition snapshot_wf :: "snapshot \<Rightarrow> bool" where
  "snapshot_wf s \<longleftrightarrow> sn_hostAPI s = ''forms.takoform.com/v1'' \<and> ValidDigest (sn_digest s) \<and>
     keyed (sn_forms s) (sn_ordered s) form_key_of ek_digest cf_canonical \<and>
     keyed (cg_interfaces (sn_contracts s)) (cg_interfaceOrder (sn_contracts s)) interface_key_of ik_digest ci_canonical \<and>
     keyed (cg_bindings (sn_contracts s)) (cg_bindingOrder (sn_contracts s)) binding_key_of bk_digest cb_canonical \<and>
     sorted_wrt interface_key_less (cg_interfaceOrder (sn_contracts s)) \<and>
     sorted_wrt binding_key_less (cg_bindingOrder (sn_contracts s)) \<and>
     dom (sn_defaults s) = key_group ` dom (sn_forms s) \<and>
     (\<forall>g k. sn_defaults s g = Some k \<longrightarrow> k \<in> dom (sn_forms s) \<and> key_group k = g)"

lemma defaults_dom:
  assumes o: "defaults_ok (in_defaultCreates i) (form_order E fs) (form_map fs)" and d: "distinct (map form_key_of fs)"
  shows "dom (map_of (pinned_defaults E i fs)) = key_group ` dom (form_map fs) \<and>
     (\<forall>g k. map_of (pinned_defaults E i fs) g = Some k \<longrightarrow> k \<in> dom (form_map fs) \<and> key_group k = g)"
proof -
  have m: "map_of (pinned_defaults E i fs) g = Some k \<longleftrightarrow>
      (\<exists>p\<in>set (in_defaultCreates i). pin_group p = g \<and> k = keyFor (dp_ref p))" for g k
    unfolding pinned_defaults_def using o by (rule defaults_map)
  have g: "key_group (keyFor (dp_ref p)) = pin_group p \<and> keyFor (dp_ref p) \<in> dom (form_map fs)"
    if "p \<in> set (in_defaultCreates i)" for p
    using o that by (auto simp: defaults_ok_def good_pin_def key_group_def pin_group_def)
  have dm: "dom (form_map fs) = form_key_of ` set fs"
    unfolding form_map_def using d by (rule single_candidates_dom(1))
  have "key_group ` dom (form_map fs) = pin_group ` set (in_defaultCreates i)"
  proof
    show "key_group ` dom (form_map fs) \<subseteq> pin_group ` set (in_defaultCreates i)"
      using o unfolding dm by (simp add: defaults_ok_def)
    show "pin_group ` set (in_defaultCreates i) \<subseteq> key_group ` dom (form_map fs)"
      using g by (metis (no_types) image_subsetI imageI)
  qed
  moreover have "dom (map_of (pinned_defaults E i fs)) = pin_group ` set (in_defaultCreates i)"
    using m by (auto simp: dom_def)
  moreover have "k \<in> dom (form_map fs) \<and> key_group k = h" if "map_of (pinned_defaults E i fs) h = Some k" for h k
    using that g unfolding m by blast
  ultimately show ?thesis by simp
qed

lemma compiled_wf:
  assumes "Compile L E T i = Inr s"
  shows "snapshot_wf s"
proof -
  from assms obtain fs ics bcs digest where c: "in_hostAPI i = ''forms.takoform.com/v1''"
    "compile_all (compileArtifact L E T) (in_packages i) = ([], fs)" "distinct (map form_key_of fs)"
    "compile_all (compileInterfaceArtifact L T) (in_interfaces i) = ([], ics)" "distinct (map interface_key_of ics)"
    "compile_all (compileBindingArtifact L E T) (in_bindings i) = ([], bcs)" "distinct (map binding_key_of bcs)"
    "defaults_ok (in_defaultCreates i) (form_order E fs) (form_map fs)"
    "snapshotDigest L (in_hostAPI i) (form_order E fs) (form_map fs) (graph_of_contracts ics bcs)
       (pinned_defaults E i fs) = Inr digest"
    "s = snapshot_of E i fs (graph_of_contracts ics bcs) digest"
    by (rule Compile_lists)
  have f: "fr_schemaDigest (cf_ref f) = DigestBytes (cf_canonical f)" if "f \<in> set fs" for f
    using that candidates_supply(1) [OF c(2)] by (auto simp: compileArtifact_Inr form_provenance_def)
  have n: "if_schemaDigest (ci_public x) = DigestBytes (ci_canonical x)" if "x \<in> set ics" for x
    using that candidates_supply(1) [OF c(4)] by (auto simp: compileInterfaceArtifact_Inr)
  have b: "br_schemaDigest (bp_ref (cb_public x)) = DigestBytes (cb_canonical x)" if "x \<in> set bcs" for x
    using that candidates_supply(1) [OF c(6)] by (auto simp: compileBindingArtifact_Inr)
  have k: "keyed (form_map fs) (form_order E fs) form_key_of ek_digest cf_canonical"
    unfolding form_map_def
    by (rule keyed_candidates [OF c(3)]) (simp_all add: form_order_def sortedKeys_def form_key_of_def f)
  have ki: "keyed (single_candidates interface_key_of ics) (sortedInterfaceKeys (remdups (map interface_key_of ics)))
      interface_key_of ik_digest ci_canonical"
    by (rule keyed_candidates [OF c(5)]) (simp_all add: sortedInterfaceKeys_def interface_key_of_def interfaceKeyFor_def n)
  have kb: "keyed (single_candidates binding_key_of bcs) (sortedBindingKeys (remdups (map binding_key_of bcs)))
      binding_key_of bk_digest cb_canonical"
    by (rule keyed_candidates [OF c(7)]) (simp_all add: sortedBindingKeys_def binding_key_of_def bindingKeyFor_def b)
  have "sorted_wrt interface_key_less (sortedInterfaceKeys (remdups (map interface_key_of ics)))"
    unfolding sortedInterfaceKeys_def by (rule interface_keys.sort_by_strict) simp_all
  moreover have "sorted_wrt binding_key_less (sortedBindingKeys (remdups (map binding_key_of bcs)))"
    unfolding sortedBindingKeys_def by (rule binding_keys.sort_by_strict) simp_all
  moreover have "ValidDigest digest"
    using c(9) by (auto simp: snapshotDigest_def DigestCanonicalJSON_def err_simps)
  ultimately show ?thesis
    using k ki kb defaults_dom [OF c(8,3)] c(1)
    unfolding snapshot_wf_def c(10) by (simp add: graph_of_contracts_def)
qed

text \<open>
  C40. Every compiled snapshot is well formed: its lists enumerate its maps without repetition,
  the contracts in strictly increasing order, every entry is filed under its own identity,
  whose digest is the digest of the entry's canonical bytes, and the defaults are one supplied
  Form for exactly the groups and kinds of the supplied Forms.
\<close>

theorem compiled_snapshot_wf: "Compile L E T i = Inr s \<Longrightarrow> snapshot_wf s"
  by (rule compiled_wf)


text \<open>
  The default of a group and kind is what the input pins for it and nothing else: never the
  latest version and never a Form of the same kind in another group. There is one for exactly
  the groups and kinds of the compiled Forms.
\<close>

theorem default_is_pinned:
  assumes "Compile L E T i = Inr s"
  shows "snapshot_Default (Some s) g k = Some r \<longleftrightarrow> \<lparr>dp_group = g, dp_kind = k, dp_ref = r\<rparr> \<in> set (in_defaultCreates i)"
    (is "?l \<longleftrightarrow> ?r")
proof -
  from assms obtain fs ics bcs digest where c: "defaults_ok (in_defaultCreates i) (form_order E fs) (form_map fs)"
    "s = snapshot_of E i fs (graph_of_contracts ics bcs) digest"
    by (rule Compile_lists)
  have "?l \<longleftrightarrow> (\<exists>p\<in>set (in_defaultCreates i). pin_group p = group_kind_of g k \<and> dp_ref p = r)"
    using defaults_map [OF c(1)]
    by (auto simp: snapshot_Default_def c(2) pinned_defaults_def [symmetric])
  also have "\<dots> \<longleftrightarrow> ?r"
    by (auto simp: pin_group_def group_kind_of_def intro!: bexI) (metis default_pin.surjective old.unit.exhaust)
  finally show ?thesis .
qed

end
