(* ===== verification/SnapshotOrder.thy ===== *)
theory SnapshotOrder
  imports SnapshotProofs
begin

text \<open>
  \<^verbatim>\<open>Compile\<close> does not depend on the order of its input, provided the versions of the supplied
  Forms are ordered: the comparison of Form identities is a strict total order on versions
  that parse, and not in general. \<open>version_order_cycle\<close> exhibits three versions on which it
  is circular, so that the order of the Forms, and the digest of the snapshot, follow Go's
  random map iteration order.
\<close>

section \<open>Groups\<close>

lemma compile_all_filter:
  "compile_all f as = (map projl (filter isl (map f as)), map projr (filter (\<lambda>r. \<not> isl r) (map f as)))"
  by (induction as) (auto split: sum.splits)

lemma compile_all_mset:
  assumes "mset as = mset as'"
  shows "mset (fst (compile_all f as)) = mset (fst (compile_all f as'))"
    and "mset (snd (compile_all f as)) = mset (snd (compile_all f as'))"
  using assms by (simp_all add: compile_all_filter mset_filter)

lemma group_all_mset: "mset cs = mset cs' \<Longrightarrow> mset (group_all key cs k) = mset (group_all key cs' k)"
  by (simp add: group_all_filter)

lemma group_all_length: "mset cs = mset cs' \<Longrightarrow> length (group_all key cs k) = length (group_all key cs' k)"
  by (rule mset_eq_length [OF group_all_mset])

lemma mset_single: "mset xs = mset [x] \<longleftrightarrow> xs = [x]"
  by (cases xs) auto

lemma group_all_one: "mset cs = mset cs' \<Longrightarrow> group_all key cs k = [c] \<longleftrightarrow> group_all key cs' k = [c]"
  using group_all_mset [of cs cs' key k] mset_single by metis

lemma single_candidates_mset:
  assumes "mset cs = mset cs'"
  shows "single_candidates key cs = single_candidates key cs'"
proof
  fix k
  have "single_candidates key ds k = Some c \<longleftrightarrow> group_all key ds k = [c]" for ds c
    by (auto simp: single_candidates_def split: list.splits)
  then show "single_candidates key cs k = single_candidates key cs' k"
    using group_all_one [OF assms] by (metis not_Some_eq)
qed

lemma sort_strings_mset: "mset xs = mset ys \<Longrightarrow> sort_strings xs = sort_strings ys"
  unfolding sort_strings_def by (rule bytes_order.sort_by_cong) auto

lemma duplicate_groups_mset:
  assumes "mset cs = mset cs'" and "\<And>k xs ys. mset xs = mset ys \<Longrightarrow> report k xs = report k ys"
  shows "duplicate_groups key cs report order = duplicate_groups key cs' report order"
proof -
  have "report k (group_all key cs k) = report k (group_all key cs' k)" for k
    by (rule assms(2)) (rule group_all_mset [OF assms(1)])
  then show ?thesis
    unfolding duplicate_groups_def group_all_length [OF assms(1)] by simp
qed

lemma keys_mset: "mset cs = mset cs' \<Longrightarrow> mset (remdups (map key cs)) = mset (remdups (map key cs'))"
  using mset_eq_setD [of cs cs'] by (simp add: set_eq_iff_mset_remdups_eq [symmetric])

lemma reports_mset:
  "mset fs = mset fs' \<Longrightarrow> duplicateFormDiagnostic k fs = duplicateFormDiagnostic k fs'"
  "mset is = mset is' \<Longrightarrow> duplicateContractDiagnostic t (interfaceOrigins is) = duplicateContractDiagnostic t (interfaceOrigins is')"
  "mset bs = mset bs' \<Longrightarrow> duplicateContractDiagnostic t (bindingOrigins bs) = duplicateContractDiagnostic t (bindingOrigins bs')"
  using sort_strings_mset [of "map cf_origin fs" "map cf_origin fs'"] mset_eq_length [of fs fs']
    sort_strings_mset [of "map ci_origin is" "map ci_origin is'"] mset_eq_length [of "is" is']
    sort_strings_mset [of "map cb_origin bs" "map cb_origin bs'"] mset_eq_length [of bs bs']
  by (simp_all add: duplicateFormDiagnostic_def duplicateContractDiagnostic_def interfaceOrigins_def bindingOrigins_def)

section \<open>Stages\<close>

lemma stage_mset: "mset ds = mset ds' \<Longrightarrow> stage ds r = stage ds' r"
  using sortedDiagnostics_mset [of ds ds'] mset_eq_length [of ds ds'] by (auto simp: stage_def)

definition contract_stage ::
  "texts \<Rightarrow> diagnostic list \<Rightarrow> compiled_interface list \<Rightarrow> diagnostic list \<Rightarrow> compiled_binding list \<Rightarrow>
     diagnostic list + contract_graph" where
  "contract_stage T ids ics bds bcs =
     (let interfaceOrder = sortedInterfaceKeys (remdups (map interface_key_of ics));
          bindingOrder = sortedBindingKeys (remdups (map binding_key_of bcs)) in
      stage (ids @ bds)
        (stage (duplicate_groups interface_key_of ics
                  (\<lambda>k ms. duplicateContractDiagnostic (interface_key_String k) (interfaceOrigins ms)) interfaceOrder @
                duplicate_groups binding_key_of bcs
                  (\<lambda>k ms. duplicateContractDiagnostic (binding_key_String k) (bindingOrigins ms)) bindingOrder)
          (stage (concat (map (\<lambda>k. binding_target_diagnostics T (single_candidates interface_key_of ics) k
                    (the (single_candidates binding_key_of bcs k))) bindingOrder))
            (Inr (graph_of_contracts ics bcs)))))"

lemma compileContracts_stages:
  "compileContracts L E T ias bas =
     contract_stage T (fst (compile_all (compileInterfaceArtifact L T) ias)) (snd (compile_all (compileInterfaceArtifact L T) ias))
       (fst (compile_all (compileBindingArtifact L E T) bas)) (snd (compile_all (compileBindingArtifact L E T) bas))"
  by (simp add: compileContracts_def contract_stage_def graph_of_contracts_def stage_def Let_def split_beta)

lemma contract_orders:
  "mset ics = mset ics' \<Longrightarrow> sortedInterfaceKeys (remdups (map interface_key_of ics)) =
     sortedInterfaceKeys (remdups (map interface_key_of ics'))"
  "mset bcs = mset bcs' \<Longrightarrow> sortedBindingKeys (remdups (map binding_key_of bcs)) =
     sortedBindingKeys (remdups (map binding_key_of bcs'))"
  unfolding sortedInterfaceKeys_def sortedBindingKeys_def
  by (auto intro!: interface_keys.sort_by_cong binding_keys.sort_by_cong keys_mset)

lemma contract_stage_mset:
  assumes "mset ids = mset ids'" and "mset bds = mset bds'" and i: "mset ics = mset ics'" and b: "mset bcs = mset bcs'"
  shows "contract_stage T ids ics bds bcs = contract_stage T ids' ics' bds' bcs'"
proof -
  have "mset (ids @ bds) = mset (ids' @ bds')" using assms by simp
  moreover have "duplicate_groups interface_key_of ics
        (\<lambda>k ms. duplicateContractDiagnostic (interface_key_String k) (interfaceOrigins ms)) order =
      duplicate_groups interface_key_of ics'
        (\<lambda>k ms. duplicateContractDiagnostic (interface_key_String k) (interfaceOrigins ms)) order" for order
    by (rule duplicate_groups_mset [OF i]) (rule reports_mset(2))
  moreover have "duplicate_groups binding_key_of bcs
        (\<lambda>k ms. duplicateContractDiagnostic (binding_key_String k) (bindingOrigins ms)) order =
      duplicate_groups binding_key_of bcs'
        (\<lambda>k ms. duplicateContractDiagnostic (binding_key_String k) (bindingOrigins ms)) order" for order
    by (rule duplicate_groups_mset [OF b]) (rule reports_mset(3))
  ultimately show ?thesis
    unfolding contract_stage_def Let_def graph_of_contracts_def contract_orders(1) [OF i] contract_orders(2) [OF b]
      single_candidates_mset [OF i] single_candidates_mset [OF b]
    by (simp only:) (rule stage_mset, assumption?)
qed

lemma compileContracts_mset:
  "mset ias = mset ias' \<Longrightarrow> mset bas = mset bas' \<Longrightarrow> compileContracts L E T ias bas = compileContracts L E T ias' bas'"
  unfolding compileContracts_stages by (rule contract_stage_mset) (auto intro: compile_all_mset)

lemma default_of_mset:
  assumes "mset pins = mset pins'"
  shows "default_of pins forms g = default_of pins' forms g"
proof (cases "\<exists>p. group_all pin_group pins g = [p]")
  case True
  then obtain p where p: "group_all pin_group pins g = [p]" by blast
  then have "group_all pin_group pins' g = [p]" using group_all_one [OF assms, of pin_group g] by simp
  with p show ?thesis by (simp only: default_of_def Let_def)
next
  case False
  then have F: "\<nexists>p. group_all pin_group pins' g = [p]" using group_all_one [OF assms, of pin_group g] by simp
  have l: "length (group_all pin_group pins g) = length (group_all pin_group pins' g)"
    using assms by (rule group_all_length)
  show ?thesis
  proof (cases "group_all pin_group pins g = []")
    case True
    with l have "group_all pin_group pins' g = []" by simp
    with True show ?thesis by (simp only: default_of_def Let_def)
  next
    case ne: False
    then obtain p q r where x: "group_all pin_group pins g = p # q # r"
      using False by (metis list.exhaust)
    obtain p' q' r' where y: "group_all pin_group pins' g = p' # q' # r'"
      using l F x by (metis list.exhaust list.size(3) nat.distinct(1) length_Cons)
    show ?thesis unfolding default_of_def Let_def l by (simp only: x y list.case)
  qed
qed

lemma default_groups_mset: "mset pins = mset pins' \<Longrightarrow> default_groups pins ks = default_groups pins' ks"
  unfolding default_groups_def
  by (rule group_kinds.sort_by_cong)
    (use mset_eq_setD [of pins pins'] in \<open>auto simp: set_eq_iff_mset_remdups_eq [symmetric]\<close>)

lemma compileDefaults_mset:
  "mset pins = mset pins' \<Longrightarrow> compileDefaults pins ks forms = compileDefaults pins' ks forms"
  using default_groups_mset [of pins pins' ks] default_of_mset [of pins pins' forms]
  by (simp add: compileDefaults_def cong: map_cong)

section \<open>The compilation\<close>

text \<open>The supplied Forms have versions that parse.\<close>

definition versions_parse :: "libs \<Rightarrow> 'v engines \<Rightarrow> texts \<Rightarrow> compile_input \<Rightarrow> bool" where
  "versions_parse L E T i \<longleftrightarrow>
     (\<forall>a\<in>set (in_packages i). \<forall>f. compileArtifact L E T a = Inr f \<longrightarrow> parsed_key E (form_key_of f))"

definition same_input :: "compile_input \<Rightarrow> compile_input \<Rightarrow> bool" where
  "same_input i j \<longleftrightarrow> in_hostAPI i = in_hostAPI j \<and> mset (in_packages i) = mset (in_packages j) \<and>
     mset (in_interfaces i) = mset (in_interfaces j) \<and> mset (in_bindings i) = mset (in_bindings j) \<and>
     mset (in_defaultCreates i) = mset (in_defaultCreates j)"

lemma form_order_mset:
  assumes "semver_order E" and "mset fs = mset fs'" and "\<forall>f\<in>set fs. parsed_key E (form_key_of f)"
  shows "sortedKeys E (remdups (map form_key_of fs)) = sortedKeys E (remdups (map form_key_of fs'))"
  unfolding sortedKeys_def
  by (rule total_less.sort_by_cong [OF lessKey_total [OF assms(1)]]) (use assms(2,3) keys_mset in auto)

lemma compile_mset:
  assumes "semver_order E" and "versions_parse L E T i" and "same_input i j"
  shows "Compile L E T i = Compile L E T j"
proof -
  obtain ds fs where a: "compile_all (compileArtifact L E T) (in_packages i) = (ds, fs)"
    by (metis prod.collapse)
  obtain ds' fs' where b: "compile_all (compileArtifact L E T) (in_packages j) = (ds', fs')"
    by (metis prod.collapse)
  note s = assms(3) [unfolded same_input_def]
  have m: "mset ds = mset ds'" "mset fs = mset fs'"
    using compile_all_mset [of "in_packages i" "in_packages j" "compileArtifact L E T"] s by (simp_all add: a b)
  have "\<forall>f\<in>set fs. parsed_key E (form_key_of f)"
    using assms(2) compile_all_set(1) [of "compileArtifact L E T" "in_packages i"]
    by (auto simp: a versions_parse_def)
  then have ks: "sortedKeys E (remdups (map form_key_of fs)) = sortedKeys E (remdups (map form_key_of fs'))"
    using form_order_mset [OF assms(1) m(2)] by blast
  have d: "duplicate_groups form_key_of fs duplicateFormDiagnostic order =
      duplicate_groups form_key_of fs' duplicateFormDiagnostic order" for order
    using m(2) reports_mset(1) by (rule duplicate_groups_mset)
  have c: "compileContracts L E T (in_interfaces i) (in_bindings i) = compileContracts L E T (in_interfaces j) (in_bindings j)"
    using s compileContracts_mset by blast
  have pins: "compileDefaults (in_defaultCreates i) ks forms = compileDefaults (in_defaultCreates j) ks forms" for ks forms
    using s compileDefaults_mset by blast
  have h: "in_hostAPI i = in_hostAPI j" using s by blast
  show ?thesis
    unfolding Compile_def a b prod.case Let_def ks single_candidates_mset [OF m(2)] d c pins h stage_mset [OF m(1)]
    by (rule refl)
qed

text \<open>
  C3. Provided the versions of the supplied Forms parse and the semantic-version library orders the
  versions it parses, the result of \<open>Compile\<close>, snapshot or diagnostics, is the same for every order
  of the packages, Interfaces, Bindings and default pins. Without the first proviso it need not be.
\<close>

theorem compile_order_independent:
  assumes "semver_order E" and "versions_parse L E T i" and "same_input i j"
  shows "Compile L E T i = Compile L E T j"
  using assms by (rule compile_mset)

text \<open>
  Without that proviso the order is not one: a version whose number does not fit the
  library's integers is compared as text with the two it is compared to, so three versions
  that the Definition schema accepts precede each other in a circle.
\<close>

theorem version_order_cycle:
  assumes "en_semver E ''9.0.0'' = Some a" and "en_semver E ''10.0.0'' = Some b"
    and "en_semver E ''100000000000000000000.0.0'' = None" and "\<not> en_equals E a b" and "en_less E a b"
  shows "lessKey E \<lparr>ek_group = g, ek_kind = k, ek_version = ''9.0.0'', ek_digest = d\<rparr>
           \<lparr>ek_group = g, ek_kind = k, ek_version = ''10.0.0'', ek_digest = e\<rparr> \<and>
     lessKey E \<lparr>ek_group = g, ek_kind = k, ek_version = ''10.0.0'', ek_digest = e\<rparr>
       \<lparr>ek_group = g, ek_kind = k, ek_version = ''100000000000000000000.0.0'', ek_digest = f\<rparr> \<and>
     lessKey E \<lparr>ek_group = g, ek_kind = k, ek_version = ''100000000000000000000.0.0'', ek_digest = f\<rparr>
       \<lparr>ek_group = g, ek_kind = k, ek_version = ''9.0.0'', ek_digest = d\<rparr>"
  using assms by (simp add: lessKey_def less_char_def)

end
