(* ===== verification/CorpusVerify.thy ===== *)
theory CorpusVerify
  imports CorpusFiles SnapshotOrder
begin

text \<open>
  The runner of \<^verbatim>\<open>genericconformance/genericconformance.go\<close>: it verifies every package and contract
  a corpus names, compiles each input into a Snapshot, and checks the roster, the defaults and
  what the two inputs prove together. Two of its checks, that a permuted input compiles to the
  same Snapshot and that a tampered or repeated package never compiles, are properties of the
  compiler that this development proves; the last section shows that they never fail.
\<close>

section \<open>Orders and formats\<close>

definition formatFormRef :: "form_ref \<Rightarrow> bytes" where
  "formatFormRef r =
     fr_apiVersion r @ ''/'' @ fr_kind r @ ''@'' @ fr_definitionVersion r @ ''#'' @ fr_schemaDigest r"

definition formatDiagnostics :: "diagnostic list \<Rightarrow> bytes" where
  "formatDiagnostics ds =
     (if ds = [] then ''no diagnostics''
      else join_with '', '' (map (\<lambda>d. dg_code d @ ''('' @ dg_subject d @ '')'') ds))"

definition lessInterfaceRef :: "interface_ref \<Rightarrow> interface_ref \<Rightarrow> bool" where
  "lessInterfaceRef a b =
     (if if_apiVersion a \<noteq> if_apiVersion b then if_apiVersion a < if_apiVersion b
      else if if_name a \<noteq> if_name b then if_name a < if_name b
      else if if_version a \<noteq> if_version b then if_version a < if_version b
      else if_schemaDigest a < if_schemaDigest b)"

definition lessBindingRef :: "binding_ref \<Rightarrow> binding_ref \<Rightarrow> bool" where
  "lessBindingRef a b =
     (if br_apiVersion a \<noteq> br_apiVersion b then br_apiVersion a < br_apiVersion b
      else if br_name a \<noteq> br_name b then br_name a < br_name b
      else if br_version a \<noteq> br_version b then br_version a < br_version b
      else br_schemaDigest a < br_schemaDigest b)"

definition sortedInterfaceRefs :: "interface_ref list \<Rightarrow> interface_ref list" where
  "sortedInterfaceRefs xs = sort_by lessInterfaceRef xs"

definition sortedBindingRefs :: "binding_ref list \<Rightarrow> binding_ref list" where
  "sortedBindingRefs xs = sort_by lessBindingRef xs"

definition sortedDefaultPins :: "default_pin list \<Rightarrow> default_pin list" where
  "sortedDefaultPins pins =
     sort_by (\<lambda>a b. if dp_group a \<noteq> dp_group b then dp_group a < dp_group b else dp_kind a < dp_kind b) pins"

section \<open>Errors\<close>

datatype identity_error =
    IdentityInvalid contract_error | IdentityDigest canonical_error | IdentityDigestDiffers bytes bytes
  | IdentityDecode

datatype artifact_error =
    PackagePath relative_error | NotIndexPath | PackageDigestForm | RepeatedPath
  | PackageInvalid "copy_error + package_error" | NoCapability | PackageDigestDiffers bytes bytes
  | RepeatedFormRef form_ref
  | ContractPath relative_error | ContractDigestForm | ContractRead regular_error | ContractIdentity identity_error

datatype roster_error =
    ProvenanceChanged form_ref | FormRosterDrift | InterfaceRosterDrift | InterfaceArtifactDrift
  | BindingRosterDrift | BindingArtifactDrift | DefaultDrift bytes bytes | HiddenArtifacts

datatype probe_error =
    PermutationFailed "diagnostic list" | PermutationDigest bytes bytes | TamperedAccepted | DuplicateAccepted

text \<open>An artifact is named by its input and its path, a check by its input.\<close>

datatype corpus_error =
    BadManifest manifest_error | OpenCorpusRoot | NamelessInput | Artifact bytes bytes artifact_error
  | NotCompiled bytes "diagnostic list" | IncompleteIdentity bytes
  | Roster bytes roster_error | Probe bytes probe_error
  | CorpusIncomplete | ZeroNotEmpty | ZeroNoDigest | ExternalEmpty | NoGroupProof | NoVersionProof

section \<open>Contracts\<close>

definition identity_document :: "(bytes \<times> bytes \<times> bytes) struct_fields" where
  "identity_document =
     [(''apiVersion'', member dec_str fst apfst),
      (''name'', member dec_str (fst \<circ> snd) (apsnd \<circ> apfst)),
      (''version'', member dec_str (snd \<circ> snd) (apsnd \<circ> apsnd))]"

definition contract_identity ::
  "libs \<Rightarrow> contract_error option \<Rightarrow> bytes \<Rightarrow> bytes \<Rightarrow> identity_error + bytes \<times> bytes \<times> bytes \<times> bytes" where
  "contract_identity L invalid raw expected =
     (case invalid of
        Some e \<Rightarrow> Inl (IdentityInvalid e)
      | None \<Rightarrow>
          (case DigestCanonicalJSON (lib_transform L) raw of
             Inl e \<Rightarrow> Inl (IdentityDigest e)
           | Inr digest \<Rightarrow>
               if digest \<noteq> expected then Inl (IdentityDigestDiffers digest expected)
               else (case Unmarshal raw (dec_struct False identity_document) ([], [], []) of
                       None \<Rightarrow> Inl IdentityDecode
                     | Some (api, name, version) \<Rightarrow> Inr (api, name, version, digest))))"

definition interfaceIdentity :: "libs \<Rightarrow> bytes \<Rightarrow> bytes \<Rightarrow> identity_error + interface_ref" where
  "interfaceIdentity L raw expected =
     bind_res (contract_identity L (ValidateInterfaceDefinition L raw) raw expected) (\<lambda>(api, name, version, digest).
       Inr \<lparr>if_apiVersion = api, if_name = name, if_version = version, if_schemaDigest = digest\<rparr>)"

definition bindingIdentity :: "libs \<Rightarrow> 'v engines \<Rightarrow> bytes \<Rightarrow> bytes \<Rightarrow> identity_error + binding_ref" where
  "bindingIdentity L E raw expected =
     bind_res (contract_identity L (ValidateBindingDefinition L E raw) raw expected) (\<lambda>(api, name, version, digest).
       Inr \<lparr>br_apiVersion = api, br_name = name, br_version = version, br_schemaDigest = digest\<rparr>)"

section \<open>Artifacts\<close>

text \<open>The paths of all artifacts of an input seen so far are shared by the three loops.\<close>

type_synonym seen = "bytes list"

type_synonym loaded_packages = "seen \<times> (form_ref \<times> bytes) list \<times> package_artifact list"
type_synonym 'r loaded_contracts = "seen \<times> 'r list \<times> contract_artifact list"

definition load_package ::
  "'w platform \<Rightarrow> 'w staging \<Rightarrow> 'w corpus_os \<Rightarrow> libs \<Rightarrow> 'v engines \<Rightarrow> nat \<Rightarrow> bytes \<Rightarrow>
     loaded_packages \<Rightarrow> package_input \<Rightarrow> ('w, artifact_error, loaded_packages) action" where
  "load_package OS ST CO L E rt dir loaded item =
     (let paths = fst loaded; digests = fst (snd loaded); artifacts = snd (snd loaded);
          canonicalPath = path_clean (pin_path item) in
     bind_io (via PackagePath (resolveRelative OS dir (pin_path item) False)) (\<lambda>indexPath.
     check_io (guard_err (path_base indexPath = PackageIndexFilename) NotIndexPath)
     (check_io (guard_err (ValidDigest (pin_packageDigest item)) PackageDigestForm)
     (check_io (guard_err (\<not> List.member paths canonicalPath) RepeatedPath)
     (bind_io (via PackageInvalid (verifyStagedPackage OS ST CO L E rt (path_dir (pin_path item)))) (\<lambda>report.
      let verified = fst (report_VerifiedPackage report); ok = snd (report_VerifiedPackage report);
          got = package_PackageDigest verified; ref = package_FormRef verified in
      check_io (guard_err ok NoCapability)
      (check_io (guard_err (got = pin_packageDigest item) (PackageDigestDiffers got (pin_packageDigest item)))
      (check_io (guard_err (map_of digests ref = None) (RepeatedFormRef ref))
        (return_io (canonicalPath # paths, (ref, pin_packageDigest item) # digests,
           artifacts @ [\<lparr>pa_origin = ''generic-conformance://'' @ pin_path item,
              pa_expectedDigest = pin_packageDigest item, pa_package = verified\<rparr>]))))))))))"

definition load_contract ::
  "(bytes \<Rightarrow> bytes \<Rightarrow> identity_error + 'r) \<Rightarrow> 'w platform \<Rightarrow> 'w corpus_os \<Rightarrow> nat \<Rightarrow> bytes \<Rightarrow>
     'r loaded_contracts \<Rightarrow> contract_input \<Rightarrow> ('w, artifact_error, 'r loaded_contracts) action" where
  "load_contract identity_of OS CO rt dir loaded item =
     (let paths = fst loaded; refs = fst (snd loaded); artifacts = snd (snd loaded);
          canonicalPath = path_clean (cin_path item) in
     bind_io (via ContractPath (resolveRelative OS dir (cin_path item) False)) (\<lambda>_.
     check_io (guard_err (\<not> List.member paths canonicalPath) RepeatedPath)
     (check_io (guard_err (ValidDigest (cin_schemaDigest item)) ContractDigestForm)
     (bind_io (via ContractRead (readRegularRoot OS CO rt (cin_path item))) (\<lambda>raw.
      lift_io (case identity_of raw (cin_schemaDigest item) of
           Inl e \<Rightarrow> Inl (ContractIdentity e) | Inr ref \<Rightarrow> Inr ref) (\<lambda>ref.
      return_io (canonicalPath # paths, refs @ [ref],
        artifacts @ [\<lparr>ca_origin = cin_path item, ca_expectedDigest = cin_schemaDigest item,
           ca_definition = raw\<rparr>])))))))"

section \<open>Checks of a compiled input\<close>

text \<open>\<^verbatim>\<open>reflect.DeepEqual\<close> tells the \<^verbatim>\<open>nil\<close> roster of a manifest that has none from the empty one.\<close>

definition assertSnapshotRoster ::
  "snapshot_input \<Rightarrow> snapshot \<Rightarrow> (form_ref \<times> bytes) list \<Rightarrow> interface_ref list \<Rightarrow> binding_ref list \<Rightarrow>
     roster_error option" where
  "assertSnapshotRoster input s packageDigests interfaceRefs bindingRefs =
     (let gotInterfaces = snapshot_Interfaces (Some s);
          gotBindings = map bp_ref (snapshot_Bindings (Some s)) in
      first_err
       [first_err (map (\<lambda>(ref, digest). guard_err (map_of packageDigests ref = Some digest) (ProvenanceChanged ref))
          (snapshot_Forms (Some s))),
        guard_err (si_expectedFormRefs input = Some (map fst (snapshot_Forms (Some s)))) FormRosterDrift,
        (if si_expectedInterfaces input \<noteq> [] then
           guard_err (gotInterfaces = sortedInterfaceRefs (si_expectedInterfaces input)) InterfaceRosterDrift
         else guard_err (gotInterfaces = sortedInterfaceRefs interfaceRefs) InterfaceArtifactDrift),
        (if si_expectedBindings input \<noteq> [] then
           guard_err (gotBindings = sortedBindingRefs (si_expectedBindings input)) BindingRosterDrift
         else guard_err (gotBindings = sortedBindingRefs bindingRefs) BindingArtifactDrift),
        first_err (map (\<lambda>pin. guard_err (snapshot_Default (Some s) (dp_group pin) (dp_kind pin) = Some (dp_ref pin))
            (DefaultDrift (dp_group pin) (dp_kind pin))) (si_defaultCreates input)),
        (if (case si_expectedFormRefs input of None \<Rightarrow> True | Some refs \<Rightarrow> refs = []) then
           guard_err (si_packages input = [] \<and> si_interfaces input = [] \<and> si_bindings input = [] \<and>
             si_defaultCreates input = [] \<and> gotInterfaces = [] \<and> gotBindings = []) HiddenArtifacts
         else None)])"

definition reversed_input :: "compile_input \<Rightarrow> compile_input" where
  "reversed_input i =
     i\<lparr>in_packages := rev (in_packages i), in_interfaces := rev (in_interfaces i),
       in_bindings := rev (in_bindings i), in_defaultCreates := rev (in_defaultCreates i)\<rparr>"

definition assertPermutationStable ::
  "libs \<Rightarrow> 'v engines \<Rightarrow> texts \<Rightarrow> compile_input \<Rightarrow> snapshot \<Rightarrow> probe_error option" where
  "assertPermutationStable L E T input original =
     (case Compile L E T (reversed_input input) of
        Inl ds \<Rightarrow> Some (PermutationFailed ds)
      | Inr permuted \<Rightarrow>
          guard_err (snapshot_Digest (Some permuted) = snapshot_Digest (Some original))
            (PermutationDigest (snapshot_Digest (Some original)) (snapshot_Digest (Some permuted))))"

definition zero_digest :: bytes where "zero_digest = ''sha256:'' @ replicate 64 CHR ''0''"

definition tampered_input :: "compile_input \<Rightarrow> compile_input" where
  "tampered_input i = i\<lparr>in_packages := (in_packages i)[0 := (in_packages i ! 0)\<lparr>pa_expectedDigest := zero_digest\<rparr>]\<rparr>"

definition duplicated_input :: "compile_input \<Rightarrow> compile_input" where
  "duplicated_input i = i\<lparr>in_packages := in_packages i @ [in_packages i ! 0]\<rparr>"

text \<open>\<open>Compile\<close> never returns an empty list of diagnostics without a Snapshot.\<close>

definition assertNoPartialCompilation ::
  "libs \<Rightarrow> 'v engines \<Rightarrow> texts \<Rightarrow> compile_input \<Rightarrow> probe_error option" where
  "assertNoPartialCompilation L E T input =
     (if in_packages input = [] then None
      else (case Compile L E T (tampered_input input) of
              Inr _ \<Rightarrow> Some TamperedAccepted
            | Inl ds \<Rightarrow>
                if ds = [] then Some TamperedAccepted
                else (case Compile L E T (duplicated_input input) of
                        Inr _ \<Rightarrow> Some DuplicateAccepted
                      | Inl ds \<Rightarrow> guard_err (ds \<noteq> []) DuplicateAccepted)))"

section \<open>Compiling an input\<close>

record snapshot_report =
  sr_name :: bytes
  sr_snapshotDigest :: bytes
  sr_formRefs :: "form_ref list"
  sr_interfaces :: "interface_ref list"
  sr_bindings :: "binding_public list"
  sr_defaults :: "default_pin list"

record compiled_input =
  ci_snapshot :: snapshot
  ci_report :: snapshot_report
  ci_input :: snapshot_input
  ci_core :: compile_input

definition compile_and_check ::
  "libs \<Rightarrow> 'v engines \<Rightarrow> texts \<Rightarrow> snapshot_input \<Rightarrow> compile_input \<Rightarrow> (form_ref \<times> bytes) list \<Rightarrow>
     interface_ref list \<Rightarrow> binding_ref list \<Rightarrow> corpus_error + compiled_input" where
  "compile_and_check L E T input core packageDigests interfaceRefs bindingRefs =
     (let name = si_name input in
      case Compile L E T core of
        Inl ds \<Rightarrow> Inl (NotCompiled name ds)
      | Inr s \<Rightarrow>
          if snapshot_HostAPI (Some s) \<noteq> in_hostAPI core \<or> \<not> ValidDigest (snapshot_Digest (Some s))
          then Inl (IncompleteIdentity name)
          else check_then (map_option (Roster name) (assertSnapshotRoster input s packageDigests interfaceRefs bindingRefs))
            (check_then (map_option (Probe name) (assertPermutationStable L E T core s))
            (check_then (map_option (Probe name) (assertNoPartialCompilation L E T core))
              (Inr \<lparr>ci_snapshot = s,
                 ci_report = \<lparr>sr_name = name, sr_snapshotDigest = snapshot_Digest (Some s),
                   sr_formRefs = map fst (snapshot_Forms (Some s)),
                   sr_interfaces = snapshot_Interfaces (Some s), sr_bindings = snapshot_Bindings (Some s),
                   sr_defaults = sortedDefaultPins (si_defaultCreates input)\<rparr>,
                 ci_input = input, ci_core = core\<rparr>))))"

definition compileInput ::
  "'w platform \<Rightarrow> 'w staging \<Rightarrow> 'w corpus_os \<Rightarrow> libs \<Rightarrow> 'v engines \<Rightarrow> texts \<Rightarrow> nat \<Rightarrow> bytes \<Rightarrow> bytes \<Rightarrow>
     snapshot_input \<Rightarrow> ('w, corpus_error, compiled_input) action" where
  "compileInput OS ST CO L E T rt dir hostAPI input =
     check_io (guard_err (si_name input \<noteq> []) NamelessInput)
     (bind_io (fold_io (\<lambda>s item. via (Artifact (si_name input) (pin_path item))
          (load_package OS ST CO L E rt dir s item)) ([], [], []) (si_packages input))
        (\<lambda>(paths, digests, packages).
      bind_io (fold_io (\<lambda>s item. via (Artifact (si_name input) (cin_path item))
          (load_contract (interfaceIdentity L) OS CO rt dir s item)) (paths, [], []) (si_interfaces input))
        (\<lambda>(paths, interfaceRefs, interfaces).
      bind_io (fold_io (\<lambda>s item. via (Artifact (si_name input) (cin_path item))
          (load_contract (bindingIdentity L E) OS CO rt dir s item)) (paths, [], []) (si_bindings input))
        (\<lambda>(paths, bindingRefs, bindings).
      lift_io (compile_and_check L E T input
         \<lparr>in_hostAPI = hostAPI, in_packages = packages, in_interfaces = interfaces, in_bindings = bindings,
          in_defaultCreates = si_defaultCreates input\<rparr> digests interfaceRefs bindingRefs) return_io))))"

section \<open>The corpus\<close>

definition form_identity :: "form_ref \<Rightarrow> bytes" where
  "form_identity r = fr_apiVersion r @ CHR 0x00 # fr_kind r"

definition proveCorpus :: "(bytes \<times> compiled_input) list \<Rightarrow> corpus_error option" where
  "proveCorpus compiled =
     (case (map_of compiled ''zero-family'', map_of compiled ''external-family'') of
        (Some zero, Some external) \<Rightarrow>
          (let z = Some (ci_snapshot zero); refs = map fst (snapshot_Forms (Some (ci_snapshot external))) in
           if snapshot_Forms z \<noteq> [] \<or> snapshot_Interfaces z \<noteq> [] \<or> snapshot_Bindings z \<noteq> [] \<or>
              si_defaultCreates (ci_input zero) \<noteq> [] then Some ZeroNotEmpty
           else if \<not> ValidDigest (snapshot_Digest z) then Some ZeroNoDigest
           else if refs = [] then Some ExternalEmpty
           else if \<not> list_ex (\<lambda>r. length (remdups (map fr_apiVersion (filter (\<lambda>q. fr_kind q = fr_kind r) refs))) \<ge> 2) refs
           then Some NoGroupProof
           else if \<not> list_ex (\<lambda>r. length (remdups (map fr_definitionVersion
                  (filter (\<lambda>q. form_identity q = form_identity r) refs))) \<ge> 2) refs
           then Some NoVersionProof else None)
      | _ \<Rightarrow> Some CorpusIncomplete)"

record corpus_check =
  ck_name :: bytes
  ck_status :: bytes

record corpus_report =
  cr_format :: bytes
  cr_status :: bytes
  cr_hostAPILane :: bytes
  cr_manifestDigest :: bytes
  cr_snapshots :: "snapshot_report list"
  cr_checks :: "corpus_check list"
  cr_errors :: "bytes list"

definition newReport :: corpus_report where
  "newReport = \<lparr>cr_format = ReportFormat, cr_status = ''failed'', cr_hostAPILane = [], cr_manifestDigest = [],
     cr_snapshots = [], cr_checks = [], cr_errors = []\<rparr>"

definition corpus_checks :: "bytes list" where
  "corpus_checks =
     [''manifest-identity'', ''safe-relative-paths'', ''package-and-contract-digests'', ''snapshot-compilation'',
      ''exact-roster-and-defaults'', ''contract-closure'', ''identity-separation'', ''permutation-stable'',
      ''no-partial-snapshot'', ''zero-family-closure'']"

definition checked_as :: "bytes \<Rightarrow> bytes \<Rightarrow> corpus_check" where
  "checked_as status name = \<lparr>ck_name = name, ck_status = status\<rparr>"

text \<open>The text of an error is the parameter \<open>show_error\<close>.\<close>

definition failReport :: "corpus_report \<Rightarrow> bytes list \<Rightarrow> bytes \<Rightarrow> corpus_report" where
  "failReport report checks message =
     report\<lparr>cr_status := ''failed'', cr_errors := cr_errors report @ [message],
       cr_checks := foldl (\<lambda>acc check. if list_ex (\<lambda>c. ck_name c = check) acc then acc
           else acc @ [checked_as ''not-run'' check]) (cr_checks report) checks\<rparr>"

fun compile_inputs ::
  "(snapshot_input \<Rightarrow> ('w, corpus_error, compiled_input) action) \<Rightarrow> (bytes \<times> compiled_input) list \<Rightarrow>
     corpus_report \<Rightarrow> snapshot_input list \<Rightarrow> 'w \<Rightarrow>
     (corpus_error option \<times> (bytes \<times> compiled_input) list \<times> corpus_report) \<times> 'w" where
  "compile_inputs compile compiled report [] w = ((None, compiled, report), w)"
| "compile_inputs compile compiled report (input # inputs) w =
     (case compile input w of
        (Inl e, w') \<Rightarrow> ((Some e, compiled, report), w')
      | (Inr entry, w') \<Rightarrow>
          compile_inputs compile ((si_name input, entry) # compiled)
            (report\<lparr>cr_snapshots := cr_snapshots report @ [ci_report entry]\<rparr>) inputs w')"

definition pass_report :: "corpus_report \<Rightarrow> corpus_report" where
  "pass_report report =
     report\<lparr>cr_checks := cr_checks report @ map (checked_as ''passed'') corpus_checks, cr_status := ''passed''\<rparr>"

definition sort_snapshots :: "corpus_report \<Rightarrow> corpus_report" where
  "sort_snapshots report =
     report\<lparr>cr_snapshots := sort_by (\<lambda>a b. sr_name a < sr_name b) (cr_snapshots report)\<rparr>"

definition verify_inputs ::
  "'w platform \<Rightarrow> 'w staging \<Rightarrow> 'w corpus_os \<Rightarrow> libs \<Rightarrow> 'v engines \<Rightarrow> texts \<Rightarrow> (corpus_error \<Rightarrow> bytes) \<Rightarrow>
     corpus_report \<Rightarrow> manifest \<Rightarrow> nat \<Rightarrow> bytes \<Rightarrow> 'w \<Rightarrow> (corpus_report \<times> corpus_error option) \<times> 'w" where
  "verify_inputs OS ST CO L E T show_error report m rt dir w =
     (case compile_inputs (compileInput OS ST CO L E T rt dir (mf_hostAPILane m)) [] report (mf_snapshotInputs m) w of
        ((Some e, _, report'), w') \<Rightarrow> ((failReport report' corpus_checks (show_error e), Some e), w')
      | ((None, compiled, report'), w') \<Rightarrow>
          (case proveCorpus compiled of
             Some e \<Rightarrow> ((failReport (sort_snapshots report') corpus_checks (show_error e), Some e), w')
           | None \<Rightarrow> ((pass_report (sort_snapshots report'), None), w')))"

definition VerifyManifest ::
  "'w platform \<Rightarrow> 'w staging \<Rightarrow> 'w corpus_os \<Rightarrow> libs \<Rightarrow> 'v engines \<Rightarrow> texts \<Rightarrow> (corpus_error \<Rightarrow> bytes) \<Rightarrow> bytes \<Rightarrow>
     'w \<Rightarrow> (corpus_report \<times> corpus_error option) \<times> 'w" where
  "VerifyManifest OS ST CO L E T show_error manifestPath w =
     (case LoadManifest OS CO L manifestPath w of
        (Inl e, w1) \<Rightarrow> ((newReport\<lparr>cr_errors := [show_error (BadManifest e)]\<rparr>, Some (BadManifest e)), w1)
      | (Inr (m, raw), w1) \<Rightarrow>
          (let report = newReport\<lparr>cr_hostAPILane := mf_hostAPILane m, cr_manifestDigest := DigestBytes raw\<rparr> in
           case mustAbsolute CO manifestPath w1 of
             (absolute, w2) \<Rightarrow>
               (case co_openRoot CO (path_dir absolute) w2 of
                  (None, w3) \<Rightarrow> ((failReport report corpus_checks (show_error OpenCorpusRoot), Some OpenCorpusRoot), w3)
                | (Some rt, w3) \<Rightarrow>
                    (case verify_inputs OS ST CO L E T show_error report m rt (path_dir absolute) w3 of
                       (r, w4) \<Rightarrow> (r, os_close OS rt w4)))))"

end
