(* ===== verification/SnapshotDesired.thy ===== *)
theory SnapshotDesired
  imports SnapshotProofs
begin

text \<open>
  Desired documents of a compiled Form. \<^verbatim>\<open>Materialize\<close> returns canonical bytes, so the promise
  of its comment is one about bytes: leaving a default out and writing it out, anywhere in the
  object, give the same answer. It rests on the marshaller's sorting of map keys.
\<close>

section \<open>Marshalling depends on the members only\<close>

fun join_fields :: "(bytes \<times> bytes) list \<Rightarrow> bytes" where
  "join_fields [] = []"
| "join_fields ((k, t) # m) =
     encode_string k @ CHR '':'' # t @ (if m = [] then [] else CHR '','' # join_fields m)"

definition member_texts :: "object \<Rightarrow> (bytes \<times> bytes) list" where
  "member_texts m = map (\<lambda>(k, v). (k, marshal_any v)) m"

definition pair_less :: "bytes \<times> 'a \<Rightarrow> bytes \<times> 'a \<Rightarrow> bool" where
  "pair_less p q \<longleftrightarrow> fst p < fst q"

lemma map_insert_by:
  "(\<And>x y. lt x y \<longleftrightarrow> lt' (g x) (g y)) \<Longrightarrow> map g (insert_by lt x ys) = insert_by lt' (g x) (map g ys)"
  by (induction ys) auto

lemma map_sort_by:
  "(\<And>x y. lt x y \<longleftrightarrow> lt' (g x) (g y)) \<Longrightarrow> map g (sort_by lt xs) = sort_by lt' (map g xs)"
  by (induction xs) (auto simp: map_insert_by)

lemma encode_fields_join: "encode_fields m = join_fields (map (\<lambda>(k, v). (k, json_encode v)) m)"
  by (induction m) auto

lemma sort_maps_fields_map: "sort_maps_fields m = map (\<lambda>(k, v). (k, sort_maps v)) m"
  by (induction m) auto

lemma marshal_object:
  "marshal_any (VObj m) = CHR ''{'' # join_fields (sort_by pair_less (member_texts m)) @ ''}''"
proof -
  have "map (\<lambda>(k, v). (k, json_encode v)) (sort_by key_less (sort_maps_fields m)) =
      sort_by pair_less (map (\<lambda>(k, v). (k, json_encode v)) (sort_maps_fields m))"
    by (rule map_sort_by) (auto simp: key_less_def pair_less_def split: prod.split)
  also have "map (\<lambda>(k, v). (k, json_encode v)) (sort_maps_fields m) = member_texts m"
    by (simp add: member_texts_def sort_maps_fields_map marshal_any_def case_prod_beta)
  finally show ?thesis by (simp add: marshal_any_def encode_fields_join)
qed

lemma pair_less_total:
  fixes l :: "(bytes \<times> 'a) list"
  shows "distinct (map fst l) \<Longrightarrow> total_less pair_less (\<lambda>p. p \<in> set l)"
  unfolding pair_less_def
proof
  fix x y :: "bytes \<times> 'a"
  assume d: "distinct (map fst l)" and m: "x \<in> set l" "y \<in> set l" and "x \<noteq> y"
  then have "fst x \<noteq> fst y" by (metis eq_key_imp_eq_value prod.collapse)
  then show "fst x < fst y \<or> fst y < fst x" by (simp add: neq_iff)
qed auto

lemma marshal_object_cong:
  assumes "distinct (keys m)" and "mset (member_texts m) = mset (member_texts m')"
  shows "marshal_any (VObj m) = marshal_any (VObj m')"
proof -
  have "map fst (member_texts m) = keys m" by (simp add: member_texts_def case_prod_beta comp_def)
  then have "total_less pair_less (\<lambda>p. p \<in> set (member_texts m))"
    using assms(1) by (intro pair_less_total) simp
  then have "sort_by pair_less (member_texts m) = sort_by pair_less (member_texts m')"
    using assms(2) by (rule total_less.sort_by_cong) simp
  then show ?thesis by (simp add: marshal_object)
qed

section \<open>Writing a default out\<close>

definition object_schema :: "object \<Rightarrow> object \<Rightarrow> bool" where
  "object_schema schema props \<longleftrightarrow> union_discriminator schema = [] \<and> str_member schema ''type'' = ''object'' \<and>
     field schema ''properties'' = VObj props \<and> distinct (keys props)"

definition declares_default :: "object \<Rightarrow> bytes \<Rightarrow> object \<Rightarrow> bool" where
  "declares_default props n p \<longleftrightarrow> field props n = VObj p \<and> has_key p ''default''"

lemma materialize_keys:
  assumes "distinct (keys obj)" and "distinct (keys props)"
  shows "distinct (keys (map (member_value s) obj @ default_members s obj props))"
proof -
  have d: "keys (default_members s obj props) =
      keys (filter (\<lambda>(n, raw). \<not> has_key obj n \<and> property_default raw \<noteq> None) props)"
    unfolding default_members_def
    by (induction props) (auto split: option.splits)
  have "distinct (keys (default_members s obj props))"
    unfolding d using assms(2) by (rule distinct_map_filter)
  moreover have "set (keys (default_members s obj props)) \<inter> set (keys obj) = {}"
    unfolding d has_key_keys by force
  moreover have "keys (map (member_value s) obj) = keys obj" by (simp add: member_value_def comp_def)
  ultimately show ?thesis using assms(1) by (simp only: map_append distinct_append) blast
qed

lemma explicit_default_text:
  assumes s: "object_schema schema props" and p: "declares_default props n p"
    and o: "distinct (keys obj)" "\<not> has_key obj n" and m: "mset obj' = mset (obj @ [(n, w)])"
    and w: "marshal_any (materializeSchemaValue p w) = marshal_any (materializeSchemaValue p (field p ''default''))"
  shows "marshal_any (materializeSchemaValue schema (VObj obj')) = marshal_any (materializeSchemaValue schema (VObj obj))"
proof -
  note s' = s [unfolded object_schema_def] and p' = p [unfolded declares_default_def]
  have mem: "(n, VObj p) \<in> set props" using field_mem field_VNull_key p' by (metis gval.distinct(15))
  have c: "child_schema schema n = Some p" using s' p' by (simp add: child_schema_def map_or_nil_def)
  have pd: "property_default (VObj p) = Some (field p ''default'')"
    using p' by (simp add: property_default_def map_or_nil_def Let_def)
  have hk: "has_key obj' k \<longleftrightarrow> has_key (obj @ [(n, w)]) k" for k
    using mset_eq_setD [OF m] by (auto simp: has_key_keys)
  have dm: "default_members schema obj' props = default_members schema (obj @ [(n, w)]) props"
    by (simp only: default_members_def hk)
  let ?l = "map (member_value schema) obj' @ default_members schema obj' props"
  let ?r = "map (member_value schema) obj @ default_members schema obj props"
  have "mset ((n, materializeSchemaValue p (field p ''default'')) # default_members schema (obj @ [(n, w)]) props) =
      mset (default_members schema obj props)"
    using default_members_explicit [of props n "VObj p" "field p ''default''" obj schema w] s' mem pd o(2)
    by (simp add: map_or_nil_def)
  then have "image_mset (\<lambda>(k, v). (k, marshal_any v)) (mset ((n, materializeSchemaValue p (field p ''default'')) #
        default_members schema obj' props)) =
      image_mset (\<lambda>(k, v). (k, marshal_any v)) (mset (default_members schema obj props))"
    unfolding dm by (rule arg_cong)
  then have D: "image_mset (\<lambda>(k, v). (k, marshal_any v)) (mset (default_members schema obj props)) =
      add_mset (n, marshal_any (materializeSchemaValue p (field p ''default'')))
        (image_mset (\<lambda>(k, v). (k, marshal_any v)) (mset (default_members schema obj' props)))"
    by simp
  have "mset (map (member_value schema) obj') =
      add_mset (n, materializeSchemaValue p w) (mset (map (member_value schema) obj))"
    using m by (simp add: member_value_def c)
  then have M: "image_mset (\<lambda>(k, v). (k, marshal_any v)) (mset (map (member_value schema) obj')) =
      add_mset (n, marshal_any (materializeSchemaValue p w))
        (image_mset (\<lambda>(k, v). (k, marshal_any v)) (mset (map (member_value schema) obj)))"
    by simp
  have A: "mset (member_texts (xs @ ys)) = image_mset (\<lambda>(k, v). (k, marshal_any v)) (mset xs) +
      image_mset (\<lambda>(k, v). (k, marshal_any v)) (mset ys)" for xs ys
    by (simp add: member_texts_def)
  have "mset (member_texts ?l) = mset (member_texts ?r)"
    unfolding A M D w by simp
  moreover have "distinct (keys obj')"
  proof -
    have "mset (keys obj') = mset (keys (obj @ [(n, w)]))" using m by simp
    moreover have "distinct (keys (obj @ [(n, w)]))" using o by (simp add: has_key_keys)
    ultimately show ?thesis by (metis mset_eq_imp_distinct_iff)
  qed
  then have "distinct (keys ?l)" using s' by (intro materialize_keys) simp_all
  ultimately have "marshal_any (VObj ?l) = marshal_any (VObj ?r)" by (intro marshal_object_cong)
  then show ?thesis using s' by (simp add: materialize_object map_or_nil_def)
qed

text \<open>The JSON Schema validator judges a value by its JSON.\<close>

definition judges_text :: "'v engines \<Rightarrow> bool" where
  "judges_text E \<longleftrightarrow> (\<forall>name schema validates v w. en_inline E name schema = Some validates \<longrightarrow>
     marshal_any v = marshal_any w \<longrightarrow> validates v = validates w)"

lemma instance_by_text:
  assumes "judges_text E" and "marshal_any v = marshal_any w"
  shows "ValidateDesiredInstance U E schema v = ValidateDesiredInstance U E schema w"
proof -
  have e: "validates v = validates w" if "compileInlineSchema U E m n = Inr validates" for m n validates
    using that assms unfolding judges_text_def
    by (auto simp: compileInlineSchema_def split: option.splits)
  then show ?thesis
    by (auto simp: ValidateDesiredInstance_def split: option.splits sum.splits dest!: e)
qed

lemma Materialize_text:
  assumes "judges_text E" and a: "parseDocument a = Inr v" "lib_transform L a \<noteq> None"
    and b: "parseDocument b = Inr w" "lib_transform L b \<noteq> None"
    and f: "sn_forms s (keyFor r) = Some form"
    and m: "marshal_any (materializeSchemaValue (map_of_nil (fd_desiredSchema (cf_definition form))) v) =
      marshal_any (materializeSchemaValue (map_of_nil (fd_desiredSchema (cf_definition form))) w)"
  shows "snapshot_Materialize L E (Some s) r a = snapshot_Materialize L E (Some s) r b"
proof -
  have "DecodeStrictIJSON (lib_transform L) a (dec_any True) VNull = Inr v"
    "DecodeStrictIJSON (lib_transform L) b (dec_any True) VNull = Inr w"
    unfolding DecodeStrictIJSON_Inr using a b parsed_utf8 strict_any by blast+
  then show ?thesis
    using instance_by_text [OF assms(1) m] m by (simp add: snapshot_Materialize_def f Let_def)
qed

text \<open>
  Leaving a default out and writing it out give the same bytes: a desired document in which
  a member with a declared default is omitted, and one that has it anywhere among its members,
  with a value that marshals like the default, materialize to the same canonical bytes or to
  the same error.
\<close>

theorem explicit_default_bytes:
  assumes "judges_text E" and "sn_forms s (keyFor r) = Some form"
    and "object_schema (map_of_nil (fd_desiredSchema (cf_definition form))) props" and "declares_default props n p"
    and "parseDocument a = Inr (VObj obj)" and "lib_transform L a \<noteq> None" and "\<not> has_key obj n"
    and "parseDocument b = Inr (VObj obj')" and "lib_transform L b \<noteq> None" and "mset obj' = mset (obj @ [(n, w)])"
    and "marshal_any (materializeSchemaValue p w) = marshal_any (materializeSchemaValue p (field p ''default''))"
  shows "snapshot_Materialize L E (Some s) r b = snapshot_Materialize L E (Some s) r a"
proof (rule Materialize_text [OF assms(1) assms(8,9) assms(5,6) assms(2)])
  have "distinct (keys obj)" using parsed_wire [OF assms(5)] by simp
  with assms show "marshal_any (materializeSchemaValue (map_of_nil (fd_desiredSchema (cf_definition form))) (VObj obj')) =
      marshal_any (materializeSchemaValue (map_of_nil (fd_desiredSchema (cf_definition form))) (VObj obj))"
    by (intro explicit_default_text) assumption+
qed

end
