(* ===== verification/CorpusProofs.thy ===== *)
theory CorpusProofs
  imports CorpusVerify SnapshotDesired
begin

text \<open>
  What the corpus runner's verdict means: a report says passed exactly when no error comes with
  it, and two of the runner's checks can never fail, because the compiler they probe is
  deterministic up to order and never returns a partial result.
\<close>

section \<open>Refused inputs have diagnostics\<close>

lemma stage_Inl: "stage ds r = Inl es \<Longrightarrow> (\<And>es. r = Inl es \<Longrightarrow> es \<noteq> []) \<Longrightarrow> es \<noteq> []"
  by (auto simp: stage_def split: if_splits)

lemma compileContracts_Inl: "compileContracts L E T is bs = Inl es \<Longrightarrow> es \<noteq> []"
  by (auto simp: compileContracts_def stage_def case_prod_beta Let_def split: if_splits)

lemma Compile_Inl: "Compile L E T i = Inl ds \<Longrightarrow> ds \<noteq> []"
  by (auto simp: Compile_def Let_def case_prod_beta bind_res_def
    split: option.splits sum.splits elim!: stage_Inl dest: compileContracts_Inl)

section \<open>The self-checks\<close>

lemma reversed_same: "same_input i (reversed_input i)"
  by (simp add: same_input_def reversed_input_def)

lemma compile_all_cons:
  "compile_all f (x # xs) = ([], ys) \<longleftrightarrow> (\<exists>y zs. f x = Inr y \<and> compile_all f xs = ([], zs) \<and> ys = y # zs)"
  using compile_all_ok [of f "x # xs" ys] compile_all_ok [of f xs] by (auto simp: list_all2_Cons1)

lemma compiled_digest:
  "compileArtifact L E T a = Inr f \<Longrightarrow> package_PackageDigest (pa_package a) = pa_expectedDigest a"
  by (auto simp: compileArtifact_def Let_def split: if_splits)

lemma tampered_refused:
  assumes "compileArtifact L E T a = Inr f" and "pa_expectedDigest a \<noteq> zero_digest"
  shows "compileArtifact L E T (a\<lparr>pa_expectedDigest := zero_digest\<rparr>) \<noteq> Inr g"
  using compiled_digest [OF assms(1)] assms(2) compiled_digest [of L E T "a\<lparr>pa_expectedDigest := zero_digest\<rparr>" g] by auto

lemma compile_packages:
  assumes "Compile L E T i = Inr s"
  obtains fs where "list_all2 (\<lambda>a f. compileArtifact L E T a = Inr f) (in_packages i) fs"
    and "distinct (map form_key_of fs)"
proof -
  from assms obtain fs where "compile_all (compileArtifact L E T) (in_packages i) = ([], fs)"
      and "distinct (map form_key_of fs)"
    by (rule Compile_lists)
  with that compile_all_ok show ?thesis by metis
qed

lemma permutation_check:
  assumes "semver_order E" and "versions_parse L E T i" and "Compile L E T i = Inr s"
  shows "assertPermutationStable L E T i s = None"
proof -
  have "Compile L E T (reversed_input i) = Inr s" using compile_mset [OF assms(1,2) reversed_same] assms(3) by simp
  then show ?thesis by (simp add: assertPermutationStable_def)
qed

lemma partial_check:
  assumes compiled: "Compile L E T i = Inr s"
    and digest: "\<forall>a\<in>set (in_packages i). pa_expectedDigest a \<noteq> zero_digest"
  shows "assertNoPartialCompilation L E T i = None"
proof (cases "in_packages i")
  case (Cons a as)
  obtain fs where fs: "list_all2 (\<lambda>a f. compileArtifact L E T a = Inr f) (in_packages i) fs"
    using compile_packages [OF compiled] .
  with Cons obtain f where f: "compileArtifact L E T a = Inr f" by (auto simp: list_all2_Cons1)
  have "Compile L E T (tampered_input i) \<noteq> Inr t" for t
  proof
    assume "Compile L E T (tampered_input i) = Inr t"
    then obtain gs where "list_all2 (\<lambda>a f. compileArtifact L E T a = Inr f) (in_packages (tampered_input i)) gs"
      by (rule compile_packages)
    then obtain g where "compileArtifact L E T (a\<lparr>pa_expectedDigest := zero_digest\<rparr>) = Inr g"
      by (auto simp: tampered_input_def Cons list_all2_Cons1)
    with tampered_refused [OF f, of g] digest Cons show False by simp
  qed
  moreover have "Compile L E T (duplicated_input i) \<noteq> Inr t" for t
  proof
    assume "Compile L E T (duplicated_input i) = Inr t"
    then obtain gs where gs: "list_all2 (\<lambda>a f. compileArtifact L E T a = Inr f) (a # as @ [a]) gs"
        "distinct (map form_key_of gs)"
      by (rule compile_packages) (simp add: duplicated_input_def Cons)
    then obtain hs where "gs = f # hs @ [f]" using f by (auto simp: list_all2_Cons1 list_all2_append1)
    with gs(2) show False by simp
  qed
  ultimately show ?thesis
    using Compile_Inl [of L E T "tampered_input i"] Compile_Inl [of L E T "duplicated_input i"]
    by (auto simp: assertNoPartialCompilation_def Cons split: sum.splits)
qed (simp add: assertNoPartialCompilation_def)

text \<open>The checks of an input without the two probes of the compiler.\<close>

definition compile_and_check_roster ::
  "libs \<Rightarrow> 'v engines \<Rightarrow> texts \<Rightarrow> snapshot_input \<Rightarrow> compile_input \<Rightarrow> (form_ref \<times> bytes) list \<Rightarrow>
     interface_ref list \<Rightarrow> binding_ref list \<Rightarrow> corpus_error + snapshot" where
  "compile_and_check_roster L E T input core packageDigests interfaceRefs bindingRefs =
     (case Compile L E T core of
        Inl ds \<Rightarrow> Inl (NotCompiled (si_name input) ds)
      | Inr s \<Rightarrow>
          if sn_hostAPI s \<noteq> in_hostAPI core \<or> \<not> ValidDigest (sn_digest s) then Inl (IncompleteIdentity (si_name input))
          else check_then (map_option (Roster (si_name input)) (assertSnapshotRoster input s packageDigests interfaceRefs bindingRefs)) (Inr s))"

text \<open>
  C6. Provided the versions of the supplied Forms parse, the semantic-version library orders the
  versions it parses and no package is expected under the digest of zeros, the corpus runner's two
  probes of the compiler do not fail: an input passes all checks exactly if it compiles to a
  Snapshot with the expected roster and defaults, and the errors are the same. Reversing the input
  then leaves the Snapshot's digest as it is, and a tampered or a repeated package does not compile.
\<close>
theorem compiler_probes_pass:
  assumes "semver_order E" and "versions_parse L E T core"
    and "\<forall>a\<in>set (in_packages core). pa_expectedDigest a \<noteq> zero_digest"
  shows "bind_res (compile_and_check L E T input core digests interfaceRefs bindingRefs) (\<lambda>c. Inr (ci_snapshot c)) =
    compile_and_check_roster L E T input core digests interfaceRefs bindingRefs"
proof (cases "Compile L E T core")
  case (Inr s)
  then show ?thesis
    using permutation_check [OF assms(1,2)] partial_check [OF Inr assms(3)]
    by (simp add: compile_and_check_def compile_and_check_roster_def Let_def snapshot_HostAPI_def snapshot_Digest_def
      check_then_def split: option.splits)
qed (simp add: compile_and_check_def compile_and_check_roster_def Let_def)

section \<open>Reports\<close>

definition passed_report :: "corpus_report \<Rightarrow> bool" where
  "passed_report r \<longleftrightarrow>
     cr_status r = ''passed'' \<and> cr_errors r = [] \<and> cr_checks r = map (checked_as ''passed'') corpus_checks \<and>
     map sr_name (cr_snapshots r) = [''external-family'', ''zero-family'']"

definition failed_report :: "corpus_report \<Rightarrow> bytes \<Rightarrow> bool" where
  "failed_report r message \<longleftrightarrow>
     cr_status r = ''failed'' \<and> cr_errors r = [message] \<and> list_all (\<lambda>c. ck_status c = ''not-run'') (cr_checks r)"

lemma compile_inputs_report:
  assumes names: "\<And>i w e w'. compile i w = (Inr e, w') \<Longrightarrow> sr_name (ci_report e) = si_name i"
    and "compile_inputs compile compiled r inputs w = ((x, compiled', r'), w')"
  shows "cr_errors r' = cr_errors r \<and> cr_checks r' = cr_checks r \<and>
    (case x of Some e \<Rightarrow> True
     | None \<Rightarrow> map sr_name (cr_snapshots r') = map sr_name (cr_snapshots r) @ map si_name inputs)"
  using assms(2)
proof (induction inputs arbitrary: compiled r w)
  case (Cons i rest)
  show ?case
  proof (cases "compile i w")
    case (Pair y w1)
    then show ?thesis
    proof (cases y)
      case (Inr e)
      with Pair Cons.prems have "compile_inputs compile ((si_name i, e) # compiled)
          (r\<lparr>cr_snapshots := cr_snapshots r @ [ci_report e]\<rparr>) rest w1 = ((x, compiled', r'), w')" by simp
      from Cons.IH [OF this] names [of i w e w1] Pair Inr show ?thesis by (simp split: option.splits)
    qed (use Cons.prems in auto)
  qed
qed auto

lemma compile_and_check_name:
  "compile_and_check L E T input core digests irs brs = Inr c \<Longrightarrow> sr_name (ci_report c) = si_name input"
  by (cases "Compile L E T core")
    (auto simp: compile_and_check_def Let_def check_then_Inr split: if_splits)

lemma compileInput_name:
  assumes "compileInput OS ST CO L E T rt dir hostAPI input w = (Inr c, w')"
  shows "sr_name (ci_report c) = si_name input"
proof -
  from assms obtain core digests irs brs where "compile_and_check L E T input core digests irs brs = Inr c"
    unfolding compileInput_def by (auto simp: io_Inr case_prod_beta)
  then show ?thesis by (rule compile_and_check_name)
qed

lemma failed_failReport:
  assumes "cr_errors r = []" and "cr_checks r = []"
  shows "failed_report (failReport r checks message) message"
proof -
  have "list_all (\<lambda>c. ck_status c = ''not-run'') acc \<Longrightarrow>
      list_all (\<lambda>c. ck_status c = ''not-run'') (foldl (\<lambda>acc check. if list_ex (\<lambda>c. ck_name c = check) acc then acc
           else acc @ [checked_as ''not-run'' check]) acc checks)" for acc
    by (induction checks arbitrary: acc) (auto simp: checked_as_def)
  with assms show ?thesis by (simp add: failed_report_def failReport_def)
qed

lemma manifest_names:
  assumes "validateManifestShape m = None"
  shows "mset (map si_name (mf_snapshotInputs m)) = {#''external-family'', ''zero-family''#}"
proof -
  let ?names = "map si_name (mf_snapshotInputs m)"
  from assms have len: "length ?names = 2" and names: "''external-family'' \<in> set ?names" "''zero-family'' \<in> set ?names"
    by (auto simp: validateManifestShape_def Let_def split: if_splits)
  from len obtain a b where ab: "?names = [a, b]" by (cases ?names; cases "tl ?names") auto
  have "''external-family'' \<noteq> ''zero-family''" by simp
  with names ab consider "a = ''external-family''" "b = ''zero-family''" | "a = ''zero-family''" "b = ''external-family''"
    by (metis list.set_intros(1) set_ConsD empty_iff list.set(1))
  then show ?thesis unfolding ab by cases (simp_all add: add_mset_commute)
qed

lemma sorted_names:
  assumes "mset (map si_name inputs) = {#''external-family'', ''zero-family''#}"
    and "map sr_name (cr_snapshots r) = map si_name inputs"
  shows "map sr_name (cr_snapshots (sort_snapshots r)) = [''external-family'', ''zero-family'']"
proof -
  have "map sr_name (cr_snapshots (sort_snapshots r)) = sort_strings (map si_name inputs)"
    by (simp add: sort_snapshots_def sort_strings_def map_sort_by [of _ "(<)"] assms(2))
  also have "\<dots> = sort_strings [''external-family'', ''zero-family'']"
    by (rule sort_strings_mset) (use assms(1) in simp)
  also have "\<dots> = [''external-family'', ''zero-family'']" by (simp add: sort_strings_def)
  finally show ?thesis .
qed

lemma verify_inputs_report:
  assumes "cr_errors r = []" and "cr_checks r = []" and "cr_snapshots r = []" and "validateManifestShape m = None"
  shows "case fst (verify_inputs OS ST CO L E T show_error r m rt dir w) of
    (r', None) \<Rightarrow> passed_report r' | (r', Some e) \<Rightarrow> failed_report r' (show_error e)"
proof -
  let ?compile = "compileInput OS ST CO L E T rt dir (mf_hostAPILane m)"
  obtain x compiled r' w' where run: "compile_inputs ?compile [] r (mf_snapshotInputs m) w = ((x, compiled, r'), w')"
    by (metis prod.collapse)
  have named: "sr_name (ci_report c) = si_name i" if "?compile i w = (Inr c, w')" for i w c w'
    using that by (rule compileInput_name)
  have report: "cr_errors r' = [] \<and> cr_checks r' = [] \<and>
      (case x of Some e \<Rightarrow> True | None \<Rightarrow> map sr_name (cr_snapshots r') = map si_name (mf_snapshotInputs m))"
    using compile_inputs_report [of ?compile, OF _ run] named assms(1-3) by (cases x) simp_all
  show ?thesis
  proof (cases x)
    case None
    with report have names: "map sr_name (cr_snapshots (sort_snapshots r')) = [''external-family'', ''zero-family'']"
      using sorted_names [OF manifest_names [OF assms(4)]] by simp
    have kept: "cr_errors (sort_snapshots r') = []" "cr_checks (sort_snapshots r') = []"
      using report by (simp_all add: sort_snapshots_def)
    show ?thesis
      using names failed_failReport [OF kept] None
      by (simp add: verify_inputs_def run passed_report_def pass_report_def kept split: option.splits)
  qed (use report failed_failReport [of r'] in \<open>simp add: verify_inputs_def run\<close>)
qed

lemma LoadManifest_shape:
  "LoadManifest OS CO L path w = (Inr (m, raw), w') \<Longrightarrow> validateManifestShape m = None"
  by (auto simp: LoadManifest_def io_Inr closing_Inr split: sum.splits)

text \<open>
  C7. A corpus report and its error agree: without an error the report is passed, its ten checks
  all passed, and it holds exactly the reports of the external and the zero family; with an
  error it is failed, carries that error's text alone, and no check in it is marked passed.
\<close>
theorem report_matches_error:
  "case fst (VerifyManifest OS ST CO L E T show_error path w) of
     (report, None) \<Rightarrow> passed_report report
   | (report, Some e) \<Rightarrow> failed_report report (show_error e)"
proof (cases "LoadManifest OS CO L path w")
  case (Pair x w1)
  show ?thesis
  proof (cases x)
    case (Inl e)
    with Pair show ?thesis by (simp add: VerifyManifest_def failed_report_def newReport_def)
  next
    case (Inr y)
    obtain m raw where y: "y = (m, raw)" by (cases y)
    have shape: "validateManifestShape m = None" using LoadManifest_shape Pair unfolding Inr y by fastforce
    let ?r = "newReport\<lparr>cr_hostAPILane := mf_hostAPILane m, cr_manifestDigest := DigestBytes raw\<rparr>"
    have clean: "cr_errors ?r = []" "cr_checks ?r = []" "cr_snapshots ?r = []" by (simp_all add: newReport_def)
    obtain absolute w2 where a: "mustAbsolute CO path w1 = (absolute, w2)" by (cases "mustAbsolute CO path w1")
    obtain h w3 where o: "co_openRoot CO (path_dir absolute) w2 = (h, w3)"
      by (cases "co_openRoot CO (path_dir absolute) w2")
    have verify: "VerifyManifest OS ST CO L E T show_error path w =
        (case h of
           None \<Rightarrow> ((failReport ?r corpus_checks (show_error OpenCorpusRoot), Some OpenCorpusRoot), w3)
         | Some rt \<Rightarrow>
             (case verify_inputs OS ST CO L E T show_error ?r m rt (path_dir absolute) w3 of
                (r, w4) \<Rightarrow> (r, os_close OS rt w4)))"
      by (simp add: VerifyManifest_def Pair Inr y a o Let_def)
    show ?thesis
    proof (cases h)
      case None
      then show ?thesis using failed_failReport [OF clean(1,2)] by (simp add: verify)
    next
      case (Some rt)
      then show ?thesis
        using verify_inputs_report [OF clean shape, of _ OS ST CO L E T rt "path_dir absolute" w3]
        by (simp add: verify case_prod_beta)
    qed
  qed
qed

section \<open>A package at the corpus root\<close>

text \<open>
  A package that lies at the corpus root itself is copied from the directory \<open>.\<close>. Cutting
  that prefix off a walked path also cuts off the dot of a name that begins with one, so such
  a file is staged under another name.
\<close>

lemma copy_drops_leading_dot:
  "copy_entry OS CO rt ''.'' temp (Copy_Entry ''.notes.md'' False False (Some i)) =
   check_io (guard_err (is_regular i) (CopyNotRegular ''.notes.md''))
     (bind_io (via (CopyRead ''.notes.md'') (readRegularRoot OS CO rt ''.notes.md'')) (\<lambda>raw.
        demand (CopyWrite ''.notes.md'') (co_writeFile CO (path_join [temp, ''notes.md'']) raw)))"
  by (simp add: copy_entry_def trim_prefix_def Let_def)

end
