(* ===== verification/SchemaMeaning.thy ===== *)
theory SchemaMeaning
  imports SchemaSoundness
begin

text \<open>
  What an accepted closure proof means for instances. The JSON Schema evaluator belongs to
  another package; of it only what Draft 2020-12 documents is used, as the laws
  \<open>schema_laws\<close> of a relation between schemas and admitted values. Under them a schema the
  code accepts admits only objects that are closed by some node of the schema itself.
\<close>

section \<open>The documented keywords\<close>

text \<open>Equal JSON values are both objects or both not, and equal objects have the same members.\<close>

definition same_members :: "gval \<Rightarrow> gval \<Rightarrow> bool" where
  "same_members c v \<longleftrightarrow>
     (case (c, v) of
        (VObj m, VObj m') \<Rightarrow> set (keys m) = set (keys m')
      | (VObj m, _) \<Rightarrow> False | (_, VObj m') \<Rightarrow> False | _ \<Rightarrow> True)"

definition properties_of :: "object \<Rightarrow> object" where
  "properties_of schema = (case as_obj (field schema ''properties'') of Some m \<Rightarrow> m | None \<Rightarrow> [])"

definition schema_laws :: "gval \<Rightarrow> (gval \<Rightarrow> gval \<Rightarrow> bool) \<Rightarrow> bool" where
  "schema_laws doc admits \<longleftrightarrow>
     (\<forall>v. \<not> admits (VBool False) v) \<and>
     (\<forall>s v. admits (VObj s) v \<longrightarrow>
        (has_key s ''const'' \<longrightarrow> same_members (field s ''const'') v) \<and>
        (\<forall>xs. field s ''enum'' = VArr xs \<longrightarrow> (\<exists>x\<in>set xs. same_members x v)) \<and>
        (\<forall>xs. field s ''allOf'' = VArr xs \<longrightarrow> (\<forall>x\<in>set xs. admits x v)) \<and>
        (\<forall>xs. field s ''anyOf'' = VArr xs \<longrightarrow> (\<exists>x\<in>set xs. admits x v)) \<and>
        (\<forall>xs. field s ''oneOf'' = VArr xs \<longrightarrow> (\<exists>x\<in>set xs. admits x v)) \<and>
        (\<forall>reference w q. field s ''$ref'' = VStr reference \<longrightarrow>
           resolveLocalSchemaReference doc reference = Inr (w, q) \<longrightarrow> admits w v)) \<and>
     (\<forall>s obj. admits (VObj s) (VObj obj) \<longrightarrow>
        (has_key s ''type'' \<longrightarrow> schemaTypeIncludes (field s ''type'') ''object'') \<and>
        (field s ''additionalProperties'' = VBool False \<longrightarrow> \<not> has_key s ''patternProperties'' \<longrightarrow>
           set (keys obj) \<subseteq> set (keys (properties_of s))) \<and>
        (has_key s ''propertyNames'' \<longrightarrow> list_all (\<lambda>k. admits (field s ''propertyNames'') (VStr k)) (keys obj)) \<and>
        (has_key s ''additionalProperties'' \<longrightarrow> \<not> has_key s ''patternProperties'' \<longrightarrow>
           list_all (\<lambda>(k, v). has_key (properties_of s) k \<or> admits (field s ''additionalProperties'') v) obj))"

section \<open>Closed objects\<close>

text \<open>
  A node closes an object: it is the exact constant with these members, or declares an object
  with no additional properties and all members among its own, or a typed map whose names
  obey the portable policy and whose values obey one schema.
\<close>

definition portable_names :: "gval \<Rightarrow> bool" where
  "portable_names v \<longleftrightarrow>
     (case v of
        VObj m \<Rightarrow> field m ''type'' = VStr ''string'' \<and> field m ''pattern'' = VStr portableMapKeyPattern
      | _ \<Rightarrow> False)"

definition closed_by :: "(gval \<Rightarrow> gval \<Rightarrow> bool) \<Rightarrow> object \<Rightarrow> object \<Rightarrow> bool" where
  "closed_by admits s obj \<longleftrightarrow>
     same_members (field s ''const'') (VObj obj) \<or>
     schemaTypeIncludes (field s ''type'') ''object'' \<and> field s ''additionalProperties'' = VBool False \<and>
       set (keys obj) \<subseteq> set (keys (properties_of s)) \<or>
     schemaTypeIncludes (field s ''type'') ''object'' \<and> portable_names (field s ''propertyNames'') \<and>
       list_all (\<lambda>(k, v). admits (field s ''propertyNames'') (VStr k) \<and>
         admits (field s ''additionalProperties'') v) obj"

definition closed_object :: "(gval \<Rightarrow> gval \<Rightarrow> bool) \<Rightarrow> gval \<Rightarrow> object \<Rightarrow> bool" where
  "closed_object admits doc obj \<longleftrightarrow> (\<exists>p s. node_at doc p (VObj s) \<and> closed_by admits s obj)"

fun allowed :: "(gval \<Rightarrow> gval \<Rightarrow> bool) \<Rightarrow> gval \<Rightarrow> objectAdmission \<Rightarrow> object set" where
  "allowed admits doc objectOpen = UNIV"
| "allowed admits doc objectClosed = {obj. closed_object admits doc obj}"
| "allowed admits doc objectExcluded = {}"

lemma allowed_intersect:
  "allowed admits doc (intersectObjectAdmission a b) = allowed admits doc a \<inter> allowed admits doc b"
  by (cases a; cases b) (auto simp: intersectObjectAdmission_def)

lemma allowed_union:
  "allowed admits doc (unionObjectAdmission a b) = allowed admits doc a \<union> allowed admits doc b"
  by (cases a; cases b) (auto simp: unionObjectAdmission_def)

lemma allowed_intersects:
  "allowed admits doc (foldl intersectObjectAdmission m modes) =
     allowed admits doc m \<inter> (\<Inter>a\<in>set modes. allowed admits doc a)"
  by (induction modes arbitrary: m) (auto simp: allowed_intersect)

lemma allowed_unions:
  "allowed admits doc (foldl unionObjectAdmission m modes) =
     allowed admits doc m \<union> (\<Union>a\<in>set modes. allowed admits doc a)"
  by (induction modes arbitrary: m) (auto simp: allowed_union)

definition closes :: "(gval \<Rightarrow> gval \<Rightarrow> bool) \<Rightarrow> gval \<Rightarrow> gval \<Rightarrow> objectAdmission \<Rightarrow> bool" where
  "closes admits doc v m \<longleftrightarrow> (\<forall>obj. admits v (VObj obj) \<longrightarrow> obj \<in> allowed admits doc m)"

lemma closes_intersect:
  "closes admits doc v a \<Longrightarrow> closes admits doc v b \<Longrightarrow> closes admits doc v (intersectObjectAdmission a b)"
  by (simp add: closes_def allowed_intersect)

text \<open>The invariant of a node's result.\<close>

definition mode_sound :: "gval \<Rightarrow> gval \<Rightarrow> bytes \<Rightarrow> proof_result \<Rightarrow> bool" where
  "mode_sound doc v p r \<longleftrightarrow> pr_mode r \<noteq> objectOpen \<and>
     (\<forall>admits. schema_laws doc admits \<longrightarrow> wf_value doc \<longrightarrow> node_at doc p v \<longrightarrow> closes admits doc v (pr_mode r))"

section \<open>One node\<close>

lemma same_members_object: "same_members c (VObj m) \<Longrightarrow> \<exists>m'. c = VObj m'"
  by (cases c) (auto simp: same_members_def)

lemma laws_const:
  "schema_laws doc admits \<Longrightarrow> admits (VObj s) v \<Longrightarrow> has_key s ''const'' \<Longrightarrow> same_members (field s ''const'') v"
  unfolding schema_laws_def by blast

lemma laws_enum:
  "schema_laws doc admits \<Longrightarrow> admits (VObj s) v \<Longrightarrow> field s ''enum'' = VArr xs \<Longrightarrow> \<exists>x\<in>set xs. same_members x v"
  unfolding schema_laws_def by blast

lemma laws_all: "schema_laws doc admits \<Longrightarrow> admits (VObj s) v \<Longrightarrow> field s ''allOf'' = VArr xs \<Longrightarrow>
    \<forall>x\<in>set xs. admits x v"
  unfolding schema_laws_def by blast

lemma laws_any:
  "schema_laws doc admits \<Longrightarrow> admits (VObj s) v \<Longrightarrow> k = ''anyOf'' \<or> k = ''oneOf'' \<Longrightarrow> field s k = VArr xs \<Longrightarrow>
     \<exists>x\<in>set xs. admits x v"
  unfolding schema_laws_def by blast

lemma laws_ref:
  "schema_laws doc admits \<Longrightarrow> admits (VObj s) v \<Longrightarrow> field s ''$ref'' = VStr reference \<Longrightarrow>
     resolveLocalSchemaReference doc reference = Inr (w, q) \<Longrightarrow> admits w v"
  unfolding schema_laws_def by blast

lemma laws_type:
  "schema_laws doc admits \<Longrightarrow> admits (VObj s) (VObj obj) \<Longrightarrow> has_key s ''type'' \<Longrightarrow>
     schemaTypeIncludes (field s ''type'') ''object''"
  unfolding schema_laws_def by blast

lemma laws_closed:
  "schema_laws doc admits \<Longrightarrow> admits (VObj s) (VObj obj) \<Longrightarrow> \<not> has_key s ''patternProperties'' \<Longrightarrow>
     field s ''additionalProperties'' = VBool False \<Longrightarrow> set (keys obj) \<subseteq> set (keys (properties_of s))"
  unfolding schema_laws_def by blast

lemma laws_names:
  "schema_laws doc admits \<Longrightarrow> admits (VObj s) (VObj obj) \<Longrightarrow> has_key s ''propertyNames'' \<Longrightarrow>
     list_all (\<lambda>k. admits (field s ''propertyNames'') (VStr k)) (keys obj)"
  unfolding schema_laws_def by blast

lemma laws_additional:
  "schema_laws doc admits \<Longrightarrow> admits (VObj s) (VObj obj) \<Longrightarrow> \<not> has_key s ''patternProperties'' \<Longrightarrow>
     has_key s ''additionalProperties'' \<Longrightarrow>
     list_all (\<lambda>(k, v). has_key (properties_of s) k \<or> admits (field s ''additionalProperties'') v) obj"
  unfolding schema_laws_def by blast

lemma start_node_object:
  assumes "start_node U (VObj schema) l = Inr plan"
  shows "node_keywords schema l = None"
  using assms by (simp add: start_node_def check_then_Inr)

lemma start_keywords:
  assumes "start_node U (VObj schema) l = Inr plan"
  shows "\<not> has_key schema ''patternProperties''"
proof -
  have "forbidden_keyword schema l ''patternProperties'' = None"
    using start_node_object [OF assms] by (simp add: node_keywords_def forbidden_keywords_def)
  then show ?thesis by (simp add: forbidden_keyword_def)
qed

lemma start_plan:
  assumes "start_node U (VObj schema) l = Inr (Schema_Node schema' mode)"
  obtains properties where "\<not> object_const schema" "schemaObjectKeyword schema ''properties'' l = Inr properties"
    "type_mode schema (properties \<noteq> None) l = Inr mode"
proof -
  from assms have "\<not> object_const schema" and
      "bind_res (schemaObjectKeyword schema ''properties'' l) (\<lambda>properties.
         check_then (node_names U schema properties l)
           (bind_res (type_mode schema (properties \<noteq> None) l) (\<lambda>mode. Inr (Schema_Node schema mode)))) =
       Inr (Schema_Node schema' mode)"
    by (simp_all add: start_node_def check_then_Inr split: if_splits)
  then show thesis by (auto simp: bind_res_Inr check_then_Inr intro: that)
qed

lemma closure_closes:
  assumes laws: "schema_laws doc admits" and at: "node_at doc p (VObj schema)"
    and no_patterns: "\<not> has_key schema ''patternProperties''"
    and objects: "schemaTypeIncludes (field schema ''type'') ''object''"
    and properties: "schemaObjectKeyword schema ''properties'' l = Inr properties"
    and closed: "validateExplicitObjectClosure schema (properties \<noteq> None) l = None"
  shows "closes admits doc (VObj schema) objectClosed"
proof -
  have "closed_by admits schema obj" if adm: "admits (VObj schema) (VObj obj)" for obj
  proof (cases "field schema ''additionalProperties''")
    case (VBool b)
    then have "\<not> b" using closed by (simp add: validateExplicitObjectClosure_def)
    then show ?thesis
      using laws_closed [OF laws adm no_patterns] VBool objects by (simp add: closed_by_def)
  next
    case (VObj m)
    then have key: "has_key schema ''additionalProperties''" using field_absent by fastforce
    have "properties = None" and names: "validatePortableMapPropertyNames (field schema ''propertyNames'')
        (l @ ''.propertyNames'') = None"
      using closed VObj by (auto simp: validateExplicitObjectClosure_def split: if_splits)
    then have none: "properties_of schema = []"
      using properties by (auto simp: schemaObjectKeyword_def properties_of_def field_absent
        split: if_splits option.splits)
    have portable: "portable_names (field schema ''propertyNames'')"
      using names by (auto simp: validatePortableMapPropertyNames_def portable_names_def split: option.splits)
    then have "has_key schema ''propertyNames''" using field_absent by (fastforce simp: portable_names_def)
    from laws_names [OF laws adm this] laws_additional [OF laws adm no_patterns key] none
    have "list_all (\<lambda>(k, v). admits (field schema ''propertyNames'') (VStr k) \<and>
         admits (field schema ''additionalProperties'') v) obj"
      by (auto simp: list_all_iff go_simps)
    with portable objects show ?thesis by (simp add: closed_by_def)
  qed (use closed in \<open>simp_all add: validateExplicitObjectClosure_def\<close>)
  with at show ?thesis by (auto simp: closes_def closed_object_def)
qed

lemma type_closes:
  assumes laws: "schema_laws doc admits" and at: "node_at doc p (VObj schema)"
    and start: "start_node U (VObj schema) l = Inr (Schema_Node schema mode)"
  shows "closes admits doc (VObj schema) mode"
proof -
  from start obtain properties where
      ps: "schemaObjectKeyword schema ''properties'' l = Inr properties" and
      mode: "type_mode schema (properties \<noteq> None) l = Inr mode"
    by (rule start_plan)
  consider "schemaTypeIncludes (field schema ''type'') ''object''" "mode = objectClosed"
      "validateExplicitObjectClosure schema (properties \<noteq> None) l = None"
    | "\<not> schemaTypeIncludes (field schema ''type'') ''object''" "has_key schema ''type''"
    | "mode = objectOpen"
    using mode by (auto simp: type_mode_def check_then_Inr split: if_splits)
  then show ?thesis
  proof cases
    case 1
    with closure_closes [OF laws at start_keywords [OF start] _ ps] show ?thesis by simp
  next
    case 2
    with laws_type [OF laws] have "\<not> admits (VObj schema) (VObj obj)" for obj by blast
    then show ?thesis by (simp add: closes_def)
  qed (simp add: closes_def)
qed

lemma literal_closes:
  assumes laws: "schema_laws doc admits" and "\<not> object_const schema"
    and mode: "closes admits doc (VObj schema) mode" and "literal_mode schema l mode = Inr mode'"
  shows "closes admits doc (VObj schema) mode'"
proof -
  let ?mode1 = "if has_key schema ''const''
                then intersectObjectAdmission mode (admissionForLiteral (field schema ''const'')) else mode"
  have "closes admits doc (VObj schema) (admissionForLiteral (field schema ''const''))" if "has_key schema ''const''"
    using same_members_object [OF laws_const [OF laws _ that]] by (fastforce simp: closes_def)
  then have mode1: "closes admits doc (VObj schema) ?mode1" using mode by (simp add: closes_intersect)
  show ?thesis
  proof (cases "has_key schema ''enum''")
    case True
    with assms(4) obtain xs where xs: "field schema ''enum'' = VArr xs" and mode':
        "mode' = intersectObjectAdmission ?mode1
           (foldl (\<lambda>m x. unionObjectAdmission m (admissionForLiteral x)) objectExcluded xs)"
      by (auto simp: literal_mode_def Let_def split: option.splits if_splits)
    have "foldl (\<lambda>m x. unionObjectAdmission m (admissionForLiteral x)) objectExcluded xs =
        foldl unionObjectAdmission objectExcluded (map admissionForLiteral xs)"
      by (simp add: foldl_map)
    moreover have "closes admits doc (VObj schema) (foldl unionObjectAdmission objectExcluded (map admissionForLiteral xs))"
      unfolding closes_def allowed_unions
    proof (intro allI impI)
      fix obj
      assume "admits (VObj schema) (VObj obj)"
      from laws_enum [OF laws this xs] obtain x m where "x \<in> set xs" "x = VObj m"
        using same_members_object by blast
      then show "obj \<in> allowed admits doc objectExcluded \<union>
          (\<Union>a\<in>set (map admissionForLiteral xs). allowed admits doc a)"
        by (force intro!: bexI [of _ x])
    qed
    ultimately show ?thesis unfolding mode' using closes_intersect [OF mode1] by simp
  qed (use assms(4) mode1 in \<open>simp add: literal_mode_def Let_def\<close>)
qed

lemma finish_closes:
  assumes mode: "closes admits doc v mode"
    and all: "\<And>m. m \<in> set allOf \<Longrightarrow> closes admits doc v m"
    and any: "anyOf \<noteq> [] \<Longrightarrow> closes admits doc v (foldl unionObjectAdmission objectExcluded anyOf)"
    and one: "oneOf \<noteq> [] \<Longrightarrow> closes admits doc v (foldl unionObjectAdmission objectExcluded oneOf)"
    and fin: "finish_mode l mode (allOf # anyOf # oneOf # rest) = Inr mode'"
  shows "closes admits doc v mode'"
proof -
  have "closes admits doc v (foldl intersectObjectAdmission objectOpen allOf)"
    using all by (auto simp: closes_def allowed_intersects)
  then have "closes admits doc v (intersectObjectAdmission mode (foldl intersectObjectAdmission objectOpen allOf))"
    using mode closes_intersect by blast
  with any one have "closes admits doc v (union_modes (union_modes
      (intersectObjectAdmission mode (foldl intersectObjectAdmission objectOpen allOf)) anyOf) oneOf)"
    by (simp add: union_modes_def closes_intersect)
  with fin show ?thesis by (auto simp: Let_def split: if_splits)
qed

text \<open>The results of an array keyword's children.\<close>

lemma array_results:
  assumes laws: "schema_laws doc admits" and wf: "wf_value doc" and at: "node_at doc p (VObj schema)"
    and ok: "array_children schema l p k = Inr cs" "children_ok (mode_sound doc) cs rs"
  shows "rs = [] \<or> (\<exists>xs. field schema k = VArr xs \<and>
    list_all2 (\<lambda>x r. closes admits doc x (pr_mode r)) xs rs)"
proof (cases "has_key schema k")
  case True
  with ok(1) obtain xs where xs: "field schema k = VArr xs" "cs = indexed_children l p k 0 xs"
    by (auto simp: array_children_def split: option.splits if_splits)
  have sound: "list_all2 (\<lambda>c r. closes admits doc (fst c) (pr_mode r)) cs rs"
    using ok(2) unfolding children_ok_def
  proof (rule list.rel_mono_strong)
    fix c r
    assume c: "c \<in> set cs" and "r \<in> set rs" and r: "(\<lambda>(v, l, p) r. mode_sound doc v p r) c r"
    obtain v l' q where v: "c = (v, l', q)" by (cases c)
    have "node_at doc q v" by (rule at_array_children [OF at ok(1) c [unfolded v]])
    with r v laws wf show "closes admits doc (fst c) (pr_mode r)" by (simp add: mode_sound_def)
  qed
  have items: "map fst (indexed_children l p k i xs) = xs" for i
    by (induction xs arbitrary: i) auto
  have "list_all2 (\<lambda>x r. closes admits doc x (pr_mode r)) (map fst cs) rs"
    using sound by (simp add: list_all2_map1)
  then have "list_all2 (\<lambda>x r. closes admits doc x (pr_mode r)) xs rs"
    by (simp add: xs(2) items)
  with xs show ?thesis by blast
next
  case False
  with ok show ?thesis by (simp add: array_children_def children_ok_def)
qed

lemma all_results:
  assumes laws: "schema_laws doc admits" and xs: "field schema ''allOf'' = VArr xs"
    and rs: "list_all2 (\<lambda>x r. closes admits doc x (pr_mode r)) xs rs" and m: "m \<in> set (map pr_mode rs)"
  shows "closes admits doc (VObj schema) m"
proof -
  from m obtain i where "i < length rs" "m = pr_mode (rs ! i)" by (auto simp: in_set_conv_nth)
  with rs have "i < length xs" "closes admits doc (xs ! i) m" by (auto simp: list_all2_conv_all_nth)
  moreover from this(1) have "xs ! i \<in> set xs" by simp
  ultimately show ?thesis using laws_all [OF laws _ xs] unfolding closes_def by blast
qed

lemma any_results:
  assumes laws: "schema_laws doc admits" and k: "k = ''anyOf'' \<or> k = ''oneOf''"
    and xs: "field schema k = VArr xs" and rs: "list_all2 (\<lambda>x r. closes admits doc x (pr_mode r)) xs rs"
  shows "closes admits doc (VObj schema) (foldl unionObjectAdmission objectExcluded (map pr_mode rs))"
  unfolding closes_def allowed_unions
proof (intro allI impI)
  fix obj
  assume "admits (VObj schema) (VObj obj)"
  with laws_any [OF laws _ k xs] obtain i where "i < length xs" "admits (xs ! i) (VObj obj)"
    by (metis in_set_conv_nth)
  with rs have "i < length rs" "obj \<in> allowed admits doc (pr_mode (rs ! i))"
    by (auto simp: list_all2_conv_all_nth closes_def)
  then show "obj \<in> allowed admits doc objectExcluded \<union> (\<Union>a\<in>set (map pr_mode rs). allowed admits doc a)"
    by auto
qed

lemma combine_closes:
  assumes laws: "schema_laws doc admits" and wf: "wf_value doc" and at: "node_at doc p (VObj schema)"
    and groups: "groups_ok (mode_sound doc) (child_groups schema l p) results"
    and target: "target_ok (mode_sound doc) doc schema target"
    and mode: "closes admits doc (VObj schema) mode" and r: "combine l mode results target = Inr r"
  shows "closes admits doc (VObj schema) (pr_mode r)"
proof -
  let ?ok = "\<lambda>k rs. \<exists>cs. array_children schema l p k = Inr cs \<and> children_ok (mode_sound doc) cs rs"
  have "groups_ok (mode_sound doc) (drop 5 (child_groups schema l p)) (drop 5 results)"
    using groups unfolding groups_ok_def by (rule list_all2_dropI)
  moreover have "drop 5 (child_groups schema l p) = map (array_children schema l p) array_keywords"
    by (simp add: child_groups_def object_keywords_def)
  ultimately obtain rs1 rs2 rs3 rs4 where drop: "drop 5 results = [rs1, rs2, rs3, rs4]"
      and ok: "?ok ''allOf'' rs1" "?ok ''anyOf'' rs2" "?ok ''oneOf'' rs3"
    by (auto simp: groups_ok_def array_keywords_def list_all2_Cons1)
  let ?mode1 = "case target of None \<Rightarrow> mode | Some r \<Rightarrow> intersectObjectAdmission mode (pr_mode r)"
  have mode1: "closes admits doc (VObj schema) ?mode1"
  proof (cases target)
    case (Some t)
    with target obtain reference w q where ref: "field schema ''$ref'' = VStr reference"
        "resolveLocalSchemaReference doc reference = Inr (w, q)" "mode_sound doc w q t"
      by (auto simp: target_ok_def)
    with laws wf at_reference [OF ref(2)] have "closes admits doc w (pr_mode t)"
      by (auto simp: mode_sound_def)
    then have "closes admits doc (VObj schema) (pr_mode t)"
      using laws_ref [OF laws _ ref(1,2)] unfolding closes_def by blast
    with Some mode show ?thesis by (simp add: closes_intersect)
  qed (simp add: mode)
  from r drop have fin: "finish_mode l ?mode1 (map pr_mode rs1 # map pr_mode rs2 # map pr_mode rs3 # [map pr_mode rs4]) =
      Inr (pr_mode r)"
    by (auto simp: combine_def bind_res_Inr Let_def)
  note results = array_results [OF laws wf at]
  show ?thesis
  proof (rule finish_closes [OF mode1 _ _ _ fin])
    fix m assume "m \<in> set (map pr_mode rs1)"
    with ok(1) results [of l "''allOf''" _ rs1] all_results [OF laws] show "closes admits doc (VObj schema) m"
      by fastforce
  next
    assume "map pr_mode rs2 \<noteq> []"
    with ok(2) results [of l "''anyOf''" _ rs2] any_results [OF laws, of "''anyOf''" schema _ rs2]
    show "closes admits doc (VObj schema) (foldl unionObjectAdmission objectExcluded (map pr_mode rs2))"
      by fastforce
  next
    assume "map pr_mode rs3 \<noteq> []"
    with ok(3) results [of l "''oneOf''" _ rs3] any_results [OF laws, of "''oneOf''" schema _ rs3]
    show "closes admits doc (VObj schema) (foldl unionObjectAdmission objectExcluded (map pr_mode rs3))"
      by fastforce
  qed
qed

lemma finish_not_open: "finish_mode l mode ms = Inr mode' \<Longrightarrow> mode' \<noteq> objectOpen"
  by (induction l mode ms rule: finish_mode.induct) (auto simp: Let_def split: if_splits)

interpretation modes: node_invariant mode_sound
proof
  fix doc p
  show "mode_sound doc (VBool False) p \<lparr>pr_mode = objectExcluded, pr_maxDepth = 0\<rparr>"
    by (simp add: mode_sound_def closes_def schema_laws_def)
next
  fix U v l c doc p n
  assume "start_node U v l = Inr (Exact_Const c)"
  then obtain schema where v: "v = VObj schema" "length schema = 1" "object_const schema"
    using start_const by blast
  then have key: "has_key schema ''const''"
    by (auto simp: object_const_def field_def has_key_def split: option.splits)
  have "closes admits doc (VObj schema) objectClosed"
    if laws: "schema_laws doc admits" and at: "node_at doc p (VObj schema)" for admits
  proof -
    have "closed_by admits schema obj" if "admits (VObj schema) (VObj obj)" for obj
      using laws_const [OF laws that key] by (simp add: closed_by_def)
    with at show ?thesis by (auto simp: closes_def closed_object_def)
  qed
  then show "mode_sound doc v p \<lparr>pr_mode = objectClosed, pr_maxDepth = n\<rparr>"
    by (simp add: mode_sound_def v(1))
next
  fix U v l schema mode doc p results mode' target r
  assume start: "start_node U v l = Inr (Schema_Node schema mode)"
    and groups: "groups_ok (mode_sound doc) (child_groups schema l p) results"
    and literal: "literal_mode schema l mode = Inr mode'"
    and target: "target_ok (mode_sound doc) doc schema target"
    and r: "combine l mode' results target = Inr r"
  have v: "v = VObj schema" using start by (rule start_schema)
  have "closes admits doc (VObj schema) (pr_mode r)"
    if laws: "schema_laws doc admits" and wf: "wf_value doc" and at: "node_at doc p (VObj schema)" for admits
  proof -
    have no_const: "\<not> object_const schema" using start [unfolded v] by (rule start_plan)
    have "closes admits doc (VObj schema) mode" by (rule type_closes [OF laws at start [unfolded v]])
    from literal_closes [OF laws no_const this literal]
    show ?thesis by (rule combine_closes [OF laws wf at groups target _ r])
  qed
  moreover have "pr_mode r \<noteq> objectOpen"
    using r finish_not_open by (auto simp: combine_def bind_res_Inr Let_def split: option.splits)
  ultimately show "mode_sound doc v p r" by (simp add: mode_sound_def v)
qed

text \<open>
  C39. A schema the closure proof accepts cannot let an arbitrary object through: whatever
  evaluator follows the documented keywords, every object it admits is closed by some node of
  the schema, which either is that exact constant, or declares every member of the object and
  no more, or is a typed map under the portable policy for its names. References, alternatives
  and shared nodes met through the memo are all covered.
\<close>
theorem accepted_schema_closed:
  assumes "validatePortableClosure U schema location = None" and "wf_value schema"
    and "schema_laws schema admits" and "admits schema (VObj obj)"
  shows "closed_object admits schema obj"
proof -
  from modes.proved_root [OF assms(2,1)] obtain r where "mode_sound schema schema ''#'' r" by blast
  with assms at_doc have "pr_mode r \<noteq> objectOpen" "obj \<in> allowed admits schema (pr_mode r)"
    by (auto simp: mode_sound_def closes_def)
  then show ?thesis by (cases "pr_mode r") auto
qed

end

