(* ===== verification/SchemaSamples.thy ===== *)
theory SchemaSamples
  imports SchemaMeaning FixtureWork
begin

text \<open>
  A schema with a shared definition behind a reference, evaluated node by node; it carries the
  witnesses of the theorems on the closure proof.
\<close>

definition empty_object :: object where
  "empty_object = [(''type'', VStr ''object''), (''additionalProperties'', VBool False)]"

definition shared_object :: object where
  "shared_object = [(''$defs'', VObj [(''e'', VObj empty_object)]), (''$ref'', VStr ''#/$defs/e'')]"

lemmas node_defs = start_node_def node_keywords_def forbidden_keyword_def forbidden_keywords_def
  scope_keywords_def object_const_def schemaObjectKeyword_def node_names_def validateSchemaFieldNameArray_def
  validateDependentRequiredNames_def type_mode_def schemaTypeIncludes_def validateExplicitObjectClosure_def
  guard_err_def hasObjectKeywords_def go_simps

lemmas group_defs = child_groups_def object_keywords_def array_keywords_def object_children_def
  single_children_def single_keywords_def array_children_def schemaObjectKeyword_def go_simps

lemma empty_start: "start_node U (VObj empty_object) l = Inr (Schema_Node empty_object objectClosed)"
  by (simp add: empty_object_def node_defs)

lemma empty_groups: "child_groups empty_object l p = [Inr [], Inr [], Inr [], Inr [], Inr [], Inr [], Inr [], Inr [], Inr []]"
  by (simp add: empty_object_def group_defs)

lemma shared_start: "start_node U (VObj shared_object) l = Inr (Schema_Node shared_object objectOpen)"
  by (simp add: shared_object_def node_defs)

lemma shared_groups:
  "child_groups shared_object l ''#'' =
     Inr [(VObj empty_object, l @ ''.$defs.e'', ''#/$defs/e'')] # [Inr [], Inr [], Inr [], Inr [], Inr [], Inr [], Inr [], Inr []]"
  by (simp add: shared_object_def group_defs append_two append_one escape_simps)

lemma shared_ref: "resolveLocalSchemaReference (VObj shared_object) ''#/$defs/e'' = Inr (VObj empty_object, ''#/$defs/e'')"
  by (simp add: resolveLocalSchemaReference_def shared_object_def trim_prefix_def resolve_token_def go_simps
    append_one escape_simps)

lemma literals: "literal_mode empty_object l m = Inr m" "literal_mode shared_object l m = Inr m"
  by (simp_all add: literal_mode_def empty_object_def shared_object_def go_simps)

lemma references: "reference_child doc empty_object l st = Inr (None, st)"
  by (simp add: reference_child_def empty_object_def go_simps)

lemma shared_reference:
  "va_operations st < 4000 \<Longrightarrow> reference_child (VObj shared_object) shared_object l st =
     Inr (Some (VObj empty_object, l @ ''.$ref(#/$defs/e)'', ''#/$defs/e''),
          st\<lparr>va_operations := Suc (va_operations st)\<rparr>)"
  using shared_ref unfolding shared_object_def
  by (simp add: reference_child_def consumeOperation_def maxSchemaProofOps_def go_simps)

lemma shared_accepted: "validatePortableClosure U (VObj shared_object) l = None"
  by (simp add: validatePortableClosure_def validate.simps empty_start empty_groups shared_start shared_groups
    literals references shared_reference
    consumeOperation_def maxSchemaProofOps_def
    maxSchemaProofDepth_def settle_def combine_def finish_mode.simps record_depth_def
    union_modes_def intersectObjectAdmission_def unionObjectAdmission_def remember_def)

lemma shared_wf: "wf_value (VObj shared_object)"
  by (simp add: shared_object_def empty_object_def)

definition sample_admits :: "gval \<Rightarrow> gval \<Rightarrow> bool" where
  "sample_admits s v \<longleftrightarrow> (s = VObj shared_object \<or> s = VObj empty_object) \<and> v = VObj []"

lemma sample_laws: "schema_laws (VObj shared_object) sample_admits"
proof -
  have ref: "admits_target" if "resolveLocalSchemaReference (VObj shared_object) ''#/$defs/e'' = Inr (w, q)"
      "w = VObj empty_object \<Longrightarrow> admits_target" for w q admits_target
    using that shared_ref by simp
  have "field shared_object ''$ref'' = VStr ''#/$defs/e''" "field empty_object ''$ref'' = VNull"
    by (simp_all add: shared_object_def empty_object_def go_simps)
  moreover have "field shared_object k = VNull" "\<not> has_key shared_object k"
    if "k \<in> {''const'', ''enum'', ''allOf'', ''anyOf'', ''oneOf'', ''type'', ''additionalProperties'',
      ''propertyNames''}" for k
    using that by (auto simp: shared_object_def go_simps)
  moreover have "field empty_object k = VNull" "\<not> has_key empty_object k"
    if "k \<in> {''const'', ''enum'', ''allOf'', ''anyOf'', ''oneOf'', ''propertyNames''}" for k
    using that by (auto simp: empty_object_def go_simps)
  moreover have "schemaTypeIncludes (field empty_object ''type'') ''object''"
    by (simp add: empty_object_def go_simps schemaTypeIncludes_def)
  ultimately show ?thesis
    using shared_ref by (auto simp: schema_laws_def sample_admits_def)
qed

theorem estimates_enough_fuel_witness:
  "estimate estimate_fuel (VObj shared_object) (VObj shared_object) ''#'' Map.empty \<noteq> Inl WorkOutOfFuel \<and>
   fixture_estimate fixture_fuel (VObj shared_object) (VObj shared_object) ''#'' (VObj []) ''#'' ''value''
     Map.empty \<noteq> Inl WorkOutOfFuel"
  by (rule estimates_enough_fuel [OF shared_wf shared_accepted [of ascii_tables "''desiredSchema''"]])

theorem accepted_schema_closed_witness:
  "sample_admits (VObj shared_object) (VObj []) \<and> closed_object sample_admits (VObj shared_object) []"
  using accepted_schema_closed [OF shared_accepted [of ascii_tables "''desiredSchema''"] shared_wf sample_laws, of "[]"]
  by (simp add: sample_admits_def)

end
