(* ===== verification/SnapshotSamples.thy ===== *)
theory SnapshotSamples
  imports SnapshotDesired SnapshotOrder SchemaSamples
begin

text \<open>
  A package of one small Form, compiled: the witnesses of the properties of \<^verbatim>\<open>Compile\<close> and of
  the snapshot. The third-party parameters are concrete: a canonicalizer that keeps its
  input, schemas that admit everything, and a parser of three-part versions whose numbers have
  64 bits.
\<close>

section \<open>Parameters\<close>

definition sample_libs :: libs where
  "sample_libs = \<lparr>lib_transform = Some, lib_schemas = True, lib_schema_ok = (\<lambda>_ _. True),
     lib_unicode = ascii_tables\<rparr>"

definition sample_semver :: "bytes \<Rightarrow> nat list option" where
  "sample_semver s =
     (let parts = map parse_uint64 (split_on CHR ''.'' s) in
      if length parts = 3 \<and> list_all (\<lambda>p. p \<noteq> None) parts then Some (map the parts) else None)"

definition sample_engines :: "nat list engines" where
  "sample_engines = \<lparr>en_inline = (\<lambda>_ _. Some (\<lambda>_. True)), en_compiles = (\<lambda>_. True), en_parse = (\<lambda>_. None),
     en_semver = sample_semver, en_equals = (=), en_less = (<)\<rparr>"

definition sample_texts :: texts where
  "sample_texts = \<lparr>tx_quote = (\<lambda>s. s), tx_canonical = (\<lambda>_. []), tx_definition = (\<lambda>_. []),
     tx_contract = (\<lambda>_. []), tx_unmarshal = (\<lambda>_. [])\<rparr>"

lemmas sample_defs = sample_libs_def sample_engines_def sample_texts_def

lemma sample_total: "total_canonicalizer (lib_transform sample_libs)"
  by (simp add: total_canonicalizer_def sample_libs_def)

section \<open>The Definition\<close>

definition sample_definition :: gval where
  "sample_definition = VObj [(''apiVersion'', VStr ''forms.takoform.com/v1alpha1''), (''kind'', VStr ''Store''),
     (''definitionVersion'', VStr ''1.0.0''), (''desiredSchema'', VObj empty_object)]"

definition sample_raw :: bytes where
  "sample_raw = json_encode sample_definition"

lemmas name_runes = runes_ascii ascii_string_def code_def is_word_def ascii_tables_def ascii_defs
  encode_runes_def encode_rune_def valid_rune_def normalizeFieldName_def splitFieldNameTokens_def
  flush_token_def case_boundary_def digit_boundary_def char_of_def bit_Suc_0_iff

lemma sample_names:
  "normalizeFieldName ascii_tables ''apiVersion'' = ''apiversion''"
  "normalizeFieldName ascii_tables ''kind'' = ''kind''"
  "normalizeFieldName ascii_tables ''definitionVersion'' = ''definitionversion''"
  "normalizeFieldName ascii_tables ''desiredSchema'' = ''desiredschema''"
  "normalizeFieldName ascii_tables ''type'' = ''type''"
  "normalizeFieldName ascii_tables ''additionalProperties'' = ''additionalproperties''"
  by (simp_all add: name_runes)

lemma sample_tokens:
  "splitFieldNameTokens ascii_tables ''apiVersion'' = [''api'', ''version'']"
  "splitFieldNameTokens ascii_tables ''kind'' = [''kind'']"
  "splitFieldNameTokens ascii_tables ''definitionVersion'' = [''definition'', ''version'']"
  "splitFieldNameTokens ascii_tables ''desiredSchema'' = [''desired'', ''schema'']"
  "splitFieldNameTokens ascii_tables ''type'' = [''type'']"
  "splitFieldNameTokens ascii_tables ''additionalProperties'' = [''additional'', ''properties'']"
  by (simp_all add: name_runes)

lemmas policy_lists = reviewedAnnotationFields_def forbiddenNormalizedFields_def
  forbiddenNormalizedCompoundBases_def compound_hit_def isForbiddenToken_def forbiddenFieldTokens_def
  forbiddenFieldPluralTokens_def containsTokenSequence_def forbiddenFieldTokenSequences_def
  matchesCompoundToken_def

lemma sample_fields:
  "\<not> isForbiddenFieldName ascii_tables ''apiVersion''" "\<not> isForbiddenFieldName ascii_tables ''kind''"
  "\<not> isForbiddenFieldName ascii_tables ''definitionVersion''"
  "\<not> isForbiddenFieldName ascii_tables ''desiredSchema''" "\<not> isForbiddenFieldName ascii_tables ''type''"
  "\<not> isForbiddenFieldName ascii_tables ''additionalProperties''"
  by (simp_all add: isForbiddenFieldName_def sample_names sample_tokens policy_lists)

lemma sample_policy: "rejectForbiddenContent ascii_tables sample_definition ''$'' = None"
  by (simp add: sample_definition_def empty_object_def sample_fields isReviewedBoundedDesiredFieldSchema_def)

lemma sample_parse: "parseDocument sample_raw = Inr sample_definition"
proof -
  have "valid_utf8 s" if "s \<in> {''forms.takoform.com/v1alpha1'', ''Store'', ''1.0.0'', ''desiredSchema'', ''type'',
      ''object'', ''additionalProperties''}" for s
    using that by (auto simp: valid_utf8_ascii ascii_string_def code_def)
  then show ?thesis
    unfolding sample_raw_def by (intro json_round_trip) (simp_all add: sample_definition_def empty_object_def)
qed

lemma sample_inline: "compileInlineSchema ascii_tables sample_engines empty_object ''desiredSchema'' = Inr (\<lambda>_. True)"
proof -
  have "validatePortableClosure ascii_tables (VObj empty_object) ''desiredSchema'' = None"
    by (simp add: validatePortableClosure_def validate.simps empty_start empty_groups literals references
      consumeOperation_def maxSchemaProofOps_def maxSchemaProofDepth_def settle_def combine_def
      finish_mode.simps record_depth_def union_modes_def intersectObjectAdmission_def
      unionObjectAdmission_def remember_def)
  moreover have "verifyFragmentOnlyReferences (VObj empty_object) ''desiredSchema'' = None"
    by (simp add: empty_object_def)
  moreover have "work_groups (VObj empty_object) empty_object p =
      [Inr [], Inr [], Inr [(VBool False, p @ ''/additionalProperties'')], Inr [], Inr [], Inr [], Inr [], Inr []]" for p
    by (simp add: work_groups_def work_object_def work_singles_def work_array_def work_reference_def
      empty_object_def schemaObjectKeyword_def single_keywords_def array_keywords_def append_one escape_simps go_simps)
  then have "estimate (Suc (Suc n)) (VObj empty_object) (VObj empty_object) ''#'' Map.empty =
      Inr (2, Map.empty(''#'' \<mapsto> None, ''#/additionalProperties'' \<mapsto> Some 1, ''#'' \<mapsto> Some 2))" for n
    by (simp add: saturatingSchemaWorkAdd_def maxSchemaValidationWork_def numeral_2_eq_2)
  then have "estimate estimate_fuel (VObj empty_object) (VObj empty_object) ''#'' Map.empty =
      Inr (2, Map.empty(''#'' \<mapsto> None, ''#/additionalProperties'' \<mapsto> Some 1, ''#'' \<mapsto> Some 2))"
    unfolding estimate_fuel_def by (simp add: eval_nat_numeral)
  ultimately show ?thesis
    unfolding compileInlineSchema_def validatePortableSchemaStructure_def
    by (simp add: sample_engines_def maxSchemaValidationWork_def)
qed

definition sample_form :: form_definition where
  "sample_form = empty_definition\<lparr>fd_apiVersion := ''forms.takoform.com/v1alpha1'', fd_kind := ''Store'',
     fd_definitionVersion := ''1.0.0'', fd_desiredSchema := Some empty_object\<rparr>"

lemma sample_decoded: "dec_struct False definition_fields sample_definition empty_definition = Some sample_form"
  by (simp add: sample_definition_def empty_object_def dec_struct_def definition_fields_def member_def dec_map_def
    sample_form_def empty_definition_def)

lemma sample_envelope: "envelope_api sample_raw = Some ''forms.takoform.com/v1alpha1''"
  by (simp add: envelope_api_def Unmarshal_strict [OF sample_parse] sample_definition_def dec_struct_def find_field_def
    fold_name_def runes_ascii ascii_string_def code_def fold_rune_def)

section \<open>The package\<close>

definition sample_ref :: form_ref where
  "sample_ref = \<lparr>fr_apiVersion = ''forms.takoform.com/v1alpha1'', fr_kind = ''Store'',
     fr_definitionVersion = ''1.0.0'', fr_schemaDigest = DigestBytes sample_raw\<rparr>"

definition sample_package_index :: package_index where
  "sample_package_index = \<lparr>pi_apiVersion = PackageAPIVersion, pi_kind = PackageKind, pi_packageVersion = ''1.0.0'',
     pi_formRef = sample_ref, pi_definitionPath = ''definition.json'',
     pi_files = [\<lparr>pf_path = ''definition.json'', pf_mediaType = DefinitionMediaType, pf_size = 0,
       pf_digest = DigestBytes sample_raw\<rparr>]\<rparr>"

definition sample_package_digest :: bytes where
  "sample_package_digest = digestPrefix @ replicate 64 CHR ''a''"

lemma sample_package_digest_valid [simp]: "ValidDigest sample_package_digest"
  by (simp add: ValidDigest_iff sample_package_digest_def is_hex_char_def list_all_iff less_eq_char_def)

definition sample_package :: verified_package where
  "sample_package = Some \<lparr>vd_issuer = Some 0, vd_packageDigest = sample_package_digest, vd_formRef = sample_ref,
     vd_index = sample_package_index, vd_canonicalDefinition = sample_raw, vd_payloads = []\<rparr>"

lemma sample_valid [simp]: "package_Valid sample_package"
  by (simp add: package_Valid_def sample_package_def verifiedPackageIssuerToken_def)

lemma sample_revalidated: "RevalidateDefinition sample_libs sample_engines sample_package = Inr sample_form"
proof -
  have "validateDocumentWithValue sample_libs sample_raw legacyDefinition (dec_struct False definition_fields)
      empty_definition = Inr (sample_form, sample_definition)"
    unfolding validateDocumentWithValue_Inr
    using sample_parse parsed_utf8 [OF sample_parse] sample_decoded by (simp add: sample_libs_def)
  moreover have "fd_desiredSchema sample_form = Some empty_object" "fd_observedSchema sample_form = None"
    "fd_outputSchema sample_form = None" "fd_interfaces sample_form = []"
    by (simp_all add: sample_form_def empty_definition_def)
  moreover have "validateDefinitionSemantics sample_form = None" "validateDefinitionConstraintRelations sample_form = None"
    by (simp_all add: sample_form_def empty_definition_def validateDefinitionSemantics_def
      validateDefinitionConstraintRelations_def validateDefinitionStructuralConstraints_def)
  moreover have "lib_schemas sample_libs" "lib_unicode sample_libs = ascii_tables" by (simp_all add: sample_libs_def)
  ultimately have "validateDefinitionWithFamilyProfile sample_libs sample_engines sample_raw profile =
      Inr (sample_form, sample_definition, \<lparr>cs_desired = \<lambda>_. True, cs_observed = None, cs_output = None\<rparr>)" for profile
    using sample_inline sample_policy
    by (simp add: validateDefinitionWithFamilyProfile_def sample_envelope definition_schema_def LegacyFormAPIVersion_def
      inline_schema_def optional_schema_def map_of_nil_def)
  moreover have "vd_canonicalDefinition (the sample_package) = sample_raw" by (simp add: sample_package_def)
  ultimately show ?thesis by (simp add: RevalidateDefinition_def)
qed

definition sample_artifact :: package_artifact where
  "sample_artifact = \<lparr>pa_origin = ''store'', pa_expectedDigest = sample_package_digest, pa_package = sample_package\<rparr>"

definition sample_compiled :: compiled_form where
  "sample_compiled = \<lparr>cf_ref = sample_ref, cf_packageDigest = sample_package_digest, cf_definition = sample_form,
     cf_canonical = sample_raw, cf_origin = artifactSubject sample_artifact\<rparr>"

lemma sample_compiles: "compileArtifact sample_libs sample_engines sample_texts sample_artifact = Inr sample_compiled"
proof -
  have "Canonicalize (lib_transform sample_libs) (package_Definition sample_package) = Inr sample_raw"
    unfolding Canonicalize_Inr using sample_parse parsed_utf8 [OF sample_parse]
    by (simp add: package_Definition_def) (simp add: sample_package_def sample_libs_def)
  moreover have "package_PackageIndex sample_package = sample_package_index"
    "package_PackageDigest sample_package = sample_package_digest"
    by (simp_all add: package_PackageIndex_def package_PackageDigest_def) (simp_all add: sample_package_def)
  ultimately show ?thesis
    using sample_revalidated
    by (simp add: compileArtifact_Inr form_provenance_def sample_artifact_def sample_compiled_def sample_ref_def
      sample_package_index_def definitionEntry_def sample_form_def empty_definition_def)
qed

section \<open>The snapshot\<close>

definition sample_input :: compile_input where
  "sample_input = \<lparr>in_hostAPI = ''forms.takoform.com/v1'', in_packages = [sample_artifact], in_interfaces = [],
     in_bindings = [], in_defaultCreates =
       [\<lparr>dp_group = ''forms.takoform.com/v1alpha1'', dp_kind = ''Store'', dp_ref = sample_ref\<rparr>]\<rparr>"

definition sample_graph :: graph where
  "sample_graph = \<lparr>gr_forms = {sample_compiled}, gr_interfaces = {}, gr_bindings = {}, gr_defaults = {sample_ref}\<rparr>"

lemma empty_walks:
  "contractAnnotations tr (VObj empty_object) p = ([], [])" "targetRefs tr (VObj empty_object) p = []"
  by (simp_all add: contractAnnotations_def contractAnnotationsWithBinding.simps [of _ _ _ _ "VObj _"]
    contractAnnotationsWithBinding.simps [of _ _ _ _ "VStr _"] contractAnnotationsWithBinding.simps [of _ _ _ _ "VBool _"]
    targetRefs.simps [of _ "VObj _"] targetRefs.simps [of _ "VStr _"] targetRefs.simps [of _ "VBool _"]
    empty_object_def sort_strings_def annotated_binding_def join_annotations_def go_simps less_char_def)

lemma supplied_none: "supplied h key [] {}"
  by (simp add: supplied_def)

lemma sample_closed: "closed_graph sample_libs sample_engines sample_texts sample_input sample_graph"
proof -
  have s: "supplied (compileArtifact sample_libs sample_engines sample_texts) form_key_of [sample_artifact] {sample_compiled}"
    unfolding supplied_def by (simp add: sample_compiles)
  have d: "fd_desiredSchema sample_form = Some empty_object" "fd_providedInterfaces sample_form = []"
    "fd_acceptedBindings sample_form = []" "fd_requiresHostAPI sample_form = []"
    by (simp_all add: sample_form_def empty_definition_def)
  have c: "cf_definition sample_compiled = sample_form" "cf_ref sample_compiled = sample_ref"
    by (simp_all add: sample_compiled_def)
  have f: "form_closed sample_libs h sample_graph sample_compiled" for h
    by (simp add: form_closed_def c d annotations_closed_def form_targets_def map_of_nil_def empty_walks)
  have p: "pins_closed [\<lparr>dp_group = ''forms.takoform.com/v1alpha1'', dp_kind = ''Store'', dp_ref = sample_ref\<rparr>] sample_graph"
    by (simp add: pins_closed_def sample_graph_def c form_key_of_def key_group_def pin_group_def sample_ref_def keyFor_def)
  have g: "gr_forms sample_graph = {sample_compiled}" "gr_interfaces sample_graph = {}" "gr_bindings sample_graph = {}"
    by (simp_all add: sample_graph_def)
  have i: "in_hostAPI sample_input = ''forms.takoform.com/v1''" "in_packages sample_input = [sample_artifact]"
    "in_interfaces sample_input = []" "in_bindings sample_input = []"
    "in_defaultCreates sample_input = [\<lparr>dp_group = ''forms.takoform.com/v1alpha1'', dp_kind = ''Store'', dp_ref = sample_ref\<rparr>]"
    by (simp_all add: sample_input_def)
  show ?thesis
    unfolding closed_graph_def g i using s f p by (simp add: supplied_none)
qed

theorem compile_refines_graph_witness:
  "\<exists>s. Compile sample_libs sample_engines sample_texts sample_input = Inr s \<and> snapshot_graph s = sample_graph"
  using compile_refines_graph [OF sample_total] sample_closed by blast

definition sample_snapshot :: snapshot where
  "sample_snapshot = projr (Compile sample_libs sample_engines sample_texts sample_input)"

lemma sample_compile:
  "Compile sample_libs sample_engines sample_texts sample_input = Inr sample_snapshot \<and>
   snapshot_graph sample_snapshot = sample_graph"
  using compile_refines [OF sample_total] sample_closed unfolding sample_snapshot_def by force

theorem compiled_snapshot_wf_witness: "snapshot_wf sample_snapshot"
  by (rule compiled_snapshot_wf) (rule sample_compile [THEN conjunct1])

lemma none_if: "(\<And>r. x \<noteq> Some r) \<Longrightarrow> x = None"
  by (cases x) auto

theorem default_is_pinned_witness:
  "snapshot_Default (Some sample_snapshot) ''forms.takoform.com/v1alpha1'' ''Store'' = Some sample_ref \<and>
   snapshot_Default (Some sample_snapshot) ''forms.takoform.com/v1'' ''Store'' = None"
proof -
  note d = default_is_pinned [OF sample_compile [THEN conjunct1]]
  have "snapshot_Default (Some sample_snapshot) ''forms.takoform.com/v1'' ''Store'' \<noteq> Some r" for r
    unfolding d by (simp add: sample_input_def)
  then have "snapshot_Default (Some sample_snapshot) ''forms.takoform.com/v1'' ''Store'' = None"
    by (rule none_if)
  moreover have "snapshot_Default (Some sample_snapshot) ''forms.takoform.com/v1alpha1'' ''Store'' = Some sample_ref"
    unfolding d by (simp add: sample_input_def)
  ultimately show ?thesis by (rule conjI [rotated])
qed

theorem version_order_cycle_witness:
  "lessKey sample_engines \<lparr>ek_group = [], ek_kind = [], ek_version = ''100000000000000000000.0.0'', ek_digest = []\<rparr>
     \<lparr>ek_group = [], ek_kind = [], ek_version = ''9.0.0'', ek_digest = []\<rparr>"
proof -
  have "sample_semver ''9.0.0'' = Some [9, 0, 0]" "sample_semver ''10.0.0'' = Some [10, 0, 0]"
    "sample_semver ''100000000000000000000.0.0'' = None"
    by (simp_all add: sample_semver_def parse_uint64_def all_digits_def is_digit_def digits_value_def digit_value_def)
  then show ?thesis
    using version_order_cycle [of sample_engines "[9, 0, 0]" "[10, 0, 0]" "[]" "[]" "[]" "[]" "[]"]
    by (simp add: sample_engines_def)
qed

section \<open>A desired document\<close>

definition desired_schema :: object where
  "desired_schema = [(''type'', VStr ''object''), (''properties'', VObj [(''tier'',
     VObj [(''type'', VStr ''string''), (''default'', VStr ''basic'')])])]"

definition desired_snapshot :: snapshot where
  "desired_snapshot = sample_snapshot\<lparr>sn_forms := [keyFor sample_ref \<mapsto>
     sample_compiled\<lparr>cf_definition := sample_form\<lparr>fd_desiredSchema := Some desired_schema\<rparr>\<rparr>]\<rparr>"

theorem explicit_default_bytes_witness:
  "snapshot_Materialize sample_libs sample_engines (Some desired_snapshot) sample_ref
     (json_encode (VObj [(''tier'', VStr ''basic'')])) =
   snapshot_Materialize sample_libs sample_engines (Some desired_snapshot) sample_ref (json_encode (VObj []))"
proof -
  have u: "valid_utf8 ''tier''" "valid_utf8 ''basic''" by (simp_all add: valid_utf8_ascii ascii_string_def code_def)
  have p: "parseDocument (json_encode (VObj [(''tier'', VStr ''basic'')])) = Inr (VObj [(''tier'', VStr ''basic'')])"
    "parseDocument (json_encode (VObj [])) = Inr (VObj [])"
    by (rule json_round_trip; simp add: u)+
  let ?p = "[(''type'', VStr ''string''), (''default'', VStr ''basic'')]"
  show ?thesis
  proof (rule explicit_default_bytes [where n = "''tier''" and w = "VStr ''basic''" and obj = "[]" and p = ?p
        and props = "[(''tier'', VObj ?p)]" and obj' = "[(''tier'', VStr ''basic'')]"])
    show "judges_text sample_engines" by (simp add: judges_text_def sample_engines_def)
    show "sn_forms desired_snapshot (keyFor sample_ref) =
        Some (sample_compiled\<lparr>cf_definition := sample_form\<lparr>fd_desiredSchema := Some desired_schema\<rparr>\<rparr>)"
      by (simp add: desired_snapshot_def)
    show "object_schema (map_of_nil (fd_desiredSchema (cf_definition
        (sample_compiled\<lparr>cf_definition := sample_form\<lparr>fd_desiredSchema := Some desired_schema\<rparr>\<rparr>)))) [(''tier'', VObj ?p)]"
      by (simp add: object_schema_def map_of_nil_def desired_schema_def union_discriminator_def str_member_def go_simps)
    show "declares_default [(''tier'', VObj ?p)] ''tier'' ?p" by (simp add: declares_default_def go_simps)
    show "parseDocument (json_encode (VObj [])) = Inr (VObj [])" by (rule p)
    show "parseDocument (json_encode (VObj [(''tier'', VStr ''basic'')])) = Inr (VObj [(''tier'', VStr ''basic'')])"
      by (rule p)
  qed (simp_all add: sample_libs_def go_simps)
qed

end
