(* ===== verification/ReferenceSamples.thy ===== *)
theory ReferenceSamples
  imports SnapshotSamples
begin

text \<open>
  A graph in which every kind of reference occurs: beside the Form of \<open>SnapshotSamples\<close> a second
  one whose desired schema names the first as a target, which provides an Interface and accepts
  a Binding onto that Interface. It compiles, and its snapshot resolves the references.
\<close>

section \<open>Parameters\<close>

text \<open>The sample engines with a parser for the one binding name grammar used here.\<close>

definition reference_engines :: "nat list engines" where
  "reference_engines = sample_engines\<lparr>en_parse := \<lambda>_. Some upper_grammar\<rparr>"

lemma reference_engine_simps:
  "en_inline reference_engines = (\<lambda>_ _. Some (\<lambda>_. True))" "en_compiles reference_engines = (\<lambda>_. True)"
  "en_parse reference_engines = (\<lambda>_. Some upper_grammar)" "en_semver reference_engines = sample_semver"
  "en_equals reference_engines = (=)" "en_less reference_engines = (<)"
  by (simp_all add: reference_engines_def sample_engines_def)

lemma sample_lib_simps:
  "lib_transform sample_libs = Some" "lib_schemas sample_libs" "lib_schema_ok sample_libs = (\<lambda>_ _. True)"
  "lib_unicode sample_libs = ascii_tables"
  by (simp_all add: sample_libs_def)

lemmas fold_simps = find_field_def fold_name_def runes_ascii ascii_string_def code_def fold_rune_def

lemmas decode_simps = dec_struct_def dec_slice_def member_def

section \<open>The Interface\<close>

definition store_interface :: gval where
  "store_interface = VObj [(''apiVersion'', VStr ''interfaces.takoform.com/v1alpha1''), (''kind'', VStr ''InterfaceDefinition''),
     (''name'', VStr ''blob''), (''version'', VStr ''1.0.0''),
     (''operations'', VArr [VObj [(''name'', VStr ''get''), (''errors'', VArr [VStr ''absent''])]])]"

definition interface_raw :: bytes where
  "interface_raw = json_encode store_interface"

definition blob_ref :: interface_ref where
  "blob_ref = \<lparr>if_apiVersion = ''interfaces.takoform.com/v1alpha1'', if_name = ''blob'', if_version = ''1.0.0'',
     if_schemaDigest = DigestBytes interface_raw\<rparr>"

definition blob_document :: interface_document where
  "blob_document = \<lparr>idoc_apiVersion = ''interfaces.takoform.com/v1alpha1'', idoc_kind = ''InterfaceDefinition'',
     idoc_name = ''blob'', idoc_version = ''1.0.0'', idoc_operations = [''get'']\<rparr>"

definition blob_artifact :: contract_artifact where
  "blob_artifact = \<lparr>ca_origin = ''blob'', ca_expectedDigest = DigestBytes interface_raw, ca_definition = interface_raw\<rparr>"

definition blob_compiled :: compiled_interface where
  "blob_compiled = \<lparr>ci_public = blob_ref, ci_document = blob_document, ci_canonical = interface_raw,
     ci_origin = contractArtifactSubject ''blob'' interface_raw, ci_operations = {''get''}\<rparr>"

lemma ascii_literal: "list_all (\<lambda>c. of_char c < (128 :: nat)) s \<Longrightarrow> valid_utf8 s"
  by (rule valid_utf8_ascii) (simp add: ascii_string_def code_def)

lemma interface_parse: "parseDocument interface_raw = Inr store_interface"
proof -
  have "wire_value store_interface" "value_depth store_interface \<le> 256"
    by (simp_all add: store_interface_def ascii_literal)
  then show ?thesis unfolding interface_raw_def by (rule json_round_trip)
qed

lemma interface_any: "any_value False store_interface = Some store_interface"
  by (simp add: store_interface_def)

lemma canonical_sample: "parseDocument raw = Inr v \<Longrightarrow> Canonicalize Some raw = Inr raw"
  unfolding Canonicalize_Inr using parsed_utf8 [of raw v] by simp

lemma document_value:
  assumes "parseDocument raw = Inr v" and "any_value False v = Some v"
  shows "validateDocument sample_libs raw schema (dec_any False) VNull = Inr v"
proof -
  have "validateDocumentWithValue sample_libs raw schema (dec_any False) VNull = Inr (v, v)"
    unfolding validateDocumentWithValue_Inr using assms parsed_utf8 [OF assms(1)]
    by (simp add: sample_lib_simps dec_any_def)
  then show ?thesis by (simp add: validateDocument_def)
qed

lemma blob_compiles: "compileInterfaceArtifact sample_libs sample_texts blob_artifact = Inr blob_compiled"
proof -
  have "validateInterfaceDefinitionSemantics store_interface = None"
    by (simp add: validateInterfaceDefinitionSemantics_def store_interface_def go_simps)
  moreover have "dec_struct False interface_document_fields store_interface empty_interface_document = Some blob_document"
  proof -
    have "find_field [(''name'', dec_str)] ''errors'' = None" by (simp add: fold_simps)
    then show ?thesis
      by (simp add: store_interface_def decode_simps interface_document_fields_def blob_document_def
        empty_interface_document_def)
  qed
  ultimately show ?thesis
    unfolding compileInterfaceArtifact_Inr using canonical_sample [OF interface_parse] interface_parse parsed_utf8 [OF interface_parse]
    by (simp add: blob_artifact_def blob_compiled_def blob_ref_def blob_document_def sample_lib_simps
      Unmarshal_strict [OF interface_parse] ValidateInterfaceDefinition_def document_value interface_any)
qed

section \<open>The Binding\<close>

definition blob_ref_value :: gval where
  "blob_ref_value = VObj [(''apiVersion'', VStr ''interfaces.takoform.com/v1alpha1''), (''name'', VStr ''blob''),
     (''schemaDigest'', VStr (DigestBytes interface_raw)), (''version'', VStr ''1.0.0'')]"

definition mount_binding :: gval where
  "mount_binding = VObj [(''apiVersion'', VStr ''bindings.takoform.com/v1alpha2''), (''kind'', VStr ''BindingDefinition''),
     (''name'', VStr ''mount''), (''version'', VStr ''1.0.0''), (''sourceRole'', VStr ''workload''),
     (''targetInterface'', blob_ref_value), (''bindingNameGrammar'', VStr ''^[A-Z]+$''),
     (''runtimeProjection'', VObj [(''operations'', VArr [VStr ''get''])])]"

definition binding_raw :: bytes where
  "binding_raw = json_encode mount_binding"

definition mount_ref :: binding_ref where
  "mount_ref = \<lparr>br_apiVersion = ''bindings.takoform.com/v1alpha2'', br_name = ''mount'', br_version = ''1.0.0'',
     br_schemaDigest = DigestBytes binding_raw\<rparr>"

definition mount_document :: binding_document where
  "mount_document = \<lparr>bd_apiVersion = ''bindings.takoform.com/v1alpha2'', bd_kind = ''BindingDefinition'', bd_name = ''mount'',
     bd_version = ''1.0.0'', bd_sourceRole = ''workload'', bd_targetInterface = blob_ref,
     bd_runtimeProjection = \<lparr>rp_operations = [''get''], rp_accessModes = []\<rparr>\<rparr>"

definition mount_artifact :: contract_artifact where
  "mount_artifact = \<lparr>ca_origin = ''mount'', ca_expectedDigest = DigestBytes binding_raw, ca_definition = binding_raw\<rparr>"

definition mount_compiled :: compiled_binding where
  "mount_compiled = \<lparr>cb_public = \<lparr>bp_ref = mount_ref, bp_targetInterface = blob_ref\<rparr>, cb_document = mount_document,
     cb_canonical = binding_raw, cb_origin = contractArtifactSubject ''mount'' binding_raw\<rparr>"

lemma binding_parse: "parseDocument binding_raw = Inr mount_binding"
proof -
  have "wire_value mount_binding" "value_depth mount_binding \<le> 256"
    by (simp_all add: mount_binding_def blob_ref_value_def ascii_literal)
  then show ?thesis unfolding binding_raw_def by (rule json_round_trip)
qed

lemma binding_any: "any_value False mount_binding = Some mount_binding"
  by (simp add: mount_binding_def blob_ref_value_def)

lemma blob_ref_decoded: "dec_interface_ref strict blob_ref_value old = Some blob_ref"
  by (simp add: dec_interface_ref_def decode_simps blob_ref_value_def blob_ref_def interface_ref_fields_def)

lemma mount_decoded:
  "dec_struct False binding_document_fields mount_binding empty_binding_document = Some mount_document"
proof -
  have "find_field binding_document_fields ''bindingNameGrammar'' = None"
    by (simp add: fold_simps binding_document_fields_def)
  then show ?thesis
    by (simp add: mount_binding_def decode_simps mount_document_def blob_ref_decoded)
      (simp add: binding_document_fields_def decode_simps blob_ref_decoded projection_fields_def empty_binding_document_def
        empty_projection_def)
qed

lemma mount_compiles: "compileBindingArtifact sample_libs reference_engines sample_texts mount_artifact = Inr mount_compiled"
proof -
  have "validateBindingDefinitionSemantics (\<lambda>_. True) (\<lambda>_. Some upper_grammar) mount_binding = None"
    by (simp add: validateBindingDefinitionSemantics_def mount_binding_def go_simps hasUnescapedRegexSuffix_def
      upper_grammar_def regexRequiresBeginText.simps [of "Regexp _ _ _ _"] regexRequiresEndText.simps [of "Regexp _ _ _ _"])
  then show ?thesis
    unfolding compileBindingArtifact_Inr
    using canonical_sample [OF binding_parse] binding_parse parsed_utf8 [OF binding_parse] mount_decoded
    by (simp add: mount_artifact_def mount_compiled_def mount_ref_def mount_document_def sample_lib_simps
      reference_engine_simps Unmarshal_strict [OF binding_parse] ValidateBindingDefinition_def document_value binding_any)
qed

section \<open>The Form\<close>

definition target_value :: gval where
  "target_value = VObj [(''apiVersion'', VStr ''forms.takoform.com/v1alpha1''), (''definitionVersion'', VStr ''1.0.0''),
     (''kind'', VStr ''Store''), (''schemaDigest'', VStr (DigestBytes sample_raw))]"

definition target_schema :: object where
  "target_schema = empty_object @ [(''x-takoform-target-formrefs'', VArr [target_value])]"

definition mount_ref_value :: gval where
  "mount_ref_value = VObj [(''apiVersion'', VStr ''bindings.takoform.com/v1alpha2''), (''name'', VStr ''mount''),
     (''schemaDigest'', VStr (DigestBytes binding_raw)), (''version'', VStr ''1.0.0'')]"

definition worker_definition :: gval where
  "worker_definition = VObj [(''apiVersion'', VStr ''forms.takoform.com/v1alpha1''), (''kind'', VStr ''Worker''),
     (''definitionVersion'', VStr ''1.0.0''), (''role'', VStr ''workload''), (''desiredSchema'', VObj target_schema),
     (''providedInterfaces'', VArr [blob_ref_value]), (''acceptedBindings'', VArr [mount_ref_value])]"

definition worker_raw :: bytes where
  "worker_raw = json_encode worker_definition"

definition worker_form :: form_definition where
  "worker_form = empty_definition\<lparr>fd_apiVersion := ''forms.takoform.com/v1alpha1'', fd_kind := ''Worker'',
     fd_definitionVersion := ''1.0.0'', fd_role := ''workload'', fd_desiredSchema := Some target_schema,
     fd_providedInterfaces := [blob_ref], fd_acceptedBindings := [mount_ref]\<rparr>"

lemmas worker_values = worker_definition_def target_schema_def target_value_def mount_ref_value_def blob_ref_value_def
  empty_object_def

lemma worker_parse: "parseDocument worker_raw = Inr worker_definition"
proof -
  have "wire_value worker_definition" "value_depth worker_definition \<le> 256"
    by (simp_all add: worker_values ascii_literal)
  then show ?thesis unfolding worker_raw_def by (rule json_round_trip)
qed

lemma worker_names:
  "normalizeFieldName ascii_tables ''role'' = ''role''" "normalizeFieldName ascii_tables ''name'' = ''name''"
  "normalizeFieldName ascii_tables ''version'' = ''version''"
  "normalizeFieldName ascii_tables ''schemaDigest'' = ''schemadigest''"
  "normalizeFieldName ascii_tables ''providedInterfaces'' = ''providedinterfaces''"
  "normalizeFieldName ascii_tables ''acceptedBindings'' = ''acceptedbindings''"
  by (simp_all add: name_runes)

lemma worker_tokens:
  "splitFieldNameTokens ascii_tables ''role'' = [''role'']" "splitFieldNameTokens ascii_tables ''name'' = [''name'']"
  "splitFieldNameTokens ascii_tables ''version'' = [''version'']"
  "splitFieldNameTokens ascii_tables ''schemaDigest'' = [''schema'', ''digest'']"
  "splitFieldNameTokens ascii_tables ''providedInterfaces'' = [''provided'', ''interfaces'']"
  "splitFieldNameTokens ascii_tables ''acceptedBindings'' = [''accepted'', ''bindings'']"
  by (simp_all add: name_runes)

lemma worker_fields:
  "\<not> isForbiddenFieldName ascii_tables ''role''" "\<not> isForbiddenFieldName ascii_tables ''name''"
  "\<not> isForbiddenFieldName ascii_tables ''version''" "\<not> isForbiddenFieldName ascii_tables ''schemaDigest''"
  "\<not> isForbiddenFieldName ascii_tables ''providedInterfaces''"
  "\<not> isForbiddenFieldName ascii_tables ''acceptedBindings''"
  "\<not> isForbiddenFieldName ascii_tables ''x-takoform-target-formrefs''"
  by (simp_all add: isForbiddenFieldName_def worker_names worker_tokens policy_lists)

lemma worker_policy: "rejectForbiddenContent ascii_tables worker_definition ''$'' = None"
  by (simp add: worker_values sample_fields worker_fields isReviewedBoundedDesiredFieldSchema_def)

lemma worker_decoded: "dec_struct False definition_fields worker_definition empty_definition = Some worker_form"
proof -
  have "dec_binding_ref False mount_ref_value empty_binding_ref = Some mount_ref"
    by (simp add: dec_binding_ref_def decode_simps mount_ref_value_def mount_ref_def binding_ref_fields_def)
  moreover have "dec_map False (VObj target_schema) None = Some (Some target_schema)"
    by (simp add: dec_map_def worker_values)
  ultimately show ?thesis
    by (simp add: worker_definition_def decode_simps definition_fields_def worker_form_def empty_definition_def
      blob_ref_decoded)
qed

section \<open>The schema of the Form\<close>

lemma target_members:
  "target_schema = [(''type'', VStr ''object''), (''additionalProperties'', VBool False),
     (''x-takoform-target-formrefs'', VArr [target_value])]"
  by (simp add: target_schema_def empty_object_def)

lemma target_start: "start_node U (VObj target_schema) l = Inr (Schema_Node target_schema objectClosed)"
  by (simp add: target_members node_defs)

lemma target_groups: "child_groups target_schema l p = [Inr [], Inr [], Inr [], Inr [], Inr [], Inr [], Inr [], Inr [], Inr []]"
  by (simp add: target_members group_defs)

lemma target_leaf: "literal_mode target_schema l m = Inr m" "reference_child doc target_schema l st = Inr (None, st)"
  by (simp_all add: literal_mode_def reference_child_def target_members go_simps)

lemma target_inline:
  "compileInlineSchema ascii_tables reference_engines target_schema ''desiredSchema'' = Inr (\<lambda>_. True)"
proof -
  have "validatePortableClosure ascii_tables (VObj target_schema) ''desiredSchema'' = None"
    by (simp add: validatePortableClosure_def validate.simps target_start target_groups target_leaf
      consumeOperation_def maxSchemaProofOps_def maxSchemaProofDepth_def settle_def combine_def
      finish_mode.simps record_depth_def union_modes_def intersectObjectAdmission_def
      unionObjectAdmission_def remember_def)
  moreover have "verifyFragmentOnlyReferences (VObj target_schema) ''desiredSchema'' = None"
    by (simp add: target_members target_value_def)
  moreover have "work_groups (VObj target_schema) target_schema p =
      [Inr [], Inr [], Inr [(VBool False, p @ ''/additionalProperties'')], Inr [], Inr [], Inr [], Inr [], Inr []]" for p
    by (simp add: work_groups_def work_object_def work_singles_def work_array_def work_reference_def
      target_members schemaObjectKeyword_def single_keywords_def array_keywords_def append_one escape_simps go_simps)
  then have "estimate (Suc (Suc n)) (VObj target_schema) (VObj target_schema) ''#'' Map.empty =
      Inr (2, Map.empty(''#'' \<mapsto> None, ''#/additionalProperties'' \<mapsto> Some 1, ''#'' \<mapsto> Some 2))" for n
    by (simp add: saturatingSchemaWorkAdd_def maxSchemaValidationWork_def numeral_2_eq_2)
  then have "estimate estimate_fuel (VObj target_schema) (VObj target_schema) ''#'' Map.empty =
      Inr (2, Map.empty(''#'' \<mapsto> None, ''#/additionalProperties'' \<mapsto> Some 1, ''#'' \<mapsto> Some 2))"
    unfolding estimate_fuel_def by (simp add: eval_nat_numeral)
  ultimately show ?thesis
    unfolding compileInlineSchema_def validatePortableSchemaStructure_def
    by (simp add: reference_engine_simps maxSchemaValidationWork_def)
qed

section \<open>The packages\<close>

definition worker_ref :: form_ref where
  "worker_ref = \<lparr>fr_apiVersion = ''forms.takoform.com/v1alpha1'', fr_kind = ''Worker'',
     fr_definitionVersion = ''1.0.0'', fr_schemaDigest = DigestBytes worker_raw\<rparr>"

definition worker_index :: package_index where
  "worker_index = sample_package_index\<lparr>pi_formRef := worker_ref,
     pi_files := [\<lparr>pf_path = ''definition.json'', pf_mediaType = DefinitionMediaType, pf_size = 0,
       pf_digest = DigestBytes worker_raw\<rparr>]\<rparr>"

definition worker_package :: verified_package where
  "worker_package = Some \<lparr>vd_issuer = Some 0, vd_packageDigest = sample_package_digest, vd_formRef = worker_ref,
     vd_index = worker_index, vd_canonicalDefinition = worker_raw, vd_payloads = []\<rparr>"

definition worker_artifact :: package_artifact where
  "worker_artifact = \<lparr>pa_origin = ''worker'', pa_expectedDigest = sample_package_digest, pa_package = worker_package\<rparr>"

definition worker_compiled :: compiled_form where
  "worker_compiled = \<lparr>cf_ref = worker_ref, cf_packageDigest = sample_package_digest, cf_definition = worker_form,
     cf_canonical = worker_raw, cf_origin = artifactSubject worker_artifact\<rparr>"

lemma worker_valid [simp]: "package_Valid worker_package"
  by (simp add: package_Valid_def worker_package_def verifiedPackageIssuerToken_def)

lemma worker_envelope: "envelope_api worker_raw = Some ''forms.takoform.com/v1alpha1''"
  by (simp add: envelope_api_def Unmarshal_strict [OF worker_parse] worker_definition_def dec_struct_def find_field_def
    fold_name_def runes_ascii ascii_string_def code_def fold_rune_def)

lemma worker_form_simps:
  "fd_apiVersion worker_form = ''forms.takoform.com/v1alpha1''" "fd_kind worker_form = ''Worker''"
  "fd_definitionVersion worker_form = ''1.0.0''" "fd_role worker_form = ''workload''"
  "fd_desiredSchema worker_form = Some target_schema" "fd_observedSchema worker_form = None"
  "fd_outputSchema worker_form = None" "fd_interfaces worker_form = []" "fd_requiresHostAPI worker_form = []"
  "fd_providedInterfaces worker_form = [blob_ref]" "fd_acceptedBindings worker_form = [mount_ref]"
  by (simp_all add: worker_form_def empty_definition_def)

lemma worker_revalidated: "RevalidateDefinition sample_libs reference_engines worker_package = Inr worker_form"
proof -
  have "validateDocumentWithValue sample_libs worker_raw legacyDefinition (dec_struct False definition_fields)
      empty_definition = Inr (worker_form, worker_definition)"
    unfolding validateDocumentWithValue_Inr
    using worker_parse parsed_utf8 [OF worker_parse] worker_decoded by (simp add: sample_lib_simps)
  moreover have "validateDefinitionSemantics worker_form = None" "validateDefinitionConstraintRelations worker_form = None"
    by (simp_all add: worker_form_def empty_definition_def validateDefinitionSemantics_def
      validateDefinitionConstraintRelations_def validateDefinitionStructuralConstraints_def)
  ultimately have "validateDefinitionWithFamilyProfile sample_libs reference_engines worker_raw profile =
      Inr (worker_form, worker_definition, \<lparr>cs_desired = \<lambda>_. True, cs_observed = None, cs_output = None\<rparr>)" for profile
    using target_inline worker_policy
    by (simp add: validateDefinitionWithFamilyProfile_def worker_envelope definition_schema_def LegacyFormAPIVersion_def
      inline_schema_def optional_schema_def map_of_nil_def worker_form_simps sample_lib_simps)
  moreover have "vd_canonicalDefinition (the worker_package) = worker_raw" by (simp add: worker_package_def)
  ultimately show ?thesis by (simp add: RevalidateDefinition_def)
qed

lemma worker_compiles:
  "compileArtifact sample_libs reference_engines sample_texts worker_artifact = Inr worker_compiled"
proof -
  have "Canonicalize (lib_transform sample_libs) (package_Definition worker_package) = Inr worker_raw"
    using canonical_sample [OF worker_parse] by (simp add: package_Definition_def sample_lib_simps) (simp add: worker_package_def)
  moreover have "package_PackageIndex worker_package = worker_index"
    "package_PackageDigest worker_package = sample_package_digest"
    by (simp_all add: package_PackageIndex_def package_PackageDigest_def) (simp_all add: worker_package_def)
  ultimately show ?thesis
    using worker_revalidated
    by (simp add: compileArtifact_Inr form_provenance_def worker_artifact_def worker_compiled_def worker_ref_def
      worker_index_def sample_package_index_def definitionEntry_def worker_form_simps)
qed

text \<open>The engines differ in the grammar parser only, which no Form asks.\<close>

lemma sample_compiles_too:
  "compileArtifact sample_libs reference_engines sample_texts sample_artifact = Inr sample_compiled"
proof -
  have en: "en_inline reference_engines = en_inline sample_engines"
    by (simp add: reference_engine_simps) (simp add: sample_engines_def)
  have i: "inline_schema U reference_engines m n = inline_schema U sample_engines m n" for U m n
    unfolding inline_schema_def compileInlineSchema_def en ..
  have o: "optional_schema U reference_engines m n = optional_schema U sample_engines m n" for U m n
    unfolding optional_schema_def i by (rule refl)
  have t: "descriptor_document U reference_engines = descriptor_document U sample_engines" for U
    unfolding descriptor_document_def fun_eq_iff i by simp
  have "RevalidateDefinition sample_libs reference_engines sample_package = Inr sample_form"
    using sample_revalidated unfolding RevalidateDefinition_def validateDefinitionWithFamilyProfile_def i o t .
  moreover note sample_compiles
  ultimately show ?thesis
    unfolding compileArtifact_Inr form_provenance_def by (simp add: sample_artifact_def sample_compiled_def)
qed

section \<open>What the Form refers to\<close>

lemma target_decoded: "DecodeStrictIJSON Some (marshal_any target_value) (dec_form_ref True) empty_form_ref = Inr sample_ref"
proof -
  have "sort_maps target_value = target_value"
    by (simp add: target_value_def less_char_def key_less_def)
  then have "marshal_any target_value = json_encode target_value" by (simp add: marshal_any_def)
  moreover have "parseDocument (json_encode target_value) = Inr target_value"
    by (rule json_round_trip) (simp_all add: target_value_def ascii_literal)
  moreover have "dec_form_ref True target_value empty_form_ref = Some sample_ref"
    by (simp add: dec_form_ref_def decode_simps form_ref_fields_def target_value_def sample_ref_def)
  ultimately show ?thesis
    unfolding DecodeStrictIJSON_Inr using parsed_utf8 by auto
qed

lemma target_keys:
  "sort_strings (keys target_schema) = [''additionalProperties'', ''type'', ''x-takoform-target-formrefs'']"
  by (simp add: target_members sort_strings_def less_char_def)

lemma decimal_zero: "decimal 0 = ''0''"
  by code_simp

lemma worker_targets:
  "form_targets sample_libs worker_form =
     [\<lparr>tr_pointer = ''/desiredSchema/x-takoform-target-formrefs/0'', tr_ref = sample_ref\<rparr>]"
  by (simp add: form_targets_def worker_form_simps map_of_nil_def targetRefs.simps [of _ "VObj target_schema"] target_keys
      sample_lib_simps)
    (simp add: target_members go_simps targetRefs.simps [of _ "VStr _"] targetRefs.simps [of _ "VBool _"] target_decoded
      escape_simps decimal_zero)

lemma worker_annotations: "contractAnnotations Some (VObj target_schema) p = ([], [])"
proof -
  have v: "contractAnnotationsWithBinding tr doc q stack target_value r n = ([], [])" for tr doc q stack r n
    by (simp add: target_value_def contractAnnotationsWithBinding.simps [of _ _ _ _ "VObj _"]
      contractAnnotationsWithBinding.simps [of _ _ _ _ "VStr _"] annotated_binding_def join_annotations_def go_simps
      sort_strings_def less_char_def)
  show ?thesis
    by (simp add: contractAnnotations_def contractAnnotationsWithBinding.simps [of _ _ _ _ "VObj target_schema"] target_keys)
      (simp add: target_members go_simps annotated_binding_def join_annotations_def v
        contractAnnotationsWithBinding.simps [of _ _ _ _ "VStr _"] contractAnnotationsWithBinding.simps [of _ _ _ _ "VBool _"]
        contractAnnotationsWithBinding.simps [of _ _ _ _ "VArr _"])
qed

section \<open>The graph\<close>

definition reference_pins :: "default_pin list" where
  "reference_pins =
     [\<lparr>dp_group = ''forms.takoform.com/v1alpha1'', dp_kind = ''Worker'', dp_ref = worker_ref\<rparr>,
      \<lparr>dp_group = ''forms.takoform.com/v1alpha1'', dp_kind = ''Store'', dp_ref = sample_ref\<rparr>]"

definition reference_input :: compile_input where
  "reference_input = \<lparr>in_hostAPI = ''forms.takoform.com/v1'', in_packages = [worker_artifact, sample_artifact],
     in_interfaces = [blob_artifact], in_bindings = [mount_artifact], in_defaultCreates = reference_pins\<rparr>"

definition reference_graph :: graph where
  "reference_graph = \<lparr>gr_forms = {worker_compiled, sample_compiled}, gr_interfaces = {blob_compiled},
     gr_bindings = {mount_compiled}, gr_defaults = {worker_ref, sample_ref}\<rparr>"

lemmas compiled_simps = sample_compiled_def worker_compiled_def blob_compiled_def mount_compiled_def

lemma reference_keys: "form_key_of worker_compiled \<noteq> form_key_of sample_compiled"
  by (simp add: form_key_of_def keyFor_def compiled_simps worker_ref_def sample_ref_def)

lemma reference_closed: "closed_graph sample_libs reference_engines sample_texts reference_input reference_graph"
proof -
  have "supplied (compileArtifact sample_libs reference_engines sample_texts) form_key_of
      [worker_artifact, sample_artifact] {worker_compiled, sample_compiled}"
    using reference_keys by (auto simp: supplied_def worker_compiles sample_compiles_too)
  moreover have "supplied (compileInterfaceArtifact sample_libs sample_texts) interface_key_of [blob_artifact] {blob_compiled}"
    by (simp add: supplied_def blob_compiles)
  moreover have "supplied (compileBindingArtifact sample_libs reference_engines sample_texts) binding_key_of
      [mount_artifact] {mount_compiled}"
    by (simp add: supplied_def mount_compiles)
  moreover have "binding_closed reference_graph mount_compiled"
    by (simp add: binding_closed_def reference_graph_def compiled_simps mount_document_def projected_operations_def)
  moreover have "form_closed sample_libs h reference_graph worker_compiled" for h
  proof -
    have "binding_by_ref reference_graph mount_ref mount_compiled"
      by (simp add: binding_by_ref_def reference_graph_def compiled_simps)
    moreover have "annotations_closed sample_libs reference_graph worker_form"
      by (simp add: annotations_closed_def worker_form_simps map_of_nil_def sample_lib_simps worker_annotations)
    ultimately show ?thesis
      by (auto simp: form_closed_def worker_compiled_def worker_form_simps worker_targets)
        (auto simp: reference_graph_def compiled_simps mount_document_def intro!: exI [of _ mount_compiled])
  qed
  moreover have "form_closed sample_libs h reference_graph sample_compiled" for h
    by (simp add: form_closed_def sample_compiled_def sample_form_def empty_definition_def annotations_closed_def
      form_targets_def map_of_nil_def empty_walks)
  moreover have "pins_closed reference_pins reference_graph"
    by (simp add: pins_closed_def reference_pins_def reference_graph_def compiled_simps form_key_of_def key_group_def
      pin_group_def keyFor_def sample_ref_def worker_ref_def group_kind_of_def)
  ultimately show ?thesis
    unfolding closed_graph_def by (simp add: reference_input_def) (simp add: reference_graph_def)
qed

section \<open>The snapshot\<close>

definition reference_snapshot :: snapshot where
  "reference_snapshot = projr (Compile sample_libs reference_engines sample_texts reference_input)"

lemma reference_compile:
  "Compile sample_libs reference_engines sample_texts reference_input = Inr reference_snapshot"
  using compile_refines [OF sample_total] reference_closed unfolding reference_snapshot_def by force

lemma reference_lists:
  "\<exists>digest. ValidDigest digest \<and>
     reference_snapshot = snapshot_of reference_engines reference_input [worker_compiled, sample_compiled]
       (graph_of_contracts [blob_compiled] [mount_compiled]) digest"
proof -
  obtain fs ics bcs digest where c:
    "compile_all (compileArtifact sample_libs reference_engines sample_texts) (in_packages reference_input) = ([], fs)"
    "compile_all (compileInterfaceArtifact sample_libs sample_texts) (in_interfaces reference_input) = ([], ics)"
    "compile_all (compileBindingArtifact sample_libs reference_engines sample_texts) (in_bindings reference_input) = ([], bcs)"
    "reference_snapshot = snapshot_of reference_engines reference_input fs (graph_of_contracts ics bcs) digest"
    by (rule Compile_lists [OF reference_compile])
  have "fs = [worker_compiled, sample_compiled]" "ics = [blob_compiled]" "bcs = [mount_compiled]"
    using c(1-3) by (simp_all add: reference_input_def worker_compiles sample_compiles_too blob_compiles mount_compiles)
  moreover have "ValidDigest digest"
    using compiled_wf [OF reference_compile] by (simp add: snapshot_wf_def c(4) snapshot_of_def)
  ultimately show ?thesis using c(4) by blast
qed

lemma worker_present: "sn_forms reference_snapshot (keyFor worker_ref) = Some worker_compiled"
proof -
  obtain digest where s: "reference_snapshot = snapshot_of reference_engines reference_input
      [worker_compiled, sample_compiled] (graph_of_contracts [blob_compiled] [mount_compiled]) digest"
    using reference_lists by blast
  have "form_key_of worker_compiled = keyFor worker_ref" by (simp add: form_key_of_def worker_compiled_def)
  with reference_keys show ?thesis by (simp add: s snapshot_of_def form_map_def single_candidates_def)
qed


section \<open>Another order\<close>

lemma reference_order: "semver_order reference_engines"
  by (auto simp: semver_order_def reference_engine_simps)

lemma reference_versions: "versions_parse sample_libs reference_engines sample_texts reference_input"
proof -
  have "sample_semver ''1.0.0'' \<noteq> None"
    by (simp add: sample_semver_def parse_uint64_def all_digits_def is_digit_def digits_value_def digit_value_def)
  then show ?thesis
    by (simp add: versions_parse_def reference_input_def sample_compiles_too worker_compiles parsed_key_def form_key_of_def
      compiled_simps sample_ref_def worker_ref_def reference_engine_simps)
qed

definition reordered_input :: compile_input where
  "reordered_input = reference_input\<lparr>in_packages := [sample_artifact, worker_artifact],
     in_defaultCreates := rev reference_pins\<rparr>"

theorem compile_order_independent_witness:
  "Compile sample_libs reference_engines sample_texts reordered_input = Inr reference_snapshot"
proof -
  have "same_input reference_input reordered_input"
    by (simp add: same_input_def reordered_input_def reference_input_def)
  from compile_order_independent [OF reference_order reference_versions this] reference_compile show ?thesis by simp
qed

end
