(* ===== verification/CorpusSamples.thy ===== *)
theory CorpusSamples
  imports CorpusProofs ReferenceSamples
begin

text \<open>
  The corpus runner's checks on the input of \<open>ReferenceSamples\<close>: two Forms, an Interface and a
  Binding, with the roster it is expected to compile to. Both probes of the compiler are run and
  pass.
\<close>

lemma sample_digest_not_zero: "sample_package_digest \<noteq> zero_digest"
proof
  assume "sample_package_digest = zero_digest"
  then have "last sample_package_digest = last zero_digest" by simp
  then show False by (simp add: sample_package_digest_def zero_digest_def eval_nat_numeral)
qed

definition sample_corpus_input :: snapshot_input where
  "sample_corpus_input = empty_snapshot_input\<lparr>si_name := ''external-family'', si_defaultCreates := reference_pins,
     si_expectedFormRefs := Some [sample_ref, worker_ref]\<rparr>"

definition sample_roster :: "(form_ref \<times> bytes) list" where
  "sample_roster = [(worker_ref, sample_package_digest), (sample_ref, sample_package_digest)]"

text \<open>What the snapshot holds: the Forms in the order of their kinds, the Interface and the Binding.\<close>

lemma reference_roster:
  "snapshot_Forms (Some reference_snapshot) = [(sample_ref, sample_package_digest), (worker_ref, sample_package_digest)]"
  "snapshot_Interfaces (Some reference_snapshot) = [blob_ref]"
  "map bp_ref (snapshot_Bindings (Some reference_snapshot)) = [mount_ref]"
  "sn_hostAPI reference_snapshot = in_hostAPI reference_input" "ValidDigest (sn_digest reference_snapshot)"
proof -
  obtain digest where d: "ValidDigest digest" and s: "reference_snapshot = snapshot_of reference_engines reference_input
      [worker_compiled, sample_compiled] (graph_of_contracts [blob_compiled] [mount_compiled]) digest"
    using reference_lists by blast
  have k: "form_key_of worker_compiled \<noteq> form_key_of sample_compiled" by (rule reference_keys)
  have l: "lessKey reference_engines (form_key_of sample_compiled) (form_key_of worker_compiled)"
    "\<not> lessKey reference_engines (form_key_of worker_compiled) (form_key_of sample_compiled)"
    by (simp_all add: lessKey_def form_key_of_def keyFor_def compiled_simps sample_ref_def worker_ref_def less_char_def)
  show "snapshot_Forms (Some reference_snapshot) =
      [(sample_ref, sample_package_digest), (worker_ref, sample_package_digest)]"
    using k l by (simp add: snapshot_Forms_def s snapshot_of_def form_order_def sortedKeys_def form_map_def
      single_candidates_def) (simp add: compiled_simps)
  show "snapshot_Interfaces (Some reference_snapshot) = [blob_ref]"
    "map bp_ref (snapshot_Bindings (Some reference_snapshot)) = [mount_ref]"
    by (simp_all add: snapshot_Interfaces_def snapshot_Bindings_def s snapshot_of_def graph_of_contracts_def
      sortedInterfaceKeys_def sortedBindingKeys_def single_candidates_def) (simp_all add: compiled_simps)
  show "sn_hostAPI reference_snapshot = in_hostAPI reference_input" "ValidDigest (sn_digest reference_snapshot)"
    using d by (simp_all add: s snapshot_of_def)
qed

lemma reference_defaults:
  "snapshot_Default (Some reference_snapshot) ''forms.takoform.com/v1alpha1'' ''Worker'' = Some worker_ref"
  "snapshot_Default (Some reference_snapshot) ''forms.takoform.com/v1alpha1'' ''Store'' = Some sample_ref"
  unfolding default_is_pinned [OF reference_compile] by (simp_all add: reference_input_def reference_pins_def)

lemma reference_checked:
  "compile_and_check_roster sample_libs reference_engines sample_texts sample_corpus_input reference_input sample_roster
     [blob_ref] [mount_ref] = Inr reference_snapshot"
proof -
  have "sample_ref \<noteq> worker_ref" by (simp add: sample_ref_def worker_ref_def)
  then have "assertSnapshotRoster sample_corpus_input reference_snapshot sample_roster [blob_ref] [mount_ref] = None"
    by (simp add: assertSnapshotRoster_def reference_roster sample_corpus_input_def empty_snapshot_input_def sample_roster_def
      reference_pins_def reference_defaults sortedInterfaceRefs_def sortedBindingRefs_def)
  then show ?thesis by (simp add: compile_and_check_roster_def reference_compile reference_roster)
qed

theorem compiler_probes_pass_witness:
  "bind_res (compile_and_check sample_libs reference_engines sample_texts sample_corpus_input reference_input sample_roster
     [blob_ref] [mount_ref]) (\<lambda>c. Inr (ci_snapshot c)) = Inr reference_snapshot"
proof -
  have "\<forall>a\<in>set (in_packages reference_input). pa_expectedDigest a \<noteq> zero_digest"
    using sample_digest_not_zero by (simp add: reference_input_def sample_artifact_def worker_artifact_def)
  from compiler_probes_pass [OF reference_order reference_versions this] show ?thesis by (simp add: reference_checked)
qed

end
