(* ===== verification/RevocationSamples.thy ===== *)
theory RevocationSamples
  imports RevocationChain
begin

text \<open>
  A concrete chain of the current profile: the genesis, and two checkpoints that revoke two
  packages. The canonicalizer is the identity, which is what RFC 8785 asks for on texts that
  are canonical already, and every schema admits every document.
\<close>

definition sample_libs :: libs where
  "sample_libs = \<lparr>lib_transform = Some, lib_schemas = True, lib_schema_ok = (\<lambda>_ _. True),
     lib_unicode = ascii_tables\<rparr>"

definition sample_ref :: form_ref where
  "sample_ref = \<lparr>fr_apiVersion = ''storage.example'', fr_kind = ''Queue'',
     fr_definitionVersion = ''1.0.0'', fr_schemaDigest = DigestBytes ''d''\<rparr>"

definition sample_entry :: "u64 \<Rightarrow> bytes \<Rightarrow> checkpoint_entry" where
  "sample_entry n v = \<lparr>ce_statementAPIVersion = CurrentTrustAPIVersion, ce_sequence = n,
     ce_statementVersion = v, ce_statementDigest = digestPrefix @ replicate 63 CHR ''0'' @ v,
     ce_packageDigest = digestPrefix @ replicate 63 CHR ''0'' @ v, ce_formRef = sample_ref\<rparr>"

definition sample_one :: revocation_checkpoint where
  "sample_one = \<lparr>rc_apiVersion = CurrentTrustAPIVersion, rc_kind = RevocationCheckpointKind,
     rc_checkpointVersion = ''1'', rc_sequence = 1,
     rc_previousCheckpointDigest = Some (DigestBytes (json_encode (enc_checkpoint revocation_genesis))),
     rc_entries = Some [sample_entry 1 ''1'']\<rparr>"

definition sample_two :: revocation_checkpoint where
  "sample_two = \<lparr>rc_apiVersion = CurrentTrustAPIVersion, rc_kind = RevocationCheckpointKind,
     rc_checkpointVersion = ''2'', rc_sequence = 2,
     rc_previousCheckpointDigest = Some (DigestBytes (json_encode (enc_checkpoint sample_one))),
     rc_entries = Some [sample_entry 1 ''1'', sample_entry 2 ''2'']\<rparr>"

lemmas sample_defs = sample_one_def sample_two_def revocation_genesis_def sample_entry_def sample_ref_def
  epoch_defs

lemma DigestBytes_ascii: "ascii_string (DigestBytes s)"
proof -
  have "code c < 128" if "is_hex_char c" for c
    using that hex_rune_is_hex_char [of c] by (auto simp: hex_rune_def)
  then have "ascii_string (hex_encode (sha256 s))"
    using hex_sha256_is_hex by (force simp: ascii_string_set)
  then show ?thesis by (simp add: DigestBytes_def digestPrefix_def ascii_string_def code_def)
qed

lemma short_ascii: "list_all (\<lambda>c. code c < 128) s \<Longrightarrow> valid_utf8 s"
  by (rule valid_utf8_ascii) (simp add: ascii_string_def)

lemma valid_utf8_DigestBytes [simp]: "valid_utf8 (DigestBytes s)"
  by (rule valid_utf8_ascii [OF DigestBytes_ascii])

lemma sample_entry_strings: "list_all (\<lambda>c. code c < 128) v \<Longrightarrow> entry_strings (sample_entry n v)"
  using valid_utf8_append [of "replicate 63 CHR ''0''" v] short_ascii [of "replicate 63 CHR ''0''"]
  by (simp add: sample_entry_def sample_ref_def entry_strings_def ref_strings_def digestPrefix_def
      epoch_defs short_ascii code_def list_all_iff)

lemma sample_strings:
  "checkpoint_strings revocation_genesis" "checkpoint_strings sample_one" "checkpoint_strings sample_two"
  by (simp_all add: checkpoint_strings_def revocation_genesis_def sample_one_def sample_two_def
      entries_strings_def sample_entry_strings code_def) (simp_all add: epoch_defs short_ascii code_def)

lemma sample_libs_sel [simp]:
  "lib_transform sample_libs = Some" "lib_schemas sample_libs" "lib_schema_ok sample_libs k v"
  by (simp_all add: sample_libs_def)

lemma other_names:
  "fold_name ''kind'' \<noteq> fold_name ''apiVersion''" "fold_name ''checkpointVersion'' \<noteq> fold_name ''apiVersion''"
  "fold_name ''sequence'' \<noteq> fold_name ''apiVersion''"
  "fold_name ''previousCheckpointDigest'' \<noteq> fold_name ''apiVersion''"
  "fold_name ''entries'' \<noteq> fold_name ''apiVersion''"
  by code_simp+

lemma sample_form_ref: "ValidateRevocationFormRef sample_libs CurrentTrustAPIVersion sample_ref = Inr ()"
proof -
  have w: "wire_value (enc_form_ref sample_ref)"
    by (intro wire_form_ref) (simp add: ref_strings_def sample_ref_def short_ascii code_def)
  then have "parseDocument (json_encode (enc_form_ref sample_ref)) = Inr (enc_form_ref sample_ref)"
    by (rule json_round_trip) (simp add: enc_form_ref_def)
  then have "validateDocument sample_libs (json_encode (enc_form_ref sample_ref)) stableFamilyFormRef
      (dec_form_ref False) empty_form_ref = Inr sample_ref"
    using parsed_utf8 by (simp add: validateDocument_Inr)
  moreover have "NamespacedFormGroup ''storage.example''" by code_simp
  ultimately show ?thesis by (simp add: ValidateRevocationFormRef_def sample_ref_def)
qed

lemma sample_validate:
  assumes "checkpoint_strings c" and "rc_apiVersion c = CurrentTrustAPIVersion" and "checkpoint_closed sample_libs c"
  shows "ValidateRevocationCheckpoint sample_libs (json_encode (enc_checkpoint c)) = Inr c"
proof -
  note p = parse_checkpoint [OF assms(1)]
  have "envelope_api (json_encode (enc_checkpoint c)) = Some (rc_apiVersion c)"
    unfolding envelope_api_def Unmarshal_strict [OF p]
    by (simp add: enc_checkpoint_def dec_struct_def find_field_def other_names [symmetric] other_names)
  moreover have "validateDocument sample_libs (json_encode (enc_checkpoint c)) revocationCheckpointV1
      (dec_struct False checkpoint_fields) empty_checkpoint = Inr c"
    using p parsed_utf8 [OF p] by (simp add: validateDocument_Inr dec_enc_checkpoint)
  ultimately show ?thesis
    using assms(2,3) by (simp add: ValidateRevocationCheckpoint_Inr checkpoint_schema_def)
qed

lemma sample_entry_ok: "is_hex_char d \<Longrightarrow> entry_ok sample_libs CurrentTrustAPIVersion (sample_entry n [d])"
  by (auto simp: entry_ok_def sample_entry_def sample_form_ref ValidDigest_iff is_hex_char_def list_all_iff
      less_eq_char_def)

lemma sample_checkpoint_closed:
  "checkpoint_closed sample_libs revocation_genesis" "checkpoint_closed sample_libs sample_one"
  "checkpoint_closed sample_libs sample_two"
proof -
  have h: "is_hex_char CHR ''1''" "is_hex_char CHR ''2''" by code_simp+
  show "checkpoint_closed sample_libs revocation_genesis"
    by (simp add: checkpoint_closed_def revocation_genesis_def entries_of_def checkpoint_previous_def)
  show "checkpoint_closed sample_libs sample_one"
    using sample_entry_ok [OF h(1)]
    by (simp add: checkpoint_closed_def sample_one_def entries_of_def checkpoint_previous_def)
      (simp add: sample_entry_def)
  show "checkpoint_closed sample_libs sample_two"
    using sample_entry_ok [OF h(1)] sample_entry_ok [OF h(2)]
    by (simp add: checkpoint_closed_def sample_two_def entries_of_def checkpoint_previous_def upt_rec)
      (simp add: sample_entry_def digestPrefix_def)
qed

lemma sample_validated:
  "ValidateRevocationCheckpoint sample_libs (json_encode (enc_checkpoint revocation_genesis)) = Inr revocation_genesis"
  "ValidateRevocationCheckpoint sample_libs (json_encode (enc_checkpoint sample_one)) = Inr sample_one"
  "ValidateRevocationCheckpoint sample_libs (json_encode (enc_checkpoint sample_two)) = Inr sample_two"
  using sample_strings sample_checkpoint_closed
  by (simp_all add: sample_validate revocation_genesis_def sample_one_def sample_two_def)

text \<open>The host's run: the genesis pinned, then the two checkpoints in turn.\<close>

definition sample_pin :: "revocation_checkpoint \<Rightarrow> checkpoint_pin" where
  "sample_pin c = \<lparr>cp_checkpointAPIVersion = CurrentTrustAPIVersion, cp_sequence = rc_sequence c,
     cp_digest = DigestBytes (json_encode (enc_checkpoint c)),
     cp_entriesDigest = DigestBytes (json_encode (enc_entries (rc_entries c)))\<rparr>"

lemma sample_digest:
  "checkpoint_strings c \<Longrightarrow>
     DigestCanonicalJSON Some (json_encode (enc_checkpoint c)) = Inr (DigestBytes (json_encode (enc_checkpoint c)))"
  using parse_checkpoint [of c] parsed_utf8 by (simp add: DigestCanonicalJSON_Inr)

lemma sample_entries_digest:
  "entries_strings es \<Longrightarrow>
     revocationEntriesDigest sample_libs es = Inr (DigestBytes (json_encode (enc_entries es)))"
  using json_round_trip [OF wire_entries depth_entries] parsed_utf8
  by (simp add: revocationEntriesDigest_Inr DigestCanonicalJSON_Inr)

lemma sample_genesis_pin: "currentRevocationGenesisPin sample_libs = Inr (sample_pin revocation_genesis)"
  using sample_digest [OF sample_strings(1)] sample_entries_digest [of "rc_entries revocation_genesis"]
  by (simp add: currentRevocationGenesisPin_def sample_pin_def revocation_genesis_def entries_strings_def)

lemma sample_first:
  "AdvanceRevocationCheckpoint sample_libs None (json_encode (enc_checkpoint revocation_genesis)) =
     Inr (sample_pin revocation_genesis)"
  using sample_validated(1) sample_digest [OF sample_strings(1)]
    sample_entries_digest [of "rc_entries revocation_genesis"]
  by (simp add: Advance_Inr first_pin_def sample_pin_def)
    (simp add: revocation_genesis_def entries_strings_def)

lemma sample_next:
  assumes "checkpoint_strings c" and "checkpoint_strings d"
    and "ValidateRevocationCheckpoint sample_libs (json_encode (enc_checkpoint d)) = Inr d"
    and "rc_apiVersion d = CurrentTrustAPIVersion" and "rc_sequence d = rc_sequence c + 1"
    and "rc_previousCheckpointDigest d = Some (DigestBytes (json_encode (enc_checkpoint c)))"
    and "entries_prefix (rc_entries d) (rc_sequence c) = Inr (rc_entries c)"
    and "rc_sequence c = 0 \<Longrightarrow> c = revocation_genesis"
  shows "AdvanceRevocationCheckpoint sample_libs (Some (sample_pin c)) (json_encode (enc_checkpoint d)) =
     Inr (sample_pin d)"
proof -
  have e: "entries_strings (rc_entries c)" "entries_strings (rc_entries d)"
    using assms(1,2) by (simp_all add: checkpoint_strings_def)
  have "pin_profile sample_libs (sample_pin c) d = Inr ()"
    using assms(4,8) sample_genesis_pin by (auto simp: pin_profile_def sample_pin_def)
  then have "next_pin sample_libs (sample_pin c) d (DigestBytes (json_encode (enc_checkpoint d)))
      (DigestBytes (json_encode (enc_entries (rc_entries d)))) = Inr (sample_pin d)"
    using assms(5-7) sample_entries_digest [OF e(1)] by (simp add: next_pin_def sample_pin_def)
  then show ?thesis
    using assms(3) sample_digest [OF assms(2)] sample_entries_digest [OF e(2)] by (simp add: Advance_Inr)
qed

lemma sample_prefixes:
  "entries_prefix (rc_entries sample_one) (rc_sequence revocation_genesis) = Inr (rc_entries revocation_genesis)"
  "entries_prefix (rc_entries sample_two) (rc_sequence sample_one) = Inr (rc_entries sample_one)"
  by (simp_all add: entries_prefix_def revocation_genesis_def sample_one_def sample_two_def Let_def)

lemma sample_pinned:
  "pinned sample_libs [sample_one, revocation_genesis] (sample_pin sample_one)"
  "pinned sample_libs [sample_two, sample_one, revocation_genesis] (sample_pin sample_two)"
proof -
  have g: "pinned sample_libs [revocation_genesis] (sample_pin revocation_genesis)"
    by (rule pinned_first [OF sample_first sample_validated(1)])
  have "AdvanceRevocationCheckpoint sample_libs (Some (sample_pin revocation_genesis))
      (json_encode (enc_checkpoint sample_one)) = Inr (sample_pin sample_one)"
    by (rule sample_next [OF sample_strings(1,2) sample_validated(2) _ _ _ sample_prefixes(1)])
      (simp_all add: sample_one_def revocation_genesis_def)
  then show one: "pinned sample_libs [sample_one, revocation_genesis] (sample_pin sample_one)"
    by (rule pinned_next [OF g _ sample_validated(2)])
  have "AdvanceRevocationCheckpoint sample_libs (Some (sample_pin sample_one))
      (json_encode (enc_checkpoint sample_two)) = Inr (sample_pin sample_two)"
    by (rule sample_next [OF sample_strings(2,3) sample_validated(3) _ _ _ sample_prefixes(2)])
      (simp_all add: sample_one_def sample_two_def)
  then show "pinned sample_libs [sample_two, sample_one, revocation_genesis] (sample_pin sample_two)"
    by (rule pinned_next [OF one _ sample_validated(3)])
qed

lemma sample_faithful: "faithful_canonicalizer (lib_transform sample_libs)"
  by (auto simp: faithful_canonicalizer_def intro: value_eq.eq_same)

lemma sample_no_collision: "no_collision sample_libs [sample_two, sample_one, revocation_genesis]"
  by (auto simp: compared_apart_def sample_prefixes)

lemma sample_small: "small_chain [sample_two, sample_one, revocation_genesis]"
  by (simp add: small_chain_def sample_one_def sample_two_def revocation_genesis_def entries_of_def)

lemma sample_revoked:
  "checkNotRevoked sample_libs sample_one (ce_packageDigest (sample_entry 1 ''1'')) sample_ref =
     Some (CheckRevoked ''1'' 1)"
proof -
  have "is_hex_char CHR ''1''" by code_simp
  from sample_entry_ok [OF this, of 1] have "ValidDigest (ce_packageDigest (sample_entry 1 ''1''))"
    by (simp add: entry_ok_def)
  then show ?thesis
    using sample_form_ref
    by (simp add: checkNotRevoked_def sample_one_def entries_of_def) (simp add: sample_entry_def)
qed

theorem revocation_permanent_witness:
  "checkNotRevoked sample_libs sample_two (ce_packageDigest (sample_entry 1 ''1'')) sample_ref =
     Some (CheckRevoked ''1'' 1) \<and>
   prefix (entries_of sample_one) (entries_of sample_two) \<and>
   rc_apiVersion sample_two = rc_apiVersion sample_one"
  using revocation_permanent [of sample_libs "[sample_two]" sample_one "[revocation_genesis]"]
    sample_pinned(2) sample_faithful sample_no_collision sample_small sample_revoked
  by simp

theorem pin_counts_checkpoints_witness:
  "cp_sequence (sample_pin sample_one) = of_nat (length [sample_one, revocation_genesis]) - 1 \<and>
   (\<exists>raw. ValidateRevocationCheckpoint sample_libs raw = Inr sample_one)"
  using pin_counts_checkpoints [OF sample_pinned(1)] by (auto simp: sample_pin_def)

theorem checkpoint_json_round_trip_witness:
  "Unmarshal (json_encode (enc_checkpoint sample_one)) (dec_struct False checkpoint_fields) empty_checkpoint =
     Some sample_one"
  by (rule checkpoint_json_round_trip [OF sample_strings(2)])

theorem advance_in_range_witness:
  "AdvanceRevocationCheckpoint sample_libs (Some (sample_pin sample_one))
     (json_encode (enc_checkpoint sample_two)) \<noteq> Inl SliceOutOfRange"
  by (rule advance_in_range) (simp add: sample_pin_def sample_one_def)

end
