(* ===== verification/TrustBundle.thy ===== *)
theory TrustBundle
  imports HostClient FormModel
begin

text \<open>
  Publisher policies and offline bundle verification: \<^verbatim>\<open>trust/policy.go\<close> and
  \<^verbatim>\<open>trust/verify.go\<close>. What sigstore-go answers is the record \<open>sigstore\<close>, with roots and
  bundles, verifiers and certificate identities of its own types: parsing a trusted root and a
  bundle, the questions asked of a bundle, configuring a verifier, and the signature verification,
  which yields the certificate's claims. The checks around it,
  and which caller inputs the report names, are the program's. The texts of the library's errors
  are taken to be ASCII when one is searched for a phrase.
\<close>

section \<open>Publisher policies\<close>

definition PublisherPolicyAPIVersion :: bytes where
  "PublisherPolicyAPIVersion = ''trust.forms.takoform.com/v1alpha1''"

definition PublisherPolicyKind :: bytes where "PublisherPolicyKind = ''PublisherPolicy''"

record publisher_policy =
  pb_apiVersion :: bytes
  pb_kind :: bytes
  pb_oidcIssuer :: bytes
  pb_sourceRepository :: bytes
  pb_workflow :: bytes
  pb_ref :: bytes

definition empty_publisher_policy :: publisher_policy where
  "empty_publisher_policy = \<lparr>pb_apiVersion = [], pb_kind = [], pb_oidcIssuer = [], pb_sourceRepository = [],
     pb_workflow = [], pb_ref = []\<rparr>"

definition policy_fields :: "publisher_policy struct_fields" where
  "policy_fields =
     [(''apiVersion'', member dec_str pb_apiVersion pb_apiVersion_update),
      (''kind'', member dec_str pb_kind pb_kind_update),
      (''oidcIssuer'', member dec_str pb_oidcIssuer pb_oidcIssuer_update),
      (''sourceRepository'', member dec_str pb_sourceRepository pb_sourceRepository_update),
      (''workflow'', member dec_str pb_workflow pb_workflow_update),
      (''ref'', member dec_str pb_ref pb_ref_update)]"

definition policy_Identity :: "publisher_policy \<Rightarrow> bytes" where
  "policy_Identity policy = pb_workflow policy @ ''@'' @ pb_ref policy"

datatype publisher_error =
    PolicyAPIVersion | PolicyKind | NotExactURI bytes | NotExactSpelling bytes | RepositorySlash
  | WorkflowOutside | WorkflowSeparator | RefShape | RefSegment | RefCharacters
  | PolicyCanonical canonical_error | PolicyDecode

text \<open>\<^verbatim>\<open>unicode.IsControl\<close>: the control characters all lie in Latin-1.\<close>

definition is_control :: "nat \<Rightarrow> bool" where
  "is_control r \<longleftrightarrow> r < 32 \<or> (127 \<le> r \<and> r \<le> 159)"

definition validateExactURI :: "(bytes \<Rightarrow> url option) \<Rightarrow> bytes \<Rightarrow> bytes \<Rightarrow> publisher_error option" where
  "validateExactURI parse name v =
     (case parse v of
        None \<Rightarrow> Some (NotExactURI name)
      | Some u \<Rightarrow>
          if u_scheme u = [] \<or> u_host u = [] \<or> u_user u \<or> u_query u \<noteq> [] \<or> u_fragment u \<noteq> []
          then Some (NotExactURI name)
          else if u_text u \<noteq> v \<or> list_ex is_space (runes v) then Some (NotExactSpelling name)
          else None)"

definition ref_error :: "bytes \<Rightarrow> publisher_error option" where
  "ref_error ref =
     (let refParts = split_on CHR ''/'' ref in
      first_err
        [guard_err (has_prefix ref ''refs/'' \<and> length refParts \<ge> 3) RefShape,
         guard_err (list_all (\<lambda>part. part \<noteq> [] \<and> part \<noteq> ''.'' \<and> part \<noteq> ''..'') refParts) RefSegment,
         guard_err (\<not> list_ex (List.member [CHR ''*'', CHR ''?'', CHR ''['', CHR '']'', CHR 0x5C]) ref \<and>
           \<not> list_ex (\<lambda>r. is_space r \<or> is_control r) (runes ref)) RefCharacters])"

definition policy_Validate :: "(bytes \<Rightarrow> url option) \<Rightarrow> publisher_policy \<Rightarrow> publisher_error option" where
  "policy_Validate parse policy =
     first_err
       [guard_err (pb_apiVersion policy = PublisherPolicyAPIVersion) PolicyAPIVersion,
        guard_err (pb_kind policy = PublisherPolicyKind) PolicyKind,
        validateExactURI parse ''oidcIssuer'' (pb_oidcIssuer policy),
        validateExactURI parse ''sourceRepository'' (pb_sourceRepository policy),
        guard_err (\<not> has_suffix (pb_sourceRepository policy) ''/'') RepositorySlash,
        validateExactURI parse ''workflow'' (pb_workflow policy),
        guard_err (has_prefix (pb_workflow policy) (pb_sourceRepository policy @ ''/'')) WorkflowOutside,
        guard_err (\<not> contains_byte CHR ''@'' (pb_workflow policy)) WorkflowSeparator,
        ref_error (pb_ref policy)]"

text \<open>
  The decoder reads one value and then expects the end; that nothing follows is already known
  once \<open>Canonicalize\<close> has accepted the bytes.
\<close>

definition ParsePublisherPolicy ::
  "(bytes \<Rightarrow> bytes option) \<Rightarrow> (bytes \<Rightarrow> url option) \<Rightarrow> bytes \<Rightarrow> publisher_error + publisher_policy" where
  "ParsePublisherPolicy transform parse raw =
     (case Canonicalize transform raw of
        Inl e \<Rightarrow> Inl (PolicyCanonical e)
      | Inr _ \<Rightarrow>
          (case Unmarshal raw (dec_struct True policy_fields) empty_publisher_policy of
             None \<Rightarrow> Inl PolicyDecode
           | Some policy \<Rightarrow> check_then (policy_Validate parse policy) (Inr policy)))"

section \<open>Bundles\<close>

definition VerifiedStatus :: bytes where "VerifiedStatus = ''verified''"
definition sigstoreBundleVersion :: bytes where "sigstoreBundleVersion = ''v0.3''"
definition minimumEvidenceEntries :: nat where "minimumEvidenceEntries = 1"

text \<open>The claims of a signing certificate that the program reads.\<close>

record certificate_summary =
  cs_issuer :: bytes
  cs_subjectAlternativeName :: bytes
  cs_sourceRepositoryURI :: bytes
  cs_sourceRepositoryRef :: bytes
  cs_buildSignerURI :: bytes
  cs_sourceRepositoryDigest :: bytes
  cs_buildSignerDigest :: bytes
  cs_buildConfigDigest :: bytes

text \<open>
  The library: \<open>None\<close> is an error, and \<open>sg_bundle\<close> gives the text of its error. The transparency
  entries of a bundle are nil or say whether they have an inclusion proof. \<open>sg_verifier\<close> is
  \<^verbatim>\<open>NewVerifier\<close> with the thresholds of the transparency log, the observer timestamps and the
  signed certificate timestamps; \<open>sg_identity\<close> is \<^verbatim>\<open>NewShortCertificateIdentity\<close> with its four
  arguments (issuer, issuer pattern, name, name pattern). \<open>sg_verify\<close> is given the bundle, the
  subject bytes and the identity, and answers the certificate's claims, or \<open>None\<close> within \<open>Some\<close>
  for a bundle no certificate signed.
\<close>

record ('r, 'b, 'v, 'i) sigstore =
  sg_url :: "bytes \<Rightarrow> url option"
  sg_root :: "bytes \<Rightarrow> 'r option"
  sg_bundle :: "bytes \<Rightarrow> bytes + 'b"
  sg_version :: "'b \<Rightarrow> bytes option"
  sg_messageSignature :: "'b \<Rightarrow> bool option"
  sg_entries :: "'b \<Rightarrow> bool option list option"
  sg_verifier :: "'r \<Rightarrow> nat \<Rightarrow> nat \<Rightarrow> nat \<Rightarrow> 'v option"
  sg_identity :: "bytes \<Rightarrow> bytes \<Rightarrow> bytes \<Rightarrow> bytes \<Rightarrow> 'i option"
  sg_verify :: "'v \<Rightarrow> 'b \<Rightarrow> bytes \<Rightarrow> 'i \<Rightarrow> certificate_summary option option"

record bundle_verification =
  bv_status :: bytes
  bv_subjectDigest :: bytes
  bv_bundleDigest :: bytes
  bv_trustedRootDigest :: bytes
  bv_oidcIssuer :: bytes
  bv_sourceRepository :: bytes
  bv_workflow :: bytes
  bv_ref :: bytes
  bv_publisherIdentity :: bytes
  bv_sourceCommit :: bytes
  bv_workflowCommit :: bytes
  bv_buildConfigCommit :: bytes
  bv_transparencyLogVerified :: bool
  bv_transparencyLogThreshold :: nat

definition empty_bundle_verification :: bundle_verification where
  "empty_bundle_verification = \<lparr>bv_status = [], bv_subjectDigest = [], bv_bundleDigest = [],
     bv_trustedRootDigest = [], bv_oidcIssuer = [], bv_sourceRepository = [], bv_workflow = [], bv_ref = [],
     bv_publisherIdentity = [], bv_sourceCommit = [], bv_workflowCommit = [], bv_buildConfigCommit = [],
     bv_transparencyLogVerified = False, bv_transparencyLogThreshold = 0\<rparr>"

datatype trust_error =
    SubjectEmpty | InvalidPolicy publisher_error
  | RootEmpty | RootCanonical canonical_error | RootMalformed
  | BundleEmpty | BundleCanonical canonical_error | BundleMalformed | MissingTransparency
  | BundleVersion | NoMessageSignature | EntriesUnreadable | MissingInclusionProof nat
  | VerifierConfig | IdentityRejected | SignatureRejected | NotCertificateSigned
  | OtherIssuer | OtherIdentity | OtherRepository | OtherRef | OtherBuildSigner | NotACommit bytes

definition parseTrustedRoot :: "(bytes \<Rightarrow> bytes option) \<Rightarrow> ('r, 'b, 'v, 'i) sigstore \<Rightarrow> bytes \<Rightarrow> trust_error + 'r" where
  "parseTrustedRoot transform S raw =
     (if raw = [] then Inl RootEmpty
      else (case Canonicalize transform raw of
              Inl e \<Rightarrow> Inl (RootCanonical e)
            | Inr _ \<Rightarrow> (case sg_root S raw of None \<Rightarrow> Inl RootMalformed | Some r \<Rightarrow> Inr r)))"

fun missing_proof :: "nat \<Rightarrow> bool option list \<Rightarrow> trust_error option" where
  "missing_proof index [] = None"
| "missing_proof index (entry # entries) =
     (if entry \<noteq> Some True then Some (MissingInclusionProof index) else missing_proof (Suc index) entries)"

definition check_bundle :: "('r, 'b, 'v, 'i) sigstore \<Rightarrow> 'b \<Rightarrow> trust_error option" where
  "check_bundle S entity =
     first_err
       [guard_err (sg_version S entity = Some sigstoreBundleVersion) BundleVersion,
        guard_err (sg_messageSignature S entity = Some True) NoMessageSignature,
        (case sg_entries S entity of
           None \<Rightarrow> Some EntriesUnreadable
         | Some entries \<Rightarrow>
             if length entries < minimumEvidenceEntries then Some MissingTransparency
             else missing_proof 0 entries)]"

definition parseBundle :: "(bytes \<Rightarrow> bytes option) \<Rightarrow> ('r, 'b, 'v, 'i) sigstore \<Rightarrow> bytes \<Rightarrow> trust_error + 'b" where
  "parseBundle transform S raw =
     (if raw = [] then Inl BundleEmpty
      else (case Canonicalize transform raw of
              Inl e \<Rightarrow> Inl (BundleCanonical e)
            | Inr _ \<Rightarrow>
                (case sg_bundle S raw of
                   Inl text \<Rightarrow>
                     Inl (if contains_text (to_lower text) ''inclusion proof'' then MissingTransparency
                          else BundleMalformed)
                 | Inr entity \<Rightarrow> check_then (check_bundle S entity) (Inr entity))))"

definition verifyEntity ::
  "('r, 'b, 'v, 'i) sigstore \<Rightarrow> bytes \<Rightarrow> 'b \<Rightarrow> 'r \<Rightarrow> publisher_policy \<Rightarrow> trust_error + certificate_summary option" where
  "verifyEntity S subject entity trustedMaterial policy =
     (case sg_verifier S trustedMaterial 1 1 1 of
        None \<Rightarrow> Inl VerifierConfig
      | Some verifier \<Rightarrow>
          (case sg_identity S (pb_oidcIssuer policy) [] (policy_Identity policy) [] of
             None \<Rightarrow> Inl IdentityRejected
           | Some identity \<Rightarrow>
               (case sg_verify S verifier entity subject identity of
                  None \<Rightarrow> Inl SignatureRejected
                | Some result \<Rightarrow> Inr result)))"

text \<open>The loop over the runes of a commit digest.\<close>

definition commit_rune :: "nat \<Rightarrow> bool" where
  "commit_rune r \<longleftrightarrow> \<not> (r < 48 \<or> (r > 57 \<and> r < 97) \<or> r > 102)"

definition validGitCommitDigest :: "bytes \<Rightarrow> bool" where
  "validGitCommitDigest v \<longleftrightarrow>
     length v = 40 \<and> list_all commit_rune (runes v) \<and> list_ex (\<lambda>r. r \<noteq> 48) (runes v)"

definition verifyCertificatePolicy :: "certificate_summary \<Rightarrow> publisher_policy \<Rightarrow> trust_error option" where
  "verifyCertificatePolicy actual policy =
     first_err
       ([guard_err (cs_issuer actual = pb_oidcIssuer policy) OtherIssuer,
         guard_err (cs_subjectAlternativeName actual = policy_Identity policy) OtherIdentity,
         guard_err (cs_sourceRepositoryURI actual = pb_sourceRepository policy) OtherRepository,
         guard_err (cs_sourceRepositoryRef actual = pb_ref policy) OtherRef,
         guard_err (cs_buildSignerURI actual = policy_Identity policy) OtherBuildSigner] @
        map (\<lambda>(name, digest). guard_err (validGitCommitDigest digest) (NotACommit name))
          [(''source repository'', cs_sourceRepositoryDigest actual),
           (''build signer'', cs_buildSignerDigest actual),
           (''build config'', cs_buildConfigDigest actual)])"

definition bundle_report ::
  "bytes \<Rightarrow> bytes \<Rightarrow> bytes \<Rightarrow> publisher_policy \<Rightarrow> certificate_summary \<Rightarrow> bundle_verification" where
  "bundle_report subject bundleJSON trustedRootJSON policy certificate =
     \<lparr>bv_status = VerifiedStatus,
      bv_subjectDigest = DigestBytes subject,
      bv_bundleDigest = DigestBytes bundleJSON,
      bv_trustedRootDigest = DigestBytes trustedRootJSON,
      bv_oidcIssuer = pb_oidcIssuer policy,
      bv_sourceRepository = pb_sourceRepository policy,
      bv_workflow = pb_workflow policy,
      bv_ref = pb_ref policy,
      bv_publisherIdentity = policy_Identity policy,
      bv_sourceCommit = cs_sourceRepositoryDigest certificate,
      bv_workflowCommit = cs_buildSignerDigest certificate,
      bv_buildConfigCommit = cs_buildConfigDigest certificate,
      bv_transparencyLogVerified = True,
      bv_transparencyLogThreshold = minimumEvidenceEntries\<rparr>"

definition VerifyBundle ::
  "(bytes \<Rightarrow> bytes option) \<Rightarrow> ('r, 'b, 'v, 'i) sigstore \<Rightarrow> bytes \<Rightarrow> bytes \<Rightarrow> bytes \<Rightarrow> publisher_policy
    \<Rightarrow> trust_error + bundle_verification" where
  "VerifyBundle transform S subject bundleJSON trustedRootJSON policy =
     check_then (guard_err (subject \<noteq> []) SubjectEmpty)
     (check_then (map_option InvalidPolicy (policy_Validate (sg_url S) policy))
     (bind_res (parseTrustedRoot transform S trustedRootJSON) (\<lambda>trusted.
      bind_res (parseBundle transform S bundleJSON) (\<lambda>entity.
      bind_res (verifyEntity S subject entity trusted policy) (\<lambda>result.
        case result of
          None \<Rightarrow> Inl NotCertificateSigned
        | Some certificate \<Rightarrow>
            check_then (verifyCertificatePolicy certificate policy)
              (Inr (bundle_report subject bundleJSON trustedRootJSON policy certificate)))))))"

end
