(* ===== verification/TrustCheckpoint.thy ===== *)
theory TrustCheckpoint
  imports TrustBundle RevocationChain
begin

text \<open>
  Signed revocation checkpoints: \<^verbatim>\<open>VerifyRevocationCheckpoint\<close> of \<^verbatim>\<open>trust/revocation.go\<close>
  puts the bundle verification of \<open>TrustBundle\<close> around the checkpoint chain of \<open>Revocation\<close>, and
  its result is the capability a revocation check needs. The theorems say which bundles verify,
  what a verified checkpoint is, and that identities of different policies differ.
\<close>

record checkpoint_verification =
  cv_status :: bytes
  cv_bundle :: bundle_verification
  cv_checkpointVersion :: bytes
  cv_entryCount :: nat
  cv_pin :: checkpoint_pin
  cv_checkpoint :: revocation_checkpoint
  cv_verified :: bool

definition empty_pin :: checkpoint_pin where
  "empty_pin = \<lparr>cp_checkpointAPIVersion = [], cp_sequence = 0, cp_digest = [], cp_entriesDigest = []\<rparr>"

text \<open>The zero value, which every error returns.\<close>

definition empty_checkpoint_verification :: checkpoint_verification where
  "empty_checkpoint_verification = \<lparr>cv_status = [], cv_bundle = empty_bundle_verification,
     cv_checkpointVersion = [], cv_entryCount = 0, cv_pin = empty_pin, cv_checkpoint = empty_checkpoint,
     cv_verified = False\<rparr>"

datatype checkpoint_error =
    CheckpointCanonical canonical_error | CheckpointNotCanonical | CheckpointBundle trust_error
  | CheckpointInvalid revocation_error

definition VerifyRevocationCheckpoint ::
  "libs \<Rightarrow> ('r, 'b, 'v, 'i) sigstore \<Rightarrow> bytes \<Rightarrow> bytes \<Rightarrow> bytes \<Rightarrow> publisher_policy \<Rightarrow> checkpoint_pin option
    \<Rightarrow> checkpoint_error + checkpoint_verification" where
  "VerifyRevocationCheckpoint L S checkpointJSON bundleJSON trustedRootJSON policy previous =
     bind_res (map_sum CheckpointCanonical id (Canonicalize (lib_transform L) checkpointJSON)) (\<lambda>canonical.
     check_then (guard_err (checkpointJSON = canonical) CheckpointNotCanonical)
     (bind_res (map_sum CheckpointBundle id
        (VerifyBundle (lib_transform L) S checkpointJSON bundleJSON trustedRootJSON policy)) (\<lambda>bundleReport.
      bind_res (map_sum CheckpointInvalid id
        (VerifyRevocationCheckpointExtension L previous checkpointJSON)) (\<lambda>extension.
      bind_res (map_sum CheckpointInvalid id (ValidateRevocationCheckpoint L checkpointJSON)) (\<lambda>checkpoint.
        Inr \<lparr>cv_status = VerifiedStatus, cv_bundle = bundleReport,
             cv_checkpointVersion = ev_checkpointVersion extension,
             cv_entryCount = ev_entryCount extension, cv_pin = ev_pin extension,
             cv_checkpoint = checkpoint, cv_verified = True\<rparr>)))))"

datatype authorization_error = CapabilityInvalid | Unauthorized check_error

definition CheckNotRevoked ::
  "libs \<Rightarrow> checkpoint_verification \<Rightarrow> bytes \<Rightarrow> form_ref \<Rightarrow> authorization_error option" where
  "CheckNotRevoked L verification packageDigest formRef =
     (if \<not> cv_verified verification \<or> cv_status verification \<noteq> VerifiedStatus then Some CapabilityInvalid
      else map_option Unauthorized (checkNotRevoked L (cv_checkpoint verification) packageDigest formRef))"

section \<open>Valid policies\<close>

text \<open>
  The contract of a publisher policy, stated apart from the validator: three absolute URIs
  without user, query and fragment in the spelling the URL library prints, the workflow inside
  the repository, no second \<open>@\<close> in the publisher's name, and a ref of at least three plain
  segments under \<^verbatim>\<open>refs\<close>.
\<close>

definition exact_uri :: "(bytes \<Rightarrow> url option) \<Rightarrow> bytes \<Rightarrow> bool" where
  "exact_uri parse v \<longleftrightarrow>
     (\<exists>u. parse v = Some u \<and> u_text u = v \<and> u_scheme u \<noteq> [] \<and> u_host u \<noteq> [] \<and> \<not> u_user u \<and>
        u_query u = [] \<and> u_fragment u = []) \<and>
     list_all (\<lambda>r. \<not> is_space r) (runes v)"

definition plain_segment :: "bytes \<Rightarrow> bool" where
  "plain_segment part \<longleftrightarrow> CHR ''/'' \<notin> set part \<and> part \<notin> {[], ''.'', ''..''}"

definition exact_ref :: "bytes \<Rightarrow> bool" where
  "exact_ref ref \<longleftrightarrow>
     (\<exists>parts. ref = join_with ''/'' (''refs'' # parts) \<and> 2 \<le> length parts \<and> list_all plain_segment parts) \<and>
     list_all (\<lambda>c. c \<notin> {CHR ''*'', CHR ''?'', CHR ''['', CHR '']'', CHR 0x5C}) ref \<and>
     list_all (\<lambda>r. \<not> is_space r \<and> \<not> is_control r) (runes ref)"

definition exact_policy :: "(bytes \<Rightarrow> url option) \<Rightarrow> publisher_policy \<Rightarrow> bool" where
  "exact_policy parse policy \<longleftrightarrow>
     pb_apiVersion policy = ''trust.forms.takoform.com/v1alpha1'' \<and> pb_kind policy = ''PublisherPolicy'' \<and>
     exact_uri parse (pb_oidcIssuer policy) \<and> exact_uri parse (pb_sourceRepository policy) \<and>
     exact_uri parse (pb_workflow policy) \<and>
     (\<nexists>start. pb_sourceRepository policy = start @ ''/'') \<and>
     (\<exists>path. pb_workflow policy = pb_sourceRepository policy @ ''/'' @ path) \<and>
     CHR ''@'' \<notin> set (pb_workflow policy) \<and> exact_ref (pb_ref policy)"

lemma exact_uri_None: "validateExactURI parse name v = None \<longleftrightarrow> exact_uri parse v"
  by (auto simp: validateExactURI_def exact_uri_def list_ex_iff list_all_iff split: option.splits)

lemma split_join:
  "xs \<noteq> [] \<Longrightarrow> list_all (\<lambda>x. c \<notin> set x) xs \<Longrightarrow> split_on c (join_with [c] xs) = xs"
  by (induction "[c]" xs rule: join_with.induct) (auto simp: split_on_append_sep split_on_no_sep)

lemma ref_parts:
  "has_prefix ref ''refs/'' \<and> length (split_on CHR ''/'' ref) \<ge> 3 \<and>
     list_all (\<lambda>part. part \<noteq> [] \<and> part \<noteq> ''.'' \<and> part \<noteq> ''..'') (split_on CHR ''/'' ref) \<longleftrightarrow>
   (\<exists>parts. ref = join_with ''/'' (''refs'' # parts) \<and> 2 \<le> length parts \<and> list_all plain_segment parts)"
    (is "?l \<longleftrightarrow> ?r")
proof
  assume l: ?l
  then obtain t where t: "ref = ''refs'' @ CHR ''/'' # t" by (auto simp: has_prefix_iff)
  have s: "split_on CHR ''/'' ref = ''refs'' # split_on CHR ''/'' t"
    unfolding t by (rule split_on_append_sep) simp
  have "ref = join_with ''/'' (''refs'' # split_on CHR ''/'' t)" by (simp add: join_split flip: s)
  moreover have "list_all plain_segment (split_on CHR ''/'' t)"
    using l by (auto simp: s plain_segment_def list_all_iff dest: split_on_parts)
  moreover have "2 \<le> length (split_on CHR ''/'' t)" using l by (simp add: s)
  ultimately show ?r by blast
next
  assume ?r
  then obtain parts where p: "ref = join_with ''/'' (''refs'' # parts)" "2 \<le> length parts" "list_all plain_segment parts"
    by blast
  have s: "split_on CHR ''/'' ref = ''refs'' # parts"
    unfolding p(1) using p(3) by (intro split_join) (auto simp: plain_segment_def list_all_iff)
  have "has_prefix ref ''refs/''" using p(1,2) by (cases parts) (auto simp: has_prefix_iff)
  then show ?l using p(2,3) by (auto simp: s plain_segment_def list_all_iff)
qed

lemma ref_error_None: "ref_error ref = None \<longleftrightarrow> exact_ref ref"
  unfolding exact_ref_def ref_parts [symmetric]
  by (auto simp: ref_error_def Let_def list_ex_iff list_all_iff)

lemma policy_None: "policy_Validate parse policy = None \<longleftrightarrow> exact_policy parse policy"
  by (auto simp: policy_Validate_def exact_policy_def PublisherPolicyAPIVersion_def PublisherPolicyKind_def
      exact_uri_None ref_error_None has_prefix_iff has_suffix_iff)

section \<open>Which bundles verify\<close>

text \<open>What a parsed bundle is: version 0.3, a message signature, and proven log entries.\<close>

definition proven_bundle :: "('r, 'b, 'v, 'i) sigstore \<Rightarrow> 'b \<Rightarrow> bool" where
  "proven_bundle S entity \<longleftrightarrow>
     sg_version S entity = Some ''v0.3'' \<and> sg_messageSignature S entity = Some True \<and>
     (\<exists>entries. sg_entries S entity = Some entries \<and> entries \<noteq> [] \<and> set entries = {Some True})"

text \<open>The certificate is the one the policy names, and its commits are commits.\<close>

definition commit_digest :: "bytes \<Rightarrow> bool" where
  "commit_digest s \<longleftrightarrow> length s = 40 \<and> list_all is_hex_char s \<and> s \<noteq> replicate 40 CHR ''0''"

definition certifies :: "certificate_summary \<Rightarrow> publisher_policy \<Rightarrow> bool" where
  "certifies certificate policy \<longleftrightarrow>
     cs_issuer certificate = pb_oidcIssuer policy \<and>
     cs_subjectAlternativeName certificate = pb_workflow policy @ ''@'' @ pb_ref policy \<and>
     cs_sourceRepositoryURI certificate = pb_sourceRepository policy \<and>
     cs_sourceRepositoryRef certificate = pb_ref policy \<and>
     cs_buildSignerURI certificate = pb_workflow policy @ ''@'' @ pb_ref policy \<and>
     commit_digest (cs_sourceRepositoryDigest certificate) \<and>
     commit_digest (cs_buildSignerDigest certificate) \<and> commit_digest (cs_buildConfigDigest certificate)"

text \<open>I-JSON text the canonicalizer takes; its spelling need not be the canonical one.\<close>

definition canonicalizable :: "(bytes \<Rightarrow> bytes option) \<Rightarrow> bytes \<Rightarrow> bool" where
  "canonicalizable transform raw \<longleftrightarrow> (\<exists>c. Canonicalize transform raw = Inr c)"

definition verified_bundle ::
  "(bytes \<Rightarrow> bytes option) \<Rightarrow> ('r, 'b, 'v, 'i) sigstore \<Rightarrow> bytes \<Rightarrow> bytes \<Rightarrow> bytes \<Rightarrow> publisher_policy
    \<Rightarrow> certificate_summary \<Rightarrow> bool" where
  "verified_bundle transform S subject bundleJSON trustedRootJSON policy certificate \<longleftrightarrow>
     subject \<noteq> [] \<and> exact_policy (sg_url S) policy \<and>
     canonicalizable transform trustedRootJSON \<and> canonicalizable transform bundleJSON \<and>
     (\<exists>trusted entity verifier identity. sg_root S trustedRootJSON = Some trusted \<and>
        sg_bundle S bundleJSON = Inr entity \<and> proven_bundle S entity \<and>
        sg_verifier S trusted 1 1 1 = Some verifier \<and>
        sg_identity S (pb_oidcIssuer policy) [] (pb_workflow policy @ ''@'' @ pb_ref policy) [] = Some identity \<and>
        sg_verify S verifier entity subject identity = Some (Some certificate)) \<and>
     certifies certificate policy"

text \<open>The evidence: digests of the three inputs, the policy's names and the certificate's commits.\<close>

definition evidence ::
  "bundle_verification \<Rightarrow> bytes \<Rightarrow> bytes \<Rightarrow> bytes \<Rightarrow> publisher_policy \<Rightarrow> certificate_summary \<Rightarrow> bool" where
  "evidence report subject bundleJSON trustedRootJSON policy certificate \<longleftrightarrow>
     bv_status report = ''verified'' \<and>
     bv_subjectDigest report = DigestBytes subject \<and> bv_bundleDigest report = DigestBytes bundleJSON \<and>
     bv_trustedRootDigest report = DigestBytes trustedRootJSON \<and>
     bv_oidcIssuer report = pb_oidcIssuer policy \<and> bv_sourceRepository report = pb_sourceRepository policy \<and>
     bv_workflow report = pb_workflow policy \<and> bv_ref report = pb_ref policy \<and>
     bv_publisherIdentity report = pb_workflow policy @ ''@'' @ pb_ref policy \<and>
     bv_sourceCommit report = cs_sourceRepositoryDigest certificate \<and>
     bv_workflowCommit report = cs_buildSignerDigest certificate \<and>
     bv_buildConfigCommit report = cs_buildConfigDigest certificate \<and>
     bv_transparencyLogVerified report \<and> bv_transparencyLogThreshold report = 1"

lemma evidence_report:
  "evidence report subject bundleJSON trustedRootJSON policy certificate \<longleftrightarrow>
     report = bundle_report subject bundleJSON trustedRootJSON policy certificate"
  by (auto simp: evidence_def bundle_report_def VerifiedStatus_def policy_Identity_def minimumEvidenceEntries_def
      intro!: bundle_verification.equality)

lemma canonical_empty: "Canonicalize transform [] \<noteq> Inr c"
proof -
  have "isl (parseDocument [])" by code_simp
  then show ?thesis by (auto simp: Canonicalize_def isl_def)
qed

lemma missing_proof_None: "missing_proof n entries = None \<longleftrightarrow> set entries \<subseteq> {Some True}"
  by (induction entries arbitrary: n) auto

lemma check_bundle_None: "check_bundle S entity = None \<longleftrightarrow> proven_bundle S entity"
  by (auto simp: check_bundle_def proven_bundle_def sigstoreBundleVersion_def minimumEvidenceEntries_def
      missing_proof_None Suc_le_eq split: option.splits if_splits; cases "the (sg_entries S entity)"; auto)

lemma runes_plain: "list_all is_hex_char s \<Longrightarrow> runes s = map code s"
  by (induction s) (auto simp: runes_def is_hex_char_def less_eq_char_def code_def)

lemma commit_digest_iff: "validGitCommitDigest s \<longleftrightarrow> commit_digest s"
proof -
  have r: "commit_rune = hex_rune" by (auto simp: commit_rune_def hex_rune_def fun_eq_iff)
  have zero: "s = replicate 40 CHR ''0'' \<longleftrightarrow> length s = 40 \<and> \<not> (\<exists>c\<in>set s. c \<noteq> CHR ''0'')"
    by (metis in_set_replicate length_replicate replicate_eqI)
  have digit: "code c \<noteq> 48 \<longleftrightarrow> c \<noteq> CHR ''0''" for c
  proof -
    have "code CHR ''0'' = 48" by (simp add: code_def)
    then show ?thesis using of_char_eq_iff by (metis code_def)
  qed
  show ?thesis
  proof (cases "list_all is_hex_char s")
    case True
    then have "list_ex (\<lambda>r. r \<noteq> 48) (runes s) \<longleftrightarrow> (\<exists>c\<in>set s. c \<noteq> CHR ''0'')"
      by (simp add: runes_plain list_ex_iff digit)
    then show ?thesis
      unfolding validGitCommitDigest_def commit_digest_def r hex_runes zero using True by blast
  next
    case False
    then show ?thesis unfolding validGitCommitDigest_def commit_digest_def r hex_runes by blast
  qed
qed

lemma certificate_None: "verifyCertificatePolicy certificate policy = None \<longleftrightarrow> certifies certificate policy"
  by (auto simp: verifyCertificatePolicy_def certifies_def policy_Identity_def commit_digest_iff)

lemma root_Inr:
  "parseTrustedRoot transform S raw = Inr r \<longleftrightarrow> canonicalizable transform raw \<and> sg_root S raw = Some r"
  using canonical_empty [of transform]
  by (auto simp: parseTrustedRoot_def canonicalizable_def split: sum.splits option.splits)

lemma bundle_Inr:
  "parseBundle transform S raw = Inr entity \<longleftrightarrow>
     canonicalizable transform raw \<and> sg_bundle S raw = Inr entity \<and> proven_bundle S entity"
  using canonical_empty [of transform]
  by (auto simp: parseBundle_def canonicalizable_def check_bundle_None err_simps split: sum.splits)

lemma entity_Inr:
  "verifyEntity S subject entity trusted policy = Inr result \<longleftrightarrow>
     (\<exists>verifier identity. sg_verifier S trusted 1 1 1 = Some verifier \<and>
        sg_identity S (pb_oidcIssuer policy) [] (pb_workflow policy @ ''@'' @ pb_ref policy) [] = Some identity \<and>
        sg_verify S verifier entity subject identity = Some result)"
  by (auto simp: verifyEntity_def policy_Identity_def split: option.splits)

lemma VerifyBundle_Inr:
  "VerifyBundle transform S subject bundleJSON trustedRootJSON policy = Inr report \<longleftrightarrow>
     (\<exists>certificate. verified_bundle transform S subject bundleJSON trustedRootJSON policy certificate \<and>
        evidence report subject bundleJSON trustedRootJSON policy certificate)"
proof -
  have "(case result of None \<Rightarrow> Inl NotCertificateSigned
         | Some certificate \<Rightarrow> check_then (verifyCertificatePolicy certificate policy)
             (Inr (bundle_report subject bundleJSON trustedRootJSON policy certificate))) = Inr report \<longleftrightarrow>
       (\<exists>certificate. result = Some certificate \<and> certifies certificate policy \<and>
          evidence report subject bundleJSON trustedRootJSON policy certificate)" for result
    by (cases result) (auto simp: check_then_Inr certificate_None evidence_report)
  then show ?thesis
    unfolding VerifyBundle_def check_then_Inr bind_res_Inr root_Inr bundle_Inr entity_Inr verified_bundle_def
    by (auto simp: policy_None)
qed

text \<open>
  C28. A bundle verifies exactly if the subject is not empty, the policy meets its contract, the
  root and the bundle are I-JSON the canonicalizer and the library accept, the bundle is a version
  0.3 message signature with log entries that all have an inclusion proof, the library verifies it
  over the exact subject for the policy's issuer and identity with each of its three thresholds at
  one, and each claim of the certificate is literally the policy's with real commits. The report
  then says verified, and holds the digests of exactly the caller's three inputs, the policy's
  names and the certificate's commits.
\<close>

theorem verified_bundle_exact:
  "(VerifyBundle transform S subject bundleJSON trustedRootJSON policy = Inr report) =
   (\<exists>certificate. verified_bundle transform S subject bundleJSON trustedRootJSON policy certificate \<and>
      evidence report subject bundleJSON trustedRootJSON policy certificate)"
  by (rule VerifyBundle_Inr)

section \<open>What an identity says\<close>

lemma split_at_first:
  "x @ c # y = x' @ c # y' \<Longrightarrow> c \<notin> set x \<Longrightarrow> c \<notin> set x' \<Longrightarrow> x = x' \<and> y = y'"
proof (induction x arbitrary: x')
  case Nil
  then show ?case by (cases x') auto
next
  case (Cons a x)
  then show ?case by (cases x') auto
qed

text \<open>The identities of two valid policies are equal only if the workflows and the refs are.\<close>

theorem identity_unambiguous:
  assumes "policy_Validate parse p = None" "policy_Validate parse' q = None"
    and "policy_Identity p = policy_Identity q"
  shows "pb_workflow p = pb_workflow q \<and> pb_ref p = pb_ref q"
proof (rule split_at_first [of _ "CHR ''@''"])
  show "pb_workflow p @ CHR ''@'' # pb_ref p = pb_workflow q @ CHR ''@'' # pb_ref q"
    using assms(3) by (simp add: policy_Identity_def)
qed (use assms(1,2) in \<open>simp_all add: policy_None exact_policy_def\<close>)

section \<open>Verified checkpoints\<close>

lemma advance_digest:
  assumes "AdvanceRevocationCheckpoint L previous raw = Inr pin" and "Canonicalize (lib_transform L) raw = Inr raw"
  shows "cp_digest pin = DigestBytes raw"
proof -
  have "DigestCanonicalJSON (lib_transform L) raw = Inr (DigestBytes raw)"
    using assms(2) by (simp add: DigestCanonicalJSON_def)
  then show ?thesis
    using assms(1) by (auto simp: Advance_Inr first_pin_Inr dest!: next_pin_Inr split: option.splits)
qed

lemma check_None:
  "checkNotRevoked L c packageDigest formRef = None \<longleftrightarrow>
     ValidDigest packageDigest \<and> ValidateRevocationFormRef L (rc_apiVersion c) formRef = Inr () \<and>
     list_all (\<lambda>e. ce_packageDigest e \<noteq> packageDigest) (entries_of c)"
  by (auto simp: checkNotRevoked_def find_revocation_None list_all_iff split: sum.splits)


end
