(* ===== verification/FormConformance.thy ===== *)
theory FormConformance
  imports PackageVerify
begin

text \<open>
  The committed conformance corpus of Form Packages: \<^verbatim>\<open>formpackage/conformance.go\<close>. A manifest
  lists packages that must verify and inputs that must be refused with a given phrase in the
  error. Reading a file is the parameter \<open>readFile\<close>; the wording of errors is the parameter
  \<open>says\<close>, as the errors of the model are values.
\<close>

record positive_case =
  ps_name :: bytes
  ps_path :: bytes
  ps_kind :: bytes

record negative_case =
  ng_name :: bytes
  ng_operation :: bytes
  ng_path :: bytes
  ng_value :: bytes
  ng_wantError :: bytes

record conformance_manifest =
  cm_schemaVersion :: int
  cm_positive :: "positive_case list"
  cm_negative :: "negative_case list"

record conformance_report =
  cr_positivePackages :: nat
  cr_negativeCases :: nat

definition empty_positive :: positive_case where
  "empty_positive = \<lparr>ps_name = [], ps_path = [], ps_kind = []\<rparr>"

definition empty_negative :: negative_case where
  "empty_negative = \<lparr>ng_name = [], ng_operation = [], ng_path = [], ng_value = [], ng_wantError = []\<rparr>"

definition empty_conformance :: conformance_manifest where
  "empty_conformance = \<lparr>cm_schemaVersion = 0, cm_positive = [], cm_negative = []\<rparr>"

definition positive_case_fields :: "positive_case struct_fields" where
  "positive_case_fields =
     [(''name'', member dec_str ps_name ps_name_update),
      (''path'', member dec_str ps_path ps_path_update),
      (''kind'', member dec_str ps_kind ps_kind_update)]"

definition negative_case_fields :: "negative_case struct_fields" where
  "negative_case_fields =
     [(''name'', member dec_str ng_name ng_name_update),
      (''operation'', member dec_str ng_operation ng_operation_update),
      (''path'', member dec_str ng_path ng_path_update),
      (''value'', member dec_str ng_value ng_value_update),
      (''wantError'', member dec_str ng_wantError ng_wantError_update)]"

definition conformance_fields :: "conformance_manifest struct_fields" where
  "conformance_fields =
     [(''schemaVersion'', member dec_int cm_schemaVersion cm_schemaVersion_update),
      (''positive'', member (dec_slice (dec_struct False positive_case_fields) empty_positive)
         cm_positive cm_positive_update),
      (''negative'', member (dec_slice (dec_struct False negative_case_fields) empty_negative)
         cm_negative cm_negative_update)]"

text \<open>What a negative case's operation refuses its input with.\<close>

datatype case_failure =
    CaseNotCanonical canonical_error | CaseNotJSON | CaseForbidden policy_error
  | CaseReference fragment_error | CaseStructure structure_error | CaseDefinition definition_error
  | CasePath path_error

datatype conformance_error =
    ManifestUnread | ManifestNotCanonical canonical_error | ManifestUndecoded | ManifestShape
  | PositiveEmptyField | CaseRepeated bytes | PositivePath bytes path_error
  | PositiveRefused bytes package_error | PositiveOtherKind bytes bytes bytes
  | NegativeEmptyField | InputPath path_error | InputUnread | UnknownOperation bytes bytes
  | NegativeOutcome bytes "case_failure option" bytes

type_synonym 'w read_file = "bytes \<Rightarrow> 'w \<Rightarrow> bytes option \<times> 'w"

definition readConformanceInput ::
  "'w read_file \<Rightarrow> bytes \<Rightarrow> bytes \<Rightarrow> ('w, conformance_error, bytes) action" where
  "readConformanceInput readFile dir relative =
     check_io (map_option InputPath (validatePackagePath relative))
       (ask InputUnread (readFile (path_join [dir, relative])))"

text \<open>An operation on the decoded value of an input that is canonical JSON.\<close>

definition on_value :: "libs \<Rightarrow> (gval \<Rightarrow> case_failure option) \<Rightarrow> bytes \<Rightarrow> case_failure option" where
  "on_value L check input =
     (case Canonicalize (lib_transform L) input of
        Inl e \<Rightarrow> Some (CaseNotCanonical e)
      | Inr _ \<Rightarrow> (case Unmarshal input (dec_any False) VNull of None \<Rightarrow> Some CaseNotJSON | Some v \<Rightarrow> check v))"

definition failure_of :: "('e \<Rightarrow> case_failure) \<Rightarrow> 'e + 'a \<Rightarrow> case_failure option" where
  "failure_of f r = (case r of Inl e \<Rightarrow> Some (f e) | Inr _ \<Rightarrow> None)"

definition run_input :: "libs \<Rightarrow> 'v engines \<Rightarrow> bytes \<Rightarrow> bytes \<Rightarrow> case_failure option" where
  "run_input L E operation input =
     (if operation = ''canonicalize'' then failure_of CaseNotCanonical (Canonicalize (lib_transform L) input)
      else if operation = ''content-policy'' then
        on_value L (\<lambda>v. map_option CaseForbidden (rejectForbiddenContent (lib_unicode L) v ''$'')) input
      else if operation = ''schema-policy'' then
        on_value L (\<lambda>v. first_err
          [map_option CaseReference (verifyFragmentOnlyReferences v ''schema''),
           map_option CaseStructure (validatePortableSchemaStructure (lib_unicode L) v ''schema'')]) input
      else failure_of CaseDefinition (ValidateDefinition L E input))"

definition run_operation ::
  "'w read_file \<Rightarrow> libs \<Rightarrow> 'v engines \<Rightarrow> bytes \<Rightarrow> negative_case \<Rightarrow> ('w, conformance_error, case_failure option) action" where
  "run_operation readFile L E dir t =
     (if List.member [''canonicalize'', ''content-policy'', ''schema-policy'', ''definition''] (ng_operation t) then
        bind_io (readConformanceInput readFile dir (ng_path t))
          (\<lambda>input. return_io (run_input L E (ng_operation t) input))
      else if ng_operation t = ''package-path'' then
        return_io (map_option CasePath (validatePackagePath (ng_value t)))
      else fail_io (UnknownOperation (ng_name t) (ng_operation t)))"

text \<open>The case was refused, with the phrase in the error's text.\<close>

definition says_phrase :: "(case_failure \<Rightarrow> bytes) \<Rightarrow> bytes \<Rightarrow> case_failure option \<Rightarrow> bool" where
  "says_phrase says want failure =
     (case failure of
        None \<Rightarrow> False
      | Some e \<Rightarrow> contains_text (says e) want)"

definition positive_step ::
  "'w platform \<Rightarrow> libs \<Rightarrow> 'v engines \<Rightarrow> bytes \<Rightarrow> bytes list \<Rightarrow> positive_case
    \<Rightarrow> ('w, conformance_error, bytes) action" where
  "positive_step OS L E dir seen t =
     check_io (guard_err (ps_name t \<noteq> [] \<and> ps_path t \<noteq> [] \<and> ps_kind t \<noteq> []) PositiveEmptyField)
     (check_io (guard_err (\<not> List.member seen (ps_name t)) (CaseRepeated (ps_name t)))
     (check_io (map_option (PositivePath (ps_name t)) (validatePackagePath (ps_path t)))
     (bind_io (via (PositiveRefused (ps_name t)) (VerifyDirectory OS L E (path_join [dir, ps_path t])))
       (\<lambda>report.
          check_io (guard_err (fr_kind (vr_formRef report) = ps_kind t)
              (PositiveOtherKind (ps_name t) (fr_kind (vr_formRef report)) (ps_kind t)))
            (return_io (ps_name t))))))"

definition negative_step ::
  "'w read_file \<Rightarrow> libs \<Rightarrow> 'v engines \<Rightarrow> (case_failure \<Rightarrow> bytes) \<Rightarrow> bytes \<Rightarrow> bytes list \<Rightarrow> negative_case
    \<Rightarrow> ('w, conformance_error, bytes) action" where
  "negative_step readFile L E says dir seen t =
     check_io (guard_err (ng_name t \<noteq> [] \<and> ng_operation t \<noteq> [] \<and> ng_wantError t \<noteq> []) NegativeEmptyField)
     (check_io (guard_err (\<not> List.member seen (ng_name t)) (CaseRepeated (ng_name t)))
     (bind_io (run_operation readFile L E dir t)
       (\<lambda>failure.
          check_io (guard_err (says_phrase says (ng_wantError t) failure)
              (NegativeOutcome (ng_name t) failure (ng_wantError t)))
            (return_io (ng_name t)))))"

text \<open>A loop over cases: each step sees the names before it and adds its own.\<close>

fun each_case ::
  "(bytes list \<Rightarrow> 'c \<Rightarrow> ('w, 'e, bytes) action) \<Rightarrow> bytes list \<Rightarrow> 'c list \<Rightarrow> ('w, 'e, bytes list) action" where
  "each_case step seen [] w = (Inr seen, w)"
| "each_case step seen (t # ts) w = bind_io (step seen t) (\<lambda>name. each_case step (name # seen) ts) w"

definition VerifyConformance ::
  "'w platform \<Rightarrow> 'w read_file \<Rightarrow> libs \<Rightarrow> 'v engines \<Rightarrow> (case_failure \<Rightarrow> bytes) \<Rightarrow> bytes
    \<Rightarrow> ('w, conformance_error, conformance_report) action" where
  "VerifyConformance OS readFile L E says dir =
     bind_io (ask ManifestUnread (readFile (path_join [dir, ''manifest.json'']))) (\<lambda>raw.
     lift_io (map_sum ManifestNotCanonical id (Canonicalize (lib_transform L) raw)) (\<lambda>_.
      case Unmarshal raw (dec_struct False conformance_fields) empty_conformance of
         None \<Rightarrow> fail_io ManifestUndecoded
       | Some m \<Rightarrow>
           check_io (guard_err (cm_schemaVersion m = 1 \<and> cm_positive m \<noteq> [] \<and> cm_negative m \<noteq> []) ManifestShape)
           (bind_io (each_case (positive_step OS L E dir) [] (cm_positive m)) (\<lambda>seen.
            bind_io (each_case (negative_step readFile L E says dir) seen (cm_negative m)) (\<lambda>_.
              return_io \<lparr>cr_positivePackages = length (cm_positive m), cr_negativeCases = length (cm_negative m)\<rparr>)))))"

section \<open>What a report means\<close>

lemma each_case_Inr:
  assumes step: "\<And>seen t w s w'. step seen t w = (Inr s, w') \<Longrightarrow> s = name t \<and> name t \<notin> set seen \<and> P t"
  shows "each_case step seen ts w = (Inr out, w') \<Longrightarrow> distinct seen \<Longrightarrow>
    out = rev (map name ts) @ seen \<and> distinct out \<and> list_all P ts"
proof (induction ts arbitrary: seen w)
  case (Cons t ts)
  then obtain s w1 where "step seen t w = (Inr s, w1)" and rest: "each_case step (s # seen) ts w1 = (Inr out, w')"
    by (auto simp: io_Inr)
  with step have "s = name t" "name t \<notin> set seen" "P t" by blast+
  have "distinct (s # seen)" using \<open>s = name t\<close> \<open>name t \<notin> set seen\<close> Cons.prems(2) by simp
  note IH = Cons.IH [OF rest this]
  have out: "out = rev (map name ts) @ name t # seen" "distinct out" "list_all P ts"
    using IH \<open>s = name t\<close> by blast+
  show ?case
  proof (intro conjI)
    show "out = rev (map name (t # ts)) @ seen" using out(1) by simp
    show "distinct out" by (rule out(2))
    show "list_all P (t # ts)" using out(3) \<open>P t\<close> by simp
  qed
qed simp

text \<open>A positive case holds if its package verified with the kind, a negative one if it was refused as said.\<close>

definition positive_holds :: "'w platform \<Rightarrow> libs \<Rightarrow> 'v engines \<Rightarrow> bytes \<Rightarrow> positive_case \<Rightarrow> bool" where
  "positive_holds OS L E dir t \<longleftrightarrow>
     (\<exists>w report w'. VerifyDirectory OS L E (path_join [dir, ps_path t]) w = (Inr report, w') \<and>
        fr_kind (vr_formRef report) = ps_kind t)"

definition negative_holds ::
  "'w read_file \<Rightarrow> libs \<Rightarrow> 'v engines \<Rightarrow> (case_failure \<Rightarrow> bytes) \<Rightarrow> bytes \<Rightarrow> negative_case \<Rightarrow> bool" where
  "negative_holds readFile L E says dir t \<longleftrightarrow>
     (\<exists>w e w'. run_operation readFile L E dir t w = (Inr (Some e), w') \<and>
        contains_text (says e) (ng_wantError t))"

definition corpus_holds ::
  "'w platform \<Rightarrow> 'w read_file \<Rightarrow> libs \<Rightarrow> 'v engines \<Rightarrow> (case_failure \<Rightarrow> bytes) \<Rightarrow> bytes
    \<Rightarrow> conformance_manifest \<Rightarrow> bool" where
  "corpus_holds OS readFile L E says dir m \<longleftrightarrow>
     distinct (map ps_name (cm_positive m) @ map ng_name (cm_negative m)) \<and>
     list_all (positive_holds OS L E dir) (cm_positive m) \<and>
     list_all (negative_holds readFile L E says dir) (cm_negative m)"

lemma positive_step_Inr:
  "positive_step OS L E dir seen t w = (Inr s, w') \<Longrightarrow>
     s = ps_name t \<and> ps_name t \<notin> set seen \<and> positive_holds OS L E dir t"
  unfolding positive_step_def io_Inr via_Inr return_io_def positive_holds_def by auto

lemma negative_step_Inr:
  "negative_step readFile L E says dir seen t w = (Inr s, w') \<Longrightarrow>
     s = ng_name t \<and> ng_name t \<notin> set seen \<and> negative_holds readFile L E says dir t"
  unfolding negative_step_def io_Inr return_io_def negative_holds_def says_phrase_def
  by (auto split: option.splits)

lemma VerifyConformance_Inr:
  assumes "VerifyConformance OS readFile L E says dir w = (Inr report, w')"
  shows "\<exists>(m :: conformance_manifest) seen w1 w2 names. cm_positive m \<noteq> [] \<and> cm_negative m \<noteq> [] \<and>
    each_case (positive_step OS L E dir) [] (cm_positive m) w1 = (Inr seen, w2) \<and>
    each_case (negative_step readFile L E says dir) seen (cm_negative m) w2 = (Inr names, w') \<and>
    report = \<lparr>cr_positivePackages = length (cm_positive m), cr_negativeCases = length (cm_negative m)\<rparr>"
proof -
  from assms obtain raw w1 where parsed:
    "(case Unmarshal raw (dec_struct False conformance_fields) empty_conformance of
       None \<Rightarrow> fail_io ManifestUndecoded
     | Some m \<Rightarrow>
         check_io (guard_err (cm_schemaVersion m = 1 \<and> cm_positive m \<noteq> [] \<and> cm_negative m \<noteq> []) ManifestShape)
         (bind_io (each_case (positive_step OS L E dir) [] (cm_positive m)) (\<lambda>seen.
          bind_io (each_case (negative_step readFile L E says dir) seen (cm_negative m)) (\<lambda>_.
            return_io \<lparr>cr_positivePackages = length (cm_positive m), cr_negativeCases = length (cm_negative m)\<rparr>)))) w1
     = (Inr report, w')"
    unfolding VerifyConformance_def io_Inr by blast
  then obtain m where "Unmarshal raw (dec_struct False conformance_fields) empty_conformance = Some m"
    by (cases "Unmarshal raw (dec_struct False conformance_fields) empty_conformance") (simp_all add: fail_io_def)
  with parsed show ?thesis
    by (simp only: option.case io_Inr return_io_def guard_err_None prod.inject sum.inject) blast
qed

text \<open>
  A conformance report counts a corpus that holds: the names of all cases are distinct, every
  positive package verified with its kind, every negative case was refused with its phrase, and
  neither list is empty.
\<close>

theorem conformance_report_sound:
  "case VerifyConformance OS readFile L E says dir w of
     (Inl _, _) \<Rightarrow> True
   | (Inr report, _) \<Rightarrow>
       \<exists>m. corpus_holds OS readFile L E says dir m \<and>
         cr_positivePackages report = length (cm_positive m) \<and> 0 < cr_positivePackages report \<and>
         cr_negativeCases report = length (cm_negative m) \<and> 0 < cr_negativeCases report"
proof (cases "VerifyConformance OS readFile L E says dir w")
  case (Pair r w')
  show ?thesis
  proof (cases r)
    case (Inr report)
    from VerifyConformance_Inr [OF Pair [unfolded Inr]] obtain m :: conformance_manifest and seen w1 w2 names where
      m: "cm_positive m \<noteq> []" "cm_negative m \<noteq> []"
      and p: "each_case (positive_step OS L E dir) [] (cm_positive m) w1 = (Inr seen, w2)"
      and n: "each_case (negative_step readFile L E says dir) seen (cm_negative m) w2 = (Inr names, w')"
      and report: "report = \<lparr>cr_positivePackages = length (cm_positive m), cr_negativeCases = length (cm_negative m)\<rparr>"
      by blast
    have "seen = rev (map ps_name (cm_positive m)) @ [] \<and> distinct seen \<and>
        list_all (positive_holds OS L E dir) (cm_positive m)"
    proof (rule each_case_Inr [OF _ p])
      fix seen t w s w'
      assume "positive_step OS L E dir seen t w = (Inr s, w')"
      then show "s = ps_name t \<and> ps_name t \<notin> set seen \<and> positive_holds OS L E dir t" by (rule positive_step_Inr)
    qed simp
    then have s: "seen = rev (map ps_name (cm_positive m))" "distinct seen"
        "list_all (positive_holds OS L E dir) (cm_positive m)" unfolding append_Nil2 by blast+
    have t: "names = rev (map ng_name (cm_negative m)) @ seen \<and> distinct names \<and>
        list_all (negative_holds readFile L E says dir) (cm_negative m)"
    proof (rule each_case_Inr [OF _ n s(2)])
      fix seen t w s w'
      assume "negative_step readFile L E says dir seen t w = (Inr s, w')"
      then show "s = ng_name t \<and> ng_name t \<notin> set seen \<and> negative_holds readFile L E says dir t"
        by (rule negative_step_Inr)
    qed
    have "corpus_holds OS readFile L E says dir m"
    proof -
      have "distinct (rev (map ng_name (cm_negative m)) @ rev (map ps_name (cm_positive m)))" using s(1) t by metis
      then have "distinct (map ps_name (cm_positive m) @ map ng_name (cm_negative m))"
        by (metis distinct_rev rev_append rev_rev_ident)
      then show ?thesis using s(3) t unfolding corpus_holds_def by blast
    qed
    with m report show ?thesis unfolding Pair Inr by auto
  qed (simp add: Pair)
qed

end
