(* ===== verification/BuildInfo.thy ===== *)
theory BuildInfo
  imports GoStrings
begin

text \<open>
  The module identity the commands report: \<^verbatim>\<open>internal/buildinfo/buildinfo.go\<close>. What the
  runtime knows of the build is an argument of \<open>resolve_build\<close>; \<open>None\<close> when it knows nothing.
\<close>

definition Module :: bytes where "Module = ''github.com/tako0614/takoform''"

record build_info =
  bi_command :: bytes
  bi_module :: bytes
  bi_version :: bytes
  bi_sum :: bytes
  bi_commit :: bytes

record runtime_build =
  rb_path :: bytes
  rb_version :: bytes
  rb_sum :: bytes
  rb_settings :: "(bytes \<times> bytes) list"

definition validCommit :: "bytes \<Rightarrow> bool" where
  "validCommit v \<longleftrightarrow>
     (length v = 40 \<or> length v = 64) \<and>
     list_all (\<lambda>r. \<not> ((r < 48 \<or> r > 57) \<and> (r < 97 \<or> r > 102))) (runes v)"

fun first_revision :: "(bytes \<times> bytes) list \<Rightarrow> bytes" where
  "first_revision [] = []"
| "first_revision ((key, v) # settings) =
     (if key = ''vcs.revision'' \<and> validCommit v then v else first_revision settings)"

definition resolve_build :: "bytes \<Rightarrow> runtime_build option \<Rightarrow> bytes \<Rightarrow> bytes \<Rightarrow> build_info" where
  "resolve_build command build injectedVersion injectedCommit =
     (let commit = (if validCommit injectedCommit then injectedCommit else []);
          info = \<lparr>bi_command = command, bi_module = Module,
                  bi_version = (if injectedVersion = [] then ''devel'' else injectedVersion),
                  bi_sum = [], bi_commit = commit\<rparr> in
      case build of
        None \<Rightarrow> info
      | Some b \<Rightarrow>
          if rb_path b \<noteq> Module then info
          else info
            \<lparr>bi_version := (if rb_version b \<noteq> [] \<and> rb_version b \<noteq> ''(devel)'' then rb_version b else bi_version info),
             bi_sum := (if has_prefix (rb_sum b) ''h1:'' then rb_sum b else []),
             bi_commit := (if commit = [] then first_revision (rb_settings b) else commit)\<rparr>)"

lemma first_revision_valid: "first_revision settings = [] \<or> validCommit (first_revision settings)"
  by (induction settings rule: first_revision.induct) auto

text \<open>What is reported: always a version, only a valid commit, and a module sum only of this module.\<close>

theorem reported_identity:
  "bi_module (resolve_build command build v c) = Module \<and> bi_version (resolve_build command build v c) \<noteq> [] \<and>
   bi_commit (resolve_build command build v c) \<in> insert [] (Collect validCommit) \<and>
   (bi_sum (resolve_build command build v c) = [] \<or>
    (\<exists>b. build = Some b \<and> rb_path b = Module \<and> bi_sum (resolve_build command build v c) = rb_sum b))"
  using first_revision_valid
  by (auto simp: resolve_build_def Let_def split: option.splits)

end
