(* ===== verification/Spec2Isabelle.thy ===== *)
theory Spec2Isabelle
  imports HostSamples HostSupportProofs HostArtifacts CorpusSamples SnapshotSamples ContentPolicy
    PublicationIdentity RevocationSamples TrustCheckpoint FormConformance LocalReferences Materialize
    DefinitionValidation SchemaSamples BuildInfo
begin

text \<open>
  Takoform, verified. The Go module describes deployable resources as \<^emph>\<open>Forms\<close>: a Form
  Definition is a JSON document with a desired-state schema, interfaces, constraints and
  fixtures; a Form Package carries one definition with its payload files under a content-addressed
  index. Packages are verified offline, compiled together with digest-pinned Interface and Binding
  Definitions into a closed Snapshot, and applied through a client of the stable Host API.
  Publishers sign packages and revocation checkpoints with Sigstore. This library models that
  program and proves what makes its parts correct.

  \<^bold>\<open>Conventions.\<close> A Go \<^verbatim>\<open>string\<close> or \<^verbatim>\<open>[]byte\<close> is the list of its bytes (\<open>bytes\<close>). A struct is
  a record whose fields carry a prefix, an absent optional string is the empty one, and \<open>option\<close> is
  used where the code tells nil and empty apart. Every failing return is a constructor of an error
  datatype; a function that only returns an error answers an \<open>option\<close> (\<open>None\<close> is success), one with
  a result answers a sum, and \<open>first_err\<close>, \<open>check_then\<close> and \<open>bind_res\<close> write out early returns.
  The texts of errors are kept only where the code itself looks at them. A Go map is the list of its
  entries in one iteration order; where the code ranges over a map, a theorem says that the result
  does not depend on the order, or the text says which error depends on it. Code that talks to the
  outside is an action of \<open>Effects\<close> over a world of its component. Integers are kept at their width
  where they can wrap: \<open>64 word\<close> for sequence numbers, \<open>wrap64\<close> for durations, the range of
  \<^verbatim>\<open>int64\<close> in \<open>parse_int64\<close>.

  \<^bold>\<open>The standard library\<close> (what the source uses of it). \<open>Prelude\<close> has the collections of
  simplification rules, result combinators, sorting by a strict order (locale \<open>total_less\<close>) and
  lemmas on lists and maps. \<open>GoStrings\<close>: \<^verbatim>\<open>strings\<close>, \<^verbatim>\<open>strconv\<close>, \<^verbatim>\<open>unicode/utf8\<close>.
  \<open>GoUnicode\<close>: the tables of \<^verbatim>\<open>unicode\<close>, a parameter under the laws of a locale.
  \<open>GoRegexp\<close>: anchored regular expressions with a derivative matcher proved against their language.
  \<open>GoValue\<close>: values of type \<^verbatim>\<open>any\<close> and when two of them differ in map order only. \<open>GoFloat\<close>:
  rounding to \<^verbatim>\<open>float64\<close>. \<open>JsonEncode\<close>, \<open>GoJson\<close>, \<open>JsonDecode\<close>, \<open>RawJson\<close>: \<^verbatim>\<open>encoding/json\<close> with
  its typed decoders and raw messages. \<open>Base32Codec\<close>, \<open>Sha256Hash\<close>: the two codecs.

  \<^bold>\<open>formpackage/\<close>.
  \<^item> \<open>StrictJson\<close> is the I-JSON parser of \<^verbatim>\<open>canonical.go\<close>; \<open>JsonGrammar\<close> states the language
    it accepts without mentioning the parser and proves equivalence, termination, distinct member
    names and the depth bound. \<open>JsonEncode\<close> proves that marshalling and parsing are inverse.
  \<^item> \<open>FormModel\<close> has the structs and epochs of \<^verbatim>\<open>model.go\<close>; \<open>SchemaLibrary\<close> the dispatch of
    documents to the schemas of \<^verbatim>\<open>schema.go\<close> and the FormRef checks; \<open>PublicationIdentity\<close> and
    \<open>StandardService\<close> the files of those names, with round trips and exact grammars.
  \<^item> \<open>FieldNames\<close> and \<open>ContentPolicy\<close> are \<^verbatim>\<open>policy.go\<close>: the walk accepts exactly the documents
    without a forbidden member that is not exempt, in every map order.
  \<^item> \<open>LocalReferences\<close>, \<open>SchemaProof\<close>, \<open>SchemaWork\<close> are the local references, the memoised
    closure proof and the two work estimates of \<^verbatim>\<open>schema.go\<close>. \<open>SchemaSoundness\<close> puts properties of
    nodes through the memoised walk; \<open>FixtureWork\<close> shows that both estimates end; \<open>SchemaMeaning\<close>
    says what an accepted proof means for instances, from the laws \<open>schema_laws\<close> of the Draft 2020-12
    keywords; \<open>SchemaSamples\<close> shows that they can hold.
  \<^item> \<open>ContractDefinitions\<close>, \<open>DefinitionModel\<close>, \<open>DefinitionValidation\<close> validate Interface, Binding
    and Form Definitions, constraints, fixtures and package indexes.
  \<^item> \<open>PackageFiles\<close>, \<open>PackageVerify\<close> are \<^verbatim>\<open>secure_open_unix.go\<close> and \<^verbatim>\<open>verify.go\<close>: the package
    verifier over an operating system (\<open>platform\<close>) whose every call may answer anything.
    \<open>PackageListing\<close> states what listing is accepted, \<open>PackageHandles\<close> that every descriptor is
    closed once (locale \<open>ledger\<close>, interpreted on a counting and on a silent observer),
    \<open>PackageClosure\<close> what a report promises, \<open>PackageStaging\<close> adds \<^verbatim>\<open>verify_fs.go\<close> and that no
    staging directory stays. \<open>FormConformance\<close> is \<^verbatim>\<open>conformance.go\<close>.
  \<^item> \<open>Revocation\<close> and \<open>RevocationChain\<close> are the revocation part of \<^verbatim>\<open>schema.go\<close> with the chain
    checks of \<^verbatim>\<open>trust/revocation.go\<close>: along a chain of pins answers never change.

  \<^bold>\<open>trust/\<close>. \<open>TrustBundle\<close> is \<^verbatim>\<open>policy.go\<close> and \<^verbatim>\<open>verify.go\<close>; \<open>TrustCheckpoint\<close> adds the signed
  checkpoints of \<^verbatim>\<open>revocation.go\<close>, states apart from the code what a valid policy, a verified bundle
  and its evidence are, and proves that exactly those bundles verify and what a capability authorizes.

  \<^bold>\<open>snapshot/\<close>. \<open>SnapshotModel\<close>, \<open>ContractGraph\<close>, \<open>SnapshotCompile\<close> are \<^verbatim>\<open>snapshot.go\<close> and
  \<^verbatim>\<open>contracts.go\<close> stage by stage. \<open>SnapshotGraph\<close> has the abstract specification, a closed graph of
  contracts without stages, orders or maps; \<open>SnapshotProofs\<close> proves that \<open>Compile\<close> refines it,
  \<open>SnapshotWire\<close> that the digest is always defined, \<open>SnapshotOrder\<close> that the order of the input does
  not matter, \<open>SnapshotDesired\<close> the accessors for desired documents, and \<open>Materialize\<close> the default
  materialization.

  \<^bold>\<open>hostclient/\<close>. \<open>HostErrors\<close>, \<open>HostTypes\<close>, \<open>HostWire\<close>, \<open>HostOperations\<close> are \<^verbatim>\<open>errors.go\<close>,
  \<^verbatim>\<open>types.go\<close> and the data of \<^verbatim>\<open>operations.go\<close>; \<open>HostClient\<close> is the transport of \<^verbatim>\<open>hostclient.go\<close>
  over a \<open>host\<close> that answers anything at any time, with the log of all exchanges in the world;
  \<open>HostAwait\<close> the polling loop; \<open>HostResources\<close>, \<open>HostSupport\<close>, \<open>HostArtifacts\<close> the calls of
  \<^verbatim>\<open>resources.go\<close>, \<^verbatim>\<open>support.go\<close> and \<^verbatim>\<open>artifacts.go\<close>. \<open>HostProofs\<close> has retries and the two
  theorems on awaiting (by its deadline on every host; with a result when the host finishes in time),
  \<open>HostLifecycle\<close> what the calls return and what an apply's error says about acceptance, \<open>HostEnvelopes\<close> the envelopes,
  hints and idempotency keys, \<open>HostSupportProofs\<close> the meaning of a support profile. \<open>HostArtifacts\<close>
  ends with what an upload sends.

  \<^bold>\<open>genericconformance/\<close>. \<open>CorpusFiles\<close> and \<open>CorpusVerify\<close> run the artifact corpus on the verifier
  and the compiler; \<open>CorpusProofs\<close> says when a report says passed, and that two of the runner's
  checks follow from properties of the compiler. \<open>BuildInfo\<close> is \<^verbatim>\<open>internal/buildinfo\<close>.

  The theories named \<open>Samples\<close> hold concrete inputs: the witnesses of theorems with hypotheses.
  \<open>ReferenceSamples\<close> compiles a graph with every kind of reference: a target Form, a provided
  Interface and an accepted Binding onto it.

  \<^bold>\<open>Fuel and bounds.\<close> The strict parser gets \<open>2 * n + 2\<close> steps for \<open>n\<close> bytes, and
  \<open>parse_enough_fuel\<close> shows that they never run out; the decoder's scanner likewise gets a multiple of
  the text's length. The closure proof refuses paths deeper than its own limit, so it needs no more
  fuel than the limit; the work estimates get one step more than that limit, and
  \<open>estimates_enough_fuel\<close> shows that this suffices once the proof has accepted. The contract
  annotation walk, materialization and polling terminate by a measure: references not yet followed,
  the size of the schema, the time left before the deadline. SHA-256 is the executable function, and
  no theorem assumes it free of collisions except where the statement says so.

  \<^bold>\<open>Parameters\<close> stand for code that is not in the repository: the RFC 8785 canonicalizer and the
  JSON Schema library (\<open>libs\<close>), RE2, semantic versions and the inline schema compiler
  (\<open>engines\<close>), the Unicode tables (\<open>unicode\<close>), \<^verbatim>\<open>net/url\<close>, the network and the clock (\<open>host\<close>), the
  file system and its staging calls (\<open>platform\<close>, \<open>staging\<close>, \<open>fsys\<close>, \<open>corpus_os\<close>), sigstore-go
  (\<open>sigstore\<close>) and the wording of errors (\<open>texts\<close>, \<open>says\<close>). What a theorem needs of them is a
  named hypothesis.

  \<^bold>\<open>Not modelled.\<close> The commands under \<^verbatim>\<open>cmd/\<close> parse flags and print what the packages above
  answer. \<^verbatim>\<open>secure_open_other.go\<close> replaces the secured opens by opens of a path on systems that are
  not Unix; the model follows the Unix build. Concurrent use of a client, HTTP connection handling and redirects are
  \<^verbatim>\<open>net/http\<close>'s. The JSON Schema files under \<^verbatim>\<open>spec/\<close>, the website and the JavaScript of the
  conformance corpus are not Go code.

  \<^bold>\<open>What modelling showed.\<close> Some lemmas state behaviour the code hardly means to have:
  \<open>version_order_cycle\<close> (the order of Forms is circular when a version exceeds 64 bits, so
  \<open>compile_order_independent\<close> and the probes of the corpus runner need versions that parse),
  \<open>integer_bounds_rounded\<close> (bounds are compared as floats), \<open>retry_after_wraps\<close> (a long hint wraps
  around), \<open>key_ignores_form_version\<close>, \<open>terminal_error_drops_request_id\<close>, \<open>raw_null_is_false\<close>,
  \<open>copy_drops_leading_dot\<close>, \<open>form_support_any_kind\<close> and \<open>untagged_branch_twice\<close> (materializing twice
  differs where a union branch has no constant tag). \<open>apply_reports_acceptance\<close> shows the two plain
  errors the client gives for a PUT the host accepted.
\<close>

end
